(* ===== verification/Prelude.thy ===== *)
theory Prelude
  imports Main "HOL-Library.Char_ord" "HOL-Library.List_Lexorder" "HOL-Library.Product_Lexorder"
begin

text \<open>
  What every component of the gateway shares: Go's error results, the string functions of the
  standard library the code calls, 64-bit integers and decimal text.  Strings are byte strings, as
  in Go (\<open>char\<close> is a byte, \<open>length\<close> counts bytes).
\<close>

named_theorems result_simps \<open>evaluation rules of the error-result combinators\<close>
named_theorems text_simps \<open>facts on trimming, prefixes and decimal text\<close>

subsection \<open>Names of the model's types\<close>

type_synonym ms = int \<comment> \<open>Unix milliseconds, \<open>time.Time.UnixMilli\<close>\<close>
type_synonym nanos = int \<comment> \<open>\<open>time.Duration\<close>, nanoseconds\<close>

abbreviation millisecond :: nanos where "millisecond \<equiv> 1000000"
abbreviation second :: nanos where "second \<equiv> 1000000000"
abbreviation minute :: nanos where "minute \<equiv> 60000000000"
abbreviation hour :: nanos where "hour \<equiv> 3600000000000"

text \<open>A \<open>time.Time\<close> is the nanoseconds since the epoch; \<open>UnixMilli\<close> rounds down.\<close>

definition unix_milli :: "nanos \<Rightarrow> ms" where
  "unix_milli t = t div millisecond"

lemma unix_milli_mono: "s \<le> t \<Longrightarrow> unix_milli s \<le> unix_milli t"
  by (simp add: unix_milli_def zdiv_mono1)

subsection \<open>Error results\<close>

text \<open>
  A Go function returning \<open>(T, error)\<close> is \<open>'e + 'a\<close>: \<open>Inl\<close> is a non-nil error.
  A function returning only \<open>error\<close> is \<open>'e option\<close>: \<open>None\<close> is nil.
\<close>

definition and_then :: "'e + 'a \<Rightarrow> ('a \<Rightarrow> 'e + 'b) \<Rightarrow> 'e + 'b" where
  "and_then r f = (case r of Inl e \<Rightarrow> Inl e | Inr x \<Rightarrow> f x)"

lemma and_then_simps [simp, result_simps]:
  "and_then (Inl e) f = Inl e" "and_then (Inr x) f = f x"
  by (simp_all add: and_then_def)

lemma and_then_eq_Inr [simp]:
  "and_then r f = Inr y \<longleftrightarrow> (\<exists>x. r = Inr x \<and> f x = Inr y)"
  by (cases r) auto

lemma and_then_eq_Inl:
  "and_then r f = Inl e \<longleftrightarrow> r = Inl e \<or> (\<exists>x. r = Inr x \<and> f x = Inl e)"
  by (cases r) auto

definition or_err :: "'e option \<Rightarrow> 'e option \<Rightarrow> 'e option" where
  "or_err a b = (case a of None \<Rightarrow> b | Some e \<Rightarrow> Some e)"

lemma or_err_simps [simp, result_simps]: "or_err None b = b" "or_err (Some e) b = Some e"
  by (simp_all add: or_err_def)

lemma or_err_None [simp]: "or_err a b = None \<longleftrightarrow> a = None \<and> b = None"
  by (cases a) auto

text \<open>\<open>if err := f(x); err != nil { return err }\<close> over a loop: the first error, in loop order.\<close>

fun first_error :: "('a \<Rightarrow> 'e option) \<Rightarrow> 'a list \<Rightarrow> 'e option" where
  "first_error f [] = None"
| "first_error f (x # xs) = or_err (f x) (first_error f xs)"

lemma first_error_None [simp]: "first_error f xs = None \<longleftrightarrow> (\<forall>x \<in> set xs. f x = None)"
  by (induction xs) auto

lemma first_error_Some:
  "first_error f xs = Some e \<Longrightarrow> \<exists>x \<in> set xs. f x = Some e"
  by (induction xs) (auto simp: or_err_def split: option.splits)

definition err_of :: "'e + 'a \<Rightarrow> 'e option" where
  "err_of r = (case r of Inl e \<Rightarrow> Some e | Inr _ \<Rightarrow> None)"

lemma err_of_simps [simp, result_simps]: "err_of (Inl e) = Some e" "err_of (Inr x) = None"
  by (simp_all add: err_of_def)

lemma err_of_None: "err_of r = None \<longleftrightarrow> (\<exists>x. r = Inr x)"
  by (cases r) auto

text \<open>\<open>index, x\<close> of a \<open>range\<close> loop.\<close>

definition indexed :: "'a list \<Rightarrow> (nat \<times> 'a) list" where
  "indexed xs = zip [0..<length xs] xs"

lemma snd_set_indexed: "snd ` set (indexed xs) = set xs"
proof -
  have "snd ` set (indexed xs) = set (map snd (indexed xs))" by simp
  then show ?thesis by (simp add: indexed_def)
qed

lemma indexed_all: "(\<forall>p \<in> set (indexed xs). P (snd p)) \<longleftrightarrow> (\<forall>x \<in> set xs. P x)"
  using snd_set_indexed [of xs] by (metis imageE imageI)

subsection \<open>64-bit integers\<close>

abbreviation max_int64 :: int where "max_int64 \<equiv> 9223372036854775807"
abbreviation min_int64 :: int where "min_int64 \<equiv> - 9223372036854775808"

text \<open>Two's complement wrap-around of \<open>int64\<close> arithmetic.\<close>

definition wrap64 :: "int \<Rightarrow> int" where
  "wrap64 x = (x + 9223372036854775808) mod 18446744073709551616 - 9223372036854775808"

lemma wrap64_id: "min_int64 \<le> x \<Longrightarrow> x \<le> max_int64 \<Longrightarrow> wrap64 x = x"
  by (simp add: wrap64_def)

lemma wrap64_range: "min_int64 \<le> wrap64 x \<and> wrap64 x \<le> max_int64"
proof -
  have "0 \<le> (x + 9223372036854775808) mod 18446744073709551616"
    and "(x + 9223372036854775808) mod 18446744073709551616 < (18446744073709551616::int)"
    by simp_all
  then show ?thesis unfolding wrap64_def by linarith
qed

subsection \<open>Strings\<close>

definition has_prefix :: "string \<Rightarrow> string \<Rightarrow> bool" where
  "has_prefix p s \<longleftrightarrow> take (length p) s = p"

definition has_suffix :: "string \<Rightarrow> string \<Rightarrow> bool" where
  "has_suffix p s \<longleftrightarrow> has_prefix (rev p) (rev s)"

definition trim_prefix :: "string \<Rightarrow> string \<Rightarrow> string" where
  "trim_prefix p s = (if has_prefix p s then drop (length p) s else s)"

definition trim_suffix :: "string \<Rightarrow> string \<Rightarrow> string" where
  "trim_suffix p s = (if has_suffix p s then take (length s - length p) s else s)"

definition contains_any :: "string \<Rightarrow> string \<Rightarrow> bool" where
  "contains_any s chars \<longleftrightarrow> list_ex (\<lambda>c. c \<in> set chars) s"

lemma has_prefix_append [simp]: "has_prefix p (p @ s)"
  by (simp add: has_prefix_def)

lemma has_prefix_Nil [simp]: "has_prefix [] s"
  by (simp add: has_prefix_def)

lemma has_prefixE: "has_prefix p s \<Longrightarrow> \<exists>t. s = p @ t"
  unfolding has_prefix_def by (metis append_take_drop_id)

lemma has_prefix_trans_append: "has_prefix p s \<Longrightarrow> has_prefix p (s @ t)"
  by (drule has_prefixE) auto

lemma trim_prefix_append [simp]: "trim_prefix p (p @ s) = s"
  by (simp add: trim_prefix_def)

lemma has_suffix_append [simp]: "has_suffix p (s @ p)"
  by (simp add: has_suffix_def)

lemma has_suffixE: "has_suffix p s \<Longrightarrow> \<exists>t. s = t @ p"
proof -
  assume "has_suffix p s"
  then obtain t where "rev s = rev p @ t" unfolding has_suffix_def by (auto dest: has_prefixE)
  then have "s = rev t @ p" by (metis rev_append rev_rev_ident)
  then show ?thesis by blast
qed

lemma trim_suffix_append [simp]: "trim_suffix p (s @ p) = s"
  by (simp add: trim_suffix_def)

lemma contains_any_append [simp]:
  "contains_any (s @ t) cs \<longleftrightarrow> contains_any s cs \<or> contains_any t cs"
  by (auto simp: contains_any_def)

lemma not_contains_any: "\<not> contains_any s cs \<longleftrightarrow> (\<forall>c \<in> set s. c \<notin> set cs)"
  by (auto simp: contains_any_def list_ex_iff)

text \<open>
  \<open>strings.TrimSpace\<close> removes Unicode white space at both ends of a UTF-8 string: the
  encodings of the white-space code points, each a whole UTF-8 sequence.
\<close>

definition space_runes :: "string list" where
  "space_runes =
     [[CHR 0x09], [CHR 0x0A], [CHR 0x0B], [CHR 0x0C], [CHR 0x0D], [CHR 0x20],
      [CHR 0xC2, CHR 0x85], [CHR 0xC2, CHR 0xA0], [CHR 0xE1, CHR 0x9A, CHR 0x80],
      [CHR 0xE2, CHR 0x80, CHR 0x80], [CHR 0xE2, CHR 0x80, CHR 0x81],
      [CHR 0xE2, CHR 0x80, CHR 0x82], [CHR 0xE2, CHR 0x80, CHR 0x83],
      [CHR 0xE2, CHR 0x80, CHR 0x84], [CHR 0xE2, CHR 0x80, CHR 0x85],
      [CHR 0xE2, CHR 0x80, CHR 0x86], [CHR 0xE2, CHR 0x80, CHR 0x87],
      [CHR 0xE2, CHR 0x80, CHR 0x88], [CHR 0xE2, CHR 0x80, CHR 0x89],
      [CHR 0xE2, CHR 0x80, CHR 0x8A], [CHR 0xE2, CHR 0x80, CHR 0xA8],
      [CHR 0xE2, CHR 0x80, CHR 0xA9], [CHR 0xE2, CHR 0x80, CHR 0xAF],
      [CHR 0xE2, CHR 0x81, CHR 0x9F], [CHR 0xE3, CHR 0x80, CHR 0x80]]"

fun leading_of :: "string list \<Rightarrow> string \<Rightarrow> string option" where
  "leading_of [] s = None"
| "leading_of (w # ws) s = (if w \<noteq> [] \<and> has_prefix w s then Some w else leading_of ws s)"

lemma leading_of_Some:
  "leading_of ws s = Some w \<Longrightarrow> w \<in> set ws \<and> w \<noteq> [] \<and> has_prefix w s"
  by (induction ws) (auto split: if_splits)

lemma leading_of_None:
  "leading_of ws s = None \<longleftrightarrow> (\<forall>w \<in> set ws. w \<noteq> [] \<longrightarrow> \<not> has_prefix w s)"
  by (induction ws) auto

lemma leading_of_shorter:
  assumes "leading_of ws s = Some w"
  shows "length (drop (length w) s) < length s"
proof -
  from assms have "w \<noteq> []" "has_prefix w s" by (auto dest: leading_of_Some)
  then obtain t where "s = w @ t" by (auto dest: has_prefixE)
  with \<open>w \<noteq> []\<close> show ?thesis by simp
qed

function trim_leading :: "string list \<Rightarrow> string \<Rightarrow> string" where
  "trim_leading ws s =
     (case leading_of ws s of None \<Rightarrow> s | Some w \<Rightarrow> trim_leading ws (drop (length w) s))"
  by pat_completeness auto
termination
  by (relation "measure (\<lambda>(ws, s). length s)") (use leading_of_shorter in force)+

declare trim_leading.simps [simp del]

definition trim_space :: "string \<Rightarrow> string" where
  "trim_space s =
     rev (trim_leading (map rev space_runes) (rev (trim_leading space_runes s)))"

lemma trim_leading_None: "leading_of ws (trim_leading ws s) = None"
proof (induction ws s rule: trim_leading.induct)
  case (1 ws s)
  show ?case
  proof (cases "leading_of ws s")
    case None
    then show ?thesis by (simp add: trim_leading.simps [of ws s])
  next
    case (Some w)
    with "1" show ?thesis by (simp add: trim_leading.simps [of ws s])
  qed
qed

lemma trim_leading_id: "leading_of ws s = None \<Longrightarrow> trim_leading ws s = s"
  by (simp add: trim_leading.simps)

lemma trim_leading_suffix: "\<exists>p. s = p @ trim_leading ws s"
proof (induction ws s rule: trim_leading.induct)
  case (1 ws s)
  show ?case
  proof (cases "leading_of ws s")
    case None
    then show ?thesis by (simp add: trim_leading.simps [of ws s])
  next
    case (Some w)
    with "1" obtain p where p: "drop (length w) s = p @ trim_leading ws (drop (length w) s)"
      by blast
    from Some have "has_prefix w s" by (auto dest: leading_of_Some)
    then have "s = w @ drop (length w) s" unfolding has_prefix_def by (metis append_take_drop_id)
    with p have "s = (w @ p) @ trim_leading ws (drop (length w) s)" by simp
    moreover from Some have "trim_leading ws s = trim_leading ws (drop (length w) s)"
      by (subst trim_leading.simps) simp
    ultimately show ?thesis by metis
  qed
qed

lemma length_trim_leading: "length (trim_leading ws s) \<le> length s"
  using trim_leading_suffix [of s ws] by (metis le_add2 length_append)

lemma length_trim_space: "length (trim_space s) \<le> length s"
  unfolding trim_space_def
  by (metis length_rev length_trim_leading le_trans)

lemma leading_of_prefix_None:
  assumes "leading_of ws (s @ t) = None"
  shows "leading_of ws s = None"
  using assms by (auto simp: leading_of_None has_prefix_trans_append)

lemma trim_space_prefix_of_left: "\<exists>t. trim_leading space_runes s = trim_space s @ t"
proof -
  obtain p where "rev (trim_leading space_runes s)
      = p @ trim_leading (map rev space_runes) (rev (trim_leading space_runes s))"
    using trim_leading_suffix by blast
  then have "trim_leading space_runes s = trim_space s @ rev p"
    unfolding trim_space_def by (metis rev_append rev_rev_ident)
  then show ?thesis by blast
qed

lemma trim_space_idem [simp, text_simps]: "trim_space (trim_space s) = trim_space s"
proof -
  obtain t where "trim_leading space_runes s = trim_space s @ t"
    using trim_space_prefix_of_left by blast
  then have "leading_of space_runes (trim_space s @ t) = None"
    using trim_leading_None by metis
  then have l: "trim_leading space_runes (trim_space s) = trim_space s"
    using trim_leading_id leading_of_prefix_None by blast
  have "rev (trim_space s)
      = trim_leading (map rev space_runes) (rev (trim_leading space_runes s))"
    by (simp add: trim_space_def)
  then have "leading_of (map rev space_runes) (rev (trim_space s)) = None"
    by (simp only: trim_leading_None)
  then have "trim_leading (map rev space_runes) (rev (trim_space s)) = rev (trim_space s)"
    by (rule trim_leading_id)
  with l show ?thesis by (simp add: trim_space_def [of "trim_space s"])
qed

lemma trim_space_Nil [simp]: "trim_space [] = []"
  by (simp add: trim_space_def trim_leading_id leading_of_None space_runes_def has_prefix_def)

lemma set_trim_leading: "set (trim_leading ws s) \<subseteq> set s"
  using trim_leading_suffix [of s ws] by (metis set_append sup_ge2)

lemma trim_space_subset: "set (trim_space s) \<subseteq> set s"
  unfolding trim_space_def by (metis set_rev set_trim_leading subset_trans)

subsection \<open>Decimal text\<close>

definition digit_char :: "nat \<Rightarrow> char" where
  "digit_char d = char_of (48 + d)"

definition digit_val :: "char \<Rightarrow> nat option" where
  "digit_val c = (let n = of_char c :: nat in if 48 \<le> n \<and> n \<le> 57 then Some (n - 48) else None)"

fun show_nat :: "nat \<Rightarrow> string" where
  "show_nat n =
     (if n < 10 then [digit_char n] else show_nat (n div 10) @ [digit_char (n mod 10)])"

declare show_nat.simps [simp del]

text \<open>\<open>%d\<close> and \<open>strconv.FormatInt(n, 10)\<close>.\<close>

definition show_int :: "int \<Rightarrow> string" where
  "show_int n = (if n < 0 then CHR ''-'' # show_nat (nat (- n)) else show_nat (nat n))"

fun digits_val :: "nat \<Rightarrow> string \<Rightarrow> nat option" where
  "digits_val acc [] = Some acc"
| "digits_val acc (c # cs) =
     (case digit_val c of None \<Rightarrow> None | Some d \<Rightarrow> digits_val (10 * acc + d) cs)"

definition parse_nat :: "string \<Rightarrow> nat option" where
  "parse_nat s = (if s = [] then None else digits_val 0 s)"

text \<open>\<open>strconv.ParseInt(s, 10, 64)\<close>: optional sign, decimal digits, range checked.\<close>

definition parse_int64 :: "string \<Rightarrow> int option" where
  "parse_int64 s =
     (case s of
        [] \<Rightarrow> None
      | c # cs \<Rightarrow>
          (if c = CHR ''-'' then
             (case parse_nat cs of
                None \<Rightarrow> None
              | Some n \<Rightarrow> if int n \<le> - min_int64 then Some (- int n) else None)
           else
             (case parse_nat (if c = CHR ''+'' then cs else s) of
                None \<Rightarrow> None
              | Some n \<Rightarrow> if int n \<le> max_int64 then Some (int n) else None)))"

lemma digit_val_char [simp]: "d < 10 \<Longrightarrow> digit_val (digit_char d) = Some d"
  by (simp add: digit_val_def digit_char_def of_char_of)

lemma digits_val_append:
  "digits_val acc (s @ t) =
     (case digits_val acc s of None \<Rightarrow> None | Some n \<Rightarrow> digits_val n t)"
  by (induction s arbitrary: acc) (auto split: option.splits)

lemma show_nat_nonempty [simp]: "show_nat n \<noteq> []"
  by (subst show_nat.simps) simp

lemma digits_val_show [simp]: "digits_val 0 (show_nat n) = Some n"
proof (induction n rule: show_nat.induct)
  case (1 n)
  show ?case
  proof (cases "n < 10")
    case True
    then show ?thesis by (simp add: show_nat.simps [of n])
  next
    case False
    with "1" show ?thesis by (simp add: show_nat.simps [of n] digits_val_append)
  qed
qed

lemma parse_show_nat [simp, text_simps]: "parse_nat (show_nat n) = Some n"
  by (simp add: parse_nat_def)

lemma digit_val_Some_range: "digit_val c = Some d \<Longrightarrow> d < 10"
  by (auto simp: digit_val_def Let_def split: if_splits)

lemma show_nat_digits: "c \<in> set (show_nat n) \<Longrightarrow> \<exists>d. digit_val c = Some d"
proof (induction n rule: show_nat.induct)
  case (1 n)
  then show ?case
    by (cases "n < 10") (auto simp: show_nat.simps [of n])
qed

lemma not_digit_sign [simp]:
  "digit_val (CHR ''-'') = None" "digit_val (CHR ''+'') = None" "digit_val (CHR '':'') = None"
  by (simp_all add: digit_val_def)

lemma show_nat_no_colon: "CHR '':'' \<notin> set (show_nat n)"
  using show_nat_digits by fastforce

lemma show_int_no_colon: "CHR '':'' \<notin> set (show_int n)"
  by (simp add: show_int_def show_nat_no_colon)

lemma hd_show_nat: "show_nat n = c # cs \<Longrightarrow> c \<noteq> CHR ''-'' \<and> c \<noteq> CHR ''+''"
  using show_nat_digits [of c n] by (auto)

lemma parse_show_int [text_simps]:
  assumes "min_int64 \<le> n" "n \<le> max_int64"
  shows "parse_int64 (show_int n) = Some n"
proof (cases "n < 0")
  case True
  with assms show ?thesis by (simp add: show_int_def parse_int64_def)
next
  case False
  obtain c cs where s: "show_nat (nat n) = c # cs" by (cases "show_nat (nat n)") auto
  with hd_show_nat have "c \<noteq> CHR ''-'' \<and> c \<noteq> CHR ''+''" by blast
  moreover have "parse_nat (c # cs) = Some (nat n)" using s parse_show_nat by metis
  ultimately show ?thesis
    using False assms by (simp add: show_int_def parse_int64_def s)
qed

lemma parse_int64_range: "parse_int64 s = Some n \<Longrightarrow> min_int64 \<le> n \<and> n \<le> max_int64"
  by (auto simp: parse_int64_def split: list.splits if_splits option.splits)

subsection \<open>Splitting\<close>

text \<open>\<open>strings.Split(s, sep)\<close> and \<open>bytes.Split\<close> for a one-byte separator.\<close>

fun split_on :: "char \<Rightarrow> string \<Rightarrow> string list" where
  "split_on sep [] = [[]]"
| "split_on sep (c # cs) =
     (if c = sep then [] # split_on sep cs
      else (case split_on sep cs of [] \<Rightarrow> [[c]] | p # ps \<Rightarrow> (c # p) # ps))"

lemma split_on_nonempty [simp]: "split_on sep s \<noteq> []"
  by (induction s) (auto split: list.splits)

lemma split_on_no_sep: "sep \<notin> set s \<Longrightarrow> split_on sep s = [s]"
  by (induction s) auto

lemma split_on_append:
  "sep \<notin> set s \<Longrightarrow> split_on sep (s @ sep # t) = s # split_on sep t"
  by (induction s) auto

fun join_with :: "string \<Rightarrow> string list \<Rightarrow> string" where
  "join_with sep [] = []"
| "join_with sep [p] = p"
| "join_with sep (p # q # ps) = p @ sep @ join_with sep (q # ps)"

lemma join_split: "join_with [sep] (split_on sep s) = s"
proof (induction s)
  case (Cons c cs)
  obtain p ps where s: "split_on sep cs = p # ps" by (cases "split_on sep cs") auto
  with Cons show ?case by (cases ps) auto
qed simp

lemma split_on_parts: "p \<in> set (split_on sep s) \<Longrightarrow> sep \<notin> set p"
  by (induction s arbitrary: p) (auto split: list.splits if_splits)

end
