(* ===== verification/Strict_JSON.thy ===== *)
theory Strict_JSON
  imports Prelude
begin

text \<open>
  \<open>internal/strictjson\<close>: the duplicate-key and nesting-depth check every untrusted JSON body
  passes.  A body is the list of its JSON lexemes (the bytes between white space); \<open>LBad\<close> is
  a place where the scanner of \<open>encoding/json\<close> reports an error and the empty list is a body
  of white space.  \<open>token\<close> and \<open>more\<close> are \<open>json.Decoder.Token\<close> and \<open>More\<close>,
  with their state machine over commas and colons; \<open>consume_value\<close> and its two loops are the
  recursion of \<open>validate.go\<close>.  The main result: a body is accepted exactly when it is the
  text of one JSON value that nests no deeper than the limit and repeats no key in any object.
\<close>

subsection \<open>JSON values and lexemes\<close>

datatype json =
    JNull
  | JBool bool
  | JNum string \<comment> \<open>the literal, as \<open>json.Number\<close> keeps it\<close>
  | JStr string
  | JArr "json list"
  | JObj "(string \<times> json) list" \<comment> \<open>members in document order\<close>

datatype lexeme =
    LBraceOpen | LBraceClose | LBrackOpen | LBrackClose | LColon | LComma
  | LStr string | LNum string | LBool bool | LNull | LBad

definition commas :: "lexeme list list \<Rightarrow> lexeme list" where
  "commas ps = (case ps of [] \<Rightarrow> [] | q # qs \<Rightarrow> q @ concat (map ((#) LComma) qs))"

fun lex :: "json \<Rightarrow> lexeme list" where
  "lex JNull = [LNull]"
| "lex (JBool b) = [LBool b]"
| "lex (JNum n) = [LNum n]"
| "lex (JStr s) = [LStr s]"
| "lex (JArr xs) = LBrackOpen # commas (map lex xs) @ [LBrackClose]"
| "lex (JObj ms) =
     LBraceOpen # commas (map (\<lambda>m. LStr (fst m) # LColon # lex (snd m)) ms) @ [LBraceClose]"

subsection \<open>The token decoder of encoding/json\<close>

datatype token_state =
    TopValue | ArrayStart | ArrayValue | ArrayComma
  | ObjectStart | ObjectKey | ObjectColon | ObjectValue | ObjectComma

datatype token_kind = OpenObject | CloseObject | OpenArray | CloseArray

datatype go_token = Delim token_kind | StringTok string | ScalarTok

datatype token_error = TokenEOF | TokenSyntax

text \<open>The unread lexemes, the token state and the stack of the enclosing states.\<close>

type_synonym decoder = "lexeme list \<times> token_state \<times> token_state list"

definition value_allowed :: "token_state \<Rightarrow> bool" where
  "value_allowed st \<longleftrightarrow> st \<in> {TopValue, ArrayStart, ArrayValue, ObjectValue}"

fun value_end :: "token_state \<Rightarrow> token_state" where
  "value_end ArrayStart = ArrayComma"
| "value_end ArrayValue = ArrayComma"
| "value_end ObjectValue = ObjectComma"
| "value_end st = st"

definition pop_state :: "lexeme list \<Rightarrow> token_state list \<Rightarrow> token_kind \<Rightarrow> token_error + decoder \<times> go_token"
  where
  "pop_state ls k d =
     (case k of [] \<Rightarrow> Inl TokenSyntax | st # k' \<Rightarrow> Inr ((ls, value_end st, k'), Delim d))"

definition scalar :: "decoder \<Rightarrow> go_token \<Rightarrow> token_error + decoder \<times> go_token" where
  "scalar d t =
     (case d of (ls, st, k) \<Rightarrow>
        if value_allowed st then Inr ((ls, value_end st, k), t) else Inl TokenSyntax)"

primrec token_at ::
  "lexeme list \<Rightarrow> token_state \<Rightarrow> token_state list \<Rightarrow> token_error + decoder \<times> go_token"
where
  "token_at [] st k = Inl TokenEOF"
| "token_at (l # ls) st k =
     (case l of
        LBrackOpen \<Rightarrow>
          if value_allowed st then Inr ((ls, ArrayStart, st # k), Delim OpenArray)
          else Inl TokenSyntax
      | LBrackClose \<Rightarrow>
          if st = ArrayStart \<or> st = ArrayComma then pop_state ls k CloseArray
          else Inl TokenSyntax
      | LBraceOpen \<Rightarrow>
          if value_allowed st then Inr ((ls, ObjectStart, st # k), Delim OpenObject)
          else Inl TokenSyntax
      | LBraceClose \<Rightarrow>
          if st = ObjectStart \<or> st = ObjectComma then pop_state ls k CloseObject
          else Inl TokenSyntax
      | LColon \<Rightarrow> if st = ObjectColon then token_at ls ObjectValue k else Inl TokenSyntax
      | LComma \<Rightarrow>
          if st = ArrayComma then token_at ls ArrayValue k
          else if st = ObjectComma then token_at ls ObjectKey k
          else Inl TokenSyntax
      | LStr s \<Rightarrow>
          if st = ObjectStart \<or> st = ObjectKey then Inr ((ls, ObjectColon, k), StringTok s)
          else scalar (ls, st, k) (StringTok s)
      | LNum _ \<Rightarrow> scalar (ls, st, k) ScalarTok
      | LBool _ \<Rightarrow> scalar (ls, st, k) ScalarTok
      | LNull \<Rightarrow> scalar (ls, st, k) ScalarTok
      | LBad \<Rightarrow> Inl TokenSyntax)"

definition token :: "decoder \<Rightarrow> token_error + decoder \<times> go_token" where
  "token d = (case d of (ls, st, k) \<Rightarrow> token_at ls st k)"

definition more :: "decoder \<Rightarrow> bool" where
  "more d = (case fst d of [] \<Rightarrow> False | l # _ \<Rightarrow> l \<noteq> LBrackClose \<and> l \<noteq> LBraceClose)"

subsection \<open>validate.go\<close>

datatype json_error =
    NotValidJSON \<comment> \<open>"request body is not valid JSON"\<close>
  | TooDeep \<comment> \<open>"request body exceeds maximum JSON nesting depth"\<close>
  | DuplicateKeys \<comment> \<open>"request body contains duplicate object keys"\<close>
  | NotOneValue \<comment> \<open>"request body must contain exactly one JSON value"\<close>

definition expect_close :: "token_kind \<Rightarrow> decoder \<Rightarrow> json_error + decoder" where
  "expect_close c d =
     (case token d of
        Inr (d', Delim c') \<Rightarrow> if c' = c then Inr d' else Inl NotValidJSON
      | _ \<Rightarrow> Inl NotValidJSON)"

text \<open>
  \<open>consumeValue\<close> with its two loops: \<open>AtValue\<close> is a call of the function,
  \<open>InMembers seen\<close> a turn of the loop over an object (with the keys seen so far) and
  \<open>InElements\<close> a turn of the loop over an array.  The first argument is fuel, spent by
  each call and each turn; \<open>None\<close> is running out of it, which never happens
  with two steps per lexeme.
\<close>

datatype consume_at = AtValue | InMembers "string list" | InElements

primrec consume_value ::
  "nat \<Rightarrow> nat \<Rightarrow> nat \<Rightarrow> consume_at \<Rightarrow> decoder \<Rightarrow> (json_error + decoder) option"
where
  "consume_value 0 mx depth at d = None"
| "consume_value (Suc n) mx depth at d =
     (case at of
        AtValue \<Rightarrow>
          (case token d of
             Inl _ \<Rightarrow> Some (Inl NotValidJSON)
           | Inr (d1, t) \<Rightarrow>
               (case t of
                  Delim c \<Rightarrow>
                    if depth \<ge> mx then Some (Inl TooDeep)
                    else
                      (case c of
                         OpenObject \<Rightarrow>
                           map_option (\<lambda>r. and_then r (expect_close CloseObject))
                             (consume_value n mx depth (InMembers []) d1)
                       | OpenArray \<Rightarrow>
                           map_option (\<lambda>r. and_then r (expect_close CloseArray))
                             (consume_value n mx depth InElements d1)
                       | _ \<Rightarrow> Some (Inl NotValidJSON))
                | _ \<Rightarrow> Some (Inr d1)))
      | InMembers seen \<Rightarrow>
          if \<not> more d then Some (Inr d)
          else
            (case token d of
               Inl _ \<Rightarrow> Some (Inl NotValidJSON)
             | Inr (d1, t) \<Rightarrow>
                 (case t of
                    StringTok key \<Rightarrow>
                      if key \<in> set seen then Some (Inl DuplicateKeys)
                      else
                        (case consume_value n mx (depth + 1) AtValue d1 of
                           None \<Rightarrow> None
                         | Some (Inl e) \<Rightarrow> Some (Inl e)
                         | Some (Inr d2) \<Rightarrow> consume_value n mx depth (InMembers (key # seen)) d2)
                  | _ \<Rightarrow> Some (Inl NotValidJSON)))
      | InElements \<Rightarrow>
          if \<not> more d then Some (Inr d)
          else
            (case consume_value n mx (depth + 1) AtValue d of
               None \<Rightarrow> None
             | Some (Inl e) \<Rightarrow> Some (Inl e)
             | Some (Inr d2) \<Rightarrow> consume_value n mx depth InElements d2))"

definition finish_validate :: "decoder \<Rightarrow> json_error option" where
  "finish_validate d = (if token d = Inl TokenEOF then None else Some NotOneValue)"

definition validate_fuel :: "nat \<Rightarrow> lexeme list \<Rightarrow> nat \<Rightarrow> json_error option option" where
  "validate_fuel n body mx =
     (case consume_value n mx 0 AtValue (body, TopValue, []) of
        None \<Rightarrow> None
      | Some (Inl e) \<Rightarrow> Some (Some e)
      | Some (Inr d) \<Rightarrow> Some (finish_validate d))"

text \<open>\<open>strictjson.Validate\<close>; \<open>None\<close> is nil.\<close>

definition validate :: "lexeme list \<Rightarrow> nat \<Rightarrow> json_error option" where
  "validate body mx =
     (case validate_fuel (Suc (2 * length body)) body mx of
        None \<Rightarrow> Some NotValidJSON
      | Some r \<Rightarrow> r)"

subsection \<open>Termination\<close>

lemma token_at_shrinks:
  "token_at ls st k = Inr ((ls', st', k'), t) \<Longrightarrow> length ls' < length ls"
proof (induction ls arbitrary: st)
  case (Cons l ls)
  show ?case
  proof (cases "l = LColon \<or> l = LComma")
    case True
    with Cons have "length ls' < length ls" by (auto split: if_splits)
    then show ?thesis by simp
  next
    case False
    with Cons.prems show ?thesis
      by (cases l) (auto simp: pop_state_def scalar_def split: if_splits list.splits)
  qed
qed simp

lemma token_shrinks: "token d = Inr (d', t) \<Longrightarrow> length (fst d') < length (fst d)"
  by (cases d; cases d') (auto simp: token_def dest: token_at_shrinks)

lemma expect_close_shrinks: "expect_close c d = Inr d' \<Longrightarrow> length (fst d') < length (fst d)"
  by (auto simp: expect_close_def split: sum.splits prod.splits go_token.splits if_splits
      dest: token_shrinks)

text \<open>
  Two units of fuel per lexeme are enough; a value consumes at least one lexeme.
\<close>

definition turn_cost :: "consume_at \<Rightarrow> nat" where
  "turn_cost at = (if at = InElements then 1 else 0)"

definition consumed :: "consume_at \<Rightarrow> decoder \<Rightarrow> json_error + decoder \<Rightarrow> bool" where
  "consumed at d r \<longleftrightarrow>
     (\<forall>d'. r = Inr d' \<longrightarrow> length (fst d') \<le> length (fst d)
        \<and> (at = AtValue \<longrightarrow> length (fst d') < length (fst d)))"

lemma consume_returns:
  "2 * length (fst d) + turn_cost at < n \<Longrightarrow>
     \<exists>r. consume_value n mx depth at d = Some r \<and> consumed at d r"
proof (induction n arbitrary: depth at d)
  case (Suc n)
  have sub: "\<exists>r. consume_value n mx depth' at' d1 = Some r
      \<and> (\<forall>d'. r = Inr d' \<longrightarrow> length (fst d') < length (fst d))"
    if "length (fst d1) < length (fst d)" for d1 at' depth'
  proof -
    from that Suc.prems have "2 * length (fst d1) + turn_cost at' < n"
      by (simp add: turn_cost_def split: if_splits)
    from Suc.IH [OF this] that show ?thesis by (fastforce simp: consumed_def)
  qed
  show ?case
  proof (cases at)
    case AtValue
    have "\<exists>r. map_option (\<lambda>r. and_then r (expect_close c)) (consume_value n mx depth at' d1) = Some r
        \<and> (\<forall>d'. r = Inr d' \<longrightarrow> length (fst d') < length (fst d))"
      if tk: "token d = Inr (d1, t)" for c at' d1 t
    proof -
      obtain r where "consume_value n mx depth at' d1 = Some r"
        "\<forall>d'. r = Inr d' \<longrightarrow> length (fst d') < length (fst d)"
        using sub [OF token_shrinks [OF tk]] by blast
      then show ?thesis by (cases r) (fastforce dest: expect_close_shrinks)+
    qed
    note close = this
    show ?thesis
    proof (cases "token d")
      case (Inr p)
      obtain d1 t where tk: "token d = Inr (d1, t)" using Inr by (cases p) auto
      note sh = token_shrinks [OF tk]
      show ?thesis
      proof (cases t)
        case (Delim c)
        from close [OF tk, of CloseObject "InMembers []"] close [OF tk, of CloseArray InElements]
        show ?thesis by (cases c) (auto simp: AtValue tk Delim consumed_def)
      qed (use sh in \<open>auto simp: AtValue tk consumed_def\<close>)
    qed (simp add: AtValue consumed_def)
  next
    case (InMembers seen)
    show ?thesis
    proof (cases "\<exists>d1 key. token d = Inr (d1, StringTok key)")
      case True
      then obtain d1 key where tk: "token d = Inr (d1, StringTok key)" by blast
      obtain r where r: "consume_value n mx (depth + 1) AtValue d1 = Some r"
        "\<forall>d'. r = Inr d' \<longrightarrow> length (fst d') < length (fst d)"
        using sub [OF token_shrinks [OF tk]] by blast
      show ?thesis
      proof (cases r)
        case (Inr d2)
        with r(2) have "length (fst d2) < length (fst d)" by simp
        from sub [OF this, of depth "InMembers (key # seen)"] r Inr tk InMembers
        show ?thesis by (fastforce simp: consumed_def)
      qed (use InMembers tk r in \<open>auto simp: consumed_def\<close>)
    next
      case False
      then show ?thesis
        by (cases "token d"; cases "snd (projr (token d))")
          (auto simp: InMembers consumed_def split: prod.split go_token.split)
    qed
  next
    case InElements
    with Suc.prems have "2 * length (fst d) + turn_cost AtValue < n" by (simp add: turn_cost_def)
    from Suc.IH [OF this] obtain r where r: "consume_value n mx (depth + 1) AtValue d = Some r"
      "consumed AtValue d r" by blast
    show ?thesis
    proof (cases r)
      case (Inr d2)
      with r(2) have "length (fst d2) < length (fst d)" by (simp add: consumed_def)
      from sub [OF this, of depth InElements] r Inr InElements
      show ?thesis by (fastforce simp: consumed_def)
    qed (use InElements r in \<open>auto simp: consumed_def\<close>)
  qed
qed simp


subsection \<open>Which values are accepted\<close>

fun jdepth :: "json \<Rightarrow> nat" where
  "jdepth (JArr xs) = Suc (foldr max (map jdepth xs) 0)"
| "jdepth (JObj ms) = Suc (foldr max (map (\<lambda>m. jdepth (snd m)) ms) 0)"
| "jdepth _ = 0"

fun unique_keys :: "json \<Rightarrow> bool" where
  "unique_keys (JArr xs) = (\<forall>x \<in> set xs. unique_keys x)"
| "unique_keys (JObj ms) = (distinct (map fst ms) \<and> (\<forall>m \<in> set ms. unique_keys (snd m)))"
| "unique_keys _ = True"

text \<open>What the recursion checks below a depth.\<close>

fun fits :: "nat \<Rightarrow> nat \<Rightarrow> json \<Rightarrow> bool" where
  "fits mx depth (JArr xs) = (depth < mx \<and> (\<forall>x \<in> set xs. fits mx (depth + 1) x))"
| "fits mx depth (JObj ms) =
     (depth < mx \<and> distinct (map fst ms) \<and> (\<forall>m \<in> set ms. fits mx (depth + 1) (snd m)))"
| "fits mx depth _ = True"

lemma foldr_max_less:
  "d + foldr max xs 0 < b \<longleftrightarrow> d < b \<and> (\<forall>x \<in> set xs. d + x < (b::nat))"
  by (induction xs) (auto simp: max_def)

lemma fits_iff: "depth \<le> mx \<Longrightarrow> fits mx depth v \<longleftrightarrow> depth + jdepth v \<le> mx \<and> unique_keys v"
proof (induction mx depth v rule: fits.induct)
  case (1 mx depth xs)
  show ?case
  proof (cases "depth < mx")
    case True
    have "(\<forall>x \<in> set xs. fits mx (depth + 1) x)
        \<longleftrightarrow> (\<forall>x \<in> set xs. depth + 1 + jdepth x \<le> mx \<and> unique_keys x)"
      using "1.IH" True by auto
    with True show ?thesis by (auto simp: Suc_le_eq foldr_max_less)
  qed simp
next
  case (2 mx depth ms)
  show ?case
  proof (cases "depth < mx")
    case True
    have "(\<forall>m \<in> set ms. fits mx (depth + 1) (snd m))
        \<longleftrightarrow> (\<forall>m \<in> set ms. depth + 1 + jdepth (snd m) \<le> mx \<and> unique_keys (snd m))"
      using "2.IH" True by auto
    with True show ?thesis by (auto simp: Suc_le_eq foldr_max_less)
  qed simp
qed simp_all


subsection \<open>An accepted body is the text of a value\<close>

definition member_text :: "string \<times> json \<Rightarrow> lexeme list" where
  "member_text m = LStr (fst m) # LColon # lex (snd m)"

definition after_commas :: "lexeme list list \<Rightarrow> lexeme list" where
  "after_commas ps = concat (map ((#) LComma) ps)"

lemma after_commas_simps [simp]:
  "after_commas [] = []" "after_commas (p # ps) = LComma # p @ after_commas ps"
  by (simp_all add: after_commas_def)

lemma commas_simps [simp]: "commas [] = []" "commas (p # ps) = p @ after_commas ps"
  by (simp_all add: commas_def after_commas_def)

lemma lex_JObj: "lex (JObj ms) = LBraceOpen # commas (map member_text ms) @ [LBraceClose]"
  by (simp add: member_text_def [abs_def])

lemma value_allowed_simps [simp]:
  "value_allowed TopValue" "value_allowed ArrayStart" "value_allowed ArrayValue"
  "value_allowed ObjectValue" "\<not> value_allowed ArrayComma" "\<not> value_allowed ObjectStart"
  "\<not> value_allowed ObjectKey" "\<not> value_allowed ObjectColon" "\<not> value_allowed ObjectComma"
  by (simp_all add: value_allowed_def)

lemma value_allowed_not_start [simp]:
  "value_allowed st \<Longrightarrow> st \<noteq> ObjectStart" "value_allowed st \<Longrightarrow> st \<noteq> ObjectKey"
  "value_allowed st \<Longrightarrow> st \<noteq> ObjectColon" "value_allowed st \<Longrightarrow> st \<noteq> ArrayComma"
  "value_allowed st \<Longrightarrow> st \<noteq> ObjectComma"
  by (auto simp: value_allowed_def)

lemma token_Cons: "token (l # ls, st, k) = token_at (l # ls) st k"
  by (simp add: token_def)

text \<open>A separator the state expects is skipped before the token is read.\<close>

lemma token_skips:
  "token (LColon # ls, ObjectColon, k) = token (ls, ObjectValue, k)"
  "token (LComma # ls, ArrayComma, k) = token (ls, ArrayValue, k)"
  "token (LComma # ls, ObjectComma, k) = token (ls, ObjectKey, k)"
  by (simp_all add: token_def)

lemma token_at_colon:
  "token (ls, ObjectColon, k) = Inr (d, t) \<Longrightarrow> \<exists>ls'. ls = LColon # ls'"
  by (cases ls; cases "hd ls") (auto simp: token_def scalar_def)

lemma token_at_comma:
  "token (ls, ArrayComma, k) = Inr (d, t) \<Longrightarrow>
     (\<exists>ls'. ls = LComma # ls') \<or> t = Delim CloseArray"
  by (cases ls; cases "hd ls") (auto simp: token_def scalar_def pop_state_def split: list.splits)

lemma consume_skips:
  "consume_value n mx depth AtValue (LColon # ls, ObjectColon, k)
     = consume_value n mx depth AtValue (ls, ObjectValue, k)"
  "consume_value n mx depth AtValue (LComma # ls, ArrayComma, k)
     = consume_value n mx depth AtValue (ls, ArrayValue, k)"
  by (cases n; simp add: token_skips)+

lemma consume_at_colon:
  assumes "consume_value n mx depth AtValue (ls, ObjectColon, k) = Some (Inr d)"
  obtains ls' where "ls = LColon # ls'"
    "consume_value n mx depth AtValue (ls', ObjectValue, k) = Some (Inr d)"
proof -
  from assms have "\<exists>d' t. token (ls, ObjectColon, k) = Inr (d', t)"
    by (cases n) (auto split: sum.splits)
  then obtain ls' where "ls = LColon # ls'" using token_at_colon by blast
  with assms that show thesis by (simp add: consume_skips)
qed

lemma consume_at_comma:
  assumes "consume_value n mx depth AtValue (ls, ArrayComma, k) = Some (Inr d)"
  obtains ls' where "ls = LComma # ls'"
    "consume_value n mx depth AtValue (ls', ArrayValue, k) = Some (Inr d)"
proof -
  from assms obtain d' t where t: "token (ls, ArrayComma, k) = Inr (d', t)"
    by (cases n) (auto split: sum.splits)
  have "t \<noteq> Delim CloseArray"
    using assms t by (cases n) (auto split: if_splits)
  with token_at_comma [OF t] obtain ls' where "ls = LComma # ls'" by blast
  with assms that show thesis by (simp add: consume_skips)
qed

lemma token_key:
  "token (ls, ObjectStart, k) = Inr (d, StringTok s) \<Longrightarrow>
     \<exists>ls'. ls = LStr s # ls' \<and> d = (ls', ObjectColon, k)"
  "token (ls, ObjectComma, k) = Inr (d, StringTok s) \<Longrightarrow>
     \<exists>ls'. ls = LComma # LStr s # ls' \<and> d = (ls', ObjectColon, k)"
proof -
  have key: "\<exists>ls'. ls = LStr s # ls' \<and> d = (ls', ObjectColon, k)"
    if "token (ls, st, k) = Inr (d, StringTok s)" "st = ObjectStart \<or> st = ObjectKey" for st ls
    using that
    by (cases ls; cases "hd ls")
      (auto simp: token_def scalar_def pop_state_def split: list.splits if_splits)
  then show "token (ls, ObjectStart, k) = Inr (d, StringTok s) \<Longrightarrow>
      \<exists>ls'. ls = LStr s # ls' \<and> d = (ls', ObjectColon, k)" by blast
  assume t: "token (ls, ObjectComma, k) = Inr (d, StringTok s)"
  then obtain ls1 where "ls = LComma # ls1"
    by (cases ls; cases "hd ls")
      (auto simp: token_def scalar_def pop_state_def split: list.splits if_splits)
  with t key [of ls1 ObjectKey] show "\<exists>ls'. ls = LComma # LStr s # ls' \<and> d = (ls', ObjectColon, k)"
    by (simp add: token_skips)
qed

lemma close_object:
  assumes "expect_close CloseObject (ls, st, s0 # k) = Inr d" "\<not> more (ls, st, s0 # k)"
  shows "\<exists>ls'. ls = LBraceClose # ls' \<and> d = (ls', value_end s0, k)"
  using assms
  by (cases ls; cases "hd ls")
    (auto simp: expect_close_def more_def token_def pop_state_def split: if_splits)

lemma close_array:
  assumes "expect_close CloseArray (ls, st, s0 # k) = Inr d" "\<not> more (ls, st, s0 # k)"
  shows "\<exists>ls'. ls = LBrackClose # ls' \<and> d = (ls', value_end s0, k)"
  using assms
  by (cases ls; cases "hd ls")
    (auto simp: expect_close_def more_def token_def pop_state_def split: if_splits)


definition in_container :: "token_state \<Rightarrow> lexeme list list \<Rightarrow> lexeme list" where
  "in_container st ps =
     (if st = ObjectStart \<or> st = ArrayStart then commas ps else after_commas ps)"

definition members_ok :: "nat \<Rightarrow> nat \<Rightarrow> string list \<Rightarrow> (string \<times> json) list \<Rightarrow> bool" where
  "members_ok mx depth seen ms \<longleftrightarrow>
     distinct (map fst ms) \<and> set (map fst ms) \<inter> set seen = {}
     \<and> (\<forall>m \<in> set ms. fits mx (depth + 1) (snd m))"

lemma members_step:
  assumes "consume_value (Suc n) mx depth (InMembers seen) (ls, st, k) = Some (Inr d)"
    and "st = ObjectStart \<or> st = ObjectComma" "more (ls, st, k)"
  obtains key ls1 d2 where
    "ls = in_container st [LStr key # LColon # ls1]" "key \<notin> set seen"
    "consume_value n mx (depth + 1) AtValue (ls1, ObjectValue, k) = Some (Inr d2)"
    "consume_value n mx depth (InMembers (key # seen)) d2 = Some (Inr d)"
proof -
  from assms obtain d1 key where tk: "token (ls, st, k) = Inr (d1, StringTok key)"
    and key: "key \<notin> set seen"
    by (auto split: sum.splits go_token.splits if_splits)
  with assms obtain d2 where c: "consume_value n mx (depth + 1) AtValue d1 = Some (Inr d2)"
      "consume_value n mx depth (InMembers (key # seen)) d2 = Some (Inr d)"
    by (auto split: option.splits sum.splits)
  from tk assms(2) obtain ls0 where ls0: "ls = in_container st [LStr key # ls0]"
      "d1 = (ls0, ObjectColon, k)"
    by (auto simp: in_container_def dest: token_key)
  with c(1) obtain ls1 where "ls0 = LColon # ls1"
      "consume_value n mx (depth + 1) AtValue (ls1, ObjectValue, k) = Some (Inr d2)"
    by (auto elim: consume_at_colon)
  with that ls0 key c(2) show thesis by blast
qed

lemma in_container_Cons:
  "in_container st (p # ps) = in_container st [p] @ after_commas ps"
  by (simp add: in_container_def)

lemma in_container_app: "in_container st [p @ r] = in_container st [p] @ r"
  by (simp add: in_container_def)

lemma consume_sound_members:
  assumes IH: "\<And>depth ls st k d. consume_value n mx depth AtValue (ls, st, k) = Some (Inr d) \<Longrightarrow>
      value_allowed st \<Longrightarrow> \<exists>v r. ls = lex v @ r \<and> d = (r, value_end st, k) \<and> fits mx depth v"
    and IHm: "\<And>depth seen ls d. consume_value n mx depth (InMembers seen) (ls, ObjectComma, k) = Some (Inr d)
      \<Longrightarrow> \<exists>ms r st'. ls = after_commas (map member_text ms) @ r \<and> d = (r, st', k) \<and> \<not> more d
        \<and> members_ok mx depth seen ms"
    and run: "consume_value (Suc n) mx depth (InMembers seen) (ls, st, k) = Some (Inr d)"
    and st: "st = ObjectStart \<or> st = ObjectComma"
  shows "\<exists>ms r st'. ls = in_container st (map member_text ms) @ r \<and> d = (r, st', k) \<and> \<not> more d
      \<and> members_ok mx depth seen ms"
proof (cases "more (ls, st, k)")
  case False
  with run have "d = (ls, st, k)" by simp
  with False st show ?thesis
    by (intro exI [of _ "[] :: (string \<times> json) list"] exI [of _ ls])
      (auto simp: in_container_def members_ok_def)
next
  case True
  from run st True obtain key ls1 d2 where ls: "ls = in_container st [LStr key # LColon # ls1]"
    and key: "key \<notin> set seen"
    and c1: "consume_value n mx (depth + 1) AtValue (ls1, ObjectValue, k) = Some (Inr d2)"
    and c2: "consume_value n mx depth (InMembers (key # seen)) d2 = Some (Inr d)"
    by (rule members_step)
  from IH [OF c1] obtain v r1 where v: "ls1 = lex v @ r1" "d2 = (r1, ObjectComma, k)"
    "fits mx (depth + 1) v" by auto
  from c2 v(2) IHm obtain ms r st' where ms: "r1 = after_commas (map member_text ms) @ r"
    "d = (r, st', k)" "\<not> more d" "members_ok mx depth (key # seen) ms" by blast
  have "ls = in_container st (map member_text ((key, v) # ms)) @ r"
    using ls v(1) ms(1) by (simp add: in_container_def member_text_def)
  moreover have "members_ok mx depth seen ((key, v) # ms)"
    using ms(4) key v(3) by (auto simp: members_ok_def)
  ultimately show ?thesis using ms(2,3) by blast
qed

lemma consume_sound_elements:
  assumes IH: "\<And>depth ls st k d. consume_value n mx depth AtValue (ls, st, k) = Some (Inr d) \<Longrightarrow>
      value_allowed st \<Longrightarrow> \<exists>v r. ls = lex v @ r \<and> d = (r, value_end st, k) \<and> fits mx depth v"
    and IHe: "\<And>depth ls d. consume_value n mx depth InElements (ls, ArrayComma, k) = Some (Inr d)
      \<Longrightarrow> \<exists>vs r st'. ls = after_commas (map lex vs) @ r \<and> d = (r, st', k) \<and> \<not> more d
        \<and> (\<forall>v \<in> set vs. fits mx (depth + 1) v)"
    and run: "consume_value (Suc n) mx depth InElements (ls, st, k) = Some (Inr d)"
    and st: "st = ArrayStart \<or> st = ArrayComma"
  shows "\<exists>vs r st'. ls = in_container st (map lex vs) @ r \<and> d = (r, st', k) \<and> \<not> more d
      \<and> (\<forall>v \<in> set vs. fits mx (depth + 1) v)"
proof (cases "more (ls, st, k)")
  case False
  with run have "d = (ls, st, k)" by simp
  with False st show ?thesis
    by (intro exI [of _ "[] :: json list"] exI [of _ ls]) (auto simp: in_container_def)
next
  case True
  with run obtain d2 where c1: "consume_value n mx (depth + 1) AtValue (ls, st, k) = Some (Inr d2)"
    and c2: "consume_value n mx depth InElements d2 = Some (Inr d)"
    by (auto split: option.splits sum.splits)
  have "\<exists>v r1. ls = in_container st [lex v] @ r1 \<and> d2 = (r1, ArrayComma, k) \<and> fits mx (depth + 1) v"
  proof (cases "st = ArrayStart")
    case True
    with IH [OF c1] show ?thesis by (auto simp: in_container_def)
  next
    case False
    with st c1 obtain ls' where "ls = LComma # ls'"
      "consume_value n mx (depth + 1) AtValue (ls', ArrayValue, k) = Some (Inr d2)"
      by (auto elim: consume_at_comma)
    with IH [OF this(2)] False st show ?thesis by (auto simp: in_container_def)
  qed
  then obtain v r1 where v: "ls = in_container st [lex v] @ r1" "d2 = (r1, ArrayComma, k)"
    "fits mx (depth + 1) v" by blast
  from c2 v(2) IHe obtain vs r st' where vs: "r1 = after_commas (map lex vs) @ r"
    "d = (r, st', k)" "\<not> more d" "\<forall>v \<in> set vs. fits mx (depth + 1) v" by blast
  have "ls = in_container st (map lex (v # vs)) @ r"
    using v(1) vs(1) by (simp add: in_container_def)
  with v(3) vs show ?thesis by (metis set_ConsD)
qed

lemma consume_sound:
  "(\<forall>depth ls st k d. consume_value n mx depth AtValue (ls, st, k) = Some (Inr d) \<longrightarrow>
      value_allowed st \<longrightarrow> (\<exists>v r. ls = lex v @ r \<and> d = (r, value_end st, k) \<and> fits mx depth v))
   \<and> (\<forall>depth seen ls st k d. consume_value n mx depth (InMembers seen) (ls, st, k) = Some (Inr d) \<longrightarrow>
      st = ObjectStart \<or> st = ObjectComma \<longrightarrow>
      (\<exists>ms r st'. ls = in_container st (map member_text ms) @ r \<and> d = (r, st', k) \<and> \<not> more d
        \<and> members_ok mx depth seen ms))
   \<and> (\<forall>depth ls st k d. consume_value n mx depth InElements (ls, st, k) = Some (Inr d) \<longrightarrow>
      st = ArrayStart \<or> st = ArrayComma \<longrightarrow>
      (\<exists>vs r st'. ls = in_container st (map lex vs) @ r \<and> d = (r, st', k) \<and> \<not> more d
        \<and> (\<forall>v \<in> set vs. fits mx (depth + 1) v)))"
proof (induction n)
  case (Suc n)
  note value_IH = conjunct1 [OF Suc.IH, rule_format]
    and member_IH = conjunct1 [OF conjunct2 [OF Suc.IH], rule_format]
    and element_IH = conjunct2 [OF conjunct2 [OF Suc.IH], rule_format]
  have members: "\<exists>ms r st'. ls = in_container st (map member_text ms) @ r \<and> d = (r, st', k)
      \<and> \<not> more d \<and> members_ok mx depth seen ms"
    if "consume_value (Suc n) mx depth (InMembers seen) (ls, st, k) = Some (Inr d)"
      "st = ObjectStart \<or> st = ObjectComma" for depth seen ls st k d
    using consume_sound_members [OF value_IH _ that] member_IH [of _ _ _ ObjectComma k]
    by (simp add: in_container_def)
  have elements: "\<exists>vs r st'. ls = in_container st (map lex vs) @ r \<and> d = (r, st', k) \<and> \<not> more d
      \<and> (\<forall>v \<in> set vs. fits mx (depth + 1) v)"
    if "consume_value (Suc n) mx depth InElements (ls, st, k) = Some (Inr d)"
      "st = ArrayStart \<or> st = ArrayComma" for depth ls st k d
    using consume_sound_elements [OF value_IH _ that] element_IH [of _ _ ArrayComma k]
    by (simp add: in_container_def)
  have "\<exists>v r. ls = lex v @ r \<and> d = (r, value_end st, k) \<and> fits mx depth v"
    if run: "consume_value (Suc n) mx depth AtValue (ls, st, k) = Some (Inr d)" and st: "value_allowed st"
    for depth ls st k d
  proof -
    from run obtain l ls0 where ls: "ls = l # ls0" by (cases ls) (auto simp: token_def)
    show ?thesis
    proof (cases l)
      case LBraceOpen
      with run ls st obtain d1 where dm: "\<not> mx \<le> depth"
        "consume_value n mx depth (InMembers []) (ls0, ObjectStart, st # k) = Some (Inr d1)"
        "expect_close CloseObject d1 = Inr d"
        by (auto simp: token_def split: if_splits)
      from member_IH [OF dm(2)] obtain ms r st' where ms: "ls0 = commas (map member_text ms) @ r"
        "d1 = (r, st', st # k)" "\<not> more d1" "members_ok mx depth [] ms"
        by (auto simp: in_container_def)
      with dm(3) close_object obtain r' where "r = LBraceClose # r'" "d = (r', value_end st, k)"
        by blast
      with ls LBraceOpen ms dm(1) show ?thesis
        by (intro exI [of _ "JObj ms"]) (simp add: lex_JObj members_ok_def del: lex.simps)
    next
      case LBrackOpen
      with run ls st obtain d1 where de: "\<not> mx \<le> depth"
        "consume_value n mx depth InElements (ls0, ArrayStart, st # k) = Some (Inr d1)"
        "expect_close CloseArray d1 = Inr d"
        by (auto simp: token_def split: if_splits)
      from element_IH [OF de(2)] obtain vs r st' where vs: "ls0 = commas (map lex vs) @ r"
        "d1 = (r, st', st # k)" "\<not> more d1" "\<forall>v \<in> set vs. fits mx (depth + 1) v"
        by (auto simp: in_container_def)
      with de(3) close_array obtain r' where "r = LBrackClose # r'" "d = (r', value_end st, k)"
        by blast
      with ls LBrackOpen vs de(1) show ?thesis
        by (intro exI [of _ "JArr vs"]) simp
    next
      case (LStr x)
      with run ls st show ?thesis
        by (intro exI [of _ "JStr x"]) (auto simp: token_def scalar_def)
    next
      case (LNum x)
      with run ls st show ?thesis
        by (intro exI [of _ "JNum x"]) (auto simp: token_def scalar_def)
    next
      case (LBool x)
      with run ls st show ?thesis
        by (intro exI [of _ "JBool x"]) (auto simp: token_def scalar_def)
    next
      case LNull
      with run ls st show ?thesis
        by (intro exI [of _ JNull]) (auto simp: token_def scalar_def)
    qed (use run ls st in \<open>auto simp: token_def pop_state_def split: list.splits if_splits\<close>)
  qed
  with members elements show ?case by blast
qed simp


subsection \<open>The text of a fitting value is accepted\<close>

lemma more_simps [simp]:
  "\<not> more (LBraceClose # r, st, k)" "\<not> more (LBrackClose # r, st, k)"
  "more (LComma # r, st, k)" "more (LStr s # r, st, k)"
  by (simp_all add: more_def)

lemma lex_head: "\<exists>l r. lex v = l # r \<and> l \<noteq> LBrackClose \<and> l \<noteq> LBraceClose"
  by (cases v) auto

lemma more_lex [simp]: "more (lex v @ r, st, k)"
  using lex_head [of v] by (auto simp: more_def)

lemma token_key_read:
  "token (LStr s # ls, ObjectStart, k) = Inr ((ls, ObjectColon, k), StringTok s)"
  "token (LComma # LStr s # ls, ObjectComma, k) = Inr ((ls, ObjectColon, k), StringTok s)"
  by (simp_all add: token_def)

lemma close_reads:
  "st = ObjectStart \<or> st = ObjectComma \<Longrightarrow>
     expect_close CloseObject (LBraceClose # r, st, s0 # k) = Inr (r, value_end s0, k)"
  "st = ArrayStart \<or> st = ArrayComma \<Longrightarrow>
     expect_close CloseArray (LBrackClose # r, st, s0 # k) = Inr (r, value_end s0, k)"
  by (auto simp: expect_close_def token_def pop_state_def)

lemma consume_complete:
  "(\<forall>depth v st k r. fits mx depth v \<longrightarrow> value_allowed st \<longrightarrow> 2 * length (lex v) < n \<longrightarrow>
      consume_value n mx depth AtValue (lex v @ r, st, k) = Some (Inr (r, value_end st, k)))
   \<and> (\<forall>depth seen ms st k r. members_ok mx depth seen ms \<longrightarrow> st = ObjectStart \<or> st = ObjectComma \<longrightarrow>
      2 * length (in_container st (map member_text ms)) < n \<longrightarrow>
      consume_value n mx depth (InMembers seen)
        (in_container st (map member_text ms) @ LBraceClose # r, st, k)
        = Some (Inr (LBraceClose # r, if ms = [] then st else ObjectComma, k)))
   \<and> (\<forall>depth vs st k r. (\<forall>v \<in> set vs. fits mx (depth + 1) v) \<longrightarrow> st = ArrayStart \<or> st = ArrayComma \<longrightarrow>
      2 * length (in_container st (map lex vs)) + 1 < n \<longrightarrow>
      consume_value n mx depth InElements
        (in_container st (map lex vs) @ LBrackClose # r, st, k)
        = Some (Inr (LBrackClose # r, if vs = [] then st else ArrayComma, k)))"
proof (induction n)
  case (Suc n)
  note value_IH = conjunct1 [OF Suc.IH, rule_format]
    and member_IH = conjunct1 [OF conjunct2 [OF Suc.IH], rule_format]
    and element_IH = conjunct2 [OF conjunct2 [OF Suc.IH], rule_format]
  have "consume_value (Suc n) mx depth AtValue (lex v @ r, st, k) = Some (Inr (r, value_end st, k))"
    if v: "fits mx depth v" "value_allowed st" "2 * length (lex v) < Suc n" for depth v st k r
  proof (cases v)
    case (JArr xs)
    with v element_IH [of xs depth ArrayStart r "st # k"] show ?thesis
      by (auto simp: token_def in_container_def close_reads)
  next
    case (JObj ms)
    with v member_IH [of depth "[]" ms ObjectStart r "st # k"] show ?thesis
      by (auto simp: token_def in_container_def close_reads lex_JObj members_ok_def
          simp del: lex.simps)
  qed (use v in \<open>simp_all add: token_def scalar_def\<close>)
  moreover have "consume_value (Suc n) mx depth (InMembers seen)
        (in_container st (map member_text ms) @ LBraceClose # r, st, k)
        = Some (Inr (LBraceClose # r, if ms = [] then st else ObjectComma, k))"
    if ms: "members_ok mx depth seen ms" "st = ObjectStart \<or> st = ObjectComma"
      "2 * length (in_container st (map member_text ms)) < Suc n" for depth seen ms st k r
  proof (cases ms)
    case Nil
    with ms show ?thesis by (auto simp: in_container_def)
  next
    case (Cons m ms')
    let ?rest = "after_commas (map member_text ms') @ LBraceClose # r"
    have ok: "fst m \<notin> set seen" "fits mx (depth + 1) (snd m)" "members_ok mx depth (fst m # seen) ms'"
      using ms(1) Cons by (auto simp: members_ok_def)
    have "2 * length (lex (snd m)) < n" "2 * length (in_container ObjectComma (map member_text ms')) < n"
      using ms(2,3) Cons by (auto simp: in_container_def member_text_def)
    with ok member_IH [of depth "fst m # seen" ms' ObjectComma r k]
    have "consume_value n mx (depth + 1) AtValue (LColon # lex (snd m) @ ?rest, ObjectColon, k)
          = Some (Inr (?rest, ObjectComma, k))"
        "consume_value n mx depth (InMembers (fst m # seen)) (?rest, ObjectComma, k)
          = Some (Inr (LBraceClose # r, ObjectComma, k))"
      using value_IH [of "depth + 1" "snd m" ObjectValue ?rest k]
      by (auto simp: consume_skips in_container_def)
    with Cons ok(1) ms(2) show ?thesis
      by (auto simp: in_container_def member_text_def token_key_read)
  qed
  moreover have "consume_value (Suc n) mx depth InElements
        (in_container st (map lex vs) @ LBrackClose # r, st, k)
        = Some (Inr (LBrackClose # r, if vs = [] then st else ArrayComma, k))"
    if vs: "\<forall>v \<in> set vs. fits mx (depth + 1) v" "st = ArrayStart \<or> st = ArrayComma"
      "2 * length (in_container st (map lex vs)) + 1 < Suc n" for depth vs st k r
  proof (cases vs)
    case Nil
    with vs show ?thesis by (auto simp: in_container_def)
  next
    case (Cons v vs')
    let ?rest = "after_commas (map lex vs') @ LBrackClose # r"
    obtain l t where lt: "lex v = l # t" using lex_head by blast
    have len: "2 * length (lex v) < n" "2 * length (in_container ArrayComma (map lex vs')) + 1 < n"
      using vs(2,3) Cons lt by (auto simp: in_container_def)
    have "consume_value n mx (depth + 1) AtValue (in_container st [lex v] @ ?rest, st, k)
          = Some (Inr (?rest, ArrayComma, k))"
      using vs(1,2) Cons len value_IH [of "depth + 1" v _ ?rest k]
      by (auto simp: consume_skips in_container_def)
    moreover have "consume_value n mx depth InElements (?rest, ArrayComma, k)
          = Some (Inr (LBrackClose # r, ArrayComma, k))"
      using vs(1) Cons len element_IH [of vs' depth ArrayComma r k] by (auto simp: in_container_def)
    moreover have "more (in_container st [lex v] @ ?rest, st, k)"
      using vs(2) by (auto simp: in_container_def)
    ultimately show ?thesis using Cons vs(2) by (auto simp: in_container_def)
  qed
  ultimately show ?case by blast
qed simp

lemma validate_returns:
  "validate_fuel (Suc (2 * length body)) body mx \<noteq> None"
  using consume_returns [of "(body, TopValue, [])" AtValue "Suc (2 * length body)" mx 0]
  by (auto simp: validate_fuel_def turn_cost_def split: sum.split)

lemma finish_validate_None:
  "finish_validate (ls, TopValue, []) = None \<longleftrightarrow> ls = []"
  by (cases ls; cases "hd ls") (auto simp: finish_validate_def token_def scalar_def pop_state_def)

lemma validate_accepts_iff:
  "validate body mx = None \<longleftrightarrow> (\<exists>v. body = lex v \<and> jdepth v \<le> mx \<and> unique_keys v)"
proof -
  let ?n = "Suc (2 * length body)"
  have "validate body mx = None \<longleftrightarrow>
      (\<exists>d. consume_value ?n mx 0 AtValue (body, TopValue, []) = Some (Inr d) \<and> finish_validate d = None)"
    by (auto simp: validate_def validate_fuel_def split: option.split sum.split)
  also have "\<dots> \<longleftrightarrow> (\<exists>v. body = lex v \<and> fits mx 0 v)"
  proof
    assume "\<exists>d. consume_value ?n mx 0 AtValue (body, TopValue, []) = Some (Inr d)
        \<and> finish_validate d = None"
    then obtain d where d: "consume_value ?n mx 0 AtValue (body, TopValue, []) = Some (Inr d)"
      "finish_validate d = None" by blast
    with conjunct1 [OF consume_sound, rule_format, OF d(1)] obtain v r where
      "body = lex v @ r" "d = (r, TopValue, [])" "fits mx 0 v" by auto
    with d(2) show "\<exists>v. body = lex v \<and> fits mx 0 v" by (auto simp: finish_validate_None)
  next
    assume "\<exists>v. body = lex v \<and> fits mx 0 v"
    then obtain v where v: "body = lex v" "fits mx 0 v" by blast
    have "consume_value ?n mx 0 AtValue (lex v @ [], TopValue, []) = Some (Inr ([], TopValue, []))"
      using conjunct1 [OF consume_complete, rule_format, of mx 0 v TopValue ?n "[]" "[]"] v by simp
    with v show "\<exists>d. consume_value ?n mx 0 AtValue (body, TopValue, []) = Some (Inr d)
        \<and> finish_validate d = None" by (auto simp: finish_validate_None)
  qed
  finally show ?thesis by (simp add: fits_iff)
qed


text \<open>More fuel never changes a result.\<close>

lemma consume_more_fuel:
  "consume_value n mx depth at d = Some r \<Longrightarrow> consume_value (Suc n) mx depth at d = Some r"
proof (induction n arbitrary: depth at d r)
  case (Suc n)
  define f where "f = consume_value (Suc n) mx"
  define g where "g = consume_value n mx"
  have mono: "f depth' at' d' = Some r'" if "g depth' at' d' = Some r'" for depth' at' d' r'
    using Suc.IH that by (simp add: f_def g_def)
  note run = Suc.prems [unfolded consume_value.simps(2) [of n], folded g_def]
  show ?case
    unfolding consume_value.simps(2) [of "Suc n"] f_def [symmetric]
    using run
    by (cases at)
      (auto simp del: consume_value.simps dest!: mono
        split: sum.splits go_token.splits token_kind.splits option.splits if_splits)
qed simp

lemma validate_fuel_mono:
  "validate_fuel n body mx = Some r \<Longrightarrow> validate_fuel (n + k) body mx = Some r"
proof (induction k)
  case (Suc k)
  then have "validate_fuel (n + k) body mx = Some r" by simp
  then show ?case
    by (auto simp: validate_fuel_def simp del: consume_value.simps
        split: option.splits sum.splits dest: consume_more_fuel)
qed simp

subsection \<open>Unmarshalling\<close>

text \<open>
  \<open>json.Unmarshal\<close> of a body into the value it denotes; objects keep their members, and a
  map lookup sees the last member of a name.
\<close>

datatype parse_mode = ParseValue | ParseElements | ParseMembers

primrec parse_at :: "nat \<Rightarrow> parse_mode \<Rightarrow> lexeme list \<Rightarrow> (json \<times> lexeme list) option" where
  "parse_at 0 p ls = None"
| "parse_at (Suc n) p ls =
     (case p of
        ParseValue \<Rightarrow>
          (case ls of
             [] \<Rightarrow> None
           | l # r \<Rightarrow>
               (case l of
                  LNull \<Rightarrow> Some (JNull, r)
                | LBool b \<Rightarrow> Some (JBool b, r)
                | LNum x \<Rightarrow> Some (JNum x, r)
                | LStr x \<Rightarrow> Some (JStr x, r)
                | LBrackOpen \<Rightarrow>
                    if take 1 r = [LBrackClose] then Some (JArr [], tl r) else parse_at n ParseElements r
                | LBraceOpen \<Rightarrow>
                    if take 1 r = [LBraceClose] then Some (JObj [], tl r) else parse_at n ParseMembers r
                | _ \<Rightarrow> None))
      | ParseElements \<Rightarrow>
          (case parse_at n ParseValue ls of
             Some (v, l # r) \<Rightarrow>
               if l = LBrackClose then Some (JArr [v], r)
               else if l = LComma then
                 (case parse_at n ParseElements r of
                    Some (JArr vs, r') \<Rightarrow> Some (JArr (v # vs), r')
                  | _ \<Rightarrow> None)
               else None
           | _ \<Rightarrow> None)
      | ParseMembers \<Rightarrow>
          (case ls of
             LStr key # LColon # ls' \<Rightarrow>
               (case parse_at n ParseValue ls' of
                  Some (v, l # r) \<Rightarrow>
                    if l = LBraceClose then Some (JObj [(key, v)], r)
                    else if l = LComma then
                      (case parse_at n ParseMembers r of
                         Some (JObj ms, r') \<Rightarrow> Some (JObj ((key, v) # ms), r')
                       | _ \<Rightarrow> None)
                    else None
                | _ \<Rightarrow> None)
           | _ \<Rightarrow> None))"

definition unmarshal :: "lexeme list \<Rightarrow> json option" where
  "unmarshal body =
     (case parse_at (Suc (2 * length body)) ParseValue body of Some (v, []) \<Rightarrow> Some v | _ \<Rightarrow> None)"

text \<open>A map lookup in an unmarshalled object: the last member of that name.\<close>

definition member_of :: "(string \<times> json) list \<Rightarrow> string \<Rightarrow> json option" where
  "member_of ms key = map_of (rev ms) key"

lemma parse_complete:
  "(\<forall>v r. 2 * length (lex v) < n \<longrightarrow> parse_at n ParseValue (lex v @ r) = Some (v, r))
   \<and> (\<forall>v vs r. 2 * length (commas (map lex (v # vs))) + 1 < n \<longrightarrow>
        parse_at n ParseElements (commas (map lex (v # vs)) @ LBrackClose # r) = Some (JArr (v # vs), r))
   \<and> (\<forall>m ms r. 2 * length (commas (map member_text (m # ms))) < n \<longrightarrow>
        parse_at n ParseMembers (commas (map member_text (m # ms)) @ LBraceClose # r)
          = Some (JObj (m # ms), r))"
proof (induction n)
  case (Suc n)
  note value_IH = conjunct1 [OF Suc.IH, rule_format]
    and element_IH = conjunct1 [OF conjunct2 [OF Suc.IH], rule_format]
    and member_IH = conjunct2 [OF conjunct2 [OF Suc.IH], rule_format]
  have "parse_at (Suc n) ParseValue (lex v @ r) = Some (v, r)" if "2 * length (lex v) < Suc n" for v r
  proof (cases v)
    case (JArr xs)
    show ?thesis
    proof (cases xs)
      case (Cons x xs')
      obtain l t where "lex x = l # t" "l \<noteq> LBrackClose" using lex_head by blast
      with that JArr Cons element_IH [of x xs' r] show ?thesis by simp
    qed (simp add: JArr)
  next
    case (JObj ms)
    show ?thesis
    proof (cases ms)
      case (Cons m ms')
      with that JObj member_IH [of m ms' r] show ?thesis
        by (simp add: lex_JObj member_text_def del: lex.simps)
    qed (simp add: JObj)
  qed simp_all
  moreover have "parse_at (Suc n) ParseElements (commas (map lex (v # vs)) @ LBrackClose # r)
      = Some (JArr (v # vs), r)"
    if "2 * length (commas (map lex (v # vs))) + 1 < Suc n" for v vs r
  proof (cases vs)
    case Nil
    with that value_IH [of v "LBrackClose # r"] show ?thesis by simp
  next
    case (Cons v' vs')
    with that value_IH [of v "after_commas (map lex vs) @ LBrackClose # r"] element_IH [of v' vs' r]
    show ?thesis by simp
  qed
  moreover have "parse_at (Suc n) ParseMembers (commas (map member_text (m # ms)) @ LBraceClose # r)
      = Some (JObj (m # ms), r)"
    if "2 * length (commas (map member_text (m # ms))) < Suc n" for m ms r
  proof (cases ms)
    case Nil
    with that value_IH [of "snd m" "LBraceClose # r"] show ?thesis by (simp add: member_text_def)
  next
    case (Cons m' ms')
    with that value_IH [of "snd m" "after_commas (map member_text ms) @ LBraceClose # r"]
      member_IH [of m' ms' r]
    show ?thesis by (simp add: member_text_def)
  qed
  ultimately show ?case by blast
qed simp

lemma unmarshal_lex [simp]: "unmarshal (lex v) = Some v"
  using conjunct1 [OF parse_complete, rule_format, of v "Suc (2 * length (lex v))" "[]"]
  by (simp add: unmarshal_def)

lemma lex_inject: "lex v = lex w \<longleftrightarrow> v = w"
  by (metis option.inject unmarshal_lex)

lemma validate_unmarshal:
  "validate body mx = None \<Longrightarrow>
     \<exists>v. unmarshal body = Some v \<and> body = lex v \<and> jdepth v \<le> mx \<and> unique_keys v"
  by (auto simp: validate_accepts_iff)


subsection \<open>Properties\<close>

text \<open>
  C7: \<open>strictjson.Validate\<close> returns nil exactly for the bodies that are one JSON value whose
  containers nest at most \<open>maxDepth\<close> deep and whose objects repeat no key at any level.
\<close>

theorem validate_exact:
  "validate body mx = None \<longleftrightarrow> (\<exists>v. body = lex v \<and> jdepth v \<le> mx \<and> unique_keys v)"
  by (rule validate_accepts_iff)

text \<open>
  C10: The recursion of \<open>consumeValue\<close> always returns: with two steps per lexeme it has
  a result, and any larger allowance gives the same one.
\<close>

theorem validate_terminates:
  "validate_fuel (Suc (2 * length body) + k) body mx = Some (validate body mx)"
proof -
  obtain r where "validate_fuel (Suc (2 * length body)) body mx = Some r"
    using validate_returns by blast
  then show ?thesis
    using validate_fuel_mono by (metis option.simps(5) validate_def)
qed

end
