(* ===== verification/Native_JSON.thy ===== *)
theory Native_JSON
  imports Strict_JSON
begin

text \<open>
  \<open>internal/nativecodec/json.go\<close>: reading the model and stream members of a native request,
  rewriting a request for the upstream and a response for the client.  A \<open>json.RawMessage\<close> is
  the JSON value it holds; a Go map \<open>map[string]json.RawMessage\<close> is the member list of an
  object, read with \<open>member_of\<close> (the last member of a name wins) and written back with sorted,
  distinct keys, as \<open>json.Marshal\<close> does.
\<close>

subsection \<open>Errors\<close>

datatype codec_message =
    Plain string
  | JSONProblem json_error
  | FieldProblem string string \<comment> \<open>\<open>request field "path" reason\<close>\<close>
  | FieldNotVerified string
  | FieldNeedsCapability string

record codec_error =
  error_code :: string
  error_message :: codec_message

definition codec_error :: "string \<Rightarrow> codec_message \<Rightarrow> codec_error" where
  "codec_error c m = \<lparr>error_code = c, error_message = m\<rparr>"

definition unknown_field :: "string \<Rightarrow> codec_error" where
  "unknown_field path = codec_error ''unknown_request_field'' (FieldNotVerified path)"

definition invalid_field :: "string \<Rightarrow> string \<Rightarrow> codec_error" where
  "invalid_field path reason = codec_error ''invalid_request'' (FieldProblem path reason)"

record request_info =
  info_model :: string
  info_stream :: bool

subsection \<open>Maps of members\<close>

type_synonym members = "(string \<times> json) list"

definition keys_of :: "members \<Rightarrow> string list" where
  "keys_of ms = sort (remdups (map fst ms))"

definition set_member :: "string \<Rightarrow> json \<Rightarrow> members \<Rightarrow> members" where
  "set_member k v ms = ms @ [(k, v)]"

definition marshal_map :: "members \<Rightarrow> json" where
  "marshal_map ms = JObj (map (\<lambda>k. (k, the (member_of ms k))) (keys_of ms))"

lemma member_of_Nil [simp]: "member_of [] k = None"
  by (simp add: member_of_def)

lemma member_of_set_member [simp]:
  "member_of (set_member k v ms) k' = (if k' = k then Some v else member_of ms k')"
  by (auto simp: member_of_def set_member_def)

lemma member_of_None: "member_of ms k = None \<longleftrightarrow> k \<notin> fst ` set ms"
  by (simp add: member_of_def map_of_eq_None_iff)

lemma member_of_Some_mem: "member_of ms k = Some v \<Longrightarrow> (k, v) \<in> set ms"
  by (auto simp: member_of_def dest: map_of_SomeD)

lemma set_keys_of [simp]: "set (keys_of ms) = fst ` set ms"
  by (simp add: keys_of_def)

lemma keys_of_sorted: "sorted (keys_of ms)" and keys_of_distinct: "distinct (keys_of ms)"
  by (simp_all add: keys_of_def)

lemma keys_of_set_member: "fst ` set (set_member k v ms) = insert k (fst ` set ms)"
  by (auto simp: set_member_def)

lemma marshal_map_keys:
  "marshal_map ms = JObj out \<Longrightarrow> map fst out = keys_of ms"
  by (auto simp: marshal_map_def comp_def)

lemma map_of_keyed: "map_of (map (\<lambda>k. (k, f k)) ks) k = (if k \<in> set ks then Some (f k) else None)"
  by (induction ks) auto

lemma member_of_distinct: "distinct (map fst ms) \<Longrightarrow> member_of ms = map_of ms"
  unfolding member_of_def by (rule map_of_inject_set [THEN iffD2]) (auto simp: rev_map [symmetric])

lemma marshal_map_member:
  assumes "marshal_map ms = JObj out"
  shows "member_of out k = member_of ms k"
proof -
  have out: "out = map (\<lambda>k. (k, the (member_of ms k))) (keys_of ms)"
    using assms by (simp add: marshal_map_def)
  then have "distinct (map fst out)" by (simp add: comp_def keys_of_distinct)
  then have "member_of out k = map_of out k" by (simp add: member_of_distinct)
  also have "\<dots> = member_of ms k"
    using member_of_None [of ms k] by (auto simp: out map_of_keyed)
  finally show ?thesis .
qed

subsection \<open>Unmarshalling into Go values\<close>

text \<open>\<open>json.Unmarshal\<close> into a string or a bool: a JSON null leaves the zero value.\<close>

fun to_string :: "json \<Rightarrow> string option" where
  "to_string (JStr s) = Some s"
| "to_string JNull = Some []"
| "to_string _ = None"

fun to_bool :: "json \<Rightarrow> bool option" where
  "to_bool (JBool b) = Some b"
| "to_bool JNull = Some False"
| "to_bool _ = None"

lemma to_string_Some: "to_string v = Some s \<longleftrightarrow> v = JStr s \<or> (v = JNull \<and> s = [])"
  by (cases v) auto

lemma to_bool_Some: "to_bool v = Some b \<longleftrightarrow> v = JBool b \<or> (v = JNull \<and> \<not> b)"
  by (cases v) auto

subsection \<open>json.go\<close>

abbreviation "max_json_depth \<equiv> (64 :: nat)"

definition decode_object :: "lexeme list \<Rightarrow> codec_error + members" where
  "decode_object body =
     (if body = [] then Inl (codec_error ''invalid_request'' (Plain ''request body is required''))
      else
        (case validate body max_json_depth of
           Some e \<Rightarrow> Inl (codec_error ''invalid_request'' (JSONProblem e))
         | None \<Rightarrow>
             (case unmarshal body of
                Some (JObj ms) \<Rightarrow> Inr ms
              | _ \<Rightarrow> Inl (codec_error ''invalid_request'' (Plain ''request body must be a JSON object'')))))"

definition inspect_model :: "members \<Rightarrow> codec_error + string" where
  "inspect_model object =
     (case member_of object ''model'' of
        None \<Rightarrow> Inr []
      | Some raw \<Rightarrow>
          (case to_string raw of
             None \<Rightarrow> Inl (codec_error ''invalid_request'' (Plain ''model must be a non-empty string''))
           | Some m \<Rightarrow>
               if trim_space m = [] \<or> length m > 200
               then Inl (codec_error ''invalid_request'' (Plain ''model must be a non-empty string''))
               else Inr m))"

definition inspect_stream :: "members \<Rightarrow> codec_error + bool" where
  "inspect_stream object =
     (case member_of object ''stream'' of
        None \<Rightarrow> Inr False
      | Some raw \<Rightarrow>
          (case to_bool raw of
             None \<Rightarrow> Inl (codec_error ''invalid_request'' (Plain ''stream must be a boolean''))
           | Some b \<Rightarrow> Inr b))"

definition inspect_object :: "members \<Rightarrow> bool \<Rightarrow> codec_error + request_info" where
  "inspect_object object require_model =
     and_then (inspect_model object) (\<lambda>m.
       if require_model \<and> m = []
       then Inl (codec_error ''invalid_request'' (Plain ''model is required''))
       else and_then (inspect_stream object) (\<lambda>s. Inr \<lparr>info_model = m, info_stream = s\<rparr>))"

text \<open>\<open>InspectRequest\<close> repeats the code of \<open>inspectObject\<close> after decoding.\<close>

definition inspect_request :: "lexeme list \<Rightarrow> bool \<Rightarrow> codec_error + request_info" where
  "inspect_request body model_required =
     and_then (decode_object body) (\<lambda>object. inspect_object object model_required)"

definition unknown_keys :: "members \<Rightarrow> string list \<Rightarrow> string list" where
  "unknown_keys object allowed = filter (\<lambda>k. k \<notin> set allowed) (keys_of object)"

definition rewrite_request ::
  "lexeme list \<Rightarrow> string list \<Rightarrow> string \<Rightarrow> bool \<Rightarrow> codec_error + (lexeme list \<times> request_info)"
where
  "rewrite_request body allowed upstream_model require_model =
     and_then (decode_object body) (\<lambda>object.
       (case unknown_keys object allowed of
          k # _ \<Rightarrow> Inl (unknown_field k)
        | [] \<Rightarrow>
            and_then (inspect_object object require_model) (\<lambda>info.
              let object' = (if require_model then set_member ''model'' (JStr upstream_model) object
                             else object)
              in Inr (lex (marshal_map object'), info))))"

definition rewrite_response_model :: "lexeme list \<Rightarrow> string \<Rightarrow> codec_error + lexeme list" where
  "rewrite_response_model body public_model =
     and_then (decode_object body) (\<lambda>object.
       Inr (lex (marshal_map
         (if member_of object ''model'' \<noteq> None then set_member ''model'' (JStr public_model) object
          else object))))"

text \<open>The Anthropic \<open>message_start\<close> event carries the model inside \<open>message\<close>.\<close>

definition rewrite_message :: "string \<Rightarrow> members \<Rightarrow> members" where
  "rewrite_message public_model object =
     (case member_of object ''message'' of
        Some (JObj message) \<Rightarrow>
          if member_of message ''model'' \<noteq> None
          then set_member ''message''
                 (marshal_map (set_member ''model'' (JStr public_model) message)) object
          else object
      | _ \<Rightarrow> object)"

definition rewrite_members :: "string \<Rightarrow> string \<Rightarrow> members \<Rightarrow> members" where
  "rewrite_members provider public_model object =
     (let object1 = (if member_of object ''model'' \<noteq> None
                     then set_member ''model'' (JStr public_model) object else object)
      in if provider = ''anthropic'' then rewrite_message public_model object1 else object1)"

definition rewrite_provider_response ::
  "string \<Rightarrow> lexeme list \<Rightarrow> string \<Rightarrow> codec_error + lexeme list"
where
  "rewrite_provider_response provider body public_model =
     (if provider = ''google'' then
        (case validate body max_json_depth of
           Some e \<Rightarrow> Inl (codec_error ''upstream_protocol_changed'' (JSONProblem e))
         | None \<Rightarrow> Inr body)
      else
        (case decode_object body of
           Inl _ \<Rightarrow> Inl (codec_error ''upstream_protocol_changed''
                          (Plain ''upstream response is not valid JSON''))
         | Inr object \<Rightarrow>
             Inr (lex (marshal_map (rewrite_members provider public_model object)))))"

subsection \<open>Decoding\<close>

lemma decode_object_Inr:
  "decode_object body = Inr ms \<longleftrightarrow>
     body = lex (JObj ms) \<and> jdepth (JObj ms) \<le> max_json_depth \<and> unique_keys (JObj ms)"
proof
  assume d: "decode_object body = Inr ms"
  then have "validate body max_json_depth = None"
    by (auto simp: decode_object_def split: if_splits option.splits)
  then obtain v where v: "unmarshal body = Some v" "body = lex v" "jdepth v \<le> max_json_depth"
      "unique_keys v" using validate_unmarshal by blast
  with d \<open>validate body max_json_depth = None\<close> have "v = JObj ms"
    by (auto simp: decode_object_def split: if_splits json.splits)
  with v show "body = lex (JObj ms) \<and> jdepth (JObj ms) \<le> max_json_depth \<and> unique_keys (JObj ms)"
    by blast
next
  assume b: "body = lex (JObj ms) \<and> jdepth (JObj ms) \<le> max_json_depth \<and> unique_keys (JObj ms)"
  then have "\<exists>v. body = lex v \<and> jdepth v \<le> max_json_depth \<and> unique_keys v"
    by (intro exI [of _ "JObj ms"])
  then have "validate body max_json_depth = None" by (rule validate_accepts_iff [THEN iffD2])
  moreover have "body \<noteq> []" "unmarshal body = Some (JObj ms)"
    using b unmarshal_lex [of "JObj ms"] by (auto simp del: unmarshal_lex)
  ultimately show "decode_object body = Inr ms" by (simp add: decode_object_def)
qed

lemma unknown_keys_Nil: "unknown_keys object allowed = [] \<longleftrightarrow> fst ` set object \<subseteq> set allowed"
  by (auto simp: unknown_keys_def filter_empty_conv)

lemma unknown_keys_least:
  assumes "unknown_keys object allowed = k # ks"
  shows "k \<in> fst ` set object - set allowed \<and> (\<forall>k' \<in> fst ` set object - set allowed. k \<le> k')"
proof -
  have "set (unknown_keys object allowed) = fst ` set object - set allowed"
    by (auto simp: unknown_keys_def)
  moreover have "sorted (unknown_keys object allowed)"
    using keys_of_sorted by (simp add: unknown_keys_def sorted_wrt_filter)
  ultimately show ?thesis using assms by (metis list.set_intros(1) set_ConsD sorted_simps(2) order_refl)
qed

lemma rewrite_request_Inr:
  "rewrite_request body allowed up req = Inr (out, info) \<longleftrightarrow>
     (\<exists>object. decode_object body = Inr object \<and> fst ` set object \<subseteq> set allowed
       \<and> inspect_object object req = Inr info
       \<and> out = lex (marshal_map (if req then set_member ''model'' (JStr up) object else object)))"
proof (cases "decode_object body")
  case (Inr object)
  then show ?thesis
    by (cases "unknown_keys object allowed")
       (use unknown_keys_Nil [of object allowed] in \<open>auto simp: rewrite_request_def Let_def\<close>)
qed (simp add: rewrite_request_def)

subsection \<open>What marshalling keeps\<close>

lemma jdepth_obj:
  "jdepth (JObj ms) \<le> Suc n \<longleftrightarrow> (\<forall>m \<in> set ms. jdepth (snd m) \<le> n)"
proof -
  have "foldr max xs 0 \<le> n \<longleftrightarrow> (\<forall>x \<in> set xs. x \<le> n)" for xs :: "nat list"
    by (induction xs) auto
  then show ?thesis by auto
qed

definition well_formed :: "nat \<Rightarrow> json \<Rightarrow> bool" where
  "well_formed n v \<longleftrightarrow> jdepth v \<le> n \<and> unique_keys v"

lemma well_formed_obj:
  "well_formed (Suc n) (JObj ms) \<longleftrightarrow> distinct (map fst ms) \<and> (\<forall>m \<in> set ms. well_formed n (snd m))"
  unfolding well_formed_def jdepth_obj by auto

lemma well_formed_scalar [simp]: "well_formed n (JStr s)"
  by (simp add: well_formed_def)

lemma set_member_all:
  "(\<forall>m \<in> set (set_member k v ms). P (snd m)) \<longleftrightarrow> P v \<and> (\<forall>m \<in> set ms. P (snd m))"
  by (auto simp: set_member_def)

lemma marshal_map_well_formed:
  assumes "\<forall>m \<in> set ms. well_formed n (snd m)"
  shows "well_formed (Suc n) (marshal_map ms)"
proof -
  have "well_formed n (the (member_of ms k))" if k: "k \<in> fst ` set ms" for k
  proof -
    from k obtain v where "member_of ms k = Some v"
      using member_of_None [of ms k] by blast
    with assms show ?thesis by (auto dest!: member_of_Some_mem)
  qed
  then show ?thesis
    by (auto simp: marshal_map_def well_formed_obj comp_def keys_of_distinct)
qed

lemma decode_marshal:
  assumes "\<forall>m \<in> set ms. well_formed 63 (snd m)"
  shows "\<exists>out. decode_object (lex (marshal_map ms)) = Inr out \<and> map fst out = keys_of ms
    \<and> (\<forall>k. member_of out k = member_of ms k)"
proof -
  obtain out where out: "marshal_map ms = JObj out" by (simp add: marshal_map_def)
  have "well_formed (Suc 63) (JObj out)" using marshal_map_well_formed [OF assms] out by simp
  then have "decode_object (lex (marshal_map ms)) = Inr out"
    by (simp add: decode_object_Inr out well_formed_def del: lex.simps jdepth.simps unique_keys.simps)
  with out marshal_map_keys marshal_map_member show ?thesis by blast
qed

lemma decode_object_members:
  "decode_object body = Inr ms \<Longrightarrow>
     distinct (map fst ms) \<and> (\<forall>m \<in> set ms. well_formed 63 (snd m))"
  using well_formed_obj [of 63 ms]
  by (simp add: decode_object_Inr well_formed_def del: jdepth.simps unique_keys.simps)

subsection \<open>Properties\<close>

text \<open>
  C8: What \<open>RewriteRequest\<close> sends upstream.  If it succeeds, the client's body was an object
  with only allowed members, and the new body reads back as an object with sorted keys whose
  \<open>model\<close> is the upstream model (when a model is required) and whose other members are exactly
  the client's.
\<close>

theorem rewrite_request_body:
  assumes "rewrite_request body allowed upstream require_model = Inr (out, info)"
  shows "\<exists>ms ms'. decode_object body = Inr ms \<and> decode_object out = Inr ms'
    \<and> fst ` set ms \<subseteq> set allowed \<and> inspect_object ms require_model = Inr info
    \<and> sorted (map fst ms')
    \<and> (\<forall>k. member_of ms' k =
          (if require_model \<and> k = ''model'' then Some (JStr upstream) else member_of ms k))"
proof -
  from assms obtain ms where ms: "decode_object body = Inr ms" "fst ` set ms \<subseteq> set allowed"
      "inspect_object ms require_model = Inr info"
      "out = lex (marshal_map (if require_model then set_member ''model'' (JStr upstream) ms else ms))"
    unfolding rewrite_request_Inr by blast
  let ?new = "if require_model then set_member ''model'' (JStr upstream) ms else ms"
  have "\<forall>m \<in> set ?new. well_formed 63 (snd m)"
    using decode_object_members [OF ms(1)] set_member_all by auto
  then obtain ms' where "decode_object out = Inr ms'" "map fst ms' = keys_of ?new"
      "\<forall>k. member_of ms' k = member_of ?new k"
    using decode_marshal ms(4) by blast
  with ms keys_of_sorted show ?thesis
    by (intro exI [of _ ms] exI [of _ ms']) auto
qed

theorem rewrite_request_body_witness:
  "\<exists>ms ms'. decode_object (lex (JObj [(''stream'', JBool True), (''model'', JStr ''pub'')])) = Inr ms
    \<and> decode_object (lex (JObj [(''model'', JStr ''up''), (''stream'', JBool True)])) = Inr ms'
    \<and> fst ` set ms \<subseteq> set [''model'', ''stream'']
    \<and> inspect_object ms True = Inr \<lparr>info_model = ''pub'', info_stream = True\<rparr>
    \<and> sorted (map fst ms')
    \<and> (\<forall>k. member_of ms' k =
          (if True \<and> k = ''model'' then Some (JStr ''up'') else member_of ms k))"
  by (rule rewrite_request_body) code_simp

lemma rewrite_message_other: "k \<noteq> ''message'' \<Longrightarrow> member_of (rewrite_message p ms) k = member_of ms k"
  by (simp add: rewrite_message_def split: option.split json.split)

lemma rewrite_members_model:
  "member_of (rewrite_members provider public ms) ''model'' =
     (if member_of ms ''model'' = None then None else Some (JStr public))"
  by (simp add: rewrite_members_def Let_def rewrite_message_other)

lemma rewrite_members_other:
  "k \<noteq> ''model'' \<Longrightarrow> provider = ''anthropic'' \<longrightarrow> k \<noteq> ''message'' \<Longrightarrow>
     member_of (rewrite_members provider public ms) k = member_of ms k"
  by (simp add: rewrite_members_def Let_def rewrite_message_other)

lemma rewrite_message_message:
  assumes "member_of ms ''message'' = Some (JObj message)"
  shows "\<exists>message'. member_of (rewrite_message public ms) ''message'' = Some (JObj message')
    \<and> member_of message' ''model'' =
        (if member_of message ''model'' = None then None else Some (JStr public))"
proof -
  obtain out where out: "marshal_map (set_member ''model'' (JStr public) message) = JObj out"
    by (simp add: marshal_map_def)
  then have "member_of out ''model'' = Some (JStr public)" by (simp add: marshal_map_member)
  with assms out show ?thesis by (simp add: rewrite_message_def)
qed

lemma well_formed_Suc: "well_formed n v \<Longrightarrow> well_formed (Suc n) v"
  by (simp add: well_formed_def)

lemma rewrite_message_well_formed:
  assumes wf: "\<forall>m \<in> set ms. well_formed 63 (snd m)"
  shows "\<forall>m \<in> set (rewrite_message public ms). well_formed 63 (snd m)"
proof (cases "\<exists>message. member_of ms ''message'' = Some (JObj message) \<and> member_of message ''model'' \<noteq> None")
  case True
  then obtain message where m: "member_of ms ''message'' = Some (JObj message)"
      "member_of message ''model'' \<noteq> None" by blast
  then have "well_formed (Suc 62) (JObj message)"
    using wf by (auto dest!: member_of_Some_mem)
  then have "\<forall>m \<in> set message. well_formed 62 (snd m)" using well_formed_obj [of 62] by blast
  then have "well_formed (Suc 62) (marshal_map (set_member ''model'' (JStr public) message))"
    by (intro marshal_map_well_formed) (simp add: set_member_all)
  with wf m show ?thesis by (simp add: rewrite_message_def set_member_all)
next
  case False
  then have "rewrite_message public ms = ms"
    by (auto simp: rewrite_message_def split: option.splits json.splits)
  with wf show ?thesis by simp
qed

lemma rewrite_members_well_formed:
  assumes "\<forall>m \<in> set ms. well_formed 63 (snd m)"
  shows "\<forall>m \<in> set (rewrite_members provider public ms). well_formed 63 (snd m)"
proof -
  have "\<forall>m \<in> set (set_member ''model'' (JStr public) ms). well_formed 63 (snd m)"
    using assms by (simp add: set_member_all)
  with assms show ?thesis
    by (simp add: rewrite_members_def Let_def rewrite_message_well_formed)
qed

text \<open>
  \<open>RewriteProviderResponse\<close> never shows the upstream model at the top of an OpenAI,
  xAI or Anthropic response: a response that is an object gets the public model where it had a
  model, nothing is added where it had none, and every member other than \<open>model\<close> and
  (for Anthropic) \<open>message\<close> is unchanged; a \<open>message\<close> object with a model gets the
  public model too.
\<close>

theorem rewrite_provider_response_model:
  assumes "provider \<noteq> ''google''" and "decode_object body = Inr ms"
  shows "\<exists>out ms'. rewrite_provider_response provider body public = Inr out
    \<and> decode_object out = Inr ms'
    \<and> (member_of ms' ''model'' =
         (if member_of ms ''model'' = None then None else Some (JStr public)))
    \<and> (\<forall>k. k \<noteq> ''model'' \<and> (provider = ''anthropic'' \<longrightarrow> k \<noteq> ''message'') \<longrightarrow>
         member_of ms' k = member_of ms k)
    \<and> (provider = ''anthropic'' \<longrightarrow>
         (\<forall>message. member_of ms ''message'' = Some (JObj message) \<longrightarrow>
            (\<exists>message'. member_of ms' ''message'' = Some (JObj message')
               \<and> member_of message' ''model'' =
                   (if member_of message ''model'' = None then None else Some (JStr public)))))"
proof -
  let ?obj = "rewrite_members provider public ms"
  obtain ms' where ms': "decode_object (lex (marshal_map ?obj)) = Inr ms'"
      "\<forall>k. member_of ms' k = member_of ?obj k"
    using decode_marshal rewrite_members_well_formed decode_object_members [OF assms(2)] by blast
  have "rewrite_provider_response provider body public = Inr (lex (marshal_map ?obj))"
    using assms by (simp add: rewrite_provider_response_def)
  moreover have "\<exists>message'. member_of ?obj ''message'' = Some (JObj message')
       \<and> member_of message' ''model'' =
           (if member_of message ''model'' = None then None else Some (JStr public))"
    if "provider = ''anthropic''" "member_of ms ''message'' = Some (JObj message)" for message
    using that by (simp add: rewrite_members_def Let_def rewrite_message_message)
  ultimately show ?thesis
    using ms' rewrite_members_model rewrite_members_other
    by (intro exI [of _ "lex (marshal_map ?obj)"] exI [of _ ms']) auto
qed

theorem rewrite_provider_response_model_witness:
  "\<exists>out ms'. rewrite_provider_response ''anthropic''
        (lex (JObj [(''type'', JStr ''message_start''),
                    (''message'', JObj [(''model'', JStr ''up''), (''id'', JNum ''1'')])])) ''pub'' = Inr out
    \<and> decode_object out = Inr ms'
    \<and> (\<exists>message'. member_of ms' ''message'' = Some (JObj message')
         \<and> member_of message' ''model'' = Some (JStr ''pub''))"
proof -
  let ?ms = "[(''type'', JStr ''message_start''),
              (''message'', JObj [(''model'', JStr ''up''), (''id'', JNum ''1'')])]"
  have p: "''anthropic'' \<noteq> ''google''" by simp
  have d: "decode_object (lex (JObj ?ms)) = Inr ?ms" by code_simp
  have m: "member_of ?ms ''message'' = Some (JObj [(''model'', JStr ''up''), (''id'', JNum ''1'')])"
    "member_of [(''model'', JStr ''up''), (''id'', JNum ''1'')] ''model'' \<noteq> None"
    by code_simp+
  show ?thesis using rewrite_provider_response_model [OF p d, of "''pub''"] m by metis
qed

end
