(* ===== verification/Native_Text.thy ===== *)
theory Native_Text
  imports Native_JSON
begin

text \<open>
  \<open>internal/nativecodec/text.go\<close>: the three request validators that keep the v0.2 gateway to
  text, one per native API, and their helpers.  A path is the string the code builds with
  \<open>fmt.Sprintf\<close>; \<open>None\<close> is a nil error.  For each validator the file proves what it
  accepts, as a description of the JSON document with no order of checks in it.
\<close>

subsection \<open>Reading a member\<close>

definition at_index :: "string \<Rightarrow> nat \<Rightarrow> string" where
  "at_index path i = path @ ''['' @ show_nat i @ '']''"

definition raw_array :: "json \<Rightarrow> string \<Rightarrow> codec_error + json list" where
  "raw_array raw path =
     (case raw of JArr vs \<Rightarrow> Inr vs | _ \<Rightarrow> Inl (invalid_field path ''must be an array''))"

definition raw_object :: "json \<Rightarrow> string \<Rightarrow> codec_error + members" where
  "raw_object raw path =
     (case raw of JObj ms \<Rightarrow> Inr ms | _ \<Rightarrow> Inl (invalid_field path ''must be an object''))"

definition raw_string :: "json \<Rightarrow> string \<Rightarrow> codec_error + string" where
  "raw_string raw path =
     (case to_string raw of Some s \<Rightarrow> Inr s | None \<Rightarrow> Inl (invalid_field path ''must be a string''))"

definition required_array :: "members \<Rightarrow> string \<Rightarrow> codec_error + json list" where
  "required_array object field =
     (case member_of object field of
        None \<Rightarrow> Inl (invalid_field field ''is required'')
      | Some raw \<Rightarrow> raw_array raw field)"

definition required_string :: "members \<Rightarrow> string \<Rightarrow> string \<Rightarrow> codec_error + string" where
  "required_string object field path =
     (case member_of object field of
        None \<Rightarrow> Inl (invalid_field path ''is required'')
      | Some raw \<Rightarrow> raw_string raw path)"

definition is_json_null :: "json \<Rightarrow> bool" where
  "is_json_null raw \<longleftrightarrow> raw = JNull"

definition reject_unknown_fields :: "members \<Rightarrow> string list \<Rightarrow> string \<Rightarrow> codec_error option" where
  "reject_unknown_fields object allowed path =
     (case unknown_keys object allowed of
        [] \<Rightarrow> None
      | k # _ \<Rightarrow> Some (unknown_field (if path \<noteq> [] then path @ ''.'' @ k else k)))"

text \<open>An optional member: absent and JSON null are both no value.\<close>

definition optional_member ::
  "members \<Rightarrow> string \<Rightarrow> (json \<Rightarrow> codec_error option) \<Rightarrow> codec_error option"
where
  "optional_member object field check =
     (case member_of object field of
        None \<Rightarrow> None
      | Some raw \<Rightarrow> if is_json_null raw then None else check raw)"

subsection \<open>Numbers\<close>

definition decode_number :: "json \<Rightarrow> string option" where
  "decode_number raw = (case raw of JNum n \<Rightarrow> Some n | _ \<Rightarrow> None)"

definition is_digit :: "char \<Rightarrow> bool" where
  "is_digit c \<longleftrightarrow> digit_val c \<noteq> None"

text \<open>
  \<open>strconv.ParseFloat\<close> on a JSON number literal, as far as its error goes: mantissa digits,
  decimal point and exponent, the exponent digits read only while the exponent is below 10000.
\<close>

fun exponent_digits :: "nat \<Rightarrow> string \<Rightarrow> nat option" where
  "exponent_digits e [] = Some e"
| "exponent_digits e (c # cs) =
     (case digit_val c of
        None \<Rightarrow> None
      | Some d \<Rightarrow> exponent_digits (if e < 10000 then 10 * e + d else e) cs)"

definition exponent_part :: "string \<Rightarrow> int option" where
  "exponent_part s =
     (case s of
        [] \<Rightarrow> Some 0
      | c # cs \<Rightarrow>
          if c = CHR ''e'' \<or> c = CHR ''E'' then
            (case cs of
               [] \<Rightarrow> None
             | d # ds \<Rightarrow>
                 if d = CHR ''-'' \<and> ds \<noteq> [] then map_option (\<lambda>n. - int n) (exponent_digits 0 ds)
                 else if d = CHR ''+'' \<and> ds \<noteq> [] then map_option int (exponent_digits 0 ds)
                 else map_option int (exponent_digits 0 cs))
          else None)"

definition fraction_part :: "string \<Rightarrow> string \<times> string" where
  "fraction_part s =
     (case s of
        [] \<Rightarrow> ([], [])
      | c # cs \<Rightarrow>
          if c = CHR ''.'' then (takeWhile is_digit cs, dropWhile is_digit cs) else ([], s))"

text \<open>The literal as mantissa and power of ten.\<close>

definition float_literal :: "string \<Rightarrow> (nat \<times> int) option" where
  "float_literal s =
     (let body = trim_prefix ''-'' s;
          whole = takeWhile is_digit body;
          (frac, rest) = fraction_part (dropWhile is_digit body)
      in case parse_nat (whole @ frac) of
           None \<Rightarrow> None
         | Some m \<Rightarrow> map_option (\<lambda>e. (m, e - int (length frac))) (exponent_part rest))"

text \<open>
  The literal overflows when it rounds to infinity: it is at least half a unit in the last place
  above the largest finite \<open>float64\<close>.
\<close>

definition float_bound :: nat where
  "float_bound = 2 ^ 1024 - 2 ^ 970"

definition float_overflows :: "nat \<times> int \<Rightarrow> bool" where
  "float_overflows l =
     (case l of (m, e) \<Rightarrow>
        if 0 \<le> e then float_bound \<le> m * 10 ^ nat e else float_bound * 10 ^ nat (- e) \<le> m)"

definition parse_float_ok :: "string \<Rightarrow> bool" where
  "parse_float_ok s =
     (case float_literal s of None \<Rightarrow> False | Some l \<Rightarrow> \<not> float_overflows l)"

definition validate_optional_number :: "members \<Rightarrow> string \<Rightarrow> codec_error option" where
  "validate_optional_number object field =
     optional_member object field (\<lambda>raw.
       (case decode_number raw of
          None \<Rightarrow> Some (invalid_field field ''must be a number'')
        | Some n \<Rightarrow>
            if parse_float_ok n then None
            else Some (invalid_field field ''must be a finite number'')))"

definition validate_integer :: "json \<Rightarrow> string \<Rightarrow> codec_error option" where
  "validate_integer raw path =
     (case decode_number raw of
        None \<Rightarrow> Some (invalid_field path ''must be an integer'')
      | Some n \<Rightarrow>
          (case parse_int64 n of
             None \<Rightarrow> Some (invalid_field path ''must be an integer'')
           | Some _ \<Rightarrow> None))"

definition validate_optional_integer :: "members \<Rightarrow> string \<Rightarrow> codec_error option" where
  "validate_optional_integer object field =
     optional_member object field (\<lambda>raw. validate_integer raw field)"

definition validate_required_integer :: "members \<Rightarrow> string \<Rightarrow> codec_error option" where
  "validate_required_integer object field =
     (case member_of object field of
        None \<Rightarrow> Some (invalid_field field ''is required'')
      | Some raw \<Rightarrow>
          if is_json_null raw then Some (invalid_field field ''is required'')
          else validate_integer raw field)"

subsection \<open>Booleans and strings\<close>

definition validate_optional_boolean :: "members \<Rightarrow> string \<Rightarrow> codec_error option" where
  "validate_optional_boolean object field =
     optional_member object field (\<lambda>raw.
       if to_bool raw = None then Some (invalid_field field ''must be a boolean'') else None)"

definition validate_string_array :: "json \<Rightarrow> string \<Rightarrow> codec_error option" where
  "validate_string_array raw path =
     (case raw_array raw path of
        Inl _ \<Rightarrow> Some (invalid_field path ''must be an array of strings'')
      | Inr values \<Rightarrow>
          first_error (\<lambda>(i, value). err_of (raw_string value (at_index path i))) (indexed values))"

definition validate_optional_string_array :: "members \<Rightarrow> string \<Rightarrow> codec_error option" where
  "validate_optional_string_array object field =
     optional_member object field (\<lambda>raw. validate_string_array raw field)"

definition validate_optional_string_or_string_array ::
  "members \<Rightarrow> string \<Rightarrow> codec_error option"
where
  "validate_optional_string_or_string_array object field =
     optional_member object field (\<lambda>raw.
       (case raw of JStr _ \<Rightarrow> err_of (raw_string raw field) | _ \<Rightarrow> validate_string_array raw field))"

subsection \<open>Content blocks\<close>

definition chat_message_fields :: "string list" where
  "chat_message_fields = [''content'', ''role'']"

definition text_block_fields :: "string list" where
  "text_block_fields = [''text'', ''type'']"

definition gemini_content_fields :: "string list" where
  "gemini_content_fields = [''parts'', ''role'']"

definition gemini_part_fields :: "string list" where
  "gemini_part_fields = [''text'']"

definition gemini_generation_fields :: "string list" where
  "gemini_generation_fields =
     [''candidateCount'', ''maxOutputTokens'', ''stopSequences'', ''temperature'', ''topK'', ''topP'']"

definition gemini_safety_setting_keys :: "string list" where
  "gemini_safety_setting_keys = [''category'', ''threshold'']"

definition validate_text_block :: "string \<Rightarrow> json \<Rightarrow> codec_error option" where
  "validate_text_block block_path block_raw =
     (case raw_object block_raw block_path of
        Inl e \<Rightarrow> Some e
      | Inr block \<Rightarrow>
          or_err (reject_unknown_fields block text_block_fields block_path)
            (case required_string block ''type'' (block_path @ ''.type'') of
               Inl e \<Rightarrow> Some e
             | Inr kind \<Rightarrow>
                 if kind \<noteq> ''text''
                 then Some (codec_error ''capability_not_supported''
                              (FieldNeedsCapability (block_path @ ''.type'')))
                 else err_of (required_string block ''text'' (block_path @ ''.text''))))"

text \<open>The first argument is the map lookup: an absent member is an empty \<open>RawMessage\<close>.\<close>

definition validate_text_content :: "json option \<Rightarrow> string \<Rightarrow> codec_error option" where
  "validate_text_content content path =
     (case content of
        None \<Rightarrow> Some (invalid_field path ''is required'')
      | Some (JStr s) \<Rightarrow> err_of (raw_string (JStr s) path)
      | Some raw \<Rightarrow>
          (case raw_array raw path of
             Inl _ \<Rightarrow>
               Some (invalid_field path ''must be a string or an array of text blocks'')
           | Inr blocks \<Rightarrow>
               first_error (\<lambda>(i, b). validate_text_block (at_index path i) b) (indexed blocks)))"

text \<open>
  The body of the message loop, shared by the two chat APIs; they differ in the roles and in the
  reason given for another role.
\<close>

definition validate_message ::
  "string list \<Rightarrow> string \<Rightarrow> string \<Rightarrow> json \<Rightarrow> codec_error option"
where
  "validate_message roles reason path raw =
     (case raw_object raw path of
        Inl e \<Rightarrow> Some e
      | Inr message \<Rightarrow>
          or_err (reject_unknown_fields message chat_message_fields path)
            (case required_string message ''role'' (path @ ''.role'') of
               Inl e \<Rightarrow> Some e
             | Inr role \<Rightarrow>
                 if role \<notin> set roles then Some (invalid_field (path @ ''.role'') reason)
                 else validate_text_content (member_of message ''content'') (path @ ''.content'')))"

definition openai_roles :: "string list" where
  "openai_roles = [''developer'', ''system'', ''user'', ''assistant'']"

definition anthropic_roles :: "string list" where
  "anthropic_roles = [''user'', ''assistant'']"

definition if_present :: "members \<Rightarrow> string \<Rightarrow> (json \<Rightarrow> codec_error option) \<Rightarrow> codec_error option" where
  "if_present object field check =
     (case member_of object field of None \<Rightarrow> None | Some raw \<Rightarrow> check raw)"

subsection \<open>OpenAI chat completions\<close>

definition validate_openai_chat_text_request :: "lexeme list \<Rightarrow> codec_error option" where
  "validate_openai_chat_text_request body =
     (case decode_object body of
        Inl e \<Rightarrow> Some e
      | Inr object \<Rightarrow>
          (case required_array object ''messages'' of
             Inl e \<Rightarrow> Some e
           | Inr messages \<Rightarrow>
               or_err (first_error (\<lambda>(i, raw). validate_message openai_roles
                         ''is not supported by the v0.2 text endpoint'' (at_index ''messages'' i) raw)
                         (indexed messages))
                 (or_err (first_error (validate_optional_number object)
                            [''frequency_penalty'', ''presence_penalty'', ''temperature'', ''top_p''])
                   (or_err (first_error (validate_optional_integer object)
                              [''max_completion_tokens'', ''max_tokens'', ''n'', ''seed''])
                     (or_err (validate_optional_boolean object ''stream'')
                        (validate_optional_string_or_string_array object ''stop''))))))"

subsection \<open>Anthropic messages\<close>

definition validate_anthropic_text_request :: "lexeme list \<Rightarrow> codec_error option" where
  "validate_anthropic_text_request body =
     (case decode_object body of
        Inl e \<Rightarrow> Some e
      | Inr object \<Rightarrow>
          (case required_array object ''messages'' of
             Inl e \<Rightarrow> Some e
           | Inr messages \<Rightarrow>
               or_err (first_error (\<lambda>(i, raw). validate_message anthropic_roles
                         ''must be user or assistant'' (at_index ''messages'' i) raw)
                         (indexed messages))
                 (or_err (if_present object ''system''
                            (\<lambda>raw. validate_text_content (Some raw) ''system''))
                   (or_err (validate_required_integer object ''max_tokens'')
                     (or_err (first_error (validate_optional_number object)
                                [''temperature'', ''top_p''])
                       (or_err (validate_optional_integer object ''top_k'')
                         (or_err (validate_optional_boolean object ''stream'')
                            (validate_optional_string_array object ''stop_sequences''))))))))"

subsection \<open>Gemini generateContent\<close>

definition validate_gemini_part :: "string \<Rightarrow> json \<Rightarrow> codec_error option" where
  "validate_gemini_part part_path part_raw =
     (case raw_object part_raw part_path of
        Inl e \<Rightarrow> Some e
      | Inr part \<Rightarrow>
          or_err (reject_unknown_fields part gemini_part_fields part_path)
            (err_of (required_string part ''text'' (part_path @ ''.text''))))"

definition validate_gemini_role :: "members \<Rightarrow> string \<Rightarrow> codec_error option" where
  "validate_gemini_role content path =
     (case member_of content ''role'' of
        None \<Rightarrow> None
      | Some raw \<Rightarrow>
          (case raw_string raw (path @ ''.role'') of
             Inl e \<Rightarrow> Some e
           | Inr role \<Rightarrow>
               if role \<noteq> ''user'' \<and> role \<noteq> ''model''
               then Some (invalid_field (path @ ''.role'') ''must be user or model'') else None))"

definition validate_gemini_content :: "json \<Rightarrow> string \<Rightarrow> codec_error option" where
  "validate_gemini_content raw path =
     (case raw_object raw path of
        Inl e \<Rightarrow> Some e
      | Inr content \<Rightarrow>
          or_err (reject_unknown_fields content gemini_content_fields path)
            (or_err (validate_gemini_role content path)
              (case required_array content ''parts'' of
                 Inl _ \<Rightarrow> Some (invalid_field (path @ ''.parts'') ''must be an array'')
               | Inr parts \<Rightarrow>
                   first_error (\<lambda>(i, part). validate_gemini_part (at_index (path @ ''.parts'') i) part)
                     (indexed parts))))"

definition validate_generation_config :: "json \<Rightarrow> codec_error option" where
  "validate_generation_config raw =
     (case raw_object raw ''generationConfig'' of
        Inl e \<Rightarrow> Some e
      | Inr config \<Rightarrow>
          or_err (reject_unknown_fields config gemini_generation_fields ''generationConfig'')
            (or_err (first_error (validate_optional_integer config)
                       [''candidateCount'', ''maxOutputTokens'', ''topK''])
              (or_err (first_error (validate_optional_number config) [''temperature'', ''topP''])
                 (validate_optional_string_array config ''stopSequences''))))"

definition validate_safety_setting :: "string \<Rightarrow> json \<Rightarrow> codec_error option" where
  "validate_safety_setting path raw =
     (case raw_object raw path of
        Inl e \<Rightarrow> Some e
      | Inr setting \<Rightarrow>
          or_err (reject_unknown_fields setting gemini_safety_setting_keys path)
            (or_err (err_of (required_string setting ''category'' (path @ ''.category'')))
               (err_of (required_string setting ''threshold'' (path @ ''.threshold'')))))"

definition validate_safety_settings :: "json \<Rightarrow> codec_error option" where
  "validate_safety_settings raw =
     (case raw_array raw ''safetySettings'' of
        Inl e \<Rightarrow> Some e
      | Inr settings \<Rightarrow>
          first_error (\<lambda>(i, s). validate_safety_setting (at_index ''safetySettings'' i) s)
            (indexed settings))"

definition validate_gemini_text_request :: "lexeme list \<Rightarrow> codec_error option" where
  "validate_gemini_text_request body =
     (case decode_object body of
        Inl e \<Rightarrow> Some e
      | Inr object \<Rightarrow>
          (case required_array object ''contents'' of
             Inl e \<Rightarrow> Some e
           | Inr contents \<Rightarrow>
               or_err (first_error (\<lambda>(i, raw). validate_gemini_content raw (at_index ''contents'' i))
                         (indexed contents))
                 (or_err (if_present object ''systemInstruction''
                            (\<lambda>raw. validate_gemini_content raw ''systemInstruction''))
                   (or_err (if_present object ''generationConfig'' validate_generation_config)
                      (if_present object ''safetySettings'' validate_safety_settings)))))"

subsection \<open>What each check accepts\<close>

named_theorems accepts \<open>when each validator returns nil\<close>

definition is_text :: "json \<Rightarrow> bool" where
  "is_text v \<longleftrightarrow> v = JNull \<or> (\<exists>s. v = JStr s)"

definition is_number :: "json \<Rightarrow> bool" where
  "is_number v \<longleftrightarrow> (\<exists>n. v = JNum n \<and> parse_float_ok n)"

definition is_integer :: "json \<Rightarrow> bool" where
  "is_integer v \<longleftrightarrow> (\<exists>n k. v = JNum n \<and> parse_int64 n = Some k)"

definition is_bool :: "json \<Rightarrow> bool" where
  "is_bool v \<longleftrightarrow> (\<exists>b. v = JBool b)"

definition is_text_array :: "json \<Rightarrow> bool" where
  "is_text_array v \<longleftrightarrow> (\<exists>vs. v = JArr vs \<and> (\<forall>x \<in> set vs. is_text x))"

definition only_fields :: "string list \<Rightarrow> members \<Rightarrow> bool" where
  "only_fields allowed ms \<longleftrightarrow> fst ` set ms \<subseteq> set allowed"

definition has_member :: "members \<Rightarrow> string \<Rightarrow> (json \<Rightarrow> bool) \<Rightarrow> bool" where
  "has_member ms k P \<longleftrightarrow> (\<exists>v. member_of ms k = Some v \<and> P v)"

definition may_have :: "members \<Rightarrow> string \<Rightarrow> (json \<Rightarrow> bool) \<Rightarrow> bool" where
  "may_have ms k P \<longleftrightarrow> (\<forall>v. member_of ms k = Some v \<longrightarrow> P v)"

definition text_block :: "json \<Rightarrow> bool" where
  "text_block v \<longleftrightarrow> (\<exists>ms. v = JObj ms \<and> only_fields text_block_fields ms
     \<and> has_member ms ''type'' (\<lambda>t. t = JStr ''text'') \<and> has_member ms ''text'' is_text)"

definition text_content :: "json \<Rightarrow> bool" where
  "text_content v \<longleftrightarrow> (\<exists>s. v = JStr s) \<or> (\<exists>bs. v = JArr bs \<and> (\<forall>b \<in> set bs. text_block b))"

definition text_message :: "string list \<Rightarrow> json \<Rightarrow> bool" where
  "text_message roles v \<longleftrightarrow> (\<exists>ms. v = JObj ms \<and> only_fields chat_message_fields ms
     \<and> has_member ms ''role'' (\<lambda>r. r \<in> JStr ` set roles) \<and> has_member ms ''content'' text_content)"

definition gemini_content :: "json \<Rightarrow> bool" where
  "gemini_content v \<longleftrightarrow> (\<exists>ms. v = JObj ms \<and> only_fields gemini_content_fields ms
     \<and> may_have ms ''role'' (\<lambda>r. r = JStr ''user'' \<or> r = JStr ''model'')
     \<and> has_member ms ''parts'' (\<lambda>ps. \<exists>xs. ps = JArr xs \<and> (\<forall>x \<in> set xs.
         \<exists>qs. x = JObj qs \<and> only_fields gemini_part_fields qs \<and> has_member qs ''text'' is_text)))"

definition or_null :: "(json \<Rightarrow> bool) \<Rightarrow> json \<Rightarrow> bool" where
  "or_null P v \<longleftrightarrow> v = JNull \<or> P v"

lemma to_string_is_text: "(\<exists>s. to_string v = Some s) \<longleftrightarrow> is_text v"
  by (cases v) (auto simp: is_text_def)

lemma raw_string_ok: "err_of (raw_string v p) = None \<longleftrightarrow> is_text v"
  using to_string_is_text [of v] by (auto simp: raw_string_def split: option.splits)

lemma required_string_ok [accepts]:
  "err_of (required_string ms k p) = None \<longleftrightarrow> has_member ms k is_text"
  by (auto simp: required_string_def has_member_def raw_string_ok split: option.splits)

lemma required_string_Inr:
  "required_string ms k p = Inr s \<longleftrightarrow> has_member ms k (\<lambda>v. to_string v = Some s)"
  by (auto simp: required_string_def has_member_def raw_string_def split: option.splits)

lemma raw_array_Inr [simp]: "raw_array v p = Inr xs \<longleftrightarrow> v = JArr xs"
  by (cases v) (simp_all add: raw_array_def)

lemma raw_object_Inr [simp]: "raw_object v p = Inr xs \<longleftrightarrow> v = JObj xs"
  by (cases v) (simp_all add: raw_object_def)

lemma required_array_Inr:
  "required_array ms k = Inr xs \<longleftrightarrow> has_member ms k (\<lambda>v. v = JArr xs)"
  by (auto simp: required_array_def has_member_def split: option.splits)

lemma reject_unknown_fields_ok [accepts]:
  "reject_unknown_fields ms allowed p = None \<longleftrightarrow> only_fields allowed ms"
  using unknown_keys_Nil [of ms allowed]
  by (auto simp: reject_unknown_fields_def only_fields_def split: list.splits)

lemma optional_member_ok:
  "optional_member ms k f = None \<longleftrightarrow> may_have ms k (or_null (\<lambda>v. f v = None))"
  by (auto simp: optional_member_def may_have_def or_null_def is_json_null_def split: option.splits)

lemma validate_integer_ok: "validate_integer v p = None \<longleftrightarrow> is_integer v"
  by (cases v) (auto simp: validate_integer_def is_integer_def decode_number_def split: option.splits)

lemma validate_optional_number_ok [accepts]:
  "validate_optional_number ms k = None \<longleftrightarrow> may_have ms k (or_null is_number)"
proof -
  have "(case decode_number v of None \<Rightarrow> Some (invalid_field k ''must be a number'')
      | Some n \<Rightarrow> if parse_float_ok n then None
                  else Some (invalid_field k ''must be a finite number'')) = None \<longleftrightarrow> is_number v" for v
    by (cases v) (auto simp: is_number_def decode_number_def)
  then show ?thesis by (simp add: validate_optional_number_def optional_member_ok)
qed

lemma validate_optional_integer_ok [accepts]:
  "validate_optional_integer ms k = None \<longleftrightarrow> may_have ms k (or_null is_integer)"
  by (simp add: validate_optional_integer_def optional_member_ok validate_integer_ok)

lemma validate_required_integer_ok [accepts]:
  "validate_required_integer ms k = None \<longleftrightarrow> has_member ms k is_integer"
  by (auto simp: validate_required_integer_def has_member_def validate_integer_ok is_json_null_def
      is_integer_def split: option.splits)

lemma validate_optional_boolean_ok [accepts]:
  "validate_optional_boolean ms k = None \<longleftrightarrow> may_have ms k (or_null is_bool)"
proof -
  have "or_null (\<lambda>v. \<exists>y. to_bool v = Some y) v = or_null is_bool v" for v
    by (cases v) (auto simp: is_bool_def or_null_def)
  then show ?thesis
    by (simp add: validate_optional_boolean_def optional_member_ok may_have_def)
qed

lemma validate_string_array_ok: "validate_string_array v p = None \<longleftrightarrow> is_text_array v"
proof (cases v)
  case (JArr xs)
  have "validate_string_array v p = None \<longleftrightarrow> (\<forall>q \<in> set (indexed xs). is_text (snd q))"
    by (auto simp: JArr validate_string_array_def raw_array_def raw_string_ok split: prod.splits)
  also have "\<dots> \<longleftrightarrow> is_text_array v" by (simp add: indexed_all JArr is_text_array_def)
  finally show ?thesis .
qed (auto simp: validate_string_array_def raw_array_def is_text_array_def)

lemma validate_optional_string_array_ok [accepts]:
  "validate_optional_string_array ms k = None \<longleftrightarrow> may_have ms k (or_null is_text_array)"
  by (simp add: validate_optional_string_array_def optional_member_ok validate_string_array_ok)

lemma validate_optional_string_or_string_array_ok [accepts]:
  "validate_optional_string_or_string_array ms k = None \<longleftrightarrow>
     may_have ms k (or_null (\<lambda>v. (\<exists>s. v = JStr s) \<or> is_text_array v))"
proof -
  have "(case v of JStr x \<Rightarrow> err_of (raw_string v k) | _ \<Rightarrow> validate_string_array v k) = None \<longleftrightarrow>
      (\<exists>s. v = JStr s) \<or> is_text_array v" for v
    by (cases v) (simp_all add: validate_string_array_ok raw_string_ok is_text_def is_text_array_def)
  then show ?thesis
    by (simp add: validate_optional_string_or_string_array_def optional_member_ok)
qed

lemma first_error_indexed:
  assumes "\<And>i x. f i x = None \<longleftrightarrow> P x"
  shows "first_error (\<lambda>(i, x). f i x) (indexed xs) = None \<longleftrightarrow> (\<forall>x \<in> set xs. P x)"
proof -
  have "first_error (\<lambda>(i, x). f i x) (indexed xs) = None \<longleftrightarrow> (\<forall>q \<in> set (indexed xs). P (snd q))"
    using assms by (auto split: prod.splits)
  then show ?thesis by (simp add: indexed_all)
qed

lemma has_text_member:
  "s \<noteq> [] \<Longrightarrow> has_member ms k (\<lambda>v. to_string v = Some s) \<longleftrightarrow> has_member ms k (\<lambda>v. v = JStr s)"
  by (auto simp: has_member_def to_string_Some)

lemma validate_text_block_ok: "validate_text_block p v = None \<longleftrightarrow> text_block v"
proof (cases v)
  case (JObj ms)
  have "validate_text_block p v = None \<longleftrightarrow> only_fields text_block_fields ms
      \<and> required_string ms ''type'' (p @ ''.type'') = Inr ''text'' \<and> has_member ms ''text'' is_text"
    by (auto simp: JObj validate_text_block_def raw_object_def accepts split: sum.splits)
  then show ?thesis by (simp add: text_block_def JObj required_string_Inr has_text_member)
qed (simp_all add: validate_text_block_def raw_object_def text_block_def)

lemma validate_text_content_ok [accepts]:
  "validate_text_content c p = None \<longleftrightarrow> (\<exists>v. c = Some v \<and> text_content v)"
proof (cases c)
  case (Some v)
  have "first_error (\<lambda>(i, b). validate_text_block (at_index p i) b) (indexed bs) = None \<longleftrightarrow>
      (\<forall>b \<in> set bs. text_block b)" for bs
    by (rule first_error_indexed) (rule validate_text_block_ok)
  with Some show ?thesis
    by (cases v) (simp_all add: validate_text_content_def text_content_def raw_array_def
        raw_string_def del: first_error_None)
qed (simp add: validate_text_content_def)

lemma validate_message_ok:
  assumes "[] \<notin> set roles"
  shows "validate_message roles reason p v = None \<longleftrightarrow> text_message roles v"
proof (cases v)
  case (JObj ms)
  have "validate_message roles reason p v = None \<longleftrightarrow> only_fields chat_message_fields ms
      \<and> (\<exists>r \<in> set roles. required_string ms ''role'' (p @ ''.role'') = Inr r)
      \<and> has_member ms ''content'' text_content"
    by (auto simp: JObj validate_message_def raw_object_def accepts has_member_def split: sum.splits)
  moreover have "(\<exists>r \<in> set roles. required_string ms ''role'' (p @ ''.role'') = Inr r) \<longleftrightarrow>
      has_member ms ''role'' (\<lambda>r. r \<in> JStr ` set roles)"
    using assms by (auto simp: required_string_Inr has_member_def to_string_Some)
  ultimately show ?thesis by (simp add: text_message_def JObj)
qed (simp_all add: validate_message_def raw_object_def text_message_def)

lemma validate_gemini_part_ok:
  "validate_gemini_part p v = None \<longleftrightarrow>
     (\<exists>qs. v = JObj qs \<and> only_fields gemini_part_fields qs \<and> has_member qs ''text'' is_text)"
  by (cases v) (auto simp: validate_gemini_part_def raw_object_def accepts)

lemma validate_gemini_role_ok:
  "validate_gemini_role ms p = None \<longleftrightarrow>
     may_have ms ''role'' (\<lambda>r. r = JStr ''user'' \<or> r = JStr ''model'')"
proof (cases "member_of ms ''role''")
  case (Some v)
  then show ?thesis
    by (cases v) (auto simp: validate_gemini_role_def may_have_def raw_string_def)
qed (simp add: validate_gemini_role_def may_have_def)

lemma validate_gemini_content_ok [accepts]:
  "validate_gemini_content v p = None \<longleftrightarrow> gemini_content v"
proof (cases v)
  case (JObj ms)
  let ?part = "\<lambda>x. \<exists>qs. x = JObj qs \<and> only_fields gemini_part_fields qs \<and> has_member qs ''text'' is_text"
  have parts: "first_error (\<lambda>(i, part). validate_gemini_part (at_index (p @ ''.parts'') i) part)
      (indexed xs) = None \<longleftrightarrow> (\<forall>x \<in> set xs. ?part x)" for xs
    by (rule first_error_indexed) (rule validate_gemini_part_ok)
  have "(case required_array ms ''parts'' of
          Inl e \<Rightarrow> Some (invalid_field (p @ ''.parts'') ''must be an array'')
        | Inr parts \<Rightarrow>
            first_error (\<lambda>(i, part). validate_gemini_part (at_index (p @ ''.parts'') i) part)
              (indexed parts)) = None \<longleftrightarrow>
      has_member ms ''parts'' (\<lambda>ps. \<exists>xs. ps = JArr xs \<and> (\<forall>x \<in> set xs. ?part x))"
    unfolding has_member_def [of ms "''parts''"]
    by (cases "required_array ms ''parts''"; cases "member_of ms ''parts''")
       (auto simp: parts required_array_def raw_array_def split: json.splits
          simp del: first_error_None)
  then show ?thesis
    unfolding validate_gemini_content_def gemini_content_def
    by (simp add: JObj raw_object_def validate_gemini_role_ok accepts)
qed (simp_all add: validate_gemini_content_def raw_object_def gemini_content_def)

definition generation_config :: "json \<Rightarrow> bool" where
  "generation_config v \<longleftrightarrow> (\<exists>ms. v = JObj ms \<and> only_fields gemini_generation_fields ms
     \<and> (\<forall>k \<in> {''candidateCount'', ''maxOutputTokens'', ''topK''}. may_have ms k (or_null is_integer))
     \<and> (\<forall>k \<in> {''temperature'', ''topP''}. may_have ms k (or_null is_number))
     \<and> may_have ms ''stopSequences'' (or_null is_text_array))"

definition safety_setting :: "json \<Rightarrow> bool" where
  "safety_setting v \<longleftrightarrow> (\<exists>ms. v = JObj ms \<and> only_fields gemini_safety_setting_keys ms
     \<and> has_member ms ''category'' is_text \<and> has_member ms ''threshold'' is_text)"

lemma validate_generation_config_ok:
  "validate_generation_config v = None \<longleftrightarrow> generation_config v"
  by (cases v) (simp_all add: validate_generation_config_def generation_config_def raw_object_def
      accepts conj_ac)

lemma validate_safety_setting_ok: "validate_safety_setting p v = None \<longleftrightarrow> safety_setting v"
  by (cases v) (simp_all add: validate_safety_setting_def safety_setting_def raw_object_def accepts)

lemma validate_safety_settings_ok:
  "validate_safety_settings v = None \<longleftrightarrow> (\<exists>xs. v = JArr xs \<and> (\<forall>x \<in> set xs. safety_setting x))"
proof (cases v)
  case (JArr xs)
  have "first_error (\<lambda>(i, s). validate_safety_setting (at_index ''safetySettings'' i) s)
      (indexed xs) = None \<longleftrightarrow> (\<forall>x \<in> set xs. safety_setting x)"
    by (rule first_error_indexed) (rule validate_safety_setting_ok)
  then show ?thesis by (simp add: validate_safety_settings_def JArr raw_array_def del: first_error_None)
qed (simp_all add: validate_safety_settings_def raw_array_def)

lemma if_present_ok: "if_present ms k f = None \<longleftrightarrow> may_have ms k (\<lambda>v. f v = None)"
  by (auto simp: if_present_def may_have_def split: option.splits)

subsection \<open>The documents each API accepts\<close>

definition openai_text_document :: "members \<Rightarrow> bool" where
  "openai_text_document ms \<longleftrightarrow>
     has_member ms ''messages'' (\<lambda>v. \<exists>xs. v = JArr xs \<and> (\<forall>x \<in> set xs. text_message openai_roles x))
     \<and> (\<forall>k \<in> {''frequency_penalty'', ''presence_penalty'', ''temperature'', ''top_p''}.
          may_have ms k (or_null is_number))
     \<and> (\<forall>k \<in> {''max_completion_tokens'', ''max_tokens'', ''n'', ''seed''}.
          may_have ms k (or_null is_integer))
     \<and> may_have ms ''stream'' (or_null is_bool)
     \<and> may_have ms ''stop'' (or_null (\<lambda>v. (\<exists>s. v = JStr s) \<or> is_text_array v))"

definition anthropic_text_document :: "members \<Rightarrow> bool" where
  "anthropic_text_document ms \<longleftrightarrow>
     has_member ms ''messages'' (\<lambda>v. \<exists>xs. v = JArr xs \<and> (\<forall>x \<in> set xs. text_message anthropic_roles x))
     \<and> may_have ms ''system'' text_content
     \<and> has_member ms ''max_tokens'' is_integer
     \<and> (\<forall>k \<in> {''temperature'', ''top_p''}. may_have ms k (or_null is_number))
     \<and> may_have ms ''top_k'' (or_null is_integer)
     \<and> may_have ms ''stream'' (or_null is_bool)
     \<and> may_have ms ''stop_sequences'' (or_null is_text_array)"

definition gemini_text_document :: "members \<Rightarrow> bool" where
  "gemini_text_document ms \<longleftrightarrow>
     has_member ms ''contents'' (\<lambda>v. \<exists>xs. v = JArr xs \<and> (\<forall>x \<in> set xs. gemini_content x))
     \<and> may_have ms ''systemInstruction'' gemini_content
     \<and> may_have ms ''generationConfig'' generation_config
     \<and> may_have ms ''safetySettings'' (\<lambda>v. \<exists>xs. v = JArr xs \<and> (\<forall>x \<in> set xs. safety_setting x))"

lemma array_then_rest:
  assumes "\<And>xs. f xs = None \<longleftrightarrow> (\<forall>x \<in> set xs. P x) \<and> Q"
  shows "(case required_array ms k of Inl e \<Rightarrow> Some e | Inr xs \<Rightarrow> f xs) = None \<longleftrightarrow>
    has_member ms k (\<lambda>v. \<exists>xs. v = JArr xs \<and> (\<forall>x \<in> set xs. P x)) \<and> Q"
  using assms
  by (cases "member_of ms k")
     (auto simp: has_member_def required_array_def raw_array_def split: json.splits)

lemma decode_then:
  assumes "\<And>ms. f ms = None \<longleftrightarrow> P ms"
  shows "(case decode_object body of Inl e \<Rightarrow> Some e | Inr ms \<Rightarrow> f ms) = None \<longleftrightarrow>
    (\<exists>ms. decode_object body = Inr ms \<and> P ms)"
  using assms by (cases "decode_object body") auto

lemma openai_messages_ok:
  "first_error (\<lambda>(i, raw). validate_message openai_roles reason (at_index p i) raw) (indexed xs)
     = None \<longleftrightarrow> (\<forall>x \<in> set xs. text_message openai_roles x)"
  by (intro first_error_indexed validate_message_ok) (simp add: openai_roles_def)

lemma anthropic_messages_ok:
  "first_error (\<lambda>(i, raw). validate_message anthropic_roles reason (at_index p i) raw) (indexed xs)
     = None \<longleftrightarrow> (\<forall>x \<in> set xs. text_message anthropic_roles x)"
  by (intro first_error_indexed validate_message_ok) (simp add: anthropic_roles_def)

lemma gemini_contents_ok:
  "first_error (\<lambda>(i, raw). validate_gemini_content raw (at_index p i)) (indexed xs) = None \<longleftrightarrow>
     (\<forall>x \<in> set xs. gemini_content x)"
  by (rule first_error_indexed) (rule validate_gemini_content_ok)

text \<open>
  C9: \<open>ValidateOpenAIChatTextRequest\<close> accepts exactly the bodies that are one JSON object,
  without duplicate keys and no deeper than 64, whose \<open>messages\<close> is an array of text messages
  of the four roles (role and content only, every content block of type text) and whose sampling
  members, where present and not null, are finite numbers, 64-bit integers, booleans and strings.
\<close>

theorem openai_text_exact:
  "validate_openai_chat_text_request body = None \<longleftrightarrow>
     (\<exists>ms. body = lex (JObj ms) \<and> jdepth (JObj ms) \<le> 64 \<and> unique_keys (JObj ms)
       \<and> openai_text_document ms)"
proof -
  have "validate_openai_chat_text_request body = None \<longleftrightarrow>
      (\<exists>ms. decode_object body = Inr ms \<and> openai_text_document ms)"
    unfolding validate_openai_chat_text_request_def openai_text_document_def
    by (intro decode_then array_then_rest)
       (simp add: accepts openai_messages_ok del: first_error_None)
  then show ?thesis by (simp add: decode_object_Inr conj_ac del: lex.simps jdepth.simps unique_keys.simps)
qed

text \<open>
  \<open>ValidateAnthropicTextRequest\<close> accepts exactly the unduplicated, bounded JSON objects
  whose messages are user or assistant text messages, whose \<open>system\<close> is text content if it is
  there, whose \<open>max_tokens\<close> is a 64-bit integer and must be there, and whose optional
  members are null or of their type.
\<close>

theorem anthropic_text_exact:
  "validate_anthropic_text_request body = None \<longleftrightarrow>
     (\<exists>ms. body = lex (JObj ms) \<and> jdepth (JObj ms) \<le> 64 \<and> unique_keys (JObj ms)
       \<and> anthropic_text_document ms)"
proof -
  have "validate_anthropic_text_request body = None \<longleftrightarrow>
      (\<exists>ms. decode_object body = Inr ms \<and> anthropic_text_document ms)"
    unfolding validate_anthropic_text_request_def anthropic_text_document_def
    by (intro decode_then array_then_rest)
       (simp add: accepts anthropic_messages_ok if_present_ok del: first_error_None)
  then show ?thesis by (simp add: decode_object_Inr conj_ac del: lex.simps jdepth.simps unique_keys.simps)
qed

text \<open>
  \<open>ValidateGeminiTextRequest\<close> accepts exactly the unduplicated, bounded JSON objects whose
  contents and system instruction are text parts with role user or model, and whose generation
  config and safety settings hold only the documented members at their types.
\<close>

theorem gemini_text_exact:
  "validate_gemini_text_request body = None \<longleftrightarrow>
     (\<exists>ms. body = lex (JObj ms) \<and> jdepth (JObj ms) \<le> 64 \<and> unique_keys (JObj ms)
       \<and> gemini_text_document ms)"
proof -
  have "validate_gemini_text_request body = None \<longleftrightarrow>
      (\<exists>ms. decode_object body = Inr ms \<and> gemini_text_document ms)"
    unfolding validate_gemini_text_request_def gemini_text_document_def
    by (intro decode_then array_then_rest)
       (simp add: accepts gemini_contents_ok if_present_ok validate_generation_config_ok
          validate_safety_settings_ok del: first_error_None)
  then show ?thesis by (simp add: decode_object_Inr conj_ac del: lex.simps jdepth.simps unique_keys.simps)
qed

end
