(* ===== verification/Provider.thy ===== *)
theory Provider
  imports Native_Text
begin

text \<open>
  \<open>internal/provider\<close> and its four adapters: credentials, the registry, and what each adapter
  sends upstream for a native request.  Headers are lists of canonical names with one value;
  endpoints are the strings of \<open>provider.Endpoint\<close>.
\<close>

subsection \<open>Errors and headers\<close>

datatype go_error =
    Codec codec_error \<comment> \<open>a \<open>*nativecodec.Error\<close>\<close>
  | Failure_Text string \<comment> \<open>\<open>errors.New\<close>\<close>

type_synonym header = "(string \<times> string) list"

definition header_get :: "header \<Rightarrow> string \<Rightarrow> string" where
  "header_get h name = (case map_of h name of None \<Rightarrow> [] | Some v \<Rightarrow> v)"

definition header_set :: "string \<Rightarrow> string \<Rightarrow> header \<Rightarrow> header" where
  "header_set name v h = (name, v) # filter (\<lambda>p. fst p \<noteq> name) h"

lemma header_get_set [simp]:
  "header_get (header_set name v h) name' = (if name' = name then v else header_get h name')"
proof -
  have "map_of (filter (\<lambda>p. fst p \<noteq> name) h) name' = map_of h name'" if "name' \<noteq> name"
    using that by (induction h) auto
  then show ?thesis by (auto simp: header_get_def header_set_def)
qed

lemma header_set_names: "fst ` set (header_set name v h) = insert name (fst ` set h)"
  by (auto simp: header_set_def image_iff)

subsection \<open>credential.go\<close>

datatype credential_kind = ApiKey | OAuthToken

record credential =
  cred_kind :: credential_kind
  cred_secret :: string
  cred_project :: string

definition new_credential ::
  "credential_kind \<Rightarrow> string \<Rightarrow> string \<Rightarrow> go_error + credential"
where
  "new_credential kind v project =
     (if trim_space v = [] \<or> contains_any v [CHR 0x0D, CHR 0x0A, CHR 0x00]
      then Inl (Failure_Text ''credential is invalid'')
      else Inr \<lparr>cred_kind = kind, cred_secret = v, cred_project = trim_space project\<rparr>)"

definition new_api_key :: "string \<Rightarrow> go_error + credential" where
  "new_api_key v = new_credential ApiKey v []"

definition new_oauth_token :: "string \<Rightarrow> string \<Rightarrow> go_error + credential" where
  "new_oauth_token v project = new_credential OAuthToken v project"

definition set_header :: "credential \<Rightarrow> header \<Rightarrow> string \<Rightarrow> string \<Rightarrow> go_error + header" where
  "set_header c h name prefix =
     (if cred_secret c = [] then Inl (Failure_Text ''credential is empty'')
      else Inr (header_set name (prefix @ cred_secret c) h))"

definition set_google_project :: "credential \<Rightarrow> header \<Rightarrow> header" where
  "set_google_project c h =
     (if cred_project c \<noteq> [] then header_set ''X-Goog-User-Project'' (cred_project c) h else h)"

subsection \<open>provider.go\<close>

abbreviation "chat_completions \<equiv> ''chat_completions''"
abbreviation "messages_endpoint \<equiv> ''messages''"
abbreviation "generate_content \<equiv> ''generate_content''"
abbreviation "stream_generate_content \<equiv> ''stream_generate_content''"

record prepare_input =
  in_endpoint :: string
  in_body :: "lexeme list"
  in_upstream_model :: string
  in_headers :: header

record native_request =
  nr_method :: string
  nr_path :: string
  nr_query :: "(string \<times> string) list"
  nr_header :: header
  nr_body :: "lexeme list"
  nr_stream :: bool

record adapter =
  adapter_id :: string
  adapter_version :: string \<comment> \<open>\<open>Version@VerifiedAgainst\<close> of the descriptor\<close>
  adapter_auth_methods :: "string list"
  adapter_capabilities :: "string list"
  adapter_endpoints :: "string list"
  prepare :: "prepare_input \<Rightarrow> go_error + native_request"
  probe :: native_request
  authorize :: "header \<Rightarrow> credential \<Rightarrow> go_error + header"

type_synonym registry = "(string \<times> adapter) list"

fun register_all :: "registry \<Rightarrow> adapter list \<Rightarrow> go_error + registry" where
  "register_all reg [] = Inr reg"
| "register_all reg (a # as) =
     (if adapter_id a = [] then Inl (Failure_Text ''provider adapter has no identifier'')
      else if map_of reg (adapter_id a) \<noteq> None
      then Inl (Failure_Text ''duplicate provider adapter'')
      else register_all ((adapter_id a, a) # reg) as)"

definition new_registry :: "adapter list \<Rightarrow> go_error + registry" where
  "new_registry adapters = register_all [] adapters"

definition registry_get :: "registry \<Rightarrow> string \<Rightarrow> adapter option" where
  "registry_get reg name = map_of reg name"

definition from_codec :: "codec_error + 'a \<Rightarrow> go_error + 'a" where
  "from_codec r = (case r of Inl e \<Rightarrow> Inl (Codec e) | Inr x \<Rightarrow> Inr x)"

lemma from_codec_Inr [simp]: "from_codec r = Inr x \<longleftrightarrow> r = Inr x"
  by (cases r) (auto simp: from_codec_def)

definition json_headers :: "bool \<Rightarrow> header" where
  "json_headers stream =
     header_set ''Accept'' (if stream then ''text/event-stream'' else ''application/json'')
       (header_set ''Content-Type'' ''application/json'' [])"

definition unsupported :: "string \<Rightarrow> go_error" where
  "unsupported m = Codec (codec_error ''capability_not_supported'' (Plain m))"

definition after_validate :: "codec_error option \<Rightarrow> go_error + 'a \<Rightarrow> go_error + 'a" where
  "after_validate v r = (case v of Some e \<Rightarrow> Inl (Codec e) | None \<Rightarrow> r)"

lemma after_validate_Inr [simp]: "after_validate v r = Inr x \<longleftrightarrow> v = None \<and> r = Inr x"
  by (simp add: after_validate_def split: option.split)

subsection \<open>openai/openai.go\<close>

definition chat_fields :: "string list" where
  "chat_fields =
     [''frequency_penalty'', ''max_completion_tokens'', ''max_tokens'', ''messages'', ''model'', ''n'',
      ''presence_penalty'', ''seed'', ''stop'', ''stream'', ''temperature'', ''top_p'']"

definition openai_prepare :: "prepare_input \<Rightarrow> go_error + native_request" where
  "openai_prepare i =
     (if in_endpoint i \<noteq> chat_completions then Inl (unsupported ''OpenAI endpoint is not supported'')
      else after_validate (validate_openai_chat_text_request (in_body i))
        (and_then (from_codec (rewrite_request (in_body i) chat_fields (in_upstream_model i) True))
          (\<lambda>(body, info). Inr \<lparr>nr_method = ''POST'', nr_path = ''/v1/chat/completions'', nr_query = [],
             nr_header = json_headers (info_stream info), nr_body = body,
             nr_stream = info_stream info\<rparr>)))"

definition bearer_authorize :: "string \<Rightarrow> header \<Rightarrow> credential \<Rightarrow> go_error + header" where
  "bearer_authorize reason h c =
     (if cred_kind c \<noteq> ApiKey then Inl (Failure_Text reason)
      else set_header c h ''Authorization'' ''Bearer '')"

definition probe_request :: "string \<Rightarrow> header \<Rightarrow> native_request" where
  "probe_request path h =
     \<lparr>nr_method = ''GET'', nr_path = path, nr_query = [], nr_header = h, nr_body = [], nr_stream = False\<rparr>"

definition openai_adapter :: adapter where
  "openai_adapter =
     \<lparr>adapter_id = ''openai'', adapter_version = ''0.2.0@2026-07-17'', adapter_auth_methods = [''api_key''],
      adapter_capabilities = [''text'', ''stream''], adapter_endpoints = [chat_completions],
      prepare = openai_prepare, probe = probe_request ''/v1/models'' (json_headers False),
      authorize = bearer_authorize ''OpenAI adapter requires an API key''\<rparr>"

subsection \<open>xai/xai.go\<close>

definition xai_prepare :: "prepare_input \<Rightarrow> go_error + native_request" where
  "xai_prepare i =
     (if in_endpoint i \<noteq> chat_completions then Inl (unsupported ''xAI endpoint is not supported'')
      else after_validate (validate_openai_chat_text_request (in_body i))
        (and_then (from_codec (rewrite_request (in_body i) chat_fields (in_upstream_model i) True))
          (\<lambda>(body, info). Inr \<lparr>nr_method = ''POST'', nr_path = ''/v1/chat/completions'', nr_query = [],
             nr_header = json_headers (info_stream info), nr_body = body,
             nr_stream = info_stream info\<rparr>)))"

definition xai_adapter :: adapter where
  "xai_adapter =
     \<lparr>adapter_id = ''xai'', adapter_version = ''0.2.0@2026-07-17'', adapter_auth_methods = [''api_key''],
      adapter_capabilities = [''text'', ''stream''], adapter_endpoints = [chat_completions],
      prepare = xai_prepare,
      probe = probe_request ''/v1/models'' (header_set ''Accept'' ''application/json'' []),
      authorize = bearer_authorize ''xAI adapter requires an API key''\<rparr>"

subsection \<open>anthropic/anthropic.go\<close>

definition message_fields :: "string list" where
  "message_fields =
     [''max_tokens'', ''messages'', ''model'', ''stop_sequences'', ''stream'', ''system'',
      ''temperature'', ''top_k'', ''top_p'']"

definition anthropic_version :: string where
  "anthropic_version = ''2023-06-01''"

definition anthropic_prepare :: "prepare_input \<Rightarrow> go_error + native_request" where
  "anthropic_prepare i =
     (if in_endpoint i \<noteq> messages_endpoint
      then Inl (unsupported ''Anthropic endpoint is not supported'')
      else after_validate (validate_anthropic_text_request (in_body i))
        (and_then (from_codec (rewrite_request (in_body i) message_fields (in_upstream_model i) True))
          (\<lambda>(body, info).
             let sent = trim_space (header_get (in_headers i) ''Anthropic-Version'');
                 version = (if sent = [] then anthropic_version else sent) in
             if version \<noteq> anthropic_version
             then Inl (unsupported ''anthropic-version is not verified for the v0.2 text endpoint'')
             else if trim_space (header_get (in_headers i) ''Anthropic-Beta'') \<noteq> []
             then Inl (unsupported ''anthropic-beta is not verified for the v0.2 text endpoint'')
             else Inr \<lparr>nr_method = ''POST'', nr_path = ''/v1/messages'', nr_query = [],
               nr_header = header_set ''Anthropic-Version'' version (json_headers (info_stream info)),
               nr_body = body, nr_stream = info_stream info\<rparr>)))"

definition anthropic_authorize :: "header \<Rightarrow> credential \<Rightarrow> go_error + header" where
  "anthropic_authorize h c =
     (if cred_kind c \<noteq> ApiKey then Inl (Failure_Text ''Anthropic adapter requires an API key'')
      else set_header c h ''X-Api-Key'' [])"

definition anthropic_adapter :: adapter where
  "anthropic_adapter =
     \<lparr>adapter_id = ''anthropic'', adapter_version = ''0.2.0@2026-07-17'', adapter_auth_methods = [''api_key''],
      adapter_capabilities = [''text'', ''stream''], adapter_endpoints = [messages_endpoint],
      prepare = anthropic_prepare,
      probe = probe_request ''/v1/models''
        (header_set ''Anthropic-Version'' anthropic_version (header_set ''Accept'' ''application/json'' [])),
      authorize = anthropic_authorize\<rparr>"

subsection \<open>google/google.go\<close>

definition generate_fields :: "string list" where
  "generate_fields = [''contents'', ''generationConfig'', ''safetySettings'', ''systemInstruction'']"

definition unsafe_model_chars :: string where
  "unsafe_model_chars =
     [CHR 0x2F, CHR 0x5C, CHR 0x25, CHR 0x3F, CHR 0x23, CHR 0x0D, CHR 0x0A, CHR 0x00]"

definition google_prepare :: "prepare_input \<Rightarrow> go_error + native_request" where
  "google_prepare i =
     (let stream = (in_endpoint i = stream_generate_content) in
      if in_endpoint i \<noteq> generate_content \<and> \<not> stream
      then Inl (unsupported ''Google endpoint is not supported'')
      else after_validate (validate_gemini_text_request (in_body i))
        (and_then (from_codec (rewrite_request (in_body i) generate_fields [] False))
          (\<lambda>(body, _).
             let model = in_upstream_model i in
             if model = [] \<or> length model > 200 \<or> contains_any model unsafe_model_chars
             then Inl (Failure_Text ''configured Google model identifier is invalid'')
             else Inr \<lparr>nr_method = ''POST'',
               nr_path = ''/v1beta/models/'' @ model @
                 (if stream then '':streamGenerateContent'' else '':generateContent''),
               nr_query = (if stream then [(''alt'', ''sse'')] else []),
               nr_header = json_headers stream, nr_body = body, nr_stream = stream\<rparr>)))"

definition google_authorize :: "header \<Rightarrow> credential \<Rightarrow> go_error + header" where
  "google_authorize h c =
     (case cred_kind c of
        ApiKey \<Rightarrow> set_header c h ''X-Goog-Api-Key'' []
      | OAuthToken \<Rightarrow>
          and_then (set_header c h ''Authorization'' ''Bearer '')
            (\<lambda>h'. Inr (set_google_project c h')))"

definition google_adapter :: adapter where
  "google_adapter =
     \<lparr>adapter_id = ''google'', adapter_version = ''0.2.0@2026-07-17'', adapter_auth_methods = [''api_key'', ''oauth_beta''],
      adapter_capabilities = [''text'', ''stream''],
      adapter_endpoints = [generate_content, stream_generate_content],
      prepare = google_prepare,
      probe = probe_request ''/v1beta/models'' (header_set ''Accept'' ''application/json'' []),
      authorize = google_authorize\<rparr>"

definition all_adapters :: "adapter list" where
  "all_adapters = [openai_adapter, anthropic_adapter, google_adapter, xai_adapter]"

subsection \<open>Lemmas\<close>

lemma json_headers_names: "fst ` set (json_headers b) = {''Accept'', ''Content-Type''}"
  by (simp add: json_headers_def header_set_names)

lemma json_headers_accept [simp]:
  "header_get (json_headers b) ''Accept'' =
     (if b then ''text/event-stream'' else ''application/json'')"
  by (simp add: json_headers_def)

lemma openai_text_document_model:
  assumes "\<And>k. k \<noteq> ''model'' \<Longrightarrow> member_of ms' k = member_of ms k"
  shows "openai_text_document ms' \<longleftrightarrow> openai_text_document ms"
  using assms by (simp add: openai_text_document_def has_member_def may_have_def)

lemma anthropic_text_document_model:
  assumes "\<And>k. k \<noteq> ''model'' \<Longrightarrow> member_of ms' k = member_of ms k"
  shows "anthropic_text_document ms' \<longleftrightarrow> anthropic_text_document ms"
  using assms by (simp add: anthropic_text_document_def has_member_def may_have_def)

lemma gemini_text_document_same:
  assumes "\<And>k. member_of ms' k = member_of ms k"
  shows "gemini_text_document ms' \<longleftrightarrow> gemini_text_document ms"
  using assms by (simp add: gemini_text_document_def has_member_def may_have_def)

lemma openai_valid:
  "validate_openai_chat_text_request body = None \<longleftrightarrow>
     (\<exists>ms. decode_object body = Inr ms \<and> openai_text_document ms)"
  unfolding validate_openai_chat_text_request_def openai_text_document_def
  by (intro decode_then array_then_rest) (simp add: accepts openai_messages_ok del: first_error_None)

lemma anthropic_valid:
  "validate_anthropic_text_request body = None \<longleftrightarrow>
     (\<exists>ms. decode_object body = Inr ms \<and> anthropic_text_document ms)"
  unfolding validate_anthropic_text_request_def anthropic_text_document_def
  by (intro decode_then array_then_rest)
     (simp add: accepts anthropic_messages_ok if_present_ok del: first_error_None)

lemma gemini_valid:
  "validate_gemini_text_request body = None \<longleftrightarrow>
     (\<exists>ms. decode_object body = Inr ms \<and> gemini_text_document ms)"
  unfolding validate_gemini_text_request_def gemini_text_document_def
  by (intro decode_then array_then_rest)
     (simp add: accepts gemini_contents_ok if_present_ok validate_generation_config_ok
        validate_safety_settings_ok del: first_error_None)

text \<open>A rewritten request: what is sent, in terms of what came in.\<close>

lemma rewritten:
  assumes "rewrite_request body allowed up req = Inr (out, info)"
  shows "\<exists>ms ms'. decode_object body = Inr ms \<and> decode_object out = Inr ms'
    \<and> fst ` set ms' \<subseteq> insert ''model'' (set allowed)
    \<and> info_stream info = (member_of ms ''stream'' = Some (JBool True))
    \<and> (\<forall>k. member_of ms' k = (if req \<and> k = ''model'' then Some (JStr up) else member_of ms k))"
proof -
  from assms obtain ms where ms: "decode_object body = Inr ms" "fst ` set ms \<subseteq> set allowed"
      "inspect_object ms req = Inr info"
      "out = lex (marshal_map (if req then set_member ''model'' (JStr up) ms else ms))"
    unfolding rewrite_request_Inr by blast
  let ?new = "if req then set_member ''model'' (JStr up) ms else ms"
  have "\<forall>m \<in> set ?new. well_formed 63 (snd m)"
    using decode_object_members [OF ms(1)] set_member_all by auto
  then obtain ms' where ms': "decode_object out = Inr ms'" "map fst ms' = keys_of ?new"
      "\<forall>k. member_of ms' k = member_of ?new k"
    using decode_marshal ms(4) by blast
  have "fst ` set ms' = fst ` set ?new" using ms'(2) by (metis list.set_map set_keys_of)
  then have "fst ` set ms' \<subseteq> insert ''model'' (set allowed)"
    using ms(2) by (auto simp: keys_of_set_member split: if_splits)
  moreover have "info_stream info = (member_of ms ''stream'' = Some (JBool True))"
    using ms(3)
    by (auto simp: inspect_object_def inspect_stream_def to_bool_Some split: if_splits option.splits)
  ultimately show ?thesis using ms(1) ms' by auto
qed

lemma openai_prepare_Inr:
  "openai_prepare i = Inr nr \<longleftrightarrow>
     in_endpoint i = chat_completions \<and> validate_openai_chat_text_request (in_body i) = None
     \<and> (\<exists>body info. rewrite_request (in_body i) chat_fields (in_upstream_model i) True = Inr (body, info)
         \<and> nr = \<lparr>nr_method = ''POST'', nr_path = ''/v1/chat/completions'', nr_query = [],
                  nr_header = json_headers (info_stream info), nr_body = body,
                  nr_stream = info_stream info\<rparr>)"
  by (auto simp: openai_prepare_def)

lemma xai_prepare_Inr: "xai_prepare i = Inr nr \<longleftrightarrow> openai_prepare i = Inr nr"
  by (auto simp: openai_prepare_def xai_prepare_def)

lemma anthropic_prepare_Inr:
  "anthropic_prepare i = Inr nr \<longleftrightarrow>
     in_endpoint i = messages_endpoint \<and> validate_anthropic_text_request (in_body i) = None
     \<and> trim_space (header_get (in_headers i) ''Anthropic-Version'') \<in> {[], anthropic_version}
     \<and> trim_space (header_get (in_headers i) ''Anthropic-Beta'') = []
     \<and> (\<exists>body info. rewrite_request (in_body i) message_fields (in_upstream_model i) True = Inr (body, info)
         \<and> nr = \<lparr>nr_method = ''POST'', nr_path = ''/v1/messages'', nr_query = [],
                  nr_header = header_set ''Anthropic-Version'' anthropic_version
                    (json_headers (info_stream info)), nr_body = body,
                  nr_stream = info_stream info\<rparr>)"
  by (auto simp: anthropic_prepare_def Let_def split: if_splits)

lemma google_prepare_Inr:
  "google_prepare i = Inr nr \<longleftrightarrow>
     in_endpoint i \<in> {generate_content, stream_generate_content}
     \<and> validate_gemini_text_request (in_body i) = None
     \<and> in_upstream_model i \<noteq> [] \<and> length (in_upstream_model i) \<le> 200
     \<and> \<not> contains_any (in_upstream_model i) unsafe_model_chars
     \<and> (\<exists>body info. rewrite_request (in_body i) generate_fields [] False = Inr (body, info)
         \<and> nr = (let stream = (in_endpoint i = stream_generate_content) in
             \<lparr>nr_method = ''POST'', nr_path = ''/v1beta/models/'' @ in_upstream_model i @
                 (if stream then '':streamGenerateContent'' else '':generateContent''),
              nr_query = (if stream then [(''alt'', ''sse'')] else []),
              nr_header = json_headers stream, nr_body = body, nr_stream = stream\<rparr>))"
  by (auto simp: google_prepare_def Let_def split: if_splits)

subsection \<open>Properties\<close>

text \<open>
  What an OpenAI or xAI request is when it leaves the gateway: it still passes the text
  validator, holds only the listed chat fields, names the upstream model, streams exactly when the
  client's body asked to, and every other member is the client's.
\<close>

theorem chat_prepare_sound:
  assumes "openai_prepare i = Inr nr \<or> xai_prepare i = Inr nr"
  shows "validate_openai_chat_text_request (nr_body nr) = None
    \<and> (\<exists>ms ms'. decode_object (in_body i) = Inr ms \<and> decode_object (nr_body nr) = Inr ms'
        \<and> fst ` set ms' \<subseteq> set chat_fields
        \<and> member_of ms' ''model'' = Some (JStr (in_upstream_model i))
        \<and> (\<forall>k. k \<noteq> ''model'' \<longrightarrow> member_of ms' k = member_of ms k)
        \<and> nr_stream nr = (member_of ms ''stream'' = Some (JBool True)))"
proof -
  from assms have "openai_prepare i = Inr nr" by (auto simp: xai_prepare_Inr)
  then obtain body info where v: "validate_openai_chat_text_request (in_body i) = None"
      and r: "rewrite_request (in_body i) chat_fields (in_upstream_model i) True = Inr (body, info)"
      and nr: "nr_body nr = body" "nr_stream nr = info_stream info"
    by (auto simp: openai_prepare_Inr)
  from rewritten [OF r] obtain ms ms' where ms: "decode_object (in_body i) = Inr ms"
      "decode_object body = Inr ms'" "fst ` set ms' \<subseteq> insert ''model'' (set chat_fields)"
      "info_stream info = (member_of ms ''stream'' = Some (JBool True))"
      "\<forall>k. member_of ms' k = (if k = ''model'' then Some (JStr (in_upstream_model i)) else member_of ms k)"
    by auto
  have "openai_text_document ms'"
    using v ms(1) openai_text_document_model [of ms' ms] ms(5) by (auto simp: openai_valid)
  then have "validate_openai_chat_text_request body = None" using ms(2) openai_valid by blast
  moreover have "fst ` set ms' \<subseteq> set chat_fields" using ms(3) by (auto simp: chat_fields_def)
  ultimately show ?thesis using ms nr by auto
qed

definition sample_chat :: prepare_input where
  "sample_chat =
     \<lparr>in_endpoint = chat_completions,
      in_body = lex (JObj [(''model'', JStr ''pub''), (''stream'', JBool True),
        (''messages'', JArr [JObj [(''role'', JStr ''user''), (''content'', JStr ''hi'')]])]),
      in_upstream_model = ''up'', in_headers = []\<rparr>"

definition sample_sent :: native_request where
  "sample_sent =
     \<lparr>nr_method = ''POST'', nr_path = ''/v1/chat/completions'', nr_query = [],
      nr_header = json_headers True,
      nr_body = lex (JObj [(''messages'', JArr [JObj [(''role'', JStr ''user''), (''content'', JStr ''hi'')]]),
        (''model'', JStr ''up''), (''stream'', JBool True)]), nr_stream = True\<rparr>"

lemma sample_chat_prepared: "openai_prepare sample_chat = Inr sample_sent"
  by code_simp

theorem chat_prepare_sound_witness:
  "validate_openai_chat_text_request (nr_body sample_sent) = None \<and> nr_stream sample_sent"
  using chat_prepare_sound [of sample_chat sample_sent] sample_chat_prepared
  by (simp add: sample_sent_def)

text \<open>
  The client's headers never reach the upstream: whatever the client sent, a prepared request
  has only a content type, an accept header that matches its stream flag, and for Anthropic the one
  verified API version.
\<close>

theorem prepare_headers:
  assumes "a \<in> set all_adapters" "prepare a i = Inr nr"
  shows "fst ` set (nr_header nr) \<subseteq> {''Accept'', ''Content-Type'', ''Anthropic-Version''}
    \<and> header_get (nr_header nr) ''Accept'' =
        (if nr_stream nr then ''text/event-stream'' else ''application/json'')
    \<and> header_get (nr_header nr) ''Anthropic-Version'' \<in> {[], anthropic_version}
    \<and> nr_method nr = ''POST''"
proof -
  have get: "header_get (json_headers b) ''Anthropic-Version'' = []" for b
    by (simp add: json_headers_def header_get_def header_set_def)
  consider "openai_prepare i = Inr nr" | "anthropic_prepare i = Inr nr" | "google_prepare i = Inr nr"
    using assms by (auto simp: all_adapters_def openai_adapter_def anthropic_adapter_def
        google_adapter_def xai_adapter_def xai_prepare_Inr)
  then obtain b where "nr_header nr \<in> {json_headers b,
      header_set ''Anthropic-Version'' anthropic_version (json_headers b)}"
      "nr_stream nr = b" "nr_method nr = ''POST''"
    by cases (auto simp: openai_prepare_Inr anthropic_prepare_Inr google_prepare_Inr Let_def)
  then show ?thesis
    by (elim insertE emptyE) (simp_all add: json_headers_names header_set_names get)
qed

theorem prepare_headers_witness:
  "fst ` set (nr_header sample_sent) \<subseteq> {''Accept'', ''Content-Type'', ''Anthropic-Version''}"
  using prepare_headers [of openai_adapter sample_chat sample_sent] sample_chat_prepared
  by (simp add: all_adapters_def openai_adapter_def)

text \<open>
  The Gemini path cannot be steered by the configured model: it always has the three fixed
  segments and one more, made of the model and the action, with no query, fragment, escape or
  separator character, and the body sent passes the text validator.
\<close>

theorem google_prepare_path:
  assumes "google_prepare i = Inr nr"
  shows "split_on (CHR ''/'') (nr_path nr) = [[], ''v1beta'', ''models'',
      in_upstream_model i @ (if nr_stream nr then '':streamGenerateContent'' else '':generateContent'')]
    \<and> \<not> contains_any (nr_path nr) ''?#%''
    \<and> (nr_query nr = (if nr_stream nr then [(''alt'', ''sse'')] else []))
    \<and> validate_gemini_text_request (nr_body nr) = None"
proof -
  from assms obtain body info where g: "validate_gemini_text_request (in_body i) = None"
      "\<not> contains_any (in_upstream_model i) unsafe_model_chars"
      "rewrite_request (in_body i) generate_fields [] False = Inr (body, info)"
      "nr_body nr = body"
      "nr_path nr = ''/v1beta/models/'' @ in_upstream_model i @
         (if nr_stream nr then '':streamGenerateContent'' else '':generateContent'')"
      "nr_query nr = (if nr_stream nr then [(''alt'', ''sse'')] else [])"
    by (auto simp: google_prepare_Inr Let_def)
  from rewritten [OF g(3)] obtain ms ms' where "decode_object (in_body i) = Inr ms"
      "decode_object body = Inr ms'" "\<forall>k. member_of ms' k = member_of ms k"
    by auto
  then have "validate_gemini_text_request body = None"
    using g(1) gemini_text_document_same [of ms' ms] by (auto simp: gemini_valid)
  moreover have chars: "\<forall>c \<in> set (in_upstream_model i). c \<notin> set unsafe_model_chars"
    using g(2) by (simp add: not_contains_any)
  then have "CHR ''/'' \<notin> set (in_upstream_model i @
      (if nr_stream nr then '':streamGenerateContent'' else '':generateContent''))"
    by (auto simp: unsafe_model_chars_def)
  then have "split_on (CHR ''/'') (nr_path nr) = [[], ''v1beta'', ''models'',
      in_upstream_model i @ (if nr_stream nr then '':streamGenerateContent'' else '':generateContent'')]"
    unfolding g(5) using split_on_no_sep by simp
  moreover have "\<not> contains_any (nr_path nr) ''?#%''"
    using chars by (auto simp: g(5) unsafe_model_chars_def contains_any_def list_ex_iff)
  ultimately show ?thesis using g(4,6) by simp
qed

theorem google_prepare_path_witness:
  "\<exists>nr. google_prepare \<lparr>in_endpoint = stream_generate_content,
      in_body = lex (JObj [(''contents'', JArr [])]), in_upstream_model = ''gemini-pro'',
      in_headers = []\<rparr> = Inr nr
    \<and> nr_path nr = ''/v1beta/models/gemini-pro:streamGenerateContent''
    \<and> \<not> contains_any (nr_path nr) ''?#%''"
proof -
  let ?i = "\<lparr>in_endpoint = stream_generate_content,
      in_body = lex (JObj [(''contents'', JArr [])]), in_upstream_model = ''gemini-pro'',
      in_headers = []\<rparr>"
  let ?nr = "\<lparr>nr_method = ''POST'', nr_path = ''/v1beta/models/gemini-pro:streamGenerateContent'',
      nr_query = [(''alt'', ''sse'')], nr_header = json_headers True,
      nr_body = lex (JObj [(''contents'', JArr [])]), nr_stream = True\<rparr>"
  have g: "google_prepare ?i = Inr ?nr" by code_simp
  from google_prepare_path [OF g] show ?thesis
    by (intro exI [of _ ?nr] conjI g) simp_all
qed

lemma register_all_Inr:
  "register_all reg as = Inr reg' \<longleftrightarrow>
     [] \<notin> adapter_id ` set as \<and> distinct (map adapter_id as)
     \<and> (\<forall>a \<in> set as. map_of reg (adapter_id a) = None)
     \<and> reg' = rev (map (\<lambda>a. (adapter_id a, a)) as) @ reg"
  by (induction as arbitrary: reg) (auto simp: map_of_eq_None_iff image_iff)

lemma find_registered:
  "distinct (map adapter_id as) \<Longrightarrow>
     map_of (rev (map (\<lambda>a. (adapter_id a, a)) as)) name = find (\<lambda>a. adapter_id a = name) as"
proof (induction as)
  case (Cons a as)
  then have "find (\<lambda>b. adapter_id b = adapter_id a) as = None"
    by (auto simp: find_None_iff image_iff)
  with Cons show ?case by (auto simp: map_add_def split: option.splits)
qed simp

text \<open>
  \<open>NewRegistry\<close> succeeds exactly for adapters with distinct, non-empty identifiers, and
  then \<open>Get\<close> finds under a name the one adapter that has it as its identifier.
\<close>

theorem new_registry_lookup:
  "case new_registry as of
     Inl _ \<Rightarrow> \<not> ([] \<notin> adapter_id ` set as \<and> distinct (map adapter_id as))
   | Inr reg \<Rightarrow> [] \<notin> adapter_id ` set as \<and> distinct (map adapter_id as)
       \<and> registry_get reg name = find (\<lambda>a. adapter_id a = name) as"
proof (cases "new_registry as")
  case (Inl e)
  then show ?thesis
    using register_all_Inr [of "[]" as "rev (map (\<lambda>a. (adapter_id a, a)) as)"]
    by (simp add: new_registry_def)
next
  case (Inr reg)
  then have "register_all [] as = Inr reg" by (simp add: new_registry_def)
  from this [unfolded register_all_Inr] show ?thesis
    using find_registered [of as name] Inr by (simp add: registry_get_def)
qed

end
