(* ===== verification/Account_Auth.thy ===== *)
theory Account_Auth
  imports Provider "HOL-Library.Countable"
begin

text \<open>
  \<open>internal/cryptox/envelope.go\<close> and \<open>internal/accountauth\<close>: the sealed envelope every
  secret is stored in, and an account's credential payload.  The block cipher is the record
  \<open>aead\<close> (AES-GCM with a 12-byte nonce and a 16-byte tag), whose \<open>open\<close> is only known to
  invert its \<open>seal\<close>; \<open>scan\<close> splits the plaintext of a JSON document into lexemes.
\<close>

subsection \<open>envelope.go\<close>

record aead =
  aead_seal :: "string \<Rightarrow> string \<Rightarrow> string \<Rightarrow> string" \<comment> \<open>nonce, plaintext, additional data\<close>
  aead_open :: "string \<Rightarrow> string \<Rightarrow> string \<Rightarrow> string option" \<comment> \<open>nonce, ciphertext, additional data\<close>

record cipher =
  block :: aead
  key_id :: string \<comment> \<open>eight bytes\<close>

abbreviation "nonce_size \<equiv> (12 :: nat)"
abbreviation "tag_size \<equiv> (16 :: nat)"
abbreviation "key_id_size \<equiv> (8 :: nat)"

definition envelope_version :: char where
  "envelope_version = CHR 0x01"

text \<open>The nonce is what \<open>io.ReadFull(c.rand, ...)\<close> yields; \<open>None\<close> is a failed read.\<close>

definition seal :: "cipher \<Rightarrow> string option \<Rightarrow> string \<Rightarrow> string \<Rightarrow> go_error + string" where
  "seal c nonce plaintext aad =
     (if plaintext = [] then Inl (Failure_Text ''refusing to encrypt empty plaintext'')
      else (case nonce of
              None \<Rightarrow> Inl (Failure_Text ''generate nonce'')
            | Some n \<Rightarrow>
                Inr (envelope_version # key_id c @ n @ aead_seal (block c) n plaintext aad)))"

definition open_envelope :: "cipher \<Rightarrow> string \<Rightarrow> string \<Rightarrow> go_error + string" where
  "open_envelope c envelope aad =
     (let header = 1 + key_id_size + nonce_size in
      if length envelope < header + tag_size \<or> hd envelope \<noteq> envelope_version
      then Inl (Failure_Text ''invalid encrypted envelope'')
      else if take key_id_size (drop 1 envelope) \<noteq> key_id c
      then Inl (Failure_Text ''encrypted envelope uses a different master key'')
      else
        (case aead_open (block c) (take nonce_size (drop 9 envelope)) (drop header envelope) aad of
           None \<Rightarrow> Inl (Failure_Text ''encrypted envelope authentication failed'')
         | Some plain \<Rightarrow> Inr plain))"

definition aad :: "string \<Rightarrow> string \<Rightarrow> string \<Rightarrow> string" where
  "aad table public_id column = ''sidervia:v1:'' @ table @ '':'' @ public_id @ '':'' @ column"

text \<open>A sealed column: \<open>NULL\<close> and the empty blob are both no value.\<close>

definition sealed :: "string option \<Rightarrow> string" where
  "sealed b = (case b of None \<Rightarrow> [] | Some s \<Rightarrow> s)"

subsection \<open>credential.go\<close>

record payload =
  schema_version :: int
  api_key :: string
  access_token :: string
  refresh_token :: string
  token_type :: string
  scopes :: "string list"
  expires_at :: ms
  provider_fields :: "(string \<times> string) list"

definition empty_payload :: payload where
  "empty_payload =
     \<lparr>schema_version = 0, api_key = [], access_token = [], refresh_token = [], token_type = [],
      scopes = [], expires_at = 0, provider_fields = []\<rparr>"

definition payload_fields :: "string list" where
  "payload_fields =
     [''schema_version'', ''api_key'', ''access_token'', ''refresh_token'', ''token_type'',
      ''scopes'', ''expires_at_ms'', ''provider_fields'']"

text \<open>Decoding a member into a Go field: absent and null leave the zero value.\<close>

definition field_or :: "'a \<Rightarrow> (json \<Rightarrow> 'a option) \<Rightarrow> members \<Rightarrow> string \<Rightarrow> 'a option" where
  "field_or zero conv ms k =
     (case member_of ms k of
        None \<Rightarrow> Some zero
      | Some JNull \<Rightarrow> Some zero
      | Some v \<Rightarrow> conv v)"

definition to_int :: "json \<Rightarrow> int option" where
  "to_int v = (case v of JNum n \<Rightarrow> parse_int64 n | _ \<Rightarrow> None)"

definition to_strings :: "json \<Rightarrow> string list option" where
  "to_strings v =
     (case v of JArr xs \<Rightarrow> those (map to_string xs) | _ \<Rightarrow> None)"

definition to_string_map :: "json \<Rightarrow> (string \<times> string) list option" where
  "to_string_map v =
     (case v of
        JObj ms \<Rightarrow> those (map (\<lambda>m. map_option (Pair (fst m)) (to_string (snd m))) ms)
      | _ \<Rightarrow> None)"

definition decode_payload :: "lexeme list \<Rightarrow> payload option" where
  "decode_payload body =
     (case unmarshal body of
        Some (JObj ms) \<Rightarrow>
          if \<not> fst ` set ms \<subseteq> set payload_fields then None
          else
            (case (field_or 0 to_int ms ''schema_version'', field_or [] to_string ms ''api_key'',
                   field_or [] to_string ms ''access_token'', field_or [] to_string ms ''refresh_token'',
                   field_or [] to_string ms ''token_type'', field_or [] to_strings ms ''scopes'',
                   field_or 0 to_int ms ''expires_at_ms'', field_or [] to_string_map ms ''provider_fields'') of
               (Some sv, Some ak, Some at, Some rt, Some tt, Some sc, Some ex, Some pf) \<Rightarrow>
                 Some \<lparr>schema_version = sv, api_key = ak, access_token = at, refresh_token = rt,
                       token_type = tt, scopes = sc, expires_at = ex, provider_fields = pf\<rparr>
             | _ \<Rightarrow> None)
      | Some JNull \<Rightarrow> Some empty_payload
      | _ \<Rightarrow> None)"

definition decrypt ::
  "cipher \<Rightarrow> (string \<Rightarrow> lexeme list) \<Rightarrow> string \<Rightarrow> string \<Rightarrow> go_error + payload"
where
  "decrypt c scan account_public_id envelope =
     (if account_public_id = [] \<or> envelope = []
      then Inl (Failure_Text ''credential is not configured'')
      else and_then (open_envelope c envelope (aad ''accounts'' account_public_id ''credential_enc''))
        (\<lambda>body.
          (case decode_payload (scan body) of
             Some p \<Rightarrow>
               if schema_version p = 1 then Inr p else Inl (Failure_Text ''credential payload is invalid'')
           | None \<Rightarrow> Inl (Failure_Text ''credential payload is invalid''))))"

definition provider_credential :: "string \<Rightarrow> string \<Rightarrow> payload \<Rightarrow> go_error + credential" where
  "provider_credential auth_kind provider_id p =
     (if auth_kind = ''api_key'' then new_api_key (api_key p)
      else if auth_kind = ''oauth'' then
        (if provider_id \<noteq> ''google''
         then Inl (Failure_Text ''OAuth credential is not supported for this provider'')
         else new_oauth_token (access_token p)
           (case map_of (rev (provider_fields p)) ''project_id'' of None \<Rightarrow> [] | Some s \<Rightarrow> s))
      else Inl (Failure_Text ''account authentication kind is unsupported''))"

text \<open>\<open>json.Marshal\<close> of a payload: the members in field order, zero values omitted.\<close>

definition omit_empty :: "bool \<Rightarrow> string \<Rightarrow> json \<Rightarrow> members" where
  "omit_empty zero name v = (if zero then [] else [(name, v)])"

definition encode_payload :: "payload \<Rightarrow> json" where
  "encode_payload p =
     JObj ([(''schema_version'', JNum (show_int (schema_version p)))]
       @ omit_empty (api_key p = []) ''api_key'' (JStr (api_key p))
       @ omit_empty (access_token p = []) ''access_token'' (JStr (access_token p))
       @ omit_empty (refresh_token p = []) ''refresh_token'' (JStr (refresh_token p))
       @ omit_empty (token_type p = []) ''token_type'' (JStr (token_type p))
       @ omit_empty (scopes p = []) ''scopes'' (JArr (map JStr (scopes p)))
       @ omit_empty (expires_at p = 0) ''expires_at_ms'' (JNum (show_int (expires_at p)))
       @ omit_empty (provider_fields p = []) ''provider_fields''
           (JObj (map (\<lambda>f. (fst f, JStr (snd f))) (provider_fields p))))"

text \<open>\<open>render\<close> writes the lexemes of a document as bytes.\<close>

definition encrypt ::
  "cipher \<Rightarrow> (lexeme list \<Rightarrow> string) \<Rightarrow> string option \<Rightarrow> string \<Rightarrow> payload \<Rightarrow> go_error + string"
where
  "encrypt c render nonce account_public_id p =
     (if account_public_id = [] \<or> schema_version p \<noteq> 1
      then Inl (Failure_Text ''credential payload is invalid'')
      else seal c nonce (render (lex (encode_payload p)))
             (aad ''accounts'' account_public_id ''credential_enc''))"

subsection \<open>Round trips\<close>

text \<open>What the code relies on of AES-GCM and of the JSON scanner.\<close>

definition aead_ok :: "aead \<Rightarrow> bool" where
  "aead_ok a \<longleftrightarrow> (\<forall>n p d. length n = nonce_size \<longrightarrow>
     aead_open a n (aead_seal a n p d) d = Some p \<and> length (aead_seal a n p d) = length p + tag_size)"

definition scanner_ok :: "(string \<Rightarrow> lexeme list) \<Rightarrow> (lexeme list \<Rightarrow> string) \<Rightarrow> bool" where
  "scanner_ok scan render \<longleftrightarrow> (\<forall>v. scan (render (lex v)) = lex v \<and> render (lex v) \<noteq> [])"

lemma open_seal:
  assumes "aead_ok (block c)" "length (key_id c) = key_id_size" "length n = nonce_size"
    and "seal c (Some n) plain d = Inr env"
  shows "open_envelope c env d = Inr plain \<and> plain \<noteq> []"
proof -
  have env: "env = envelope_version # key_id c @ n @ aead_seal (block c) n plain d" "plain \<noteq> []"
    using assms(4) by (auto simp: seal_def split: if_splits)
  moreover have "aead_open (block c) n (aead_seal (block c) n plain d) d = Some plain"
      "length (aead_seal (block c) n plain d) = length plain + tag_size"
    using assms(1,3) by (auto simp: aead_ok_def)
  ultimately show ?thesis using assms(2,3) by (simp add: open_envelope_def Let_def)
qed

lemma those_map: "(\<And>x. x \<in> set xs \<Longrightarrow> f x = Some (g x)) \<Longrightarrow> those (map f xs) = Some (map g xs)"
  by (induction xs) auto

lemma to_strings_map [simp]: "to_strings (JArr (map JStr xs)) = Some xs"
  using those_map [of xs "to_string \<circ> JStr" id] by (simp add: to_strings_def comp_def)

lemma to_string_map_map [simp]:
  "to_string_map (JObj (map (\<lambda>f. (fst f, JStr (snd f))) fs)) = Some fs"
  using those_map [of fs "\<lambda>f. Some f" id] by (simp add: to_string_map_def comp_def)

definition payload_ok :: "payload \<Rightarrow> bool" where
  "payload_ok p \<longleftrightarrow> schema_version p = 1 \<and> min_int64 \<le> expires_at p \<and> expires_at p \<le> max_int64"

lemma to_int_show [simp]: "min_int64 \<le> n \<Longrightarrow> n \<le> max_int64 \<Longrightarrow> to_int (JNum (show_int n)) = Some n"
  by (simp add: to_int_def parse_show_int)

lemma member_of_append: "member_of (ms @ ms') k =
    (case member_of ms' k of None \<Rightarrow> member_of ms k | Some v \<Rightarrow> Some v)"
  by (simp add: member_of_def map_add_def split: option.split)

lemma member_of_Cons: "member_of ((a, v) # ms) k =
    (case member_of ms k of None \<Rightarrow> if k = a then Some v else None | Some w \<Rightarrow> Some w)"
  by (simp add: member_of_def map_add_def split: option.split)

lemma omit_names: "fst ` set (omit_empty z name v) \<subseteq> {name}"
  by (simp add: omit_empty_def)

lemma member_of_single: "member_of [(a, v)] k = (if k = a then Some v else None)"
  by (simp add: member_of_def)

lemma case_if_Some: "(case if b then Some v else y of None \<Rightarrow> x | Some w \<Rightarrow> Some w) =
    (if b then Some v else (case y of None \<Rightarrow> x | Some w \<Rightarrow> Some w))"
  by simp

lemma member_of_omit [simp]:
  "member_of (omit_empty z name v) k = (if \<not> z \<and> k = name then Some v else None)"
  by (simp add: omit_empty_def member_of_def)

lemma decode_encode_payload:
  assumes "payload_ok p"
  shows "decode_payload (lex (encode_payload p)) = Some p"
proof -
  obtain ms where ms: "encode_payload p = JObj ms" by (simp add: encode_payload_def)
  have ms': "ms = [(''schema_version'', JNum (show_int (schema_version p)))]
       @ omit_empty (api_key p = []) ''api_key'' (JStr (api_key p))
       @ omit_empty (access_token p = []) ''access_token'' (JStr (access_token p))
       @ omit_empty (refresh_token p = []) ''refresh_token'' (JStr (refresh_token p))
       @ omit_empty (token_type p = []) ''token_type'' (JStr (token_type p))
       @ omit_empty (scopes p = []) ''scopes'' (JArr (map JStr (scopes p)))
       @ omit_empty (expires_at p = 0) ''expires_at_ms'' (JNum (show_int (expires_at p)))
       @ omit_empty (provider_fields p = []) ''provider_fields''
           (JObj (map (\<lambda>f. (fst f, JStr (snd f))) (provider_fields p)))"
    using ms by (simp add: encode_payload_def)
  have names: "fst ` set ms \<subseteq> set payload_fields"
    unfolding ms' set_append image_Un
    by (intro Un_least order_trans [OF omit_names]) (simp_all add: payload_fields_def)
  have m: "member_of ms k =
      (if \<not> provider_fields p = [] \<and> k = ''provider_fields'' then Some (JObj (map (\<lambda>f. (fst f, JStr (snd f))) (provider_fields p)))
       else if \<not> expires_at p = 0 \<and> k = ''expires_at_ms'' then Some (JNum (show_int (expires_at p)))
       else if \<not> scopes p = [] \<and> k = ''scopes'' then Some (JArr (map JStr (scopes p)))
       else if \<not> token_type p = [] \<and> k = ''token_type'' then Some (JStr (token_type p))
       else if \<not> refresh_token p = [] \<and> k = ''refresh_token'' then Some (JStr (refresh_token p))
       else if \<not> access_token p = [] \<and> k = ''access_token'' then Some (JStr (access_token p))
       else if \<not> api_key p = [] \<and> k = ''api_key'' then Some (JStr (api_key p))
       else if k = ''schema_version'' then Some (JNum (show_int (schema_version p))) else None)" for k
    unfolding ms' member_of_append member_of_omit member_of_single case_if_Some option.case ..
  have f: "field_or 0 to_int ms ''schema_version'' = Some (schema_version p)"
      "field_or [] to_string ms ''api_key'' = Some (api_key p)"
      "field_or [] to_string ms ''access_token'' = Some (access_token p)"
      "field_or [] to_string ms ''refresh_token'' = Some (refresh_token p)"
      "field_or [] to_string ms ''token_type'' = Some (token_type p)"
      "field_or [] to_strings ms ''scopes'' = Some (scopes p)"
      "field_or 0 to_int ms ''expires_at_ms'' = Some (expires_at p)"
      "field_or [] to_string_map ms ''provider_fields'' = Some (provider_fields p)"
    using assms by (simp_all add: field_or_def m payload_ok_def)
  show ?thesis
    using names by (simp add: decode_payload_def ms f del: lex.simps)
qed


text \<open>An instance of the parameters: a cipher that only appends a tag, and numbers as text.\<close>

instance lexeme :: countable
  by countable_datatype

definition tag_cipher :: cipher where
  "tag_cipher =
     \<lparr>block = \<lparr>aead_seal = (\<lambda>n p d. p @ replicate 16 (CHR ''t'')),
                aead_open = (\<lambda>n c d. Some (take (length c - 16) c))\<rparr>,
      key_id = ''01234567''\<rparr>"

definition number_scan :: "string \<Rightarrow> lexeme list" where
  "number_scan s = (case parse_nat s of None \<Rightarrow> [] | Some n \<Rightarrow> from_nat n)"

definition number_render :: "lexeme list \<Rightarrow> string" where
  "number_render ls = show_nat (to_nat ls)"

lemma tag_cipher_ok: "aead_ok (block tag_cipher)"
  by (simp add: aead_ok_def tag_cipher_def)

lemma number_scanner_ok: "scanner_ok number_scan number_render"
  by (simp add: scanner_ok_def number_scan_def number_render_def)


end
