(* ===== verification/Database.thy ===== *)
theory Database
  imports Provider
begin

text \<open>
  The tables of \<open>migrations/*.sql\<close> that the gateway reads and writes: one record per row, one
  list per table, in the order of the primary key.  \<open>NULL\<close> is \<open>None\<close>.  Columns holding
  JSON are the lexemes of their text.  Failures of SQLite itself are not modelled.
\<close>

subsection \<open>Rows\<close>

record proxy_row =
  px_id :: int
  px_public_id :: string
  px_name :: string
  px_scheme :: string
  px_host :: string
  px_port :: int
  px_username_enc :: "string option"
  px_password_enc :: "string option"
  px_tls_server_name :: "string option"
  px_allow_insecure :: bool
  px_enabled :: bool
  px_version :: int
  px_created :: ms
  px_updated :: ms

record upstream_row =
  up_id :: int
  up_public_id :: string
  up_provider_id :: string
  up_name :: string
  up_base_url :: string
  up_default_proxy :: "int option"
  up_allow_private :: bool
  up_enabled :: bool
  up_version :: int
  up_created :: ms
  up_updated :: ms

record account_row =
  ac_id :: int
  ac_public_id :: string
  ac_upstream_id :: int
  ac_name :: string
  ac_auth_kind :: string
  ac_billing_kind :: string
  ac_credential_enc :: "string option"
  ac_credential_version :: int
  ac_credential_expires :: "ms option"
  ac_proxy_id :: "int option"
  ac_status :: string
  ac_priority :: int
  ac_max_concurrency :: int
  ac_identity :: string
  ac_capability_version :: "string option"
  ac_last_validated :: "ms option"
  ac_version :: int
  ac_created :: ms
  ac_updated :: ms

record route_row =
  ro_id :: int
  ro_public_id :: string
  ro_public_model_id :: string
  ro_description :: string
  ro_enabled :: bool
  ro_confirmed :: "ms option"
  ro_version :: int
  ro_created :: ms
  ro_updated :: ms

record candidate_row =
  ca_id :: int
  ca_route_id :: int
  ca_account_id :: int
  ca_upstream_model :: string
  ca_enabled :: bool
  ca_protocols :: "lexeme list"
  ca_capabilities :: "lexeme list"
  ca_created :: ms

record runtime_row =
  rt_account_id :: int
  rt_failure_streak :: int
  rt_cooldown_until :: "ms option"
  rt_quota_reset :: "ms option"
  rt_last_success :: "ms option"
  rt_last_error :: "ms option"
  rt_last_error_code :: "string option"
  rt_updated :: ms

record model_row =
  mo_id :: int
  mo_account_id :: int
  mo_upstream_model :: string
  mo_capabilities :: string
  mo_source :: string
  mo_verified :: ms
  mo_enabled :: bool

record config_row =
  oc_id :: int
  oc_public_id :: string
  oc_client_id :: string
  oc_secret_enc :: string
  oc_project_id :: string
  oc_scopes :: "lexeme list"
  oc_enabled :: bool
  oc_version :: int
  oc_created :: ms
  oc_updated :: ms

record attempt_row =
  oa_id :: int
  oa_public_id :: string
  oa_session_id :: int
  oa_account_id :: int
  oa_state :: string
  oa_pkce_enc :: string
  oa_fingerprint :: string
  oa_status :: string
  oa_created :: ms
  oa_expires :: ms
  oa_consumed :: "ms option"

record db =
  proxies :: "proxy_row list"
  upstreams :: "upstream_row list"
  accounts :: "account_row list"
  routes :: "route_row list"
  candidates :: "candidate_row list"
  runtimes :: "runtime_row list"

subsection \<open>Statements\<close>

text \<open>\<open>UPDATE t SET f WHERE p\<close>.\<close>

definition update_where :: "('r \<Rightarrow> bool) \<Rightarrow> ('r \<Rightarrow> 'r) \<Rightarrow> 'r list \<Rightarrow> 'r list" where
  "update_where p f rows = map (\<lambda>r. if p r then f r else r) rows"

text \<open>\<open>INSERT INTO t ... ON CONFLICT(key) DO UPDATE SET f\<close> for a unique key.\<close>

fun upsert :: "('r \<Rightarrow> bool) \<Rightarrow> 'r \<Rightarrow> ('r \<Rightarrow> 'r) \<Rightarrow> 'r list \<Rightarrow> 'r list" where
  "upsert p new f [] = [new]"
| "upsert p new f (r # rs) = (if p r then f r # rs else r # upsert p new f rs)"

text \<open>A row by its unique key.\<close>

definition row_by :: "('r \<Rightarrow> 'k) \<Rightarrow> 'k \<Rightarrow> 'r list \<Rightarrow> 'r option" where
  "row_by key k rows = find (\<lambda>r. key r = k) rows"

lemma row_by_Some: "row_by key k rows = Some r \<Longrightarrow> r \<in> set rows \<and> key r = k"
  by (auto simp: row_by_def find_Some_iff in_set_conv_nth)

lemma row_by_None: "row_by key k rows = None \<longleftrightarrow> k \<notin> key ` set rows"
  by (auto simp: row_by_def find_None_iff)

lemma row_by_simps [simp]:
  "row_by key k [] = None" "row_by key k (r # rs) = (if key r = k then Some r else row_by key k rs)"
  by (simp_all add: row_by_def)

lemma row_by_append:
  "row_by key k (xs @ ys) = (case row_by key k xs of None \<Rightarrow> row_by key k ys | Some r \<Rightarrow> Some r)"
  by (induction xs) auto

lemma row_by_unique:
  "distinct (map key rows) \<Longrightarrow> r \<in> set rows \<Longrightarrow> row_by key (key r) rows = Some r"
proof (induction rows)
  case (Cons a rows)
  then show ?case by (auto simp: row_by_def)
qed simp

lemma row_by_update:
  assumes "\<And>r. key (f r) = key r"
  shows "row_by key k (update_where p f rows) =
    map_option (\<lambda>r. if p r then f r else r) (row_by key k rows)"
  using assms by (induction rows) (auto simp: row_by_def update_where_def)

lemma row_by_upsert:
  assumes "\<And>r. key (f r) = key r" "key new = k" "\<And>r. p r \<longleftrightarrow> key r = k"
  shows "row_by key k' (upsert p new f rows) =
    (if k' = k then Some (case row_by key k rows of None \<Rightarrow> new | Some r \<Rightarrow> f r)
     else row_by key k' rows)"
  using assms by (induction rows) (auto simp: row_by_def)

lemma update_where_keys: "(\<And>r. key (f r) = key r) \<Longrightarrow> map key (update_where p f rows) = map key rows"
  by (simp add: update_where_def)

lemma upsert_keys:
  assumes "\<And>r. key (f r) = key r" "key new = k" "\<And>r. p r \<longleftrightarrow> key r = k" "distinct (map key rows)"
  shows "distinct (map key (upsert p new f rows))"
proof -
  have keys: "map key (upsert p new f rows) =
      (if k \<in> key ` set rows then map key rows else map key rows @ [k])"
    using assms(1-3) by (induction rows) auto
  with assms(4) show ?thesis by auto
qed

end
