(* ===== verification/Identifier.thy ===== *)
theory Identifier
  imports Prelude
begin

text \<open>
  \<open>internal/identifier\<close> and the base64 text the cursors share: unpadded URL-safe base64 as
  \<open>encoding/base64\<close> writes and reads it, unpadded base32 with the repository's alphabet, object
  identifiers, tokens and client keys.  SHA-256 is the argument \<open>sha\<close> (the hexadecimal digest);
  a generator is given the bytes its reader yields (\<open>None\<close> for a failed read).
\<close>

subsection \<open>base64.RawURLEncoding\<close>

definition url_alphabet :: string where
  "url_alphabet = ''ABCDEFGHIJKLMNOPQRSTUVWXYZabcdefghijklmnopqrstuvwxyz0123456789-_''"

fun index_of :: "'a \<Rightarrow> 'a list \<Rightarrow> nat option" where
  "index_of x [] = None"
| "index_of x (y # ys) = (if x = y then Some 0 else map_option Suc (index_of x ys))"

definition byte_val :: "char \<Rightarrow> nat" where
  "byte_val c = of_char c"

fun sextets :: "nat list \<Rightarrow> nat list" where
  "sextets [] = []"
| "sextets [a] = [a div 4, a mod 4 * 16]"
| "sextets [a, b] = [a div 4, a mod 4 * 16 + b div 16, b mod 16 * 4]"
| "sextets (a # b # c # rest) =
     [a div 4, a mod 4 * 16 + b div 16, b mod 16 * 4 + c div 64, c mod 64] @ sextets rest"

text \<open>The decoder ignores the unused bits of the last character, as the standard encoding does.\<close>

fun unsextets :: "nat list \<Rightarrow> nat list option" where
  "unsextets [] = Some []"
| "unsextets [w] = None"
| "unsextets [w, x] = Some [w * 4 + x div 16]"
| "unsextets [w, x, y] = Some [w * 4 + x div 16, x mod 16 * 16 + y div 4]"
| "unsextets (w # x # y # z # rest) =
     map_option (\<lambda>r. [w * 4 + x div 16, x mod 16 * 16 + y div 4, y mod 4 * 64 + z] @ r)
       (unsextets rest)"

text \<open>One encoding for each alphabet; \<open>DecodeString\<close> skips carriage returns and line feeds.\<close>

definition encode64 :: "string \<Rightarrow> string \<Rightarrow> string" where
  "encode64 alphabet s = map (\<lambda>n. alphabet ! n) (sextets (map byte_val s))"

definition decode64 :: "string \<Rightarrow> string \<Rightarrow> string option" where
  "decode64 alphabet s =
     (case those (map (\<lambda>c. index_of c alphabet) (filter (\<lambda>c. c \<notin> {CHR 0x0D, CHR 0x0A}) s)) of
        None \<Rightarrow> None
      | Some ns \<Rightarrow> map_option (map char_of) (unsextets ns))"

definition base64_encode :: "string \<Rightarrow> string" where
  "base64_encode = encode64 url_alphabet"

definition base64_decode :: "string \<Rightarrow> string option" where
  "base64_decode = decode64 url_alphabet"

lemma byte_val_less: "byte_val c < 256"
  by (simp add: byte_val_def)

lemma sextets_less: "\<forall>b \<in> set bs. b < 256 \<Longrightarrow> \<forall>n \<in> set (sextets bs). n < 64"
  by (induction bs rule: sextets.induct) (auto simp: less_mult_imp_div_less)

lemma unsextets_sextets: "\<forall>b \<in> set bs. b < 256 \<Longrightarrow> unsextets (sextets bs) = Some bs"
proof (induction bs rule: sextets.induct)
  case (4 a b c rest)
  have "(b mod 16 * 4 + c div 64) div 4 = b mod 16"
    using "4.prems" by (auto simp: less_mult_imp_div_less div_add1_eq)
  moreover have "(b mod 16 * 4 + c div 64) mod 4 = c div 64"
    using "4.prems" by (auto simp: less_mult_imp_div_less mod_less)
  moreover have "(a mod 4 * 16 + b div 16) div 16 = a mod 4" "(a mod 4 * 16 + b div 16) mod 16 = b div 16"
    using "4.prems" by (auto simp: less_mult_imp_div_less)
  ultimately show ?case using 4 by simp
next
  case (3 a b)
  then have "(a mod 4 * 16 + b div 16) div 16 = a mod 4" "(a mod 4 * 16 + b div 16) mod 16 = b div 16"
    by (auto simp: less_mult_imp_div_less)
  then show ?case by simp
qed simp_all

definition alphabet64 :: "string \<Rightarrow> bool" where
  "alphabet64 alphabet \<longleftrightarrow> length alphabet = 64 \<and> distinct alphabet
     \<and> CHR 0x0D \<notin> set alphabet \<and> CHR 0x0A \<notin> set alphabet"

lemma url_alphabet_ok: "alphabet64 url_alphabet"
  by (simp add: alphabet64_def url_alphabet_def)

lemma index_of_nth: "distinct ys \<Longrightarrow> n < length ys \<Longrightarrow> index_of (ys ! n) ys = Some n"
  by (induction ys arbitrary: n) (auto simp: nth_Cons split: nat.splits)

lemma url_alphabet_chars: "CHR '':'' \<notin> set url_alphabet"
  by (simp add: url_alphabet_def)

lemma encode64_set: "alphabet64 alphabet \<Longrightarrow> set (encode64 alphabet s) \<subseteq> set alphabet"
proof -
  assume "alphabet64 alphabet"
  moreover have "\<forall>n \<in> set (sextets (map byte_val s)). n < 64"
    using byte_val_less by (intro sextets_less) auto
  ultimately show ?thesis by (auto simp: encode64_def alphabet64_def intro!: nth_mem)
qed

lemma base64_encode_set: "set (base64_encode s) \<subseteq> set url_alphabet"
  using encode64_set url_alphabet_ok by (simp add: base64_encode_def)

lemma those_map_Some: "(\<And>x. x \<in> set xs \<Longrightarrow> f x = Some (g x)) \<Longrightarrow> those (map f xs) = Some (map g xs)"
  by (induction xs) auto

lemma decode_encode64:
  assumes ok: "alphabet64 alphabet"
  shows "decode64 alphabet (encode64 alphabet s) = Some s"
proof -
  let ?ns = "sextets (map byte_val s)"
  have less: "\<forall>n \<in> set ?ns. n < 64" using byte_val_less by (intro sextets_less) auto
  have "filter (\<lambda>c. c \<notin> {CHR 0x0D, CHR 0x0A}) (encode64 alphabet s) = encode64 alphabet s"
    using encode64_set [OF ok] ok by (auto simp: alphabet64_def filter_id_conv)
  moreover have "those (map (\<lambda>c. index_of c alphabet) (encode64 alphabet s)) = Some ?ns"
    using less ok those_map_Some [of ?ns "\<lambda>n. index_of (alphabet ! n) alphabet" "\<lambda>n. n"]
    by (simp add: encode64_def comp_def index_of_nth alphabet64_def)
  moreover have "unsextets ?ns = Some (map byte_val s)"
    using byte_val_less by (intro unsextets_sextets) auto
  moreover have "map char_of (map byte_val s) = s" by (simp add: byte_val_def comp_def)
  ultimately show ?thesis by (simp add: decode64_def)
qed

lemma base64_roundtrip [simp]: "base64_decode (base64_encode s) = Some s"
  by (simp add: base64_encode_def base64_decode_def decode_encode64 url_alphabet_ok)

lemma length_sextets: "length (sextets bs) = (4 * length bs + 2) div 3"
  by (induction bs rule: sextets.induct) simp_all

lemma length_encode64: "length (encode64 alphabet s) = (4 * length s + 2) div 3"
  by (simp add: encode64_def length_sextets)

lemma length_base64: "length (base64_encode s) = (4 * length s + 2) div 3"
  by (simp add: base64_encode_def length_encode64)

lemma base64_nonempty: "s \<noteq> [] \<Longrightarrow> base64_encode s \<noteq> []"
  using length_base64 [of s] by (cases s) auto

subsection \<open>Base32\<close>

definition object_alphabet :: string where
  "object_alphabet = ''0123456789abcdefghjkmnpqrstvwxyz''"

definition bits_of :: "nat \<Rightarrow> bool list" where
  "bits_of b = map (\<lambda>i. odd (b div 2 ^ i)) [7, 6, 5, 4, 3, 2, 1, 0]"

definition quintet :: "bool list \<Rightarrow> nat" where
  "quintet bs = foldl (\<lambda>n b. 2 * n + (if b then 1 else 0)) 0 (take 5 (bs @ replicate 5 False))"

fun quintets :: "nat \<Rightarrow> bool list \<Rightarrow> nat list" where
  "quintets 0 bs = []"
| "quintets (Suc n) bs = (if bs = [] then [] else quintet bs # quintets n (drop 5 bs))"

definition encode32 :: "string \<Rightarrow> string \<Rightarrow> string" where
  "encode32 alphabet s =
     (let bs = concat (map (bits_of \<circ> byte_val) s) in
      map (\<lambda>n. alphabet ! n) (quintets (length bs) bs))"

definition base32_encode :: "string \<Rightarrow> string" where
  "base32_encode = encode32 object_alphabet"

subsection \<open>identifier.go\<close>

definition valid_kind :: "string \<Rightarrow> bool" where
  "valid_kind kind \<longleftrightarrow> kind \<noteq> [] \<and> length kind \<le> 12
     \<and> list_all (\<lambda>c. (CHR ''a'' \<le> c \<and> c \<le> CHR ''z'') \<or> (CHR ''0'' \<le> c \<and> c \<le> CHR ''9'')) kind"

definition object_id :: "string \<Rightarrow> string option \<Rightarrow> string option" where
  "object_id kind random =
     (if \<not> valid_kind kind then None
      else map_option (\<lambda>b. ''sdr_'' @ kind @ ''_'' @ base32_encode b) random)"

definition token_text :: "string option \<Rightarrow> string option" where
  "token_text random = map_option base64_encode random"

definition key_prefix_mark :: string where
  "key_prefix_mark = ''sk-sdr_''"

text \<open>The six bytes of the prefix, then the thirty-two of the secret.\<close>

definition client_key ::
  "(string \<Rightarrow> string) \<Rightarrow> string option \<Rightarrow> string option \<Rightarrow> (string \<times> string \<times> string) option"
where
  "client_key sha prefix_bytes secret_bytes =
     (case (prefix_bytes, secret_bytes) of
        (Some p, Some s) \<Rightarrow>
          let prefix = take 8 (base64_encode p); secret = base64_encode s in
          Some (key_prefix_mark @ prefix @ ''_'' @ secret, prefix, sha secret)
      | _ \<Rightarrow> None)"

subsection \<open>Cursors\<close>

text \<open>
  \<open>control/cursor.go\<close> and the same code in \<open>usage/reader.go\<close>: a position in a listing
  is the time and the id of the last row shown.
\<close>

type_synonym cursor = "int \<times> int"

abbreviation first_cursor :: cursor where "first_cursor \<equiv> (max_int64, max_int64)"

definition encode_cursor :: "cursor \<Rightarrow> string" where
  "encode_cursor c = base64_encode (''v1:'' @ show_int (fst c) @ '':'' @ show_int (snd c))"

definition decode_cursor :: "string \<Rightarrow> cursor option" where
  "decode_cursor s =
     (if s = [] then Some first_cursor
      else
        (case base64_decode s of
           None \<Rightarrow> None
         | Some raw \<Rightarrow>
             if length raw > 128 then None
             else
               (case split_on (CHR '':'') raw of
                  [v, t, i] \<Rightarrow>
                    (case (parse_int64 t, parse_int64 i) of
                       (Some timestamp, Some row) \<Rightarrow>
                         if v = ''v1'' \<and> timestamp \<ge> 0 \<and> row \<ge> 0 then Some (timestamp, row) else None
                     | _ \<Rightarrow> None)
                | _ \<Rightarrow> None)))"

definition normalize_limit :: "int \<Rightarrow> nat" where
  "normalize_limit limit = (if limit \<le> 0 then 50 else if limit > 200 then 200 else nat limit)"

lemma normalize_limit_range: "0 < normalize_limit n \<and> normalize_limit n \<le> 200"
  by (auto simp: normalize_limit_def)

lemma show_nat_length: "n < 10 ^ Suc k \<Longrightarrow> length (show_nat n) \<le> Suc k"
proof (induction k arbitrary: n)
  case 0
  then show ?case by (simp add: show_nat.simps)
next
  case (Suc k)
  then have "n div 10 < 10 ^ Suc k" by (simp add: less_mult_imp_div_less)
  with Suc show ?case by (simp add: show_nat.simps [of n])
qed

lemma show_int_length: "0 \<le> n \<Longrightarrow> n \<le> max_int64 \<Longrightarrow> length (show_int n) \<le> 19"
  using show_nat_length [of "nat n" 18] by (simp add: show_int_def)

lemma encode_cursor_nonempty [simp]: "encode_cursor c \<noteq> []"
  by (simp add: encode_cursor_def base64_nonempty)

lemma cursor_roundtrip [simp]:
  assumes "0 \<le> t" "t \<le> max_int64" "0 \<le> i" "i \<le> max_int64"
  shows "decode_cursor (encode_cursor (t, i)) = Some (t, i)"
proof -
  let ?raw = "''v1:'' @ show_int t @ '':'' @ show_int i"
  have "encode_cursor (t, i) = base64_encode ?raw" by (simp add: encode_cursor_def)
  moreover have "base64_encode ?raw \<noteq> []" by (rule base64_nonempty) simp
  moreover have "length ?raw \<le> 128"
    using show_int_length [of t] show_int_length [of i] assms by simp
  moreover have "split_on (CHR '':'') ?raw = [''v1'', show_int t, show_int i]"
    using split_on_append [of "CHR '':''" "show_int t" "show_int i"] show_int_no_colon
    by (simp add: split_on_no_sep)
  ultimately show ?thesis
    using assms by (simp add: decode_cursor_def parse_show_int del: append_Cons append_Nil)
qed

end
