(* ===== verification/Control.thy ===== *)
theory Control
  imports Database Identifier "HOL-Library.AList"
begin

text \<open>
  What the control plane's services share (\<open>internal/control/service.go\<close>, \<open>errors.go\<close>,
  \<open>cursor.go\<close>, \<open>validation.go\<close>): its errors, the audit trail, the validation of names and
  string sets, the keyset listing of a table and the optimistic versions of its resources.

  A transaction is a function from the tables to an error or to a result and the new tables; an
  error carries no tables, since \<open>defer tx.Rollback()\<close> leaves the old ones.  The clock is a
  function from the call sites of an operation, in the order of the code, to the time read there;
  the random bytes an operation draws are its arguments, \<open>None\<close> for a failed read.
\<close>

subsection \<open>Errors, actors and the tables\<close>

datatype control_error =
    NotFound | Conflict | VersionConflict | ResourceInUse
  | Validation string string
  | Failure string \<comment> \<open>an error without a sentinel\<close>

record actor =
  actor_kind :: string
  actor_id :: string
  actor_request :: string

record audit_row =
  ae_id :: int
  ae_public_id :: string
  ae_event :: string
  ae_actor_kind :: string
  ae_actor_id :: "string option"
  ae_target_kind :: "string option"
  ae_target_id :: "string option"
  ae_request_id :: "string option"
  ae_outcome :: "string option"
  ae_metadata :: string
  ae_created :: ms

record key_row =
  ck_id :: int
  ck_public_id :: string
  ck_name :: string
  ck_prefix :: string
  ck_verifier :: string
  ck_status :: string
  ck_version :: int
  ck_created :: ms
  ck_expires :: "ms option"
  ck_last_used :: "ms option"
  ck_revoked :: "ms option"

text \<open>\<open>provider_oauth_configs\<close> has at most one row, whose provider is Google.\<close>

record control_db = db +
  client_keys :: "key_row list"
  audit_events :: "audit_row list"
  account_models :: "model_row list"
  oauth_config :: "config_row option"
  oauth_attempts :: "attempt_row list"

record environment =
  env_clock :: "nat \<Rightarrow> nanos"
  env_object :: "string option"
  env_prefix :: "string option"
  env_secret :: "string option"
  env_audit :: "string option"

text \<open>SQLite gives a new row the largest \<open>INTEGER PRIMARY KEY\<close> plus one.\<close>

definition next_id :: "('r \<Rightarrow> int) \<Rightarrow> 'r list \<Rightarrow> int" where
  "next_id key rows = fold (\<lambda>r m. max (key r) m) rows 0 + 1"

lemma fold_max_ge: "(m::int) \<le> fold (\<lambda>r m. max (key r) m) rows m"
proof (induction rows arbitrary: m)
  case (Cons r rows)
  show ?case using Cons.IH [of "max (key r) m"] by simp
qed simp

lemma fold_max_bound: "r \<in> set rows \<Longrightarrow> key r \<le> fold (\<lambda>r m. max (key r) m) rows (m::int)"
proof (induction rows arbitrary: m)
  case (Cons a rows)
  show ?case using Cons fold_max_ge [of "max (key a) m" key rows] by auto
qed simp

lemma next_id_fresh: "r \<in> set rows \<Longrightarrow> key r < next_id key rows"
  using fold_max_bound [of r rows key 0] by (simp add: next_id_def)

lemma next_id_pos: "0 < next_id key rows"
  using fold_max_ge [of 0 key rows] by (simp add: next_id_def)

lemma next_id_notin: "next_id key rows \<notin> key ` set rows"
  by (metis imageE less_irrefl next_id_fresh)

definition null_if_empty :: "string \<Rightarrow> string option" where
  "null_if_empty s = (if s = [] then None else Some s)"

subsection \<open>Names and string sets\<close>

definition clean_name :: "string \<Rightarrow> string \<Rightarrow> control_error + string" where
  "clean_name field v =
     (let v = trim_space v in
      if v = [] \<or> 100 < length v then Inl (Validation field ''must contain 1-100 characters'')
      else if list_ex (\<lambda>c. byte_val c < 0x20 \<or> byte_val c = 0x7F) v
      then Inl (Validation field ''contains control characters'')
      else Inr v)"

lemma clean_name_Inr:
  "clean_name field v = Inr name \<Longrightarrow> name = trim_space v \<and> name \<noteq> [] \<and> length name \<le> 100"
  by (auto simp: clean_name_def Let_def split: if_splits)

lemma clean_name_idem: "clean_name field v = Inr name \<Longrightarrow> clean_name field name = Inr name"
  by (auto simp: clean_name_def Let_def split: if_splits)

fun string_set_loop ::
  "string \<Rightarrow> string list option \<Rightarrow> string list \<Rightarrow> string list \<Rightarrow> control_error + string list"
where
  "string_set_loop field allowed result [] = Inr result"
| "string_set_loop field allowed result (v # vs) =
     (let v = trim_space v in
      if v = [] \<or> 64 < length v then Inl (Validation field ''contains an invalid value'')
      else if (case allowed of None \<Rightarrow> False | Some a \<Rightarrow> v \<notin> set a)
      then Inl (Validation field ''contains an unsupported value'')
      else if v \<in> set result then string_set_loop field allowed result vs
      else string_set_loop field allowed (result @ [v]) vs)"

definition normalize_string_set ::
  "string \<Rightarrow> string list \<Rightarrow> string list option \<Rightarrow> control_error + string list"
where
  "normalize_string_set field vs allowed =
     and_then (string_set_loop field allowed [] vs) (\<lambda>r. Inr (sort r))"

lemma string_set_loop_Inr:
  "string_set_loop field allowed result vs = Inr r \<Longrightarrow> distinct result \<Longrightarrow>
    distinct r \<and> set r = set result \<union> trim_space ` set vs
    \<and> (\<forall>a. allowed = Some a \<longrightarrow> trim_space ` set vs \<subseteq> set a)
    \<and> (\<forall>v \<in> set vs. trim_space v \<noteq> [] \<and> length (trim_space v) \<le> 64)"
proof (induction vs arbitrary: result)
  case (Cons v vs)
  show ?case
  proof (cases "trim_space v \<in> set result")
    case True
    then have "string_set_loop field allowed result vs = Inr r"
      using Cons.prems by (auto simp: Let_def split: if_splits)
    with Cons True show ?thesis
      by (auto simp: Let_def insert_absorb split: if_splits option.splits)
  next
    case False
    then have "string_set_loop field allowed (result @ [trim_space v]) vs = Inr r"
      using Cons.prems by (auto simp: Let_def split: if_splits)
    with Cons False show ?thesis
      by (auto simp: Let_def split: if_splits option.splits)
  qed
qed simp

lemma normalize_string_set_Inr:
  assumes "normalize_string_set field vs allowed = Inr r"
  shows "sorted r \<and> distinct r \<and> set r = trim_space ` set vs
    \<and> (\<forall>a. allowed = Some a \<longrightarrow> set r \<subseteq> set a)"
  using assms string_set_loop_Inr [of field allowed "[]" vs] by (fastforce simp: normalize_string_set_def)

definition valid_optional_reference :: "string option \<Rightarrow> string option" where
  "valid_optional_reference v =
     (case v of None \<Rightarrow> None | Some s \<Rightarrow> if trim_space s = [] then None else Some (trim_space s))"

subsection \<open>The audit trail\<close>

text \<open>
  Metadata values are the strings, integers and flags the services record.  The text is what
  \<open>json.Marshal\<close> writes for a map: keys in order, the escapes of \<open>encoding/json\<close> for ASCII;
  bytes from 0x80 on are copied (its replacement of ill-formed UTF-8 is not modelled).
\<close>

datatype meta = MetaText string | MetaInt int | MetaFlag bool

definition hex_digit :: "nat \<Rightarrow> char" where
  "hex_digit n = ''0123456789abcdef'' ! n"

definition escape_char :: "char \<Rightarrow> string" where
  "escape_char c =
     (let n = byte_val c in
      if c = CHR 0x22 \<or> c = CHR 0x5C then [CHR 0x5C, c]
      else if n = 8 then [CHR 0x5C, CHR ''b'']
      else if n = 9 then [CHR 0x5C, CHR ''t'']
      else if n = 10 then [CHR 0x5C, CHR ''n'']
      else if n = 12 then [CHR 0x5C, CHR ''f'']
      else if n = 13 then [CHR 0x5C, CHR ''r'']
      else if n < 0x20 \<or> c \<in> {CHR ''<'', CHR ''>'', CHR ''&''}
      then CHR 0x5C # ''u00'' @ [hex_digit (n div 16), hex_digit (n mod 16)]
      else [c])"

definition quote_text :: "string \<Rightarrow> string" where
  "quote_text s = CHR 0x22 # concat (map escape_char s) @ [CHR 0x22]"

fun meta_text :: "meta \<Rightarrow> string" where
  "meta_text (MetaText s) = quote_text s"
| "meta_text (MetaInt n) = show_int n"
| "meta_text (MetaFlag b) = (if b then ''true'' else ''false'')"

definition metadata_text :: "(string \<times> meta) list \<Rightarrow> string" where
  "metadata_text m =
     ''{'' @ join_with '','' (map (\<lambda>(k, v). quote_text k @ '':'' @ meta_text v) (sort_key fst m)) @ ''}''"

definition audit_outcome ::
  "environment \<Rightarrow> ms \<Rightarrow> actor \<Rightarrow> string \<Rightarrow> string \<Rightarrow> string \<Rightarrow> string \<Rightarrow> (string \<times> meta) list
    \<Rightarrow> 'x control_db_scheme \<Rightarrow> control_error + 'x control_db_scheme"
where
  "audit_outcome env now who event target_kind target_id outcome metadata s =
     (case object_id ''audit'' (env_audit env) of
        None \<Rightarrow> Inl (Failure ''identifier'')
      | Some pid \<Rightarrow>
          let kind = (if actor_kind who = [] then ''system'' else actor_kind who);
              body = metadata_text (AList.update ''schema_version'' (MetaInt 1) metadata) in
          if 4096 < length body then Inl (Failure ''audit metadata is too large'')
          else if pid \<in> ae_public_id ` set (audit_events s) then Inl (Failure ''unique audit id'')
          else Inr (s\<lparr>audit_events := audit_events s @
             [\<lparr>ae_id = next_id ae_id (audit_events s), ae_public_id = pid, ae_event = event,
               ae_actor_kind = kind, ae_actor_id = null_if_empty (actor_id who),
               ae_target_kind = null_if_empty target_kind, ae_target_id = null_if_empty target_id,
               ae_request_id = null_if_empty (actor_request who), ae_outcome = Some outcome,
               ae_metadata = body, ae_created = now\<rparr>]\<rparr>))"

abbreviation audit ::
  "environment \<Rightarrow> ms \<Rightarrow> actor \<Rightarrow> string \<Rightarrow> string \<Rightarrow> string \<Rightarrow> (string \<times> meta) list
    \<Rightarrow> 'x control_db_scheme \<Rightarrow> control_error + 'x control_db_scheme"
where
  "audit env now who event target_kind target_id metadata s \<equiv>
     audit_outcome env now who event target_kind target_id ''success'' metadata s"

definition audit_only :: "'x control_db_scheme \<Rightarrow> 'x control_db_scheme \<Rightarrow> bool" where
  "audit_only s t \<longleftrightarrow> (\<exists>row. t = s\<lparr>audit_events := audit_events s @ [row]\<rparr>)"

lemma audit_outcome_Inr: "audit_outcome env now who ev tk ti oc md s = Inr t \<Longrightarrow> audit_only s t"
  by (auto simp: audit_outcome_def audit_only_def Let_def split: option.splits if_splits)

lemma audit_outcome_ok:
  assumes "object_id ''audit'' (env_audit env) = Some pid" "pid \<notin> ae_public_id ` set (audit_events s)"
    and "length (metadata_text (AList.update ''schema_version'' (MetaInt 1) md)) \<le> 4096"
  shows "\<exists>t. audit_outcome env now who ev tk ti oc md s = Inr t"
  using assms by (simp add: audit_outcome_def Let_def)

lemma audit_only_tables [simp]:
  assumes "audit_only s t"
  shows "client_keys t = client_keys s" "accounts t = accounts s" "proxies t = proxies s"
    "upstreams t = upstreams s" "routes t = routes s" "candidates t = candidates s"
    "runtimes t = runtimes s" "account_models t = account_models s"
    "oauth_config t = oauth_config s" "oauth_attempts t = oauth_attempts s"
  using assms by (auto simp: audit_only_def)

text \<open>\<open>notFoundOrVersion\<close>, for any table.\<close>

definition not_found_or_version :: "('r \<Rightarrow> string) \<Rightarrow> string \<Rightarrow> 'r list \<Rightarrow> control_error" where
  "not_found_or_version key pid rows = (if row_by key pid rows = None then NotFound else VersionConflict)"

lemma filter_one_ex: "length (filter p rows) = 1 \<Longrightarrow> \<exists>r \<in> set rows. p r"
  by (metis filter_empty_conv list.size(3) zero_neq_one)

subsection \<open>Keyset listings\<close>

text \<open>
  \<open>WHERE (t < ? OR (t = ? AND id < ?)) ORDER BY t DESC, id DESC LIMIT ?\<close> and the loop over the
  rows that every \<open>List\<close> operation runs: one row more than the limit is asked for, and its
  presence turns the last row shown into the next cursor.
\<close>

definition select_page :: "('r \<Rightarrow> cursor) \<Rightarrow> cursor \<Rightarrow> nat \<Rightarrow> 'r list \<Rightarrow> 'r list" where
  "select_page pos c n rows =
     take n (rev (sort_key pos (filter (\<lambda>r. fst (pos r) < fst c
       \<or> (fst (pos r) = fst c \<and> snd (pos r) < snd c)) rows)))"

fun fill_page ::
  "('r \<Rightarrow> 'e + 'i) \<Rightarrow> ('r \<Rightarrow> cursor) \<Rightarrow> nat \<Rightarrow> 'i list \<Rightarrow> cursor \<Rightarrow> 'r list \<Rightarrow> 'e + ('i list \<times> string)"
where
  "fill_page scan pos limit items prior [] = Inr (items, [])"
| "fill_page scan pos limit items prior (r # rs) =
     and_then (scan r) (\<lambda>item.
       if length items = limit then Inr (items, encode_cursor prior)
       else fill_page scan pos limit (items @ [item]) (pos r) rs)"

definition list_rows ::
  "'e \<Rightarrow> ('r \<Rightarrow> 'e + 'i) \<Rightarrow> ('r \<Rightarrow> cursor) \<Rightarrow> int \<Rightarrow> string \<Rightarrow> 'r list \<Rightarrow> 'e + ('i list \<times> string)"
where
  "list_rows bad_cursor scan pos limit after rows =
     (case decode_cursor after of
        None \<Rightarrow> Inl bad_cursor
      | Some c \<Rightarrow>
          let limit = normalize_limit limit in
          fill_page scan pos limit [] (0, 0) (select_page pos c (limit + 1) rows))"

text \<open>The whole listing, newest first, and the part of it after a position.\<close>

definition listing :: "('r \<Rightarrow> cursor) \<Rightarrow> 'r list \<Rightarrow> 'r list" where
  "listing pos rows = rev (sort_key pos rows)"

definition after_cursor :: "('r \<Rightarrow> cursor) \<Rightarrow> cursor \<Rightarrow> 'r list \<Rightarrow> 'r list" where
  "after_cursor pos c rows = filter (\<lambda>r. pos r < c) (listing pos rows)"

lemma select_page_after: "select_page pos c n rows = take n (after_cursor pos c rows)"
proof -
  have "(\<lambda>r. fst (pos r) < fst c \<or> (fst (pos r) = fst c \<and> snd (pos r) < snd c)) = (\<lambda>r. pos r < c)"
    by (auto simp: less_prod_def')
  then show ?thesis
    by (simp add: select_page_def after_cursor_def listing_def filter_sort flip: rev_filter)
qed

lemma fill_page_eq:
  assumes "\<forall>r \<in> set rows. scan r = Inr (view r)" "length items \<le> limit"
  shows "fill_page scan pos limit items prior rows =
    Inr (items @ map view (take (limit - length items) rows),
         if limit - length items < length rows
         then encode_cursor (if length items = limit then prior else pos (rows ! (limit - length items - 1)))
         else [])"
  using assms
proof (induction rows arbitrary: items prior)
  case (Cons r rs)
  show ?case
  proof (cases "length items = limit")
    case False
    then obtain k where k: "limit - length items = Suc k" using Cons.prems by (metis Suc_diff_le
          diff_is_0_eq' le_neq_implies_less not0_implies_Suc zero_less_diff less_numeral_extra(3))
    have "limit - length (items @ [view r]) = k" using k by simp
    moreover have "length (items @ [view r]) = limit \<longleftrightarrow> k = 0" using k by auto
    ultimately show ?thesis
      using Cons.IH [of "items @ [view r]" "pos r"] Cons.prems False k
      by (auto simp: nth_Cons split: nat.splits)
  qed (use Cons.prems in simp)
qed simp

lemma list_rows_eq:
  assumes "decode_cursor after = Some c" "\<forall>r \<in> set rows. scan r = Inr (view r)"
  shows "list_rows bad scan pos limit after rows =
    (let n = normalize_limit limit; todo = after_cursor pos c rows in
     Inr (map view (take n todo), if n < length todo then encode_cursor (pos (todo ! (n - 1))) else []))"
proof -
  have pos: "0 < normalize_limit limit" using normalize_limit_range by blast
  have "\<forall>r \<in> set (take (Suc (normalize_limit limit)) (after_cursor pos c rows)). scan r = Inr (view r)"
    using assms(2) set_take_subset by (fastforce simp: after_cursor_def listing_def)
  from fill_page_eq [OF this, of "[]" "normalize_limit limit" pos "(0, 0)"] pos show ?thesis
    by (simp add: list_rows_def assms(1) select_page_after Let_def min_def)
qed

lemma list_rows_bad_cursor: "decode_cursor after = None \<Longrightarrow> list_rows bad scan pos limit after rows = Inl bad"
  by (simp add: list_rows_def)

text \<open>A reader that follows the cursors until a page has none.\<close>

fun walk :: "(string \<Rightarrow> 'e + ('i list \<times> string)) \<Rightarrow> nat \<Rightarrow> string \<Rightarrow> 'i list option" where
  "walk fetch 0 after = None"
| "walk fetch (Suc n) after =
     (case fetch after of
        Inl e \<Rightarrow> None
      | Inr (items, onward) \<Rightarrow>
          if onward = [] then Some items else map_option (\<lambda>rest. items @ rest) (walk fetch n onward))"

definition positions_ok :: "('r \<Rightarrow> cursor) \<Rightarrow> 'r list \<Rightarrow> bool" where
  "positions_ok pos rows \<longleftrightarrow> distinct (map pos rows)
     \<and> list_all (\<lambda>r. 0 \<le> fst (pos r) \<and> fst (pos r) \<le> max_int64 \<and> 0 \<le> snd (pos r) \<and> snd (pos r) < max_int64) rows"

text \<open>
  The contract of a listing: a good store yields the next page of the part of its listing below
  the cursor.  \<open>rows_of\<close> is the table, \<open>view\<close> what the reader shows of a row.
\<close>

locale keyset =
  fixes pos :: "'r \<Rightarrow> cursor"
    and rows_of :: "'s \<Rightarrow> 'r list"
    and view :: "'s \<Rightarrow> 'r \<Rightarrow> 'i"
    and good :: "'s \<Rightarrow> bool"
    and list_page :: "'s \<Rightarrow> int \<Rightarrow> string \<Rightarrow> 'e + ('i list \<times> string)"
  assumes good_positions: "good s \<Longrightarrow> positions_ok pos (rows_of s)"
    and page_law: "good s \<Longrightarrow> decode_cursor after = Some c \<Longrightarrow>
      list_page s limit after =
        (let n = normalize_limit limit; todo = after_cursor pos c (rows_of s) in
         Inr (map (view s) (take n todo),
              if n < length todo then encode_cursor (pos (todo ! (n - 1))) else []))"
begin

lemma listing_set: "set (listing pos rows) = set rows"
  by (simp add: listing_def)

lemma listing_decreasing:
  assumes "positions_ok pos rows"
  shows "sorted_wrt (\<lambda>a b. pos b < pos a) (listing pos rows)"
proof -
  have "sorted (map pos (sort_key pos rows))" by simp
  moreover have "distinct (map pos (sort_key pos rows))"
    using assms by (simp add: positions_ok_def distinct_map)
  ultimately have "sorted_wrt (<) (map pos (sort_key pos rows))" by (simp add: strict_sorted_iff)
  then show ?thesis by (simp add: listing_def sorted_wrt_rev sorted_wrt_map)
qed

lemma after_cursor_split:
  assumes "positions_ok pos rows" "listing pos rows = shown @ todo" "shown \<noteq> []"
  shows "after_cursor pos (pos (last shown)) rows = todo"
proof -
  have sorted: "sorted_wrt (\<lambda>a b. pos b < pos a) (shown @ todo)"
    using listing_decreasing [OF assms(1)] assms(2) by simp
  have "pos (last shown) \<le> pos r" if "r \<in> set shown" for r
  proof -
    have "shown = butlast shown @ [last shown]" using assms(3) by simp
    then have "sorted_wrt (\<lambda>a b. pos b < pos a) (butlast shown @ [last shown])"
      using sorted by (metis sorted_wrt_append)
    moreover have "r \<in> set (butlast shown) \<or> r = last shown"
      using that \<open>shown = butlast shown @ [last shown]\<close> by (metis Un_iff insertE list.set(2) set_append empty_iff list.set(1))
    ultimately show ?thesis by (auto simp: sorted_wrt_append)
  qed
  moreover have "pos r < pos (last shown)" if "r \<in> set todo" for r
    using sorted that assms(3) by (simp add: sorted_wrt_append)
  ultimately show ?thesis
    by (auto simp: after_cursor_def assms(2) filter_id_conv filter_empty_conv not_less)
qed

lemma after_first: "positions_ok pos rows \<Longrightarrow> after_cursor pos first_cursor rows = listing pos rows"
  by (auto simp: after_cursor_def filter_id_conv listing_set positions_ok_def list_all_iff less_prod_def')

lemma walk_from:
  assumes good: "good s" and "decode_cursor after = Some c" "todo = after_cursor pos c (rows_of s)"
    and "listing pos (rows_of s) = shown @ todo" "length todo < n"
  shows "walk (list_page s limit) n after = Some (map (view s) todo)"
  using assms(2-)
proof (induction n arbitrary: after c todo shown)
  case (Suc n)
  define l where "l = normalize_limit limit"
  have l: "0 < l" using normalize_limit_range l_def by simp
  have page: "list_page s limit after = Inr (map (view s) (take l todo),
      if l < length todo then encode_cursor (pos (todo ! (l - 1))) else [])"
    using page_law [OF good Suc.prems(1)] Suc.prems(2) by (simp add: Let_def l_def)
  show ?case
  proof (cases "l < length todo")
    case True
    define c' where "c' = pos (todo ! (l - 1))"
    have last: "todo ! (l - 1) = last (shown @ take l todo)"
    proof -
    have "take l todo \<noteq> []" using True l by auto
    then have "last (shown @ take l todo) = take l todo ! (length (take l todo) - 1)"
      by (metis last_append last_conv_nth)
    then show ?thesis using True l by simp
  qed
    have split: "listing pos (rows_of s) = (shown @ take l todo) @ drop l todo"
      using Suc.prems(3) by simp
    have rest: "after_cursor pos c' (rows_of s) = drop l todo"
      unfolding c'_def last using good_positions [OF good] split True l by (intro after_cursor_split) auto
    have "todo ! (l - 1) \<in> set todo" using True l by simp
    also have "\<dots> \<subseteq> set (listing pos (rows_of s))" using Suc.prems(3) by simp
    finally have "todo ! (l - 1) \<in> set (rows_of s)" by (simp add: listing_set)
    then have "decode_cursor (encode_cursor c') = Some c'"
      using good_positions [OF good] cursor_roundtrip [of "fst c'" "snd c'"]
      by (auto simp: positions_ok_def list_all_iff c'_def)
    moreover have "length (drop l todo) < n" using Suc.prems(4) True l by simp
    ultimately have "walk (list_page s limit) n (encode_cursor c') = Some (map (view s) (drop l todo))"
      using Suc.IH rest split by metis
    then show ?thesis using page True c'_def by (simp flip: map_append)
  qed (use page in simp)
qed simp

lemma walk_all:
  assumes "good s" "length (rows_of s) < n"
  shows "walk (list_page s limit) n [] = Some (map (view s) (listing pos (rows_of s)))"
proof (rule walk_from)
  show "decode_cursor [] = Some first_cursor" by (simp add: decode_cursor_def)
  show "listing pos (rows_of s) = after_cursor pos first_cursor (rows_of s)"
    using after_first good_positions assms(1) by metis
  show "listing pos (rows_of s) = [] @ listing pos (rows_of s)" by simp
  show "length (listing pos (rows_of s)) < n" using assms(2) by (simp add: listing_def)
qed (use assms in auto)

end

subsection \<open>Optimistic versions\<close>

text \<open>A run of requests; the ones that fail leave the store.\<close>

fun run_writes ::
  "('s \<Rightarrow> 'k \<Rightarrow> int \<Rightarrow> 'w \<Rightarrow> 'e + 's) \<Rightarrow> 's \<Rightarrow> ('k \<times> int \<times> 'w) list \<Rightarrow> ('k \<times> int) list \<times> 's"
where
  "run_writes put s [] = ([], s)"
| "run_writes put s ((pid, v, w) # ws) =
     (case put s pid v w of
        Inl e \<Rightarrow> run_writes put s ws
      | Inr t \<Rightarrow> (let (done, u) = run_writes put t ws in ((pid, v) # done, u)))"

text \<open>
  \<open>UPDATE ... SET version = version + 1 WHERE public_id = ? AND version = ?\<close>: the contract of
  every write of a versioned resource; a key names one resource.  \<open>version_of\<close> is the stored version, \<open>None\<close> once the
  resource is gone, and \<open>put\<close> any operation on one resource at an expected version.
\<close>

lemma versioned_update:
  assumes "distinct (map key rows)" "\<exists>r \<in> set rows. p r" "\<And>r. p r \<Longrightarrow> key r = pid \<and> ver r = (v::int)"
    and "\<And>r. key (f r) = key r" "\<And>r. ver (f r) = ver r + 1"
  shows "map_option ver (row_by key pid rows) = Some v"
    "map_option ver (row_by key pid (update_where p f rows)) = Some (v + 1)"
    "pid' \<noteq> pid \<Longrightarrow> map_option ver (row_by key pid' (update_where p f rows)) = map_option ver (row_by key pid' rows)"
proof -
  obtain r where r: "r \<in> set rows" "p r" using assms(2) by blast
  then have row: "row_by key pid rows = Some r" using row_by_unique [OF assms(1) r(1)] assms(3) by auto
  then show "map_option ver (row_by key pid rows) = Some v" using assms(3) r by simp
  show "map_option ver (row_by key pid (update_where p f rows)) = Some (v + 1)"
    using row r assms(3,5) by (simp add: row_by_update [where key = key and f = f, OF assms(4)])
  show "map_option ver (row_by key pid' (update_where p f rows)) = map_option ver (row_by key pid' rows)"
    if "pid' \<noteq> pid"
    using row_by_Some [of key pid' rows] assms(3) that
    by (cases "row_by key pid' rows") (auto simp: row_by_update [where key = key and f = f, OF assms(4)])
qed

locale versioned =
  fixes version_of :: "'s \<Rightarrow> 'k \<Rightarrow> int option"
    and put :: "'s \<Rightarrow> 'k \<Rightarrow> int \<Rightarrow> 'w \<Rightarrow> 'e + 's"
    and good :: "'s \<Rightarrow> bool"
  assumes put_checks: "good s \<Longrightarrow> put s pid v w = Inr t \<Longrightarrow> version_of s pid = Some v"
    and put_bumps: "good s \<Longrightarrow> put s pid v w = Inr t \<Longrightarrow>
      version_of t pid = Some (v + 1) \<or> version_of t pid = None"
    and put_others: "good s \<Longrightarrow> put s pid v w = Inr t \<Longrightarrow> pid' \<noteq> pid \<Longrightarrow>
      version_of t pid' = version_of s pid'"
    and put_good: "good s \<Longrightarrow> put s pid v w = Inr t \<Longrightarrow> good t"
begin

lemma run_writes_above:
  assumes "good s" "run_writes put s ws = (accepted, t)" "(pid, v) \<in> set accepted"
  shows "\<exists>u. version_of s pid = Some u \<and> u \<le> v"
  using assms
proof (induction ws arbitrary: s accepted)
  case (Cons a ws)
  note good = \<open>good s\<close>
  obtain pid' v' w where a: "a = (pid', v', w)" by (cases a) auto
  show ?case
  proof (cases "put s pid' v' w")
    case (Inr u)
    obtain rest x where rest: "run_writes put u ws = (rest, x)" by fastforce
    then have acc: "accepted = (pid', v') # rest" "x = t" using Cons.prems a Inr by auto
    show ?thesis
    proof (cases "(pid, v) = (pid', v')")
      case False
      then obtain y where "version_of u pid = Some y" "y \<le> v"
        using Cons.IH [of u rest] put_good [OF good Inr] rest acc Cons.prems(3) by auto
      then show ?thesis
        using put_checks [OF good Inr] put_bumps [OF good Inr] put_others [OF good Inr, of pid] by (cases "pid = pid'") auto
    qed (use put_checks [OF good Inr] in auto)
  qed (use Cons a in auto)
qed simp

text \<open>No two writes succeed at the same version of the same resource.\<close>

lemma no_lost_update:
  assumes "good s" "run_writes put s ws = (accepted, t)"
  shows "distinct accepted"
  using assms
proof (induction ws arbitrary: s accepted)
  case (Cons a ws)
  note good = \<open>good s\<close>
  obtain pid v w where a: "a = (pid, v, w)" by (cases a) auto
  show ?case
  proof (cases "put s pid v w")
    case (Inr u)
    obtain rest x where rest: "run_writes put u ws = (rest, x)" by fastforce
    then have acc: "accepted = (pid, v) # rest" "x = t" using Cons.prems a Inr by auto
    have "(pid, v) \<notin> set rest"
      using run_writes_above [of u ws rest t pid v] put_good [OF good Inr] rest acc put_bumps [OF good Inr] by fastforce
    then show ?thesis using acc Cons.IH [of u rest] put_good [OF good Inr] rest by simp
  qed (use Cons a in auto)
qed simp

end

subsection \<open>Tables that forget nothing\<close>

lemma list_all2_member: "list_all2 P xs ys \<Longrightarrow> x \<in> set xs \<Longrightarrow> \<exists>y \<in> set ys. P x y"
  by (induction rule: list_all2_induct) auto

lemma list_all2_updated:
  "(\<And>r. R r r) \<Longrightarrow> (\<And>r. p r \<Longrightarrow> R r (f r)) \<Longrightarrow> list_all2 R rows (update_where p f rows)"
  by (induction rows) (auto simp: update_where_def)

text \<open>
  The contract of a table whose operations add rows at the end and rewrite the others within
  \<open>kept\<close>: what a row promises at one time it promises in every later state.
\<close>

locale history =
  fixes rows_of :: "'s \<Rightarrow> 'r list"
    and kept :: "'r \<Rightarrow> 'r \<Rightarrow> bool"
    and step :: "'s \<Rightarrow> 's \<Rightarrow> bool"
    and good :: "'s \<Rightarrow> bool"
  assumes kept_refl: "kept r r"
    and kept_trans: "kept a b \<Longrightarrow> kept b c \<Longrightarrow> kept a c"
    and step_good: "good s \<Longrightarrow> step s t \<Longrightarrow> good t"
    and step_keeps: "good s \<Longrightarrow> step s t \<Longrightarrow>
      \<exists>old new. rows_of t = old @ new \<and> list_all2 kept (rows_of s) old"
begin

lemma steps_good: "step\<^sup>*\<^sup>* s t \<Longrightarrow> good s \<Longrightarrow> good t"
  by (induction rule: rtranclp_induct) (auto intro: step_good)

lemma row_kept:
  assumes "step\<^sup>*\<^sup>* s t" "good s" "r \<in> set (rows_of s)"
  shows "\<exists>r' \<in> set (rows_of t). kept r r'"
  using assms
proof (induction rule: rtranclp_induct)
  case base
  then show ?case using kept_refl by blast
next
  case (step t u)
  then obtain r' where r': "r' \<in> set (rows_of t)" "kept r r'" by blast
  obtain old new where "rows_of u = old @ new" "list_all2 kept (rows_of t) old"
    using step_keeps [OF steps_good [OF step.hyps(1) step.prems(1)] step.hyps(2)] by blast
  then show ?case using list_all2_member [of kept "rows_of t" old r'] r' kept_trans by fastforce
qed

end

end
