(* ===== verification/Accounts.thy ===== *)
theory Accounts
  imports Control Account_Auth
begin

text \<open>
  Provider accounts: \<open>internal/control/account.go\<close> creates, lists, updates and deletes them,
  \<open>internal/control/account_validation.go\<close> moves them through validation and connects them by
  OAuth.  The update reads the existing row before its transaction: it is a check of a snapshot
  and a commit on the tables of the time of the transaction.
\<close>

subsection \<open>Reading accounts\<close>

record account_info =
  ai_public :: string
  ai_upstream :: string
  ai_name :: string
  ai_auth_kind :: string
  ai_billing :: string
  ai_configured :: bool
  ai_expires :: "ms option"
  ai_proxy :: "string option"
  ai_status :: string
  ai_priority :: int
  ai_concurrency :: int
  ai_version :: int
  ai_created :: ms
  ai_updated :: ms

definition upstream_public_of :: "'x db_scheme \<Rightarrow> account_row \<Rightarrow> string option" where
  "upstream_public_of s a = map_option up_public_id (row_by up_id (ac_upstream_id a) (upstreams s))"

definition proxy_public_of :: "'x db_scheme \<Rightarrow> int option \<Rightarrow> string option" where
  "proxy_public_of s p = Option.bind p (\<lambda>i. map_option px_public_id (row_by px_id i (proxies s)))"

text \<open>The inner join on upstreams drops a row without one; the foreign key excludes that.\<close>

definition scan_account :: "'x db_scheme \<Rightarrow> account_row \<Rightarrow> control_error + account_info" where
  "scan_account s a =
     (case upstream_public_of s a of
        None \<Rightarrow> Inl NotFound
      | Some u \<Rightarrow>
          Inr \<lparr>ai_public = ac_public_id a, ai_upstream = u, ai_name = ac_name a,
               ai_auth_kind = ac_auth_kind a, ai_billing = ac_billing_kind a,
               ai_configured = (ac_credential_enc a \<noteq> None), ai_expires = ac_credential_expires a,
               ai_proxy = proxy_public_of s (ac_proxy_id a), ai_status = ac_status a,
               ai_priority = ac_priority a, ai_concurrency = ac_max_concurrency a,
               ai_version = ac_version a, ai_created = ac_created a, ai_updated = ac_updated a\<rparr>)"

definition get_account :: "string \<Rightarrow> 'x db_scheme \<Rightarrow> control_error + account_info" where
  "get_account pid s =
     (case row_by ac_public_id pid (accounts s) of
        None \<Rightarrow> Inl NotFound
      | Some a \<Rightarrow> scan_account s a)"

definition account_position :: "account_row \<Rightarrow> cursor" where
  "account_position a = (ac_created a, ac_id a)"

definition joined_accounts :: "'x db_scheme \<Rightarrow> account_row list" where
  "joined_accounts s = filter (\<lambda>a. upstream_public_of s a \<noteq> None) (accounts s)"

definition list_accounts :: "'x db_scheme \<Rightarrow> int \<Rightarrow> string \<Rightarrow> control_error + (account_info list \<times> string)" where
  "list_accounts s limit after =
     list_rows (Validation ''cursor'' ''is invalid'') (scan_account s) account_position limit after
       (joined_accounts s)"

definition account_credential_state :: "string \<Rightarrow> 'x db_scheme \<Rightarrow> control_error + (string \<times> bool)" where
  "account_credential_state pid s =
     (case row_by ac_public_id pid (accounts s) of
        None \<Rightarrow> Inl NotFound
      | Some a \<Rightarrow> Inr (ac_auth_kind a, ac_credential_enc a \<noteq> None))"

subsection \<open>Validating the input\<close>

record account_input =
  in_upstream :: string
  in_name :: string
  in_auth_kind :: string
  in_credential :: "string option"
  in_expires :: "nanos option"
  in_proxy :: "string option"
  in_billing :: string
  in_status :: string
  in_priority :: "int option"
  in_concurrency :: "int option"

definition clean_credential :: "string option \<Rightarrow> control_error + string option" where
  "clean_credential v =
     (case v of
        None \<Rightarrow> Inr None
      | Some raw \<Rightarrow>
          let clean = trim_space raw in
          if clean = [] \<or> 8192 < length clean \<or> contains_any clean [CHR 0x0D, CHR 0x0A, CHR 0x00]
          then Inl (Validation ''credential'' ''is invalid'')
          else Inr (Some clean))"

definition account_defaults :: "string \<Rightarrow> int \<times> int" where
  "account_defaults billing = (if billing = ''subscription'' then (10, 1) else (20, 4))"

definition status_allowed :: "bool \<Rightarrow> string \<Rightarrow> bool" where
  "status_allowed create v \<longleftrightarrow> v = ''draft'' \<or> v = ''disabled'' \<or> (\<not> create \<and> v = ''active'')"

text \<open>The defaults are filled in before the limits are checked.\<close>

definition check_limits :: "nanos \<Rightarrow> account_input \<Rightarrow> control_error + account_input" where
  "check_limits now i =
     (if the (in_priority i) < 0 \<or> 1000000 < the (in_priority i)
      then Inl (Validation ''priority'' ''must be between 0 and 1000000'')
      else if the (in_concurrency i) < 1 \<or> 1024 < the (in_concurrency i)
      then Inl (Validation ''max_concurrency'' ''must be between 1 and 1024'')
      else if (case in_expires i of None \<Rightarrow> False | Some t \<Rightarrow> t < now)
      then Inl (Validation ''credential_expires_at'' ''must be in the future'')
      else Inr i)"

definition fill_defaults :: "bool \<Rightarrow> account_input \<Rightarrow> control_error + account_input" where
  "fill_defaults create i =
     (let billing = (if in_billing i = [] then ''subscription'' else in_billing i) in
      if billing \<notin> {''subscription'', ''metered'', ''custom''}
      then Inl (Validation ''billing_kind'' ''must be subscription, metered, or custom'')
      else
        let status = (if in_status i = [] then ''draft'' else in_status i) in
        if \<not> status_allowed create status
        then Inl (Validation ''status'' ''must be draft or disabled; an update may retain an already active account'')
        else
          (case account_defaults billing of
             (default_priority, default_concurrency) \<Rightarrow>
               Inr (i\<lparr>in_billing := billing, in_status := status,
                      in_priority := Some (case in_priority i of None \<Rightarrow> default_priority | Some p \<Rightarrow> p),
                      in_concurrency :=
                        Some (case in_concurrency i of None \<Rightarrow> default_concurrency | Some n \<Rightarrow> n)\<rparr>)))"

definition validate_account_input ::
  "nanos \<Rightarrow> bool \<Rightarrow> account_input \<Rightarrow> control_error + account_input"
where
  "validate_account_input now create i =
     and_then (clean_name ''name'' (in_name i)) (\<lambda>name.
       let upstream = trim_space (in_upstream i);
           kind = (if in_auth_kind i = [] \<and> create then ''api_key'' else in_auth_kind i) in
       if upstream = [] then Inl (Validation ''upstream_id'' ''is required'')
       else if kind \<noteq> [] \<and> kind \<noteq> ''api_key'' \<and> kind \<noteq> ''oauth''
       then Inl (Validation ''auth_kind'' ''must be api_key or oauth'')
       else if create \<and> kind = ''api_key'' \<and> in_credential i = None
       then Inl (Validation ''credential'' ''is required'')
       else
         and_then (clean_credential (in_credential i)) (\<lambda>credential.
           if kind = ''oauth'' \<and> credential \<noteq> None
           then Inl (Validation ''credential'' ''must be omitted for OAuth accounts'')
           else
             and_then (fill_defaults create
                 (i\<lparr>in_name := name, in_upstream := upstream, in_auth_kind := kind, in_credential := credential\<rparr>))
               (check_limits now)))"

subsection \<open>Writing accounts\<close>

definition lookup_id :: "('r \<Rightarrow> string) \<Rightarrow> ('r \<Rightarrow> int) \<Rightarrow> string \<Rightarrow> 'r list \<Rightarrow> control_error + int" where
  "lookup_id key id_of pid rows =
     (case row_by key pid rows of None \<Rightarrow> Inl NotFound | Some r \<Rightarrow> Inr (id_of r))"

definition optional_internal_id ::
  "('r \<Rightarrow> string) \<Rightarrow> ('r \<Rightarrow> int) \<Rightarrow> string option \<Rightarrow> 'r list \<Rightarrow> control_error + int option"
where
  "optional_internal_id key id_of pid rows =
     (case pid of
        None \<Rightarrow> Inr None
      | Some p \<Rightarrow> and_then (lookup_id key id_of p rows) (\<lambda>i. Inr (Some i)))"

text \<open>
  What sealing needs: the cipher, \<open>render\<close> to write JSON, and the nonce drawn (\<open>None\<close> for a
  failed read).
\<close>

definition encrypt_credential ::
  "cipher \<Rightarrow> (lexeme list \<Rightarrow> string) \<Rightarrow> string option \<Rightarrow> string \<Rightarrow> string \<Rightarrow> control_error + string"
where
  "encrypt_credential c render nonce pid key =
     (case encrypt c render nonce pid (empty_payload\<lparr>schema_version := 1, api_key := key\<rparr>) of
        Inl _ \<Rightarrow> Inl (Failure ''credential'')
      | Inr env \<Rightarrow> Inr env)"

definition optional_credential ::
  "cipher \<Rightarrow> (lexeme list \<Rightarrow> string) \<Rightarrow> string option \<Rightarrow> string \<Rightarrow> string option \<Rightarrow> string option
    \<Rightarrow> control_error + string option"
where
  "optional_credential c render nonce pid current key =
     (case key of
        None \<Rightarrow> Inr current
      | Some k \<Rightarrow> and_then (encrypt_credential c render nonce pid k) (\<lambda>e. Inr (Some e)))"

text \<open>The constraint \<open>UNIQUE(upstream_id, name)\<close>.\<close>

definition account_name_taken :: "string \<Rightarrow> int \<Rightarrow> string \<Rightarrow> account_row list \<Rightarrow> bool" where
  "account_name_taken pid upstream name rows =
     list_ex (\<lambda>r. ac_public_id r \<noteq> pid \<and> ac_upstream_id r = upstream \<and> ac_name r = name) rows"

definition empty_identity :: string where
  "empty_identity = metadata_text [(''schema_version'', MetaInt 1)]"

definition insert_account ::
  "string \<Rightarrow> account_input \<Rightarrow> int \<Rightarrow> int option \<Rightarrow> string option \<Rightarrow> ms \<Rightarrow> 'x db_scheme \<Rightarrow> control_error + 'x db_scheme"
where
  "insert_account pid i upstream proxy cred now s =
     (if pid \<in> ac_public_id ` set (accounts s) \<or> account_name_taken pid upstream (in_name i) (accounts s)
      then Inl Conflict
      else Inr (s\<lparr>accounts := accounts s @
        [\<lparr>ac_id = next_id ac_id (accounts s), ac_public_id = pid, ac_upstream_id = upstream, ac_name = in_name i,
          ac_auth_kind = in_auth_kind i, ac_billing_kind = in_billing i, ac_credential_enc = cred,
          ac_credential_version = 1, ac_credential_expires = map_option unix_milli (in_expires i),
          ac_proxy_id = proxy, ac_status = in_status i, ac_priority = the (in_priority i),
          ac_max_concurrency = the (in_concurrency i), ac_identity = empty_identity,
          ac_capability_version = None, ac_last_validated = None, ac_version = 1, ac_created = now,
          ac_updated = now\<rparr>]\<rparr>))"

definition provider_of :: "int \<Rightarrow> 'x db_scheme \<Rightarrow> string" where
  "provider_of upstream s = (case row_by up_id upstream (upstreams s) of None \<Rightarrow> [] | Some u \<Rightarrow> up_provider_id u)"

definition create_account ::
  "cipher \<Rightarrow> (lexeme list \<Rightarrow> string) \<Rightarrow> string option \<Rightarrow> environment \<Rightarrow> actor \<Rightarrow> account_input \<Rightarrow> 'x control_db_scheme
    \<Rightarrow> control_error + (account_info \<times> 'x control_db_scheme)"
where
  "create_account c render nonce env who i s =
     and_then (validate_account_input (env_clock env 0) True i) (\<lambda>i.
       case object_id ''acct'' (env_object env) of
         None \<Rightarrow> Inl (Failure ''identifier'')
       | Some pid \<Rightarrow>
           and_then (optional_credential c render nonce pid None (in_credential i)) (\<lambda>cred.
           and_then (lookup_id up_public_id up_id (in_upstream i) (upstreams s)) (\<lambda>upstream.
           if in_auth_kind i = ''oauth'' \<and> provider_of upstream s \<noteq> ''google''
           then Inl (Validation ''auth_kind'' ''OAuth is currently available only for Google'')
           else
             and_then (optional_internal_id px_public_id px_id (valid_optional_reference (in_proxy i)) (proxies s))
               (\<lambda>proxy.
             and_then (insert_account pid i upstream proxy cred (unix_milli (env_clock env 1)) s) (\<lambda>s1.
             and_then (audit env (unix_milli (env_clock env 2)) who ''account.created'' ''account'' pid
                 [(''auth_kind'', MetaText (in_auth_kind i)), (''billing_kind'', MetaText (in_billing i)),
                  (''status'', MetaText (in_status i))] s1) (\<lambda>t.
             and_then (get_account pid t) (\<lambda>item. Inr (item, t))))))))"

text \<open>What \<open>UpdateAccount\<close> reads before its transaction.\<close>

record account_snapshot =
  sn_auth_kind :: string
  sn_credential :: "string option"
  sn_status :: string
  sn_upstream :: string
  sn_proxy :: "string option"

definition read_account :: "string \<Rightarrow> 'x db_scheme \<Rightarrow> control_error + account_snapshot" where
  "read_account pid s =
     (case row_by ac_public_id pid (accounts s) of
        None \<Rightarrow> Inl NotFound
      | Some a \<Rightarrow>
          (case upstream_public_of s a of
             None \<Rightarrow> Inl NotFound
           | Some u \<Rightarrow>
               Inr \<lparr>sn_auth_kind = ac_auth_kind a, sn_credential = ac_credential_enc a, sn_status = ac_status a,
                    sn_upstream = u, sn_proxy = proxy_public_of s (ac_proxy_id a)\<rparr>))"

definition check_update_account ::
  "cipher \<Rightarrow> (lexeme list \<Rightarrow> string) \<Rightarrow> string option \<Rightarrow> nanos \<Rightarrow> string \<Rightarrow> account_input \<Rightarrow> 'x db_scheme
    \<Rightarrow> control_error + (account_input \<times> string option)"
where
  "check_update_account c render nonce now pid i s =
     and_then (validate_account_input now False i) (\<lambda>i.
     and_then (read_account pid s) (\<lambda>old.
       let proxy = valid_optional_reference (in_proxy i);
           kind = (if in_auth_kind i = [] then sn_auth_kind old else in_auth_kind i) in
       if kind \<noteq> sn_auth_kind old
       then Inl (Validation ''auth_kind'' ''cannot be changed after account creation'')
       else if in_status i = ''active'' \<and> sn_status old \<noteq> ''active''
       then Inl (Validation ''status'' ''only validation can activate an account'')
       else if in_status i = ''active''
            \<and> (in_upstream i \<noteq> sn_upstream old \<or> proxy \<noteq> sn_proxy old \<or> in_credential i \<noteq> None)
       then Inl (Validation ''status''
         ''credential or egress changes require the account to return to draft and be validated again'')
       else
         and_then (optional_credential c render nonce pid (sn_credential old) (in_credential i)) (\<lambda>cred.
           Inr (i\<lparr>in_proxy := proxy, in_auth_kind := kind\<rparr>, cred))))"

text \<open>
  \<open>WHERE public_id = ? AND version = ?\<close>, and the row that the update writes: the status of the
  input, the credential of the check with its version counted up when it is new.
\<close>

definition at_version :: "string \<Rightarrow> int \<Rightarrow> account_row \<Rightarrow> bool" where
  "at_version pid version r \<longleftrightarrow> ac_public_id r = pid \<and> ac_version r = version"

definition updated_account ::
  "account_input \<Rightarrow> int \<Rightarrow> int option \<Rightarrow> string option \<Rightarrow> ms \<Rightarrow> account_row \<Rightarrow> account_row"
where
  "updated_account i upstream proxy cred now r =
     r\<lparr>ac_upstream_id := upstream, ac_name := in_name i, ac_billing_kind := in_billing i,
       ac_credential_enc := cred,
       ac_credential_version := ac_credential_version r + (if in_credential i = None then 0 else 1),
       ac_credential_expires := map_option unix_milli (in_expires i), ac_proxy_id := proxy,
       ac_status := in_status i, ac_priority := the (in_priority i),
       ac_max_concurrency := the (in_concurrency i), ac_version := ac_version r + 1, ac_updated := now\<rparr>"

definition write_accounts :: "(account_row \<Rightarrow> bool) \<Rightarrow> (account_row \<Rightarrow> account_row) \<Rightarrow> 'x db_scheme \<Rightarrow> 'x db_scheme" where
  "write_accounts p f s = s\<lparr>accounts := update_where p f (accounts s)\<rparr>"

definition commit_update_account ::
  "environment \<Rightarrow> actor \<Rightarrow> string \<Rightarrow> int \<Rightarrow> account_input \<Rightarrow> string option \<Rightarrow> 'x control_db_scheme
    \<Rightarrow> control_error + (account_info \<times> 'x control_db_scheme)"
where
  "commit_update_account env who pid version i cred s =
     and_then (lookup_id up_public_id up_id (in_upstream i) (upstreams s)) (\<lambda>upstream.
     if in_auth_kind i = ''oauth'' \<and> provider_of upstream s \<noteq> ''google''
     then Inl (Validation ''upstream_id'' ''OAuth accounts currently require a Google upstream'')
     else
       and_then (optional_internal_id px_public_id px_id (in_proxy i) (proxies s)) (\<lambda>proxy.
       if length (filter (at_version pid version) (accounts s)) \<noteq> 1
       then Inl (not_found_or_version ac_public_id pid (accounts s))
       else if account_name_taken pid upstream (in_name i) (accounts s) then Inl Conflict
       else
         and_then (audit env (unix_milli (env_clock env 2)) who ''account.updated'' ''account'' pid
             [(''billing_kind'', MetaText (in_billing i)), (''status'', MetaText (in_status i))]
             (write_accounts (at_version pid version)
               (updated_account i upstream proxy cred (unix_milli (env_clock env 1))) s)) (\<lambda>t.
         and_then (get_account pid t) (\<lambda>item. Inr (item, t)))))"

definition update_account ::
  "cipher \<Rightarrow> (lexeme list \<Rightarrow> string) \<Rightarrow> string option \<Rightarrow> environment \<Rightarrow> actor \<Rightarrow> string \<Rightarrow> int \<Rightarrow> account_input
    \<Rightarrow> 'x control_db_scheme \<Rightarrow> 'x control_db_scheme \<Rightarrow> control_error + (account_info \<times> 'x control_db_scheme)"
where
  "update_account c render nonce env who pid version i before s =
     and_then (check_update_account c render nonce (env_clock env 0) pid i before) (\<lambda>(i, cred).
       commit_update_account env who pid version i cred s)"

text \<open>
  A deletion is refused while a route candidate or a request record (\<open>recorded\<close>) refers to the
  account; its runtime, its models and its OAuth attempts go with it.
\<close>

definition drop_accounts :: "(account_row \<Rightarrow> bool) \<Rightarrow> 'x control_db_scheme \<Rightarrow> 'x control_db_scheme" where
  "drop_accounts p s =
     (let gone = map ac_id (filter p (accounts s)) in
      s\<lparr>accounts := filter (\<lambda>r. \<not> p r) (accounts s),
        runtimes := filter (\<lambda>r. rt_account_id r \<notin> set gone) (runtimes s),
        account_models := filter (\<lambda>r. mo_account_id r \<notin> set gone) (account_models s),
        oauth_attempts := filter (\<lambda>r. oa_account_id r \<notin> set gone) (oauth_attempts s)\<rparr>)"

definition account_referenced :: "(int \<Rightarrow> bool) \<Rightarrow> 'x db_scheme \<Rightarrow> account_row \<Rightarrow> bool" where
  "account_referenced recorded s r \<longleftrightarrow>
     recorded (ac_id r) \<or> list_ex (\<lambda>c. ca_account_id c = ac_id r) (candidates s)"

definition delete_account ::
  "(int \<Rightarrow> bool) \<Rightarrow> environment \<Rightarrow> actor \<Rightarrow> string \<Rightarrow> int \<Rightarrow> 'x control_db_scheme \<Rightarrow> control_error + 'x control_db_scheme"
where
  "delete_account recorded env who pid version s =
     (let gone = filter (at_version pid version) (accounts s) in
      if list_ex (account_referenced recorded s) gone then Inl ResourceInUse
      else if length gone \<noteq> 1 then Inl (not_found_or_version ac_public_id pid (accounts s))
      else
        audit env (unix_milli (env_clock env 0)) who ''account.deleted'' ''account'' pid []
          (drop_accounts (at_version pid version) s))"

subsection \<open>Validation\<close>

definition begin_account_validation ::
  "environment \<Rightarrow> actor \<Rightarrow> string \<Rightarrow> int \<Rightarrow> 'x control_db_scheme
    \<Rightarrow> control_error + (account_info \<times> 'x control_db_scheme)"
where
  "begin_account_validation env who pid version s =
     (let p = (\<lambda>r. at_version pid version r \<and> ac_status r \<noteq> ''validating'');
          now = unix_milli (env_clock env 0) in
      if length (filter p (accounts s)) \<noteq> 1 then Inl (not_found_or_version ac_public_id pid (accounts s))
      else
        and_then (audit env (unix_milli (env_clock env 1)) who ''account.validation_started'' ''account'' pid []
            (write_accounts p (\<lambda>r. r\<lparr>ac_status := ''validating'', ac_version := ac_version r + 1, ac_updated := now\<rparr>) s))
          (\<lambda>t. and_then (get_account pid t) (\<lambda>item. Inr (item, t))))"

fun models_loop :: "string list \<Rightarrow> string list \<Rightarrow> string list" where
  "models_loop result [] = result"
| "models_loop result (m # ms) =
     (let m = trim_space m in
      if m = [] \<or> 200 < length m \<or> contains_any m [CHR 0x0D, CHR 0x0A, CHR 0x00] \<or> m \<in> set result
      then models_loop result ms
      else models_loop (result @ [m]) ms)"

definition normalize_models :: "string list \<Rightarrow> control_error + string list" where
  "normalize_models models =
     (if 1000 < length models then Inl (Failure ''provider returned too many models'')
      else Inr (sort (models_loop [] models)))"

definition safe_reason_char :: "char \<Rightarrow> bool" where
  "safe_reason_char c \<longleftrightarrow> (CHR ''a'' \<le> c \<and> c \<le> CHR ''z'') \<or> (CHR ''0'' \<le> c \<and> c \<le> CHR ''9'') \<or> c = CHR ''_''"

definition safe_reason_code :: "string \<Rightarrow> bool" where
  "safe_reason_code v \<longleftrightarrow> v \<noteq> [] \<and> length v \<le> 64 \<and> list_all safe_reason_char v"

record account_validation =
  av_identity :: "(string \<times> meta) list"
  av_capability :: string
  av_models :: "string list"

text \<open>The identity that is kept: only the provider and the number of models.\<close>

definition identity_text :: "(string \<times> meta) list \<Rightarrow> string option" where
  "identity_text identity =
     (let body = metadata_text (fold (\<lambda>(k, v). AList.update k v)
            (filter (\<lambda>(k, _). k = ''provider_id'' \<or> k = ''model_count'') identity)
            [(''schema_version'', MetaInt 1)]) in
      if 4096 < length body then None else Some body)"

definition checked_validation :: "account_validation \<Rightarrow> control_error + (string \<times> string list)" where
  "checked_validation v =
     (case identity_text (av_identity v) of
        None \<Rightarrow> Inl (Failure ''account identity metadata is invalid'')
      | Some identity \<Rightarrow>
          if av_capability v = [] \<or> 200 < length (av_capability v)
          then Inl (Failure ''account capability version is invalid'')
          else and_then (normalize_models (av_models v)) (\<lambda>models. Inr (identity, models)))"

definition discovered_capabilities :: string where
  "discovered_capabilities =
     ''{'' @ quote_text ''schema_version'' @ '':1,'' @ quote_text ''values'' @ '':['' @ quote_text ''stream'' @ '',''
     @ quote_text ''text'' @ '']}''"

definition insert_model :: "int \<Rightarrow> ms \<Rightarrow> string \<Rightarrow> model_row list \<Rightarrow> model_row list" where
  "insert_model account now model rows =
     rows @ [\<lparr>mo_id = next_id mo_id rows, mo_account_id = account, mo_upstream_model = model,
              mo_capabilities = discovered_capabilities, mo_source = ''discovered'', mo_verified = now,
              mo_enabled = True\<rparr>]"

definition replace_models :: "int \<Rightarrow> ms \<Rightarrow> string list \<Rightarrow> 'x control_db_scheme \<Rightarrow> 'x control_db_scheme" where
  "replace_models account now models s =
     s\<lparr>account_models :=
         fold (insert_model account now) models (filter (\<lambda>r. mo_account_id r \<noteq> account) (account_models s))\<rparr>"

definition clear_runtime :: "int \<Rightarrow> ms \<Rightarrow> 'x db_scheme \<Rightarrow> 'x db_scheme" where
  "clear_runtime account now s =
     s\<lparr>runtimes := upsert (\<lambda>r. rt_account_id r = account)
         \<lparr>rt_account_id = account, rt_failure_streak = 0, rt_cooldown_until = None, rt_quota_reset = None,
          rt_last_success = Some now, rt_last_error = None, rt_last_error_code = None, rt_updated = now\<rparr>
         (\<lambda>r. r\<lparr>rt_failure_streak := 0, rt_cooldown_until := None, rt_quota_reset := None,
               rt_last_error_code := None, rt_updated := now\<rparr>) (runtimes s)\<rparr>"

text \<open>What a validation with this outcome asks of the row, and what it writes there.\<close>

definition finishable :: "string \<Rightarrow> int \<Rightarrow> bool \<Rightarrow> account_row \<Rightarrow> bool" where
  "finishable pid version ok r \<longleftrightarrow> at_version pid version r \<and> ac_status r = ''validating''
     \<and> (ok \<longrightarrow> ac_credential_enc r \<noteq> None)"

definition finished_account ::
  "bool \<Rightarrow> string \<Rightarrow> string option \<Rightarrow> ms \<Rightarrow> account_row \<Rightarrow> account_row"
where
  "finished_account ok identity capability now r =
     r\<lparr>ac_status := (if ok then ''active'' else ''invalid''), ac_identity := identity,
       ac_capability_version := capability, ac_last_validated := Some now, ac_version := ac_version r + 1,
       ac_updated := now\<rparr>"

text \<open>The account's internal id, which the code reads back after the update.\<close>

definition internal_id :: "string \<Rightarrow> 'x db_scheme \<Rightarrow> int" where
  "internal_id pid s = (case row_by ac_public_id pid (accounts s) of None \<Rightarrow> 0 | Some a \<Rightarrow> ac_id a)"

definition commit_validation ::
  "environment \<Rightarrow> actor \<Rightarrow> string \<Rightarrow> int \<Rightarrow> string \<Rightarrow> string option \<Rightarrow> string list option \<Rightarrow> string
    \<Rightarrow> 'x control_db_scheme \<Rightarrow> control_error + (account_info \<times> 'x control_db_scheme)"
where
  "commit_validation env who pid version identity capability models failure_code s =
     (let now = unix_milli (env_clock env 0); ok = (models \<noteq> None);
          found = (case models of None \<Rightarrow> [] | Some ms \<Rightarrow> ms) in
      if length (filter (finishable pid version ok) (accounts s)) \<noteq> 1
      then Inl (not_found_or_version ac_public_id pid (accounts s))
      else
        let s1 = write_accounts (finishable pid version ok) (finished_account ok identity capability now) s;
            account = internal_id pid s1;
            s2 = (if ok then clear_runtime account now (replace_models account now found s1) else s1) in
        and_then (audit_outcome env (unix_milli (env_clock env 1)) who ''account.validation_completed'' ''account''
            pid (if ok then ''success'' else ''failure'')
            ([(''model_count'', MetaInt (int (length found)))]
             @ (if failure_code = [] then [] else [(''reason'', MetaText failure_code)])) s2) (\<lambda>t.
        and_then (get_account pid t) (\<lambda>item. Inr (item, t))))"

definition finish_account_validation ::
  "environment \<Rightarrow> actor \<Rightarrow> string \<Rightarrow> int \<Rightarrow> account_validation option \<Rightarrow> string \<Rightarrow> 'x control_db_scheme
    \<Rightarrow> control_error + (account_info \<times> 'x control_db_scheme)"
where
  "finish_account_validation env who pid version validation failure_code s =
     (case validation of
        Some v \<Rightarrow>
          and_then (checked_validation v) (\<lambda>(identity, models).
            commit_validation env who pid version identity (Some (av_capability v)) (Some models) failure_code s)
      | None \<Rightarrow>
          if \<not> safe_reason_code failure_code
          then Inl (Failure ''account validation failure code is invalid'')
          else commit_validation env who pid version empty_identity None None failure_code s)"

text \<open>
  After a restart, every account left in validation is invalid.  Each audit row draws its own
  identifier: \<open>ids\<close> gives the environment of the n-th.
\<close>

definition recover_one :: "ms \<Rightarrow> (nat \<Rightarrow> environment) \<Rightarrow> nat \<times> string \<Rightarrow> 'x control_db_scheme
    \<Rightarrow> control_error + 'x control_db_scheme"
where
  "recover_one now ids = (\<lambda>(n, pid) s.
     let p = (\<lambda>r. ac_public_id r = pid \<and> ac_status r = ''validating'') in
     if length (filter p (accounts s)) \<noteq> 1 then Inl Conflict
     else audit_outcome (ids n) (unix_milli (env_clock (ids n) 1))
       \<lparr>actor_kind = ''system'', actor_id = [], actor_request = []\<rparr> ''account.validation_recovered'' ''account'' pid
       ''failure'' [(''reason'', MetaText ''process_interrupted'')]
       (write_accounts p (\<lambda>r. r\<lparr>ac_status := ''invalid'', ac_last_validated := Some now,
          ac_version := ac_version r + 1, ac_updated := now\<rparr>) s))"

definition recover_interrupted_validations ::
  "(nat \<Rightarrow> environment) \<Rightarrow> 'x control_db_scheme \<Rightarrow> control_error + (nat \<times> 'x control_db_scheme)"
where
  "recover_interrupted_validations ids s =
     (let pids = map ac_public_id (sort_key ac_id (filter (\<lambda>r. ac_status r = ''validating'') (accounts s))) in
      and_then (fold (\<lambda>x r. and_then r (recover_one (unix_milli (env_clock (ids 0) 0)) ids x))
          (enumerate 0 pids) (Inr s))
        (\<lambda>t. Inr (length pids, t)))"

subsection \<open>Completion of an OAuth authorization\<close>

definition connectable :: "string \<Rightarrow> int \<Rightarrow> account_row \<Rightarrow> bool" where
  "connectable pid version r \<longleftrightarrow> at_version pid version r \<and> ac_auth_kind r = ''oauth'' \<and> ac_status r \<noteq> ''disabled''"

definition connected_account ::
  "string \<Rightarrow> ms \<Rightarrow> string \<Rightarrow> string \<Rightarrow> ms \<Rightarrow> account_row \<Rightarrow> account_row"
where
  "connected_account cred expires identity capability now r =
     r\<lparr>ac_credential_enc := Some cred, ac_credential_expires := Some expires,
       ac_credential_version := ac_credential_version r + 1, ac_status := ''active'', ac_identity := identity,
       ac_capability_version := Some capability, ac_last_validated := Some now, ac_version := ac_version r + 1,
       ac_updated := now\<rparr>"

definition consumable :: "string \<Rightarrow> int \<Rightarrow> ms \<Rightarrow> attempt_row \<Rightarrow> bool" where
  "consumable attempt account now r \<longleftrightarrow> oa_public_id r = attempt \<and> oa_account_id r = account
     \<and> oa_status r = ''exchanging'' \<and> now < oa_expires r"

definition checked_oauth ::
  "cipher \<Rightarrow> (lexeme list \<Rightarrow> string) \<Rightarrow> string option \<Rightarrow> ms \<Rightarrow> string \<Rightarrow> payload \<Rightarrow> account_validation
    \<Rightarrow> control_error + (string \<times> string \<times> string list)"
where
  "checked_oauth c render nonce now account p v =
     (if schema_version p \<noteq> 1 \<or> access_token p = [] \<or> refresh_token p = [] \<or> expires_at p \<le> now
      then Inl (Failure ''OAuth credential payload is invalid'')
      else
        and_then (normalize_models (av_models v)) (\<lambda>models.
        if av_capability v = [] \<or> 200 < length (av_capability v)
        then Inl (Failure ''account capability version is invalid'')
        else
          (case identity_text (av_identity v) of
             None \<Rightarrow> Inl (Failure ''account identity metadata is invalid'')
           | Some identity \<Rightarrow>
               (case encrypt c render nonce account p of
                  Inl _ \<Rightarrow> Inl (Failure ''credential'')
                | Inr cred \<Rightarrow> Inr (cred, identity, models)))))"

definition complete_oauth_account ::
  "cipher \<Rightarrow> (lexeme list \<Rightarrow> string) \<Rightarrow> string option \<Rightarrow> environment \<Rightarrow> actor \<Rightarrow> string \<Rightarrow> string \<Rightarrow> int \<Rightarrow> payload
    \<Rightarrow> account_validation \<Rightarrow> 'x control_db_scheme \<Rightarrow> control_error + (account_info \<times> 'x control_db_scheme)"
where
  "complete_oauth_account c render nonce env who attempt pid version p v s =
     and_then (checked_oauth c render nonce (unix_milli (env_clock env 0)) pid p v) (\<lambda>(cred, identity, models).
       let now = unix_milli (env_clock env 1) in
       if length (filter (connectable pid version) (accounts s)) \<noteq> 1
       then Inl (not_found_or_version ac_public_id pid (accounts s))
       else
         let s1 = write_accounts (connectable pid version)
               (connected_account cred (expires_at p) identity (av_capability v) now) s;
             account = internal_id pid s1;
             s2 = clear_runtime account now (replace_models account now models s1) in
         if length (filter (consumable attempt account now) (oauth_attempts s2)) \<noteq> 1 then Inl Conflict
         else
           and_then (audit env (unix_milli (env_clock env 2)) who ''account.oauth_connected'' ''account'' pid
               [(''provider_id'', MetaText ''google''), (''model_count'', MetaInt (int (length models))),
                (''attempt_id'', MetaText attempt)]
               (s2\<lparr>oauth_attempts := update_where (consumable attempt account now)
                   (\<lambda>r. r\<lparr>oa_status := ''consumed'', oa_consumed := Some now\<rparr>) (oauth_attempts s2)\<rparr>)) (\<lambda>t.
           and_then (get_account pid t) (\<lambda>item. Inr (item, t))))"

end
