(* ===== verification/Routing.thy ===== *)
theory Routing
  imports Database Account_Auth
begin

text \<open>
  \<open>internal/routing\<close>: choosing an upstream account for a model and keeping its runtime
  state.  \<open>route_query\<close> is the SQL join, \<open>filter_reason\<close> the eligibility rules,
  \<open>plan\<close> the selection under the mutex, \<open>release\<close> the end of a lease, and
  \<open>record_success\<close> and \<open>record_failure\<close> the feedback into \<open>account_runtime\<close>.
  The in-memory maps are total functions (an absent entry is the zero value \<open>stateLocked\<close>
  inserts); the cursor is a \<open>uint64\<close>.
\<close>

subsection \<open>Types of routing.go\<close>

record proxy =
  proxy_public_id :: string
  proxy_version :: int
  proxy_scheme :: string
  proxy_host :: string
  proxy_port :: int
  proxy_username :: string
  proxy_password :: string
  proxy_tls_name :: string
  proxy_insecure :: bool

record candidate =
  route_internal :: int
  route_public :: string
  account_internal :: int
  account_public :: string
  account_version :: int
  credential_version :: int
  credential_expires :: ms
  auth_kind :: string
  provider_id :: string
  upstream_internal :: int
  upstream_public :: string
  upstream_version :: int
  base_url :: string
  allow_private :: bool
  upstream_model :: string
  priority :: int
  max_concurrency :: int
  credential :: "credential option" \<comment> \<open>the zero \<open>Credential\<close> is \<open>None\<close>\<close>
  cand_proxy :: "proxy option"
  failure_streak :: int

record request =
  req_model :: string
  req_protocol :: string
  req_capabilities :: "string list"

record explanation =
  candidate_count :: nat
  filtered :: "string \<Rightarrow> nat"
  selected_priority :: int
  selected_numerator :: int
  selected_denominator :: int

datatype plan_error =
    RouteError string nanos \<comment> \<open>code and \<open>RetryAfter\<close>\<close>
  | LoadError go_error

record router =
  in_flight :: "int \<Rightarrow> int"
  cursors :: "int \<Rightarrow> nat"

record lease =
  lease_candidate :: candidate
  lease_done :: bool \<comment> \<open>the \<open>sync.Once\<close> has run\<close>

definition new_router :: router where
  "new_router = \<lparr>in_flight = (\<lambda>_. 0), cursors = (\<lambda>_. 0)\<rparr>"

abbreviation two64 :: nat where "two64 \<equiv> 18446744073709551616"

subsection \<open>Loading the rows of a route\<close>

record loaded =
  ld_candidate :: candidate
  ld_route_enabled :: bool
  ld_candidate_enabled :: bool
  ld_account_status :: string
  ld_expiry :: "ms option"
  ld_has_credential :: bool
  ld_upstream_enabled :: bool
  ld_proxy_enabled :: "bool option"
  ld_protocols :: "string list"
  ld_capabilities :: "string list"
  ld_cooldown_until :: "ms option"
  ld_quota_reset :: "ms option"

record joined =
  j_route :: route_row
  j_candidate :: candidate_row
  j_account :: account_row
  j_upstream :: upstream_row
  j_proxy :: "proxy_row option"
  j_runtime :: "runtime_row option"

definition join_candidate :: "db \<Rightarrow> route_row \<Rightarrow> candidate_row \<Rightarrow> joined option" where
  "join_candidate d r c =
     (case row_by ac_id (ca_account_id c) (accounts d) of
        None \<Rightarrow> None
      | Some a \<Rightarrow>
          (case row_by up_id (ac_upstream_id a) (upstreams d) of
             None \<Rightarrow> None
           | Some u \<Rightarrow>
               let pid = (case ac_proxy_id a of None \<Rightarrow> up_default_proxy u | Some p \<Rightarrow> Some p) in
               Some \<lparr>j_route = r, j_candidate = c, j_account = a, j_upstream = u,
                     j_proxy = Option.bind pid (\<lambda>p. row_by px_id p (proxies d)),
                     j_runtime = row_by rt_account_id (ac_id a) (runtimes d)\<rparr>))"

text \<open>\<open>routeQuery\<close>: the candidates of the route with this public model, in id order.\<close>

definition route_query :: "db \<Rightarrow> string \<Rightarrow> joined list" where
  "route_query d model =
     (case row_by ro_public_model_id model (routes d) of
        None \<Rightarrow> []
      | Some r \<Rightarrow>
          List.map_filter (join_candidate d r)
            (sort_key ca_id (filter (\<lambda>c. ca_route_id c = ro_id r) (candidates d))))"

definition invalid_set :: go_error where
  "invalid_set = Failure_Text ''route candidate set is invalid''"

definition decode_string_set :: "lexeme list \<Rightarrow> go_error + string list" where
  "decode_string_set body =
     (case unmarshal body of
        Some (JObj ms) \<Rightarrow>
          (case (field_or 0 to_int ms ''schema_version'', field_or [] to_strings ms ''values'') of
             (Some v, Some vs) \<Rightarrow> if v = 1 then Inr vs else Inl invalid_set
           | _ \<Rightarrow> Inl invalid_set)
      | _ \<Rightarrow> Inl invalid_set)"

definition open_column ::
  "cipher \<Rightarrow> string \<Rightarrow> string \<Rightarrow> string \<Rightarrow> string option \<Rightarrow> go_error + string"
where
  "open_column c table public_id column b =
     (if sealed b = [] then Inr [] else open_envelope c (sealed b) (aad table public_id column))"

definition load_proxy :: "cipher \<Rightarrow> proxy_row \<Rightarrow> go_error + proxy" where
  "load_proxy c p =
     and_then (open_column c ''egress_proxies'' (px_public_id p) ''username_enc'' (px_username_enc p))
       (\<lambda>username.
         and_then (open_column c ''egress_proxies'' (px_public_id p) ''password_enc'' (px_password_enc p))
           (\<lambda>password.
             Inr \<lparr>proxy_public_id = px_public_id p, proxy_version = px_version p,
                  proxy_scheme = px_scheme p, proxy_host = px_host p, proxy_port = px_port p,
                  proxy_username = username, proxy_password = password,
                  proxy_tls_name = sealed (px_tls_server_name p),
                  proxy_insecure = px_allow_insecure p\<rparr>))"

definition load_optional_proxy :: "cipher \<Rightarrow> proxy_row option \<Rightarrow> go_error + proxy option" where
  "load_optional_proxy c p =
     (case p of None \<Rightarrow> Inr None | Some r \<Rightarrow> and_then (load_proxy c r) (\<lambda>x. Inr (Some x)))"

definition load_credential ::
  "cipher \<Rightarrow> (string \<Rightarrow> lexeme list) \<Rightarrow> account_row \<Rightarrow> string \<Rightarrow> go_error + credential option"
where
  "load_credential c scan a provider =
     (if sealed (ac_credential_enc a) = [] then Inr None
      else and_then (decrypt c scan (ac_public_id a) (sealed (ac_credential_enc a)))
        (\<lambda>p. and_then (provider_credential (ac_auth_kind a) provider p) (\<lambda>k. Inr (Some k))))"

definition candidate_of ::
  "account_row \<Rightarrow> upstream_row \<Rightarrow> credential option \<Rightarrow> proxy option \<Rightarrow> candidate"
where
  "candidate_of a u k p =
     \<lparr>route_internal = 0, route_public = [], account_internal = ac_id a,
      account_public = ac_public_id a, account_version = ac_version a,
      credential_version = ac_credential_version a,
      credential_expires = (case ac_credential_expires a of None \<Rightarrow> 0 | Some t \<Rightarrow> t),
      auth_kind = ac_auth_kind a, provider_id = up_provider_id u, upstream_internal = up_id u,
      upstream_public = up_public_id u, upstream_version = up_version u, base_url = up_base_url u,
      allow_private = up_allow_private u, upstream_model = [], priority = ac_priority a,
      max_concurrency = ac_max_concurrency a, credential = k, cand_proxy = p, failure_streak = 0\<rparr>"

definition scan_route_candidate ::
  "cipher \<Rightarrow> (string \<Rightarrow> lexeme list) \<Rightarrow> joined \<Rightarrow> go_error + loaded"
where
  "scan_route_candidate c scan j =
     and_then (decode_string_set (ca_protocols (j_candidate j))) (\<lambda>protocols.
     and_then (decode_string_set (ca_capabilities (j_candidate j))) (\<lambda>capabilities.
     and_then (load_credential c scan (j_account j) (up_provider_id (j_upstream j))) (\<lambda>cred.
     and_then (load_optional_proxy c (j_proxy j)) (\<lambda>p.
       let a = j_account j; u = j_upstream j in
       Inr \<lparr>ld_candidate = (candidate_of a u cred p)
              \<lparr>route_internal := ro_id (j_route j), route_public := ro_public_id (j_route j),
               upstream_model := ca_upstream_model (j_candidate j),
               failure_streak := (case j_runtime j of None \<Rightarrow> 0 | Some r \<Rightarrow> rt_failure_streak r)\<rparr>,
            ld_route_enabled = ro_enabled (j_route j),
            ld_candidate_enabled = ca_enabled (j_candidate j),
            ld_account_status = ac_status a,
            ld_expiry = ac_credential_expires a,
            ld_has_credential = (sealed (ac_credential_enc a) \<noteq> []),
            ld_upstream_enabled = up_enabled u,
            ld_proxy_enabled = map_option px_enabled (j_proxy j),
            ld_protocols = protocols, ld_capabilities = capabilities,
            ld_cooldown_until = Option.bind (j_runtime j) rt_cooldown_until,
            ld_quota_reset = Option.bind (j_runtime j) rt_quota_reset\<rparr>))))"

subsection \<open>Eligibility\<close>

definition protocol_matches :: "string list \<Rightarrow> string \<Rightarrow> string \<Rightarrow> bool" where
  "protocol_matches vs requested provider \<longleftrightarrow>
     requested \<in> set vs \<or> (requested = ''openai'' \<and> provider = ''xai'' \<and> ''xai'' \<in> set vs)"

definition contains_all :: "string list \<Rightarrow> string list \<Rightarrow> bool" where
  "contains_all vs required \<longleftrightarrow> list_all (\<lambda>r. r \<in> set vs) required"

definition after :: "ms option \<Rightarrow> ms \<Rightarrow> bool" where
  "after t now = (case t of None \<Rightarrow> False | Some x \<Rightarrow> x > now)"

definition expired :: "ms option \<Rightarrow> ms \<Rightarrow> bool" where
  "expired t now = (case t of None \<Rightarrow> False | Some x \<Rightarrow> x \<le> now)"

text \<open>The reason a row is filtered out, empty for a row that stays.\<close>

definition filter_reason :: "loaded \<Rightarrow> request \<Rightarrow> ms \<Rightarrow> string" where
  "filter_reason l r now =
     (if \<not> ld_route_enabled l \<or> \<not> ld_candidate_enabled l \<or> \<not> ld_upstream_enabled l
      then ''upstream_unavailable''
      else if ld_proxy_enabled l = Some False then ''upstream_unavailable''
      else if \<not> protocol_matches (ld_protocols l) (req_protocol r) (provider_id (ld_candidate l))
           \<or> \<not> contains_all (ld_capabilities l) (req_capabilities r)
      then ''capability_not_supported''
      else if ld_account_status l = ''reauth_required'' \<or> ld_account_status l = ''invalid''
      then ''reauth_required''
      else if ld_account_status l \<noteq> ''active'' then ''account_disabled''
      else if \<not> ld_has_credential l then ''reauth_required''
      else if expired (ld_expiry l) now \<and> auth_kind (ld_candidate l) \<noteq> ''oauth''
      then ''reauth_required''
      else if after (ld_quota_reset l) now then ''quota_limited''
      else if after (ld_cooldown_until l) now then ''account_cooldown''
      else [])"

definition earlier_positive :: "int \<Rightarrow> int \<Rightarrow> int" where
  "earlier_positive current candidate =
     (if candidate \<le> 0 \<or> (current > 0 \<and> current \<le> candidate) then current else candidate)"

definition error_order :: "string list" where
  "error_order =
     [''reauth_required'', ''capability_not_supported'', ''quota_limited'',
      ''all_accounts_saturated'', ''account_cooldown'', ''account_disabled'']"

definition wait_until :: "ms \<Rightarrow> ms \<Rightarrow> nanos" where
  "wait_until t now = wrap64 (max (t - now) 0 * millisecond)"

definition no_candidate_error :: "(string \<Rightarrow> nat) \<Rightarrow> ms \<Rightarrow> ms \<Rightarrow> ms \<Rightarrow> plan_error" where
  "no_candidate_error f now quota_retry cooldown_retry =
     (case find (\<lambda>code. 0 < f code) error_order of
        None \<Rightarrow> RouteError ''upstream_unavailable'' 0
      | Some code \<Rightarrow>
          RouteError code
            (if code = ''quota_limited'' then wait_until quota_retry now
             else if code = ''account_cooldown'' then wait_until cooldown_retry now
             else 0))"

subsection \<open>Plan\<close>

text \<open>What the loop over the rows has gathered.\<close>

record scan_state =
  sc_eligible :: "candidate list"
  sc_explanation :: explanation
  sc_route :: int
  sc_quota_retry :: ms
  sc_cooldown_retry :: ms

definition count_reason :: "string \<Rightarrow> explanation \<Rightarrow> explanation" where
  "count_reason reason e =
     e\<lparr>filtered := (filtered e)(reason := Suc (filtered e reason))\<rparr>"

definition scan_row :: "request \<Rightarrow> ms \<Rightarrow> loaded \<Rightarrow> scan_state \<Rightarrow> scan_state" where
  "scan_row r now l s =
     (let s1 = s\<lparr>sc_route := route_internal (ld_candidate l),
                sc_explanation := (sc_explanation s)
                  \<lparr>candidate_count := Suc (candidate_count (sc_explanation s))\<rparr>\<rparr>;
          reason = filter_reason l r now in
      if reason \<noteq> [] then
        let s2 = s1\<lparr>sc_explanation := count_reason reason (sc_explanation s1)\<rparr> in
        if reason = ''quota_limited'' then
          s2\<lparr>sc_quota_retry := earlier_positive (sc_quota_retry s2) (the (ld_quota_reset l))\<rparr>
        else if reason = ''account_cooldown'' then
          s2\<lparr>sc_cooldown_retry := earlier_positive (sc_cooldown_retry s2) (the (ld_cooldown_until l))\<rparr>
        else s2
      else s1\<lparr>sc_eligible := sc_eligible s1 @ [ld_candidate l]\<rparr>)"

definition empty_explanation :: explanation where
  "empty_explanation =
     \<lparr>candidate_count = 0, filtered = (\<lambda>_. 0), selected_priority = 0, selected_numerator = 0,
      selected_denominator = 0\<rparr>"

definition empty_scan :: scan_state where
  "empty_scan =
     \<lparr>sc_eligible = [], sc_explanation = empty_explanation, sc_route = 0, sc_quota_retry = 0,
      sc_cooldown_retry = 0\<rparr>"

text \<open>The loop stops at the first row that does not load.\<close>

fun scan_rows ::
  "cipher \<Rightarrow> (string \<Rightarrow> lexeme list) \<Rightarrow> request \<Rightarrow> ms \<Rightarrow> joined list \<Rightarrow> scan_state
     \<Rightarrow> scan_state \<times> go_error option"
where
  "scan_rows c scan r now [] s = (s, None)"
| "scan_rows c scan r now (j # js) s =
     (case scan_route_candidate c scan j of
        Inl e \<Rightarrow> (s, Some e)
      | Inr l \<Rightarrow> scan_rows c scan r now js (scan_row r now l s))"

definition has_capacity :: "router \<Rightarrow> candidate \<Rightarrow> bool" where
  "has_capacity st c \<longleftrightarrow> in_flight st (account_internal c) < max_concurrency c"

definition with_capacity :: "router \<Rightarrow> candidate list \<Rightarrow> explanation \<Rightarrow> candidate list \<times> explanation" where
  "with_capacity st cs e =
     (filter (has_capacity st) cs,
      fold (\<lambda>_. count_reason ''all_accounts_saturated'') (filter (\<lambda>c. \<not> has_capacity st c) cs) e)"

definition minimum_priority :: "candidate list \<Rightarrow> int" where
  "minimum_priority cs =
     fold (\<lambda>c m. if priority c < m then priority c else m) (tl cs) (priority (hd cs))"

definition first_priority :: "candidate list \<Rightarrow> explanation \<Rightarrow> candidate list \<times> explanation" where
  "first_priority cs e =
     (let m = minimum_priority cs in
      (filter (\<lambda>c. priority c = m) cs,
       fold (\<lambda>_. count_reason ''lower_priority'') (filter (\<lambda>c. priority c \<noteq> m) cs) e))"

text \<open>The loop that keeps the candidates of least load: numerator, denominator, and the list.\<close>

fun least_loaded ::
  "router \<Rightarrow> candidate list \<Rightarrow> (int \<times> int) option \<Rightarrow> candidate list \<Rightarrow> candidate list"
where
  "least_loaded st [] best available = available"
| "least_loaded st (c # cs) best available =
     (let load = in_flight st (account_internal c) in
      (case best of
         None \<Rightarrow> least_loaded st cs (Some (load, max_concurrency c)) [c]
       | Some (num, den) \<Rightarrow>
           if load * den < num * max_concurrency c
           then least_loaded st cs (Some (load, max_concurrency c)) [c]
           else if load * den = num * max_concurrency c
           then least_loaded st cs best (available @ [c])
           else least_loaded st cs best available))"

definition select_candidate ::
  "router \<Rightarrow> int \<Rightarrow> candidate list \<Rightarrow> explanation \<Rightarrow> router \<times> explanation \<times> (plan_error + lease)"
where
  "select_candidate st route eligible e =
     (let (cs, e1) = with_capacity st eligible e in
      if cs = [] then (st, e1, Inl (RouteError ''all_accounts_saturated'' 0))
      else
        let (top, e2) = first_priority cs e1;
            available = least_loaded st top None [];
            cursor = cursors st route;
            selected = available ! (cursor mod length available);
            load = in_flight st (account_internal selected)
        in (st\<lparr>cursors := (cursors st)(route := Suc cursor mod two64),
               in_flight := (in_flight st)(account_internal selected := load + 1)\<rparr>,
            e2\<lparr>selected_priority := priority selected, selected_numerator := load,
               selected_denominator := max_concurrency selected\<rparr>,
            Inr \<lparr>lease_candidate = selected, lease_done = False\<rparr>))"

definition plan ::
  "cipher \<Rightarrow> (string \<Rightarrow> lexeme list) \<Rightarrow> db \<Rightarrow> ms \<Rightarrow> router \<Rightarrow> request
     \<Rightarrow> router \<times> explanation \<times> (plan_error + lease)"
where
  "plan c scan d now st r =
     (let rows = route_query d (trim_space (req_model r)) in
      (case scan_rows c scan r now rows empty_scan of
         (s, Some err) \<Rightarrow> (st, sc_explanation s, Inl (LoadError err))
       | (s, None) \<Rightarrow>
           if rows = [] then (st, sc_explanation s, Inl (RouteError ''model_not_configured'' 0))
           else if sc_eligible s = [] then
             (st, sc_explanation s,
              Inl (no_candidate_error (filtered (sc_explanation s)) now
                     (sc_quota_retry s) (sc_cooldown_retry s)))
           else select_candidate st (sc_route s) (sc_eligible s) (sc_explanation s)))"

definition release :: "lease \<Rightarrow> router \<Rightarrow> lease \<times> router" where
  "release l st =
     (if lease_done l then (l, st)
      else
        let a = account_internal (lease_candidate l) in
        (l\<lparr>lease_done := True\<rparr>,
         if in_flight st a > 0 then st\<lparr>in_flight := (in_flight st)(a := in_flight st a - 1)\<rparr>
         else st))"

subsection \<open>Feedback\<close>

record failure =
  f_status :: int
  f_code :: string
  f_retry_after :: nanos
  f_network :: bool

definition clamp :: "int \<Rightarrow> int \<Rightarrow> int \<Rightarrow> int" where
  "clamp v lo hi = (if v < lo then lo else if v > hi then hi else v)"

text \<open>The foreign key of \<open>account_runtime\<close> refuses a row for an account that has been deleted.\<close>

definition on_runtime :: "int \<Rightarrow> (runtime_row list \<Rightarrow> runtime_row list) \<Rightarrow> 'x db_scheme \<Rightarrow> 'x db_scheme" where
  "on_runtime account f d =
     (if list_ex (\<lambda>a. ac_id a = account) (accounts d) then d\<lparr>runtimes := f (runtimes d)\<rparr> else d)"

lemma on_runtime_accounts [simp]: "accounts (on_runtime account f d) = accounts d"
  by (simp add: on_runtime_def)

definition record_success :: "ms \<Rightarrow> int \<Rightarrow> 'x db_scheme \<Rightarrow> 'x db_scheme" where
  "record_success now account d =
     on_runtime account (upsert (\<lambda>r. rt_account_id r = account)
         \<lparr>rt_account_id = account, rt_failure_streak = 0, rt_cooldown_until = None,
          rt_quota_reset = None, rt_last_success = Some now, rt_last_error = None,
          rt_last_error_code = None, rt_updated = now\<rparr>
         (\<lambda>r. r\<lparr>rt_failure_streak := 0, rt_cooldown_until := None, rt_last_success := Some now,
               rt_last_error_code := None, rt_updated := now\<rparr>)) d"

definition coalesce :: "'a option \<Rightarrow> 'a option \<Rightarrow> 'a option" where
  "coalesce a b = (case a of None \<Rightarrow> b | Some x \<Rightarrow> Some x)"

definition record_runtime_error ::
  "ms \<Rightarrow> int \<Rightarrow> string \<Rightarrow> ms option \<Rightarrow> ms option \<Rightarrow> 'x db_scheme \<Rightarrow> 'x db_scheme"
where
  "record_runtime_error now account code cooldown quota d =
     on_runtime account (upsert (\<lambda>r. rt_account_id r = account)
         \<lparr>rt_account_id = account, rt_failure_streak = 1, rt_cooldown_until = cooldown,
          rt_quota_reset = quota, rt_last_success = None, rt_last_error = Some now,
          rt_last_error_code = Some code, rt_updated = now\<rparr>
         (\<lambda>r. r\<lparr>rt_failure_streak := rt_failure_streak r + 1,
               rt_cooldown_until := coalesce cooldown (rt_cooldown_until r),
               rt_quota_reset := coalesce quota (rt_quota_reset r),
               rt_last_error := Some now, rt_last_error_code := Some code, rt_updated := now\<rparr>)) d"

text \<open>The doubling loop of \<open>recordBackoff\<close>: \<open>n\<close> turns are left.\<close>

primrec backoff_cap :: "nat \<Rightarrow> nanos \<Rightarrow> nanos \<Rightarrow> nanos" where
  "backoff_cap 0 maximum d = d"
| "backoff_cap (Suc n) maximum d =
     (if d < maximum then
        (if d > maximum div 2 then maximum else backoff_cap n maximum (d * 2))
      else d)"

definition backoff_limit :: "int \<Rightarrow> nanos \<Rightarrow> nanos \<Rightarrow> nanos" where
  "backoff_limit streak base maximum = backoff_cap (nat (streak - 1)) maximum base"

definition record_backoff ::
  "(nanos \<Rightarrow> nanos) \<Rightarrow> int \<Rightarrow> int \<Rightarrow> string \<Rightarrow> nanos \<Rightarrow> nanos \<Rightarrow> 'x db_scheme \<Rightarrow> 'x db_scheme"
where
  "record_backoff jitter now account code base maximum d =
     on_runtime account (\<lambda>before.
      let rows = upsert (\<lambda>r. rt_account_id r = account)
            \<lparr>rt_account_id = account, rt_failure_streak = 1, rt_cooldown_until = None,
             rt_quota_reset = None, rt_last_success = None, rt_last_error = Some (unix_milli now),
             rt_last_error_code = Some code, rt_updated = unix_milli now\<rparr>
            (\<lambda>r. r\<lparr>rt_failure_streak := rt_failure_streak r + 1,
                  rt_last_error := Some (unix_milli now), rt_last_error_code := Some code,
                  rt_updated := unix_milli now\<rparr>)
            before;
          streak = (case row_by rt_account_id account rows of
                      None \<Rightarrow> 0 | Some r \<Rightarrow> rt_failure_streak r);
          until = unix_milli (now + jitter (backoff_limit streak base maximum))
      in update_where (\<lambda>r. rt_account_id r = account)
             (\<lambda>r. r\<lparr>rt_cooldown_until := Some until, rt_updated := unix_milli now\<rparr>) rows) d"

definition demote_account :: "ms \<Rightarrow> int \<Rightarrow> 'x db_scheme \<Rightarrow> 'x db_scheme" where
  "demote_account now account d =
     d\<lparr>accounts := update_where (\<lambda>a. ac_id a = account \<and> ac_status a = ''active'')
         (\<lambda>a. a\<lparr>ac_status := ''reauth_required'', ac_version := ac_version a + 1,
               ac_updated := now\<rparr>) (accounts d)\<rparr>"

definition record_failure ::
  "(nanos \<Rightarrow> nanos) \<Rightarrow> int \<Rightarrow> candidate \<Rightarrow> failure \<Rightarrow> 'x db_scheme \<Rightarrow> 'x db_scheme"
where
  "record_failure jitter now c f d =
     (let account = account_internal c in
      if f_status f = 401 then
        record_runtime_error (unix_milli now) account (f_code f) None None
          (demote_account (unix_milli now) account d)
      else if f_status f = 429 \<and> f_retry_after f > 0 then
        record_runtime_error (unix_milli now) account (f_code f) None
          (Some (unix_milli (now + clamp (f_retry_after f) second (24 * hour)))) d
      else if f_status f = 429 then
        record_backoff jitter now account (f_code f) (30 * second) (15 * minute) d
      else if f_network f \<or> f_status f \<ge> 500 then
        record_backoff jitter now account (f_code f) (2 * second) (2 * minute) d
      else d)"

definition full_jitter :: "nat option \<Rightarrow> nanos \<Rightarrow> nanos" where
  "full_jitter random maximum =
     (if maximum \<le> 0 then 0
      else (case random of None \<Rightarrow> maximum div 2 | Some r \<Rightarrow> int r mod maximum))"

subsection \<open>models.go\<close>

definition list_models :: "db \<Rightarrow> string \<Rightarrow> string list" where
  "list_models d protocol =
     sort (remdups (concat (map (\<lambda>c.
       (case (row_by ro_id (ca_route_id c) (routes d), row_by ac_id (ca_account_id c) (accounts d)) of
          (Some r, Some a) \<Rightarrow>
            (case row_by up_id (ac_upstream_id a) (upstreams d) of
               Some u \<Rightarrow>
                 if ro_enabled r \<and> ca_enabled c \<and> ac_status a = ''active'' \<and> up_enabled u then
                   (case decode_string_set (ca_protocols c) of
                      Inr vs \<Rightarrow>
                        if protocol_matches vs protocol (up_provider_id u)
                        then [ro_public_model_id r] else []
                    | Inl _ \<Rightarrow> [])
                 else []
             | None \<Rightarrow> [])
        | _ \<Rightarrow> []))
       (candidates d))))"

subsection \<open>account.go\<close>

record account_config =
  cfg_candidate :: candidate
  cfg_status :: string
  cfg_upstream_enabled :: bool
  cfg_proxy_enabled :: bool
  cfg_has_proxy :: bool

datatype load_error = NoRows | LoadFailed go_error

definition load_account ::
  "cipher \<Rightarrow> (string \<Rightarrow> lexeme list) \<Rightarrow> 'x db_scheme \<Rightarrow> string \<Rightarrow> load_error + account_config"
where
  "load_account c scan d public_id =
     (case row_by ac_public_id public_id (accounts d) of
        None \<Rightarrow> Inl NoRows
      | Some a \<Rightarrow>
          (case row_by up_id (ac_upstream_id a) (upstreams d) of
             None \<Rightarrow> Inl NoRows
           | Some u \<Rightarrow>
               let pid = (case ac_proxy_id a of None \<Rightarrow> up_default_proxy u | Some p \<Rightarrow> Some p);
                   p = Option.bind pid (\<lambda>i. row_by px_id i (proxies d)) in
               (case and_then (load_credential c scan a (up_provider_id u)) (\<lambda>k.
                       and_then (load_optional_proxy c p) (\<lambda>x. Inr (candidate_of a u k x))) of
                  Inl e \<Rightarrow> Inl (LoadFailed e)
                | Inr cand \<Rightarrow>
                    Inr \<lparr>cfg_candidate = cand, cfg_status = ac_status a,
                         cfg_upstream_enabled = up_enabled u,
                         cfg_proxy_enabled = (case p of None \<Rightarrow> True | Some r \<Rightarrow> px_enabled r),
                         cfg_has_proxy = (p \<noteq> None)\<rparr>)))"

end
