(* ===== verification/HTTP_Text.thy ===== *)
theory HTTP_Text
  imports Prelude
begin

text \<open>
  The HTTP header texts the gateway reads: \<open>mime.ParseMediaType\<close> as \<open>hasMediaType\<close> of
  \<open>gateway/service.go\<close> uses it, and \<open>parseRetryAfter\<close>.  Letters are folded in ASCII only;
  \<open>http.ParseTime\<close> is the argument \<open>parse_time\<close>.
\<close>

subsection \<open>ASCII case\<close>

definition lower_char :: "char \<Rightarrow> char" where
  "lower_char c = (if CHR ''A'' \<le> c \<and> c \<le> CHR ''Z'' then char_of (of_char c + 32 :: nat) else c)"

definition to_lower :: "string \<Rightarrow> string" where
  "to_lower s = map lower_char s"

lemma length_to_lower [simp]: "length (to_lower s) = length s"
  by (simp add: to_lower_def)

subsection \<open>Media types\<close>

definition tspecials :: string where
  "tspecials = ''()<>@,;:'' @ [CHR 0x5C, CHR 0x22] @ ''/[]?=''"

definition token_char :: "char \<Rightarrow> bool" where
  "token_char c \<longleftrightarrow> (0x20::nat) < of_char c \<and> (of_char c :: nat) < 0x7F \<and> c \<notin> set tspecials"

definition consume_token :: "string \<Rightarrow> string \<times> string" where
  "consume_token v = (takeWhile token_char v, dropWhile token_char v)"

text \<open>The loop of \<open>consumeValue\<close> over a quoted string; \<open>None\<close> when it does not end well.\<close>

fun consume_quoted :: "string \<Rightarrow> string \<Rightarrow> (string \<times> string) option" where
  "consume_quoted buffer [] = None"
| "consume_quoted buffer (c # cs) =
     (if c = CHR 0x22 then Some (buffer, cs)
      else if c = CHR 0x5C \<and> cs \<noteq> [] \<and> hd cs \<in> set tspecials
      then consume_quoted (buffer @ [hd cs]) (tl cs)
      else if c = CHR 0x0D \<or> c = CHR 0x0A then None
      else consume_quoted (buffer @ [c]) cs)"

definition consume_param_value :: "string \<Rightarrow> string \<times> string" where
  "consume_param_value v =
     (case v of
        [] \<Rightarrow> ([], [])
      | c # cs \<Rightarrow>
          if c \<noteq> CHR 0x22 then consume_token v
          else (case consume_quoted [] cs of None \<Rightarrow> ([], v) | Some r \<Rightarrow> r))"

definition trim_left_space :: "string \<Rightarrow> string" where
  "trim_left_space s = trim_leading space_runes s"

text \<open>A parameter: its name, its value and the rest; an empty name is a failure.\<close>

definition consume_media_param :: "string \<Rightarrow> string \<times> string \<times> string" where
  "consume_media_param v =
     (let rest = trim_left_space v in
      if \<not> has_prefix '';'' rest then ([], [], v)
      else
        let (param, rest) = consume_token (trim_left_space (tl rest)); rest = trim_left_space rest in
        if param = [] then ([], [], v)
        else if \<not> has_prefix ''='' rest then ([], [], v)
        else
          let rest = trim_left_space (tl rest); (v', rest2) = consume_param_value rest in
          if v' = [] \<and> rest2 = rest then ([], [], v) else (to_lower param, v', rest2))"

definition media_type_name_ok :: "string \<Rightarrow> bool" where
  "media_type_name_ok s =
     (let (type, rest) = consume_token s in
      if type = [] then False
      else if rest = [] then True
      else if \<not> has_prefix ''/'' rest then False
      else (let (subtype, rest) = consume_token (tl rest) in subtype \<noteq> [] \<and> rest = []))"

lemma consume_token_length: "consume_token v = (t, r) \<Longrightarrow> length r \<le> length v"
  by (auto simp: consume_token_def length_dropWhile_le)

lemma consume_quoted_length: "consume_quoted buffer v = Some (x, r) \<Longrightarrow> length r < length v"
proof (induction buffer v rule: consume_quoted.induct)
  case (2 buffer c cs)
  then show ?case by (cases cs) (auto split: if_splits)
qed simp

lemma consume_param_value_length: "consume_param_value v = (x, r) \<Longrightarrow> length r \<le> length v"
  using consume_quoted_length [of "[]" "tl v" x r]
  by (cases v) (auto simp: consume_param_value_def dest: consume_token_length split: if_splits option.splits)

lemma length_trim_left_space: "length (trim_left_space v) \<le> length v"
  by (simp add: trim_left_space_def length_trim_leading)

lemma consume_media_param_length:
  assumes "consume_media_param v = (k, x, rest)" "k \<noteq> []"
  shows "length rest < length v"
proof -
  let ?v1 = "trim_left_space v"
  obtain param r1 where token: "consume_token (trim_left_space (tl ?v1)) = (param, r1)" by fastforce
  let ?r2 = "trim_left_space (tl (trim_left_space r1))"
  obtain y r3 where val: "consume_param_value ?r2 = (y, r3)" by fastforce
  from assms have "has_prefix '';'' ?v1" "rest = r3"
    by (auto simp: consume_media_param_def Let_def token val split: if_splits)
  then have "?v1 \<noteq> []" by (auto simp: has_prefix_def)
  have "length r3 \<le> length ?r2" by (rule consume_param_value_length [OF val])
  also have "\<dots> \<le> length (tl (trim_left_space r1))" by (rule length_trim_left_space)
  also have "\<dots> \<le> length r1" using length_trim_left_space [of r1] by simp
  also have "\<dots> \<le> length (trim_left_space (tl ?v1))" by (rule consume_token_length [OF token])
  also have "\<dots> \<le> length (tl ?v1)" by (rule length_trim_left_space)
  also have "\<dots> < length ?v1" using \<open>?v1 \<noteq> []\<close> by simp
  also have "\<dots> \<le> length v" by (rule length_trim_left_space)
  finally show ?thesis using \<open>rest = r3\<close> by simp
qed

text \<open>The loop over the parameters: whether they are well formed and none is given two values.\<close>

function media_params_ok :: "(string \<times> string) list \<Rightarrow> string \<Rightarrow> bool" where
  "media_params_ok seen v =
     (if trim_left_space v = [] then True
      else
        (case consume_media_param (trim_left_space v) of
           (k, x, rest) \<Rightarrow>
             if k = [] then trim_space rest = '';''
             else if map_of seen k \<noteq> None \<and> map_of seen k \<noteq> Some x then False
             else media_params_ok ((k, x) # seen) rest))"
  by pat_completeness auto
termination
proof (relation "measure (\<lambda>(seen, v). length v)")
  fix seen :: "(string \<times> string) list" and v k x rest p z
  assume "(k, p) = consume_media_param (trim_left_space v)" "(x, rest) = p" "k \<noteq> []"
  then have "length rest < length (trim_left_space v)"
    using consume_media_param_length by metis
  also have "\<dots> \<le> length v" by (rule length_trim_left_space)
  finally show "(((k, x) # seen, rest), (seen, v)) \<in> measure (\<lambda>(seen, v). length v)" by simp
qed simp

declare media_params_ok.simps [simp del]

definition parse_media_type :: "string \<Rightarrow> string option" where
  "parse_media_type v =
     (let base = takeWhile (\<lambda>c. c \<noteq> CHR '';'') v; name = trim_space (to_lower base) in
      if \<not> media_type_name_ok name then None
      else if media_params_ok [] (drop (length base) v) then Some name else None)"

definition has_media_type :: "string \<Rightarrow> string \<Rightarrow> bool" where
  "has_media_type content_type expected =
     (case parse_media_type content_type of
        None \<Rightarrow> False
      | Some name \<Rightarrow> to_lower name = to_lower expected)"

subsection \<open>Retry-After\<close>

text \<open>
  \<open>time.Duration(seconds) * time.Second\<close> is a 64-bit product; \<open>Sub\<close> saturates.
\<close>

definition retry_date :: "(string \<Rightarrow> nanos option) \<Rightarrow> string \<Rightarrow> nanos \<Rightarrow> nanos" where
  "retry_date parse_time v now =
     (case parse_time v of
        Some t \<Rightarrow> if now < t then min (t - now) max_int64 else 0
      | None \<Rightarrow> 0)"

definition parse_retry_after :: "(string \<Rightarrow> nanos option) \<Rightarrow> string \<Rightarrow> nanos \<Rightarrow> nanos" where
  "parse_retry_after parse_time raw now =
     (let v = trim_space raw in
      if v = [] then 0
      else
        (case parse_int64 v of
           Some seconds \<Rightarrow> if 0 < seconds then wrap64 (seconds * second) else retry_date parse_time v now
         | None \<Rightarrow> retry_date parse_time v now))"

subsection \<open>Escapes of net/url\<close>

definition hex_upper :: "nat \<Rightarrow> char" where
  "hex_upper n = ''0123456789ABCDEF'' ! n"

definition unreserved :: "char \<Rightarrow> bool" where
  "unreserved c \<longleftrightarrow> (CHR ''a'' \<le> c \<and> c \<le> CHR ''z'') \<or> (CHR ''A'' \<le> c \<and> c \<le> CHR ''Z'')
     \<or> (CHR ''0'' \<le> c \<and> c \<le> CHR ''9'') \<or> c \<in> set ''-_.~''"

definition percent :: "char \<Rightarrow> string" where
  "percent c = (let n = of_char c :: nat in [CHR ''%'', hex_upper (n div 16), hex_upper (n mod 16)])"

text \<open>\<open>PathEscape\<close> and \<open>QueryEscape\<close>.\<close>

definition path_escape :: "string \<Rightarrow> string" where
  "path_escape s = concat (map (\<lambda>c. if unreserved c \<or> c \<in> set ''$&+:=@'' then [c] else percent c) s)"

definition query_escape :: "string \<Rightarrow> string" where
  "query_escape s =
     concat (map (\<lambda>c. if unreserved c then [c] else if c = CHR '' '' then ''+'' else percent c) s)"

text \<open>\<open>Values.Encode\<close> of values with one entry for each key.\<close>

definition encode_query :: "(string \<times> string) list \<Rightarrow> string" where
  "encode_query vs =
     join_with ''&'' (map (\<lambda>(k, v). query_escape k @ ''='' @ query_escape v) (sort_key fst vs))"

end
