(* ===== verification/Account_Validate.thy ===== *)
theory Account_Validate
  imports Accounts Routing HTTP_Text
begin

text \<open>
  \<open>internal/accountvalidate/service.go\<close>: an API-key account is validated by asking its provider
  for the list of models.  The two transactions and the network call between them are separate
  steps; \<open>transport\<close> is the egress manager.
\<close>

subsection \<open>The list of models\<close>

record probe_response =
  pr_status :: int
  pr_content_type :: string
  pr_body :: "string option" \<comment> \<open>\<open>None\<close> when reading it fails\<close>

definition model_id_ok :: "string \<Rightarrow> bool" where
  "model_id_ok v \<longleftrightarrow> v \<noteq> [] \<and> length v \<le> 200 \<and> trim_space v = v
     \<and> \<not> contains_any v [CHR 0x0D, CHR 0x0A, CHR 0x00]"

definition google_model_prefix :: string where
  "google_model_prefix = ''models/''"

text \<open>A member read into a string: an absent one is no JSON at all, \<open>null\<close> leaves the empty string.\<close>

definition listed_model :: "string \<Rightarrow> members \<Rightarrow> string option" where
  "listed_model provider value =
     (case Option.bind (member_of value (if provider = ''google'' then ''name'' else ''id'')) to_string of
        None \<Rightarrow> None
      | Some v \<Rightarrow>
          if provider = ''google'' \<and> \<not> has_prefix google_model_prefix v then None
          else
            let v = (if provider = ''google'' then trim_prefix google_model_prefix v else v) in
            if model_id_ok v then Some v else None)"

fun listed_models :: "string \<Rightarrow> string list \<Rightarrow> json list \<Rightarrow> string list option" where
  "listed_models provider result [] = Some result"
| "listed_models provider result (v # vs) =
     (case v of
        JObj value \<Rightarrow>
          (case listed_model provider value of
             None \<Rightarrow> None
           | Some m \<Rightarrow> listed_models provider (if m \<in> set result then result else result @ [m]) vs)
      | _ \<Rightarrow> None)"

text \<open>
  An element \<open>null\<close> of the list is a nil map, whose missing identifier is no JSON: it fails like
  every other element that is not an object.
\<close>

definition parse_models :: "string \<Rightarrow> lexeme list \<Rightarrow> string list option" where
  "parse_models provider body =
     (if validate body 32 \<noteq> None then None
      else
        (case unmarshal body of
           Some (JObj root) \<Rightarrow>
             (case member_of root (if provider = ''google'' then ''models'' else ''data'') of
                Some (JArr vs) \<Rightarrow>
                  (case listed_models provider [] vs of
                     Some (m # ms) \<Rightarrow> Some (m # ms)
                   | _ \<Rightarrow> None)
              | _ \<Rightarrow> None)
         | _ \<Rightarrow> None))"

subsection \<open>Validate\<close>

datatype validate_error =
    ValidateCode string \<comment> \<open>\<open>accountvalidate.ValidationError\<close>\<close>
  | ValidateControl control_error

abbreviation max_probe_body :: nat where "max_probe_body \<equiv> 2097152"

text \<open>The outcome of the probe of a loaded account: the models and the adapter, or a reason code.\<close>

definition read_probe ::
  "(string \<Rightarrow> lexeme list) \<Rightarrow> string \<Rightarrow> probe_response \<Rightarrow> string + string list"
where
  "read_probe scan provider resp =
     (case pr_body resp of
        None \<Rightarrow> Inl ''upstream_protocol_changed''
      | Some body \<Rightarrow>
          if max_probe_body < length body then Inl ''upstream_protocol_changed''
          else if pr_status resp < 200 \<or> 300 \<le> pr_status resp
          then (if pr_status resp = 401 \<or> pr_status resp = 403 then Inl ''authentication_failed''
                else Inl ''upstream_unavailable'')
          else if \<not> has_media_type (pr_content_type resp) ''application/json''
          then Inl ''upstream_protocol_changed''
          else
            (case parse_models provider (scan body) of
               None \<Rightarrow> Inl ''upstream_protocol_changed''
             | Some models \<Rightarrow> Inr models))"

definition probe_account ::
  "(string \<Rightarrow> lexeme list) \<Rightarrow> registry \<Rightarrow> (candidate \<Rightarrow> native_request \<Rightarrow> adapter \<Rightarrow> probe_response option)
    \<Rightarrow> load_error + account_config \<Rightarrow> string + (adapter \<times> string list)"
where
  "probe_account scan reg transport config =
     (case config of
        Inl _ \<Rightarrow> Inl ''configuration_invalid''
      | Inr cfg \<Rightarrow>
          if \<not> cfg_upstream_enabled cfg \<or> (cfg_has_proxy cfg \<and> \<not> cfg_proxy_enabled cfg)
          then Inl ''account_disabled''
          else
            (case registry_get reg (provider_id (cfg_candidate cfg)) of
               None \<Rightarrow> Inl ''capability_not_supported''
             | Some a \<Rightarrow>
                 (case transport (cfg_candidate cfg) (probe a) a of
                    None \<Rightarrow> Inl ''upstream_unavailable''
                  | Some resp \<Rightarrow>
                      and_then (read_probe scan (provider_id (cfg_candidate cfg)) resp) (\<lambda>models. Inr (a, models)))))"

definition probed_validation :: "adapter \<Rightarrow> string list \<Rightarrow> account_validation" where
  "probed_validation a models =
     \<lparr>av_identity = [(''provider_id'', MetaText (adapter_id a)), (''model_count'', MetaInt (int (length models)))],
      av_capability = adapter_id a @ ''/'' @ adapter_version a, av_models = models\<rparr>"

definition from_control :: "control_error + 'a \<Rightarrow> validate_error + 'a" where
  "from_control r = (case r of Inl e \<Rightarrow> Inl (ValidateControl e) | Inr x \<Rightarrow> Inr x)"

text \<open>The first part: the checks and the transaction that starts the validation.\<close>

definition start_validation ::
  "environment \<Rightarrow> actor \<Rightarrow> string \<Rightarrow> int \<Rightarrow> 'x control_db_scheme \<Rightarrow> validate_error + (int \<times> 'x control_db_scheme)"
where
  "start_validation env who pid version s =
     (case account_credential_state pid s of
        Inl e \<Rightarrow> Inl (ValidateControl e)
      | Inr (kind, configured) \<Rightarrow>
          if kind \<noteq> ''api_key'' \<or> \<not> configured then Inl (ValidateCode ''oauth_authorization_required'')
          else and_then (from_control (begin_account_validation env who pid version s)) (\<lambda>(item, t).
            Inr (ai_version item, t)))"

text \<open>The last part, on the tables of the time the answer has come; a failure is stored and returned.\<close>

definition conclude_validation ::
  "environment \<Rightarrow> actor \<Rightarrow> string \<Rightarrow> int \<Rightarrow> string + (adapter \<times> string list) \<Rightarrow> 'x control_db_scheme
    \<Rightarrow> 'x control_db_scheme \<times> (validate_error + account_info)"
where
  "conclude_validation env who pid version result s =
     (case result of
        Inl code \<Rightarrow>
          (case finish_account_validation env who pid version None code s of
             Inl e \<Rightarrow> (s, Inl (ValidateControl e))
           | Inr (item, t) \<Rightarrow> (t, Inl (ValidateCode code)))
      | Inr (a, models) \<Rightarrow>
          (case finish_account_validation env who pid version (Some (probed_validation a models)) [] s of
             Inl e \<Rightarrow> (s, Inl (ValidateControl e))
           | Inr (item, t) \<Rightarrow> (t, Inr item)))"

text \<open>\<open>Validate\<close> when nothing else runs: \<open>env\<close> gives the environment of each transaction.\<close>

definition validate_account ::
  "cipher \<Rightarrow> (string \<Rightarrow> lexeme list) \<Rightarrow> registry \<Rightarrow> (candidate \<Rightarrow> native_request \<Rightarrow> adapter \<Rightarrow> probe_response option)
    \<Rightarrow> (nat \<Rightarrow> environment) \<Rightarrow> actor \<Rightarrow> string \<Rightarrow> int \<Rightarrow> 'x control_db_scheme
    \<Rightarrow> 'x control_db_scheme \<times> (validate_error + account_info)"
where
  "validate_account c scan reg transport env who pid version s =
     (case start_validation (env 0) who pid version s of
        Inl e \<Rightarrow> (s, Inl e)
      | Inr (version', t) \<Rightarrow>
          conclude_validation (env 1) who pid version' (probe_account scan reg transport (load_account c scan t pid)) t)"

end
