(* ===== verification/OAuth_Token.thy ===== *)
theory OAuth_Token
  imports Account_Validate "HOL-Library.Signed_Division"
begin

text \<open>
  The parts of \<open>internal/oauth\<close> that need no state: the checks of \<open>config.go\<close>, the exchange
  of a form for a token and the callback of \<open>token.go\<close>, and the time of a refresh of
  \<open>refresh.go\<close>; and the configuration of the Google client, with its optimistic version.
\<close>

subsection \<open>The service\<close>

text \<open>\<open>Error\<close> is the code of the file's own error; errors of the control plane pass through.\<close>

datatype oauth_error =
    OAuthCode string
  | OAuthControl control_error
  | OAuthFailure \<comment> \<open>an error without a code\<close>

record oauth_service =
  os_cipher :: cipher
  os_scan :: "string \<Rightarrow> lexeme list"
  os_render :: "lexeme list \<Rightarrow> string"
  os_sha256 :: "string \<Rightarrow> string" \<comment> \<open>the 32 bytes of the digest\<close>
  os_scheme :: string
  os_host :: string
  os_registry :: registry

definition callback_path :: string where
  "callback_path = ''/oauth/callback/google''"

definition redirect_uri :: "oauth_service \<Rightarrow> string" where
  "redirect_uri svc = os_scheme svc @ ''://'' @ os_host svc @ callback_path"

definition google_scopes :: "string list" where
  "google_scopes =
     [''https://www.googleapis.com/auth/cloud-platform'',
      ''https://www.googleapis.com/auth/generative-language.retriever'']"

definition line_breaks :: string where
  "line_breaks = [CHR 0x0D, CHR 0x0A, CHR 0x00]"

subsection \<open>Scopes and tokens\<close>

definition safe_token :: "string \<Rightarrow> bool" where
  "safe_token v \<longleftrightarrow> v \<noteq> [] \<and> length v \<le> 8192 \<and> trim_space v = v \<and> \<not> contains_any v line_breaks"

definition scope_ok :: "string \<Rightarrow> bool" where
  "scope_ok v \<longleftrightarrow> v \<noteq> [] \<and> length v \<le> 512 \<and> trim_space v = v
     \<and> \<not> contains_any v ([CHR 0x20, CHR 0x09] @ line_breaks)"

fun scopes_loop :: "string list \<Rightarrow> string list \<Rightarrow> bool" where
  "scopes_loop seen [] = True"
| "scopes_loop seen (v # vs) = (if \<not> scope_ok v \<or> v \<in> set seen then False else scopes_loop (v # seen) vs)"

definition valid_scopes :: "string list \<Rightarrow> bool" where
  "valid_scopes vs \<longleftrightarrow> vs \<noteq> [] \<and> length vs \<le> 16 \<and> scopes_loop [] vs"

definition same_scope_set :: "string list \<Rightarrow> string list \<Rightarrow> bool" where
  "same_scope_set actual required \<longleftrightarrow>
     length actual = length required \<and> list_all (\<lambda>v. v \<in> set required) actual"

definition decode_scopes :: "lexeme list \<Rightarrow> string list option" where
  "decode_scopes body =
     (case decode_string_set body of
        Inl _ \<Rightarrow> None
      | Inr vs \<Rightarrow> if valid_scopes vs \<and> vs = google_scopes then Some vs else None)"

text \<open>\<open>strings.Fields\<close>: the maximal runs between white space.\<close>

function fields_of :: "string \<Rightarrow> string \<Rightarrow> string list" where
  "fields_of word [] = (if word = [] then [] else [word])"
| "fields_of word (c # cs) =
     (case leading_of space_runes (c # cs) of
        None \<Rightarrow> fields_of (word @ [c]) cs
      | Some w \<Rightarrow> (if word = [] then [] else [word]) @ fields_of [] (drop (length w) (c # cs)))"
  by pat_completeness auto
termination
  by (relation "measure (\<lambda>(word, s). length s)") (use leading_of_shorter in force)+

definition token_error_code :: "(string \<Rightarrow> lexeme list) \<Rightarrow> string \<Rightarrow> string" where
  "token_error_code scan body =
     (if validate (scan body) 16 \<noteq> None then ''oauth_token_rejected''
      else
        (case unmarshal (scan body) of
           Some (JObj ms) \<Rightarrow>
             (case field_or [] to_string ms ''error'' of
                None \<Rightarrow> ''oauth_token_rejected''
              | Some e \<Rightarrow>
                  if e = ''invalid_grant'' then ''reauth_required''
                  else if e = ''invalid_client'' then ''oauth_config_invalid''
                  else ''oauth_token_rejected'')
         | _ \<Rightarrow> ''oauth_token_rejected''))"

text \<open>
  \<open>expires_in\<close> is a \<open>json.Number\<close>: a number, or a string that is one; \<open>isValidNumber\<close>
  refuses a plus sign and leading zeros, which \<open>ParseInt\<close> would take.
\<close>

definition plain_number :: "string \<Rightarrow> bool" where
  "plain_number s \<longleftrightarrow> (case s of
     [] \<Rightarrow> False
   | c # cs \<Rightarrow> c \<noteq> CHR ''+'' \<and> (c = CHR ''0'' \<longrightarrow> cs = []))"

definition expires_seconds :: "members \<Rightarrow> int option" where
  "expires_seconds ms =
     (case member_of ms ''expires_in'' of
        Some (JNum n) \<Rightarrow> parse_int64 n
      | Some (JStr n) \<Rightarrow> if plain_number n then parse_int64 n else None
      | _ \<Rightarrow> None)"

record token_response =
  tr_access :: string
  tr_refresh :: string
  tr_scopes :: "string list"
  tr_expires :: ms

record token_reply =
  tk_status :: int
  tk_body :: "string option" \<comment> \<open>\<open>None\<close> when reading it fails\<close>

type_synonym form = "(string \<times> string) list"

abbreviation max_oauth_response :: nat where "max_oauth_response \<equiv> 1048576"

definition granted_scopes :: "string \<Rightarrow> string list \<Rightarrow> string list" where
  "granted_scopes scope required = (let vs = fields_of [] scope in if vs = [] then required else vs)"

text \<open>The fields of an answer with a 2xx status.\<close>

definition read_token :: "bool \<Rightarrow> string list \<Rightarrow> nanos \<Rightarrow> members \<Rightarrow> string + token_response" where
  "read_token require_refresh required now ms =
     (case (field_or [] to_string ms ''access_token'', field_or [] to_string ms ''refresh_token'',
            field_or [] to_string ms ''token_type'', field_or [] to_string ms ''scope'') of
        (Some access, Some refresh, Some kind, Some scope) \<Rightarrow>
          if \<not> safe_token access \<or> (refresh \<noteq> [] \<and> \<not> safe_token refresh)
             \<or> (require_refresh \<and> refresh = []) \<or> to_lower kind \<noteq> ''bearer''
          then Inl ''oauth_token_invalid''
          else
            (case expires_seconds ms of
               None \<Rightarrow> Inl ''oauth_token_invalid''
             | Some n \<Rightarrow>
                 if n < 60 \<or> 86400 < n then Inl ''oauth_token_invalid''
                 else
                   let vs = granted_scopes scope required in
                   if \<not> valid_scopes vs \<or> \<not> same_scope_set vs required then Inl ''oauth_scope_mismatch''
                   else Inr \<lparr>tr_access = access, tr_refresh = refresh, tr_scopes = vs,
                             tr_expires = unix_milli (now + n * second)\<rparr>)
      | _ \<Rightarrow> Inl ''oauth_token_invalid'')"

text \<open>\<open>exchangeToken\<close>: the code of the failure, or the token.\<close>

definition exchange_token ::
  "oauth_service \<Rightarrow> (candidate \<Rightarrow> form \<Rightarrow> token_reply option) \<Rightarrow> nanos \<Rightarrow> candidate \<Rightarrow> form \<Rightarrow> bool \<Rightarrow> string list
    \<Rightarrow> string + token_response"
where
  "exchange_token svc transport now c form require_refresh required =
     (case transport c form of
        None \<Rightarrow> Inl ''oauth_token_unavailable''
      | Some reply \<Rightarrow>
          (case tk_body reply of
             None \<Rightarrow> Inl ''oauth_token_invalid''
           | Some body \<Rightarrow>
               if max_oauth_response < length body then Inl ''oauth_token_invalid''
               else if tk_status reply < 200 \<or> 300 \<le> tk_status reply
               then Inl (token_error_code (os_scan svc) body)
               else if validate (os_scan svc body) 32 \<noteq> None then Inl ''oauth_token_invalid''
               else
                 (case unmarshal (os_scan svc body) of
                    Some (JObj ms) \<Rightarrow> read_token require_refresh required now ms
                  | _ \<Rightarrow> Inl ''oauth_token_invalid'')))"

subsection \<open>The time of a refresh\<close>

text \<open>\<open>time.Duration(expires-issued) * time.Millisecond / 10\<close> in 64 bits; \<open>/\<close> truncates.\<close>

definition refresh_window :: "ms \<Rightarrow> ms \<Rightarrow> nanos" where
  "refresh_window expires issued =
     (let window =
        (if 0 < issued \<and> issued < expires
         then min (wrap64 (wrap64 (expires - issued) * millisecond) sdiv 10) (5 * minute)
         else 5 * minute) in
      max window minute)"

definition refresh_due :: "ms \<Rightarrow> nanos \<Rightarrow> ms \<Rightarrow> bool" where
  "refresh_due expires now issued \<longleftrightarrow>
     expires \<le> 0 \<or> expires \<le> unix_milli (now + refresh_window expires issued)"

subsection \<open>The callback\<close>

text \<open>\<open>url.Values\<close>: the list of each key, in any order of the keys.\<close>

type_synonym url_values = "(string \<times> string list) list"

definition callback_keys :: "string list" where
  "callback_keys =
     [''state'', ''code'', ''error'', ''error_description'', ''error_uri'', ''scope'', ''authuser'', ''prompt'', ''hd'']"

definition get_value :: "url_values \<Rightarrow> string \<Rightarrow> string" where
  "get_value vs k = (case map_of vs k of Some (v # _) \<Rightarrow> v | _ \<Rightarrow> [])"

definition validate_callback_values :: "url_values \<Rightarrow> oauth_error + (string \<times> string \<times> string)" where
  "validate_callback_values vs =
     (if list_ex (\<lambda>(k, l). k \<notin> set callback_keys \<or> length l \<noteq> 1) vs then Inl (OAuthCode ''oauth_callback_invalid'')
      else
        let state = get_value vs ''state''; code = get_value vs ''code''; err = get_value vs ''error'' in
        if state = [] \<or> (code = []) = (err = []) then Inl (OAuthCode ''oauth_callback_invalid'')
        else if err \<noteq> [] \<and> (128 < length err \<or> contains_any err line_breaks)
        then Inl (OAuthCode ''oauth_callback_invalid'')
        else Inr (state, code, err))"

subsection \<open>The configuration of the client\<close>

record config_input =
  ci_client_id :: string
  ci_secret :: "string option"
  ci_project :: string
  ci_enabled :: bool

definition lower_alnum :: "char \<Rightarrow> bool" where
  "lower_alnum c \<longleftrightarrow> (CHR ''a'' \<le> c \<and> c \<le> CHR ''z'') \<or> (CHR ''0'' \<le> c \<and> c \<le> CHR ''9'')"

text \<open>\<open>^[a-z][a-z0-9-]{4,28}[a-z0-9]$\<close>.\<close>

definition project_id_ok :: "string \<Rightarrow> bool" where
  "project_id_ok v \<longleftrightarrow> 6 \<le> length v \<and> length v \<le> 30 \<and> CHR ''a'' \<le> hd v \<and> hd v \<le> CHR ''z''
     \<and> list_all (\<lambda>c. lower_alnum c \<or> c = CHR ''-'') v \<and> lower_alnum (last v)"

definition secret_ok :: "string \<Rightarrow> bool" where
  "secret_ok v \<longleftrightarrow> v \<noteq> [] \<and> length v \<le> 8192 \<and> trim_space v = v \<and> \<not> contains_any v line_breaks"

definition validate_google_config :: "config_input \<Rightarrow> bool \<Rightarrow> control_error + config_input" where
  "validate_google_config i create =
     (let client = trim_space (ci_client_id i); project = trim_space (ci_project i) in
      if client = [] \<or> 512 < length client \<or> contains_any client line_breaks
      then Inl (Validation ''client_id'' ''is invalid'')
      else if \<not> project_id_ok project
      then Inl (Validation ''project_id'' ''must be a valid Google Cloud project ID'')
      else if create \<and> ci_secret i = None then Inl (Validation ''client_secret'' ''is required'')
      else if (case ci_secret i of None \<Rightarrow> False | Some v \<Rightarrow> \<not> secret_ok v)
      then Inl (Validation ''client_secret'' ''is invalid'')
      else Inr (i\<lparr>ci_client_id := client, ci_project := project\<rparr>))"

record google_config =
  gc_id :: string
  gc_client_id :: string
  gc_secret_set :: bool
  gc_project :: string
  gc_scopes :: "string list"
  gc_redirect :: string
  gc_enabled :: bool
  gc_version :: int
  gc_created :: ms
  gc_updated :: ms

definition secret_aad :: "string \<Rightarrow> string" where
  "secret_aad pid = aad ''provider_oauth_configs'' pid ''client_secret_enc''"

definition get_google_config :: "oauth_service \<Rightarrow> 'x control_db_scheme \<Rightarrow> oauth_error + google_config" where
  "get_google_config svc s =
     (case oauth_config s of
        None \<Rightarrow> Inl (OAuthControl NotFound)
      | Some r \<Rightarrow>
          (case decode_scopes (oc_scopes r) of
             None \<Rightarrow> Inl OAuthFailure
           | Some vs \<Rightarrow>
               Inr \<lparr>gc_id = oc_public_id r, gc_client_id = oc_client_id r, gc_secret_set = True,
                    gc_project = oc_project_id r, gc_scopes = vs, gc_redirect = redirect_uri svc,
                    gc_enabled = oc_enabled r, gc_version = oc_version r, gc_created = oc_created r,
                    gc_updated = oc_updated r\<rparr>))"

definition load_google_config_secret ::
  "oauth_service \<Rightarrow> 'x control_db_scheme \<Rightarrow> oauth_error + (google_config \<times> string)"
where
  "load_google_config_secret svc s =
     and_then (get_google_config svc s) (\<lambda>config.
       (case oauth_config s of
          None \<Rightarrow> Inl OAuthFailure
        | Some r \<Rightarrow>
            (case open_envelope (os_cipher svc) (oc_secret_enc r) (secret_aad (gc_id config)) of
               Inl _ \<Rightarrow> Inl OAuthFailure
             | Inr secret \<Rightarrow> Inr (config, secret))))"

definition control_part :: "control_error + 'a \<Rightarrow> oauth_error + 'a" where
  "control_part r = (case r of Inl e \<Rightarrow> Inl (OAuthControl e) | Inr x \<Rightarrow> Inr x)"

lemma control_part_Inr [simp]: "control_part r = Inr x \<longleftrightarrow> r = Inr x"
  by (cases r) (auto simp: control_part_def)

definition stored_scopes :: "lexeme list" where
  "stored_scopes = lex (JObj [(''schema_version'', JNum (show_int 1)), (''values'', JArr (map JStr google_scopes))])"

definition create_google_config ::
  "oauth_service \<Rightarrow> string option \<Rightarrow> environment \<Rightarrow> actor \<Rightarrow> config_input \<Rightarrow> 'x control_db_scheme
    \<Rightarrow> oauth_error + (google_config \<times> 'x control_db_scheme)"
where
  "create_google_config svc nonce env who i s =
     and_then (control_part (validate_google_config i True)) (\<lambda>i.
       (case object_id ''oauthcfg'' (env_object env) of
          None \<Rightarrow> Inl OAuthFailure
        | Some pid \<Rightarrow>
            (case seal (os_cipher svc) nonce (the (ci_secret i)) (secret_aad pid) of
               Inl _ \<Rightarrow> Inl OAuthFailure
             | Inr secret \<Rightarrow>
                 let now = unix_milli (env_clock env 0) in
                 if oauth_config s \<noteq> None then Inl (OAuthControl Conflict)
                 else
                   and_then (control_part (audit env (unix_milli (env_clock env 1)) who ''oauth_config.created''
                       ''oauth_config'' pid [(''provider_id'', MetaText ''google'')]
                       (s\<lparr>oauth_config := Some
                          \<lparr>oc_id = 1, oc_public_id = pid, oc_client_id = ci_client_id i, oc_secret_enc = secret,
                           oc_project_id = ci_project i, oc_scopes = stored_scopes, oc_enabled = ci_enabled i,
                           oc_version = 1, oc_created = now, oc_updated = now\<rparr>\<rparr>))) (\<lambda>t.
                   and_then (get_google_config svc t) (\<lambda>config. Inr (config, t))))))"

definition update_google_config ::
  "oauth_service \<Rightarrow> string option \<Rightarrow> environment \<Rightarrow> actor \<Rightarrow> int \<Rightarrow> config_input \<Rightarrow> 'x control_db_scheme
    \<Rightarrow> oauth_error + (google_config \<times> 'x control_db_scheme)"
where
  "update_google_config svc nonce env who version i s =
     and_then (control_part (validate_google_config i False)) (\<lambda>i.
       (case oauth_config s of
          None \<Rightarrow> Inl (OAuthControl NotFound)
        | Some r \<Rightarrow>
            (case (case ci_secret i of
                     None \<Rightarrow> Inr (oc_secret_enc r)
                   | Some v \<Rightarrow> seal (os_cipher svc) nonce v (secret_aad (oc_public_id r))) of
               Inl _ \<Rightarrow> Inl OAuthFailure
             | Inr secret \<Rightarrow>
                 if oc_version r \<noteq> version then Inl (OAuthControl VersionConflict)
                 else
                   and_then (control_part (audit env (unix_milli (env_clock env 1)) who ''oauth_config.updated''
                       ''oauth_config'' (oc_public_id r) [(''provider_id'', MetaText ''google'')]
                       (s\<lparr>oauth_config := Some (r\<lparr>oc_client_id := ci_client_id i, oc_secret_enc := secret,
                          oc_project_id := ci_project i, oc_enabled := ci_enabled i,
                          oc_version := oc_version r + 1, oc_updated := unix_milli (env_clock env 0)\<rparr>)\<rparr>))) (\<lambda>t.
                   and_then (get_google_config svc t) (\<lambda>config. Inr (config, t))))))"

end
