(* ===== verification/OAuth_Refresh.thy ===== *)
theory OAuth_Refresh
  imports OAuth_Token
begin

text \<open>
  \<open>internal/oauth/refresh.go\<close>: renewing the access token of a Google account.  A refresh is what
  it reads before it asks Google (\<open>refresh_start\<close>) and what it writes with the answer
  (\<open>refresh_finish\<close>), on the tables of their own times; \<open>ensure_credential\<close> is the two in one
  piece.  The single flight of concurrent refreshes is the step relation \<open>flight_step\<close>.
\<close>

subsection \<open>One refresh\<close>

record refresh_request =
  rq_candidate :: candidate
  rq_version :: int
  rq_payload :: payload
  rq_config :: google_config
  rq_form :: form

datatype refresh_plan =
    Settled "oauth_error + candidate"
  | Ask refresh_request

text \<open>\<open>SELECT credential_enc, credential_version ... WHERE id = ? AND status = 'active' AND auth_kind = 'oauth'\<close>.\<close>

definition active_oauth :: "int \<Rightarrow> account_row \<Rightarrow> bool" where
  "active_oauth account r \<longleftrightarrow> ac_id r = account \<and> ac_status r = ''active'' \<and> ac_auth_kind r = ''oauth''"

definition issued_at :: "payload \<Rightarrow> ms" where
  "issued_at p =
     (case Option.bind (map_of (rev (provider_fields p)) ''issued_at_ms'') parse_int64 of None \<Rightarrow> 0 | Some n \<Rightarrow> n)"

text \<open>A refresh that is not forced makes do with a token that has not expired.\<close>

definition or_still_valid :: "bool \<Rightarrow> candidate \<Rightarrow> nanos \<Rightarrow> string \<Rightarrow> oauth_error + candidate" where
  "or_still_valid force c now code =
     (if \<not> force \<and> unix_milli now < credential_expires c then Inr c else Inl (OAuthCode code))"

definition refresh_form :: "google_config \<Rightarrow> string \<Rightarrow> string \<Rightarrow> form" where
  "refresh_form config secret tok =
     [(''client_id'', gc_client_id config), (''client_secret'', secret), (''grant_type'', ''refresh_token''),
      (''refresh_token'', tok)]"

definition refresh_with ::
  "oauth_service \<Rightarrow> (nat \<Rightarrow> nanos) \<Rightarrow> candidate \<Rightarrow> account_row \<Rightarrow> bool \<Rightarrow> 'x control_db_scheme \<Rightarrow> refresh_plan"
where
  "refresh_with svc clock c r force s =
     (case decrypt (os_cipher svc) (os_scan svc) (account_public c) (sealed (ac_credential_enc r)) of
        Inl _ \<Rightarrow> Settled (Inl (OAuthCode ''reauth_required''))
      | Inr p \<Rightarrow>
          if refresh_token p = [] then Settled (Inl (OAuthCode ''reauth_required''))
          else if \<not> force \<and> \<not> refresh_due (expires_at p) (clock 1) (issued_at p) then Settled (Inr c)
          else
            (case load_google_config_secret svc s of
               Inl _ \<Rightarrow> Settled (or_still_valid force c (clock 2) ''oauth_config_invalid'')
             | Inr (config, secret) \<Rightarrow>
                 if \<not> gc_enabled config then Settled (or_still_valid force c (clock 2) ''oauth_config_invalid'')
                 else Ask \<lparr>rq_candidate = c, rq_version = ac_credential_version r, rq_payload = p,
                        rq_config = config, rq_form = refresh_form config secret (refresh_token p)\<rparr>))"

definition refresh_start ::
  "oauth_service \<Rightarrow> (nat \<Rightarrow> nanos) \<Rightarrow> candidate \<Rightarrow> bool \<Rightarrow> 'x control_db_scheme \<Rightarrow> refresh_plan"
where
  "refresh_start svc clock selected force s =
     (case load_account (os_cipher svc) (os_scan svc) s (account_public selected) of
        Inl _ \<Rightarrow> Settled (Inl OAuthFailure)
      | Inr fresh \<Rightarrow>
          let c = cfg_candidate fresh in
          if auth_kind c \<noteq> ''oauth'' \<or> cfg_status fresh \<noteq> ''active''
          then Settled (Inl (OAuthCode ''reauth_required''))
          else if credential_version c \<noteq> credential_version selected then Settled (Inr c)
          else
            (case find (active_oauth (account_internal c)) (accounts s) of
               None \<Rightarrow> Settled (Inl (OAuthCode ''reauth_required''))
             | Some r \<Rightarrow> refresh_with svc clock c r force s))"

text \<open>The audit of a refresh is a transaction of its own, whose failure is ignored.\<close>

definition system_actor :: actor where
  "system_actor = \<lparr>actor_kind = ''system'', actor_id = [], actor_request = []\<rparr>"

definition record_audit ::
  "environment \<Rightarrow> ms \<Rightarrow> string \<Rightarrow> string \<Rightarrow> string \<Rightarrow> string \<Rightarrow> (string \<times> meta) list
    \<Rightarrow> 'x control_db_scheme \<Rightarrow> 'x control_db_scheme"
where
  "record_audit env now event target_kind target_id outcome metadata s =
     (case audit_outcome env now system_actor event target_kind target_id outcome metadata s of
        Inl _ \<Rightarrow> s
      | Inr t \<Rightarrow> t)"

definition mark_reauth_required :: "environment \<Rightarrow> candidate \<Rightarrow> int \<Rightarrow> 'x control_db_scheme \<Rightarrow> 'x control_db_scheme" where
  "mark_reauth_required env c version s =
     record_audit env (unix_milli (env_clock env 7)) ''account.oauth_refresh_failed'' ''account'' (account_public c)
       ''failure'' [(''reason'', MetaText ''reauth_required'')]
       (write_accounts (\<lambda>r. ac_id r = account_internal c \<and> ac_credential_version r = version \<and> ac_status r = ''active'')
         (\<lambda>r. r\<lparr>ac_status := ''reauth_required'', ac_version := ac_version r + 1,
               ac_updated := unix_milli (env_clock env 6)\<rparr>) s)"

definition refreshed_payload :: "refresh_request \<Rightarrow> token_response \<Rightarrow> ms \<Rightarrow> payload" where
  "refreshed_payload rq tok now =
     empty_payload\<lparr>schema_version := 1, access_token := tr_access tok,
       refresh_token := (if tr_refresh tok = [] then refresh_token (rq_payload rq) else tr_refresh tok),
       token_type := ''Bearer'', scopes := tr_scopes tok, expires_at := tr_expires tok,
       provider_fields := [(''issued_at_ms'', show_int now), (''project_id'', gc_project (rq_config rq))]\<rparr>"

definition refreshable :: "refresh_request \<Rightarrow> account_row \<Rightarrow> bool" where
  "refreshable rq r \<longleftrightarrow> active_oauth (account_internal (rq_candidate rq)) r \<and> ac_credential_version r = rq_version rq"

definition refreshed_account :: "string \<Rightarrow> ms \<Rightarrow> ms \<Rightarrow> account_row \<Rightarrow> account_row" where
  "refreshed_account env expires now r =
     r\<lparr>ac_credential_enc := Some env, ac_credential_expires := Some expires,
       ac_credential_version := ac_credential_version r + 1, ac_version := ac_version r + 1, ac_updated := now\<rparr>"

definition store_token ::
  "oauth_service \<Rightarrow> string option \<Rightarrow> environment \<Rightarrow> refresh_request \<Rightarrow> token_response \<Rightarrow> 'x control_db_scheme
    \<Rightarrow> 'x control_db_scheme \<times> (oauth_error + candidate)"
where
  "store_token svc nonce env rq tok s =
     (let pid = account_public (rq_candidate rq) in
      case encrypt (os_cipher svc) (os_render svc) nonce pid
          (refreshed_payload rq tok (unix_milli (env_clock env 5))) of
        Inl _ \<Rightarrow> (s, Inl OAuthFailure)
      | Inr envelope \<Rightarrow>
          if length (filter (refreshable rq) (accounts s)) \<noteq> 1 then (s, Inl (OAuthCode ''reauth_required''))
          else
            let t = record_audit env (unix_milli (env_clock env 7)) ''account.oauth_refreshed'' ''account'' pid
                  ''success'' []
                  (write_accounts (refreshable rq)
                    (refreshed_account envelope (tr_expires tok) (unix_milli (env_clock env 6))) s) in
            (case load_account (os_cipher svc) (os_scan svc) t pid of
               Inl _ \<Rightarrow> (t, Inl OAuthFailure)
             | Inr reloaded \<Rightarrow> (t, Inr (cfg_candidate reloaded))))"

definition refresh_finish ::
  "oauth_service \<Rightarrow> string option \<Rightarrow> environment \<Rightarrow> bool \<Rightarrow> refresh_request \<Rightarrow> string + token_response
    \<Rightarrow> 'x control_db_scheme \<Rightarrow> 'x control_db_scheme \<times> (oauth_error + candidate)"
where
  "refresh_finish svc nonce env force rq answer s =
     (case answer of
        Inl code \<Rightarrow>
          if code = ''reauth_required''
          then (mark_reauth_required env (rq_candidate rq) (rq_version rq) s, Inl (OAuthCode ''reauth_required''))
          else (s, or_still_valid force (rq_candidate rq) (env_clock env 4) ''oauth_refresh_unavailable'')
      | Inr tok \<Rightarrow> store_token svc nonce env rq tok s)"

definition ask_google ::
  "oauth_service \<Rightarrow> (candidate \<Rightarrow> form \<Rightarrow> token_reply option) \<Rightarrow> environment \<Rightarrow> refresh_request \<Rightarrow> string + token_response"
where
  "ask_google svc transport env rq =
     exchange_token svc transport (env_clock env 3) (rq_candidate rq) (rq_form rq) False (scopes (rq_payload rq))"

definition refresh_credential ::
  "oauth_service \<Rightarrow> (candidate \<Rightarrow> form \<Rightarrow> token_reply option) \<Rightarrow> string option \<Rightarrow> environment \<Rightarrow> candidate \<Rightarrow> bool
    \<Rightarrow> 'x control_db_scheme \<Rightarrow> 'x control_db_scheme \<times> (oauth_error + candidate)"
where
  "refresh_credential svc transport nonce env selected force s =
     (case refresh_start svc (env_clock env) selected force s of
        Settled r \<Rightarrow> (s, r)
      | Ask rq \<Rightarrow> refresh_finish svc nonce env force rq (ask_google svc transport env rq) s)"

text \<open>What \<open>EnsureCredential\<close> decides before the single flight: \<open>None\<close> for a refresh.\<close>

definition without_refresh :: "nanos \<Rightarrow> candidate \<Rightarrow> bool \<Rightarrow> (oauth_error + candidate) option" where
  "without_refresh now c force =
     (if auth_kind c \<noteq> ''oauth'' then Some (Inr c)
      else if provider_id c \<noteq> ''google'' then Some (Inl (OAuthCode ''capability_not_supported''))
      else if \<not> force \<and> \<not> refresh_due (credential_expires c) now 0 then Some (Inr c)
      else None)"

definition ensure_credential_alone ::
  "oauth_service \<Rightarrow> (candidate \<Rightarrow> form \<Rightarrow> token_reply option) \<Rightarrow> string option \<Rightarrow> environment \<Rightarrow> candidate \<Rightarrow> bool
    \<Rightarrow> 'x control_db_scheme \<Rightarrow> 'x control_db_scheme \<times> (oauth_error + candidate)"
where
  "ensure_credential_alone svc transport nonce env c force s =
     (case without_refresh (env_clock env 0) c force of
        Some r \<Rightarrow> (s, r)
      | None \<Rightarrow> refresh_credential svc transport nonce env c force s)"

subsection \<open>The sweep\<close>

definition cleanup_expired_attempts :: "ms \<Rightarrow> 'x control_db_scheme \<Rightarrow> 'x control_db_scheme" where
  "cleanup_expired_attempts now s = s\<lparr>oauth_attempts := filter (\<lambda>r. now < oa_expires r) (oauth_attempts s)\<rparr>"

definition sweep_targets :: "ms \<Rightarrow> 'x db_scheme \<Rightarrow> string list" where
  "sweep_targets horizon s =
     map ac_public_id (take 100 (sort_key (\<lambda>r. the (ac_credential_expires r))
       (filter (\<lambda>r. ac_auth_kind r = ''oauth'' \<and> ac_status r = ''active''
          \<and> (case ac_credential_expires r of None \<Rightarrow> False | Some t \<Rightarrow> t \<le> horizon)) (accounts s))))"

text \<open>
  The accounts one after the other, each with its own clock, nonce and answer of Google; \<open>stop n\<close>
  says that the context is canceled before the n-th.
\<close>

fun sweep_accounts ::
  "oauth_service \<Rightarrow> (nat \<Rightarrow> candidate \<Rightarrow> form \<Rightarrow> token_reply option) \<Rightarrow> (nat \<Rightarrow> string option) \<Rightarrow> (nat \<Rightarrow> environment)
    \<Rightarrow> (nat \<Rightarrow> bool) \<Rightarrow> nat \<Rightarrow> string list \<Rightarrow> 'x control_db_scheme \<Rightarrow> 'x control_db_scheme"
where
  "sweep_accounts svc transport nonce env stop n [] s = s"
| "sweep_accounts svc transport nonce env stop n (pid # pids) s =
     (if stop n then s
      else
        sweep_accounts svc transport nonce env stop (Suc n) pids
          (case load_account (os_cipher svc) (os_scan svc) s pid of
             Inl _ \<Rightarrow> s
           | Inr loaded \<Rightarrow>
               fst (ensure_credential_alone svc (transport n) (nonce n) (env n) (cfg_candidate loaded) False s)))"

definition refresh_sweep ::
  "oauth_service \<Rightarrow> (nat \<Rightarrow> candidate \<Rightarrow> form \<Rightarrow> token_reply option) \<Rightarrow> (nat \<Rightarrow> string option) \<Rightarrow> (nat \<Rightarrow> environment)
    \<Rightarrow> (nat \<Rightarrow> bool) \<Rightarrow> nanos \<Rightarrow> nanos \<Rightarrow> 'x control_db_scheme \<Rightarrow> 'x control_db_scheme"
where
  "refresh_sweep svc transport nonce env stop now later s =
     (let s1 = cleanup_expired_attempts (unix_milli now) s in
      sweep_accounts svc transport nonce env stop 0 (sweep_targets (unix_milli (later + 5 * minute)) s1) s1)"

subsection \<open>Concurrent refreshes\<close>

text \<open>
  Each thread is one call of \<open>EnsureCredential\<close>.  A step is one critical section of
  \<open>refreshMu\<close>, one access to the database or the answer of Google; a call object is known by the
  thread that made it, and is closed once that thread has returned.  Between the steps the database
  changes in any way.
\<close>

datatype flight_result = Finished "oauth_error + candidate" | Canceled

datatype phase =
    Idle
  | Leading candidate bool \<comment> \<open>the call is registered\<close>
  | Asking int bool refresh_request \<comment> \<open>Google has been asked\<close>
  | Landing int "oauth_error + candidate" \<comment> \<open>the result is known, the call still registered\<close>
  | Waiting int nat
  | Returned flight_result

record flights =
  fl_db :: control_db
  fl_calls :: "int \<Rightarrow> nat option"
  fl_threads :: "nat \<Rightarrow> phase"

definition set_phase :: "nat \<Rightarrow> phase \<Rightarrow> flights \<Rightarrow> flights" where
  "set_phase t p w = w\<lparr>fl_threads := (fl_threads w)(t := p)\<rparr>"

definition set_call :: "int \<Rightarrow> nat option \<Rightarrow> flights \<Rightarrow> flights" where
  "set_call a u w = w\<lparr>fl_calls := (fl_calls w)(a := u)\<rparr>"

text \<open>The section under the mutex that joins a refresh or starts one.\<close>

definition enter_flight :: "nat \<Rightarrow> candidate \<Rightarrow> bool \<Rightarrow> flights \<Rightarrow> flights" where
  "enter_flight t c force w =
     (let a = account_internal c in
      case fl_calls w a of
        Some u \<Rightarrow> set_phase t (Waiting a u) w
      | None \<Rightarrow> set_phase t (Leading c force) (set_call a (Some t) w))"

definition leave_flight :: "nat \<Rightarrow> int \<Rightarrow> oauth_error + candidate \<Rightarrow> flights \<Rightarrow> flights" where
  "leave_flight t a r w = set_phase t (Returned (Finished r)) (set_call a None w)"

definition start_flight :: "oauth_service \<Rightarrow> (nat \<Rightarrow> nanos) \<Rightarrow> nat \<Rightarrow> candidate \<Rightarrow> bool \<Rightarrow> flights \<Rightarrow> flights" where
  "start_flight svc clock t c force w =
     (case refresh_start svc clock c force (fl_db w) of
        Settled r \<Rightarrow> set_phase t (Landing (account_internal c) r) w
      | Ask rq \<Rightarrow> set_phase t (Asking (account_internal c) force rq) w)"

definition finish_flight ::
  "oauth_service \<Rightarrow> string option \<Rightarrow> environment \<Rightarrow> nat \<Rightarrow> bool \<Rightarrow> refresh_request \<Rightarrow> string + token_response
    \<Rightarrow> int \<Rightarrow> flights \<Rightarrow> flights"
where
  "finish_flight svc nonce env t force rq answer a w =
     (case refresh_finish svc nonce env force rq answer (fl_db w) of
        (s, r) \<Rightarrow> set_phase t (Landing a r) (w\<lparr>fl_db := s\<rparr>))"

inductive flight_step :: "oauth_service \<Rightarrow> flights \<Rightarrow> flights \<Rightarrow> bool" for svc where
  at_once: "fl_threads w t = Idle \<Longrightarrow> without_refresh now c force = Some r \<Longrightarrow>
    flight_step svc w (set_phase t (Returned (Finished r)) w)"
| enter: "fl_threads w t = Idle \<Longrightarrow> without_refresh now c force = None \<Longrightarrow>
    flight_step svc w (enter_flight t c force w)"
| start: "fl_threads w t = Leading c force \<Longrightarrow> flight_step svc w (start_flight svc clock t c force w)"
| answer: "fl_threads w t = Asking a force rq \<Longrightarrow>
    flight_step svc w (finish_flight svc nonce env t force rq reply a w)"
| leave: "fl_threads w t = Landing a r \<Longrightarrow> flight_step svc w (leave_flight t a r w)"
| follow: "fl_threads w t = Waiting a u \<Longrightarrow> fl_threads w u = Returned r \<Longrightarrow>
    flight_step svc w (set_phase t (Returned r) w)"
| cancel: "fl_threads w t = Waiting a u \<Longrightarrow> flight_step svc w (set_phase t (Returned Canceled) w)"
| elsewhere: "flight_step svc w (w\<lparr>fl_db := s\<rparr>)"

inductive_cases flight_stepE: "flight_step svc w w'"

definition no_flights :: "control_db \<Rightarrow> flights" where
  "no_flights s = \<lparr>fl_db = s, fl_calls = (\<lambda>_. None), fl_threads = (\<lambda>_. Idle)\<rparr>"

inductive flight_reachable :: "oauth_service \<Rightarrow> flights \<Rightarrow> bool" for svc where
  init: "flight_reachable svc (no_flights s)"
| step: "flight_reachable svc w \<Longrightarrow> flight_step svc w w' \<Longrightarrow> flight_reachable svc w'"

text \<open>The account a thread refreshes, from the registration of its call to its removal.\<close>

fun flying_for :: "phase \<Rightarrow> int option" where
  "flying_for (Leading c force) = Some (account_internal c)"
| "flying_for (Asking a force rq) = Some a"
| "flying_for (Landing a r) = Some a"
| "flying_for _ = None"

definition flights_ok :: "flights \<Rightarrow> bool" where
  "flights_ok w \<longleftrightarrow> (\<forall>a t. fl_calls w a = Some t \<longleftrightarrow> flying_for (fl_threads w t) = Some a)
     \<and> (\<forall>t a u. fl_threads w t = Waiting a u \<longrightarrow>
          flying_for (fl_threads w u) = Some a \<or> (\<exists>r. fl_threads w u = Returned (Finished r)))"

lemma flights_okD:
  assumes "flights_ok w"
  shows "fl_calls w a = Some t \<longleftrightarrow> flying_for (fl_threads w t) = Some a"
    "fl_threads w t = Waiting a u \<Longrightarrow>
      flying_for (fl_threads w u) = Some a \<or> (\<exists>r. fl_threads w u = Returned (Finished r))"
  using assms by (simp_all add: flights_ok_def)

lemma no_flights_ok: "flights_ok (no_flights s)"
  by (simp add: flights_ok_def no_flights_def)

text \<open>A phase that flies for the same account, or does not fly before and after, keeps the invariant.\<close>

lemma flights_ok_set_phase:
  assumes ok: "flights_ok w" and same: "flying_for p = flying_for (fl_threads w t)"
    and live: "\<And>r. fl_threads w t \<noteq> Returned r"
    and waits: "\<And>a u. p = Waiting a u \<Longrightarrow> u \<noteq> t \<and> flying_for (fl_threads w u) = Some a"
  shows "flights_ok (set_phase t p w)"
proof -
  have followed: "flying_for (fl_threads w t) = Some a" if "fl_threads w v = Waiting a t" for v a
    using flights_okD(2) [OF ok that] live by blast
  show ?thesis
    using ok same waits followed by (auto simp: flights_ok_def set_phase_def)
qed

lemma flights_ok_db: "flights_ok (w\<lparr>fl_db := s\<rparr>) \<longleftrightarrow> flights_ok w"
  by (simp add: flights_ok_def)

lemma enter_flight_ok:
  assumes ok: "flights_ok w" and idle: "fl_threads w t = Idle"
  shows "flights_ok (enter_flight t c force w)"
proof (cases "fl_calls w (account_internal c)")
  case None
  then have free: "flying_for (fl_threads w u) \<noteq> Some (account_internal c)" for u
    using flights_okD(1) [OF ok, of "account_internal c" u] by simp
  have unfollowed: "fl_threads w v \<noteq> Waiting a t" for v a
    using flights_okD(2) [OF ok, of v a t] idle by auto
  show ?thesis
    using ok idle None free unfollowed
    by (auto simp: enter_flight_def Let_def flights_ok_def set_phase_def set_call_def)
next
  case (Some u)
  then have "flying_for (fl_threads w u) = Some (account_internal c)" using flights_okD(1) [OF ok] by blast
  moreover from this idle have "u \<noteq> t" by auto
  ultimately show ?thesis
    using idle Some by (auto simp: enter_flight_def Let_def intro!: flights_ok_set_phase [OF ok])
qed

lemma leave_flight_ok:
  assumes ok: "flights_ok w" and landing: "fl_threads w t = Landing a r"
  shows "flights_ok (leave_flight t a r w)"
proof -
  have only: "flying_for (fl_threads w u) = Some a \<longleftrightarrow> u = t" for u
    using flights_okD(1) [OF ok, of a u] flights_okD(1) [OF ok, of a t] landing by auto
  show ?thesis
    using ok landing only by (auto simp: flights_ok_def leave_flight_def set_phase_def set_call_def)
qed

lemma flight_step_ok:
  assumes "flight_step svc w w'" "flights_ok w"
  shows "flights_ok w'"
  using assms
proof cases
  case (follow t a u r)
  with assms(2) show ?thesis by (auto intro!: flights_ok_set_phase)
qed (auto intro!: flights_ok_set_phase enter_flight_ok leave_flight_ok
    simp: flights_ok_db start_flight_def finish_flight_def split: refresh_plan.splits prod.splits)

lemma flight_reachable_ok: "flight_reachable svc w \<Longrightarrow> flights_ok w"
  by (induction rule: flight_reachable.induct) (auto intro: no_flights_ok flight_step_ok)

definition due_candidate :: candidate where
  "due_candidate =
     \<lparr>route_internal = 0, route_public = [], account_internal = 7, account_public = ''sdr_acct_g'',
      account_version = 1, credential_version = 1, credential_expires = 0, auth_kind = ''oauth'',
      provider_id = ''google'', upstream_internal = 3, upstream_public = ''sdr_up_g'', upstream_version = 1,
      base_url = [], allow_private = False, upstream_model = [], priority = 1, max_concurrency = 1,
      credential = None, cand_proxy = None, failure_streak = 0\<rparr>"

definition one_waits :: "control_db \<Rightarrow> flights" where
  "one_waits s = enter_flight 1 due_candidate False (enter_flight 0 due_candidate False (no_flights s))"

definition no_rows :: control_db where
  "no_rows = db.extend \<lparr>proxies = [], upstreams = [], accounts = [], routes = [], candidates = [], runtimes = []\<rparr>
     (control_db.fields [] [] [] None [])"

lemma one_waits_reachable: "flight_reachable svc (one_waits s)"
proof -
  have due: "without_refresh 0 due_candidate False = None"
    by (simp add: without_refresh_def due_candidate_def refresh_due_def)
  have "flight_reachable svc (enter_flight 0 due_candidate False (no_flights s))"
    by (rule flight_reachable.step [OF flight_reachable.init [of svc s] flight_step.enter [OF _ due]])
      (simp add: no_flights_def)
  then show ?thesis
    unfolding one_waits_def
    by (rule flight_reachable.step [OF _ flight_step.enter [OF _ due]])
      (simp add: enter_flight_def no_flights_def set_phase_def set_call_def)
qed

text \<open>
  C37: At most one refresh of an account is under way at a time, so its refresh token is never sent
  to Google by two requests at once; and every request that waits, waits for the refresh of its own
  account that is under way, or for one that has returned a result it can take: no request waits for
  a request that waits, and none for one that has gone.
\<close>

theorem refresh_single_flight:
  assumes "flight_reachable svc w"
  shows "(\<forall>t u a. flying_for (fl_threads w t) = Some a \<and> flying_for (fl_threads w u) = Some a \<longrightarrow> t = u)
    \<and> (\<forall>t a u. fl_threads w t = Waiting a u \<longrightarrow>
         flying_for (fl_threads w u) = Some a \<or> (\<exists>r. fl_threads w u = Returned (Finished r)))"
  using flight_reachable_ok [OF assms] by (metis flights_okD option.inject)

theorem refresh_single_flight_witness:
  "fl_threads (one_waits no_rows) 1 = Waiting 7 0 \<and> flying_for (fl_threads (one_waits no_rows) 0) = Some 7"
proof -
  have waits: "fl_threads (one_waits no_rows) 1 = Waiting 7 0" "\<And>r. fl_threads (one_waits no_rows) 0 \<noteq> Returned r"
    by (simp_all add: one_waits_def enter_flight_def no_flights_def set_phase_def set_call_def due_candidate_def)
  with refresh_single_flight [OF one_waits_reachable, of no_rows] show ?thesis by blast
qed

end
