(* ===== verification/Admin_Limiter.thy ===== *)
theory Admin_Limiter
  imports Prelude
begin

text \<open>
  \<open>internal/auth/limiter.go\<close>: the sliding windows over login attempts.  A key missing from the
  map is the empty list, the zero \<open>lastSweep\<close> is \<open>None\<close>.  The specification keeps every
  accepted attempt for ever; the limiter, which forgets the old ones, gives the same answers.
\<close>

subsection \<open>limiter.go\<close>

record limiter =
  attempts :: "string \<Rightarrow> nanos list"
  last_sweep :: "nanos option"

definition new_limiter :: limiter where
  "new_limiter = \<lparr>attempts = (\<lambda>_. []), last_sweep = None\<rparr>"

abbreviation "per_ip_minute \<equiv> (5 :: nat)"
abbreviation "per_ip_hour \<equiv> (20 :: nat)"
abbreviation "global_minute \<equiv> (30 :: nat)"
abbreviation "global_hour \<equiv> (200 :: nat)"

definition since :: "nanos \<Rightarrow> nanos list \<Rightarrow> nanos list" where
  "since cutoff vs = filter (\<lambda>v. \<not> v < cutoff) vs"

definition sweep :: "nanos \<Rightarrow> limiter \<Rightarrow> limiter" where
  "sweep now l =
     (let due = (case last_sweep l of None \<Rightarrow> False | Some t \<Rightarrow> \<not> now < t + hour);
          l1 = (if due then l\<lparr>attempts := (\<lambda>k. since (now - hour) (attempts l k))\<rparr> else l) in
      if (case last_sweep l of None \<Rightarrow> True | Some t \<Rightarrow> now < t \<or> \<not> now < t + hour)
      then l1\<lparr>last_sweep := Some now\<rparr> else l1)"

definition check_capacity :: "string \<Rightarrow> nanos \<Rightarrow> nat \<Rightarrow> nat \<Rightarrow> limiter \<Rightarrow> limiter \<times> bool" where
  "check_capacity key now minute_limit hour_limit l =
     (let kept = since (now - hour) (attempts l key);
          minute_count = length (since (now - minute) kept) in
      (l\<lparr>attempts := (attempts l)(key := kept)\<rparr>,
       length kept < hour_limit \<and> minute_count < minute_limit))"

definition note_attempt :: "string \<Rightarrow> nanos \<Rightarrow> limiter \<Rightarrow> limiter" where
  "note_attempt key now l = l\<lparr>attempts := (attempts l)(key := attempts l key @ [now])\<rparr>"

definition client_name :: "string \<Rightarrow> string" where
  "client_name key = (if key = [] then ''unknown'' else key)"

definition allow :: "string \<Rightarrow> nanos \<Rightarrow> limiter \<Rightarrow> limiter \<times> bool" where
  "allow key now l =
     (let ip_key = ''ip:'' @ client_name key;
          (l1, ip_ok) = check_capacity ip_key now per_ip_minute per_ip_hour (sweep now l) in
      if \<not> ip_ok then (l1, False)
      else
        (case check_capacity ''global'' now global_minute global_hour l1 of
           (l2, global_ok) \<Rightarrow>
             if \<not> global_ok then (l2, False)
             else (note_attempt ''global'' now (note_attempt ip_key now l2), True)))"

fun allow_all :: "limiter \<Rightarrow> (string \<times> nanos) list \<Rightarrow> bool list" where
  "allow_all l [] = []"
| "allow_all l ((key, now) # rs) = (case allow key now l of (l', ok) \<Rightarrow> ok # allow_all l' rs)"

subsection \<open>The specification\<close>

text \<open>The log of all accepted attempts, oldest first, and the windows that end now.\<close>

type_synonym attempt_log = "(string \<times> nanos) list"

definition by_client :: "string \<Rightarrow> attempt_log \<Rightarrow> attempt_log" where
  "by_client key h = filter (\<lambda>a. client_name (fst a) = client_name key) h"

definition in_window :: "nanos \<Rightarrow> nanos \<Rightarrow> attempt_log \<Rightarrow> nat" where
  "in_window lo hi h = length (filter (\<lambda>a. lo \<le> snd a \<and> snd a \<le> hi) h)"

definition admits :: "attempt_log \<Rightarrow> string \<Rightarrow> nanos \<Rightarrow> bool" where
  "admits h key now \<longleftrightarrow>
     in_window (now - hour) now (by_client key h) < per_ip_hour
     \<and> in_window (now - minute) now (by_client key h) < per_ip_minute
     \<and> in_window (now - hour) now h < global_hour
     \<and> in_window (now - minute) now h < global_minute"

fun admitted :: "attempt_log \<Rightarrow> (string \<times> nanos) list \<Rightarrow> attempt_log" where
  "admitted h [] = h"
| "admitted h (r # rs) = admitted (if admits h (fst r) (snd r) then h @ [r] else h) rs"

fun admit_all :: "attempt_log \<Rightarrow> (string \<times> nanos) list \<Rightarrow> bool list" where
  "admit_all h [] = []"
| "admit_all h (r # rs) =
     (let ok = admits h (fst r) (snd r) in ok # admit_all (if ok then h @ [r] else h) rs)"

subsection \<open>The limiter implements the specification\<close>

lemma since_Nil [simp]: "since c [] = []"
  by (simp add: since_def)

lemma since_append [simp]: "since c (xs @ ys) = since c xs @ since c ys"
  by (simp add: since_def)

lemma since_single [simp]: "since c [v] = (if v < c then [] else [v])"
  by (simp add: since_def)

lemma since_since: "c \<le> c' \<Longrightarrow> since c' (since c vs) = since c' vs"
  by (auto simp: since_def intro!: filter_cong)

text \<open>What the log holds under each key of the map.\<close>

definition logged :: "attempt_log \<Rightarrow> string \<Rightarrow> nanos list" where
  "logged h k =
     map snd (if k = ''global'' then h else filter (\<lambda>a. k = ''ip:'' @ client_name (fst a)) h)"

definition tracks :: "nanos \<Rightarrow> attempt_log \<Rightarrow> limiter \<Rightarrow> bool" where
  "tracks now h l \<longleftrightarrow> (\<forall>k. since (now - hour) (attempts l k) = since (now - hour) (logged h k))"

lemma tracks_later:
  assumes "tracks now h l" "now \<le> later"
  shows "tracks later h l"
proof -
  have "since (later - hour) vs = since (later - hour) (since (now - hour) vs)" for vs
    using assms(2) by (simp add: since_since)
  with assms(1) show ?thesis by (metis tracks_def)
qed

lemma tracks_sweep: "tracks now h (sweep now l) \<longleftrightarrow> tracks now h l"
  by (simp add: tracks_def sweep_def Let_def since_since)

lemma check_capacity_eq:
  assumes "tracks now h l" "check_capacity k now m n l = (l', ok)"
  shows "tracks now h l' \<and> (ok \<longleftrightarrow> length (since (now - hour) (logged h k)) < n
    \<and> length (since (now - minute) (logged h k)) < m)"
proof -
  have "since (now - minute) (since (now - hour) vs) = since (now - minute) vs" for vs
    by (simp add: since_since)
  then have "length (since (now - minute) (since (now - hour) (attempts l k))) =
      length (since (now - minute) (logged h k))"
    using assms(1) by (metis tracks_def)
  moreover have same: "since (now - hour) (attempts l j) = since (now - hour) (logged h j)" for j
    using assms(1) by (simp add: tracks_def)
  moreover have l': "l' = l\<lparr>attempts := (attempts l)(k := since (now - hour) (attempts l k))\<rparr>"
      "ok \<longleftrightarrow> length (since (now - hour) (attempts l k)) < n
        \<and> length (since (now - minute) (since (now - hour) (attempts l k))) < m"
    using assms(2) by (auto simp: check_capacity_def Let_def)
  moreover have "tracks now h l'"
    unfolding tracks_def l'(1) using same by (simp add: since_since)
  ultimately show ?thesis by simp
qed

lemma logged_append: "logged (h @ [r]) k =
    logged h k @ (if k = ''global'' \<or> k = ''ip:'' @ client_name (fst r) then [snd r] else [])"
  by (simp add: logged_def)

lemma tracks_note:
  assumes "tracks now h l"
  shows "tracks now (h @ [(key, now)])
    (note_attempt ''global'' now (note_attempt (''ip:'' @ client_name key) now l))"
  using assms by (simp add: tracks_def note_attempt_def logged_append)

lemma since_logged:
  assumes "\<forall>a \<in> set h. snd a \<le> now"
  shows "length (since (now - d) (logged h ''global'')) = in_window (now - d) now h"
    "length (since (now - d) (logged h (''ip:'' @ client_name key))) = in_window (now - d) now (by_client key h)"
proof -
  have count: "length (filter (\<lambda>v. \<not> v < now - d) (map snd g)) = in_window (now - d) now g"
    if "set g \<subseteq> set h" for g :: attempt_log
  proof -
    have "filter (\<lambda>a. \<not> snd a < now - d) g = filter (\<lambda>a. now - d \<le> snd a \<and> snd a \<le> now) g"
      using that assms by (intro filter_cong) auto
    then show ?thesis by (simp add: in_window_def filter_map comp_def)
  qed
  show "length (since (now - d) (logged h ''global'')) = in_window (now - d) now h"
    using count [of h] by (simp add: since_def logged_def)
  have "filter (\<lambda>a. ''ip:'' @ client_name key = ''ip:'' @ client_name (fst a)) h = by_client key h"
    by (auto simp: by_client_def intro!: filter_cong)
  then show "length (since (now - d) (logged h (''ip:'' @ client_name key))) =
      in_window (now - d) now (by_client key h)"
    using count [of "by_client key h"] by (auto simp: since_def logged_def by_client_def)
qed

lemma allow_admits:
  assumes "tracks now h l" "\<forall>a \<in> set h. snd a \<le> now" "allow key now l = (l', ok)"
  shows "(ok \<longleftrightarrow> admits h key now) \<and> tracks now (if ok then h @ [(key, now)] else h) l'"
proof -
  obtain l1 b1 where one: "check_capacity (''ip:'' @ client_name key) now per_ip_minute per_ip_hour (sweep now l) = (l1, b1)"
    by fastforce
  obtain l2 b2 where two: "check_capacity ''global'' now global_minute global_hour l1 = (l2, b2)"
    by fastforce
  have c1: "tracks now h l1" "b1 \<longleftrightarrow> in_window (now - hour) now (by_client key h) < per_ip_hour
      \<and> in_window (now - minute) now (by_client key h) < per_ip_minute"
    using check_capacity_eq [OF _ one, of h] assms(1) since_logged [OF assms(2)] by (auto simp: tracks_sweep)
  have c2: "tracks now h l2" "b2 \<longleftrightarrow> in_window (now - hour) now h < global_hour
      \<and> in_window (now - minute) now h < global_minute"
    using check_capacity_eq [OF c1(1) two] since_logged [OF assms(2)] by auto
  show ?thesis
    using assms(3) one two c1 c2 tracks_note [OF c2(1), of key]
    by (auto simp: allow_def Let_def admits_def split: if_splits)
qed

lemma allow_all_admit:
  assumes "sorted (map snd rs)"
  shows "allow_all new_limiter rs = admit_all [] rs"
proof -
  have "allow_all l rs = admit_all h rs"
    if "tracks start h l" "sorted (map snd rs)" "\<forall>a \<in> set h. snd a \<le> start" "\<forall>r \<in> set rs. start \<le> snd r"
    for start h l using that
  proof (induction rs arbitrary: start h l)
    case (Cons r rs)
    obtain key now where r: "r = (key, now)" by (cases r)
    obtain l' ok where al: "allow key now l = (l', ok)" by fastforce
    have "tracks now h l" using tracks_later Cons.prems(1,4) r by simp
    moreover have "\<forall>a \<in> set h. snd a \<le> now" using Cons.prems(3,4) r by fastforce
    ultimately have "ok \<longleftrightarrow> admits h key now" "tracks now (if ok then h @ [r] else h) l'"
      using allow_admits al r by blast+
    then show ?case
      using Cons.IH [of now "if ok then h @ [r] else h" l'] Cons.prems \<open>\<forall>a \<in> set h. snd a \<le> now\<close> al r
      by (auto simp: Let_def)
  qed simp
  from this [of "if rs = [] then 0 else snd (hd rs)" "[]" new_limiter] assms show ?thesis
    by (cases rs) (auto simp: tracks_def new_limiter_def logged_def)
qed

subsection \<open>Properties\<close>

text \<open>
  C33: As long as the clock does not run backwards, the limiter answers every sequence of attempts as
  the specification that forgets nothing does: sweeping and trimming lose no attempt that counts.
\<close>

theorem limiter_implements_log:
  assumes "sorted (map snd rs)"
  shows "allow_all new_limiter rs = admit_all [] rs"
  by (rule allow_all_admit [OF assms])

theorem limiter_implements_log_witness:
  "allow_all new_limiter [([], 0), ([], 0), ([], 1), ([], 2), ([], 3), ([], 4), (''::1'', 4), ([], hour)] =
     [True, True, True, True, True, False, True, True]"
proof -
  let ?rs = "[([], 0), ([], 0), ([], 1), ([], 2), ([], 3), ([], 4), (''::1'', 4), ([], hour)]"
  have "sorted (map snd ?rs)" by simp
  moreover have "admit_all [] ?rs = [True, True, True, True, True, False, True, True]" by code_simp
  ultimately show ?thesis using limiter_implements_log by metis
qed

lemma in_window_append [simp]:
  "in_window lo hi (h @ [r]) = in_window lo hi h + (if lo \<le> snd r \<and> snd r \<le> hi then 1 else 0)"
  by (simp add: in_window_def)

lemma in_window_later:
  assumes "t - d \<le> lo" "\<forall>a \<in> set h. snd a \<le> t"
  shows "in_window lo hi h \<le> in_window (t - d) t h"
proof -
  have only: "filter (\<lambda>a. lo \<le> snd a \<and> snd a \<le> hi) h =
      filter (\<lambda>a. lo \<le> snd a \<and> snd a \<le> hi) (filter (\<lambda>a. t - d \<le> snd a \<and> snd a \<le> t) h)"
    using assms by (auto intro!: filter_cong)
  show ?thesis unfolding in_window_def by (subst only) (rule length_filter_le)
qed

definition windows_ok :: "attempt_log \<Rightarrow> bool" where
  "windows_ok h \<longleftrightarrow> (\<forall>key t.
     in_window t (t + minute) (by_client key h) \<le> per_ip_minute \<and> in_window t (t + minute) h \<le> global_minute
     \<and> in_window t (t + hour) (by_client key h) \<le> per_ip_hour \<and> in_window t (t + hour) h \<le> global_hour)"

lemma by_client_append: "by_client key (h @ [r]) =
    by_client key h @ (if client_name (fst r) = client_name key then [r] else [])"
  by (simp add: by_client_def)

lemma window_step:
  assumes "in_window t (t + d) h \<le> n" "in_window (now - d) now h < n" "\<forall>a \<in> set h. snd a \<le> now"
  shows "in_window t (t + d) (h @ [(key, now)]) \<le> n"
  using in_window_later [of now d t h "t + d"] assms by auto

lemma admits_windows:
  assumes "windows_ok h" "admits h key now" "\<forall>a \<in> set h. snd a \<le> now"
  shows "windows_ok (h @ [(key, now)])"
proof -
  have h: "\<forall>a \<in> set (by_client k h). snd a \<le> now" for k
    using assms(3) by (simp add: by_client_def)
  have client: "in_window t (t + d) (by_client k (h @ [(key, now)])) \<le> n"
    if "in_window t (t + d) (by_client k h) \<le> n" "in_window (now - d) now (by_client key h) < n" for t d k n
  proof (cases "client_name key = client_name k")
    case True
    then have "by_client k h = by_client key h" by (simp add: by_client_def)
    then show ?thesis using window_step [OF that(1) _ h, where key = key] that(2) True
      unfolding by_client_append by simp
  qed (use that in \<open>simp add: by_client_append\<close>)
  have all: "in_window t (t + d) (h @ [(key, now)]) \<le> n"
    if "in_window t (t + d) h \<le> n" "in_window (now - d) now h < n" for t d n
    using window_step [OF that assms(3)] .
  have old: "in_window t (t + minute) (by_client k h) \<le> per_ip_minute" "in_window t (t + minute) h \<le> global_minute"
    "in_window t (t + hour) (by_client k h) \<le> per_ip_hour" "in_window t (t + hour) h \<le> global_hour" for k t
    using assms(1) by (simp_all add: windows_ok_def)
  from assms(2) show ?thesis
    unfolding windows_ok_def admits_def by (intro allI conjI client all old) simp_all
qed

text \<open>
  Login attempts are bounded: of the attempts that pass, any minute holds at most five of one client
  and thirty in all, and any hour at most twenty of one client and two hundred in all - wherever the
  window begins, not only for aligned ones.
\<close>

theorem limiter_windows_bounded:
  assumes "sorted (map snd rs)"
  shows "windows_ok (map fst (filter snd (zip rs (allow_all new_limiter rs))))"
proof -
  have spec: "h @ map fst (filter snd (zip rs (admit_all h rs))) = admitted h rs" for h and rs :: attempt_log
  proof (induction rs arbitrary: h)
    case (Cons r rs)
    show ?case using Cons.IH [of "h @ [r]"] Cons.IH [of h] by (simp add: Let_def)
  qed simp
  have "windows_ok (admitted h rs)"
    if "windows_ok h" "sorted (map snd rs)" "\<forall>a \<in> set h. \<forall>r \<in> set rs. snd a \<le> snd r" for h and rs :: attempt_log
    using that
  proof (induction rs arbitrary: h)
    case (Cons r rs)
    have "windows_ok (if admits h (fst r) (snd r) then h @ [r] else h)"
      using admits_windows [of h "fst r" "snd r"] Cons.prems by simp
    then show ?case
      using Cons.IH [of "if admits h (fst r) (snd r) then h @ [r] else h"] Cons.prems by simp
  qed simp
  moreover have "windows_ok []" by (simp add: windows_ok_def in_window_def by_client_def)
  ultimately have "windows_ok (admitted [] rs)" using assms by simp
  then show ?thesis unfolding allow_all_admit [OF assms] using spec [of "[]"] by simp
qed

theorem limiter_windows_bounded_witness:
  "in_window 0 minute (map fst (filter snd (zip (replicate 9 ([], 7)) (allow_all new_limiter (replicate 9 ([], 7)))))) \<le> 30"
proof -
  have "sorted (map snd (replicate 9 ([] :: string, 7 :: nanos)))" by simp
  from limiter_windows_bounded [OF this] show ?thesis unfolding windows_ok_def by (metis add_0)
qed

end
