(* ===== verification/Admin_Password.thy ===== *)
theory Admin_Password
  imports Identifier
begin

text \<open>
  \<open>internal/auth/password.go\<close>: the rules for a password and its Argon2id PHC string.  Argon2
  itself is the argument \<open>argon\<close> (password, salt, iterations, memory, parallelism, key length);
  the salt is what the random reader yields.
\<close>

subsection \<open>UTF-8\<close>

definition cont :: "nat \<Rightarrow> bool" where
  "cont b \<longleftrightarrow> 0x80 \<le> b \<and> b \<le> 0xBF"

definition second_ok :: "nat \<Rightarrow> nat \<Rightarrow> bool" where
  "second_ok a b \<longleftrightarrow>
     (if a = 0xE0 then 0xA0 \<le> b \<and> b \<le> 0xBF
      else if a = 0xED then 0x80 \<le> b \<and> b \<le> 0x9F
      else if a = 0xF0 then 0x90 \<le> b \<and> b \<le> 0xBF
      else if a = 0xF4 then 0x80 \<le> b \<and> b \<le> 0x8F
      else cont b)"

text \<open>The code points of a valid encoding, \<open>None\<close> where \<open>utf8.ValidString\<close> is false.\<close>

fun runes :: "nat list \<Rightarrow> nat list option" where
  "runes [] = Some []"
| "runes (a # rest) =
     (if a < 0x80 then map_option (Cons a) (runes rest)
      else
        (case rest of
           [] \<Rightarrow> None
         | b # rest \<Rightarrow>
             if 0xC2 \<le> a \<and> a \<le> 0xDF
             then if cont b then map_option (Cons ((a - 0xC0) * 64 + (b - 0x80))) (runes rest) else None
             else
               (case rest of
                  [] \<Rightarrow> None
                | c # rest \<Rightarrow>
                    if 0xE0 \<le> a \<and> a \<le> 0xEF
                    then if second_ok a b \<and> cont c
                      then map_option (Cons ((a - 0xE0) * 4096 + (b - 0x80) * 64 + (c - 0x80))) (runes rest)
                      else None
                    else
                      (case rest of
                         [] \<Rightarrow> None
                       | d # rest \<Rightarrow>
                           if 0xF0 \<le> a \<and> a \<le> 0xF4 \<and> second_ok a b \<and> cont c \<and> cont d
                           then map_option
                             (Cons ((a - 0xF0) * 262144 + (b - 0x80) * 4096 + (c - 0x80) * 64 + (d - 0x80)))
                             (runes rest)
                           else None))))"

definition is_space_rune :: "nat \<Rightarrow> bool" where
  "is_space_rune r \<longleftrightarrow>
     r \<in> {0x09, 0x0A, 0x0B, 0x0C, 0x0D, 0x20, 0x85, 0xA0, 0x1680, 0x2028, 0x2029, 0x202F, 0x205F, 0x3000}
     \<or> (0x2000 \<le> r \<and> r \<le> 0x200A)"

subsection \<open>password.go\<close>

record password_params =
  pw_memory :: nat
  pw_iterations :: nat
  pw_parallelism :: nat
  pw_salt_length :: nat
  pw_key_length :: nat

definition default_params :: "int \<Rightarrow> password_params" where
  "default_params cpus =
     (let p = (if cpus > 4 then 4 else cpus); p = (if p < 1 then 1 else p) in
      \<lparr>pw_memory = 64 * 1024, pw_iterations = 3, pw_parallelism = nat p, pw_salt_length = 16,
       pw_key_length = 32\<rparr>)"

definition validate_password :: "string \<Rightarrow> string option" where
  "validate_password password =
     (case runes (map byte_val password) of
        None \<Rightarrow> Some ''password must be valid UTF-8''
      | Some rs \<Rightarrow>
          if length rs < 14 \<or> length rs > 256
          then Some ''password must contain between 14 and 256 Unicode code points''
          else if 0 \<in> set rs then Some ''password must not contain NUL''
          else if list_all is_space_rune rs then Some ''password must not be all whitespace''
          else None)"

type_synonym argon2 = "string \<Rightarrow> string \<Rightarrow> nat \<Rightarrow> nat \<Rightarrow> nat \<Rightarrow> nat \<Rightarrow> string"

definition std_alphabet :: string where
  "std_alphabet = ''ABCDEFGHIJKLMNOPQRSTUVWXYZabcdefghijklmnopqrstuvwxyz0123456789+/''"

definition phc_text :: "password_params \<Rightarrow> string \<Rightarrow> string \<Rightarrow> string" where
  "phc_text p salt digest =
     ''$argon2id$v=19$m='' @ show_nat (pw_memory p) @ '',t='' @ show_nat (pw_iterations p) @ '',p=''
     @ show_nat (pw_parallelism p) @ ''$'' @ encode64 std_alphabet salt @ ''$'' @ encode64 std_alphabet digest"

definition hash_password ::
  "argon2 \<Rightarrow> password_params \<Rightarrow> string option \<Rightarrow> string \<Rightarrow> string + string"
where
  "hash_password argon p random password =
     (case validate_password password of
        Some e \<Rightarrow> Inl e
      | None \<Rightarrow>
          if pw_memory p < 8 \<or> pw_iterations p < 1 \<or> pw_parallelism p < 1 \<or> pw_salt_length p < 8
             \<or> pw_key_length p < 16
          then Inl ''invalid Argon2 parameters''
          else
            (case random of
               None \<Rightarrow> Inl ''generate password salt''
             | Some salt \<Rightarrow>
                 Inr (phc_text p salt (argon password salt (pw_iterations p) (pw_memory p) (pw_parallelism p)
                   (pw_key_length p)))))"

text \<open>\<open>strings.Cut\<close> at one byte and \<open>strconv.ParseUint(s, 10, 32)\<close>.\<close>

definition cut_at :: "char \<Rightarrow> string \<Rightarrow> (string \<times> string) option" where
  "cut_at sep s =
     (if sep \<in> set s then Some (takeWhile (\<lambda>c. c \<noteq> sep) s, tl (dropWhile (\<lambda>c. c \<noteq> sep) s)) else None)"

definition parse_uint32 :: "string \<Rightarrow> nat option" where
  "parse_uint32 s = (case parse_nat s of None \<Rightarrow> None | Some n \<Rightarrow> if n < 4294967296 then Some n else None)"

fun parse_params :: "password_params \<Rightarrow> string list \<Rightarrow> string + password_params" where
  "parse_params p [] = Inr p"
| "parse_params p (item # items) =
     (case cut_at (CHR ''='') item of
        None \<Rightarrow> Inl ''invalid Argon2id parameters''
      | Some (key, v) \<Rightarrow>
          (case parse_uint32 v of
             None \<Rightarrow> Inl ''invalid Argon2id parameter value''
           | Some n \<Rightarrow>
               if key = ''m'' then parse_params (p\<lparr>pw_memory := n\<rparr>) items
               else if key = ''t'' then parse_params (p\<lparr>pw_iterations := n\<rparr>) items
               else if key = ''p'' then
                 (if n > 255 then Inl ''invalid Argon2id parallelism''
                  else parse_params (p\<lparr>pw_parallelism := n\<rparr>) items)
               else Inl ''unknown Argon2id parameter''))"

definition zero_params :: password_params where
  "zero_params = \<lparr>pw_memory = 0, pw_iterations = 0, pw_parallelism = 0, pw_salt_length = 0, pw_key_length = 0\<rparr>"

definition safe_params :: "password_params \<Rightarrow> bool" where
  "safe_params p \<longleftrightarrow> 8 \<le> pw_memory p \<and> pw_memory p \<le> 1024 * 1024 \<and> 1 \<le> pw_iterations p
     \<and> pw_iterations p \<le> 100 \<and> 1 \<le> pw_parallelism p \<and> pw_parallelism p \<le> 16"

definition parse_phc :: "string \<Rightarrow> string + password_params \<times> string \<times> string" where
  "parse_phc phc =
     (case split_on (CHR ''$'') phc of
        [lead, algorithm, version, params, salt64, digest64] \<Rightarrow>
          if lead \<noteq> [] \<or> algorithm \<noteq> ''argon2id'' \<or> version \<noteq> ''v=19''
          then Inl ''invalid Argon2id PHC string''
          else
            and_then (parse_params zero_params (split_on (CHR '','') params)) (\<lambda>p.
              if \<not> safe_params p then Inl ''unsafe Argon2id parameters''
              else
                (case decode64 std_alphabet salt64 of
                   None \<Rightarrow> Inl ''invalid Argon2id salt''
                 | Some salt \<Rightarrow>
                     if length salt < 8 \<or> length salt > 64 then Inl ''invalid Argon2id salt''
                     else
                       (case decode64 std_alphabet digest64 of
                          None \<Rightarrow> Inl ''invalid Argon2id hash''
                        | Some expected \<Rightarrow>
                            if length expected < 16 \<or> length expected > 64 then Inl ''invalid Argon2id hash''
                            else Inr (p, salt, expected))))
      | _ \<Rightarrow> Inl ''invalid Argon2id PHC string'')"

definition verify_password :: "argon2 \<Rightarrow> string \<Rightarrow> string \<Rightarrow> string + bool" where
  "verify_password argon password phc =
     and_then (parse_phc phc) (\<lambda>(p, salt, expected).
       Inr (argon password salt (pw_iterations p) (pw_memory p) (pw_parallelism p) (length expected) = expected))"

subsection \<open>The text parses back\<close>

lemma std_alphabet_ok: "alphabet64 std_alphabet"
  by (simp add: alphabet64_def std_alphabet_def)

lemma std_no_dollar: "CHR ''$'' \<notin> set (encode64 std_alphabet s)"
  using encode64_set [OF std_alphabet_ok, of s] by (auto simp: std_alphabet_def)

lemma digit_not [simp]: "digit_val (CHR ''$'') = None" "digit_val (CHR '','') = None" "digit_val (CHR ''='') = None"
  by (simp_all add: digit_val_def)

lemma show_nat_chars: "CHR ''$'' \<notin> set (show_nat n)" "CHR '','' \<notin> set (show_nat n)" "CHR ''='' \<notin> set (show_nat n)"
  using show_nat_digits [of _ n] by fastforce+

lemma parse_uint32_show: "n < 4294967296 \<Longrightarrow> parse_uint32 (show_nat n) = Some n"
  by (simp add: parse_uint32_def)

lemma cut_named: "cut_at (CHR ''='') (k # CHR ''='' # v) = (if k = CHR ''='' then Some ([], CHR ''='' # v) else Some ([k], v))"
  by (simp add: cut_at_def)

definition narrow_params :: "password_params \<Rightarrow> bool" where
  "narrow_params p \<longleftrightarrow> pw_memory p < 4294967296 \<and> pw_iterations p < 4294967296 \<and> pw_parallelism p < 256"

lemma parse_params_text:
  assumes "narrow_params p"
  shows "parse_params zero_params (split_on (CHR '','') (''m='' @ show_nat (pw_memory p) @ '',t='' @
      show_nat (pw_iterations p) @ '',p='' @ show_nat (pw_parallelism p)))
    = Inr (p\<lparr>pw_salt_length := 0, pw_key_length := 0\<rparr>)"
proof -
  have parts: "split_on (CHR '','') (''m='' @ show_nat (pw_memory p) @ '',t='' @
      show_nat (pw_iterations p) @ '',p='' @ show_nat (pw_parallelism p)) =
    [''m='' @ show_nat (pw_memory p), ''t='' @ show_nat (pw_iterations p), ''p='' @ show_nat (pw_parallelism p)]"
    using split_on_append [of "CHR '',''" "''m='' @ show_nat (pw_memory p)"]
      split_on_append [of "CHR '',''" "''t='' @ show_nat (pw_iterations p)"]
      split_on_no_sep [of "CHR '',''" "''p='' @ show_nat (pw_parallelism p)"] show_nat_chars(2)
    by simp
  show ?thesis
    unfolding parts using assms
    by (simp add: cut_named parse_uint32_show narrow_params_def zero_params_def)
qed

lemma parse_phc_text:
  assumes "narrow_params p"
  shows "parse_phc (phc_text p salt digest) =
    (if \<not> safe_params p then Inl ''unsafe Argon2id parameters''
     else if length salt < 8 \<or> length salt > 64 then Inl ''invalid Argon2id salt''
     else if length digest < 16 \<or> length digest > 64 then Inl ''invalid Argon2id hash''
     else Inr (p\<lparr>pw_salt_length := 0, pw_key_length := 0\<rparr>, salt, digest))"
proof -
  let ?params = "''m='' @ show_nat (pw_memory p) @ '',t='' @ show_nat (pw_iterations p) @ '',p='' @
    show_nat (pw_parallelism p)"
  have "CHR ''$'' \<notin> set ?params" using show_nat_chars(1) by simp
  then have "split_on (CHR ''$'') (phc_text p salt digest) =
      [[], ''argon2id'', ''v=19'', ?params, encode64 std_alphabet salt, encode64 std_alphabet digest]"
    using split_on_append [of "CHR ''$''" ?params] split_on_append [of "CHR ''$''" "encode64 std_alphabet salt"]
      std_no_dollar
    by (simp add: phc_text_def split_on_no_sep)
  moreover have "safe_params (p\<lparr>pw_salt_length := 0, pw_key_length := 0\<rparr>) \<longleftrightarrow> safe_params p"
    by (simp add: safe_params_def)
  ultimately show ?thesis
    using parse_params_text [OF assms]
    by (simp add: parse_phc_def decode_encode64 std_alphabet_ok)
qed

definition key_lengths_ok :: "argon2 \<Rightarrow> bool" where
  "key_lengths_ok argon \<longleftrightarrow> (\<forall>w s t m p k. length (argon w s t m p k) = k)"

lemma hash_verify:
  assumes "hash_password argon p (Some salt) password = Inr phc" "key_lengths_ok argon"
    and "safe_params p" "length salt = pw_salt_length p" "pw_salt_length p \<le> 64" "pw_key_length p \<le> 64"
  shows "validate_password password = None"
    and "verify_password argon password phc = Inr True"
    and "verify_password argon other phc = Inr (argon other salt (pw_iterations p) (pw_memory p)
      (pw_parallelism p) (pw_key_length p) = argon password salt (pw_iterations p) (pw_memory p)
      (pw_parallelism p) (pw_key_length p))"
proof -
  let ?digest = "argon password salt (pw_iterations p) (pw_memory p) (pw_parallelism p) (pw_key_length p)"
  have phc: "phc = phc_text p salt ?digest" "validate_password password = None" "8 \<le> pw_salt_length p"
      "16 \<le> pw_key_length p"
    using assms(1) by (auto simp: hash_password_def split: option.splits if_splits)
  moreover have len: "length ?digest = pw_key_length p" using assms(2) by (simp add: key_lengths_ok_def)
  moreover have "narrow_params p" using assms(3) by (simp add: safe_params_def narrow_params_def)
  ultimately have "parse_phc phc = Inr (p\<lparr>pw_salt_length := 0, pw_key_length := 0\<rparr>, salt, ?digest)"
    using assms(3-6) by (simp add: parse_phc_text)
  then show "verify_password argon password phc = Inr True"
    and "verify_password argon other phc = Inr (argon other salt (pw_iterations p) (pw_memory p)
      (pw_parallelism p) (pw_key_length p) = ?digest)"
    using len by (auto simp: verify_password_def)
  show "validate_password password = None" by (fact phc(2))
qed

subsection \<open>Properties\<close>

text \<open>
  C34: A stored password verifies: with the parameters the service uses - or any others within the limits
  of \<open>parsePHC\<close> - what \<open>Hash\<close> returns is read back exactly, so \<open>Verify\<close> accepts a
  password just when Argon2 maps it to the stored digest; the hashed password itself always passes.
\<close>

theorem hashed_password_verifies:
  assumes "hash_password argon p (Some salt) password = Inr phc" "key_lengths_ok argon"
    and "safe_params p" "length salt = pw_salt_length p" "pw_salt_length p \<le> 64" "pw_key_length p \<le> 64"
  shows "validate_password password = None \<and> verify_password argon password phc = Inr True
    \<and> verify_password argon other phc = Inr (argon other salt (pw_iterations p) (pw_memory p)
      (pw_parallelism p) (pw_key_length p) = argon password salt (pw_iterations p) (pw_memory p)
      (pw_parallelism p) (pw_key_length p))"
  using hash_verify [OF assms] by simp

lemma default_params_safe:
  "safe_params (default_params cpus)" "pw_salt_length (default_params cpus) = 16"
  "pw_key_length (default_params cpus) = 32"
  by (auto simp: default_params_def safe_params_def Let_def)

definition sample_argon :: argon2 where
  "sample_argon w s t m p k = take k (w @ s @ replicate k (CHR ''.''))"

theorem hashed_password_verifies_witness:
  "\<exists>phc. hash_password sample_argon (default_params 8) (Some ''0123456789abcdef'') ''correct horse battery'' = Inr phc
    \<and> verify_password sample_argon ''correct horse battery'' phc = Inr True
    \<and> verify_password sample_argon ''correct horse batterY'' phc = Inr False"
proof -
  have "validate_password ''correct horse battery'' = None"
    by (simp add: validate_password_def byte_val_def is_space_rune_def)
  then obtain phc where phc: "hash_password sample_argon (default_params 8) (Some ''0123456789abcdef'')
      ''correct horse battery'' = Inr phc"
    by (simp add: hash_password_def default_params_def)
  have "key_lengths_ok sample_argon" by (auto simp: key_lengths_ok_def sample_argon_def min_def)
  note verifies = hashed_password_verifies [OF phc this]
  have "verify_password sample_argon ''correct horse battery'' phc = Inr True"
    using verifies by (simp add: default_params_safe)
  moreover have "sample_argon ''correct horse batterY'' s t m q 32 \<noteq> sample_argon ''correct horse battery'' s t m q 32"
    for s t m q
  proof
    assume "sample_argon ''correct horse batterY'' s t m q 32 = sample_argon ''correct horse battery'' s t m q 32"
    then have "take 21 (sample_argon ''correct horse batterY'' s t m q 32) =
        take 21 (sample_argon ''correct horse battery'' s t m q 32)" by simp
    then show False by (simp add: sample_argon_def)
  qed
  then have "verify_password sample_argon ''correct horse batterY'' phc = Inr False"
    using verifies [of "''correct horse batterY''"] by (simp add: default_params_safe)
  ultimately show ?thesis using phc by blast
qed

text \<open>Outside those limits \<open>Hash\<close> still answers, with a text that \<open>Verify\<close> refuses to read.\<close>

lemma hash_beyond_limits:
  assumes "validate_password password = None" "\<not> safe_params p" "narrow_params p"
    and "8 \<le> pw_memory p" "1 \<le> pw_iterations p" "1 \<le> pw_parallelism p" "8 \<le> pw_salt_length p" "16 \<le> pw_key_length p"
  shows "\<exists>phc. hash_password argon p (Some salt) password = Inr phc
    \<and> verify_password argon password phc = Inl ''unsafe Argon2id parameters''"
  using assms by (auto simp: hash_password_def verify_password_def parse_phc_text not_less)

end
