(* ===== verification/Admin_TOTP.thy ===== *)
theory Admin_TOTP
  imports Identifier HTTP_Text "HOL-Library.Signed_Division"
begin

text \<open>
  \<open>internal/auth/totp.go\<close>: the one-time codes of the administrator.  The code of a secret at a
  Unix time (package \<open>pquerna/otp\<close>, six digits, thirty seconds, SHA-1) is the argument
  \<open>generate\<close>, \<open>None\<close> where it reports an error.
\<close>

definition totp_period :: int where
  "totp_period = 30"

definition unix_seconds :: "nanos \<Rightarrow> int" where
  "unix_seconds t = t div second"

definition totp_alphabet :: string where
  "totp_alphabet = ''ABCDEFGHIJKLMNOPQRSTUVWXYZ234567''"

definition generate_totp_secret :: "string option \<Rightarrow> string option" where
  "generate_totp_secret random = map_option (encode32 totp_alphabet) random"

definition totp_uri :: "string \<Rightarrow> string \<Rightarrow> string" where
  "totp_uri secret account =
     ''otpauth://totp/'' @ path_escape (''Sidervia:'' @ account) @ ''?'' @ encode_query
       [(''secret'', secret), (''issuer'', ''Sidervia''), (''period'', show_int totp_period),
        (''digits'', ''6''), (''algorithm'', ''SHA1'')]"

text \<open>The step a code is accepted at: the current one, the one before, the next one, in this order.\<close>

fun totp_try :: "(string \<Rightarrow> int \<Rightarrow> string option) \<Rightarrow> string \<Rightarrow> string \<Rightarrow> int \<Rightarrow> int list \<Rightarrow> int option" where
  "totp_try generate secret code base [] = None"
| "totp_try generate secret code base (offset # offsets) =
     (case generate secret ((base + offset) * totp_period) of
        None \<Rightarrow> None
      | Some candidate \<Rightarrow>
          if candidate = trim_space code then Some (base + offset)
          else totp_try generate secret code base offsets)"

definition validate_totp ::
  "(string \<Rightarrow> int \<Rightarrow> string option) \<Rightarrow> string \<Rightarrow> string \<Rightarrow> nanos \<Rightarrow> int option"
where
  "validate_totp generate secret code now =
     (if length code \<noteq> 6 then None
      else totp_try generate secret code (unix_seconds now sdiv totp_period) [0, -1, 1])"

lemma totp_try_Some:
  "totp_try generate secret code base offsets = Some step \<Longrightarrow>
    \<exists>offset \<in> set offsets. step = base + offset \<and> generate secret (step * totp_period) = Some (trim_space code)"
  by (induction offsets) (auto split: option.splits if_splits)

text \<open>
  A code is accepted only for a step at most one away from the clock's, and it is that step's code;
  and every code of these three steps is accepted.
\<close>

lemma validate_totp_sound:
  assumes "validate_totp generate secret code now = Some step"
  shows "generate secret (step * totp_period) = Some (trim_space code)"
    "\<bar>step - unix_seconds now sdiv totp_period\<bar> \<le> 1"
proof -
  let ?base = "unix_seconds now sdiv totp_period"
  have "totp_try generate secret code ?base [0, -1, 1] = Some step"
    using assms by (simp add: validate_totp_def split: if_splits)
  from totp_try_Some [OF this] obtain offset where "offset \<in> {0, -1, 1}" "step = ?base + offset"
      "generate secret (step * totp_period) = Some (trim_space code)" by auto
  then show "generate secret (step * totp_period) = Some (trim_space code)" "\<bar>step - ?base\<bar> \<le> 1" by auto
qed

lemma validate_totp_complete:
  assumes "\<forall>offset \<in> {0, -1, 1}. generate secret ((unix_seconds now sdiv totp_period + offset) * totp_period) \<noteq> None"
    and "generate secret (step * totp_period) = Some code" "\<bar>step - unix_seconds now sdiv totp_period\<bar> \<le> 1"
    and "length code = 6" "trim_space code = code"
  shows "validate_totp generate secret code now \<noteq> None"
proof -
  let ?base = "unix_seconds now sdiv totp_period"
  from assms(3) have "step = ?base \<or> step = ?base - 1 \<or> step = ?base + 1" by auto
  with assms show ?thesis by (auto simp: validate_totp_def split: option.split)
qed

end
