(* ===== verification/Admin_Auth.thy ===== *)
theory Admin_Auth
  imports Control Account_Auth Admin_Limiter Admin_Password Admin_TOTP
begin

text \<open>
  \<open>internal/auth/service.go\<close>: the administrator's login, sessions, password and one-time
  codes.  An operation that reads the administrator's row, works on it and then opens a transaction
  is a check of a snapshot and a commit on the tables of the time of the transaction; between the
  two any other request may commit.  The operations of the code are the compositions of the two.
\<close>

subsection \<open>State\<close>

record admin_row =
  ad_password :: string
  ad_totp_secret :: "string option"
  ad_pending_secret :: "string option"
  ad_pending_expires :: "ms option"
  ad_totp_enabled :: bool
  ad_last_step :: "int option"
  ad_session_version :: int
  ad_failed :: int
  ad_locked :: "ms option"
  ad_created :: ms
  ad_updated :: ms

record session_row =
  se_id :: int
  se_public_id :: string
  se_verifier :: string
  se_csrf :: string
  se_version :: int
  se_created :: ms
  se_seen :: ms
  se_idle :: ms
  se_absolute :: ms
  se_ip :: string
  se_agent :: string
  se_revoked :: "ms option"

text \<open>\<open>admin_user\<close> has at most the row with id 1.\<close>

record auth_db = control_db +
  admin_user :: "admin_row option"
  admin_sessions :: "session_row list"

datatype admin_error =
    InvalidCredentials | RateLimited | NoSession | InvalidCSRF | TOTPNotPending | TOTPReplay
  | AdminFailure \<comment> \<open>an error without a sentinel\<close>

record session =
  ss_public :: string
  ss_token :: string
  ss_csrf :: string
  ss_created :: nanos
  ss_idle :: nanos
  ss_absolute :: nanos
  ss_totp :: bool

text \<open>
  What a \<open>Service\<close> is made of: the cipher, Argon2 and its parameters, the digest of tokens, the
  generator of one-time codes, and \<open>ipPrefix\<close> and the keyed digest of session bindings.
\<close>

record auth_service =
  as_cipher :: cipher
  as_argon :: argon2
  as_params :: password_params
  as_sha :: "string \<Rightarrow> string"
  as_code :: "string \<Rightarrow> int \<Rightarrow> string option"
  as_ip_prefix :: "string \<Rightarrow> string"
  as_binding :: "string \<Rightarrow> string"
  as_label :: string

text \<open>
  What one call reads from outside: the clock by call site, the random bytes, and how many slots of
  \<open>passwordWork\<close> other calls hold.
\<close>

record auth_env =
  an_clock :: "nat \<Rightarrow> nanos"
  an_session :: "string option"
  an_token :: "string option"
  an_csrf :: "string option"
  an_csrf_nonce :: "string option"
  an_audit :: "string option"
  an_secret :: "string option"
  an_secret_nonce :: "string option"
  an_salt :: "string option"
  an_busy :: nat

abbreviation session_idle :: nanos where "session_idle \<equiv> 12 * hour"
abbreviation session_absolute :: nanos where "session_absolute \<equiv> 7 * 24 * hour"
abbreviation (input) "password_work_limit \<equiv> (2 :: nat)"

definition acquire_password_work :: "auth_env \<Rightarrow> bool" where
  "acquire_password_work env \<longleftrightarrow> an_busy env < password_work_limit"

subsection \<open>Helpers\<close>

text \<open>An error of a collaborator that no caller tells apart.\<close>

definition plain :: "'e + 'a \<Rightarrow> admin_error + 'a" where
  "plain r = (case r of Inl _ \<Rightarrow> Inl AdminFailure | Inr x \<Rightarrow> Inr x)"

definition random_id :: "'a option \<Rightarrow> admin_error + 'a" where
  "random_id r = (case r of None \<Rightarrow> Inl AdminFailure | Some x \<Rightarrow> Inr x)"

lemma plain_Inr [simp]: "plain r = Inr x \<longleftrightarrow> r = Inr x"
  by (cases r) (auto simp: plain_def)

lemma random_id_Inr [simp]: "random_id r = Inr x \<longleftrightarrow> r = Some x"
  by (cases r) (auto simp: random_id_def)

text \<open>\<open>auditOutcome\<close> of the file: the target is the administrator, and there is no request id.\<close>

definition auth_audit_outcome ::
  "auth_env \<Rightarrow> ms \<Rightarrow> string \<Rightarrow> string \<Rightarrow> string \<Rightarrow> string \<Rightarrow> (string \<times> meta) list
    \<Rightarrow> 'x control_db_scheme \<Rightarrow> admin_error + 'x control_db_scheme"
where
  "auth_audit_outcome env now event kind actor outcome metadata s =
     plain (audit_outcome
       \<lparr>env_clock = an_clock env, env_object = None, env_prefix = None, env_secret = None,
        env_audit = an_audit env\<rparr> now
       \<lparr>actor_kind = kind, actor_id = actor, actor_request = []\<rparr> event ''admin'' ''1'' outcome metadata s)"

abbreviation auth_audit ::
  "auth_env \<Rightarrow> ms \<Rightarrow> string \<Rightarrow> string \<Rightarrow> string \<Rightarrow> (string \<times> meta) list
    \<Rightarrow> 'x control_db_scheme \<Rightarrow> admin_error + 'x control_db_scheme"
where
  "auth_audit env now event kind actor metadata s \<equiv>
     auth_audit_outcome env now event kind actor ''success'' metadata s"

definition limit_string :: "string \<Rightarrow> nat \<Rightarrow> string" where
  "limit_string s n = (if length s \<le> n then s else take n s)"

definition password_from_file :: "string \<Rightarrow> string option" where
  "password_from_file raw =
     (let v = trim_suffix [CHR 0x0D] (trim_suffix [CHR 0x0A] raw) in
      if contains_any v [CHR 0x0D, CHR 0x0A] \<or> validate_password v \<noteq> None then None else Some v)"

definition update_admin :: "(admin_row \<Rightarrow> admin_row) \<Rightarrow> 'x auth_db_scheme \<Rightarrow> 'x auth_db_scheme" where
  "update_admin f s = s\<lparr>admin_user := map_option f (admin_user s)\<rparr>"

text \<open>\<open>UPDATE admin_sessions SET revoked_at_ms = ? WHERE p AND revoked_at_ms IS NULL\<close>.\<close>

definition revoke_sessions :: "(session_row \<Rightarrow> bool) \<Rightarrow> ms \<Rightarrow> 'x auth_db_scheme \<Rightarrow> 'x auth_db_scheme" where
  "revoke_sessions p now s =
     s\<lparr>admin_sessions := update_where (\<lambda>r. p r \<and> se_revoked r = None)
         (\<lambda>r. r\<lparr>se_revoked := Some now\<rparr>) (admin_sessions s)\<rparr>"

subsection \<open>Sessions\<close>

definition new_session_row ::
  "auth_service \<Rightarrow> int \<Rightarrow> string \<Rightarrow> string \<Rightarrow> string \<Rightarrow> int \<Rightarrow> string \<Rightarrow> string \<Rightarrow> nanos \<Rightarrow> session_row"
where
  "new_session_row svc row_id pid raw csrf_enc version client_ip user_agent now =
     \<lparr>se_id = row_id, se_public_id = pid, se_verifier = as_sha svc raw, se_csrf = csrf_enc,
      se_version = version, se_created = unix_milli now, se_seen = unix_milli now,
      se_idle = unix_milli (now + session_idle), se_absolute = unix_milli (now + session_absolute),
      se_ip = as_binding svc (as_ip_prefix svc client_ip),
      se_agent = as_binding svc (limit_string user_agent 512), se_revoked = None\<rparr>"

definition insert_session ::
  "auth_service \<Rightarrow> auth_env \<Rightarrow> int \<Rightarrow> bool \<Rightarrow> string \<Rightarrow> string \<Rightarrow> nanos \<Rightarrow> 'x auth_db_scheme
    \<Rightarrow> admin_error + (session \<times> 'x auth_db_scheme)"
where
  "insert_session svc env version totp client_ip user_agent now s =
     and_then (random_id (object_id ''sess'' (an_session env))) (\<lambda>pid.
     and_then (random_id (token_text (an_token env))) (\<lambda>token.
     and_then (random_id (token_text (an_csrf env))) (\<lambda>csrf.
     and_then (plain (seal (as_cipher svc) (an_csrf_nonce env) csrf (aad ''admin_sessions'' pid ''csrf_token_enc'')))
       (\<lambda>csrf_enc.
       if pid \<in> se_public_id ` set (admin_sessions s) \<or> as_sha svc token \<in> se_verifier ` set (admin_sessions s)
       then Inl AdminFailure
       else Inr
         (\<lparr>ss_public = pid, ss_token = token, ss_csrf = csrf, ss_created = now, ss_idle = now + session_idle,
           ss_absolute = now + session_absolute, ss_totp = totp\<rparr>,
          s\<lparr>admin_sessions := admin_sessions s @
            [new_session_row svc (next_id se_id (admin_sessions s)) pid token csrf_enc version client_ip
               user_agent now]\<rparr>)))))"

text \<open>\<open>Authenticate\<close>: the tables change on an expired session and when the session is touched.\<close>

definition authenticate_session ::
  "auth_service \<Rightarrow> string \<Rightarrow> nanos \<Rightarrow> 'x auth_db_scheme \<Rightarrow> 'x auth_db_scheme \<times> (admin_error + session)"
where
  "authenticate_session svc raw now s =
     (if raw = [] then (s, Inl NoSession)
      else
        (case (row_by se_verifier (as_sha svc raw) (admin_sessions s), admin_user s) of
           (Some r, Some a) \<Rightarrow>
             if se_revoked r \<noteq> None \<or> se_version r \<noteq> ad_session_version a then (s, Inl NoSession)
             else if se_idle r \<le> unix_milli now \<or> se_absolute r \<le> unix_milli now
             then (revoke_sessions (\<lambda>x. se_public_id x = se_public_id r) (unix_milli now) s, Inl NoSession)
             else
               (case open_envelope (as_cipher svc) (se_csrf r)
                   (aad ''admin_sessions'' (se_public_id r) ''csrf_token_enc'') of
                  Inl _ \<Rightarrow> (s, Inl NoSession)
                | Inr csrf \<Rightarrow>
                    let due = (5 * 60 * 1000 \<le> unix_milli now - se_seen r);
                        idle = unix_milli (min (now + session_idle) (se_absolute r * millisecond));
                        s1 = (if due then s\<lparr>admin_sessions :=
                                update_where (\<lambda>x. se_public_id x = se_public_id r \<and> se_revoked x = None)
                                  (\<lambda>x. x\<lparr>se_seen := unix_milli now, se_idle := idle\<rparr>) (admin_sessions s)\<rparr>
                              else s) in
                    (s1, Inr \<lparr>ss_public = se_public_id r, ss_token = raw, ss_csrf = csrf,
                           ss_created = se_created r * millisecond,
                           ss_idle = (if due then idle else se_idle r) * millisecond,
                           ss_absolute = se_absolute r * millisecond, ss_totp = ad_totp_enabled a\<rparr>))
         | _ \<Rightarrow> (s, Inl NoSession)))"

definition validate_csrf :: "session \<Rightarrow> string \<Rightarrow> admin_error option" where
  "validate_csrf session v = (if v = [] \<or> ss_csrf session \<noteq> v then Some InvalidCSRF else None)"

definition logout ::
  "auth_env \<Rightarrow> session \<Rightarrow> 'x auth_db_scheme \<Rightarrow> admin_error + 'x auth_db_scheme"
where
  "logout env session s =
     auth_audit env (unix_milli (an_clock env 1)) ''admin.logout'' ''admin_session'' (ss_public session) []
       (revoke_sessions (\<lambda>r. se_public_id r = ss_public session) (unix_milli (an_clock env 0)) s)"

subsection \<open>Login\<close>

definition lock_delay :: "int \<Rightarrow> nanos" where
  "lock_delay failures =
     (let delay = 30 * second * 2 ^ nat (min (failures - 5) 9) in
      if delay > 15 * minute then 15 * minute else delay)"

definition record_login_failure ::
  "auth_env \<Rightarrow> nanos \<Rightarrow> 'x auth_db_scheme \<Rightarrow> admin_error + 'x auth_db_scheme"
where
  "record_login_failure env now s =
     (case admin_user s of
        None \<Rightarrow> Inl AdminFailure
      | Some a \<Rightarrow>
          let next = ad_failed a + 1;
              locked = (if 5 \<le> next then Some (unix_milli (now + lock_delay next)) else None) in
          auth_audit_outcome env (unix_milli (an_clock env 1)) ''admin.login_failed'' ''anonymous'' [] ''failure''
            [(''rate_limit_applied'', MetaFlag (locked \<noteq> None))]
            (update_admin (\<lambda>a. a\<lparr>ad_failed := next, ad_locked := locked, ad_updated := unix_milli now\<rparr>) s))"

text \<open>A refused login: the failure is recorded, or the error of recording it is returned.\<close>

definition refuse_login ::
  "auth_env \<Rightarrow> nanos \<Rightarrow> 'x auth_db_scheme \<Rightarrow> 'x auth_db_scheme \<times> (admin_error + 'a)"
where
  "refuse_login env now s =
     (case record_login_failure env now s of
        Inl e \<Rightarrow> (s, Inl e)
      | Inr t \<Rightarrow> (t, Inl InvalidCredentials))"

text \<open>The snapshot of the administrator and the accepted step, if a code was asked for.\<close>

definition check_login ::
  "auth_service \<Rightarrow> auth_env \<Rightarrow> string \<Rightarrow> string \<Rightarrow> string \<Rightarrow> limiter \<Rightarrow> 'x auth_db_scheme
    \<Rightarrow> limiter \<times> 'x auth_db_scheme \<times> (admin_error + admin_row \<times> int option)"
where
  "check_login svc env password code client_ip l s =
     (let now = an_clock env 0 in
      if \<not> acquire_password_work env then (l, s, Inl RateLimited)
      else
        (case allow client_ip now l of
           (l, ok) \<Rightarrow>
             if \<not> ok then (l, s, Inl RateLimited)
             else
               (l, case admin_user s of
                  None \<Rightarrow> (s, Inl InvalidCredentials)
                | Some a \<Rightarrow>
                    if (case ad_locked a of None \<Rightarrow> False | Some t \<Rightarrow> unix_milli now < t) then (s, Inl RateLimited)
                    else if verify_password (as_argon svc) password (ad_password a) \<noteq> Inr True
                    then refuse_login env now s
                    else if \<not> ad_totp_enabled a then (s, Inr (a, None))
                    else
                      (case open_envelope (as_cipher svc) (sealed (ad_totp_secret a))
                          (aad ''admin_user'' ''1'' ''totp_secret_enc'') of
                         Inl _ \<Rightarrow> (s, Inl InvalidCredentials)
                       | Inr secret \<Rightarrow>
                           (case validate_totp (as_code svc) secret code now of
                              None \<Rightarrow> refuse_login env now s
                            | Some step \<Rightarrow> (s, Inr (a, Some step)))))))"

definition accept_step :: "int option \<Rightarrow> ms \<Rightarrow> 'x auth_db_scheme \<Rightarrow> admin_error + 'x auth_db_scheme" where
  "accept_step step now s =
     (case step of
        None \<Rightarrow> Inr s
      | Some n \<Rightarrow>
          (case admin_user s of
             None \<Rightarrow> Inl TOTPReplay
           | Some a \<Rightarrow>
               if (case ad_last_step a of None \<Rightarrow> True | Some u \<Rightarrow> u < n)
               then Inr (update_admin (\<lambda>a. a\<lparr>ad_last_step := Some n, ad_updated := now\<rparr>) s)
               else Inl TOTPReplay))"

text \<open>The transaction of a login whose checks have passed.\<close>

definition commit_login ::
  "auth_service \<Rightarrow> auth_env \<Rightarrow> admin_row \<Rightarrow> int option \<Rightarrow> string \<Rightarrow> string \<Rightarrow> 'x auth_db_scheme
    \<Rightarrow> admin_error + (session \<times> 'x auth_db_scheme)"
where
  "commit_login svc env admin step client_ip user_agent s =
     (let now = an_clock env 0 in
      and_then (accept_step step (unix_milli now) s) (\<lambda>s1.
      and_then (insert_session svc env (ad_session_version admin) (ad_totp_enabled admin) client_ip user_agent now
          (update_admin (\<lambda>a. a\<lparr>ad_failed := 0, ad_locked := None, ad_updated := unix_milli now\<rparr>) s1))
        (\<lambda>(session, s2).
      and_then (auth_audit env (unix_milli (an_clock env 1)) ''admin.login_succeeded'' ''admin_session''
          (ss_public session) [(''totp_enabled'', MetaFlag (ad_totp_enabled admin))] s2) (\<lambda>t.
        Inr (session, t)))))"

definition login ::
  "auth_service \<Rightarrow> auth_env \<Rightarrow> string \<Rightarrow> string \<Rightarrow> string \<Rightarrow> string \<Rightarrow> limiter \<Rightarrow> 'x auth_db_scheme
    \<Rightarrow> limiter \<times> 'x auth_db_scheme \<times> (admin_error + session)"
where
  "login svc env password code client_ip user_agent l s =
     (case check_login svc env password code client_ip l s of
        (l, s, Inl e) \<Rightarrow> (l, s, Inl e)
      | (l, s, Inr (admin, step)) \<Rightarrow>
          (case commit_login svc env admin step client_ip user_agent s of
             Inl e \<Rightarrow> (l, s, Inl e)
           | Inr (session, t) \<Rightarrow> (l, t, Inr session)))"

subsection \<open>Changes that end every session\<close>

definition update_and_rotate ::
  "auth_service \<Rightarrow> auth_env \<Rightarrow> nanos \<Rightarrow> ms \<Rightarrow> session \<Rightarrow> string \<Rightarrow> string \<Rightarrow> string
    \<Rightarrow> (int \<Rightarrow> ms \<Rightarrow> 'x auth_db_scheme \<Rightarrow> admin_error + 'x auth_db_scheme) \<Rightarrow> 'x auth_db_scheme
    \<Rightarrow> admin_error + (session \<times> 'x auth_db_scheme)"
where
  "update_and_rotate svc env now audit_now current client_ip user_agent event change s =
     (case admin_user s of
        None \<Rightarrow> Inl AdminFailure
      | Some a \<Rightarrow>
          let version = ad_session_version a + 1; ms = unix_milli now in
          and_then (change version ms s) (\<lambda>s1.
          let s2 = revoke_sessions (\<lambda>r. se_public_id r \<noteq> ss_public current) ms s1;
              s3 = revoke_sessions (\<lambda>r. se_public_id r = ss_public current) ms s2 in
          and_then (insert_session svc env version False client_ip user_agent now s3) (\<lambda>(rotated, s4).
          (case admin_user s4 of
             None \<Rightarrow> Inl AdminFailure
           | Some b \<Rightarrow>
               let rotated = rotated\<lparr>ss_totp := ad_totp_enabled b\<rparr> in
               and_then (auth_audit env audit_now event ''admin_session'' (ss_public rotated)
                   [(''sessions_rotated'', MetaFlag True)] s4) (\<lambda>t. Inr (rotated, t))))))"

text \<open>An \<open>UPDATE admin_user ... WHERE id = 1 AND p\<close> that must change the row.\<close>

definition guarded_update ::
  "admin_error \<Rightarrow> (admin_row \<Rightarrow> bool) \<Rightarrow> (admin_row \<Rightarrow> admin_row) \<Rightarrow> 'x auth_db_scheme
    \<Rightarrow> admin_error + 'x auth_db_scheme"
where
  "guarded_update err p f s =
     (case admin_user s of
        None \<Rightarrow> Inl err
      | Some a \<Rightarrow> if p a then Inr (update_admin f s) else Inl err)"

definition check_password :: "auth_service \<Rightarrow> auth_env \<Rightarrow> string \<Rightarrow> admin_row \<Rightarrow> admin_error option" where
  "check_password svc env password admin =
     (if \<not> acquire_password_work env then Some RateLimited
      else if verify_password (as_argon svc) password (ad_password admin) = Inr True then None
      else Some InvalidCredentials)"

definition setup_totp ::
  "auth_service \<Rightarrow> auth_env \<Rightarrow> session \<Rightarrow> string \<Rightarrow> admin_row option \<Rightarrow> 'x auth_db_scheme
    \<Rightarrow> admin_error + ((string \<times> string \<times> nanos) \<times> 'x auth_db_scheme)"
where
  "setup_totp svc env session password snapshot s =
     (case snapshot of
        None \<Rightarrow> Inl NoSession
      | Some admin \<Rightarrow>
          (case check_password svc env password admin of
             Some e \<Rightarrow> Inl e
           | None \<Rightarrow>
               and_then (random_id (generate_totp_secret (an_secret env))) (\<lambda>secret.
               and_then (plain (seal (as_cipher svc) (an_secret_nonce env) secret
                   (aad ''admin_user'' ''1'' ''totp_pending_secret_enc''))) (\<lambda>enc.
               let expires = an_clock env 0 + 10 * minute in
               and_then (auth_audit env (unix_milli (an_clock env 2)) ''admin.totp_setup_started'' ''admin_session''
                   (ss_public session) []
                   (update_admin (\<lambda>a. a\<lparr>ad_pending_secret := Some enc,
                      ad_pending_expires := Some (unix_milli expires),
                      ad_updated := unix_milli (an_clock env 1)\<rparr>) s)) (\<lambda>t.
               Inr ((secret, totp_uri secret (as_label svc), expires), t))))))"

text \<open>The guards and the assignments of the three \<open>UPDATE\<close>s.\<close>

definition still_pending :: "admin_row \<Rightarrow> int \<Rightarrow> ms \<Rightarrow> admin_row \<Rightarrow> bool" where
  "still_pending admin version now a \<longleftrightarrow> ad_pending_secret a = ad_pending_secret admin
     \<and> (case ad_pending_expires a of None \<Rightarrow> False | Some t \<Rightarrow> now < t)
     \<and> ad_session_version a = version - 1"

definition confirmed_totp :: "string \<Rightarrow> int \<Rightarrow> int \<Rightarrow> ms \<Rightarrow> admin_row \<Rightarrow> admin_row" where
  "confirmed_totp enc step version now a =
     a\<lparr>ad_totp_secret := Some enc, ad_pending_secret := None, ad_pending_expires := None, ad_totp_enabled := True,
       ad_last_step := Some step, ad_session_version := version, ad_updated := now\<rparr>"

definition still_enrolled :: "admin_row \<Rightarrow> int \<Rightarrow> admin_row \<Rightarrow> bool" where
  "still_enrolled admin version a \<longleftrightarrow> ad_totp_enabled a \<and> ad_totp_secret a = ad_totp_secret admin
     \<and> ad_session_version a = version - 1"

definition disabled_totp :: "int \<Rightarrow> ms \<Rightarrow> admin_row \<Rightarrow> admin_row" where
  "disabled_totp version now a =
     a\<lparr>ad_totp_secret := None, ad_pending_secret := None, ad_pending_expires := None, ad_totp_enabled := False,
       ad_last_step := None, ad_session_version := version, ad_updated := now\<rparr>"

definition same_password :: "admin_row \<Rightarrow> int \<Rightarrow> admin_row \<Rightarrow> bool" where
  "same_password admin version a \<longleftrightarrow>
     ad_password a = ad_password admin \<and> ad_session_version a = version - 1"

definition changed_password :: "string \<Rightarrow> int \<Rightarrow> ms \<Rightarrow> admin_row \<Rightarrow> admin_row" where
  "changed_password phc version now a =
     a\<lparr>ad_password := phc, ad_session_version := version, ad_updated := now\<rparr>"

definition confirm_totp ::
  "auth_service \<Rightarrow> auth_env \<Rightarrow> session \<Rightarrow> string \<Rightarrow> string \<Rightarrow> string \<Rightarrow> admin_row option
    \<Rightarrow> 'x auth_db_scheme \<Rightarrow> admin_error + (session \<times> 'x auth_db_scheme)"
where
  "confirm_totp svc env session code client_ip user_agent snapshot s =
     (case snapshot of
        None \<Rightarrow> Inl TOTPNotPending
      | Some admin \<Rightarrow>
          if sealed (ad_pending_secret admin) = []
             \<or> (case ad_pending_expires admin of None \<Rightarrow> True | Some t \<Rightarrow> t \<le> unix_milli (an_clock env 0))
          then Inl TOTPNotPending
          else
            (case open_envelope (as_cipher svc) (sealed (ad_pending_secret admin))
                (aad ''admin_user'' ''1'' ''totp_pending_secret_enc'') of
               Inl _ \<Rightarrow> Inl TOTPNotPending
             | Inr secret \<Rightarrow>
                 (case validate_totp (as_code svc) secret code (an_clock env 1) of
                    None \<Rightarrow> Inl InvalidCredentials
                  | Some step \<Rightarrow>
                      and_then (plain (seal (as_cipher svc) (an_secret_nonce env) secret
                          (aad ''admin_user'' ''1'' ''totp_secret_enc''))) (\<lambda>enc.
                      update_and_rotate svc env (an_clock env 2) (unix_milli (an_clock env 3)) session client_ip
                        user_agent ''admin.totp_enabled'' (\<lambda>version now.
                          guarded_update TOTPNotPending (still_pending admin version now)
                            (confirmed_totp enc step version now)) s))))"

definition disable_totp ::
  "auth_service \<Rightarrow> auth_env \<Rightarrow> session \<Rightarrow> string \<Rightarrow> string \<Rightarrow> string \<Rightarrow> string \<Rightarrow> admin_row option
    \<Rightarrow> 'x auth_db_scheme \<Rightarrow> admin_error + (session \<times> 'x auth_db_scheme)"
where
  "disable_totp svc env session password code client_ip user_agent snapshot s =
     (case snapshot of
        None \<Rightarrow> Inl InvalidCredentials
      | Some admin \<Rightarrow>
          if \<not> ad_totp_enabled admin then Inl InvalidCredentials
          else
            (case check_password svc env password admin of
               Some e \<Rightarrow> Inl e
             | None \<Rightarrow>
                 (case open_envelope (as_cipher svc) (sealed (ad_totp_secret admin))
                     (aad ''admin_user'' ''1'' ''totp_secret_enc'') of
                    Inl _ \<Rightarrow> Inl InvalidCredentials
                  | Inr secret \<Rightarrow>
                      (case validate_totp (as_code svc) secret code (an_clock env 0) of
                         None \<Rightarrow> Inl InvalidCredentials
                       | Some step \<Rightarrow>
                           if (case ad_last_step admin of None \<Rightarrow> False | Some u \<Rightarrow> step \<le> u)
                           then Inl InvalidCredentials
                           else
                             update_and_rotate svc env (an_clock env 1) (unix_milli (an_clock env 2)) session client_ip
                               user_agent ''admin.totp_disabled'' (\<lambda>version now.
                                 guarded_update TOTPReplay (still_enrolled admin version)
                                   (disabled_totp version now)) s))))"

definition change_password ::
  "auth_service \<Rightarrow> auth_env \<Rightarrow> session \<Rightarrow> string \<Rightarrow> string \<Rightarrow> string \<Rightarrow> string \<Rightarrow> admin_row option
    \<Rightarrow> 'x auth_db_scheme \<Rightarrow> admin_error + (session \<times> 'x auth_db_scheme)"
where
  "change_password svc env session current next_password client_ip user_agent snapshot s =
     (case snapshot of
        None \<Rightarrow> Inl NoSession
      | Some admin \<Rightarrow>
          (case check_password svc env current admin of
             Some e \<Rightarrow> Inl e
           | None \<Rightarrow>
               and_then (plain (hash_password (as_argon svc) (as_params svc) (an_salt env) next_password)) (\<lambda>phc.
               update_and_rotate svc env (an_clock env 0) (unix_milli (an_clock env 1)) session client_ip user_agent
                 ''admin.password_changed'' (\<lambda>version now.
                   guarded_update InvalidCredentials (same_password admin version)
                     (changed_password phc version now)) s)))"

subsection \<open>Commands of the operator\<close>

text \<open>\<open>file\<close> is what \<open>securefile.Read\<close> yields.\<close>

definition bootstrap ::
  "auth_service \<Rightarrow> auth_env \<Rightarrow> string \<Rightarrow> string option \<Rightarrow> 'x auth_db_scheme
    \<Rightarrow> 'x auth_db_scheme \<Rightarrow> admin_error + (bool \<times> 'x auth_db_scheme)"
where
  "bootstrap svc env path file seen s =
     (if admin_user seen \<noteq> None then Inr (False, s)
      else if path = [] then Inl AdminFailure
      else
        and_then (random_id (Option.bind file password_from_file)) (\<lambda>password.
        and_then (plain (hash_password (as_argon svc) (as_params svc) (an_salt env) password)) (\<lambda>phc.
        let now = unix_milli (an_clock env 0) in
        if admin_user s \<noteq> None then Inl AdminFailure
        else
          and_then (auth_audit env (unix_milli (an_clock env 1)) ''admin.bootstrapped'' ''local_admin'' []
              [(''totp_enabled'', MetaFlag False)]
              (s\<lparr>admin_user := Some \<lparr>ad_password = phc, ad_totp_secret = None, ad_pending_secret = None,
                 ad_pending_expires = None, ad_totp_enabled = False, ad_last_step = None,
                 ad_session_version = 1, ad_failed = 0, ad_locked = None, ad_created = now,
                 ad_updated = now\<rparr>\<rparr>)) (\<lambda>t. Inr (True, t)))))"

definition reset_admin :: "bool \<Rightarrow> string \<Rightarrow> ms \<Rightarrow> admin_row \<Rightarrow> admin_row" where
  "reset_admin disable phc now a =
     (let b = a\<lparr>ad_password := phc, ad_session_version := ad_session_version a + 1, ad_failed := 0,
              ad_locked := None, ad_updated := now\<rparr> in
      if disable
      then b\<lparr>ad_totp_secret := None, ad_pending_secret := None, ad_pending_expires := None,
             ad_totp_enabled := False, ad_last_step := None\<rparr>
      else b)"

definition reset_password ::
  "auth_service \<Rightarrow> auth_env \<Rightarrow> string option \<Rightarrow> bool \<Rightarrow> 'x auth_db_scheme \<Rightarrow> admin_error + 'x auth_db_scheme"
where
  "reset_password svc env file disable s =
     and_then (random_id (Option.bind file password_from_file)) (\<lambda>password.
     and_then (plain (hash_password (as_argon svc) (as_params svc) (an_salt env) password)) (\<lambda>phc.
     let now = unix_milli (an_clock env 0) in
     and_then (guarded_update AdminFailure (\<lambda>_. True) (reset_admin disable phc now) s) (\<lambda>s1.
       auth_audit env (unix_milli (an_clock env 1)) ''admin.password_reset'' ''local_admin'' []
         [(''totp_disabled'', MetaFlag disable)] (revoke_sessions (\<lambda>_. True) now s1))))"

end
