(* ===== verification/OAuth_Attempts.thy ===== *)
theory OAuth_Attempts
  imports OAuth_Refresh Admin_Auth
begin

text \<open>
  \<open>internal/oauth/attempt.go\<close> and the completion of \<open>token.go\<close>: an authorization attempt from
  its creation for an administrator's session to the account it connects.  Completing an attempt is
  a claim, the calls to Google and a commit, each on the tables of its own time.
\<close>

subsection \<open>Fingerprint and address\<close>

definition hex_encode :: "string \<Rightarrow> string" where
  "hex_encode s = concat (map (\<lambda>c. [hex_digit (byte_val c div 16), hex_digit (byte_val c mod 16)]) s)"

definition state_verifier :: "oauth_service \<Rightarrow> string \<Rightarrow> string" where
  "state_verifier svc v = hex_encode (os_sha256 svc v)"

definition proxy_mark :: "proxy option \<Rightarrow> string" where
  "proxy_mark p =
     (case p of None \<Rightarrow> ''direct'' | Some x \<Rightarrow> proxy_public_id x @ '':'' @ show_int (proxy_version x))"

definition fingerprint_text :: "candidate \<Rightarrow> string" where
  "fingerprint_text c =
     join_with '':'' [''v1'', account_public c, show_int (account_version c), upstream_public c,
       show_int (upstream_version c), proxy_mark (cand_proxy c)]"

definition egress_fingerprint :: "oauth_service \<Rightarrow> candidate \<Rightarrow> string" where
  "egress_fingerprint svc c = hex_encode (os_sha256 svc (fingerprint_text c))"

definition google_authorization_url :: "oauth_service \<Rightarrow> string \<Rightarrow> string \<Rightarrow> string \<Rightarrow> string list \<Rightarrow> string" where
  "google_authorization_url svc client state pkce vs =
     ''https://accounts.google.com/o/oauth2/v2/auth?'' @ encode_query
       [(''client_id'', client), (''redirect_uri'', redirect_uri svc), (''response_type'', ''code''),
        (''scope'', join_with '' '' vs), (''state'', state),
        (''code_challenge'', base64_encode (os_sha256 svc pkce)), (''code_challenge_method'', ''S256''),
        (''access_type'', ''offline''), (''prompt'', ''consent'')]"

subsection \<open>Creating, reading and cancelling\<close>

abbreviation attempt_ttl :: nanos where "attempt_ttl \<equiv> 10 * minute"

record oauth_attempt =
  at_id :: string
  at_account :: string
  at_status :: string
  at_url :: string
  at_expires :: ms
  at_created :: ms

text \<open>The random texts of an attempt, besides the environment of its audit row.\<close>

record attempt_random =
  ar_state :: "string option"
  ar_pkce :: "string option"
  ar_object :: "string option"
  ar_nonce :: "string option"

text \<open>A session of the administrator that is alive now.\<close>

definition live_session :: "int \<Rightarrow> ms \<Rightarrow> session_row \<Rightarrow> bool" where
  "live_session version now r \<longleftrightarrow> se_revoked r = None \<and> se_version r = version \<and> now < se_idle r \<and> now < se_absolute r"

definition find_live_session :: "string \<Rightarrow> ms \<Rightarrow> 'x auth_db_scheme \<Rightarrow> session_row option" where
  "find_live_session pid now s =
     (case admin_user s of
        None \<Rightarrow> None
      | Some a \<Rightarrow>
          find (\<lambda>r. se_public_id r = pid \<and> live_session (ad_session_version a) now r) (admin_sessions s))"

definition attempt_account_ok :: "account_config \<Rightarrow> oauth_error option" where
  "attempt_account_ok cfg =
     (let c = cfg_candidate cfg in
      if provider_id c \<noteq> ''google'' \<or> auth_kind c \<noteq> ''oauth''
      then Some (OAuthControl (Validation ''account_id'' ''must identify a Google OAuth account''))
      else if cfg_status cfg \<in> {''disabled'', ''validating'', ''active''}
      then Some (OAuthControl (Validation ''account_id'' ''account is not awaiting OAuth authorization''))
      else None)"

definition new_attempt ::
  "string \<Rightarrow> int \<Rightarrow> int \<Rightarrow> string \<Rightarrow> string \<Rightarrow> string \<Rightarrow> nanos \<Rightarrow> attempt_row list \<Rightarrow> attempt_row list"
where
  "new_attempt pid session account verifier pkce_enc fingerprint now rows =
     rows @ [\<lparr>oa_id = next_id oa_id rows, oa_public_id = pid, oa_session_id = session, oa_account_id = account,
              oa_state = verifier, oa_pkce_enc = pkce_enc, oa_fingerprint = fingerprint, oa_status = ''pending'',
              oa_created = unix_milli now, oa_expires = unix_milli (now + attempt_ttl), oa_consumed = None\<rparr>]"

text \<open>The transaction: of the pending attempts of an account only the new one stays.\<close>

definition insert_attempt ::
  "oauth_service \<Rightarrow> environment \<Rightarrow> actor \<Rightarrow> string \<Rightarrow> string \<Rightarrow> candidate \<Rightarrow> string \<Rightarrow> string \<Rightarrow> string \<Rightarrow> nanos
    \<Rightarrow> 'x auth_db_scheme \<Rightarrow> oauth_error + 'x auth_db_scheme"
where
  "insert_attempt svc env who session account c pid verifier pkce_enc now s =
     (case find_live_session session (unix_milli now) s of
        None \<Rightarrow> Inl (OAuthCode ''admin_session_expired'')
      | Some se \<Rightarrow>
          (case find (\<lambda>r. at_version account (account_version c) r \<and> ac_auth_kind r = ''oauth'') (accounts s) of
             None \<Rightarrow> Inl (OAuthControl VersionConflict)
           | Some a \<Rightarrow>
               if list_ex (\<lambda>r. oa_account_id r = ac_id a \<and> oa_status r = ''exchanging'' \<and> unix_milli now < oa_expires r)
                    (oauth_attempts s)
               then Inl (OAuthControl Conflict)
               else
                 let rows = update_where (\<lambda>r. oa_account_id r = ac_id a \<and> oa_status r = ''pending'')
                       (\<lambda>r. r\<lparr>oa_status := ''cancelled'', oa_consumed := Some (unix_milli now)\<rparr>) (oauth_attempts s) in
                 if pid \<in> oa_public_id ` set rows \<or> verifier \<in> oa_state ` set rows then Inl OAuthFailure
                 else
                   control_part (audit env (unix_milli (env_clock env 1)) who ''oauth_attempt.created''
                     ''oauth_attempt'' pid [(''provider_id'', MetaText ''google''), (''account_id'', MetaText account)]
                     (s\<lparr>oauth_attempts := new_attempt pid (se_id se) (ac_id a) verifier pkce_enc
                          (egress_fingerprint svc c) now rows\<rparr>))))"

definition pkce_aad :: "string \<Rightarrow> string" where
  "pkce_aad pid = aad ''oauth_attempts'' pid ''pkce_verifier_enc''"

definition load_for_attempt :: "oauth_service \<Rightarrow> string \<Rightarrow> 'x db_scheme \<Rightarrow> oauth_error + account_config" where
  "load_for_attempt svc account s =
     (case load_account (os_cipher svc) (os_scan svc) s account of
        Inl NoRows \<Rightarrow> Inl (OAuthControl NotFound)
      | Inl (LoadFailed _) \<Rightarrow> Inl OAuthFailure
      | Inr cfg \<Rightarrow> (case attempt_account_ok cfg of Some e \<Rightarrow> Inl e | None \<Rightarrow> Inr cfg))"

definition coded :: "oauth_error \<Rightarrow> 'a option \<Rightarrow> oauth_error + 'a" where
  "coded e r = (case r of None \<Rightarrow> Inl e | Some x \<Rightarrow> Inr x)"

lemma coded_Inr [simp]: "coded e r = Inr x \<longleftrightarrow> r = Some x"
  by (cases r) (auto simp: coded_def)

definition create_attempt ::
  "oauth_service \<Rightarrow> attempt_random \<Rightarrow> environment \<Rightarrow> actor \<Rightarrow> string \<Rightarrow> string \<Rightarrow> 'x auth_db_scheme
    \<Rightarrow> oauth_error + (oauth_attempt \<times> 'x auth_db_scheme)"
where
  "create_attempt svc rand env who session account s =
     (if session = [] \<or> account = [] then Inl (OAuthCode ''invalid_request'')
      else
        and_then (load_google_config_secret svc s) (\<lambda>(config, secret).
        if \<not> gc_enabled config then Inl (OAuthCode ''oauth_not_configured'')
        else
          and_then (load_for_attempt svc account s) (\<lambda>cfg.
          and_then (coded OAuthFailure (token_text (ar_state rand))) (\<lambda>state.
          and_then (coded OAuthFailure (token_text (ar_pkce rand))) (\<lambda>pkce.
          and_then (coded OAuthFailure (object_id ''oauth'' (ar_object rand))) (\<lambda>pid.
          and_then (case seal (os_cipher svc) (ar_nonce rand) pkce (pkce_aad pid) of
                      Inl _ \<Rightarrow> Inl OAuthFailure | Inr e \<Rightarrow> Inr e) (\<lambda>pkce_enc.
          let now = env_clock env 0 in
          and_then (insert_attempt svc env who session account (cfg_candidate cfg) pid (state_verifier svc state)
              pkce_enc now s) (\<lambda>t.
            Inr (\<lparr>at_id = pid, at_account = account, at_status = ''pending'',
                  at_url = google_authorization_url svc (gc_client_id config) state pkce (gc_scopes config),
                  at_expires = unix_milli (now + attempt_ttl), at_created = unix_milli now\<rparr>, t)))))))))"

definition session_public_of :: "'x auth_db_scheme \<Rightarrow> int \<Rightarrow> string option" where
  "session_public_of s i = map_option se_public_id (row_by se_id i (admin_sessions s))"

definition get_attempt :: "string \<Rightarrow> string \<Rightarrow> 'x auth_db_scheme \<Rightarrow> oauth_error + oauth_attempt" where
  "get_attempt session pid s =
     (case find (\<lambda>r. oa_public_id r = pid \<and> session_public_of s (oa_session_id r) = Some session) (oauth_attempts s) of
        None \<Rightarrow> Inl (OAuthControl NotFound)
      | Some r \<Rightarrow>
          (case row_by ac_id (oa_account_id r) (accounts s) of
             None \<Rightarrow> Inl (OAuthControl NotFound)
           | Some a \<Rightarrow>
               Inr \<lparr>at_id = oa_public_id r, at_account = ac_public_id a, at_status = oa_status r, at_url = [],
                    at_expires = oa_expires r, at_created = oa_created r\<rparr>))"

definition cancellable :: "'x auth_db_scheme \<Rightarrow> string \<Rightarrow> string \<Rightarrow> attempt_row \<Rightarrow> bool" where
  "cancellable s session pid r \<longleftrightarrow> oa_public_id r = pid \<and> oa_status r = ''pending''
     \<and> Some (oa_session_id r) = map_option se_id (row_by se_public_id session (admin_sessions s))"

definition cancel_attempt ::
  "environment \<Rightarrow> actor \<Rightarrow> string \<Rightarrow> string \<Rightarrow> 'x auth_db_scheme \<Rightarrow> oauth_error + 'x auth_db_scheme"
where
  "cancel_attempt env who session pid s =
     (if length (filter (cancellable s session pid) (oauth_attempts s)) \<noteq> 1 then Inl (OAuthControl NotFound)
      else
        control_part (audit env (unix_milli (env_clock env 1)) who ''oauth_attempt.cancelled'' ''oauth_attempt'' pid []
          (s\<lparr>oauth_attempts := update_where (cancellable s session pid)
              (\<lambda>r. r\<lparr>oa_status := ''cancelled'', oa_consumed := Some (unix_milli (env_clock env 0))\<rparr>)
              (oauth_attempts s)\<rparr>)))"

subsection \<open>Claiming\<close>

record claimed_attempt =
  cl_public :: string
  cl_account :: string
  cl_session :: string
  cl_version :: int
  cl_pkce :: string
  cl_fingerprint :: string
  cl_client :: string
  cl_secret :: string
  cl_project :: string
  cl_scopes :: "string list"
  cl_candidate :: candidate

definition safe_state :: "string \<Rightarrow> bool" where
  "safe_state v \<longleftrightarrow> v \<noteq> [] \<and> length v \<le> 1024 \<and> trim_space v = v \<and> \<not> contains_any v line_breaks"

definition open_attempt :: "string \<Rightarrow> ms \<Rightarrow> string \<Rightarrow> attempt_row \<Rightarrow> bool" where
  "open_attempt verifier now expected r \<longleftrightarrow> oa_state r = verifier \<and> oa_status r = ''pending''
     \<and> now < oa_expires r \<and> (expected = [] \<or> oa_public_id r = expected)"

text \<open>The join of the query: the attempt, its account and its session, the administrator and the configuration.\<close>

definition claim_row ::
  "string \<Rightarrow> ms \<Rightarrow> string \<Rightarrow> 'x auth_db_scheme
    \<Rightarrow> (attempt_row \<times> account_row \<times> session_row \<times> admin_row \<times> config_row) option"
where
  "claim_row verifier now expected s =
     (case find (open_attempt verifier now expected) (oauth_attempts s) of
        None \<Rightarrow> None
      | Some r \<Rightarrow>
          (case (row_by ac_id (oa_account_id r) (accounts s), row_by se_id (oa_session_id r) (admin_sessions s),
                 admin_user s, oauth_config s) of
             (Some a, Some se, Some ad, Some cfg) \<Rightarrow> if oc_enabled cfg then Some (r, a, se, ad, cfg) else None
           | _ \<Rightarrow> None))"

definition same_egress ::
  "oauth_service \<Rightarrow> string \<Rightarrow> int \<Rightarrow> string \<Rightarrow> 'x db_scheme \<Rightarrow> candidate option"
where
  "same_egress svc account version fingerprint s =
     (case load_account (os_cipher svc) (os_scan svc) s account of
        Inl _ \<Rightarrow> None
      | Inr cfg \<Rightarrow>
          let c = cfg_candidate cfg in
          if account_version c \<noteq> version \<or> egress_fingerprint svc c \<noteq> fingerprint then None else Some c)"

definition opened :: "oauth_service \<Rightarrow> string \<Rightarrow> string \<Rightarrow> string \<Rightarrow> oauth_error + string" where
  "opened svc envelope data code =
     (case open_envelope (os_cipher svc) envelope data of Inl _ \<Rightarrow> Inl (OAuthCode code) | Inr v \<Rightarrow> Inr v)"

definition check_claim ::
  "oauth_service \<Rightarrow> nanos \<Rightarrow> string \<Rightarrow> string \<Rightarrow> string \<Rightarrow> 'x auth_db_scheme \<Rightarrow> oauth_error + claimed_attempt"
where
  "check_claim svc at state session expected s =
     (if \<not> safe_state state then Inl (OAuthCode ''oauth_state_invalid'')
      else
        (let now = unix_milli at in
         case claim_row (state_verifier svc state) now expected s of
           None \<Rightarrow> Inl (OAuthCode ''oauth_state_invalid'')
         | Some (r, a, se, ad, cfg) \<Rightarrow>
             if \<not> live_session (ad_session_version ad) now se then Inl (OAuthCode ''admin_session_expired'')
             else if session \<noteq> [] \<and> session \<noteq> se_public_id se then Inl (OAuthCode ''oauth_session_mismatch'')
             else
               and_then (coded (OAuthCode ''oauth_egress_changed'')
                   (same_egress svc (ac_public_id a) (ac_version a) (oa_fingerprint r) s)) (\<lambda>c.
               and_then (opened svc (oa_pkce_enc r) (pkce_aad (oa_public_id r)) ''oauth_attempt_invalid'') (\<lambda>pkce.
               and_then (opened svc (oc_secret_enc cfg) (secret_aad (oc_public_id cfg)) ''oauth_config_invalid'')
                 (\<lambda>secret.
               and_then (coded OAuthFailure (decode_scopes (oc_scopes cfg))) (\<lambda>vs.
                 Inr \<lparr>cl_public = oa_public_id r, cl_account = ac_public_id a, cl_session = se_public_id se,
                      cl_version = ac_version a, cl_pkce = pkce, cl_fingerprint = oa_fingerprint r,
                      cl_client = oc_client_id cfg, cl_secret = secret, cl_project = oc_project_id cfg,
                      cl_scopes = vs, cl_candidate = c\<rparr>))))))"

text \<open>The guarded update: the attempt is still pending, and its session still alive.\<close>

definition claimable :: "'x auth_db_scheme \<Rightarrow> ms \<Rightarrow> claimed_attempt \<Rightarrow> attempt_row \<Rightarrow> bool" where
  "claimable s now cl r \<longleftrightarrow> oa_public_id r = cl_public cl \<and> oa_status r = ''pending'' \<and> now < oa_expires r
     \<and> (case find_live_session (cl_session cl) now s of None \<Rightarrow> False | Some se \<Rightarrow> oa_session_id r = se_id se)"

definition commit_claim :: "ms \<Rightarrow> claimed_attempt \<Rightarrow> 'x auth_db_scheme \<Rightarrow> oauth_error + 'x auth_db_scheme" where
  "commit_claim now cl s =
     (if length (filter (claimable s now cl) (oauth_attempts s)) \<noteq> 1 then Inl (OAuthCode ''oauth_state_invalid'')
      else Inr (s\<lparr>oauth_attempts := update_where (claimable s now cl) (\<lambda>r. r\<lparr>oa_status := ''exchanging''\<rparr>)
                    (oauth_attempts s)\<rparr>))"

definition claim_attempt ::
  "oauth_service \<Rightarrow> nanos \<Rightarrow> string \<Rightarrow> string \<Rightarrow> string \<Rightarrow> 'x auth_db_scheme
    \<Rightarrow> oauth_error + (claimed_attempt \<times> 'x auth_db_scheme)"
where
  "claim_attempt svc at state session expected s =
     and_then (check_claim svc at state session expected s) (\<lambda>cl.
     and_then (commit_claim (unix_milli at) cl s) (\<lambda>t. Inr (cl, t)))"

definition fail_attempt :: "environment \<Rightarrow> string \<Rightarrow> string \<Rightarrow> 'x auth_db_scheme \<Rightarrow> 'x auth_db_scheme" where
  "fail_attempt env pid reason s =
     record_audit env (unix_milli (env_clock env 1)) ''oauth_attempt.failed'' ''oauth_attempt'' pid ''failure''
       [(''reason'', MetaText reason)]
       (s\<lparr>oauth_attempts := update_where (\<lambda>r. oa_public_id r = pid \<and> oa_status r \<in> {''pending'', ''exchanging''})
           (\<lambda>r. r\<lparr>oa_status := ''failed'', oa_consumed := Some (unix_milli (env_clock env 0))\<rparr>) (oauth_attempts s)\<rparr>)"

text \<open>After a restart no attempt is left exchanging; the validations are recovered with it.\<close>

definition recover_attempts :: "ms \<Rightarrow> 'x auth_db_scheme \<Rightarrow> 'x auth_db_scheme" where
  "recover_attempts now s =
     s\<lparr>oauth_attempts := update_where (\<lambda>r. oa_status r = ''exchanging'')
         (\<lambda>r. r\<lparr>oa_status := ''failed'', oa_consumed := Some now\<rparr>) (oauth_attempts s)\<rparr>"

definition recover_interrupted ::
  "(nat \<Rightarrow> environment) \<Rightarrow> ms \<Rightarrow> ms \<Rightarrow> 'x auth_db_scheme \<Rightarrow> 'x auth_db_scheme \<times> control_error option"
where
  "recover_interrupted ids now later s =
     (let s1 = cleanup_expired_attempts later (recover_attempts now s) in
      case recover_interrupted_validations ids s1 of
        Inl e \<Rightarrow> (s1, Some e)
      | Inr (n, t) \<Rightarrow> (t, None))"

subsection \<open>Completing\<close>

text \<open>The network of a completion: Google's token endpoint and the probe of the account.\<close>

record oauth_network =
  on_token :: "candidate \<Rightarrow> form \<Rightarrow> token_reply option"
  on_probe :: "candidate \<Rightarrow> native_request \<Rightarrow> adapter \<Rightarrow> probe_response option"

definition probe_google ::
  "oauth_service \<Rightarrow> (candidate \<Rightarrow> native_request \<Rightarrow> adapter \<Rightarrow> probe_response option) \<Rightarrow> candidate \<Rightarrow> string list option"
where
  "probe_google svc transport c =
     (case registry_get (os_registry svc) ''google'' of
        None \<Rightarrow> None
      | Some a \<Rightarrow>
          (case transport c (probe a) a of
             None \<Rightarrow> None
           | Some resp \<Rightarrow>
               (case pr_body resp of
                  None \<Rightarrow> None
                | Some body \<Rightarrow>
                    if max_oauth_response < length body \<or> pr_status resp < 200 \<or> 300 \<le> pr_status resp
                       \<or> \<not> has_media_type (pr_content_type resp) ''application/json''
                    then None
                    else parse_models ''google'' (os_scan svc body))))"

definition code_form :: "oauth_service \<Rightarrow> claimed_attempt \<Rightarrow> string \<Rightarrow> form" where
  "code_form svc cl code =
     [(''client_id'', cl_client cl), (''client_secret'', cl_secret cl), (''code'', code),
      (''code_verifier'', cl_pkce cl), (''grant_type'', ''authorization_code''), (''redirect_uri'', redirect_uri svc)]"

text \<open>From the claim to the commit: the token and the models, or the code the attempt fails with.\<close>

definition exchange_code ::
  "oauth_service \<Rightarrow> oauth_network \<Rightarrow> nanos \<Rightarrow> claimed_attempt \<Rightarrow> string \<Rightarrow> string
    \<Rightarrow> string + (token_response \<times> string list)"
where
  "exchange_code svc net now cl code provider_error =
     (if provider_error \<noteq> [] then Inl ''oauth_authorization_denied''
      else if \<not> safe_token code then Inl ''oauth_code_invalid''
      else
        and_then (exchange_token svc (on_token net) now (cl_candidate cl) (code_form svc cl code) True (cl_scopes cl))
          (\<lambda>tok.
          (case new_oauth_token (tr_access tok) (cl_project cl) of
             Inl _ \<Rightarrow> Inl ''oauth_token_invalid''
           | Inr cred \<Rightarrow>
               (case probe_google svc (on_probe net) ((cl_candidate cl)\<lparr>credential := Some cred\<rparr>) of
                  None \<Rightarrow> Inl ''oauth_account_validation_failed''
                | Some models \<Rightarrow> Inr (tok, models)))))"

definition connected_payload :: "claimed_attempt \<Rightarrow> token_response \<Rightarrow> ms \<Rightarrow> payload" where
  "connected_payload cl tok now =
     empty_payload\<lparr>schema_version := 1, access_token := tr_access tok, refresh_token := tr_refresh tok,
       token_type := ''Bearer'', scopes := tr_scopes tok, expires_at := tr_expires tok,
       provider_fields := [(''issued_at_ms'', show_int now), (''project_id'', cl_project cl)]\<rparr>"

definition google_descriptor :: "oauth_service \<Rightarrow> string" where
  "google_descriptor svc =
     (case registry_get (os_registry svc) ''google'' of
        None \<Rightarrow> []
      | Some a \<Rightarrow> adapter_id a @ ''/'' @ adapter_version a)"

definition connected_validation :: "oauth_service \<Rightarrow> string list \<Rightarrow> account_validation" where
  "connected_validation svc models =
     \<lparr>av_identity = [(''provider_id'', MetaText ''google''), (''model_count'', MetaInt (int (length models)))],
      av_capability = google_descriptor svc, av_models = models\<rparr>"

datatype completion =
    Completed account_info
  | Rejected string \<comment> \<open>the attempt has failed with this code\<close>
  | Broken control_error \<comment> \<open>the commit failed, and the attempt with it\<close>

text \<open>
  The end of \<open>completeAuthorization\<close>.  \<open>fail_env\<close> and \<open>env\<close> are the environments of the
  failed attempt's audit row and of the commit.
\<close>

definition finish_authorization ::
  "oauth_service \<Rightarrow> string option \<Rightarrow> environment \<Rightarrow> environment \<Rightarrow> string \<Rightarrow> claimed_attempt
    \<Rightarrow> string + (token_response \<times> string list) \<Rightarrow> 'x auth_db_scheme \<Rightarrow> 'x auth_db_scheme \<times> completion"
where
  "finish_authorization svc nonce fail_env env request cl answer s =
     (case answer of
        Inl code \<Rightarrow> (fail_attempt fail_env (cl_public cl) code s, Rejected code)
      | Inr (tok, models) \<Rightarrow>
          (case same_egress svc (cl_account cl) (cl_version cl) (cl_fingerprint cl) s of
             None \<Rightarrow> (fail_attempt fail_env (cl_public cl) ''oauth_egress_changed'' s, Rejected ''oauth_egress_changed'')
           | Some c \<Rightarrow>
               (case complete_oauth_account (os_cipher svc) (os_render svc) nonce env
                   \<lparr>actor_kind = ''admin'', actor_id = cl_session cl, actor_request = request\<rparr> (cl_public cl)
                   (cl_account cl) (cl_version cl) (connected_payload cl tok (unix_milli (env_clock env 3)))
                   (connected_validation svc models) s of
                  Inl e \<Rightarrow> (fail_attempt fail_env (cl_public cl) ''oauth_completion_failed'' s, Broken e)
                | Inr (item, t) \<Rightarrow> (t, Completed item))))"

text \<open>\<open>completeAuthorization\<close> when nothing else runs.\<close>

definition complete_authorization ::
  "oauth_service \<Rightarrow> oauth_network \<Rightarrow> string option \<Rightarrow> environment \<Rightarrow> environment \<Rightarrow> (nat \<Rightarrow> nanos)
    \<Rightarrow> string \<Rightarrow> string \<Rightarrow> string \<Rightarrow> string \<Rightarrow> string \<Rightarrow> string \<Rightarrow> 'x auth_db_scheme
    \<Rightarrow> 'x auth_db_scheme \<times> (oauth_error + completion)"
where
  "complete_authorization svc net nonce fail_env env clock state code provider_error session expected request s =
     (case claim_attempt svc (clock 0) state session expected s of
        Inl e \<Rightarrow> (s, Inl e)
      | Inr (cl, t) \<Rightarrow>
          (case finish_authorization svc nonce fail_env env request cl
              (exchange_code svc net (clock 1) cl code provider_error) t of
             (t', c) \<Rightarrow> (t', Inr c)))"

definition complete_callback_values ::
  "oauth_service \<Rightarrow> oauth_network \<Rightarrow> string option \<Rightarrow> environment \<Rightarrow> environment \<Rightarrow> (nat \<Rightarrow> nanos)
    \<Rightarrow> url_values \<Rightarrow> string \<Rightarrow> 'x auth_db_scheme \<Rightarrow> 'x auth_db_scheme \<times> (oauth_error + completion)"
where
  "complete_callback_values svc net nonce fail_env env clock vs request s =
     (case validate_callback_values vs of
        Inl e \<Rightarrow> (s, Inl e)
      | Inr (state, code, err) \<Rightarrow>
          complete_authorization svc net nonce fail_env env clock state code err [] [] request s)"

text \<open>What \<open>url.Parse\<close> makes of a callback address (\<open>None\<close> when it is refused).\<close>

record parsed_url =
  pu_user :: bool
  pu_fragment :: string
  pu_scheme :: string
  pu_host :: string
  pu_path :: string
  pu_query :: url_values

definition complete_attempt_callback_url ::
  "oauth_service \<Rightarrow> (string \<Rightarrow> parsed_url option) \<Rightarrow> oauth_network \<Rightarrow> string option \<Rightarrow> environment \<Rightarrow> environment
    \<Rightarrow> (nat \<Rightarrow> nanos) \<Rightarrow> string \<Rightarrow> string \<Rightarrow> string \<Rightarrow> string \<Rightarrow> 'x auth_db_scheme
    \<Rightarrow> 'x auth_db_scheme \<times> (oauth_error + completion)"
where
  "complete_attempt_callback_url svc parse net nonce fail_env env clock expected url session request s =
     (if url = [] \<or> 16384 < length url then (s, Inl (OAuthCode ''oauth_callback_invalid''))
      else
        (case parse url of
           None \<Rightarrow> (s, Inl (OAuthCode ''oauth_callback_invalid''))
         | Some u \<Rightarrow>
             if pu_user u \<or> pu_fragment u \<noteq> [] \<or> pu_scheme u \<noteq> os_scheme svc \<or> pu_host u \<noteq> os_host svc
                \<or> pu_path u \<noteq> callback_path
             then (s, Inl (OAuthCode ''oauth_callback_invalid''))
             else
               (case validate_callback_values (pu_query u) of
                  Inl e \<Rightarrow> (s, Inl e)
                | Inr (state, code, err) \<Rightarrow>
                    complete_authorization svc net nonce fail_env env clock state code err session expected request s)))"

end
