(* ===== verification/Account_Lifecycle.thy ===== *)
theory Account_Lifecycle
  imports OAuth_Attempts
begin

text \<open>
  The life of an account under every operation that writes it: the control plane, validation, OAuth
  and the feedback of the gateway.  The abstract machine is \<open>lifecycle\<close>, one set of edges for each
  event; the operations are shown to move each row along its edges and to keep the rows well typed.
\<close>

subsection \<open>Well-formed accounts\<close>

definition account_statuses :: "string list" where
  "account_statuses = [''draft'', ''validating'', ''active'', ''invalid'', ''reauth_required'', ''disabled'']"

text \<open>The checks of the table, and that what is active can be used.\<close>

definition account_typed :: "account_row \<Rightarrow> bool" where
  "account_typed r \<longleftrightarrow> ac_status r \<in> set account_statuses
     \<and> ac_auth_kind r \<in> {''api_key'', ''oauth''}
     \<and> ac_billing_kind r \<in> {''subscription'', ''metered'', ''custom''}
     \<and> 0 \<le> ac_priority r \<and> ac_priority r \<le> 1000000 \<and> 1 \<le> ac_max_concurrency r \<and> ac_max_concurrency r \<le> 1024
     \<and> 1 \<le> ac_version r \<and> 1 \<le> ac_credential_version r
     \<and> (ac_status r = ''active'' \<longrightarrow> ac_credential_enc r \<noteq> None)"

definition accounts_keyed :: "account_row list \<Rightarrow> bool" where
  "accounts_keyed rows \<longleftrightarrow> distinct (map ac_id rows) \<and> distinct (map ac_public_id rows)"

definition accounts_ok :: "'x db_scheme \<Rightarrow> bool" where
  "accounts_ok s \<longleftrightarrow> accounts_keyed (accounts s) \<and> (\<forall>r \<in> set (accounts s). account_typed r)"

subsection \<open>The abstract machine\<close>

datatype account_event = Created | Updated | Deleted | Begun | Judged bool | Recovered | Connected | Refreshed | Demoted

fun lifecycle :: "account_event \<Rightarrow> string \<Rightarrow> string \<Rightarrow> bool" where
  "lifecycle Updated a b \<longleftrightarrow> b = ''draft'' \<or> b = ''disabled'' \<or> (a = ''active'' \<and> b = ''active'')"
| "lifecycle Begun a b \<longleftrightarrow> a \<noteq> ''validating'' \<and> b = ''validating''"
| "lifecycle (Judged ok) a b \<longleftrightarrow> a = ''validating'' \<and> b = (if ok then ''active'' else ''invalid'')"
| "lifecycle Recovered a b \<longleftrightarrow> a = ''validating'' \<and> b = ''invalid''"
| "lifecycle Connected a b \<longleftrightarrow> a \<noteq> ''disabled'' \<and> b = ''active''"
| "lifecycle Refreshed a b \<longleftrightarrow> a = ''active'' \<and> (b = ''active'' \<or> b = ''reauth_required'')"
| "lifecycle Demoted a b \<longleftrightarrow> a = ''active'' \<and> b = ''reauth_required''"
| "lifecycle _ a b \<longleftrightarrow> False"

text \<open>A row after an event: untouched, or one version further along an edge.\<close>

definition row_moves :: "account_event \<Rightarrow> account_row \<Rightarrow> account_row \<Rightarrow> bool" where
  "row_moves ev r r' \<longleftrightarrow> ac_id r' = ac_id r \<and> ac_public_id r' = ac_public_id r
     \<and> ac_auth_kind r' = ac_auth_kind r \<and> ac_created r' = ac_created r
     \<and> (r' = r \<or> (ac_version r' = ac_version r + 1 \<and> lifecycle ev (ac_status r) (ac_status r')))"

lemma row_moves_refl [simp]: "row_moves ev r r"
  by (simp add: row_moves_def)

text \<open>A table after an event: every row is one of before, moved, and well typed if that was.\<close>

definition rows_move :: "account_event \<Rightarrow> account_row list \<Rightarrow> account_row list \<Rightarrow> bool" where
  "rows_move ev rows rows' \<longleftrightarrow>
     (\<forall>r' \<in> set rows'. \<exists>r \<in> set rows. row_moves ev r r' \<and> (account_typed r \<longrightarrow> account_typed r'))"

lemma rows_move_refl [simp]: "rows_move ev rows rows"
  unfolding rows_move_def using row_moves_refl by blast

lemma rows_move_subset: "set rows' \<subseteq> set rows \<Longrightarrow> rows_move ev rows rows'"
  unfolding rows_move_def using row_moves_refl by blast

lemma rows_move_update:
  assumes "\<And>r. r \<in> set rows \<Longrightarrow> p r \<Longrightarrow> row_moves ev r (f r) \<and> (account_typed r \<longrightarrow> account_typed (f r))"
  shows "rows_move ev rows (update_where p f rows)"
  unfolding rows_move_def
proof
  fix r' assume "r' \<in> set (update_where p f rows)"
  then obtain r where "r \<in> set rows" "r' = (if p r then f r else r)" by (auto simp: update_where_def)
  with assms [of r] show "\<exists>r \<in> set rows. row_moves ev r r' \<and> (account_typed r \<longrightarrow> account_typed r')"
    by (intro bexI [of _ r]) auto
qed

lemma accounts_keyed_update:
  assumes "\<And>r. ac_id (f r) = ac_id r \<and> ac_public_id (f r) = ac_public_id r"
  shows "accounts_keyed (update_where p f rows) \<longleftrightarrow> accounts_keyed rows"
  using assms by (simp add: accounts_keyed_def update_where_keys)

lemma accounts_keyed_filter: "accounts_keyed rows \<Longrightarrow> accounts_keyed (filter p rows)"
  by (simp add: accounts_keyed_def distinct_map_filter)

subsection \<open>What a successful operation has done\<close>

lemma accounts_write [simp]: "accounts (write_accounts p f s) = update_where p f (accounts s)"
  by (simp add: write_accounts_def)

lemma runtime_and_models_accounts [simp]:
  "accounts (clear_runtime a now s) = accounts s"
  "accounts (replace_models a now ms t) = accounts t"
  by (simp_all add: clear_runtime_def replace_models_def)

lemma fill_defaults_Inr:
  assumes "fill_defaults create i = Inr j"
  shows "in_billing j \<in> {''subscription'', ''metered'', ''custom''} \<and> status_allowed create (in_status j)
    \<and> in_auth_kind j = in_auth_kind i \<and> in_credential j = in_credential i"
  using assms by (auto simp: fill_defaults_def Let_def split: if_splits prod.splits)

lemma validate_account_input_Inr:
  assumes "validate_account_input now create i = Inr j"
  shows "in_billing j \<in> {''subscription'', ''metered'', ''custom''} \<and> status_allowed create (in_status j)
    \<and> in_auth_kind j \<in> {[], ''api_key'', ''oauth''} \<and> (create \<longrightarrow> in_auth_kind j \<noteq> [])
    \<and> 0 \<le> the (in_priority j) \<and> the (in_priority j) \<le> 1000000
    \<and> 1 \<le> the (in_concurrency j) \<and> the (in_concurrency j) \<le> 1024"
proof -
  from assms obtain k where "fill_defaults create k = Inr j" "check_limits now j = Inr j"
    and kind: "in_auth_kind k \<in> {[], ''api_key'', ''oauth''}" "create \<longrightarrow> in_auth_kind k \<noteq> []"
    by (auto simp: validate_account_input_def Let_def check_limits_def split: if_splits)
  moreover from this have "0 \<le> the (in_priority j)" "the (in_priority j) \<le> 1000000"
      "1 \<le> the (in_concurrency j)" "the (in_concurrency j) \<le> 1024"
    by (auto simp: check_limits_def split: if_splits)
  ultimately show ?thesis using fill_defaults_Inr [of create k j] by simp
qed

lemma insert_account_Inr:
  assumes "insert_account pid i upstream proxy cred now s = Inr t"
  obtains r where "t = s\<lparr>accounts := accounts s @ [r]\<rparr>" "ac_public_id r = pid" "ac_status r = in_status i"
    "ac_auth_kind r = in_auth_kind i" "ac_billing_kind r = in_billing i" "ac_priority r = the (in_priority i)"
    "ac_max_concurrency r = the (in_concurrency i)" "ac_version r = 1" "ac_credential_version r = 1"
    "ac_upstream_id r = upstream" "ac_proxy_id r = proxy"
    "ac_id r = next_id ac_id (accounts s)" "pid \<notin> ac_public_id ` set (accounts s)"
  using assms by (auto simp: insert_account_def split: if_splits)

lemma create_account_Inr:
  assumes "create_account c render nonce env who i s = Inr (item, t)"
  obtains r where "accounts t = accounts s @ [r]" "ac_public_id r \<notin> ac_public_id ` set (accounts s)"
    "ac_id r \<notin> ac_id ` set (accounts s)" "account_typed r" "ac_version r = 1"
    "ac_status r = ''draft'' \<or> ac_status r = ''disabled''"
proof -
  from assms obtain j pid upstream proxy cred s1 where
    j: "validate_account_input (env_clock env 0) True i = Inr j"
    and ins: "insert_account pid j upstream proxy cred (unix_milli (env_clock env 1)) s = Inr s1"
    and aud: "audit_only s1 t"
    by (auto simp: create_account_def audit_outcome_Inr split: option.splits if_splits)
  from ins obtain r where r: "s1 = s\<lparr>accounts := accounts s @ [r]\<rparr>" "ac_public_id r = pid"
    "ac_status r = in_status j" "ac_auth_kind r = in_auth_kind j" "ac_billing_kind r = in_billing j"
    "ac_priority r = the (in_priority j)" "ac_max_concurrency r = the (in_concurrency j)" "ac_version r = 1"
    "ac_credential_version r = 1" "ac_id r = next_id ac_id (accounts s)" "pid \<notin> ac_public_id ` set (accounts s)"
    by (elim insert_account_Inr) blast
  have "account_typed r" "ac_status r = ''draft'' \<or> ac_status r = ''disabled''"
    using validate_account_input_Inr [OF j] r(3-9)
    by (auto simp: account_typed_def account_statuses_def status_allowed_def)
  moreover have "accounts t = accounts s @ [r]" using audit_only_tables(2) [OF aud] r(1) by simp
  ultimately show thesis using that [of r] r(2,8,10,11) next_id_notin [of ac_id "accounts s"] by simp
qed

text \<open>
  What an update may rely on: it was sent with a version its sender had read, so the row it checked
  was no older; and a row changes only with its version.
\<close>

definition read_since :: "'x db_scheme \<Rightarrow> 'x db_scheme \<Rightarrow> string \<Rightarrow> int \<Rightarrow> bool" where
  "read_since before s pid version \<longleftrightarrow>
     (\<forall>b \<in> set (accounts before). ac_public_id b = pid \<longrightarrow> version \<le> ac_version b
        \<and> (\<forall>r \<in> set (accounts s). ac_public_id r = pid \<longrightarrow> r = b \<or> ac_version b < ac_version r))"

lemma check_update_account_Inr:
  assumes "check_update_account c render nonce now pid i s = Inr (j, cred)"
  obtains k where "validate_account_input now False i = Inr k" "in_status j = in_status k"
    "in_billing j = in_billing k" "in_priority j = in_priority k" "in_concurrency j = in_concurrency k"
    "in_credential j = in_credential k"
    "in_status j = ''active'' \<Longrightarrow> in_credential j = None \<and> (\<exists>b \<in> set (accounts s). ac_public_id b = pid
       \<and> ac_status b = ''active'' \<and> cred = ac_credential_enc b)"
proof -
  from assms obtain k old where k: "validate_account_input now False i = Inr k"
    and old: "read_account pid s = Inr old"
    and j: "j = k\<lparr>in_proxy := valid_optional_reference (in_proxy k),
        in_auth_kind := if in_auth_kind k = [] then sn_auth_kind old else in_auth_kind k\<rparr>"
    and active: "in_status k = ''active'' \<Longrightarrow> sn_status old = ''active'' \<and> in_credential k = None"
    and cred: "optional_credential c render nonce pid (sn_credential old) (in_credential k) = Inr cred"
    by (auto simp: check_update_account_def Let_def split: if_splits)
  from old obtain b where b: "b \<in> set (accounts s)" "ac_public_id b = pid" "sn_status old = ac_status b"
      "sn_credential old = ac_credential_enc b"
    by (auto simp: read_account_def dest: row_by_Some split: option.splits)
  have "in_credential j = None \<and> (\<exists>b \<in> set (accounts s). ac_public_id b = pid
       \<and> ac_status b = ''active'' \<and> cred = ac_credential_enc b)" if "in_status j = ''active''"
  proof -
    have "sn_status old = ''active''" "in_credential k = None" using active that j by simp_all
    with cred b j show ?thesis by (intro conjI bexI [of _ b]) (auto simp: optional_credential_def)
  qed
  with that k j show thesis by simp
qed

lemma commit_update_account_Inr:
  assumes "commit_update_account env who pid version i cred s = Inr (item, t)"
  obtains upstream proxy where
    "accounts t = update_where (at_version pid version)
       (updated_account i upstream proxy cred (unix_milli (env_clock env 1))) (accounts s)"
    "audit_only (write_accounts (at_version pid version)
       (updated_account i upstream proxy cred (unix_milli (env_clock env 1))) s) t"
    "lookup_id up_public_id up_id (in_upstream i) (upstreams s) = Inr upstream"
    "optional_internal_id px_public_id px_id (in_proxy i) (proxies s) = Inr proxy"
    "\<exists>r \<in> set (accounts s). at_version pid version r"
proof -
  from assms obtain upstream proxy where found: "lookup_id up_public_id up_id (in_upstream i) (upstreams s) = Inr upstream"
      "optional_internal_id px_public_id px_id (in_proxy i) (proxies s) = Inr proxy"
    and one: "length (filter (at_version pid version) (accounts s)) = 1"
    and "audit env (unix_milli (env_clock env 2)) who ''account.updated'' ''account'' pid
        [(''billing_kind'', MetaText (in_billing i)), (''status'', MetaText (in_status i))]
        (write_accounts (at_version pid version)
          (updated_account i upstream proxy cred (unix_milli (env_clock env 1))) s) = Inr t"
    by (auto simp: commit_update_account_def split: if_splits)
  then have aud: "audit_only (write_accounts (at_version pid version)
       (updated_account i upstream proxy cred (unix_milli (env_clock env 1))) s) t"
    by (intro audit_outcome_Inr)
  show thesis
    by (rule that [OF _ aud found filter_one_ex [OF one]]) (use audit_only_tables(2) [OF aud] in simp)
qed

lemma update_account_moves:
  assumes "update_account c render nonce env who pid version i before s = Inr (item, t)"
    and since: "read_since before s pid version"
  shows "rows_move Updated (accounts s) (accounts t) \<and> (accounts_keyed (accounts s) \<longrightarrow> accounts_keyed (accounts t))"
proof -
  from assms(1) obtain j cred where check: "check_update_account c render nonce (env_clock env 0) pid i before = Inr (j, cred)"
    and "commit_update_account env who pid version j cred s = Inr (item, t)"
    by (auto simp: update_account_def)
  then obtain upstream proxy where t: "accounts t = update_where (at_version pid version)
       (updated_account j upstream proxy cred (unix_milli (env_clock env 1))) (accounts s)"
    by (elim commit_update_account_Inr) blast
  from check obtain k where k: "validate_account_input (env_clock env 0) False i = Inr k" "in_status j = in_status k"
      "in_billing j = in_billing k" "in_priority j = in_priority k" "in_concurrency j = in_concurrency k"
    and active: "in_status j = ''active'' \<Longrightarrow> (\<exists>b \<in> set (accounts before). ac_public_id b = pid
       \<and> ac_status b = ''active'' \<and> cred = ac_credential_enc b)"
    by (elim check_update_account_Inr) blast
  have kept: "ac_status r = ''active'' \<and> cred = ac_credential_enc r"
    if r: "r \<in> set (accounts s)" "at_version pid version r" "in_status j = ''active''" for r
  proof -
    obtain b where b: "b \<in> set (accounts before)" "ac_public_id b = pid" "ac_status b = ''active''"
        "cred = ac_credential_enc b"
      using active r(3) by blast
    have pid: "ac_public_id r = pid" "ac_version r = version" using r(2) by (simp_all add: at_version_def)
    have "version \<le> ac_version b" "r = b \<or> ac_version b < ac_version r"
      using since b(1,2) r(1) pid(1) unfolding read_since_def by blast+
    with pid(2) have "r = b" by auto
    with b show ?thesis by simp
  qed
  note input = validate_account_input_Inr [OF k(1), folded k(2-5)]
  have "rows_move Updated (accounts s) (accounts t)"
    unfolding t
  proof (rule rows_move_update)
    fix r assume r: "r \<in> set (accounts s)" "at_version pid version r"
    let ?r' = "updated_account j upstream proxy cred (unix_milli (env_clock env 1)) r"
    have status: "in_status j = ''draft'' \<or> in_status j = ''disabled'' \<or> in_status j = ''active''"
      using input by (simp add: status_allowed_def)
    then have edge: "lifecycle Updated (ac_status r) (in_status j)" using kept [OF r] by auto
    have "in_status j \<in> set account_statuses" using status by (auto simp: account_statuses_def)
    moreover have "in_status j = ''active'' \<longrightarrow> account_typed r \<longrightarrow> cred \<noteq> None"
      using kept [OF r] by (simp add: account_typed_def)
    ultimately have "account_typed r \<longrightarrow> account_typed ?r'"
      using input by (simp add: account_typed_def updated_account_def)
    moreover have "row_moves Updated r ?r'"
      using edge by (simp add: row_moves_def updated_account_def del: lifecycle.simps)
    ultimately show "row_moves Updated r ?r' \<and> (account_typed r \<longrightarrow> account_typed ?r')" by blast
  qed
  moreover have "accounts_keyed (accounts t) \<longleftrightarrow> accounts_keyed (accounts s)"
    unfolding t by (rule accounts_keyed_update) (simp add: updated_account_def)
  ultimately show ?thesis by blast
qed

text \<open>The guarded updates of one row: each is the image of the table under an edge of the machine.\<close>

definition table_moves :: "account_event \<Rightarrow> 'x db_scheme \<Rightarrow> 'x db_scheme \<Rightarrow> bool" where
  "table_moves ev s t \<longleftrightarrow>
     rows_move ev (accounts s) (accounts t) \<and> (accounts_keyed (accounts s) \<longrightarrow> accounts_keyed (accounts t))"

lemma table_moves_refl: "accounts t = accounts s \<Longrightarrow> table_moves ev s t"
  by (simp add: table_moves_def)

lemma table_moves_same: "accounts t = accounts u \<Longrightarrow> table_moves ev s u \<Longrightarrow> table_moves ev s t"
  by (simp add: table_moves_def)

lemma table_moves_write:
  assumes "\<And>r. p r \<Longrightarrow> row_moves ev r (f r) \<and> (account_typed r \<longrightarrow> account_typed (f r))"
    and "\<And>r. ac_id (f r) = ac_id r \<and> ac_public_id (f r) = ac_public_id r"
  shows "table_moves ev s (write_accounts p f s)"
  using assms by (simp add: table_moves_def rows_move_update accounts_keyed_update)

lemma table_moves_filter: "accounts t = filter p (accounts s) \<Longrightarrow> table_moves ev s t"
  by (simp add: table_moves_def rows_move_subset accounts_keyed_filter)

lemma record_audit_cases: "record_audit env now ev tk ti oc md s = s \<or> audit_only s (record_audit env now ev tk ti oc md s)"
  by (auto simp: record_audit_def dest: audit_outcome_Inr split: sum.split)

lemma record_audit_accounts [simp]: "accounts (record_audit env now ev tk ti oc md s) = accounts s"
  using record_audit_cases [of env now ev tk ti oc md s] audit_only_tables(2) by metis

lemma begin_validation_moves:
  assumes "begin_account_validation env who pid version s = Inr (item, t)"
  shows "table_moves Begun s t"
proof -
  let ?f = "\<lambda>r. r\<lparr>ac_status := ''validating'', ac_version := ac_version r + 1, ac_updated := unix_milli (env_clock env 0)\<rparr>"
  let ?p = "\<lambda>r. at_version pid version r \<and> ac_status r \<noteq> ''validating''"
  from assms have "audit_only (write_accounts ?p ?f s) t"
    by (auto simp: begin_account_validation_def Let_def intro: audit_outcome_Inr split: if_splits)
  moreover have "table_moves Begun s (write_accounts ?p ?f s)"
    by (rule table_moves_write) (auto simp: row_moves_def account_typed_def account_statuses_def)
  ultimately show ?thesis using table_moves_same audit_only_tables(2) by blast
qed

lemma commit_validation_moves:
  assumes "commit_validation env who pid version identity capability models code s = Inr (item, t)"
  shows "table_moves (Judged (models \<noteq> None)) s t"
proof -
  let ?now = "unix_milli (env_clock env 0)" and ?ok = "models \<noteq> None"
  let ?s1 = "write_accounts (finishable pid version ?ok) (finished_account ?ok identity capability ?now) s"
  from assms have "accounts t = accounts ?s1"
    by (auto simp: commit_validation_def Let_def audit_only_tables(2) [OF audit_outcome_Inr] split: if_splits)
  moreover have "table_moves (Judged ?ok) s ?s1"
    by (rule table_moves_write)
      (auto simp: row_moves_def finished_account_def finishable_def account_typed_def account_statuses_def)
  ultimately show ?thesis by (rule table_moves_same)
qed

lemma finish_validation_moves:
  assumes "finish_account_validation env who pid version v code s = Inr (item, t)"
  shows "table_moves (Judged (v \<noteq> None)) s t"
  using assms commit_validation_moves [of env who pid version _ _ _ code s item t]
  by (fastforce simp: finish_account_validation_def split: option.splits if_splits)

lemma complete_oauth_Inr:
  assumes "complete_oauth_account c render nonce env who attempt pid version p v s = Inr (item, t)"
  obtains cred identity models where
    "checked_oauth c render nonce (unix_milli (env_clock env 0)) pid p v = Inr (cred, identity, models)"
    "accounts t = update_where (connectable pid version)
       (connected_account cred (expires_at p) identity (av_capability v) (unix_milli (env_clock env 1))) (accounts s)"
    "\<exists>r \<in> set (accounts s). connectable pid version r"
    "\<exists>r \<in> set (oauth_attempts s). oa_public_id r = attempt \<and> oa_status r = ''exchanging''
       \<and> unix_milli (env_clock env 1) < oa_expires r"
    "\<exists>a. oauth_attempts t = update_where (consumable attempt a (unix_milli (env_clock env 1)))
       (\<lambda>r. r\<lparr>oa_status := ''consumed'', oa_consumed := Some (unix_milli (env_clock env 1))\<rparr>) (oauth_attempts s)"
proof -
  let ?now = "unix_milli (env_clock env 1)"
  from assms obtain cred identity models where
    ok: "checked_oauth c render nonce (unix_milli (env_clock env 0)) pid p v = Inr (cred, identity, models)"
    by (auto simp: complete_oauth_account_def)
  define s1 where "s1 = write_accounts (connectable pid version)
    (connected_account cred (expires_at p) identity (av_capability v) ?now) s"
  define s2 where "s2 = clear_runtime (internal_id pid s1) ?now (replace_models (internal_id pid s1) ?now models s1)"
  define s3 where "s3 = s2\<lparr>oauth_attempts := update_where (consumable attempt (internal_id pid s1) ?now)
    (\<lambda>r. r\<lparr>oa_status := ''consumed'', oa_consumed := Some ?now\<rparr>) (oauth_attempts s2)\<rparr>"
  note parts = assms [unfolded complete_oauth_account_def ok and_then_simps prod.case Let_def,
      folded s1_def, folded s2_def, folded s3_def]
  have one: "length (filter (connectable pid version) (accounts s)) = 1"
    and att: "length (filter (consumable attempt (internal_id pid s1) ?now) (oauth_attempts s2)) = 1"
    using parts by (simp_all split: if_splits)
  from parts one att have aud: "audit_only s3 t" by (auto dest: audit_outcome_Inr)
  have s2: "accounts s2 = accounts s1" "oauth_attempts s2 = oauth_attempts s"
    by (simp_all add: s2_def s1_def clear_runtime_def replace_models_def write_accounts_def)
  then have "accounts t = accounts s1"
    "oauth_attempts t = update_where (consumable attempt (internal_id pid s1) ?now)
      (\<lambda>r. r\<lparr>oa_status := ''consumed'', oa_consumed := Some ?now\<rparr>) (oauth_attempts s)"
    using audit_only_tables(2,10) [OF aud] by (simp_all add: s3_def)
  then show thesis
    by (intro that [OF ok _ filter_one_ex [OF one]])
      (use filter_one_ex [OF att] s2(2) in \<open>auto simp: consumable_def s1_def\<close>)
qed

lemma complete_oauth_moves:
  assumes "complete_oauth_account c render nonce env who attempt pid version p v s = Inr (item, t)"
  shows "table_moves Connected s t"
proof -
  from assms obtain cred identity where "accounts t = accounts (write_accounts (connectable pid version)
       (connected_account cred (expires_at p) identity (av_capability v) (unix_milli (env_clock env 1))) s)"
    by (elim complete_oauth_Inr) simp
  moreover have "table_moves Connected s (write_accounts (connectable pid version)
       (connected_account cred (expires_at p) identity (av_capability v) (unix_milli (env_clock env 1))) s)"
    by (rule table_moves_write)
      (auto simp: row_moves_def connected_account_def connectable_def account_typed_def account_statuses_def)
  ultimately show ?thesis by (rule table_moves_same)
qed

lemma mark_reauth_moves: "table_moves Refreshed s (mark_reauth_required env c version s)"
  unfolding mark_reauth_required_def
  by (rule table_moves_same [OF record_audit_accounts], rule table_moves_write)
    (auto simp: row_moves_def account_typed_def account_statuses_def)

lemma refresh_finish_moves:
  assumes "refresh_finish svc nonce env force rq answer s = (t, r)"
  shows "table_moves Refreshed s t"
proof -
  have "table_moves Refreshed s (write_accounts (refreshable rq) (refreshed_account e x now) s)" for e x now
    by (rule table_moves_write)
      (auto simp: row_moves_def refreshed_account_def refreshable_def active_oauth_def account_typed_def account_statuses_def)
  then have "table_moves Refreshed s (record_audit env a ev tk ti oc md
      (write_accounts (refreshable rq) (refreshed_account e x now) s))" for a ev tk ti oc md e x now
    by (rule table_moves_same [OF record_audit_accounts])
  then show ?thesis
    using assms mark_reauth_moves [of s env "rq_candidate rq" "rq_version rq"]
    by (auto simp: refresh_finish_def store_token_def Let_def intro: table_moves_refl split: sum.splits if_splits)
qed

lemma recover_one_moves:
  assumes "recover_one now ids (n, pid) s = Inr t"
  shows "table_moves Recovered s t"
proof -
  let ?p = "\<lambda>r. ac_public_id r = pid \<and> ac_status r = ''validating''"
  let ?f = "\<lambda>r. r\<lparr>ac_status := ''invalid'', ac_last_validated := Some now, ac_version := ac_version r + 1,
    ac_updated := now\<rparr>"
  from assms have "audit_only (write_accounts ?p ?f s) t"
    by (auto simp: recover_one_def Let_def intro: audit_outcome_Inr split: if_splits)
  moreover have "table_moves Recovered s (write_accounts ?p ?f s)"
    by (rule table_moves_write) (auto simp: row_moves_def account_typed_def account_statuses_def)
  ultimately show ?thesis using table_moves_same audit_only_tables(2) by blast
qed

lemma drop_accounts_accounts [simp]: "accounts (drop_accounts p s) = filter (\<lambda>r. \<not> p r) (accounts s)"
  by (simp add: drop_accounts_def Let_def)

lemma delete_account_Inr:
  assumes "delete_account recorded env who pid version s = Inr t"
  shows "audit_only (drop_accounts (at_version pid version) s) t
    \<and> (\<forall>r \<in> set (accounts s). at_version pid version r \<longrightarrow> \<not> account_referenced recorded s r)"
  using assms
  by (auto simp: delete_account_def Let_def list_ex_iff intro: audit_outcome_Inr split: if_splits)

lemma record_failure_accounts:
  "accounts (record_failure jitter now c f s) = accounts s
    \<or> accounts (record_failure jitter now c f s) = accounts (demote_account (unix_milli now) (account_internal c) s)"
  by (simp add: record_failure_def Let_def record_runtime_error_def record_backoff_def)

lemma demote_moves: "table_moves Demoted s (demote_account now a s)"
proof -
  have "table_moves Demoted s (write_accounts (\<lambda>r. ac_id r = a \<and> ac_status r = ''active'')
      (\<lambda>r. r\<lparr>ac_status := ''reauth_required'', ac_version := ac_version r + 1, ac_updated := now\<rparr>) s)"
    by (rule table_moves_write) (auto simp: row_moves_def account_typed_def account_statuses_def)
  then show ?thesis by (simp add: demote_account_def write_accounts_def)
qed

lemma record_failure_moves: "table_moves Demoted s (record_failure jitter now c f s)"
  using record_failure_accounts [of jitter now c f s] table_moves_refl table_moves_same demote_moves by metis

subsection \<open>Every operation that writes an account\<close>

inductive account_step :: "account_event \<Rightarrow> 'x auth_db_scheme \<Rightarrow> 'x auth_db_scheme \<Rightarrow> bool" where
  created: "create_account c render nonce env who i s = Inr (item, t) \<Longrightarrow> account_step Created s t"
| updated: "update_account c render nonce env who pid version i before s = Inr (item, t) \<Longrightarrow>
    read_since before s pid version \<Longrightarrow> account_step Updated s t"
| deleted: "delete_account recorded env who pid version s = Inr t \<Longrightarrow> account_step Deleted s t"
| begun: "begin_account_validation env who pid version s = Inr (item, t) \<Longrightarrow> account_step Begun s t"
| judged: "finish_account_validation env who pid version v code s = Inr (item, t) \<Longrightarrow>
    account_step (Judged (v \<noteq> None)) s t"
| recovered: "recover_one now ids n s = Inr t \<Longrightarrow> account_step Recovered s t"
| connected: "complete_oauth_account c render nonce env who attempt pid version p v s = Inr (item, t) \<Longrightarrow>
    account_step Connected s t"
| refreshed: "refresh_finish svc nonce env force rq answer s = (t, r) \<Longrightarrow> account_step Refreshed s t"
| demoted: "account_step Demoted s (record_failure jitter now c f s)"

inductive_cases account_stepE: "account_step ev s t"

lemma account_step_moves:
  assumes "account_step ev s t"
  shows "table_moves ev s t \<or> (ev = Created \<and> (\<exists>r. accounts t = accounts s @ [r]
    \<and> ac_public_id r \<notin> ac_public_id ` set (accounts s) \<and> ac_id r \<notin> ac_id ` set (accounts s)
    \<and> account_typed r \<and> ac_version r = 1 \<and> (ac_status r = ''draft'' \<or> ac_status r = ''disabled'')))"
  using assms
proof cases
  case (created c render nonce env who i item)
  then show ?thesis by (elim create_account_Inr) blast
next
  case (updated c render nonce env who pid version i before item)
  then show ?thesis using update_account_moves by (fastforce simp: table_moves_def)
next
  case (deleted recorded env who pid version)
  then have "accounts t = filter (\<lambda>r. \<not> at_version pid version r) (accounts s)"
    using delete_account_Inr audit_only_tables(2) drop_accounts_accounts by metis
  then show ?thesis using deleted(1) table_moves_filter by blast
next
  case (recovered now ids n)
  then show ?thesis using recover_one_moves by (cases n) blast
next
  case begun
  then show ?thesis using begin_validation_moves by blast
next
  case judged
  then show ?thesis using finish_validation_moves by blast
next
  case connected
  then show ?thesis using complete_oauth_moves by blast
next
  case refreshed
  then show ?thesis using refresh_finish_moves by blast
next
  case demoted
  then show ?thesis using record_failure_moves by blast
qed

lemma accounts_keyed_append:
  "accounts_keyed rows \<Longrightarrow> ac_public_id r \<notin> ac_public_id ` set rows \<Longrightarrow> ac_id r \<notin> ac_id ` set rows \<Longrightarrow>
    accounts_keyed (rows @ [r])"
  by (auto simp: accounts_keyed_def)

lemma account_step_ok:
  assumes "account_step ev s t" "accounts_ok s"
  shows "accounts_ok t"
  using account_step_moves [OF assms(1)]
proof
  assume "table_moves ev s t"
  with assms(2) show ?thesis by (auto simp: accounts_ok_def table_moves_def rows_move_def)
next
  assume "ev = Created \<and> (\<exists>r. accounts t = accounts s @ [r]
    \<and> ac_public_id r \<notin> ac_public_id ` set (accounts s) \<and> ac_id r \<notin> ac_id ` set (accounts s)
    \<and> account_typed r \<and> ac_version r = 1 \<and> (ac_status r = ''draft'' \<or> ac_status r = ''disabled''))"
  then obtain r where r: "accounts t = accounts s @ [r]" "ac_public_id r \<notin> ac_public_id ` set (accounts s)"
      "ac_id r \<notin> ac_id ` set (accounts s)" "account_typed r"
    by blast
  with assms(2) show ?thesis by (auto simp: accounts_ok_def intro: accounts_keyed_append)
qed

subsection \<open>A sample\<close>

definition sample_google :: "string \<Rightarrow> account_row" where
  "sample_google status =
     \<lparr>ac_id = 7, ac_public_id = ''sdr_acct_g'', ac_upstream_id = 3, ac_name = ''g'', ac_auth_kind = ''oauth'',
      ac_billing_kind = ''metered'', ac_credential_enc = Some (replicate 40 (CHR ''e'')), ac_credential_version = 2,
      ac_credential_expires = Some 700000, ac_proxy_id = None, ac_status = status, ac_priority = 10,
      ac_max_concurrency = 4, ac_identity = empty_identity, ac_capability_version = None, ac_last_validated = None,
      ac_version = 5, ac_created = 0, ac_updated = 0\<rparr>"

definition sample_google_upstream :: upstream_row where
  "sample_google_upstream =
     \<lparr>up_id = 3, up_public_id = ''sdr_up_g'', up_provider_id = ''google'', up_name = ''g'',
      up_base_url = ''https://generativelanguage.googleapis.com'', up_default_proxy = None, up_allow_private = False,
      up_enabled = True, up_version = 1, up_created = 0, up_updated = 0\<rparr>"

definition sample_oauth_db :: "account_row list \<Rightarrow> auth_db" where
  "sample_oauth_db rows = control_db.extend (db.extend
     \<lparr>proxies = [], upstreams = [sample_google_upstream], accounts = rows, routes = [], candidates = [], runtimes = []\<rparr>
     (control_db.fields [] [] [] None [])) (auth_db.fields None [])"

lemma sample_oauth_accounts [simp]: "accounts (sample_oauth_db rows) = rows"
  by (simp add: sample_oauth_db_def db.defs control_db.defs auth_db.defs)

definition sample_candidate_of :: "account_row \<Rightarrow> candidate" where
  "sample_candidate_of a = candidate_of a sample_google_upstream None None"

definition sample_failure :: failure where
  "sample_failure = \<lparr>f_status = 401, f_code = ''upstream_auth'', f_retry_after = 0, f_network = False\<rparr>"

abbreviation "sample_demoted \<equiv>
  record_failure (\<lambda>n. n) 5000000 (sample_candidate_of (sample_google ''active'')) sample_failure
    (sample_oauth_db [sample_google ''active''])"

lemma sample_demoted_accounts: "accounts sample_demoted =
    [(sample_google ''reauth_required'')\<lparr>ac_version := 6, ac_updated := 5\<rparr>]"
  by (simp add: record_failure_def sample_failure_def record_runtime_error_def demote_account_def update_where_def
      sample_candidate_of_def candidate_of_def sample_google_def unix_milli_def)

lemma sample_google_typed: "accounts_ok (sample_oauth_db [sample_google ''active''])"
  by (simp add: accounts_ok_def accounts_keyed_def account_typed_def account_statuses_def sample_google_def)

subsection \<open>Properties\<close>

text \<open>
  C39: Whatever writes an account - the administrator, a validation, an OAuth completion, a token
  refresh, the gateway's feedback or the recovery after a crash - moves it along one edge of the
  lifecycle and counts its version up by one, or leaves its row alone; only a creation adds a row, as
  a draft or disabled.  So an account becomes active by a successful validation or an OAuth
  completion and by nothing else.
\<close>

theorem account_lifecycle:
  assumes "account_step ev s t" "r' \<in> set (accounts t)"
  shows "(\<exists>r \<in> set (accounts s). row_moves ev r r') \<or> (ev = Created \<and> ac_version r' = 1
    \<and> (ac_status r' = ''draft'' \<or> ac_status r' = ''disabled'')
    \<and> ac_public_id r' \<notin> ac_public_id ` set (accounts s))"
proof (cases "r' \<in> set (accounts s)")
  case False
  with account_step_moves [OF assms(1)] assms(2) show ?thesis by (auto simp: table_moves_def rows_move_def)
qed (use row_moves_refl in blast)

theorem account_lifecycle_witness:
  "\<exists>r \<in> set (accounts (sample_oauth_db [sample_google ''active''])).
    row_moves Demoted r ((sample_google ''reauth_required'')\<lparr>ac_version := 6, ac_updated := 5\<rparr>)"
  using account_lifecycle [OF account_step.demoted, of _ "\<lambda>n. n" 5000000
      "sample_candidate_of (sample_google ''active'')" sample_failure "sample_oauth_db [sample_google ''active'']"]
  by (simp add: sample_demoted_accounts)

text \<open>
  C40: The rows of the accounts table stay well typed: every reachable row satisfies the checks of
  the schema and the limits of the input, identifiers stay unique, and an active account always has a
  credential.
\<close>

theorem accounts_stay_typed:
  assumes "(\<lambda>s t. \<exists>ev. account_step ev s t)\<^sup>*\<^sup>* s t" "accounts_ok s"
  shows "accounts_ok t"
  using assms by (induction rule: rtranclp_induct) (auto intro: account_step_ok)

theorem accounts_stay_typed_witness: "accounts_ok sample_demoted \<and> accounts_ok (sample_oauth_db [])"
proof -
  have "accounts_ok sample_demoted"
    using accounts_stay_typed [OF r_into_rtranclp sample_google_typed] account_step.demoted by blast
  then show ?thesis by (simp add: accounts_ok_def accounts_keyed_def)
qed

end
