(* ===== verification/Admin_Auth_Facts.thy ===== *)
theory Admin_Auth_Facts
  imports Admin_Auth
begin

text \<open>
  What the administrator's authentication keeps: a session that has been revoked, outdated or has
  expired never authenticates again, every change of the password or of the one-time codes ends all
  sessions but the new one, a one-time code is accepted once, failed logins lock the account for a
  bounded and growing time, and a session ends in time.
\<close>

subsection \<open>Effects of the operations\<close>

lemma auth_audit_Inr: "auth_audit_outcome env now event kind actor outcome md s = Inr t \<Longrightarrow> audit_only s t"
  unfolding auth_audit_outcome_def plain_Inr by (rule audit_outcome_Inr)

lemma audit_only_admin:
  fixes s t :: "'x auth_db_scheme"
  assumes "audit_only s t"
  shows "admin_user t = admin_user s" "admin_sessions t = admin_sessions s"
proof -
  obtain row where "t = audit_events_update (\<lambda>_. audit_events s @ [row]) s"
    using assms unfolding audit_only_def by blast
  then show "admin_user t = admin_user s" "admin_sessions t = admin_sessions s" by simp_all
qed

lemma audited_Inr:
  fixes s t :: "'x auth_db_scheme"
  assumes "auth_audit_outcome env now event kind actor outcome md s = Inr t"
  shows "admin_user t = admin_user s \<and> admin_sessions t = admin_sessions s"
  using audit_only_admin [OF auth_audit_Inr [OF assms]] by blast

lemma update_admin_sel [simp]:
  "admin_user (update_admin f s) = map_option f (admin_user s)"
  "admin_sessions (update_admin f s) = admin_sessions s"
  by (simp_all add: update_admin_def)

lemma revoke_sessions_sel [simp]:
  "admin_user (revoke_sessions p now s) = admin_user s"
  "admin_sessions (revoke_sessions p now s) =
     update_where (\<lambda>r. p r \<and> se_revoked r = None) (\<lambda>r. r\<lparr>se_revoked := Some now\<rparr>) (admin_sessions s)"
  by (simp_all add: revoke_sessions_def)

text \<open>A new session row: live, with the version it was given, and expiring in time.\<close>

definition fresh_session :: "auth_service \<Rightarrow> int \<Rightarrow> nanos \<Rightarrow> session \<Rightarrow> session_row \<Rightarrow> bool" where
  "fresh_session svc version now session r \<longleftrightarrow>
     se_public_id r = ss_public session \<and> se_verifier r = as_sha svc (ss_token session)
     \<and> se_version r = version \<and> se_revoked r = None \<and> se_created r = unix_milli now
     \<and> se_seen r = unix_milli now \<and> se_idle r = unix_milli (now + session_idle)
     \<and> se_absolute r = unix_milli (now + session_absolute)
     \<and> ss_created session = now \<and> ss_idle session = now + session_idle
     \<and> ss_absolute session = now + session_absolute"

lemma insert_session_Inr:
  assumes "insert_session svc env version totp ip agent now s = Inr (session, t)"
  obtains r where "admin_sessions t = admin_sessions s @ [r]" "admin_user t = admin_user s"
    "fresh_session svc version now session r" "ss_totp session = totp"
    "se_public_id r \<notin> se_public_id ` set (admin_sessions s)"
    "se_verifier r \<notin> se_verifier ` set (admin_sessions s)"
    "seal (as_cipher svc) (an_csrf_nonce env) (ss_csrf session)
       (aad ''admin_sessions'' (ss_public session) ''csrf_token_enc'') = Inr (se_csrf r)"
    "token_text (an_token env) = Some (ss_token session)"
proof -
  obtain pid token csrf enc where r: "token_text (an_token env) = Some token"
      "seal (as_cipher svc) (an_csrf_nonce env) csrf (aad ''admin_sessions'' pid ''csrf_token_enc'') = Inr enc"
      "pid \<notin> se_public_id ` set (admin_sessions s)" "as_sha svc token \<notin> se_verifier ` set (admin_sessions s)"
      "session = \<lparr>ss_public = pid, ss_token = token, ss_csrf = csrf, ss_created = now,
         ss_idle = now + session_idle, ss_absolute = now + session_absolute, ss_totp = totp\<rparr>"
      "t = s\<lparr>admin_sessions := admin_sessions s @
         [new_session_row svc (next_id se_id (admin_sessions s)) pid token enc version ip agent now]\<rparr>"
    using assms by (auto simp: insert_session_def split: if_splits)
  show ?thesis
    by (rule that [of "new_session_row svc (next_id se_id (admin_sessions s)) pid token enc version ip agent now"])
      (use r in \<open>simp_all add: fresh_session_def new_session_row_def\<close>)
qed

lemma guarded_update_Inr:
  "guarded_update err p f s = Inr t \<longleftrightarrow> (\<exists>a. admin_user s = Some a \<and> p a \<and> t = update_admin f s)"
  by (auto simp: guarded_update_def split: option.splits)

lemma accept_step_Inr:
  assumes "accept_step step now s = Inr t"
  shows "admin_sessions t = admin_sessions s"
    and "admin_user t = map_option (\<lambda>a. case step of None \<Rightarrow> a
      | Some n \<Rightarrow> a\<lparr>ad_last_step := Some n, ad_updated := now\<rparr>) (admin_user s)"
    and "step = Some n \<Longrightarrow> \<exists>a. admin_user s = Some a \<and> (\<forall>u. ad_last_step a = Some u \<longrightarrow> u < n)"
  using assms by (auto simp: accept_step_def option.map_ident split: option.splits if_splits)

lemma record_login_failure_Inr:
  assumes "record_login_failure env now s = Inr t"
  obtains a where "admin_user s = Some a" "admin_sessions t = admin_sessions s"
    "admin_user t = Some (a\<lparr>ad_failed := ad_failed a + 1,
       ad_locked := (if 5 \<le> ad_failed a + 1 then Some (unix_milli (now + lock_delay (ad_failed a + 1))) else None),
       ad_updated := unix_milli now\<rparr>)"
  using assms
  by (auto simp: record_login_failure_def Let_def dest!: audited_Inr split: option.splits)

lemma commit_login_Inr:
  assumes "commit_login svc env admin step ip agent s = Inr (session, t)"
  obtains r where "admin_sessions t = admin_sessions s @ [r]"
    "fresh_session svc (ad_session_version admin) (an_clock env 0) session r"
    "se_public_id r \<notin> se_public_id ` set (admin_sessions s)"
    "se_verifier r \<notin> se_verifier ` set (admin_sessions s)"
    "admin_user t = map_option (\<lambda>a. (case step of None \<Rightarrow> a | Some n \<Rightarrow> a\<lparr>ad_last_step := Some n\<rparr>)
       \<lparr>ad_failed := 0, ad_locked := None, ad_updated := unix_milli (an_clock env 0)\<rparr>) (admin_user s)"
    "\<And>n. step = Some n \<Longrightarrow> \<exists>a. admin_user s = Some a \<and> (\<forall>u. ad_last_step a = Some u \<longrightarrow> u < n)"
    "seal (as_cipher svc) (an_csrf_nonce env) (ss_csrf session)
       (aad ''admin_sessions'' (ss_public session) ''csrf_token_enc'') = Inr (se_csrf r)"
    "token_text (an_token env) = Some (ss_token session)" "ss_totp session = ad_totp_enabled admin"
proof -
  obtain s1 s2 where s1: "accept_step step (unix_milli (an_clock env 0)) s = Inr s1"
    and s2: "insert_session svc env (ad_session_version admin) (ad_totp_enabled admin) ip agent (an_clock env 0)
        (update_admin (\<lambda>a. a\<lparr>ad_failed := 0, ad_locked := None, ad_updated := unix_milli (an_clock env 0)\<rparr>) s1)
      = Inr (session, s2)"
    and t: "admin_user t = admin_user s2" "admin_sessions t = admin_sessions s2"
    using assms by (auto simp: commit_login_def Let_def dest!: audited_Inr)
  note step = accept_step_Inr [OF s1]
  from s2 show ?thesis
  proof (rule insert_session_Inr, unfold update_admin_sel step(1))
    fix r
    assume r: "admin_sessions s2 = admin_sessions s @ [r]"
      "admin_user s2 = map_option (\<lambda>a. a\<lparr>ad_failed := 0, ad_locked := None,
         ad_updated := unix_milli (an_clock env 0)\<rparr>) (admin_user s1)"
      "fresh_session svc (ad_session_version admin) (an_clock env 0) session r"
      "ss_totp session = ad_totp_enabled admin"
      "se_public_id r \<notin> se_public_id ` set (admin_sessions s)" "se_verifier r \<notin> se_verifier ` set (admin_sessions s)"
      "seal (as_cipher svc) (an_csrf_nonce env) (ss_csrf session)
        (aad ''admin_sessions'' (ss_public session) ''csrf_token_enc'') = Inr (se_csrf r)"
      "token_text (an_token env) = Some (ss_token session)"
    have "admin_user t = map_option (\<lambda>a. (case step of None \<Rightarrow> a | Some n \<Rightarrow> a\<lparr>ad_last_step := Some n\<rparr>)
       \<lparr>ad_failed := 0, ad_locked := None, ad_updated := unix_milli (an_clock env 0)\<rparr>) (admin_user s)"
      using t r(2) step(2) by (auto simp: option.map_comp comp_def split: option.split intro!: map_option_cong)
    then show ?thesis using r t step(3) by (intro that [of r]) auto
  qed
qed

lemma rotate_Inr:
  assumes "update_and_rotate svc env now audit_now current ip agent event (\<lambda>version ms. guarded_update err (p version ms) (f version ms)) s
      = Inr (session, t)"
  obtains a r where "admin_user s = Some a" "p (ad_session_version a + 1) (unix_milli now) a"
    "admin_user t = Some (f (ad_session_version a + 1) (unix_milli now) a)"
    "admin_sessions t = update_where (\<lambda>r. se_revoked r = None) (\<lambda>r. r\<lparr>se_revoked := Some (unix_milli now)\<rparr>)
       (admin_sessions s) @ [r]"
    "fresh_session svc (ad_session_version a + 1) now session r"
    "se_public_id r \<notin> se_public_id ` set (admin_sessions s)"
    "se_verifier r \<notin> se_verifier ` set (admin_sessions s)"
    "seal (as_cipher svc) (an_csrf_nonce env) (ss_csrf session)
       (aad ''admin_sessions'' (ss_public session) ''csrf_token_enc'') = Inr (se_csrf r)"
    "token_text (an_token env) = Some (ss_token session)"
proof -
  obtain a where a: "admin_user s = Some a" using assms by (auto simp: update_and_rotate_def split: option.splits)
  define revoked where "revoked s = revoke_sessions (\<lambda>r. se_public_id r = ss_public current) (unix_milli now)
      (revoke_sessions (\<lambda>r. se_public_id r \<noteq> ss_public current) (unix_milli now) s)" for s :: "'a auth_db_scheme"
  have both: "admin_sessions (revoked s) = update_where (\<lambda>r. se_revoked r = None)
      (\<lambda>r. r\<lparr>se_revoked := Some (unix_milli now)\<rparr>) (admin_sessions s)" for s
    by (simp add: revoked_def update_where_def)
  obtain s1 rot s4 where s1: "p (ad_session_version a + 1) (unix_milli now) a"
      "s1 = update_admin (f (ad_session_version a + 1) (unix_milli now)) s"
    and s4: "insert_session svc env (ad_session_version a + 1) False ip agent now (revoked s1) = Inr (rot, s4)"
    and rest: "(case admin_user s4 of None \<Rightarrow> Inl AdminFailure
      | Some b \<Rightarrow> let rotated = rot\<lparr>ss_totp := ad_totp_enabled b\<rparr> in
          and_then (auth_audit env audit_now event ''admin_session'' (ss_public rotated)
            [(''sessions_rotated'', MetaFlag True)] s4) (\<lambda>t. Inr (rotated, t))) = Inr (session, t)"
    using assms a by (auto simp: update_and_rotate_def Let_def guarded_update_Inr revoked_def)
  from rest obtain b where b: "session = rot\<lparr>ss_totp := b\<rparr>" "admin_user t = admin_user s4" "admin_sessions t = admin_sessions s4"
    by (auto simp: Let_def dest!: audited_Inr split: option.splits)
  from s4 show ?thesis
  proof (rule insert_session_Inr)
    fix r
    assume r: "admin_sessions s4 = admin_sessions (revoked s1) @ [r]" "admin_user s4 = admin_user (revoked s1)"
      "fresh_session svc (ad_session_version a + 1) now rot r"
      "se_public_id r \<notin> se_public_id ` set (admin_sessions (revoked s1))"
      "se_verifier r \<notin> se_verifier ` set (admin_sessions (revoked s1))"
      "seal (as_cipher svc) (an_csrf_nonce env) (ss_csrf rot)
        (aad ''admin_sessions'' (ss_public rot) ''csrf_token_enc'') = Inr (se_csrf r)"
      "token_text (an_token env) = Some (ss_token rot)"
    have user: "admin_user (revoked s1) = Some (f (ad_session_version a + 1) (unix_milli now) a)"
      using s1 a by (simp add: revoked_def)
    have sessions: "admin_sessions (revoked s1) = update_where (\<lambda>r. se_revoked r = None)
        (\<lambda>r. r\<lparr>se_revoked := Some (unix_milli now)\<rparr>) (admin_sessions s)"
      by (simp add: both s1(2))
    have keys: "se_public_id ` set (admin_sessions (revoked s1)) = se_public_id ` set (admin_sessions s)"
        "se_verifier ` set (admin_sessions (revoked s1)) = se_verifier ` set (admin_sessions s)"
      unfolding sessions list.set_map [symmetric] by (simp_all add: update_where_keys)
    show ?thesis
      by (rule that [OF a s1(1)]) (use r user sessions keys b in \<open>simp_all add: fresh_session_def\<close>)
  qed
qed

definition touch_session :: "nanos \<Rightarrow> session_row \<Rightarrow> 'x auth_db_scheme \<Rightarrow> 'x auth_db_scheme" where
  "touch_session now row s =
     s\<lparr>admin_sessions := update_where (\<lambda>x. se_public_id x = se_public_id row \<and> se_revoked x = None)
        (\<lambda>x. x\<lparr>se_seen := unix_milli now,
               se_idle := unix_milli (min (now + session_idle) (se_absolute row * millisecond))\<rparr>) (admin_sessions s)\<rparr>"

lemma authenticate_session_effect:
  assumes "authenticate_session svc raw now s = (t, r)"
  shows "t = s \<or> (\<exists>pid. t = revoke_sessions (\<lambda>x. se_public_id x = pid) (unix_milli now) s)
    \<or> (\<exists>row \<in> set (admin_sessions s). t = touch_session now row s)"
proof (cases "row_by se_verifier (as_sha svc raw) (admin_sessions s)")
  case None
  then have "t = s" using assms by (simp add: authenticate_session_def split: if_splits)
  then show ?thesis by blast
next
  case (Some row)
  then have row: "row \<in> set (admin_sessions s)" by (auto dest: row_by_Some)
  show ?thesis
  proof (cases "admin_user s")
    case None
    then have "t = s" using assms Some by (simp add: authenticate_session_def split: if_splits)
    then show ?thesis by blast
  next
    case (Some a)
    note found = \<open>row_by se_verifier (as_sha svc raw) (admin_sessions s) = Some row\<close> Some
    show ?thesis
    proof (cases "open_envelope (as_cipher svc) (se_csrf row) (aad ''admin_sessions'' (se_public_id row) ''csrf_token_enc'')")
      case (Inl e)
      then show ?thesis using assms found
        by (auto simp: authenticate_session_def Let_def split: if_splits)
    next
      case (Inr csrf)
      then show ?thesis using assms found row
        by (auto simp: authenticate_session_def touch_session_def Let_def split: if_splits)
    qed
  qed
qed

lemma setup_totp_Inr:
  assumes "setup_totp svc env session password snapshot s = Inr (x, t)"
  obtains enc e u where "admin_sessions t = admin_sessions s"
    "admin_user t = map_option (\<lambda>a. a\<lparr>ad_pending_secret := enc, ad_pending_expires := e, ad_updated := u\<rparr>) (admin_user s)"
  using assms by (auto simp: setup_totp_def Let_def dest!: audited_Inr split: option.splits)

lemma confirm_totp_Inr:
  assumes "confirm_totp svc env session code ip agent snapshot s = Inr (x, t)"
  obtains admin secret enc step where "snapshot = Some admin"
    "open_envelope (as_cipher svc) (sealed (ad_pending_secret admin)) (aad ''admin_user'' ''1'' ''totp_pending_secret_enc'') = Inr secret"
    "validate_totp (as_code svc) secret code (an_clock env 1) = Some step"
    "update_and_rotate svc env (an_clock env 2) (unix_milli (an_clock env 3)) session ip agent ''admin.totp_enabled''
       (\<lambda>version now. guarded_update TOTPNotPending
          (still_pending admin version now) (confirmed_totp enc step version now)) s = Inr (x, t)"
  using assms
  by (auto simp: confirm_totp_def split: option.splits sum.splits if_splits)

lemma disable_totp_Inr:
  assumes "disable_totp svc env session password code ip agent snapshot s = Inr (x, t)"
  obtains admin where "snapshot = Some admin" "verify_password (as_argon svc) password (ad_password admin) = Inr True"
    "update_and_rotate svc env (an_clock env 1) (unix_milli (an_clock env 2)) session ip agent ''admin.totp_disabled''
       (\<lambda>version now. guarded_update TOTPReplay
          (still_enrolled admin version)
          (disabled_totp version now)) s = Inr (x, t)"
  using assms
  by (auto simp: disable_totp_def check_password_def
      split: option.splits sum.splits if_splits)

lemma change_password_Inr:
  assumes "change_password svc env session old new ip agent snapshot s = Inr (x, t)"
  obtains admin phc where "snapshot = Some admin" "verify_password (as_argon svc) old (ad_password admin) = Inr True"
    "hash_password (as_argon svc) (as_params svc) (an_salt env) new = Inr phc"
    "update_and_rotate svc env (an_clock env 0) (unix_milli (an_clock env 1)) session ip agent ''admin.password_changed''
       (\<lambda>version now. guarded_update InvalidCredentials
          (same_password admin version)
          (changed_password phc version now)) s = Inr (x, t)"
  using assms
  by (auto simp: change_password_def check_password_def split: option.splits if_splits)

lemma reset_password_Inr:
  assumes "reset_password svc env file disable s = Inr t"
  obtains a phc where "admin_user s = Some a" "admin_user t = Some (reset_admin disable phc (unix_milli (an_clock env 0)) a)"
    "admin_sessions t = update_where (\<lambda>r. se_revoked r = None)
       (\<lambda>r. r\<lparr>se_revoked := Some (unix_milli (an_clock env 0))\<rparr>) (admin_sessions s)"
  using assms by (auto simp: reset_password_def Let_def guarded_update_Inr dest!: audited_Inr)

lemma logout_Inr:
  assumes "logout env session s = Inr t"
  shows "admin_user t = admin_user s"
    "admin_sessions t = update_where (\<lambda>r. se_public_id r = ss_public session \<and> se_revoked r = None)
       (\<lambda>r. r\<lparr>se_revoked := Some (unix_milli (an_clock env 0))\<rparr>) (admin_sessions s)"
  using audited_Inr [OF assms [unfolded logout_def]] by simp_all

lemma bootstrap_Inr:
  assumes "bootstrap svc env path file seen s = Inr (made, t)"
  shows "admin_sessions t = admin_sessions s" "admin_user s \<noteq> None \<Longrightarrow> admin_user t = admin_user s"
  using assms by (auto simp: bootstrap_def Let_def dest!: audited_Inr split: if_splits)

subsection \<open>The operations as steps\<close>

text \<open>
  Every request of any caller, at the granularity of its transactions: a snapshot is whatever row
  was read before, a commit of a login whatever its checks accepted.  \<open>login_step\<close> leaves the
  enrolment of one-time codes alone.
\<close>

inductive login_step :: "auth_service \<Rightarrow> 'x auth_db_scheme \<Rightarrow> 'x auth_db_scheme \<Rightarrow> bool" for svc where
  failed: "record_login_failure env now s = Inr t \<Longrightarrow> login_step svc s t"
| logged_in: "commit_login svc env admin step ip agent s = Inr (session, t) \<Longrightarrow> login_step svc s t"
| used: "authenticate_session svc raw now s = (t, r) \<Longrightarrow> login_step svc s t"
| logged_out: "logout env session s = Inr t \<Longrightarrow> login_step svc s t"
| set_up: "setup_totp svc env session password snapshot s = Inr (x, t) \<Longrightarrow> login_step svc s t"
| changed: "change_password svc env session old new ip agent snapshot s = Inr (x, t) \<Longrightarrow> login_step svc s t"
| reset: "reset_password svc env file False s = Inr t \<Longrightarrow> login_step svc s t"

inductive auth_step :: "auth_service \<Rightarrow> 'x auth_db_scheme \<Rightarrow> 'x auth_db_scheme \<Rightarrow> bool" for svc where
  stepped: "login_step svc s t \<Longrightarrow> auth_step svc s t"
| confirmed: "confirm_totp svc env session code ip agent snapshot s = Inr (x, t) \<Longrightarrow> auth_step svc s t"
| disabled: "disable_totp svc env session password code ip agent snapshot s = Inr (x, t) \<Longrightarrow> auth_step svc s t"
| reset_totp: "reset_password svc env file True s = Inr t \<Longrightarrow> auth_step svc s t"
| bootstrapped: "bootstrap svc env path file seen s = Inr (made, t) \<Longrightarrow> auth_step svc s t"

text \<open>What a session row keeps for ever, and the limits of its life.\<close>

definition session_bounds :: "session_row \<Rightarrow> bool" where
  "session_bounds r \<longleftrightarrow> se_absolute r = se_created r + 7 * 24 * 3600000
     \<and> se_idle r \<le> se_absolute r \<and> se_idle r \<le> se_seen r + 12 * 3600000"

definition session_kept :: "session_row \<Rightarrow> session_row \<Rightarrow> bool" where
  "session_kept r r' \<longleftrightarrow> se_public_id r' = se_public_id r \<and> se_verifier r' = se_verifier r
     \<and> se_version r' = se_version r \<and> se_created r' = se_created r \<and> se_absolute r' = se_absolute r
     \<and> se_csrf r' = se_csrf r \<and> (se_revoked r \<noteq> None \<longrightarrow> se_revoked r' = se_revoked r)
     \<and> (session_bounds r \<longrightarrow> session_bounds r')"

lemma session_kept_refl [simp]: "session_kept r r"
  by (simp add: session_kept_def)

lemma session_kept_trans: "session_kept a b \<Longrightarrow> session_kept b c \<Longrightarrow> session_kept a c"
  by (auto simp: session_kept_def)

lemma session_kept_revoke: "se_revoked r = None \<Longrightarrow> session_kept r (r\<lparr>se_revoked := x\<rparr>)"
  by (simp add: session_kept_def session_bounds_def)

lemma unix_milli_add: "unix_milli (t + k * millisecond) = unix_milli t + k"
  by (simp add: unix_milli_def)

lemma session_kept_touch:
  assumes "se_absolute r = se_absolute row" "se_revoked r = None"
  shows "session_kept r (r\<lparr>se_seen := unix_milli now,
    se_idle := unix_milli (min (now + session_idle) (se_absolute row * millisecond))\<rparr>)"
proof -
  have "unix_milli (min (now + session_idle) (se_absolute row * millisecond)) =
      min (unix_milli now + 12 * 3600000) (se_absolute row)"
    using unix_milli_add [of now "12 * 3600000"] unix_milli_add [of 0 "se_absolute row"]
      unix_milli_mono [of "now + session_idle" "se_absolute row * millisecond"]
      unix_milli_mono [of "se_absolute row * millisecond" "now + session_idle"]
    by (auto simp: min_def unix_milli_def)
  with assms show ?thesis by (simp add: session_kept_def session_bounds_def)
qed

lemma fresh_session_bounds: "fresh_session svc version now session r \<Longrightarrow> session_bounds r"
  using unix_milli_add [of now "7 * 24 * 3600000"] unix_milli_add [of now "12 * 3600000"]
  by (simp add: fresh_session_def session_bounds_def)

definition sessions_ok :: "'x auth_db_scheme \<Rightarrow> bool" where
  "sessions_ok s \<longleftrightarrow> distinct (map se_verifier (admin_sessions s)) \<and> distinct (map se_public_id (admin_sessions s))
     \<and> (\<forall>r \<in> set (admin_sessions s). session_bounds r)"

text \<open>What every step does to the sessions and to the version of the administrator.\<close>

definition sessions_step :: "'x auth_db_scheme \<Rightarrow> 'x auth_db_scheme \<Rightarrow> bool" where
  "sessions_step s t \<longleftrightarrow> (\<exists>old new. admin_sessions t = old @ new \<and> list_all2 session_kept (admin_sessions s) old
       \<and> (\<forall>r \<in> set new. session_bounds r \<and> se_verifier r \<notin> se_verifier ` set (admin_sessions s)
           \<and> se_public_id r \<notin> se_public_id ` set (admin_sessions s)) \<and> length new \<le> 1)
     \<and> (\<forall>a. admin_user s = Some a \<longrightarrow>
         (\<exists>b. admin_user t = Some b \<and> ad_session_version a \<le> ad_session_version b))"

lemma sessions_step_updated:
  assumes "admin_sessions t = update_where p f (admin_sessions s)"
    and "\<And>r. r \<in> set (admin_sessions s) \<Longrightarrow> p r \<Longrightarrow> session_kept r (f r)"
    and "\<And>a. admin_user s = Some a \<Longrightarrow> \<exists>b. admin_user t = Some b \<and> ad_session_version a \<le> ad_session_version b"
  shows "sessions_step s t"
proof -
  have "list_all2 session_kept rows (update_where p f rows)" if "set rows \<subseteq> set (admin_sessions s)" for rows
    using that assms(2) by (induction rows) (auto simp: update_where_def)
  then have "list_all2 session_kept (admin_sessions s) (admin_sessions t)" by (simp add: assms(1))
  then show ?thesis unfolding sessions_step_def using assms(3) by (intro conjI exI [of _ "admin_sessions t"] exI [of _ "[]"]) auto
qed

lemma sessions_step_same:
  assumes "admin_sessions t = admin_sessions s"
    and "\<And>a. admin_user s = Some a \<Longrightarrow> \<exists>b. admin_user t = Some b \<and> ad_session_version a \<le> ad_session_version b"
  shows "sessions_step s t"
  by (rule sessions_step_updated [of t "\<lambda>_. False" id]) (use assms in \<open>auto simp: update_where_def\<close>)

lemma sessions_step_appended:
  assumes "admin_sessions t = update_where p f (admin_sessions s) @ [r]" "\<And>r. p r \<Longrightarrow> session_kept r (f r)"
    and "session_bounds r" "se_verifier r \<notin> se_verifier ` set (admin_sessions s)"
    and "se_public_id r \<notin> se_public_id ` set (admin_sessions s)"
    and "\<And>a. admin_user s = Some a \<Longrightarrow> \<exists>b. admin_user t = Some b \<and> ad_session_version a \<le> ad_session_version b"
  shows "sessions_step s t"
  unfolding sessions_step_def
  by (intro conjI allI exI [of _ "update_where p f (admin_sessions s)"] exI [of _ "[r]"] impI)
    (use assms in \<open>auto intro: list_all2_updated\<close>)

lemma update_where_none: "update_where (\<lambda>_. False) f rows = rows"
  by (simp add: update_where_def)

lemma commit_login_step:
  assumes "commit_login svc env admin step ip agent s = Inr (session, t)"
  shows "sessions_step s t"
  using assms
proof (rule commit_login_Inr)
  fix r
  assume r: "admin_sessions t = admin_sessions s @ [r]" "fresh_session svc (ad_session_version admin) (an_clock env 0) session r"
    "se_public_id r \<notin> se_public_id ` set (admin_sessions s)" "se_verifier r \<notin> se_verifier ` set (admin_sessions s)"
    "admin_user t = map_option (\<lambda>a. (case step of None \<Rightarrow> a | Some n \<Rightarrow> a\<lparr>ad_last_step := Some n\<rparr>)
       \<lparr>ad_failed := 0, ad_locked := None, ad_updated := unix_milli (an_clock env 0)\<rparr>) (admin_user s)"
  show ?thesis
    by (rule sessions_step_appended [of t "\<lambda>_. False" id s r])
      (use r fresh_session_bounds in \<open>auto simp: update_where_none split: option.split\<close>)
qed

lemma rotate_step:
  assumes "update_and_rotate svc env now audit_now current ip agent event (\<lambda>version ms. guarded_update err (p version ms) (f version ms)) s
      = Inr (session, t)"
    and "\<And>version ms a. ad_session_version (f version ms a) = version"
  shows "sessions_step s t"
  using assms(1)
proof (rule rotate_Inr)
  fix a r
  assume r: "admin_user s = Some a" "admin_user t = Some (f (ad_session_version a + 1) (unix_milli now) a)"
    "admin_sessions t = update_where (\<lambda>r. se_revoked r = None) (\<lambda>r. r\<lparr>se_revoked := Some (unix_milli now)\<rparr>)
       (admin_sessions s) @ [r]"
    "fresh_session svc (ad_session_version a + 1) now session r"
    "se_public_id r \<notin> se_public_id ` set (admin_sessions s)" "se_verifier r \<notin> se_verifier ` set (admin_sessions s)"
  show ?thesis
    by (rule sessions_step_appended [OF r(3)])
      (use r assms(2) fresh_session_bounds session_kept_revoke in auto)
qed

lemma reset_password_step:
  assumes "reset_password svc env file disable s = Inr t"
  shows "sessions_step s t"
  using assms
proof (rule reset_password_Inr)
  fix a phc
  assume r: "admin_user s = Some a" "admin_user t = Some (reset_admin disable phc (unix_milli (an_clock env 0)) a)"
    "admin_sessions t = update_where (\<lambda>r. se_revoked r = None)
       (\<lambda>r. r\<lparr>se_revoked := Some (unix_milli (an_clock env 0))\<rparr>) (admin_sessions s)"
  show ?thesis
    by (rule sessions_step_updated [OF r(3)]) (use r session_kept_revoke in \<open>auto simp: reset_admin_def Let_def\<close>)
qed

lemma authenticate_session_step:
  assumes "sessions_ok s" "authenticate_session svc raw now s = (t, r)"
  shows "sessions_step s t"
  using authenticate_session_effect [OF assms(2)]
proof (elim disjE exE bexE)
  assume "t = s"
  then show ?thesis by (simp add: sessions_step_same)
next
  fix pid
  assume t: "t = revoke_sessions (\<lambda>x. se_public_id x = pid) (unix_milli now) s"
  show ?thesis
    by (rule sessions_step_updated [of t "\<lambda>r. se_public_id r = pid \<and> se_revoked r = None"
          "\<lambda>r. r\<lparr>se_revoked := Some (unix_milli now)\<rparr>" s])
      (use t session_kept_revoke in auto)
next
  fix row
  assume row: "row \<in> set (admin_sessions s)" and t: "t = touch_session now row s"
  have same: "r = row" if "r \<in> set (admin_sessions s)" "se_public_id r = se_public_id row" for r
    using assms(1) that row by (auto simp: sessions_ok_def distinct_map inj_on_def)
  have sess: "admin_sessions t = update_where (\<lambda>x. se_public_id x = se_public_id row \<and> se_revoked x = None)
      (\<lambda>x. x\<lparr>se_seen := unix_milli now,
             se_idle := unix_milli (min (now + session_idle) (se_absolute row * millisecond))\<rparr>) (admin_sessions s)"
    and user: "admin_user t = admin_user s"
    by (simp_all add: t touch_session_def)
  show ?thesis by (rule sessions_step_updated [OF sess]) (use same session_kept_touch user in auto)
qed

lemma login_step_sessions:
  assumes "sessions_ok s" "login_step svc s t"
  shows "sessions_step s t"
  using assms(2)
proof cases
  case (failed env now)
  then show ?thesis by (rule record_login_failure_Inr) (auto intro: sessions_step_same)
next
  case (logged_in env admin step ip agent session)
  then show ?thesis by (rule commit_login_step)
next
  case (used raw now r)
  with assms(1) show ?thesis by (rule authenticate_session_step)
next
  case (logged_out env session)
  note out = logout_Inr [OF this]
  show ?thesis by (rule sessions_step_updated [OF out(2)]) (auto simp: out(1) session_kept_revoke)
next
  case (set_up env session password snapshot x)
  then show ?thesis by (rule setup_totp_Inr) (auto intro: sessions_step_same)
next
  case (changed env session old new ip agent snapshot x)
  then show ?thesis by (rule change_password_Inr) (erule rotate_step, simp add: changed_password_def)
next
  case (reset env content)
  then show ?thesis by (rule reset_password_step)
qed

lemma auth_step_sessions:
  assumes "sessions_ok s" "auth_step svc s t"
  shows "sessions_step s t"
  using assms(2)
proof cases
  case stepped
  with assms(1) show ?thesis by (rule login_step_sessions)
next
  case (confirmed env session code ip agent snapshot x)
  then show ?thesis by (rule confirm_totp_Inr) (erule rotate_step, simp add: confirmed_totp_def)
next
  case (disabled env session password code ip agent snapshot x)
  then show ?thesis by (rule disable_totp_Inr) (erule rotate_step, simp add: disabled_totp_def)
next
  case (reset_totp env content)
  then show ?thesis by (rule reset_password_step)
next
  case (bootstrapped env path content seen made)
  then show ?thesis using bootstrap_Inr [OF bootstrapped] by (auto intro: sessions_step_same)
qed

lemma sessions_step_ok:
  assumes "sessions_ok s" "sessions_step s t"
  shows "sessions_ok t"
proof -
  obtain old new where new: "admin_sessions t = old @ new" "list_all2 session_kept (admin_sessions s) old"
      "\<forall>r \<in> set new. session_bounds r \<and> se_verifier r \<notin> se_verifier ` set (admin_sessions s)
         \<and> se_public_id r \<notin> se_public_id ` set (admin_sessions s)" "length new \<le> 1"
    using assms(2) by (auto simp: sessions_step_def)
  from new(2) have keys: "map se_verifier old = map se_verifier (admin_sessions s)
      \<and> map se_public_id old = map se_public_id (admin_sessions s)"
    by (induction rule: list_all2_induct) (auto simp: session_kept_def)
  from new(2) have bounds: "(\<forall>r \<in> set (admin_sessions s). session_bounds r) \<longrightarrow> (\<forall>r \<in> set old. session_bounds r)"
    by (induction rule: list_all2_induct) (auto simp: session_kept_def)
  have images: "se_verifier ` set old = se_verifier ` set (admin_sessions s)"
      "se_public_id ` set old = se_public_id ` set (admin_sessions s)"
    using keys by (metis list.set_map)+
  have old: "distinct (map se_verifier old)" "distinct (map se_public_id old)" "\<forall>r \<in> set old. session_bounds r"
    using assms(1) keys bounds by (simp_all add: sessions_ok_def)
  from new(4) consider "new = []" | r where "new = [r]" by (cases new) auto
  then show ?thesis by cases (use new(1,3) old images in \<open>auto simp: sessions_ok_def\<close>)
qed

interpretation session_history: history admin_sessions session_kept "auth_step svc" sessions_ok for svc
proof
  show "sessions_ok t" if "sessions_ok s" "auth_step svc s t" for s t :: "'a auth_db_scheme"
    using that sessions_step_ok auth_step_sessions by blast
  show "\<exists>old new. admin_sessions t = old @ new \<and> list_all2 session_kept (admin_sessions s) old"
    if "sessions_ok s" "auth_step svc s t" for s t :: "'a auth_db_scheme"
    using auth_step_sessions [OF that] by (auto simp: sessions_step_def)
qed (auto intro: session_kept_trans)

end
