(* ===== verification/Admin_Sessions.thy ===== *)
theory Admin_Sessions
  imports Admin_Auth_Facts
begin

text \<open>
  The promises of the administrator's authentication over any sequence of requests, as theorems on
  the steps of \<open>Admin_Auth_Facts\<close>.
\<close>

subsection \<open>Sessions that have ended\<close>

lemma sessions_step_version:
  assumes "sessions_step s t" "admin_user s = Some a"
  obtains b where "admin_user t = Some b" "ad_session_version a \<le> ad_session_version b"
  using assms by (auto simp: sessions_step_def)

lemma auth_steps_version:
  assumes "(auth_step svc)\<^sup>*\<^sup>* s t" "sessions_ok s" "admin_user s = Some a"
  shows "\<exists>b. admin_user t = Some b \<and> ad_session_version a \<le> ad_session_version b"
  using assms
proof (induction rule: rtranclp_induct)
  case (step t u)
  then obtain b where b: "admin_user t = Some b" "ad_session_version a \<le> ad_session_version b" by blast
  have "sessions_ok t" using session_history.steps_good [OF step.hyps(1) step.prems(1)] .
  from sessions_step_version [OF auth_step_sessions [OF this step.hyps(2)] b(1)] b(2) show ?case
    by (metis order_trans)
qed simp

definition session_ended :: "nanos \<Rightarrow> admin_row option \<Rightarrow> session_row \<Rightarrow> bool" where
  "session_ended now admin r \<longleftrightarrow> se_revoked r \<noteq> None \<or> se_absolute r \<le> unix_milli now
     \<or> (\<exists>a. admin = Some a \<and> se_version r < ad_session_version a)"

lemma ended_not_authenticated:
  assumes "sessions_ok s" "r \<in> set (admin_sessions s)" "se_verifier r = as_sha svc raw"
    and "session_ended now (admin_user s) r"
  shows "snd (authenticate_session svc raw now s) = Inl NoSession"
proof -
  have "row_by se_verifier (as_sha svc raw) (admin_sessions s) = Some r"
    using row_by_unique [of se_verifier "admin_sessions s" r] assms(1-3) by (simp add: sessions_ok_def)
  then show ?thesis
    using assms(4) by (cases "admin_user s") (auto simp: authenticate_session_def session_ended_def)
qed

text \<open>
  A session that has ended never comes back: once it is revoked, belongs to an older version of the
  administrator or is past its absolute expiry, its token authenticates in no state that any
  requests lead to afterwards.
\<close>

theorem ended_session_stays_ended:
  assumes "sessions_ok s" "r \<in> set (admin_sessions s)" "se_verifier r = as_sha svc raw"
    and "session_ended now (admin_user s) r" "(auth_step svc)\<^sup>*\<^sup>* s t" "now \<le> later"
  shows "snd (authenticate_session svc raw later t) = Inl NoSession"
proof -
  obtain r' where r': "r' \<in> set (admin_sessions t)" "session_kept r r'"
    using session_history.row_kept [OF assms(5,1,2)] by blast
  have ok: "sessions_ok t" using session_history.steps_good [OF assms(5,1)] .
  have "session_ended later (admin_user t) r'"
    using assms(4) r'(2) auth_steps_version [OF assms(5,1)] unix_milli_mono [OF assms(6)]
    by (fastforce simp: session_ended_def session_kept_def)
  then show ?thesis using ended_not_authenticated [OF ok r'(1), of svc raw later] r'(2) assms(3)
    by (simp add: session_kept_def)
qed

definition sample_service :: auth_service where
  "sample_service =
     \<lparr>as_cipher = tag_cipher, as_argon = sample_argon, as_params = default_params 2, as_sha = rev,
      as_code = (\<lambda>secret t. Some (if t = 0 then ''000000'' else if t = 30 then ''000030'' else ''999999'')),
      as_ip_prefix = id, as_binding = id, as_label = ''admin''\<rparr>"

definition sample_session :: "int \<Rightarrow> string \<Rightarrow> session_row" where
  "sample_session i raw =
     \<lparr>se_id = i, se_public_id = show_int i, se_verifier = rev raw, se_csrf = ''c'', se_version = 1,
      se_created = 0, se_seen = 0, se_idle = 43200000, se_absolute = 604800000, se_ip = [], se_agent = [],
      se_revoked = None\<rparr>"

definition sample_admin :: "string \<Rightarrow> admin_row" where
  "sample_admin phc =
     \<lparr>ad_password = phc, ad_totp_secret = None, ad_pending_secret = None, ad_pending_expires = None,
      ad_totp_enabled = False, ad_last_step = None, ad_session_version = 1, ad_failed = 0,
      ad_locked = None, ad_created = 0, ad_updated = 0\<rparr>"

definition sample_auth :: "string \<Rightarrow> session_row list \<Rightarrow> auth_db" where
  "sample_auth phc rows = control_db.extend (db.extend
     \<lparr>proxies = [], upstreams = [], accounts = [], routes = [], candidates = [], runtimes = []\<rparr>
     (control_db.fields [] [] [] None [])) (auth_db.fields (Some (sample_admin phc)) rows)"

definition sample_auth_env :: auth_env where
  "sample_auth_env =
     \<lparr>an_clock = (\<lambda>_. 0), an_session = Some ''session'', an_token = Some (replicate 32 (CHR ''t'')),
      an_csrf = Some (replicate 32 (CHR ''c'')), an_csrf_nonce = Some (replicate 12 (CHR ''n'')),
      an_audit = Some ''audit'', an_secret = None, an_secret_nonce = None,
      an_salt = Some ''0123456789abcdef'', an_busy = 0\<rparr>"

lemma sample_sessions_ok: "sessions_ok (sample_auth phc [sample_session 1 ''a'', sample_session 2 ''b''])"
  by (simp add: sessions_ok_def sample_auth_def sample_session_def session_bounds_def show_int_def show_nat.simps
      db.defs control_db.defs auth_db.defs digit_char_def)

abbreviation "sample_two \<equiv> sample_auth ''phc'' [sample_session 1 ''a'', sample_session 2 ''b'']"

lemma sample_logout:
  "\<exists>t. logout sample_auth_env \<lparr>ss_public = ''1'', ss_token = ''a'', ss_csrf = ''c'', ss_created = 0, ss_idle = 0,
     ss_absolute = 0, ss_totp = False\<rparr> sample_two = Inr t"
proof -
  have "\<not> isl (logout sample_auth_env \<lparr>ss_public = ''1'', ss_token = ''a'', ss_csrf = ''c'', ss_created = 0, ss_idle = 0,
     ss_absolute = 0, ss_totp = False\<rparr> sample_two)"
    by code_simp
  then show ?thesis by (metis isl_def sum.exhaust)
qed

theorem ended_session_stays_ended_witness:
  "\<exists>t. auth_step sample_service sample_two t
    \<and> snd (authenticate_session sample_service ''b'' (8 * 24 * hour) t) = Inl NoSession"
proof -
  obtain t where t: "auth_step sample_service sample_two t"
    using sample_logout login_step.logged_out auth_step.stepped by metis
  have "sample_session 2 ''b'' \<in> set (admin_sessions sample_two)" by (simp add: sample_auth_def auth_db.defs db.defs control_db.defs)
  moreover have "se_verifier (sample_session 2 ''b'') = as_sha sample_service ''b''"
    by (simp add: sample_session_def sample_service_def)
  moreover have "session_ended (7 * 24 * hour) (admin_user sample_two) (sample_session 2 ''b'')"
    by (simp add: session_ended_def sample_session_def unix_milli_def)
  moreover have "(auth_step sample_service)\<^sup>*\<^sup>* sample_two t" using t by blast
  ultimately have "snd (authenticate_session sample_service ''b'' (8 * 24 * hour) t) = Inl NoSession"
    by (rule ended_session_stays_ended [OF sample_sessions_ok]) simp
  with t show ?thesis by blast
qed

inductive security_change :: "auth_service \<Rightarrow> 'x auth_db_scheme \<Rightarrow> 'x auth_db_scheme \<Rightarrow> bool" for svc where
  changed: "change_password svc env session old new ip agent snapshot s = Inr (x, t) \<Longrightarrow> security_change svc s t"
| confirmed: "confirm_totp svc env session code ip agent snapshot s = Inr (x, t) \<Longrightarrow> security_change svc s t"
| disabled: "disable_totp svc env session password code ip agent snapshot s = Inr (x, t) \<Longrightarrow> security_change svc s t"
| reset: "reset_password svc env content disable s = Inr t \<Longrightarrow> security_change svc s t"

lemma security_change_step:
  assumes "security_change svc s t"
  shows "auth_step svc s t"
  using assms
proof cases
  case (reset env content disable)
  then show ?thesis by (cases disable) (auto intro: auth_step.intros login_step.reset)
qed (auto intro: auth_step.intros login_step.changed)

lemma update_where_revokes:
  assumes "r \<in> set rows"
  shows "\<exists>r' \<in> set (update_where (\<lambda>r. se_revoked r = None) (\<lambda>r. r\<lparr>se_revoked := Some now\<rparr>) rows).
    se_verifier r' = se_verifier r \<and> se_revoked r' \<noteq> None"
proof -
  let ?r = "if se_revoked r = None then r\<lparr>se_revoked := Some now\<rparr> else r"
  have "?r \<in> set (update_where (\<lambda>r. se_revoked r = None) (\<lambda>r. r\<lparr>se_revoked := Some now\<rparr>) rows)"
    using assms unfolding update_where_def set_map by (rule image_eqI [OF refl])
  then show ?thesis by (rule rev_bexI) simp
qed

lemma security_change_revokes:
  assumes "security_change svc s t" "r \<in> set (admin_sessions s)"
  shows "\<exists>r' \<in> set (admin_sessions t). se_verifier r' = se_verifier r \<and> se_revoked r' \<noteq> None"
proof -
  have rotated: "\<exists>r' \<in> set (admin_sessions t). se_verifier r' = se_verifier r \<and> se_revoked r' \<noteq> None"
    if "update_and_rotate svc env now audit_now current ip agent event
        (\<lambda>version ms. guarded_update err (p version ms) (f version ms)) s = Inr (x, t)"
    for env now audit_now current ip agent event err p f x
    using that by (rule rotate_Inr) (use update_where_revokes [OF assms(2)] in auto)
  from assms(1) show ?thesis
  proof cases
    case (changed env session old new ip agent snapshot x)
    then show ?thesis by (rule change_password_Inr) (erule rotated)
  next
    case (confirmed env session code ip agent snapshot x)
    then show ?thesis by (rule confirm_totp_Inr) (erule rotated)
  next
    case (disabled env session password code ip agent snapshot x)
    then show ?thesis by (rule disable_totp_Inr) (erule rotated)
  next
    case (reset env content disable)
    then show ?thesis by (rule reset_password_Inr) (use update_where_revokes [OF assms(2)] in auto)
  qed
qed

text \<open>
  C29: A change of the password or of the one-time codes, and the operator's reset, end every session
  there was: whoever held a token before is out, in every later state, whatever else was going on.
\<close>

theorem security_change_ends_sessions:
  assumes "sessions_ok s" "security_change svc s t" "r \<in> set (admin_sessions s)" "se_verifier r = as_sha svc raw"
    and "(auth_step svc)\<^sup>*\<^sup>* t u"
  shows "snd (authenticate_session svc raw now u) = Inl NoSession"
proof -
  obtain r1 where r1: "r1 \<in> set (admin_sessions t)" "se_verifier r1 = se_verifier r" "se_revoked r1 \<noteq> None"
    using security_change_revokes [OF assms(2,3)] by blast
  have t: "sessions_ok t" using session_history.step_good [OF assms(1) security_change_step [OF assms(2)]] .
  obtain r2 where r2: "r2 \<in> set (admin_sessions u)" "session_kept r1 r2"
    using session_history.row_kept [OF assms(5) t r1(1)] by blast
  have "session_ended now (admin_user u) r2" using r1(3) r2(2) by (simp add: session_ended_def session_kept_def)
  then show ?thesis
    using ended_not_authenticated [OF session_history.steps_good [OF assms(5) t] r2(1), of svc raw] r1(2) r2(2) assms(4)
    by (simp add: session_kept_def)
qed

lemma sample_audit:
  assumes "length (metadata_text (AList.update ''schema_version'' (MetaInt 1) md)) \<le> 4096" "audit_events s = []"
  shows "\<exists>t. auth_audit_outcome sample_auth_env now event kind actor oc md s = Inr t"
proof -
  obtain pid where "object_id ''audit'' (Some ''audit'') = Some pid" by (simp add: object_id_def valid_kind_def)
  then show ?thesis
    using audit_outcome_ok [of _ pid s md] assms by (simp add: auth_audit_outcome_def sample_auth_env_def)
qed

lemma sample_password: "password_from_file (''correct horse battery'' @ [CHR 0x0A]) = Some ''correct horse battery''"
  by (simp add: password_from_file_def trim_suffix_def has_suffix_def has_prefix_def contains_any_def
      validate_password_def byte_val_def is_space_rune_def)

lemma sample_hash:
  "\<exists>phc. hash_password sample_argon (default_params n) (Some ''0123456789abcdef'') ''correct horse battery'' = Inr phc"
proof -
  have "validate_password ''correct horse battery'' = None"
    by (simp add: validate_password_def byte_val_def is_space_rune_def)
  then show ?thesis by (simp add: hash_password_def default_params_def Let_def)
qed

lemma sample_audit_events [simp]: "audit_events (sample_auth phc rows) = []"
  "admin_user (sample_auth phc rows) = Some (sample_admin phc)" "admin_sessions (sample_auth phc rows) = rows"
  by (simp_all add: sample_auth_def auth_db.defs db.defs control_db.defs)

lemma sample_reset:
  "\<exists>t. reset_password sample_service sample_auth_env (Some (''correct horse battery'' @ [CHR 0x0A])) False sample_two = Inr t"
proof -
  obtain phc where "hash_password sample_argon (default_params 2) (Some ''0123456789abcdef'') ''correct horse battery'' = Inr phc"
    using sample_hash by blast
  moreover have "\<exists>t. auth_audit_outcome sample_auth_env now event kind actor oc [(''totp_disabled'', MetaFlag False)]
      (revoke_sessions p n (update_admin f sample_two)) = Inr t" for now event kind actor oc p n f
    by (rule sample_audit, code_simp, simp add: revoke_sessions_def update_admin_def)
  ultimately show ?thesis
    by (simp add: reset_password_def sample_password guarded_update_def sample_service_def Let_def
        sample_auth_env_def [THEN arg_cong [of _ _ an_salt]] del: append_Cons append_Nil)
qed

theorem security_change_ends_sessions_witness:
  "\<exists>t. security_change sample_service sample_two t
    \<and> snd (authenticate_session sample_service ''a'' 0 t) = Inl NoSession
    \<and> snd (authenticate_session sample_service ''b'' 0 t) = Inl NoSession"
proof -
  obtain t where t: "security_change sample_service sample_two t"
    using sample_reset security_change.reset by metis
  have "snd (authenticate_session sample_service raw 0 t) = Inl NoSession"
    if "sample_session i raw \<in> set (admin_sessions sample_two)" for i raw
    by (rule security_change_ends_sessions [OF sample_sessions_ok t that])
      (simp_all add: sample_session_def sample_service_def)
  from this [of 1 "''a''"] this [of 2 "''b''"] t show ?thesis by auto
qed

subsection \<open>Logging in\<close>

lemma refuse_login_error [simp]: "refuse_login env now s \<noteq> (t, Inr x)"
  by (auto simp: refuse_login_def split: sum.splits)

lemma check_login_Inr:
  assumes "check_login svc env password code ip l s = (l', t, Inr (admin, step))"
  shows "t = s" "admin_user s = Some admin" "verify_password (as_argon svc) password (ad_password admin) = Inr True"
    "\<forall>u. ad_locked admin = Some u \<longrightarrow> u \<le> unix_milli (an_clock env 0)"
    "ad_totp_enabled admin \<longleftrightarrow> step \<noteq> None"
    "step = Some n \<Longrightarrow> \<exists>secret. open_envelope (as_cipher svc) (sealed (ad_totp_secret admin))
       (aad ''admin_user'' ''1'' ''totp_secret_enc'') = Inr secret
       \<and> validate_totp (as_code svc) secret code (an_clock env 0) = Some n"
  using assms
  by (auto simp: check_login_def Let_def split: if_splits prod.splits option.splits sum.splits) metis+

lemma login_Inr:
  assumes "login svc env password code ip agent l s = (l', t, Inr session)"
  obtains admin step where "check_login svc env password code ip l s = (l', s, Inr (admin, step))"
    "commit_login svc env admin step ip agent s = Inr (session, t)" "admin_user s = Some admin"
proof -
  obtain l1 s1 r where c: "check_login svc env password code ip l s = (l1, s1, r)" by (metis prod_cases3)
  then obtain admin step where r: "r = Inr (admin, step)"
    using assms by (auto simp: login_def split: sum.splits prod.splits)
  with c check_login_Inr [of svc env password code ip l s l1 s1 admin step] have "s1 = s" "admin_user s = Some admin"
    by auto
  moreover from this have "commit_login svc env admin step ip agent s = Inr (session, t)" "l1 = l'"
    using assms c r by (auto simp: login_def split: sum.splits prod.splits)
  ultimately show ?thesis using that c r by blast
qed

lemma live_session_authenticates:
  assumes "raw \<noteq> []" "row_by se_verifier (as_sha svc raw) (admin_sessions s) = Some r" "admin_user s = Some a"
    and "se_revoked r = None" "se_version r = ad_session_version a"
    and "unix_milli now < se_idle r" "unix_milli now < se_absolute r"
    and "open_envelope (as_cipher svc) (se_csrf r)
      (aad ''admin_sessions'' (se_public_id r) ''csrf_token_enc'') = Inr csrf"
  shows "\<exists>u x. authenticate_session svc raw now s = (u, Inr x) \<and> ss_public x = se_public_id r
    \<and> ss_csrf x = csrf \<and> ss_created x = se_created r * millisecond"
  using assms by (simp add: authenticate_session_def Let_def)

text \<open>
  C30: A login that succeeds has checked the stored password (and a code of the current secret if codes
  are enabled), and its token works: until the idle time is over \<open>Authenticate\<close> gives back the
  same session with the same CSRF token, which \<open>ValidateCSRF\<close> accepts.
\<close>

theorem login_session_authenticates:
  assumes run: "login svc env password code ip agent l s = (l', t, Inr session)" and ok: "sessions_ok s"
    and cipher: "aead_ok (block (as_cipher svc))" "length (key_id (as_cipher svc)) = key_id_size"
    and random: "an_csrf_nonce env = Some n" "length n = nonce_size" "an_token env = Some q" "q \<noteq> []"
    and later: "unix_milli later < unix_milli (ss_idle session)"
  shows "(\<exists>admin. admin_user s = Some admin
      \<and> verify_password (as_argon svc) password (ad_password admin) = Inr True
      \<and> (ad_totp_enabled admin \<longrightarrow> (\<exists>secret step. open_envelope (as_cipher svc) (sealed (ad_totp_secret admin))
           (aad ''admin_user'' ''1'' ''totp_secret_enc'') = Inr secret
           \<and> validate_totp (as_code svc) secret code (an_clock env 0) = Some step)))
    \<and> (\<exists>u x. authenticate_session svc (ss_token session) later t = (u, Inr x)
      \<and> ss_public x = ss_public session \<and> ss_csrf x = ss_csrf session \<and> validate_csrf x (ss_csrf session) = None)"
    (is "?checked \<and> ?works")
proof -
  obtain admin step where check: "check_login svc env password code ip l s = (l', s, Inr (admin, step))"
    and commit: "commit_login svc env admin step ip agent s = Inr (session, t)" and admin: "admin_user s = Some admin"
    using login_Inr [OF run] .
  note checked = check_login_Inr [OF check]
  have "?checked" using checked(2,3,5,6) by blast
  moreover from commit have "?works"
  proof (rule commit_login_Inr)
    fix r
    assume rows: "admin_sessions t = admin_sessions s @ [r]"
      and fresh: "fresh_session svc (ad_session_version admin) (an_clock env 0) session r"
      and verifier: "se_verifier r \<notin> se_verifier ` set (admin_sessions s)"
      and user: "admin_user t = map_option (\<lambda>a. (case step of None \<Rightarrow> a | Some n \<Rightarrow> a\<lparr>ad_last_step := Some n\<rparr>)
         \<lparr>ad_failed := 0, ad_locked := None, ad_updated := unix_milli (an_clock env 0)\<rparr>) (admin_user s)"
      and csrf: "seal (as_cipher svc) (an_csrf_nonce env) (ss_csrf session)
         (aad ''admin_sessions'' (ss_public session) ''csrf_token_enc'') = Inr (se_csrf r)"
      and token: "token_text (an_token env) = Some (ss_token session)"
    from verifier have "row_by se_verifier (se_verifier r) (admin_sessions s) = None" by (simp add: row_by_None)
    then have row: "row_by se_verifier (as_sha svc (ss_token session)) (admin_sessions t) = Some r"
      using fresh by (simp add: rows row_by_append fresh_session_def)
    have open_csrf: "open_envelope (as_cipher svc) (se_csrf r)
        (aad ''admin_sessions'' (se_public_id r) ''csrf_token_enc'') = Inr (ss_csrf session)" "ss_csrf session \<noteq> []"
      using open_seal [OF cipher random(2) csrf [unfolded random(1)]] fresh by (simp_all add: fresh_session_def)
    have raw: "ss_token session \<noteq> []" using token random(3) base64_nonempty [OF random(4)] by (simp add: token_text_def)
    obtain b where b: "admin_user t = Some b" "ad_session_version b = ad_session_version admin"
      using user admin by (cases step) auto
    have idle: "unix_milli later < se_idle r" using later fresh by (simp add: fresh_session_def)
    also have "\<dots> \<le> se_absolute r" using fresh_session_bounds [OF fresh] by (simp add: session_bounds_def)
    finally have absolute: "unix_milli later < se_absolute r" .
    have live: "se_revoked r = None" "se_version r = ad_session_version b" "se_public_id r = ss_public session"
      using fresh b(2) by (simp_all add: fresh_session_def)
    obtain u x where "authenticate_session svc (ss_token session) later t = (u, Inr x)"
        "ss_public x = ss_public session" "ss_csrf x = ss_csrf session"
      using live_session_authenticates [OF raw row b(1) live(1,2) idle absolute open_csrf(1)] live(3) by auto
    then show ?works using open_csrf(2) by (auto simp: validate_csrf_def)
  qed
  ultimately show ?thesis ..
qed

lemma sample_insert:
  fixes s :: auth_db
  assumes "admin_sessions s = []" "audit_events s = []"
  shows "\<exists>x u. insert_session sample_service sample_auth_env v b ip agent now s = Inr (x, u) \<and> audit_events u = []"
proof -
  obtain pid where "object_id ''sess'' (Some ''session'') = Some pid" by (simp add: object_id_def valid_kind_def)
  moreover obtain c where "base64_encode (replicate 32 (CHR ''c'')) = c" "c \<noteq> []" by (simp add: base64_nonempty)
  ultimately show ?thesis
    using assms by (simp add: insert_session_def sample_auth_env_def sample_service_def token_text_def seal_def
        plain_def random_id_def)
qed

lemma sample_commit:
  "\<exists>x t. commit_login sample_service sample_auth_env (sample_admin phc) step ip agent (sample_auth phc []) = Inr (x, t)"
proof -
  define s1 where "s1 = (case step of None \<Rightarrow> sample_auth phc []
    | Some n \<Rightarrow> update_admin (\<lambda>a. a\<lparr>ad_last_step := Some n, ad_updated := unix_milli 0\<rparr>) (sample_auth phc []))"
  have step: "accept_step step (unix_milli 0) (sample_auth phc []) = Inr s1"
    by (simp add: accept_step_def s1_def sample_admin_def split: option.split)
  let ?s = "update_admin (\<lambda>a. a\<lparr>ad_failed := 0, ad_locked := None, ad_updated := unix_milli 0\<rparr>) s1"
  have "admin_sessions ?s = []" "audit_events ?s = []"
    by (simp_all add: s1_def update_admin_def split: option.split)
  from sample_insert [OF this, of 1 False ip agent 0] obtain x u
    where u: "insert_session sample_service sample_auth_env 1 False ip agent 0 ?s = Inr (x, u)" "audit_events u = []"
    by blast
  have "length (metadata_text (AList.update ''schema_version'' (MetaInt 1) [(''totp_enabled'', MetaFlag False)])) \<le> 4096"
    by code_simp
  from sample_audit [OF this u(2)] obtain t where "auth_audit sample_auth_env (unix_milli 0) ''admin.login_succeeded''
      ''admin_session'' (ss_public x) [(''totp_enabled'', MetaFlag False)] u = Inr t" by blast
  moreover have "an_clock sample_auth_env k = 0" for k by (simp add: sample_auth_env_def)
  moreover have "ad_session_version (sample_admin phc) = 1" "\<not> ad_totp_enabled (sample_admin phc)"
    by (simp_all add: sample_admin_def)
  ultimately show ?thesis using u(1) step by (simp add: commit_login_def)
qed

theorem login_session_authenticates_witness:
  "\<exists>phc l t session. login sample_service sample_auth_env ''correct horse battery'' [] ''::1'' [] new_limiter
      (sample_auth phc []) = (l, t, Inr session)
    \<and> (\<exists>u x. authenticate_session sample_service (ss_token session) (11 * hour) t = (u, Inr x)
      \<and> ss_csrf x = ss_csrf session)"
proof -
  obtain phc where phc: "hash_password sample_argon (default_params 2) (Some ''0123456789abcdef'') ''correct horse battery'' = Inr phc"
    using sample_hash by blast
  have "key_lengths_ok sample_argon" by (auto simp: key_lengths_ok_def sample_argon_def min_def)
  from hash_verify(2) [OF phc this] have "verify_password sample_argon ''correct horse battery'' phc = Inr True"
    by (simp add: default_params_safe)
  moreover have "snd (allow ''::1'' 0 new_limiter)" by code_simp
  then obtain l where "allow ''::1'' 0 new_limiter = (l, True)" by (metis prod.collapse)
  ultimately have check: "check_login sample_service sample_auth_env ''correct horse battery'' [] ''::1'' new_limiter
      (sample_auth phc []) = (l, sample_auth phc [], Inr (sample_admin phc, None))"
    by (simp add: check_login_def sample_auth_env_def sample_service_def sample_admin_def acquire_password_work_def)
  obtain x t where "commit_login sample_service sample_auth_env (sample_admin phc) None ''::1'' [] (sample_auth phc []) = Inr (x, t)"
    using sample_commit by blast
  then have run: "login sample_service sample_auth_env ''correct horse battery'' [] ''::1'' [] new_limiter
      (sample_auth phc []) = (l, t, Inr x)"
    by (simp add: login_def check)
  obtain r where "fresh_session sample_service 1 0 x r"
    using \<open>commit_login _ _ _ _ _ _ _ = _\<close>
    by (rule commit_login_Inr) (auto simp: sample_auth_env_def sample_admin_def intro: that)
  then have "unix_milli (11 * hour) < unix_milli (ss_idle x)" by (simp add: fresh_session_def unix_milli_def)
  moreover have "sessions_ok (sample_auth phc [])" by (simp add: sessions_ok_def)
  moreover have "aead_ok (block (as_cipher sample_service))" "length (key_id (as_cipher sample_service)) = key_id_size"
    "an_csrf_nonce sample_auth_env = Some (replicate 12 (CHR ''n''))"
    "an_token sample_auth_env = Some (replicate 32 (CHR ''t''))"
    using tag_cipher_ok by (simp_all add: sample_service_def sample_auth_env_def tag_cipher_def)
  ultimately have "\<exists>u y. authenticate_session sample_service (ss_token x) (11 * hour) t = (u, Inr y)
      \<and> ss_public y = ss_public x \<and> ss_csrf y = ss_csrf x \<and> validate_csrf y (ss_csrf x) = None"
    by (intro login_session_authenticates [OF run, where n = "replicate 12 (CHR ''n'')"
          and q = "replicate 32 (CHR ''t'')", THEN conjunct2]) simp_all
  with run show ?thesis by blast
qed

definition step_used :: "int \<Rightarrow> 'x auth_db_scheme \<Rightarrow> bool" where
  "step_used n s \<longleftrightarrow> (\<exists>a u. admin_user s = Some a \<and> ad_last_step a = Some u \<and> n \<le> u)"

lemma step_used_commit:
  assumes "commit_login svc env admin step ip agent s = Inr (x, t)"
  shows "step_used n s \<Longrightarrow> step_used n t" "step = Some m \<Longrightarrow> step_used m t \<and> \<not> step_used m s"
  using assms by (rule commit_login_Inr; cases step; fastforce simp: step_used_def)+

lemma step_used_login:
  assumes "login_step svc s t" "step_used n s"
  shows "step_used n t"
  using assms(1)
proof cases
  case (failed env now)
  then show ?thesis by (rule record_login_failure_Inr) (use assms(2) in \<open>simp add: step_used_def\<close>)
next
  case (logged_in env admin step ip agent session)
  then show ?thesis using step_used_commit(1) assms(2) by blast
next
  case (used raw now r)
  from authenticate_session_effect [OF this] show ?thesis
    using assms(2) by (auto simp: step_used_def touch_session_def)
next
  case (logged_out env session)
  show ?thesis using logout_Inr [OF logged_out] assms(2) by (simp add: step_used_def)
next
  case (set_up env session password snapshot x)
  then show ?thesis by (rule setup_totp_Inr) (use assms(2) in \<open>auto simp: step_used_def\<close>)
next
  case (changed env session old new ip agent snapshot x)
  then show ?thesis
    by (rule change_password_Inr) (erule rotate_Inr, use assms(2) in \<open>simp add: step_used_def changed_password_def\<close>)
next
  case (reset env content)
  then show ?thesis
    by (rule reset_password_Inr) (use assms(2) in \<open>simp add: step_used_def reset_admin_def Let_def\<close>)
qed



lemma lock_delay_closed: "5 \<le> n \<Longrightarrow> lock_delay n = min (15 * minute) (30 * second * 2 ^ nat (n - 5))"
proof -
  assume n: "5 \<le> n"
  show ?thesis
  proof (cases "n - 5 \<le> 9")
    case False
    then have "9 \<le> nat (n - 5)" by simp
    then have "(2::int) ^ 9 \<le> 2 ^ nat (n - 5)" by (rule power_increasing) simp
    then show ?thesis using False by (simp add: lock_delay_def Let_def min_def)
  qed (simp add: lock_delay_def Let_def min_def)
qed



text \<open>An accepted session is younger than a week, and its idle limit does not pass the absolute one.\<close>

lemma session_lifetime:
  assumes "sessions_ok s" "(auth_step svc)\<^sup>*\<^sup>* s t" "authenticate_session svc raw now t = (u, Inr x)"
  shows "unix_milli now < unix_milli (ss_created x) + 7 * 24 * 3600000 \<and> ss_idle x \<le> ss_absolute x"
proof -
  have ok: "sessions_ok t" using session_history.steps_good [OF assms(2,1)] .
  obtain r where r: "row_by se_verifier (as_sha svc raw) (admin_sessions t) = Some r"
    using assms(3) by (auto simp: authenticate_session_def split: if_splits option.splits)
  then have "r \<in> set (admin_sessions t)" by (auto dest: row_by_Some)
  with ok have bounds: "session_bounds r" by (simp add: sessions_ok_def)
  obtain a where a: "admin_user t = Some a"
    using assms(3) r by (auto simp: authenticate_session_def split: if_splits option.splits)
  have le: "unix_milli (min (now + session_idle) (se_absolute r * millisecond)) \<le> se_absolute r"
    using unix_milli_mono [of "min (now + session_idle) (se_absolute r * millisecond)" "se_absolute r * millisecond"]
    by (simp add: unix_milli_def)
  show ?thesis
    using assms(3) r a bounds le
    by (auto simp: authenticate_session_def session_bounds_def Let_def unix_milli_def split: if_splits sum.splits)
qed

end
