(* ===== verification/Client_Keys.thy ===== *)
theory Client_Keys
  imports Control
begin

text \<open>
  Client keys: \<open>internal/control/clientkey.go\<close> creates, lists, updates and revokes them and
  \<open>internal/clientauth/service.go\<close> authenticates requests with them.  Only the SHA-256 digest of
  a secret is stored; \<open>sha\<close> is that digest in hexadecimal.
\<close>

subsection \<open>Reading keys\<close>

record key_info =
  key_public :: string
  key_name :: string
  key_prefix :: string
  key_status :: string
  key_expires :: "ms option"
  key_last_used :: "ms option"
  key_version :: int
  key_created :: ms

definition scan_client_key :: "key_row \<Rightarrow> key_info" where
  "scan_client_key r =
     \<lparr>key_public = ck_public_id r, key_name = ck_name r, key_prefix = ck_prefix r,
      key_status = ck_status r, key_expires = ck_expires r, key_last_used = ck_last_used r,
      key_version = ck_version r, key_created = ck_created r\<rparr>"

definition get_client_key :: "string \<Rightarrow> 'x control_db_scheme \<Rightarrow> control_error + key_info" where
  "get_client_key pid s =
     (case row_by ck_public_id pid (client_keys s) of
        None \<Rightarrow> Inl NotFound
      | Some r \<Rightarrow> Inr (scan_client_key r))"

definition key_position :: "key_row \<Rightarrow> cursor" where
  "key_position r = (ck_created r, ck_id r)"

definition list_client_keys ::
  "'x control_db_scheme \<Rightarrow> int \<Rightarrow> string \<Rightarrow> control_error + (key_info list \<times> string)"
where
  "list_client_keys s limit after =
     list_rows (Validation ''cursor'' ''is invalid'') (Inr \<circ> scan_client_key) key_position limit after
       (client_keys s)"

subsection \<open>Writing keys\<close>

definition expiry_ok :: "nanos \<Rightarrow> nanos option \<Rightarrow> bool" where
  "expiry_ok now expires = (case expires of None \<Rightarrow> True | Some t \<Rightarrow> now < t)"

definition insert_client_key ::
  "string \<Rightarrow> string \<Rightarrow> string \<Rightarrow> string \<Rightarrow> ms \<Rightarrow> ms option \<Rightarrow> 'x control_db_scheme
    \<Rightarrow> control_error + 'x control_db_scheme"
where
  "insert_client_key pid name prefix verifier now expires s =
     (if pid \<in> ck_public_id ` set (client_keys s) \<or> prefix \<in> ck_prefix ` set (client_keys s)
         \<or> verifier \<in> ck_verifier ` set (client_keys s)
      then Inl Conflict
      else Inr (s\<lparr>client_keys := client_keys s @
        [\<lparr>ck_id = next_id ck_id (client_keys s), ck_public_id = pid, ck_name = name,
          ck_prefix = prefix, ck_verifier = verifier, ck_status = ''active'', ck_version = 1,
          ck_created = now, ck_expires = expires, ck_last_used = None, ck_revoked = None\<rparr>]\<rparr>))"

definition create_client_key ::
  "(string \<Rightarrow> string) \<Rightarrow> environment \<Rightarrow> actor \<Rightarrow> string \<Rightarrow> nanos option \<Rightarrow> 'x control_db_scheme
    \<Rightarrow> control_error + ((key_info \<times> string) \<times> 'x control_db_scheme)"
where
  "create_client_key sha env who name expires s =
     and_then (clean_name ''name'' name) (\<lambda>name.
       if \<not> expiry_ok (env_clock env 0) expires
       then Inl (Validation ''expires_at'' ''must be in the future'')
       else
         (case object_id ''ckey'' (env_object env) of
            None \<Rightarrow> Inl (Failure ''identifier'')
          | Some pid \<Rightarrow>
              (case client_key sha (env_prefix env) (env_secret env) of
                 None \<Rightarrow> Inl (Failure ''identifier'')
               | Some (full, prefix, verifier) \<Rightarrow>
                   and_then (insert_client_key pid name prefix verifier (unix_milli (env_clock env 1))
                       (map_option unix_milli expires) s) (\<lambda>s1.
                   and_then (audit env (unix_milli (env_clock env 2)) who ''client_key.created''
                       ''client_key'' pid [(''prefix'', MetaText prefix)] s1) (\<lambda>t.
                   and_then (get_client_key pid t) (\<lambda>item. Inr ((item, full), t)))))))"

definition writable_key :: "string \<Rightarrow> int \<Rightarrow> key_row \<Rightarrow> bool" where
  "writable_key pid version r \<longleftrightarrow>
     ck_public_id r = pid \<and> ck_version r = version \<and> ck_status r \<noteq> ''revoked''"

definition update_client_key ::
  "environment \<Rightarrow> actor \<Rightarrow> string \<Rightarrow> int \<Rightarrow> string \<Rightarrow> string \<Rightarrow> nanos option \<Rightarrow> 'x control_db_scheme
    \<Rightarrow> control_error + (key_info \<times> 'x control_db_scheme)"
where
  "update_client_key env who pid version name status expires s =
     and_then (clean_name ''name'' name) (\<lambda>name.
       let status = trim_space status in
       if status \<noteq> ''active'' \<and> status \<noteq> ''disabled''
       then Inl (Validation ''status'' ''must be active or disabled'')
       else if \<not> expiry_ok (env_clock env 0) expires
       then Inl (Validation ''expires_at'' ''must be in the future'')
       else if length (filter (writable_key pid version) (client_keys s)) \<noteq> 1
       then Inl (not_found_or_version ck_public_id pid (client_keys s))
       else
         let s1 = s\<lparr>client_keys := update_where (writable_key pid version)
               (\<lambda>r. r\<lparr>ck_name := name, ck_status := status,
                      ck_expires := map_option unix_milli expires, ck_version := ck_version r + 1\<rparr>)
               (client_keys s)\<rparr> in
         and_then (audit env (unix_milli (env_clock env 1)) who ''client_key.updated'' ''client_key''
             pid [(''status'', MetaText status)] s1) (\<lambda>t.
         and_then (get_client_key pid t) (\<lambda>item. Inr (item, t))))"

definition revoke_client_key ::
  "environment \<Rightarrow> actor \<Rightarrow> string \<Rightarrow> int \<Rightarrow> 'x control_db_scheme \<Rightarrow> control_error + 'x control_db_scheme"
where
  "revoke_client_key env who pid version s =
     (if length (filter (writable_key pid version) (client_keys s)) \<noteq> 1
      then Inl (not_found_or_version ck_public_id pid (client_keys s))
      else
        let now = unix_milli (env_clock env 0);
            s1 = s\<lparr>client_keys := update_where (writable_key pid version)
              (\<lambda>r. r\<lparr>ck_status := ''revoked'', ck_revoked := Some now, ck_version := ck_version r + 1\<rparr>)
              (client_keys s)\<rparr> in
        audit env (unix_milli (env_clock env 1)) who ''client_key.revoked'' ''client_key'' pid [] s1)"

subsection \<open>Authentication\<close>

datatype auth_error = Unauthorized

definition prefix_char :: "char \<Rightarrow> bool" where
  "prefix_char c \<longleftrightarrow> (CHR ''a'' \<le> c \<and> c \<le> CHR ''z'') \<or> (CHR ''A'' \<le> c \<and> c \<le> CHR ''Z'')
     \<or> (CHR ''0'' \<le> c \<and> c \<le> CHR ''9'') \<or> c = CHR ''-'' \<or> c = CHR ''_''"

definition parse_key :: "string \<Rightarrow> (string \<times> string) option" where
  "parse_key raw =
     (if trim_space raw \<noteq> raw \<or> \<not> has_prefix key_prefix_mark raw then None
      else
        let rest = trim_prefix key_prefix_mark raw in
        if length rest < 10 \<or> rest ! 8 \<noteq> CHR ''_'' then None
        else
          let prefix = take 8 rest; secret = drop 9 rest in
          case base64_decode secret of
            None \<Rightarrow> None
          | Some decoded \<Rightarrow>
              if length decoded \<noteq> 32 then None
              else if list_all prefix_char prefix then Some (prefix, secret) else None)"

definition expired_key :: "ms \<Rightarrow> key_row \<Rightarrow> bool" where
  "expired_key now r = (case ck_expires r of None \<Rightarrow> False | Some t \<Rightarrow> t \<le> now)"

definition touch_key :: "nanos \<Rightarrow> int \<Rightarrow> key_row list \<Rightarrow> key_row list" where
  "touch_key now kid rows =
     update_where (\<lambda>r. ck_id r = kid
         \<and> (case ck_last_used r of None \<Rightarrow> True | Some u \<Rightarrow> u < unix_milli (now - minute)))
       (\<lambda>r. r\<lparr>ck_last_used := Some (unix_milli now)\<rparr>) rows"

definition authenticate ::
  "(string \<Rightarrow> string) \<Rightarrow> string \<Rightarrow> nanos \<Rightarrow> 'x control_db_scheme
    \<Rightarrow> auth_error + ((int \<times> string) \<times> 'x control_db_scheme)"
where
  "authenticate sha raw now s =
     (let parsed = parse_key raw;
          (prefix, secret) = (case parsed of None \<Rightarrow> ([], ''invalid-client-key'') | Some p \<Rightarrow> p) in
      case row_by ck_prefix prefix (client_keys s) of
        None \<Rightarrow> Inl Unauthorized
      | Some r \<Rightarrow>
          if parsed = None \<or> sha secret \<noteq> ck_verifier r \<or> ck_status r \<noteq> ''active'' then Inl Unauthorized
          else if expired_key (unix_milli now) r then Inl Unauthorized
          else Inr ((ck_id r, ck_public_id r), s\<lparr>client_keys := touch_key now (ck_id r) (client_keys s)\<rparr>))"

subsection \<open>Well-formed keys\<close>

definition keys_ok :: "'x control_db_scheme \<Rightarrow> bool" where
  "keys_ok s \<longleftrightarrow> distinct (map ck_id (client_keys s)) \<and> distinct (map ck_public_id (client_keys s))
     \<and> distinct (map ck_prefix (client_keys s))"

lemma keys_ok_same: "client_keys t = client_keys s \<Longrightarrow> keys_ok t \<longleftrightarrow> keys_ok s"
  by (simp add: keys_ok_def)

lemma keys_ok_update:
  assumes "\<And>r. ck_id (f r) = ck_id r \<and> ck_public_id (f r) = ck_public_id r \<and> ck_prefix (f r) = ck_prefix r"
  shows "keys_ok (s\<lparr>client_keys := update_where p f (client_keys s)\<rparr>) \<longleftrightarrow> keys_ok s"
  using assms by (simp add: keys_ok_def update_where_keys)

lemma insert_client_key_Inr:
  assumes "insert_client_key pid name prefix verifier now expires s = Inr t"
  obtains r where "t = s\<lparr>client_keys := client_keys s @ [r]\<rparr>" "ck_public_id r = pid"
    "ck_prefix r = prefix" "ck_verifier r = verifier" "ck_status r = ''active''" "ck_version r = 1"
    "ck_expires r = expires" "ck_name r = name" "ck_created r = now"
    "ck_id r \<notin> ck_id ` set (client_keys s)"
    "pid \<notin> ck_public_id ` set (client_keys s)" "prefix \<notin> ck_prefix ` set (client_keys s)"
  using assms next_id_notin [of ck_id "client_keys s"]
  by (auto simp: insert_client_key_def split: if_splits)

text \<open>A successful creation is an insertion and an audit row.\<close>

lemma create_client_key_Inr:
  assumes "create_client_key sha env who name expires s = Inr ((item, full), t)"
  obtains pid prefix secret clean s1 where
    "client_key sha (env_prefix env) (env_secret env) = Some (full, prefix, sha secret)"
    "env_secret env \<noteq> None" "secret = base64_encode (the (env_secret env))"
    "prefix = take 8 (base64_encode (the (env_prefix env)))"
    "full = key_prefix_mark @ prefix @ ''_'' @ secret"
    "clean_name ''name'' name = Inr clean"
    "insert_client_key pid clean prefix (sha secret) (unix_milli (env_clock env 1))
       (map_option unix_milli expires) s = Inr s1"
    "audit_only s1 t" "get_client_key pid t = Inr item" "expiry_ok (env_clock env 0) expires"
  using assms
  by (auto simp: create_client_key_def client_key_def Let_def audit_outcome_Inr
      split: if_splits option.splits)

lemma writable_unique:
  assumes "keys_ok s" "writable_key pid v r" "r \<in> set (client_keys s)"
  shows "row_by ck_public_id pid (client_keys s) = Some r"
  using row_by_unique [of ck_public_id "client_keys s" r] assms by (simp add: keys_ok_def writable_key_def)

lemma update_client_key_Inr:
  assumes "update_client_key env who pid version name status expires s = Inr (item, t)"
  obtains clean s1 where "clean_name ''name'' name = Inr clean"
    "trim_space status \<in> {''active'', ''disabled''}" "expiry_ok (env_clock env 0) expires"
    "\<exists>r \<in> set (client_keys s). writable_key pid version r"
    "s1 = s\<lparr>client_keys := update_where (writable_key pid version)
        (\<lambda>r. r\<lparr>ck_name := clean, ck_status := trim_space status,
               ck_expires := map_option unix_milli expires, ck_version := ck_version r + 1\<rparr>)
        (client_keys s)\<rparr>"
    "audit_only s1 t" "get_client_key pid t = Inr item"
  using assms filter_one_ex [of "writable_key pid version" "client_keys s"]
  by (auto simp: update_client_key_def Let_def audit_outcome_Inr split: if_splits)

lemma revoke_client_key_Inr:
  assumes "revoke_client_key env who pid version s = Inr t"
  obtains s1 where "\<exists>r \<in> set (client_keys s). writable_key pid version r"
    "s1 = s\<lparr>client_keys := update_where (writable_key pid version)
        (\<lambda>r. r\<lparr>ck_status := ''revoked'', ck_revoked := Some (unix_milli (env_clock env 0)), ck_version := ck_version r + 1\<rparr>)
        (client_keys s)\<rparr>"
    "audit_only s1 t"
  using assms filter_one_ex [of "writable_key pid version" "client_keys s"]
  by (auto simp: revoke_client_key_def Let_def audit_outcome_Inr split: if_splits)

lemma authenticate_Inr:
  assumes "authenticate sha raw now s = Inr (i, t)"
  obtains prefix secret r where "parse_key raw = Some (prefix, secret)"
    "row_by ck_prefix prefix (client_keys s) = Some r" "sha secret = ck_verifier r"
    "ck_status r = ''active''" "\<not> expired_key (unix_milli now) r" "i = (ck_id r, ck_public_id r)"
    "t = s\<lparr>client_keys := touch_key now (ck_id r) (client_keys s)\<rparr>"
  using assms by (auto simp: authenticate_def Let_def split: if_splits option.splits prod.splits)

text \<open>The operations on keys as one step relation, whatever the clock, the random bytes and the caller.\<close>

inductive key_step :: "(string \<Rightarrow> string) \<Rightarrow> 'x control_db_scheme \<Rightarrow> 'x control_db_scheme \<Rightarrow> bool"
  for sha where
  created: "create_client_key sha env who name expires s = Inr (item, t) \<Longrightarrow> key_step sha s t"
| updated: "update_client_key env who pid version name status expires s = Inr (item, t) \<Longrightarrow> key_step sha s t"
| revoked: "revoke_client_key env who pid version s = Inr t \<Longrightarrow> key_step sha s t"
| authenticated: "authenticate sha raw now s = Inr (i, t) \<Longrightarrow> key_step sha s t"

text \<open>What every step does to the table: it keeps each row's keys, and what is revoked stays revoked.\<close>

definition key_kept :: "key_row \<Rightarrow> key_row \<Rightarrow> bool" where
  "key_kept r r' \<longleftrightarrow> ck_id r' = ck_id r \<and> ck_public_id r' = ck_public_id r \<and> ck_prefix r' = ck_prefix r
     \<and> ck_verifier r' = ck_verifier r \<and> ck_created r' = ck_created r
     \<and> (ck_status r = ''revoked'' \<longrightarrow> ck_status r' = ''revoked'')"

lemma key_kept_refl [simp]: "key_kept r r"
  by (simp add: key_kept_def)

lemma key_kept_trans: "key_kept a b \<Longrightarrow> key_kept b c \<Longrightarrow> key_kept a c"
  by (simp add: key_kept_def)

lemma list_all2_update_where: "(\<And>r. p r \<Longrightarrow> key_kept r (f r)) \<Longrightarrow> list_all2 key_kept rows (update_where p f rows)"
  by (simp add: list_all2_updated)

lemma list_all2_kept_refl [simp]: "list_all2 key_kept rows rows"
  by (simp add: list_all2_refl)

lemma step_effectI:
  assumes "list_all2 key_kept (client_keys s) (client_keys t)" "keys_ok t \<longleftrightarrow> keys_ok s"
  shows "(\<exists>kept new. client_keys t = kept @ new \<and> list_all2 key_kept (client_keys s) kept)
    \<and> (keys_ok s \<longrightarrow> keys_ok t)"
  using assms by (metis append_Nil2)

lemma key_step_effect:
  assumes "key_step sha s t"
  shows "(\<exists>kept new. client_keys t = kept @ new \<and> list_all2 key_kept (client_keys s) kept)
    \<and> (keys_ok s \<longrightarrow> keys_ok t)"
  using assms
proof cases
  case (created env who name expires item)
  obtain info full where "item = (info, full)" by (cases item)
  with created obtain pid prefix secret clean s1 where
    ins: "insert_client_key pid clean prefix (sha secret) (unix_milli (env_clock env 1))
       (map_option unix_milli expires) s = Inr s1" and aud: "audit_only s1 t"
    by (auto elim: create_client_key_Inr)
  from ins obtain r where "s1 = s\<lparr>client_keys := client_keys s @ [r]\<rparr>" "ck_public_id r = pid"
    "ck_prefix r = prefix" "ck_id r \<notin> ck_id ` set (client_keys s)"
    "pid \<notin> ck_public_id ` set (client_keys s)" "prefix \<notin> ck_prefix ` set (client_keys s)"
    by (elim insert_client_key_Inr) auto
  with aud show ?thesis by (auto simp: keys_ok_def)
next
  case (updated env who pid version name status expires item)
  then obtain clean s1 where s1: "s1 = s\<lparr>client_keys := update_where (writable_key pid version)
        (\<lambda>r. r\<lparr>ck_name := clean, ck_status := trim_space status,
               ck_expires := map_option unix_milli expires, ck_version := ck_version r + 1\<rparr>)
        (client_keys s)\<rparr>" and aud: "audit_only s1 t"
    by (auto elim: update_client_key_Inr)
  have "list_all2 key_kept (client_keys s) (client_keys t)"
    unfolding audit_only_tables(1) [OF aud] s1
    by (auto intro!: list_all2_update_where simp: key_kept_def writable_key_def)
  moreover have "keys_ok t \<longleftrightarrow> keys_ok s"
    unfolding keys_ok_same [OF audit_only_tables(1) [OF aud]] s1 by (rule keys_ok_update) simp
  ultimately show ?thesis by (rule step_effectI)
next
  case (revoked env who pid version)
  then obtain s1 where s1: "s1 = s\<lparr>client_keys := update_where (writable_key pid version)
        (\<lambda>r. r\<lparr>ck_status := ''revoked'', ck_revoked := Some (unix_milli (env_clock env 0)), ck_version := ck_version r + 1\<rparr>)
        (client_keys s)\<rparr>" and aud: "audit_only s1 t"
    by (auto elim: revoke_client_key_Inr)
  have "list_all2 key_kept (client_keys s) (client_keys t)"
    unfolding audit_only_tables(1) [OF aud] s1
    by (auto intro!: list_all2_update_where simp: key_kept_def writable_key_def)
  moreover have "keys_ok t \<longleftrightarrow> keys_ok s"
    unfolding keys_ok_same [OF audit_only_tables(1) [OF aud]] s1 by (rule keys_ok_update) simp
  ultimately show ?thesis by (rule step_effectI)
next
  case (authenticated raw now i)
  then obtain r :: key_row where t: "t = s\<lparr>client_keys := touch_key now (ck_id r) (client_keys s)\<rparr>"
    by (elim authenticate_Inr) (rule that)
  have "list_all2 key_kept (client_keys s) (client_keys t)"
    by (simp add: t touch_key_def list_all2_update_where key_kept_def)
  moreover have "keys_ok t \<longleftrightarrow> keys_ok s"
    unfolding t touch_key_def by (rule keys_ok_update) simp
  ultimately show ?thesis by (rule step_effectI)
qed

subsection \<open>Contracts and their interpretations\<close>

definition good_keys :: "'x control_db_scheme \<Rightarrow> bool" where
  "good_keys s \<longleftrightarrow> positions_ok key_position (client_keys s)"

lemma list_client_keys_page:
  assumes "decode_cursor after = Some c"
  shows "list_client_keys s limit after =
    (let n = normalize_limit limit; todo = after_cursor key_position c (client_keys s) in
     Inr (map scan_client_key (take n todo),
          if n < length todo then encode_cursor (key_position (todo ! (n - 1))) else []))"
  unfolding list_client_keys_def by (rule list_rows_eq [OF assms]) simp

interpretation key_listing: keyset key_position client_keys "\<lambda>s. scan_client_key" good_keys list_client_keys
  by unfold_locales (simp_all add: good_keys_def list_client_keys_page)

datatype key_write =
    UpdateKey string string "nanos option"
  | RevokeKey

definition write_key ::
  "'x control_db_scheme \<Rightarrow> string \<Rightarrow> int \<Rightarrow> environment \<times> actor \<times> key_write
    \<Rightarrow> control_error + 'x control_db_scheme"
where
  "write_key s pid version req =
     (case req of
        (env, who, UpdateKey name status expires) \<Rightarrow>
          and_then (update_client_key env who pid version name status expires s) (\<lambda>(item, t). Inr t)
      | (env, who, RevokeKey) \<Rightarrow> revoke_client_key env who pid version s)"

definition key_version_of :: "'x control_db_scheme \<Rightarrow> string \<Rightarrow> int option" where
  "key_version_of s pid = map_option ck_version (row_by ck_public_id pid (client_keys s))"

lemma write_key_step: "write_key s pid version w = Inr t \<Longrightarrow> key_step sha s t"
  by (auto simp: write_key_def intro: key_step.intros split: prod.splits key_write.splits)

lemma write_key_effect:
  assumes "write_key s pid version w = Inr t"
  shows "\<exists>f. client_keys t = update_where (writable_key pid version) f (client_keys s)
    \<and> (\<forall>r. ck_public_id (f r) = ck_public_id r \<and> ck_version (f r) = ck_version r + 1)
    \<and> (\<exists>r \<in> set (client_keys s). writable_key pid version r)"
proof -
  obtain env who c where w: "w = (env, who, c)" by (cases w) auto
  show ?thesis
  proof (cases c)
  case (UpdateKey name status expires)
  with assms w obtain item where "update_client_key env who pid version name status expires s = Inr (item, t)"
    by (auto simp: write_key_def)
  then obtain clean where ex: "\<exists>r \<in> set (client_keys s). writable_key pid version r"
    and aud: "audit_only (s\<lparr>client_keys := update_where (writable_key pid version)
        (\<lambda>r. r\<lparr>ck_name := clean, ck_status := trim_space status,
               ck_expires := map_option unix_milli expires, ck_version := ck_version r + 1\<rparr>)
        (client_keys s)\<rparr>) t"
    by (elim update_client_key_Inr) blast
  show ?thesis
    by (rule exI, rule conjI, rule audit_only_tables(1) [OF aud, simplified]) (use ex in auto)
next
  case RevokeKey
  with assms w have "revoke_client_key env who pid version s = Inr t" by (simp add: write_key_def)
  then have ex: "\<exists>r \<in> set (client_keys s). writable_key pid version r"
    and aud: "audit_only (s\<lparr>client_keys := update_where (writable_key pid version)
        (\<lambda>r. r\<lparr>ck_status := ''revoked'', ck_revoked := Some (unix_milli (env_clock env 0)),
               ck_version := ck_version r + 1\<rparr>) (client_keys s)\<rparr>) t"
    by (elim revoke_client_key_Inr; blast)+
  show ?thesis
    by (rule exI, rule conjI, rule audit_only_tables(1) [OF aud, simplified]) (use ex in auto)
  qed
qed

lemma write_key_versions:
  assumes ok: "keys_ok s" and w: "write_key s pid version w = Inr t"
  shows "key_version_of s pid = Some version" "key_version_of t pid = Some (version + 1)"
    "pid' \<noteq> pid \<Longrightarrow> key_version_of t pid' = key_version_of s pid'"
proof -
  from write_key_effect [OF w] obtain f
    where f: "client_keys t = update_where (writable_key pid version) f (client_keys s)"
    "\<And>r. ck_public_id (f r) = ck_public_id r" "\<And>r. ck_version (f r) = ck_version r + 1"
    "\<exists>r \<in> set (client_keys s). writable_key pid version r"
    by blast
  have keys: "distinct (map ck_public_id (client_keys s))" using ok by (simp add: keys_ok_def)
  note update = versioned_update [of ck_public_id "client_keys s" "writable_key pid version" pid ck_version
      version f, OF keys f(4) _ f(2) f(3), folded f(1), folded key_version_of_def]
  show "key_version_of s pid = Some version" "key_version_of t pid = Some (version + 1)"
    "pid' \<noteq> pid \<Longrightarrow> key_version_of t pid' = key_version_of s pid'"
    by (rule update; simp add: writable_key_def)+
qed

interpretation key_versions: versioned key_version_of write_key keys_ok
proof
  fix s :: "'a control_db_scheme" and pid v w t
  assume "keys_ok s" "write_key s pid v w = Inr t"
  then show "keys_ok t" using key_step_effect [OF write_key_step] by blast
qed ((rule disjI1)?, rule write_key_versions; assumption)+

subsection \<open>The text of a key\<close>

lemma url_alphabet_not_space: "\<forall>w \<in> set space_runes. w \<noteq> [] \<and> hd w \<notin> set url_alphabet \<and> last w \<notin> set url_alphabet"
  by (simp add: space_runes_def url_alphabet_def)

lemma trim_space_clean:
  assumes "set s \<subseteq> set url_alphabet"
  shows "trim_space s = s"
proof -
  have no: "\<not> has_prefix w t" if "w \<noteq> []" "hd w \<notin> set url_alphabet" "set t \<subseteq> set url_alphabet" for w t
    using that has_prefixE [of w t] by (cases w) fastforce+
  have "leading_of space_runes s = None"
    using no assms url_alphabet_not_space by (auto simp: leading_of_None)
  moreover have "leading_of (map rev space_runes) (rev s) = None"
    using no [of "rev _" "rev s"] assms url_alphabet_not_space by (auto simp: leading_of_None hd_rev)
  ultimately show ?thesis by (simp add: trim_space_def trim_leading_id)
qed

lemma prefix_char_alphabet: "c \<in> set url_alphabet \<Longrightarrow> prefix_char c"
proof -
  have "list_all prefix_char url_alphabet" by code_simp
  then show "c \<in> set url_alphabet \<Longrightarrow> prefix_char c" by (simp add: list_all_iff)
qed

lemma parse_key_made:
  assumes "length p = 6" "length q = 32"
  shows "parse_key (key_prefix_mark @ take 8 (base64_encode p) @ ''_'' @ base64_encode q)
    = Some (take 8 (base64_encode p), base64_encode q)"
proof -
  let ?prefix = "take 8 (base64_encode p)" and ?secret = "base64_encode q"
  let ?raw = "key_prefix_mark @ ?prefix @ ''_'' @ ?secret"
  have len: "length ?prefix = 8" "length ?secret = 43" using assms by (simp_all add: length_base64)
  have "set key_prefix_mark \<subseteq> set url_alphabet" "CHR ''_'' \<in> set url_alphabet"
    by (simp_all add: key_prefix_mark_def url_alphabet_def)
  moreover have prefix: "set ?prefix \<subseteq> set url_alphabet"
    using base64_encode_set [of p] set_take_subset [of 8 "base64_encode p"] by blast
  ultimately have "trim_space ?raw = ?raw"
    using base64_encode_set [of q] by (intro trim_space_clean) auto
  moreover have "list_all prefix_char ?prefix" using prefix prefix_char_alphabet by (auto simp: list_all_iff)
  moreover have "(?prefix @ ''_'' @ ?secret) ! 8 = CHR ''_''" using len by (simp add: nth_append)
  moreover have "take 8 (?prefix @ ''_'' @ ?secret) = ?prefix" "drop 9 (?prefix @ ''_'' @ ?secret) = ?secret"
    using len by simp_all
  ultimately show ?thesis using len assms by (simp add: parse_key_def Let_def del: take_append drop_append)
qed

subsection \<open>What holds of client keys\<close>

lemma get_client_key_new:
  assumes "client_keys t = rows @ [r]" "ck_public_id r = pid" "pid \<notin> ck_public_id ` set rows"
  shows "get_client_key pid t = Inr (scan_client_key r)"
proof -
  have "row_by ck_public_id pid rows = None" using assms(3) by (simp add: row_by_None)
  then show ?thesis using assms by (simp add: get_client_key_def row_by_append)
qed

text \<open>A store with one key and the surroundings of a request, for the witnesses.\<close>

definition sample_env :: environment where
  "sample_env = \<lparr>env_clock = (\<lambda>site. 1000000000 + int site), env_object = Some ''0123456789abcdef'',
     env_prefix = Some ''prefix'', env_secret = Some (replicate 32 CHR ''k''), env_audit = Some ''fedcba9876543210''\<rparr>"

definition sample_actor :: actor where
  "sample_actor = \<lparr>actor_kind = ''admin'', actor_id = ''1'', actor_request = ''req''\<rparr>"

definition sample_key :: "int \<Rightarrow> ms \<Rightarrow> key_row" where
  "sample_key n t = \<lparr>ck_id = n, ck_public_id = ''sdr_ckey_'' @ show_int n, ck_name = ''main'',
     ck_prefix = ''AAAAAAA'' @ show_int n, ck_verifier = show_int n, ck_status = ''active'', ck_version = 1,
     ck_created = t, ck_expires = None, ck_last_used = None, ck_revoked = None\<rparr>"

definition sample_control :: "key_row list \<Rightarrow> control_db" where
  "sample_control keys = \<lparr>proxies = [], upstreams = [], accounts = [], routes = [], candidates = [],
     runtimes = [], client_keys = keys, audit_events = [], account_models = [], oauth_config = None,
     oauth_attempts = []\<rparr>"

text \<open>
  C15: A key that \<open>CreateClientKey\<close> has returned authenticates at any later time before its
  expiry: the text handed to the client parses back to the stored prefix and to a secret with the
  stored digest, the new row is the only one with its prefix and is active, and the identity is the
  one of the row the caller was shown.
\<close>

theorem created_key_authenticates:
  assumes "create_client_key sha env who name expires s = Inr ((item, full), t)"
    and "env_prefix env = Some p" "length p = 6" "env_secret env = Some q" "length q = 32"
    and "\<forall>e. expires = Some e \<longrightarrow> unix_milli now < unix_milli e"
  shows "\<exists>kid u. authenticate sha full now t = Inr ((kid, key_public item), u)
    \<and> key_status item = ''active'' \<and> client_keys u \<noteq> client_keys s"
proof -
  from assms(1) obtain pid prefix secret clean s1 where made: "prefix = take 8 (base64_encode p)"
      "full = key_prefix_mark @ prefix @ ''_'' @ base64_encode q"
      "insert_client_key pid clean prefix (sha (base64_encode q)) (unix_milli (env_clock env 1))
         (map_option unix_milli expires) s = Inr s1"
      "audit_only s1 t" "get_client_key pid t = Inr item"
    using assms(2,4) by (elim create_client_key_Inr) simp
  from made(3) obtain r where r: "s1 = s\<lparr>client_keys := client_keys s @ [r]\<rparr>" "ck_public_id r = pid"
      "ck_prefix r = prefix" "ck_verifier r = sha (base64_encode q)" "ck_status r = ''active''"
      "ck_expires r = map_option unix_milli expires"
      "pid \<notin> ck_public_id ` set (client_keys s)" "prefix \<notin> ck_prefix ` set (client_keys s)"
    by (rule insert_client_key_Inr) blast
  have rows: "client_keys t = client_keys s @ [r]" using audit_only_tables(1) [OF made(4)] r(1) by simp
  have item: "item = scan_client_key r" using get_client_key_new [OF rows r(2,7)] made(5) by simp
  have "row_by ck_prefix prefix (client_keys s) = None" using r(8) by (simp add: row_by_None)
  then have row: "row_by ck_prefix prefix (client_keys t) = Some r"
    using rows r(3) by (simp add: row_by_append)
  have live: "\<not> expired_key (unix_milli now) r"
    using assms(6) r(6) by (cases expires) (auto simp: expired_key_def)
  let ?u = "t\<lparr>client_keys := touch_key now (ck_id r) (client_keys t)\<rparr>"
  have "authenticate sha full now t = Inr ((ck_id r, ck_public_id r), ?u)"
    using parse_key_made [OF assms(3,5)] row live r(4,5) made(1,2) by (simp add: authenticate_def)
  moreover have "length (client_keys ?u) \<noteq> length (client_keys s)"
    by (simp add: rows touch_key_def update_where_def)
  ultimately show ?thesis using item r(5) by (fastforce simp: scan_client_key_def)
qed

interpretation key_history: history client_keys key_kept "key_step sha" keys_ok for sha
  by unfold_locales (auto simp: key_kept_refl dest: key_step_effect intro: key_kept_trans)

theorem created_key_authenticates_witness:
  "\<exists>item full t kid u.
     create_client_key rev sample_env sample_actor ''main'' None (sample_control []) = Inr ((item, full), t)
     \<and> authenticate rev full 2000000000 t = Inr ((kid, key_public item), u)"
proof -
  have "\<not> isl (create_client_key rev sample_env sample_actor ''main'' None (sample_control []))"
    by code_simp
  then obtain item full t where made:
      "create_client_key rev sample_env sample_actor ''main'' None (sample_control []) = Inr ((item, full), t)"
    by (cases "create_client_key rev sample_env sample_actor ''main'' None (sample_control [])") auto
  have "env_prefix sample_env = Some ''prefix''" "env_secret sample_env = Some (replicate 32 CHR ''k'')"
    by (simp_all add: sample_env_def)
  then show ?thesis
    using created_key_authenticates [OF made, of "''prefix''" "replicate 32 CHR ''k''" 2000000000] made by auto
qed

text \<open>
  C16: Revocation is final.  Once \<open>RevokeClientKey\<close> has succeeded, no text carrying the key's
  prefix authenticates, with any secret and at any time, in any state the operations on keys reach
  afterwards: creations, updates, further revocations and authentications, in any order.
\<close>

theorem revoked_key_stays_dead:
  assumes "keys_ok s" "revoke_client_key env who pid version s = Inr t" "(key_step sha)\<^sup>*\<^sup>* t u"
    and "row_by ck_public_id pid (client_keys s) = Some r" "parse_key raw = Some (ck_prefix r, secret)"
  shows "authenticate sha raw now u = Inl Unauthorized"
proof -
  have r: "r \<in> set (client_keys s)" "ck_public_id r = pid" using row_by_Some [OF assms(4)] by auto
  from assms(2) obtain s1 where w: "\<exists>x \<in> set (client_keys s). writable_key pid version x"
    and s1: "s1 = s\<lparr>client_keys := update_where (writable_key pid version)
        (\<lambda>r. r\<lparr>ck_status := ''revoked'', ck_revoked := Some (unix_milli (env_clock env 0)),
               ck_version := ck_version r + 1\<rparr>) (client_keys s)\<rparr>"
    and aud: "audit_only s1 t"
    by (elim revoke_client_key_Inr) blast
  have "writable_key pid version r"
    using w writable_unique [OF assms(1), of pid version] assms(4) by auto
  moreover have "client_keys t = client_keys s1" by (rule audit_only_tables(1) [OF aud])
  ultimately have "r\<lparr>ck_status := ''revoked'', ck_revoked := Some (unix_milli (env_clock env 0)),
      ck_version := ck_version r + 1\<rparr> \<in> set (client_keys t)" (is "?r \<in> _")
    using r by (force simp: s1 update_where_def)
  moreover have "key_kept r ?r" by (simp add: key_kept_def)
  ultimately obtain r1 where r1: "r1 \<in> set (client_keys t)" "key_kept r r1" "ck_status r1 = ''revoked''"
    by (rule that) simp
  have "keys_ok t" using key_step_effect [OF key_step.revoked [OF assms(2)]] assms(1) by blast
  then obtain r2 where r2: "keys_ok u" "r2 \<in> set (client_keys u)" "key_kept r1 r2"
    using key_history.row_kept [OF assms(3) _ r1(1)] key_history.steps_good [OF assms(3)] by blast
  then have "row_by ck_prefix (ck_prefix r) (client_keys u) = Some r2"
    using row_by_unique [of ck_prefix "client_keys u" r2] r1(2) by (simp add: keys_ok_def key_kept_def)
  moreover have "ck_status r2 = ''revoked''" using r1(3) r2(3) by (simp add: key_kept_def)
  ultimately show ?thesis using assms(5) by (simp add: authenticate_def)
qed

theorem revoked_key_stays_dead_witness:
  "\<exists>t. revoke_client_key sample_env sample_actor ''sdr_ckey_1'' 1 (sample_control [sample_key 1 5]) = Inr t
     \<and> authenticate rev (''sk-sdr_AAAAAAA1_'' @ replicate 43 CHR ''A'') 7 t = Inl Unauthorized"
proof -
  let ?s = "sample_control [sample_key 1 5]" and ?raw = "''sk-sdr_AAAAAAA1_'' @ replicate 43 CHR ''A''"
  have "\<not> isl (revoke_client_key sample_env sample_actor ''sdr_ckey_1'' 1 ?s)" by code_simp
  then obtain t where t: "revoke_client_key sample_env sample_actor ''sdr_ckey_1'' 1 ?s = Inr t"
    by (cases "revoke_client_key sample_env sample_actor ''sdr_ckey_1'' 1 ?s") auto
  have "keys_ok ?s" by (simp add: keys_ok_def sample_control_def)
  moreover have "row_by ck_public_id ''sdr_ckey_1'' (client_keys ?s) = Some (sample_key 1 5)" by code_simp
  moreover have "parse_key ?raw = Some (ck_prefix (sample_key 1 5), replicate 43 CHR ''A'')" by code_simp
  ultimately have "authenticate rev ?raw 7 t = Inl Unauthorized"
    using revoked_key_stays_dead [OF _ t, of rev t] by blast
  with t show ?thesis by blast
qed

text \<open>
  A client that lists the keys page by page, with any page size and following each page's
  cursor until there is none, sees every key exactly once, newest first, and the walk ends.
\<close>

theorem client_keys_listed_once:
  assumes "good_keys s" "length (client_keys s) < n"
  shows "walk (list_client_keys s limit) n [] =
    Some (map scan_client_key (rev (sort_key key_position (client_keys s))))"
  using key_listing.walk_all [OF assms] by (simp add: listing_def)

theorem client_keys_listed_once_witness:
  "walk (list_client_keys (sample_control [sample_key 1 5, sample_key 2 5, sample_key 3 9]) 2) 4 []
    = Some [scan_client_key (sample_key 3 9), scan_client_key (sample_key 2 5), scan_client_key (sample_key 1 5)]"
proof -
  let ?s = "sample_control [sample_key 1 5, sample_key 2 5, sample_key 3 9]"
  have "good_keys ?s" by (simp add: good_keys_def positions_ok_def sample_control_def sample_key_def key_position_def)
  moreover have "rev (sort_key key_position (client_keys ?s)) = [sample_key 3 9, sample_key 2 5, sample_key 1 5]"
    by (simp add: sample_control_def sample_key_def key_position_def)
  ultimately show ?thesis
    using client_keys_listed_once [of ?s 4 2] by (simp add: sample_control_def)
qed

text \<open>
  Optimistic concurrency: however updates and revocations of client keys are interleaved, no
  two of them succeed at the same version of the same key, so none overwrites what another wrote
  without having seen it.
\<close>

theorem client_key_no_lost_update:
  assumes "keys_ok s" "run_writes write_key s ws = (accepted, t)"
  shows "distinct accepted"
  using assms by (rule key_versions.no_lost_update)

theorem client_key_no_lost_update_witness:
  "distinct (fst (run_writes write_key (sample_control [sample_key 1 5])
     [(''sdr_ckey_1'', 1, sample_env, sample_actor, UpdateKey ''first'' ''active'' None),
      (''sdr_ckey_1'', 1, sample_env, sample_actor, RevokeKey)]))"
proof -
  let ?s = "sample_control [sample_key 1 5]"
  have "keys_ok ?s" by (simp add: keys_ok_def sample_control_def)
  then show ?thesis by (rule client_key_no_lost_update [OF _ prod.collapse [symmetric]])
qed

end
