(* ===== verification/Usage.thy ===== *)
theory Usage
  imports Account_Auth
begin

text \<open>
  \<open>internal/usage/usage.go\<close> and the stored form of usage in \<open>retention.go\<close>: token counts
  read from a provider response, merged over the events of a stream, written as JSON, and read back
  by the retention job.  \<open>Values\<close> is an association list with one entry per name.
\<close>

subsection \<open>Values\<close>

type_synonym usage_values = "(string \<times> int) list"

definition put_value :: "string \<Rightarrow> int \<Rightarrow> usage_values \<Rightarrow> usage_values" where
  "put_value k v vs = (k, v) # filter (\<lambda>p. fst p \<noteq> k) vs"

definition merge_one :: "string \<times> int \<Rightarrow> usage_values \<Rightarrow> usage_values" where
  "merge_one p vs =
     (case map_of vs (fst p) of
        None \<Rightarrow> put_value (fst p) (snd p) vs
      | Some current \<Rightarrow> if snd p > current then put_value (fst p) (snd p) vs else vs)"

definition merge_values :: "usage_values \<Rightarrow> usage_values \<Rightarrow> usage_values" where
  "merge_values vs other = fold merge_one other vs"

definition values_json :: "usage_values \<Rightarrow> json" where
  "values_json vs =
     marshal_map ((''schema_version'', JNum (show_int 1)) # map (\<lambda>p. (fst p, JNum (show_int (snd p)))) vs)"

lemma map_of_put [simp]: "map_of (put_value k v vs) k' = (if k' = k then Some v else map_of vs k')"
proof -
  have "map_of (filter (\<lambda>p. fst p \<noteq> k) vs) k' = map_of vs k'" if "k' \<noteq> k"
    using that by (induction vs) auto
  then show ?thesis by (auto simp: put_value_def)
qed

lemma put_value_distinct: "distinct (map fst vs) \<Longrightarrow> distinct (map fst (put_value k v vs))"
  by (auto simp: put_value_def distinct_map_filter)

lemma put_value_names: "fst ` set (put_value k v vs) = insert k (fst ` set vs)"
  by (auto simp: put_value_def image_iff)

subsection \<open>Extract\<close>

text \<open>A missing \<open>RawMessage\<close> is \<open>None\<close>; null decodes to a nil map.\<close>

definition to_object :: "json option \<Rightarrow> members option" where
  "to_object raw =
     (case raw of
        Some (JObj ms) \<Rightarrow> Some ms
      | Some JNull \<Rightarrow> Some []
      | _ \<Rightarrow> None)"

definition usage_number :: "json option \<Rightarrow> int option" where
  "usage_number raw =
     (case Option.bind raw decode_number of
        None \<Rightarrow> None
      | Some n \<Rightarrow>
          (case parse_int64 n of
             Some v \<Rightarrow> if v \<ge> 0 then Some v else None
           | None \<Rightarrow> None))"

definition usage_field :: "members \<Rightarrow> string \<times> string \<Rightarrow> usage_values \<Rightarrow> usage_values" where
  "usage_field object f dest =
     (case usage_number (member_of object (fst f)) of
        Some v \<Rightarrow> put_value (snd f) v dest
      | None \<Rightarrow> dest)"

definition usage_object ::
  "json option \<Rightarrow> (string \<times> string) list \<Rightarrow> usage_values \<Rightarrow> usage_values"
where
  "usage_object raw pairs dest =
     (case to_object raw of
        None \<Rightarrow> dest
      | Some object \<Rightarrow> fold (usage_field object) pairs dest)"

definition anthropic_usage :: "(string \<times> string) list" where
  "anthropic_usage =
     [(''input_tokens'', ''input_tokens''), (''output_tokens'', ''output_tokens''),
      (''cache_creation_input_tokens'', ''cache_write_tokens''),
      (''cache_read_input_tokens'', ''cache_read_tokens'')]"

definition google_usage :: "(string \<times> string) list" where
  "google_usage =
     [(''promptTokenCount'', ''input_tokens''), (''candidatesTokenCount'', ''output_tokens''),
      (''totalTokenCount'', ''total_tokens''), (''cachedContentTokenCount'', ''cache_read_tokens''),
      (''thoughtsTokenCount'', ''reasoning_tokens'')]"

definition openai_usage :: "(string \<times> string) list" where
  "openai_usage =
     [(''prompt_tokens'', ''input_tokens''), (''completion_tokens'', ''output_tokens''),
      (''total_tokens'', ''total_tokens'')]"

definition extract_root :: "string \<Rightarrow> members \<Rightarrow> usage_values" where
  "extract_root provider root =
     (if provider = ''anthropic'' then
        (let result = usage_object (member_of root ''usage'') anthropic_usage [] in
         if result \<noteq> [] then result
         else (case to_object (member_of root ''message'') of
                 None \<Rightarrow> result
               | Some message \<Rightarrow> usage_object (member_of message ''usage'') anthropic_usage result))
      else if provider = ''google'' then
        usage_object (member_of root ''usageMetadata'') google_usage []
      else
        (let result = usage_object (member_of root ''usage'') openai_usage [] in
         (case to_object (member_of root ''usage'') of
            None \<Rightarrow> result
          | Some usage \<Rightarrow>
              usage_object (member_of usage ''completion_tokens_details'')
                [(''reasoning_tokens'', ''reasoning_tokens'')]
                (usage_object (member_of usage ''prompt_tokens_details'')
                   [(''cached_tokens'', ''cache_read_tokens'')] result))))"

definition extract_usage :: "string \<Rightarrow> lexeme list \<Rightarrow> usage_values" where
  "extract_usage provider body =
     (case to_object (unmarshal body) of None \<Rightarrow> [] | Some root \<Rightarrow> extract_root provider root)"

subsection \<open>Stored usage\<close>

definition usage_names :: "string list" where
  "usage_names =
     [''input_tokens'', ''output_tokens'', ''cache_read_tokens'', ''cache_write_tokens'',
      ''reasoning_tokens'', ''total_tokens'']"

datatype usage_error = BadJSON json_error | BadSchema | BadField string | BadNumber

definition nonnegative_integer :: "json option \<Rightarrow> usage_error + int" where
  "nonnegative_integer raw =
     (case raw of
        None \<Rightarrow> Inl BadNumber
      | Some JNull \<Rightarrow> Inr 0
      | Some v \<Rightarrow>
          (case to_int v of Some n \<Rightarrow> if n \<ge> 0 then Inr n else Inl BadNumber | None \<Rightarrow> Inl BadNumber))"

fun stored_fields :: "members \<Rightarrow> string list \<Rightarrow> usage_values \<Rightarrow> usage_error + usage_values" where
  "stored_fields object [] result = Inr result"
| "stored_fields object (name # names) result =
     (case member_of object name of
        None \<Rightarrow> stored_fields object names result
      | Some raw \<Rightarrow>
          (case nonnegative_integer (Some raw) of
             Inl _ \<Rightarrow> Inl (BadField name)
           | Inr v \<Rightarrow> stored_fields object names (put_value name v result)))"

definition decode_stored_usage :: "lexeme list \<Rightarrow> usage_error + usage_values" where
  "decode_stored_usage body =
     (case validate body 4 of
        Some e \<Rightarrow> Inl (BadJSON e)
      | None \<Rightarrow>
          (case to_object (unmarshal body) of
             None \<Rightarrow> Inl BadSchema
           | Some object \<Rightarrow>
               (case nonnegative_integer (member_of object ''schema_version'') of
                  Inr v \<Rightarrow> if v = 1 then stored_fields object usage_names [] else Inl BadSchema
                | Inl _ \<Rightarrow> Inl BadSchema)))"

subsection \<open>Lemmas\<close>

definition values_ok :: "usage_values \<Rightarrow> bool" where
  "values_ok vs \<longleftrightarrow> distinct (map fst vs) \<and> fst ` set vs \<subseteq> set usage_names
     \<and> (\<forall>p \<in> set vs. 0 \<le> snd p \<and> snd p \<le> max_int64)"

lemma values_ok_Nil [simp]: "values_ok []"
  by (simp add: values_ok_def)

lemma values_ok_put:
  "values_ok vs \<Longrightarrow> k \<in> set usage_names \<Longrightarrow> 0 \<le> v \<Longrightarrow> v \<le> max_int64 \<Longrightarrow> values_ok (put_value k v vs)"
  unfolding values_ok_def using put_value_distinct [of vs k v] put_value_names [of k v vs]
  by (auto simp: put_value_def)

lemma usage_number_range: "usage_number raw = Some v \<Longrightarrow> 0 \<le> v \<and> v \<le> max_int64"
  by (auto simp: usage_number_def dest: parse_int64_range split: option.splits if_splits)

lemma values_ok_object:
  assumes "values_ok dest" "snd ` set pairs \<subseteq> set usage_names"
  shows "values_ok (usage_object raw pairs dest)"
proof -
  have "values_ok (fold (usage_field object) fs dest)" if "snd ` set fs \<subseteq> set usage_names" for object fs
    using that assms(1)
  proof (induction fs arbitrary: dest)
    case (Cons f fs)
    then have "values_ok (usage_field object f dest)"
      by (auto simp: usage_field_def values_ok_put usage_number_range split: option.splits)
    with Cons show ?case by simp
  qed simp
  with assms show ?thesis by (simp add: usage_object_def split: option.split)
qed

lemma extract_ok: "values_ok (extract_usage provider body)"
  unfolding extract_usage_def extract_root_def Let_def
  by (auto intro!: values_ok_object split: option.split
      simp: usage_names_def anthropic_usage_def google_usage_def openai_usage_def)

lemma map_of_merge_one:
  "map_of (merge_one p vs) k =
     (if k = fst p then Some (case map_of vs k of None \<Rightarrow> snd p | Some c \<Rightarrow> max c (snd p))
      else map_of vs k)"
  by (auto simp: merge_one_def split: option.split)

lemma map_of_merge:
  "distinct (map fst other) \<Longrightarrow>
   map_of (merge_values vs other) k =
     (case (map_of vs k, map_of other k) of
        (None, v) \<Rightarrow> v
      | (Some c, None) \<Rightarrow> Some c
      | (Some c, Some v) \<Rightarrow> Some (max c v))"
proof (induction other arbitrary: vs)
  case Nil
  then show ?case by (simp add: merge_values_def split: option.split)
next
  case (Cons p other)
  have none: "map_of other (fst p) = None" using Cons.prems by (simp add: map_of_eq_None_iff)
  have "map_of (merge_values (merge_one p vs) other) k =
     (case (map_of (merge_one p vs) k, map_of other k) of
        (None, v) \<Rightarrow> v | (Some c, None) \<Rightarrow> Some c | (Some c, Some v) \<Rightarrow> Some (max c v))"
    using Cons by simp
  then show ?case
    using none by (cases p) (auto simp: merge_values_def map_of_merge_one split: option.splits)
qed

lemma values_ok_merge_one:
  assumes "values_ok vs" "fst p \<in> set usage_names" "0 \<le> snd p" "snd p \<le> max_int64"
  shows "values_ok (merge_one p vs)"
  using assms by (simp add: merge_one_def values_ok_put split: option.split)

lemma values_ok_merge: "values_ok vs \<Longrightarrow> values_ok other \<Longrightarrow> values_ok (merge_values vs other)"
proof (induction other arbitrary: vs)
  case (Cons p other)
  have "fst p \<in> set usage_names" "0 \<le> snd p" "snd p \<le> max_int64" "values_ok other"
    using Cons.prems(2) by (simp_all add: values_ok_def)
  with Cons.prems(1) have "values_ok (merge_one p vs)" "values_ok other"
    using values_ok_merge_one by blast+
  with Cons.IH show ?case by (simp add: merge_values_def)
qed (simp add: merge_values_def)

lemma map_of_snd: "map_of (map (\<lambda>p. (fst p, f (snd p))) vs) k = map_option f (map_of vs k)"
  by (induction vs) auto

lemma stored_fields_ok:
  assumes "distinct names" "\<And>n. n \<in> set names \<Longrightarrow> map_of result n = None"
    and "\<And>n v. n \<in> set names \<Longrightarrow> f n = Some v \<Longrightarrow> 0 \<le> v \<and> v \<le> max_int64"
    and "\<And>n. n \<in> set names \<Longrightarrow> member_of object n = map_option (\<lambda>v. JNum (show_int v)) (f n)"
  shows "\<exists>out. stored_fields object names result = Inr out
    \<and> (\<forall>k. map_of out k = (if k \<in> set names then f k else map_of result k))"
  using assms
proof (induction names arbitrary: result)
  case (Cons n names)
  show ?case
  proof (cases "f n")
    case None
    with Cons.prems(4) [of n] have m: "member_of object n = None" by simp
    obtain out where out: "stored_fields object names result = Inr out"
        "\<forall>k. map_of out k = (if k \<in> set names then f k else map_of result k)"
      using Cons.IH [of result] Cons.prems by force
    with m None Cons.prems(2) [of n] show ?thesis by auto
  next
    case (Some v)
    with Cons.prems(3,4) [of n] have m: "member_of object n = Some (JNum (show_int v))" "0 \<le> v" "v \<le> max_int64"
      by auto
    then have n: "nonnegative_integer (Some (JNum (show_int v))) = Inr v"
      by (simp add: nonnegative_integer_def)
    have "\<And>k. k \<in> set names \<Longrightarrow> map_of (put_value n v result) k = None"
      using Cons.prems(1,2) by auto
    then obtain out where "stored_fields object names (put_value n v result) = Inr out"
        "\<forall>k. map_of out k = (if k \<in> set names then f k else map_of (put_value n v result) k)"
      using Cons.IH [of "put_value n v result"] Cons.prems by force
    with m n Some Cons.prems(1) show ?thesis by auto
  qed
qed simp

text \<open>
  Usage survives storage.  What \<open>Extract\<close> reads from any response, merged in any way
  over a stream, is written as a document the retention job always accepts, and it reads back the
  same counts, so no recorded usage can block the retention.
\<close>

theorem stored_usage_roundtrip:
  assumes "values_ok vs"
  shows "\<exists>out. decode_stored_usage (lex (values_json vs)) = Inr out \<and> map_of out = map_of vs"
proof -
  let ?ms = "(''schema_version'', JNum (show_int 1)) # map (\<lambda>p. (fst p, JNum (show_int (snd p)))) vs"
  have dist: "distinct (map fst vs)" and names: "fst ` set vs \<subseteq> set usage_names"
    using assms by (auto simp: values_ok_def)
  have sv: "''schema_version'' \<notin> set usage_names" by (simp add: usage_names_def)
  then have "''schema_version'' \<notin> fst ` set vs" using names by blast
  then have "distinct (map fst ?ms)" using dist by (auto simp: comp_def image_image)
  then have m: "member_of ?ms = map_of ?ms" by (rule member_of_distinct)
  obtain out where out: "values_json vs = JObj out" by (simp add: values_json_def marshal_map_def)
  have mo: "member_of out k = map_of ?ms k" for k
    using marshal_map_member [of ?ms out k] out m by (simp add: values_json_def)
  have "\<forall>p \<in> set ?ms. well_formed 3 (snd p)" by (auto simp: well_formed_def)
  then have "well_formed (Suc 3) (values_json vs)"
    unfolding values_json_def by (rule marshal_map_well_formed)
  then have valid: "validate (lex (JObj out)) 4 = None"
    unfolding validate_accepts_iff well_formed_def out by (intro exI [of _ "JObj out"]) simp
  have fields: "member_of out n = map_option (\<lambda>v. JNum (show_int v)) (map_of vs n)" if "n \<in> set usage_names" for n
    using that sv mo [of n] map_of_snd [of "\<lambda>v. JNum (show_int v)" vs n] by auto
  have range: "0 \<le> v \<and> v \<le> max_int64" if "map_of vs n = Some v" for n v
    using that assms by (auto simp: values_ok_def dest: map_of_SomeD)
  have "distinct usage_names" by (simp add: usage_names_def)
  from stored_fields_ok [OF this, of "[]" "map_of vs" out] fields range
  obtain res where res: "stored_fields out usage_names [] = Inr res"
      "\<forall>k. map_of res k = (if k \<in> set usage_names then map_of vs k else None)"
    by auto
  have "map_of vs k = None" if "k \<notin> set usage_names" for k
    using that names by (auto simp: map_of_eq_None_iff)
  with res(2) have "map_of res = map_of vs" by auto
  moreover have "nonnegative_integer (member_of out ''schema_version'') = Inr 1"
    by (simp add: mo nonnegative_integer_def)
  ultimately show ?thesis
    using res valid out by (simp add: decode_stored_usage_def to_object_def del: lex.simps)
qed

text \<open>
  Merging the usage of stream events takes the largest count seen for each name, and keeps
  the form storage accepts.
\<close>

theorem merge_extracted:
  "map_of (merge_values vs (extract_usage provider body)) k =
     (case (map_of vs k, map_of (extract_usage provider body) k) of
        (None, v) \<Rightarrow> v
      | (Some c, None) \<Rightarrow> Some c
      | (Some c, Some v) \<Rightarrow> Some (max c v))"
  using extract_ok [of provider body] by (intro map_of_merge) (simp add: values_ok_def)

theorem stored_usage_roundtrip_witness:
  "\<exists>out. decode_stored_usage (lex (values_json [(''input_tokens'', 12), (''output_tokens'', 7)])) = Inr out
     \<and> map_of out ''input_tokens'' = Some 12"
proof -
  have "values_ok [(''input_tokens'', 12), (''output_tokens'', 7)]"
    by (simp add: values_ok_def usage_names_def)
  from stored_usage_roundtrip [OF this] show ?thesis by fastforce
qed

end
