(* ===== verification/Retention.thy ===== *)
theory Retention
  imports Usage "HOL-Library.Multiset"
begin

text \<open>
  \<open>internal/usage/retention.go\<close>: records older than a year are folded into daily aggregates
  and deleted, a thousand at a time, each batch in one transaction.  An aggregate is a function on
  the eleven counters; a failed transaction returns the tables it started from.
\<close>

subsection \<open>Tables\<close>

record request_row =
  rq_id :: int
  rq_public_id :: string
  rq_client_key :: int
  rq_protocol :: string
  rq_endpoint :: string
  rq_model :: string
  rq_provider :: "string option"
  rq_upstream :: "int option"
  rq_account :: "int option"
  rq_status :: int
  rq_error_code :: "string option"
  rq_streamed :: int
  rq_started :: ms
  rq_first_byte :: "ms option"
  rq_completed :: ms
  rq_request_bytes :: int
  rq_response_bytes :: int
  rq_usage :: "lexeme list"
  rq_routing :: "lexeme list"

datatype counter =
    Requests | Errors | StreamedCount | RequestBytes | ResponseBytes | InputTokens | OutputTokens
  | CacheReadTokens | CacheWriteTokens | ReasoningTokens | TotalTokens

type_synonym daily_aggregate = "counter \<Rightarrow> int"

record aggregate_row =
  ag_day :: ms
  ag_counts :: daily_aggregate
  ag_updated :: ms

record audit_entry =
  au_event :: string
  au_cutoff :: ms
  au_deleted :: int
  au_days :: nat

record usage_db =
  requests :: "request_row list"
  aggregates :: "aggregate_row list"
  audit_log :: "audit_entry list"

subsection \<open>One record into an aggregate\<close>

datatype retention_error =
    InvalidRetained \<comment> \<open>"request metadata contains an invalid retained value"\<close>
  | UndecodableUsage usage_error
  | AggregateOverflow
  | ConstraintFailed \<comment> \<open>a \<open>CHECK\<close> of \<open>request_daily_aggregates\<close>\<close>
  | SelectionChanged
  | AuditFailed

definition add_checked :: "int \<Rightarrow> int \<Rightarrow> retention_error + int" where
  "add_checked destination v =
     (if v < 0 \<or> destination > max_int64 - v then Inl AggregateOverflow else Inr (destination + v))"

definition add_field ::
  "counter \<times> int \<Rightarrow> retention_error + daily_aggregate \<Rightarrow> retention_error + daily_aggregate"
where
  "add_field f r =
     and_then r (\<lambda>a. and_then (add_checked (a (fst f)) (snd f)) (\<lambda>n. Inr (a(fst f := n))))"

definition value_of :: "usage_values \<Rightarrow> string \<Rightarrow> int" where
  "value_of vs k = (case map_of vs k of None \<Rightarrow> 0 | Some v \<Rightarrow> v)"

text \<open>What one record adds, in the order of the code.\<close>

definition record_fields :: "request_row \<Rightarrow> usage_values \<Rightarrow> (counter \<times> int) list" where
  "record_fields r vs =
     [(Requests, 1)]
     @ (if rq_status r \<ge> 400 then [(Errors, 1)] else [])
     @ (if rq_streamed r = 1 then [(StreamedCount, 1)] else [])
     @ [(RequestBytes, rq_request_bytes r), (ResponseBytes, rq_response_bytes r),
        (InputTokens, value_of vs ''input_tokens''), (OutputTokens, value_of vs ''output_tokens''),
        (CacheReadTokens, value_of vs ''cache_read_tokens''),
        (CacheWriteTokens, value_of vs ''cache_write_tokens''),
        (ReasoningTokens, value_of vs ''reasoning_tokens''),
        (TotalTokens, value_of vs ''total_tokens'')]"

definition add_record ::
  "daily_aggregate \<Rightarrow> request_row \<Rightarrow> usage_values \<Rightarrow> retention_error + daily_aggregate"
where
  "add_record a r vs = fold add_field (record_fields r vs) (Inr a)"

subsection \<open>The batch\<close>

abbreviation day_milliseconds :: int where "day_milliseconds \<equiv> 86400000"
abbreviation retention_period :: nanos where "retention_period \<equiv> 365 * 24 * hour"
abbreviation retention_batch :: nat where "retention_batch \<equiv> 1000"

definition go_day :: "ms \<Rightarrow> ms" where
  "go_day started = started - started mod day_milliseconds"

record batch_state =
  bt_aggregates :: "(ms \<times> daily_aggregate) list"
  bt_count :: nat
  bt_last_id :: int
  bt_last_started :: ms

definition valid_retained :: "request_row \<Rightarrow> bool" where
  "valid_retained r \<longleftrightarrow>
     rq_started r \<ge> 0 \<and> 100 \<le> rq_status r \<and> rq_status r \<le> 599
     \<and> (rq_streamed r = 0 \<or> rq_streamed r = 1) \<and> rq_request_bytes r \<ge> 0 \<and> rq_response_bytes r \<ge> 0"

definition batch_row :: "request_row \<Rightarrow> batch_state \<Rightarrow> retention_error + batch_state" where
  "batch_row r s =
     (if \<not> valid_retained r then Inl InvalidRetained
      else
        (case decode_stored_usage (rq_usage r) of
           Inl e \<Rightarrow> Inl (UndecodableUsage e)
         | Inr vs \<Rightarrow>
             let day = go_day (rq_started r);
                 current = (case map_of (bt_aggregates s) day of None \<Rightarrow> (\<lambda>_. 0) | Some a \<Rightarrow> a) in
             and_then (add_record current r vs) (\<lambda>a.
               Inr \<lparr>bt_aggregates = (day, a) # filter (\<lambda>p. fst p \<noteq> day) (bt_aggregates s),
                    bt_count = Suc (bt_count s), bt_last_id = rq_id r,
                    bt_last_started = rq_started r\<rparr>)))"

fun batch_rows :: "request_row list \<Rightarrow> batch_state \<Rightarrow> retention_error + batch_state" where
  "batch_rows [] s = Inr s"
| "batch_rows (r # rs) s = and_then (batch_row r s) (batch_rows rs)"

text \<open>
  \<open>INSERT ... ON CONFLICT(day_start_ms) DO UPDATE\<close>: an integer sum beyond 64 bits becomes a
  real in SQLite, which the \<open>CHECK (typeof(...) = 'integer')\<close> of the table rejects.
\<close>

fun upsert_daily ::
  "ms \<Rightarrow> ms \<times> daily_aggregate \<Rightarrow> aggregate_row list \<Rightarrow> retention_error + aggregate_row list"
where
  "upsert_daily now (day, a) [] =
     (if day \<ge> 0 \<and> day mod day_milliseconds = 0
      then Inr [\<lparr>ag_day = day, ag_counts = a, ag_updated = now\<rparr>] else Inl ConstraintFailed)"
| "upsert_daily now (day, a) (row # rows) =
     (if ag_day row = day then
        (if \<forall>c \<in> {Requests, Errors, StreamedCount, RequestBytes, ResponseBytes, InputTokens,
                  OutputTokens, CacheReadTokens, CacheWriteTokens, ReasoningTokens, TotalTokens}.
              ag_counts row c + a c \<le> max_int64
         then Inr (row\<lparr>ag_counts := (\<lambda>c. ag_counts row c + a c), ag_updated := now\<rparr> # rows)
         else Inl ConstraintFailed)
      else and_then (upsert_daily now (day, a) rows) (\<lambda>rows'. Inr (row # rows')))"

fun upsert_all ::
  "ms \<Rightarrow> (ms \<times> daily_aggregate) list \<Rightarrow> aggregate_row list \<Rightarrow> retention_error + aggregate_row list"
where
  "upsert_all now [] rows = Inr rows"
| "upsert_all now (p # ps) rows = and_then (upsert_daily now p rows) (upsert_all now ps)"

definition expired_before :: "ms \<Rightarrow> request_row \<Rightarrow> bool" where
  "expired_before cutoff r \<longleftrightarrow> rq_started r < cutoff"

definition at_or_before :: "ms \<Rightarrow> int \<Rightarrow> request_row \<Rightarrow> bool" where
  "at_or_before started last_id r \<longleftrightarrow>
     rq_started r < started \<or> (rq_started r = started \<and> rq_id r \<le> last_id)"

definition select_batch :: "ms \<Rightarrow> request_row list \<Rightarrow> request_row list" where
  "select_batch cutoff rows =
     take retention_batch
       (sort_key (\<lambda>r. (rq_started r, rq_id r)) (filter (expired_before cutoff) rows))"

text \<open>The rows one batch removes.\<close>

definition doomed :: "ms \<Rightarrow> batch_state \<Rightarrow> request_row \<Rightarrow> bool" where
  "doomed cutoff s r \<longleftrightarrow> expired_before cutoff r \<and> at_or_before (bt_last_started s) (bt_last_id s) r"

text \<open>\<open>audit\<close> is \<open>RecordAuditTx\<close>: whether it fails is an argument.\<close>

definition cleanup_batch ::
  "ms \<Rightarrow> ms \<Rightarrow> (audit_entry \<Rightarrow> bool) \<Rightarrow> usage_db \<Rightarrow> usage_db \<times> (retention_error + nat \<times> ms list)"
where
  "cleanup_batch now cutoff audit d =
     (case batch_rows (select_batch cutoff (requests d))
             \<lparr>bt_aggregates = [], bt_count = 0, bt_last_id = 0, bt_last_started = 0\<rparr> of
        Inl e \<Rightarrow> (d, Inl e)
      | Inr s \<Rightarrow>
          if bt_count s = 0 then (d, Inr (0, []))
          else
            (case upsert_all now (bt_aggregates s) (aggregates d) of
               Inl e \<Rightarrow> (d, Inl e)
             | Inr rows \<Rightarrow>
                 let deleted = length (filter (doomed cutoff s) (requests d));
                     entry = \<lparr>au_event = ''usage.request_metadata_expired'', au_cutoff = cutoff,
                              au_deleted = int deleted, au_days = length (bt_aggregates s)\<rparr> in
                 if deleted \<noteq> bt_count s then (d, Inl SelectionChanged)
                 else if \<not> audit entry then (d, Inl AuditFailed)
                 else (d\<lparr>requests := filter (\<lambda>r. \<not> doomed cutoff s r) (requests d), aggregates := rows,
                         audit_log := audit_log d @ [entry]\<rparr>,
                       Inr (deleted, map fst (bt_aggregates s)))))"

subsection \<open>Facts about a batch\<close>

lemma batch_rows_count:
  "batch_rows rs s = Inr s' \<Longrightarrow> bt_count s' = bt_count s + length rs"
proof (induction rs arbitrary: s)
  case (Cons r rs)
  then obtain s1 where "batch_row r s = Inr s1" "batch_rows rs s1 = Inr s'" by auto
  moreover from this(1) have "bt_count s1 = Suc (bt_count s)"
    by (auto simp: batch_row_def Let_def split: if_splits sum.splits)
  ultimately show ?case using Cons.IH [of s1] by simp
qed simp

lemma batch_rows_last:
  "batch_rows rs s = Inr s' \<Longrightarrow> rs \<noteq> [] \<Longrightarrow>
     bt_last_id s' = rq_id (last rs) \<and> bt_last_started s' = rq_started (last rs)"
proof (induction rs arbitrary: s)
  case (Cons r rs)
  then obtain s1 where s1: "batch_row r s = Inr s1" "batch_rows rs s1 = Inr s'" by auto
  then have "bt_last_id s1 = rq_id r \<and> bt_last_started s1 = rq_started r"
    by (auto simp: batch_row_def Let_def split: if_splits sum.splits)
  with s1 Cons.IH [of s1] show ?case by (cases "rs = []") auto
qed simp

abbreviation empty_batch :: batch_state where
  "empty_batch \<equiv> \<lparr>bt_aggregates = [], bt_count = 0, bt_last_id = 0, bt_last_started = 0\<rparr>"

lemma cleanup_batch_cases:
  assumes "cleanup_batch now cutoff audit d = (d', Inr (n, days))"
  shows "(d' = d \<and> n = 0 \<and> select_batch cutoff (requests d) = [])
    \<or> (\<exists>s rows. batch_rows (select_batch cutoff (requests d)) empty_batch = Inr s
        \<and> select_batch cutoff (requests d) \<noteq> []
        \<and> upsert_all now (bt_aggregates s) (aggregates d) = Inr rows
        \<and> n = bt_count s \<and> n = length (filter (doomed cutoff s) (requests d))
        \<and> requests d' = filter (\<lambda>r. \<not> doomed cutoff s r) (requests d) \<and> aggregates d' = rows)"
proof -
  obtain s where s: "batch_rows (select_batch cutoff (requests d)) empty_batch = Inr s"
    using assms by (auto simp: cleanup_batch_def split: sum.splits)
  have c: "bt_count s = length (select_batch cutoff (requests d))"
    using batch_rows_count [OF s] by simp
  from assms s c show ?thesis
    by (auto simp: cleanup_batch_def Let_def split: if_splits sum.splits)
qed

lemma cleanup_batch_error: "cleanup_batch now cutoff audit d = (d', Inl e) \<Longrightarrow> d' = d"
  by (auto simp: cleanup_batch_def Let_def split: if_splits sum.splits)

lemma cleanup_batch_shrinks:
  assumes "cleanup_batch now cutoff audit d = (d', Inr (n, days))"
  shows "length (requests d') + n = length (requests d)"
proof -
  have "length (filter (\<lambda>r. \<not> P r) xs) + length (filter P xs) = length xs" for P and xs :: "request_row list"
    using sum_length_filter_compl [of P xs] by simp
  with cleanup_batch_cases [OF assms] show ?thesis by fastforce
qed

subsection \<open>The loop\<close>

record cleanup_result =
  cr_cutoff :: ms
  cr_deleted :: nat
  cr_days :: nat

function cleanup_loop ::
  "ms \<Rightarrow> ms \<Rightarrow> (audit_entry \<Rightarrow> bool) \<Rightarrow> ms list \<Rightarrow> nat \<Rightarrow> usage_db
     \<Rightarrow> usage_db \<times> (retention_error + cleanup_result)"
where
  "cleanup_loop now cutoff audit days sofar d =
     (case cleanup_batch now cutoff audit d of
        (d', Inl e) \<Rightarrow> (d', Inl e)
      | (d', Inr (deleted, batch_days)) \<Rightarrow>
          if deleted < retention_batch then
            (d', Inr \<lparr>cr_cutoff = cutoff, cr_deleted = sofar + deleted,
                      cr_days = length (remdups (batch_days @ days))\<rparr>)
          else cleanup_loop now cutoff audit (batch_days @ days) (sofar + deleted) d')"
  by pat_completeness auto
termination
  by (relation "measure (\<lambda>(now, cutoff, audit, days, sofar, d). length (requests d))")
     (auto dest!: sym [of _ "cleanup_batch _ _ _ _"] dest: cleanup_batch_shrinks)

declare cleanup_loop.simps [simp del]

text \<open>\<open>now\<close> is in nanoseconds; the clock is read once.\<close>

definition cleanup ::
  "int \<Rightarrow> (audit_entry \<Rightarrow> bool) \<Rightarrow> usage_db \<Rightarrow> usage_db \<times> (retention_error + cleanup_result)"
where
  "cleanup now audit d =
     cleanup_loop (now div millisecond) ((now - retention_period) div millisecond) audit [] 0 d"

text \<open>\<open>nextRetentionSweep\<close>, in nanoseconds since the epoch (UTC days have no leap seconds).\<close>

definition next_sweep :: "int \<Rightarrow> int" where
  "next_sweep now =
     (let midnight = now - now mod (24 * hour);
          next = midnight + 10 * minute
      in if next > now then next else next + 24 * hour)"

subsection \<open>What a batch removes\<close>

lemma select_batch_sorted:
  "sorted (map (\<lambda>r. (rq_started r, rq_id r)) (select_batch cutoff rows))"
  by (simp add: select_batch_def take_map [symmetric] sorted_wrt_take)

lemma select_batch_mset: "mset (select_batch cutoff rows) \<subseteq># mset (filter (expired_before cutoff) rows)"
proof -
  let ?sorted = "sort_key (\<lambda>r. (rq_started r, rq_id r)) (filter (expired_before cutoff) rows)"
  have "mset (take retention_batch ?sorted) \<subseteq># mset (take retention_batch ?sorted @ drop retention_batch ?sorted)"
    by (simp only: mset_append mset_subset_eq_add_left)
  then show ?thesis by (simp add: select_batch_def)
qed

lemma sorted_last_le: "sorted xs \<Longrightarrow> x \<in> set xs \<Longrightarrow> x \<le> last xs"
  by (induction xs) (auto split: if_splits)

lemma batch_doomed:
  assumes "batch_rows (select_batch cutoff rows) empty_batch = Inr s" "r \<in> set (select_batch cutoff rows)"
  shows "at_or_before (bt_last_started s) (bt_last_id s) r"
proof -
  let ?sel = "select_batch cutoff rows" and ?key = "\<lambda>r. (rq_started r, rq_id r)"
  have ne: "?sel \<noteq> []" using assms(2) by auto
  have "?key r \<le> last (map ?key ?sel)"
    using sorted_last_le [OF select_batch_sorted [of cutoff rows], of "?key r"] assms(2) by simp
  then have "?key r \<le> ?key (last ?sel)" using ne by (simp add: last_map)
  then show ?thesis
    using batch_rows_last [OF assms(1) ne] by (auto simp: at_or_before_def)
qed

lemma batch_doomed_mset:
  assumes "batch_rows (select_batch cutoff rows) empty_batch = Inr s"
    and "length (select_batch cutoff rows) = length (filter (doomed cutoff s) rows)"
  shows "mset (select_batch cutoff rows) = mset (filter (doomed cutoff s) rows)"
proof -
  let ?A = "at_or_before (bt_last_started s) (bt_last_id s)" and ?sel = "select_batch cutoff rows"
  have "filter ?A ?sel = ?sel" using batch_doomed [OF assms(1)] by (simp add: filter_id_conv)
  then have "mset ?sel = filter_mset ?A (mset ?sel)" by (metis mset_filter)
  also have "\<dots> \<subseteq># filter_mset ?A (mset (filter (expired_before cutoff) rows))"
    using select_batch_mset by (rule multiset_filter_mono)
  also have "\<dots> = mset (filter (doomed cutoff s) rows)"
    by (simp add: doomed_def filter_filter_mset conj_commute)
  finally show ?thesis
    using assms(2) by (metis mset_subset_size size_mset subset_mset.le_neq_trans less_irrefl)
qed

subsection \<open>Conservation\<close>

definition contribution :: "request_row \<Rightarrow> counter \<Rightarrow> int" where
  "contribution r c =
     (case decode_stored_usage (rq_usage r) of
        Inl _ \<Rightarrow> 0
      | Inr vs \<Rightarrow> sum_list (map snd (filter (\<lambda>f. fst f = c) (record_fields r vs))))"

definition pending :: "request_row list \<Rightarrow> ms \<Rightarrow> counter \<Rightarrow> int" where
  "pending rs day c = sum_list (map (\<lambda>r. if go_day (rq_started r) = day then contribution r c else 0) rs)"

definition aggregated :: "aggregate_row list \<Rightarrow> ms \<Rightarrow> counter \<Rightarrow> int" where
  "aggregated rows day c = sum_list (map (\<lambda>a. if ag_day a = day then ag_counts a c else 0) rows)"

text \<open>Everything known of a day: its records and its aggregate.\<close>

definition day_total :: "usage_db \<Rightarrow> ms \<Rightarrow> counter \<Rightarrow> int" where
  "day_total d day c = pending (requests d) day c + aggregated (aggregates d) day c"

lemma fold_add_field_Inl: "fold add_field fs (Inl e) = Inl e"
  by (induction fs) (simp_all add: add_field_def)

lemma fold_add_field:
  "fold add_field fs (Inr a) = Inr a' \<Longrightarrow>
     a' c = a c + sum_list (map snd (filter (\<lambda>f. fst f = c) fs))"
proof (induction fs arbitrary: a)
  case (Cons f fs)
  show ?case
  proof (cases "add_field f (Inr a)")
    case (Inl e)
    with Cons.prems show ?thesis by (simp add: fold_add_field_Inl)
  next
    case (Inr a1)
    then have "a1 = a(fst f := a (fst f) + snd f)"
      by (auto simp: add_field_def add_checked_def split: if_splits)
    with Cons Inr show ?thesis by auto
  qed
qed simp

definition batch_amount :: "(ms \<times> daily_aggregate) list \<Rightarrow> ms \<Rightarrow> counter \<Rightarrow> int" where
  "batch_amount as day c = sum_list (map (\<lambda>p. if fst p = day then snd p c else 0) as)"

lemma batch_amount_filter:
  "distinct (map fst as) \<Longrightarrow>
   batch_amount (filter (\<lambda>p. fst p \<noteq> k) as) day c =
     (if day = k then 0 else batch_amount as day c)"
  by (induction as) (auto simp: batch_amount_def)

lemma batch_amount_map_of:
  "distinct (map fst as) \<Longrightarrow>
   batch_amount as day c = (case map_of as day of None \<Rightarrow> 0 | Some a \<Rightarrow> a c)"
proof (induction as)
  case (Cons p as)
  have "fst p \<notin> fst ` set as" using Cons.prems by simp
  then have "batch_amount as (fst p) c = 0" "map_of as (fst p) = None"
    by (induction as) (auto simp: batch_amount_def)
  with Cons show ?case by (cases "day = fst p"; cases p) (simp_all add: batch_amount_def)
qed (simp add: batch_amount_def)

lemma batch_row_amount:
  assumes "batch_row r s = Inr s'" "distinct (map fst (bt_aggregates s))"
  shows "distinct (map fst (bt_aggregates s'))
    \<and> batch_amount (bt_aggregates s') day c = batch_amount (bt_aggregates s) day c + pending [r] day c"
proof -
  let ?day = "go_day (rq_started r)"
  let ?cur = "case map_of (bt_aggregates s) ?day of None \<Rightarrow> (\<lambda>_. 0) | Some a \<Rightarrow> a"
  obtain vs a where vs: "decode_stored_usage (rq_usage r) = Inr vs" "add_record ?cur r vs = Inr a"
      "bt_aggregates s' = (?day, a) # filter (\<lambda>p. fst p \<noteq> ?day) (bt_aggregates s)"
    using assms(1) by (auto simp: batch_row_def Let_def split: if_splits sum.splits)
  have a: "a c = ?cur c + contribution r c" for c
    using fold_add_field [of "record_fields r vs" ?cur a c] vs(1,2)
    by (simp add: add_record_def contribution_def)
  have cur: "?cur c = batch_amount (bt_aggregates s) ?day c"
    using batch_amount_map_of [OF assms(2)] by (simp split: option.split)
  have dist: "distinct (map fst (bt_aggregates s'))"
    using assms(2) vs(3) by (auto simp: distinct_map_filter)
  have "batch_amount (bt_aggregates s') day c =
      (if day = ?day then a c else 0) + batch_amount (filter (\<lambda>p. fst p \<noteq> ?day) (bt_aggregates s)) day c"
    by (auto simp: vs(3) batch_amount_def)
  then show ?thesis
    using dist a cur batch_amount_filter [OF assms(2), of ?day day c] by (auto simp: pending_def)
qed

lemma batch_rows_amount:
  "batch_rows rs s = Inr s' \<Longrightarrow> distinct (map fst (bt_aggregates s)) \<Longrightarrow>
     distinct (map fst (bt_aggregates s'))
     \<and> batch_amount (bt_aggregates s') day c = batch_amount (bt_aggregates s) day c + pending rs day c"
proof (induction rs arbitrary: s)
  case (Cons r rs)
  then obtain s1 where "batch_row r s = Inr s1" "batch_rows rs s1 = Inr s'" by auto
  with Cons batch_row_amount [of r s s1 day c] show ?case by (simp add: pending_def)
qed (simp add: pending_def)

lemma upsert_daily_amount:
  "upsert_daily now p rows = Inr rows' \<Longrightarrow>
     aggregated rows' day c = aggregated rows day c + (if fst p = day then snd p c else 0)"
proof (induction rows arbitrary: rows')
  case Nil
  then show ?case by (cases p) (auto simp: aggregated_def split: if_splits)
next
  case (Cons row rows)
  obtain d a where p: "p = (d, a)" by (cases p)
  show ?case
  proof (cases "ag_day row = d")
    case True
    with Cons.prems p show ?thesis by (auto simp: aggregated_def split: if_splits)
  next
    case False
    with Cons.prems p obtain rows1 where "upsert_daily now p rows = Inr rows1" "rows' = row # rows1"
      by auto
    with Cons.IH [of rows1] show ?thesis by (simp add: aggregated_def)
  qed
qed

lemma upsert_all_amount:
  "upsert_all now as rows = Inr rows' \<Longrightarrow>
     aggregated rows' day c = aggregated rows day c + batch_amount as day c"
proof (induction as arbitrary: rows)
  case (Cons p as)
  then obtain rows1 where "upsert_daily now p rows = Inr rows1" "upsert_all now as rows1 = Inr rows'"
    by auto
  with Cons.IH [of rows1] upsert_daily_amount [of now p rows rows1 day c]
  show ?case by (simp add: batch_amount_def)
qed (simp add: batch_amount_def)

lemma sum_list_filter_compl:
  "sum_list (map f (filter P xs)) + sum_list (map f (filter (\<lambda>x. \<not> P x) xs)) = sum_list (map f xs)"
  for f :: "'a \<Rightarrow> int"
  by (induction xs) auto

lemma pending_sum:
  "pending rs day c =
     sum_mset (image_mset (\<lambda>r. if go_day (rq_started r) = day then contribution r c else 0) (mset rs))"
  unfolding pending_def by (simp only: sum_mset_sum_list [symmetric] mset_map)

lemma pending_mset: "mset rs = mset rs' \<Longrightarrow> pending rs day c = pending rs' day c"
  by (simp only: pending_sum)

lemma cleanup_batch_conserves:
  assumes "cleanup_batch now cutoff audit d = (d', Inr (n, days))"
  shows "day_total d' day c = day_total d day c"
  using cleanup_batch_cases [OF assms]
proof (elim disjE exE conjE)
  fix s rows
  let ?sel = "select_batch cutoff (requests d)" and ?D = "doomed cutoff s"
  assume s: "batch_rows ?sel empty_batch = Inr s"
    and u: "upsert_all now (bt_aggregates s) (aggregates d) = Inr rows"
    and n: "n = bt_count s" "n = length (filter ?D (requests d))"
    and r: "requests d' = filter (\<lambda>r. \<not> ?D r) (requests d)" "aggregates d' = rows"
  have "length ?sel = length (filter ?D (requests d))" using n batch_rows_count [OF s] by simp
  then have "pending ?sel day c = pending (filter ?D (requests d)) day c"
    using batch_doomed_mset [OF s] pending_mset by blast
  moreover have "pending (filter ?D (requests d)) day c + pending (requests d') day c = pending (requests d) day c"
    unfolding r pending_def by (rule sum_list_filter_compl)
  moreover have "aggregated rows day c = aggregated (aggregates d) day c + pending ?sel day c"
    using upsert_all_amount [OF u, of day c] batch_rows_amount [OF s, of day c]
    by (simp add: batch_amount_def)
  ultimately show ?thesis by (simp add: day_total_def r)
qed (simp)

lemma cleanup_loop_conserves:
  "cleanup_loop now cutoff audit days sofar d = (d', res) \<Longrightarrow> day_total d' day c = day_total d day c"
proof (induction now cutoff audit days sofar d rule: cleanup_loop.induct)
  case (1 now cutoff audit days sofar d)
  obtain d1 r where b: "cleanup_batch now cutoff audit d = (d1, r)" by fastforce
  show ?case
  proof (cases r)
    case (Inl e)
    with b "1.prems" cleanup_batch_error [of now cutoff audit d d1 e] show ?thesis
      by (simp add: cleanup_loop.simps [of now cutoff audit days sofar d])
  next
    case (Inr p)
    then obtain n ds where p: "r = Inr (n, ds)" by (cases p) auto
    have c1: "day_total d1 day c = day_total d day c" using cleanup_batch_conserves b p by blast
    show ?thesis
    proof (cases "n < retention_batch")
      case True
      with b p "1.prems" c1 show ?thesis by (simp add: cleanup_loop.simps [of now cutoff audit days sofar d])
    next
      case False
      with b p "1.prems" have "cleanup_loop now cutoff audit (ds @ days) (sofar + n) d1 = (d', res)"
        by (simp add: cleanup_loop.simps [of now cutoff audit days sofar d])
      with "1.IH" [OF b [symmetric] p refl] False c1 show ?thesis by simp
    qed
  qed
qed


subsection \<open>Completeness\<close>

lemma filter_same_length:
  assumes "\<And>x. P x \<Longrightarrow> Q x" "length (filter Q xs) \<le> length (filter P xs)" "x \<in> set xs" "Q x"
  shows "P x"
proof (rule ccontr)
  assume "\<not> P x"
  have "filter P xs = filter P (filter Q xs)" using assms(1) by (induction xs) auto
  moreover have "x \<in> set (filter Q xs)" using assms(3,4) by simp
  then have "length (filter P (filter Q xs)) < length (filter Q xs)"
    using \<open>\<not> P x\<close> by (rule length_filter_less)
  ultimately show False using assms(2) by simp
qed

lemma length_filter_split:
  "length (filter Q xs) = length (filter Q (filter P xs)) + length (filter Q (filter (\<lambda>x. \<not> P x) xs))"
  by (induction xs) auto

lemma cleanup_batch_removes:
  assumes "cleanup_batch now cutoff audit d = (d', Inr (n, days))"
  shows "filter (\<lambda>r. \<not> expired_before cutoff r) (requests d') = filter (\<lambda>r. \<not> expired_before cutoff r) (requests d)
    \<and> length (filter (expired_before cutoff) (requests d)) = n + length (filter (expired_before cutoff) (requests d'))
    \<and> (n < retention_batch \<longrightarrow> requests d' = filter (\<lambda>r. \<not> expired_before cutoff r) (requests d))"
  using cleanup_batch_cases [OF assms]
proof (elim disjE exE conjE)
  assume e: "d' = d" "n = 0" "select_batch cutoff (requests d) = []"
  have "filter (expired_before cutoff) (requests d) = []"
    using e(3) by (simp add: select_batch_def) (metis length_0_conv length_sort)
  with e(1,2) show ?thesis by (auto simp: filter_empty_conv filter_id_conv)
next
  fix s rows
  let ?E = "expired_before cutoff" and ?D = "doomed cutoff s" and ?sel = "select_batch cutoff (requests d)"
  assume s: "batch_rows ?sel empty_batch = Inr s" and n: "n = bt_count s" "n = length (filter ?D (requests d))"
    and r: "requests d' = filter (\<lambda>r. \<not> ?D r) (requests d)"
  have DE: "?D x \<Longrightarrow> ?E x" for x by (simp add: doomed_def)
  have keep: "filter (\<lambda>r. \<not> ?E r) (requests d') = filter (\<lambda>r. \<not> ?E r) (requests d)"
    unfolding r using DE by (auto intro: filter_cong)
  have "filter ?E (filter ?D (requests d)) = filter ?D (requests d)"
    unfolding filter_filter using DE by (intro filter_cong) auto
  moreover have "length (filter ?E (requests d)) =
      length (filter ?E (filter ?D (requests d))) + length (filter ?E (requests d'))"
    unfolding r by (rule length_filter_split)
  ultimately have count: "length (filter ?E (requests d)) = n + length (filter ?E (requests d'))"
    using n(2) by simp
  have "requests d' = filter (\<lambda>r. \<not> ?E r) (requests d)" if "n < retention_batch"
  proof -
    have "length ?sel = n" using n(1) batch_rows_count [OF s] by simp
    then have "length (filter ?E (requests d)) = n" using that by (simp add: select_batch_def min_def split: if_splits)
    then have "?E x \<longleftrightarrow> ?D x" if "x \<in> set (requests d)" for x
      using filter_same_length [of ?D ?E "requests d" x] DE n(2) that by auto
    then show ?thesis unfolding r by (auto intro: filter_cong)
  qed
  with keep count show ?thesis by blast
qed

lemma cleanup_loop_complete:
  "cleanup_loop now cutoff audit days sofar d = (d', Inr res) \<Longrightarrow>
     requests d' = filter (\<lambda>r. \<not> expired_before cutoff r) (requests d)
     \<and> cr_deleted res = sofar + length (filter (expired_before cutoff) (requests d))"
proof (induction now cutoff audit days sofar d rule: cleanup_loop.induct)
  case (1 now cutoff audit days sofar d)
  obtain d1 r where b: "cleanup_batch now cutoff audit d = (d1, r)" by fastforce
  with "1.prems" obtain n ds where p: "r = Inr (n, ds)"
    by (cases r) (auto simp: cleanup_loop.simps [of now cutoff audit days sofar d])
  note rem = cleanup_batch_removes [OF b [unfolded p]]
  show ?case
  proof (cases "n < retention_batch")
    case True
    with b p "1.prems" have "d' = d1" "cr_deleted res = sofar + n"
      by (auto simp: cleanup_loop.simps [of now cutoff audit days sofar d])
    moreover have "filter (expired_before cutoff) (requests d1) = []"
      using rem True by (simp add: filter_empty_conv)
    ultimately show ?thesis using rem True by simp
  next
    case False
    with b p "1.prems" have l: "cleanup_loop now cutoff audit (ds @ days) (sofar + n) d1 = (d', Inr res)"
      by (simp add: cleanup_loop.simps [of now cutoff audit days sofar d])
    from "1.IH" [OF b [symmetric] p refl False l] rem show ?thesis by simp
  qed
qed

text \<open>
  C14: A cleanup that returns nil has removed exactly the records started more than a year before
  the clock, in their order, and reports how many that were.
\<close>

theorem cleanup_complete:
  assumes "cleanup now audit d = (d', Inr res)"
  shows "requests d' = filter (\<lambda>r. \<not> rq_started r < (now - retention_period) div millisecond) (requests d)
    \<and> cr_deleted res = length (filter (\<lambda>r. rq_started r < (now - retention_period) div millisecond) (requests d))"
  using cleanup_loop_complete [OF assms [unfolded cleanup_def]]
  by (simp add: expired_before_def [abs_def])

definition sample_row :: "int \<Rightarrow> ms \<Rightarrow> request_row" where
  "sample_row i started =
     \<lparr>rq_id = i, rq_public_id = show_int i, rq_client_key = 1, rq_protocol = ''openai'',
      rq_endpoint = ''chat_completions'', rq_model = ''gpt'', rq_provider = None, rq_upstream = None,
      rq_account = None, rq_status = 200, rq_error_code = None, rq_streamed = 0, rq_started = started,
      rq_first_byte = None, rq_completed = started, rq_request_bytes = 10, rq_response_bytes = 20,
      rq_usage = lex (values_json [(''input_tokens'', 5)]), rq_routing = []\<rparr>"

definition sample_usage_db :: usage_db where
  "sample_usage_db =
     \<lparr>requests = [sample_row 1 1000, sample_row 2 86400000, sample_row 3 40000000000],
      aggregates = [], audit_log = []\<rparr>"

lemma sample_cleanup:
  "case snd (cleanup (40000000000 * millisecond) (\<lambda>_. True) sample_usage_db) of
     Inr r \<Rightarrow> cr_deleted r = 2 \<and> cr_days r = 2 | Inl _ \<Rightarrow> False"
  by code_simp

theorem cleanup_complete_witness:
  "map rq_id (requests (fst (cleanup (40000000000 * millisecond) (\<lambda>_. True) sample_usage_db))) = [3]"
proof -
  obtain d' res where c: "cleanup (40000000000 * millisecond) (\<lambda>_. True) sample_usage_db = (d', Inr res)"
    using sample_cleanup by (cases "cleanup (40000000000 * millisecond) (\<lambda>_. True) sample_usage_db")
      (auto split: sum.splits)
  from cleanup_complete [OF c] c show ?thesis by (simp add: sample_usage_db_def sample_row_def)
qed

end
