(* ===== verification/Request_Log.thy ===== *)
theory Request_Log
  imports Retention Client_Keys
begin

text \<open>
  Request metadata: \<open>internal/usage/writer.go\<close> collects one event per request in a bounded queue
  and writes them in batches from a goroutine of its own; \<open>internal/usage/reader.go\<close> lists them.
  The writer is a state machine whose actions are the steps of that goroutine and of the goroutines
  that call \<open>Enqueue\<close> and \<open>Close\<close>, in any interleaving.
\<close>

subsection \<open>Events\<close>

record event =
  ev_request :: string
  ev_client_key :: int
  ev_protocol :: string
  ev_endpoint :: string
  ev_model :: string
  ev_provider :: string
  ev_upstream :: int
  ev_account :: int
  ev_status :: int
  ev_error_code :: string
  ev_streamed :: bool
  ev_started :: ms
  ev_first_byte :: "ms option"
  ev_completed :: ms
  ev_request_bytes :: int
  ev_response_bytes :: int
  ev_usage :: "lexeme list"
  ev_routing :: "lexeme list"

text \<open>The row an event becomes: \<open>NULLIF(?, '')\<close> and \<open>NULLIF(?, 0)\<close> on the optional columns.\<close>

definition null_if_zero :: "int \<Rightarrow> int option" where
  "null_if_zero n = (if n = 0 then None else Some n)"

definition event_row :: "int \<Rightarrow> event \<Rightarrow> request_row" where
  "event_row rid e =
     \<lparr>rq_id = rid, rq_public_id = ev_request e, rq_client_key = ev_client_key e,
      rq_protocol = ev_protocol e, rq_endpoint = ev_endpoint e, rq_model = ev_model e,
      rq_provider = null_if_empty (ev_provider e), rq_upstream = null_if_zero (ev_upstream e),
      rq_account = null_if_zero (ev_account e), rq_status = ev_status e,
      rq_error_code = null_if_empty (ev_error_code e), rq_streamed = (if ev_streamed e then 1 else 0),
      rq_started = ev_started e, rq_first_byte = ev_first_byte e, rq_completed = ev_completed e,
      rq_request_bytes = ev_request_bytes e, rq_response_bytes = ev_response_bytes e,
      rq_usage = ev_usage e, rq_routing = ev_routing e\<rparr>"

text \<open>The \<open>CHECK\<close>s and the foreign keys of \<open>request_records\<close>.\<close>

definition checks_ok :: "event \<Rightarrow> bool" where
  "checks_ok e \<longleftrightarrow> ev_request_bytes e \<ge> 0 \<and> ev_response_bytes e \<ge> 0"

definition references_ok :: "'x control_db_scheme \<Rightarrow> event \<Rightarrow> bool" where
  "references_ok s e \<longleftrightarrow> ev_client_key e \<in> ck_id ` set (client_keys s)
     \<and> (ev_upstream e = 0 \<or> ev_upstream e \<in> up_id ` set (upstreams s))
     \<and> (ev_account e = 0 \<or> ev_account e \<in> ac_id ` set (accounts s))"

definition insert_event ::
  "'x control_db_scheme \<Rightarrow> event \<Rightarrow> request_row list \<Rightarrow> request_row list option"
where
  "insert_event s e rows =
     (if \<not> checks_ok e then None
      else if ev_request e \<in> rq_public_id ` set rows then Some rows
      else if \<not> references_ok s e then None
      else Some (rows @ [event_row (next_id rq_id rows) e]))"

fun insert_events ::
  "'x control_db_scheme \<Rightarrow> event list \<Rightarrow> request_row list \<Rightarrow> request_row list option"
where
  "insert_events s [] rows = Some rows"
| "insert_events s (e # es) rows = Option.bind (insert_event s e rows) (insert_events s es)"

text \<open>\<open>healthy\<close> is whether the database served this transaction; otherwise it is rolled back.\<close>

definition write_batch ::
  "'x control_db_scheme \<Rightarrow> bool \<Rightarrow> event list \<Rightarrow> request_row list \<Rightarrow> request_row list option"
where
  "write_batch s healthy events rows = (if healthy then insert_events s events rows else None)"

subsection \<open>The writer\<close>

text \<open>
  \<open>w_checked\<close> holds the calls of \<open>Enqueue\<close> that have read \<open>closed\<close> and not yet reached the
  select; \<open>w_accepted\<close> is the history of the events for which \<open>Enqueue\<close> returned nil.
\<close>

record writer =
  w_queue :: "event list"
  w_batch :: "event list"
  w_table :: "request_row list"
  w_closed :: bool
  w_draining :: bool
  w_done :: bool
  w_errors :: nat
  w_checked :: "event list"
  w_accepted :: "event list"

definition new_writer :: "request_row list \<Rightarrow> writer" where
  "new_writer rows =
     \<lparr>w_queue = [], w_batch = [], w_table = rows, w_closed = False, w_draining = False,
      w_done = False, w_errors = 0, w_checked = [], w_accepted = []\<rparr>"

definition flush :: "'x control_db_scheme \<Rightarrow> bool \<Rightarrow> writer \<Rightarrow> writer" where
  "flush s healthy w =
     (if w_batch w = [] then w
      else
        (case write_batch s healthy (w_batch w) (w_table w) of
           None \<Rightarrow> w\<lparr>w_errors := w_errors w + 1\<rparr>
         | Some rows \<Rightarrow> w\<lparr>w_table := rows, w_batch := []\<rparr>))"

datatype writer_action =
    CheckOpen event \<comment> \<open>\<open>Enqueue\<close> reads \<open>closed\<close>\<close>
  | SendEvent event bool \<comment> \<open>its select: the queue, or a batch of its own\<close>
  | ReceiveEvent bool
  | FlushTick bool
  | CloseWriter
  | SeeStop
  | DrainEvent
  | FinishDrain bool

definition send_event :: "'x control_db_scheme \<Rightarrow> event \<Rightarrow> bool \<Rightarrow> writer \<Rightarrow> writer" where
  "send_event s e healthy w =
     (let w = w\<lparr>w_checked := remove1 e (w_checked w)\<rparr> in
      if length (w_queue w) < 1000
      then w\<lparr>w_queue := w_queue w @ [e], w_accepted := w_accepted w @ [e]\<rparr>
      else
        (case write_batch s healthy [e] (w_table w) of
           None \<Rightarrow> w
         | Some rows \<Rightarrow> w\<lparr>w_table := rows, w_accepted := w_accepted w @ [e]\<rparr>))"

definition receive_event :: "'x control_db_scheme \<Rightarrow> bool \<Rightarrow> writer \<Rightarrow> writer" where
  "receive_event s healthy w =
     (let w = w\<lparr>w_queue := tl (w_queue w), w_batch := w_batch w @ [hd (w_queue w)]\<rparr> in
      if length (w_batch w) \<ge> 100 then flush s healthy w else w)"

text \<open>One action, \<open>None\<close> where it is not enabled.\<close>

fun writer_act :: "'x control_db_scheme \<Rightarrow> writer_action \<Rightarrow> writer \<Rightarrow> writer option" where
  "writer_act s (CheckOpen e) w =
     Some (if w_closed w then w else w\<lparr>w_checked := e # w_checked w\<rparr>)"
| "writer_act s (SendEvent e healthy) w =
     (if e \<in> set (w_checked w) then Some (send_event s e healthy w) else None)"
| "writer_act s (ReceiveEvent healthy) w =
     (if w_draining w \<or> w_done w \<or> w_queue w = [] then None else Some (receive_event s healthy w))"
| "writer_act s (FlushTick healthy) w =
     (if w_draining w \<or> w_done w then None else Some (flush s healthy w))"
| "writer_act s CloseWriter w = Some (w\<lparr>w_closed := True\<rparr>)"
| "writer_act s SeeStop w =
     (if w_closed w \<and> \<not> w_draining w \<and> \<not> w_done w then Some (w\<lparr>w_draining := True\<rparr>) else None)"
| "writer_act s DrainEvent w =
     (if w_draining w \<and> \<not> w_done w \<and> w_queue w \<noteq> []
      then Some (w\<lparr>w_queue := tl (w_queue w), w_batch := w_batch w @ [hd (w_queue w)]\<rparr>) else None)"
| "writer_act s (FinishDrain healthy) w =
     (if w_draining w \<and> \<not> w_done w \<and> w_queue w = []
      then Some ((flush s healthy w)\<lparr>w_done := True\<rparr>) else None)"

fun run_writer :: "'x control_db_scheme \<Rightarrow> writer_action list \<Rightarrow> writer \<Rightarrow> writer option" where
  "run_writer s [] w = Some w"
| "run_writer s (a # acts) w = Option.bind (writer_act s a w) (run_writer s acts)"


subsection \<open>Nothing accepted is dropped\<close>

definition stored :: "request_row list \<Rightarrow> event \<Rightarrow> bool" where
  "stored rows e \<longleftrightarrow> ev_request e \<in> rq_public_id ` set rows"

definition held :: "writer \<Rightarrow> event \<Rightarrow> bool" where
  "held w e \<longleftrightarrow> e \<in> set (w_queue w) \<or> e \<in> set (w_batch w) \<or> stored (w_table w) e"

lemma insert_event_Some:
  "insert_event s e rows = Some rows' \<Longrightarrow>
    (\<exists>new. rows' = rows @ new) \<and> stored rows' e
    \<and> (distinct (map rq_public_id rows) \<longrightarrow> distinct (map rq_public_id rows'))"
  by (auto simp: insert_event_def stored_def event_row_def split: if_splits)

lemma insert_events_Some:
  "insert_events s es rows = Some rows' \<Longrightarrow>
    (\<exists>new. rows' = rows @ new) \<and> (\<forall>e \<in> set es. stored rows' e)
    \<and> (distinct (map rq_public_id rows) \<longrightarrow> distinct (map rq_public_id rows'))"
proof (induction es arbitrary: rows)
  case (Cons e es)
  then obtain mid where mid: "insert_event s e rows = Some mid" "insert_events s es mid = Some rows'"
    by (cases "insert_event s e rows") auto
  from insert_event_Some [OF mid(1)] Cons.IH [OF mid(2)] show ?case by (auto simp: stored_def)
qed simp

lemma write_batch_Some:
  assumes "write_batch s healthy es rows = Some rows'"
  shows "\<exists>new. rows' = rows @ new" "\<forall>e \<in> set es. stored rows' e"
    "distinct (map rq_public_id rows) \<Longrightarrow> distinct (map rq_public_id rows')"
  using assms insert_events_Some [of s es rows rows'] by (auto simp: write_batch_def split: if_splits)

lemma stored_append: "stored rows e \<Longrightarrow> stored (rows @ new) e"
  by (auto simp: stored_def)

lemma flush_held: "held w e \<Longrightarrow> held (flush s healthy w) e"
  using write_batch_Some [of s healthy "w_batch w" "w_table w"]
  by (fastforce simp: flush_def held_def split: option.splits dest: stored_append)

lemma flush_queue [simp]: "w_queue (flush s healthy w) = w_queue w"
    "w_accepted (flush s healthy w) = w_accepted w" "w_checked (flush s healthy w) = w_checked w"
    "w_closed (flush s healthy w) = w_closed w" "w_done (flush s healthy w) = w_done w"
    "w_draining (flush s healthy w) = w_draining w"
  by (simp_all add: flush_def split: option.splits)

lemma flush_batch: "w_batch (flush s healthy w) = [] \<or>
    (w_batch (flush s healthy w) = w_batch w \<and> w_errors (flush s healthy w) = Suc (w_errors w))"
  by (simp add: flush_def split: option.splits)

lemma flush_distinct:
  "distinct (map rq_public_id (w_table w)) \<Longrightarrow> distinct (map rq_public_id (w_table (flush s healthy w)))"
  using write_batch_Some(3) [of s healthy "w_batch w" "w_table w"] by (simp add: flush_def split: option.splits)

text \<open>What every action keeps.\<close>

definition writer_inv :: "writer \<Rightarrow> bool" where
  "writer_inv w \<longleftrightarrow> (\<forall>e \<in> set (w_accepted w). held w e) \<and> distinct (map rq_public_id (w_table w))
     \<and> length (w_queue w) \<le> 1000"

lemma move_held:
  "held w e \<Longrightarrow> w_queue w \<noteq> [] \<Longrightarrow>
    held (w\<lparr>w_queue := tl (w_queue w), w_batch := w_batch w @ [hd (w_queue w)]\<rparr>) e"
  by (cases "w_queue w") (auto simp: held_def)

lemma send_event_inv:
  assumes "writer_inv w"
  shows "writer_inv (send_event s e healthy w)"
proof (cases "length (w_queue w) < 1000")
  case True
  with assms show ?thesis by (auto simp: writer_inv_def send_event_def held_def)
next
  case False
  then show ?thesis
    using assms write_batch_Some [of s healthy "[e]" "w_table w"]
    by (fastforce simp: writer_inv_def send_event_def held_def Let_def split: option.splits dest: stored_append)
qed

lemma flush_inv: "writer_inv w \<Longrightarrow> writer_inv (flush s healthy w)"
  by (auto simp: writer_inv_def flush_held flush_distinct)

lemma writer_inv_flags [simp]:
  "writer_inv (w\<lparr>w_done := b\<rparr>) = writer_inv w" "writer_inv (w\<lparr>w_closed := b\<rparr>) = writer_inv w"
  "writer_inv (w\<lparr>w_draining := b\<rparr>) = writer_inv w" "writer_inv (w\<lparr>w_checked := es\<rparr>) = writer_inv w"
  by (simp_all add: writer_inv_def held_def)

lemma writer_act_inv:
  assumes "writer_act s a w = Some w'" "writer_inv w"
  shows "writer_inv w'"
proof (cases a)
  case (SendEvent e healthy)
  with assms show ?thesis by (auto simp: send_event_inv split: if_splits)
next
  case (ReceiveEvent healthy)
  let ?m = "w\<lparr>w_queue := tl (w_queue w), w_batch := w_batch w @ [hd (w_queue w)]\<rparr>"
  have "w' = ?m \<or> w' = flush s healthy ?m" "w_queue w \<noteq> []"
    using assms(1) ReceiveEvent by (auto simp: receive_event_def Let_def split: if_splits)
  moreover have "writer_inv ?m" using assms(2) move_held [of w] \<open>w_queue w \<noteq> []\<close>
    by (auto simp: writer_inv_def)
  ultimately show ?thesis by (auto simp: flush_inv)
next
  case DrainEvent
  with assms show ?thesis using move_held [of w] by (auto simp: writer_inv_def split: if_splits)
qed (use assms in \<open>auto simp: flush_inv split: if_splits\<close>)

lemma run_writer_inv: "run_writer s acts w = Some w' \<Longrightarrow> writer_inv w \<Longrightarrow> writer_inv w'"
proof (induction acts arbitrary: w)
  case (Cons a acts)
  then show ?case by (cases "writer_act s a w") (auto dest: writer_act_inv)
qed simp

lemma run_writer_append:
  "run_writer s (as @ bs) w = Option.bind (run_writer s as w) (run_writer s bs)"
  by (induction as arbitrary: w) (auto split: bind_split)

definition sample_event :: "string \<Rightarrow> int \<Rightarrow> event" where
  "sample_event rid account =
     \<lparr>ev_request = rid, ev_client_key = 1, ev_protocol = ''openai'', ev_endpoint = ''chat_completions'',
      ev_model = ''gpt'', ev_provider = [], ev_upstream = 0, ev_account = account, ev_status = 200,
      ev_error_code = [], ev_streamed = False, ev_started = 5, ev_first_byte = None, ev_completed = 9,
      ev_request_bytes = 1, ev_response_bytes = 2, ev_usage = lex (values_json []), ev_routing = []\<rparr>"

text \<open>
  C20: Nothing accepted is dropped.  In every state the writer can reach from a table with distinct
  request ids, by any interleaving of its goroutine with callers of \<open>Enqueue\<close> and \<open>Close\<close> and
  with the database failing at any transaction, each event for which \<open>Enqueue\<close> returned nil waits in
  the queue, waits in the batch or is stored, no request is stored twice, and the queue holds at
  most a thousand events.
\<close>

theorem accepted_never_dropped:
  assumes "run_writer s acts (new_writer rows) = Some w" "distinct (map rq_public_id rows)"
  shows "(\<forall>e \<in> set (w_accepted w). e \<in> set (w_queue w) \<or> e \<in> set (w_batch w)
      \<or> ev_request e \<in> rq_public_id ` set (w_table w))
    \<and> distinct (map rq_public_id (w_table w)) \<and> length (w_queue w) \<le> 1000"
  using run_writer_inv [OF assms(1)] assms(2)
  by (simp add: writer_inv_def new_writer_def held_def stored_def)

theorem accepted_never_dropped_witness:
  "\<exists>w. run_writer (sample_control [sample_key 1 5])
       [CheckOpen (sample_event ''a'' 0), SendEvent (sample_event ''a'' 0) True, ReceiveEvent True,
        FlushTick False] (new_writer []) = Some w
     \<and> w_accepted w = [sample_event ''a'' 0] \<and> distinct (map rq_public_id (w_table w))"
proof -
  let ?acts = "[CheckOpen (sample_event ''a'' 0), SendEvent (sample_event ''a'' 0) True, ReceiveEvent True,
        FlushTick False]"
  obtain w where w: "run_writer (sample_control [sample_key 1 5]) ?acts (new_writer []) = Some w"
      "w_accepted w = [sample_event ''a'' 0]"
    by (simp add: new_writer_def flush_def send_event_def receive_event_def write_batch_def)
  with accepted_never_dropped [OF w(1)] show ?thesis by auto
qed

definition is_send :: "writer_action \<Rightarrow> bool" where
  "is_send a = (case a of SendEvent e h \<Rightarrow> True | _ \<Rightarrow> False)"

lemma flush_errors_mono: "w_errors w \<le> w_errors (flush s healthy w)"
  by (simp add: flush_def split: option.splits)

lemma writer_act_errors: "writer_act s a w = Some w' \<Longrightarrow> w_errors w \<le> w_errors w'"
  by (cases a) (auto simp: send_event_def receive_event_def Let_def flush_errors_mono
      intro: order_trans [OF _ flush_errors_mono] split: if_splits option.splits)

lemma run_writer_errors: "run_writer s acts w = Some w' \<Longrightarrow> w_errors w \<le> w_errors w'"
proof (induction acts arbitrary: w)
  case (Cons a acts)
  then show ?case by (cases "writer_act s a w") (auto dest!: writer_act_errors intro: le_trans)
qed simp

lemma finished_still:
  assumes "writer_act s a w = Some w'" "w_done w" "\<not> is_send a"
  shows "w_done w' \<and> w_table w' = w_table w \<and> w_queue w' = w_queue w \<and> w_batch w' = w_batch w
    \<and> w_accepted w' = w_accepted w"
  using assms by (cases a) (auto simp: is_send_def split: if_splits)

lemma run_finished_still:
  "run_writer s acts w = Some w' \<Longrightarrow> w_done w \<Longrightarrow> list_all (\<lambda>a. \<not> is_send a) acts \<Longrightarrow>
    w_table w' = w_table w \<and> w_queue w' = w_queue w \<and> w_batch w' = w_batch w \<and> w_accepted w' = w_accepted w"
proof (induction acts arbitrary: w)
  case (Cons a acts)
  then obtain u where u: "writer_act s a w = Some u" "run_writer s acts u = Some w'"
    by (cases "writer_act s a w") auto
  with Cons finished_still [OF u(1)] show ?case by simp
qed simp

text \<open>
  C21: \<open>Close\<close> is a durable shutdown.  When the goroutine has drained the queue and ended and no
  flush ever failed, so that \<open>Close\<close> returns nil, every event accepted so far is stored, as long
  as no call of \<open>Enqueue\<close> was still between its check of \<open>closed\<close> and its send.
\<close>

theorem close_stores_everything:
  assumes "run_writer s (acts @ FinishDrain healthy # later) (new_writer rows) = Some w"
    and "distinct (map rq_public_id rows)" "list_all (\<lambda>a. \<not> is_send a) later" "w_errors w = 0"
  shows "\<forall>e \<in> set (w_accepted w). ev_request e \<in> rq_public_id ` set (w_table w)"
proof -
  obtain u where u: "run_writer s acts (new_writer rows) = Some u"
    and rest: "run_writer s (FinishDrain healthy # later) u = Some w"
    using assms(1) by (auto simp: run_writer_append split: bind_split_asm)
  let ?v = "(flush s healthy u)\<lparr>w_done := True\<rparr>"
  have queue: "w_queue u = []" and later: "run_writer s later ?v = Some w"
    using rest by (auto split: if_splits)
  have "w_errors (flush s healthy u) = 0" using run_writer_errors [OF later] assms(4) by simp
  then have "w_batch (flush s healthy u) = []" using flush_batch [of s healthy u] by auto
  then have empty: "w_queue w = []" "w_batch w = []"
    using run_finished_still [OF later _ assms(3)] queue by simp_all
  have "writer_inv w"
    using run_writer_inv [OF assms(1)] assms(2) by (simp add: writer_inv_def new_writer_def)
  then show ?thesis using empty by (simp add: writer_inv_def held_def stored_def)
qed

theorem close_stores_everything_witness:
  "\<exists>w. run_writer (sample_control [sample_key 1 5])
       [CheckOpen (sample_event ''a'' 0), SendEvent (sample_event ''a'' 0) True, CloseWriter, SeeStop,
        DrainEvent, FinishDrain True] (new_writer []) = Some w
     \<and> w_accepted w = [sample_event ''a'' 0] \<and> ''a'' \<in> rq_public_id ` set (w_table w)"
proof -
  let ?s = "sample_control [sample_key 1 5]"
  let ?acts = "[CheckOpen (sample_event ''a'' 0), SendEvent (sample_event ''a'' 0) True, CloseWriter,
      SeeStop, DrainEvent]"
  have ins: "insert_events ?s [sample_event ''a'' 0] [] = Some [event_row 1 (sample_event ''a'' 0)]"
    by (simp add: insert_event_def checks_ok_def references_ok_def sample_event_def sample_control_def
        sample_key_def next_id_def)
  obtain w where w: "run_writer ?s (?acts @ FinishDrain True # []) (new_writer []) = Some w"
      "w_accepted w = [sample_event ''a'' 0]" "w_errors w = 0"
    using ins by (simp add: new_writer_def flush_def send_event_def write_batch_def del: insert_events.simps)
  have "\<forall>e \<in> set (w_accepted w). ev_request e \<in> rq_public_id ` set (w_table w)"
    by (rule close_stores_everything [OF w(1)]) (simp_all add: w(3))
  with w show ?thesis by (simp add: sample_event_def)
qed

text \<open>
  The proviso of the previous property is needed.  An \<open>Enqueue\<close> that reads \<open>closed\<close> just
  before \<open>Close\<close> sets it and sends after the goroutine has drained the queue returns nil, \<open>Close\<close>
  returns nil, and no later action ever stores the event.
\<close>

theorem enqueue_after_drain_is_lost:
  "\<exists>acts w. run_writer s acts (new_writer rows) = Some w \<and> w_done w \<and> w_errors w = 0
    \<and> w_accepted w = [e]
    \<and> (\<forall>later. case run_writer s later w of None \<Rightarrow> True | Some w' \<Rightarrow> w_table w' = rows)"
proof -
  let ?acts = "[CheckOpen e, CloseWriter, SeeStop, FinishDrain True, SendEvent e True]"
  let ?w = "\<lparr>w_queue = [e], w_batch = [], w_table = rows, w_closed = True, w_draining = True,
      w_done = True, w_errors = 0, w_checked = [], w_accepted = [e]\<rparr>"
  have run: "run_writer s ?acts (new_writer rows) = Some ?w"
    by (simp add: new_writer_def flush_def send_event_def)
  have stuck: "writer_act s a ?w \<in> {None, Some ?w}" for a by (cases a) auto
  have still: "run_writer s later ?w \<in> {None, Some ?w}" for later
  proof (induction later)
    case (Cons a later)
    then show ?case using stuck [of a] by auto
  qed simp
  have "case run_writer s later ?w of None \<Rightarrow> True | Some w' \<Rightarrow> w_table w' = rows" for later
    using still [of later] by (elim insertE) simp_all
  then show ?thesis using run by (intro exI [of _ ?acts] exI [of _ ?w]) simp
qed

subsection \<open>A batch that cannot be written\<close>

text \<open>
  An event that names a row deleted since it was accepted: an account without records may be
  deleted, and the foreign key then refuses the whole transaction.
\<close>

definition poisons :: "'x control_db_scheme \<Rightarrow> writer \<Rightarrow> event \<Rightarrow> bool" where
  "poisons s w e \<longleftrightarrow> \<not> references_ok s e \<and> \<not> stored (w_table w) e
     \<and> (\<forall>e' \<in> set (w_queue w) \<union> set (w_batch w). ev_request e' = ev_request e \<longrightarrow> \<not> references_ok s e')"

lemma insert_events_poisoned:
  "e \<in> set es \<Longrightarrow> \<not> references_ok s e \<Longrightarrow> \<not> stored rows e \<Longrightarrow>
    \<forall>e' \<in> set es. ev_request e' = ev_request e \<longrightarrow> \<not> references_ok s e' \<Longrightarrow> insert_events s es rows = None"
proof (induction es arbitrary: rows)
  case (Cons a es)
  show ?case
  proof (cases "insert_event s a rows")
    case (Some mid)
    have "ev_request a \<noteq> ev_request e"
      using Cons.prems Some by (auto simp: insert_event_def stored_def split: if_splits)
    moreover from this have "\<not> stored mid e"
      using Cons.prems(3) Some by (auto simp: insert_event_def stored_def event_row_def split: if_splits)
    moreover have "e \<in> set es" using Cons.prems(1) \<open>ev_request a \<noteq> ev_request e\<close> by auto
    ultimately have "insert_events s es mid = None" using Cons by simp
    then show ?thesis using Some by simp
  qed simp
qed simp

lemma flush_poisoned:
  assumes "poisons s w e" "e \<in> set (w_batch w)"
  shows "flush s healthy w = w\<lparr>w_errors := w_errors w + 1\<rparr>"
proof -
  have "insert_events s (w_batch w) (w_table w) = None"
    using assms by (intro insert_events_poisoned [of e]) (auto simp: poisons_def)
  then show ?thesis using assms(2) by (auto simp: flush_def write_batch_def)
qed

definition blocked :: "'x control_db_scheme \<Rightarrow> event \<Rightarrow> writer \<Rightarrow> bool" where
  "blocked s e w \<longleftrightarrow> poisons s w e \<and> e \<in> set (w_batch w)"

lemma blocked_flags [simp]:
  "blocked s e (w\<lparr>w_done := b\<rparr>) = blocked s e w" "blocked s e (w\<lparr>w_closed := b\<rparr>) = blocked s e w"
  "blocked s e (w\<lparr>w_draining := b\<rparr>) = blocked s e w" "blocked s e (w\<lparr>w_checked := es\<rparr>) = blocked s e w"
  "blocked s e (w\<lparr>w_errors := n\<rparr>) = blocked s e w"
  by (simp_all add: blocked_def poisons_def)

lemma blocked_move:
  "blocked s e w \<Longrightarrow> w_queue w \<noteq> [] \<Longrightarrow>
    blocked s e (w\<lparr>w_queue := tl (w_queue w), w_batch := w_batch w @ [hd (w_queue w)]\<rparr>)"
  by (cases "w_queue w") (auto simp: blocked_def poisons_def)

lemma blocked_step:
  assumes "writer_act s a w = Some w'" "\<not> is_send a" "blocked s e w"
  shows "blocked s e w' \<and> w_table w' = w_table w"
proof -
  have flush: "flush s h u = u\<lparr>w_errors := w_errors u + 1\<rparr>" if "blocked s e u" for h u
    using that flush_poisoned by (auto simp: blocked_def)
  show ?thesis
    using assms blocked_move [of s e w]
    by (cases a) (auto simp: is_send_def receive_event_def Let_def flush split: if_splits)
qed

text \<open>
  One event that violates a foreign key stops the log.  Once it is in the batch, no step of
  the writer's goroutine - receiving, the ticker, the drain at shutdown - ever changes the table
  again, however healthy the database: the batch is kept, retried and refused as a whole, and what
  was accepted after it is never stored.
\<close>

theorem poisoned_batch_blocks:
  assumes "e \<in> set (w_batch w)" "poisons s w e"
    and "run_writer s acts w = Some w'" "list_all (\<lambda>a. \<not> is_send a) acts"
  shows "w_table w' = w_table w \<and> e \<in> set (w_batch w')"
proof -
  have "blocked s e w" using assms(1,2) by (simp add: blocked_def)
  with assms(3,4) have "blocked s e w' \<and> w_table w' = w_table w"
  proof (induction acts arbitrary: w)
    case (Cons a acts)
    then obtain u where u: "writer_act s a w = Some u" "run_writer s acts u = Some w'"
      by (cases "writer_act s a w") auto
    with Cons blocked_step [OF u(1)] show ?case by simp
  qed simp
  then show ?thesis by (simp add: blocked_def)
qed

theorem poisoned_batch_blocks_witness:
  "\<exists>w'. run_writer (sample_control [sample_key 1 5]) [FlushTick True, CloseWriter, SeeStop, FinishDrain True]
       ((new_writer [])\<lparr>w_batch := [sample_event ''good'' 0, sample_event ''bad'' 7]\<rparr>) = Some w'
     \<and> w_table w' = []"
proof -
  let ?s = "sample_control [sample_key 1 5]"
  let ?w = "(new_writer [])\<lparr>w_batch := [sample_event ''good'' 0, sample_event ''bad'' 7]\<rparr>"
  have ins: "insert_events ?s [sample_event ''good'' 0, sample_event ''bad'' 7] [] = None"
    by (simp add: insert_event_def checks_ok_def references_ok_def sample_event_def sample_control_def
        sample_key_def event_row_def)
  have bad: "poisons ?s ?w (sample_event ''bad'' 7)"
    by (simp add: poisons_def references_ok_def stored_def sample_event_def sample_control_def new_writer_def)
  have batch: "sample_event ''bad'' 7 \<in> set (w_batch ?w)" by simp
  obtain w' where w': "run_writer ?s [FlushTick True, CloseWriter, SeeStop, FinishDrain True] ?w = Some w'"
    using ins by (simp add: new_writer_def flush_def write_batch_def del: insert_events.simps)
  have still: "list_all (\<lambda>a. \<not> is_send a) [FlushTick True, CloseWriter, SeeStop, FinishDrain True]"
    by (simp add: is_send_def)
  from poisoned_batch_blocks [OF batch bad w' still] w' show ?thesis by (auto simp: new_writer_def)
qed

subsection \<open>Reading the log\<close>

record request_record =
  rr_id :: string
  rr_client_key :: string
  rr_client_key_name :: string
  rr_protocol :: string
  rr_endpoint :: string
  rr_model :: string
  rr_provider :: "string option"
  rr_upstream :: "string option"
  rr_account :: "string option"
  rr_status :: int
  rr_error_code :: "string option"
  rr_streamed :: bool
  rr_started :: ms
  rr_first_byte :: "ms option"
  rr_completed :: ms
  rr_duration :: int
  rr_ttft :: "int option"
  rr_request_bytes :: int
  rr_response_bytes :: int
  rr_usage :: usage_values

datatype reader_error = InvalidCursor | RecordNotFound | UndecodableRecord

text \<open>\<open>map[string]int64\<close>: null leaves zero, and a repeated name takes its last value.\<close>

fun int_members :: "members \<Rightarrow> usage_values \<Rightarrow> usage_values option" where
  "int_members [] vs = Some vs"
| "int_members ((k, v) # ms) vs =
     (case v of
        JNull \<Rightarrow> int_members ms (put_value k 0 vs)
      | _ \<Rightarrow> (case to_int v of None \<Rightarrow> None | Some n \<Rightarrow> int_members ms (put_value k n vs)))"

definition read_usage :: "lexeme list \<Rightarrow> reader_error + usage_values" where
  "read_usage body =
     (case Option.bind (to_object (unmarshal body)) (\<lambda>ms. int_members ms []) of
        None \<Rightarrow> Inl UndecodableRecord
      | Some vs \<Rightarrow> Inr (filter (\<lambda>p. fst p \<noteq> ''schema_version'') vs))"

text \<open>A row of the query: the record joined with its client key and, where set, upstream and account.\<close>

type_synonym joined_row = "request_row \<times> key_row \<times> string option \<times> string option"

definition join_row :: "'x control_db_scheme \<Rightarrow> request_row \<Rightarrow> joined_row list" where
  "join_row s r =
     (case row_by ck_id (rq_client_key r) (client_keys s) of
        None \<Rightarrow> []
      | Some k \<Rightarrow>
          [(r, k, Option.bind (rq_upstream r) (\<lambda>u. map_option up_public_id (row_by up_id u (upstreams s))),
            Option.bind (rq_account r) (\<lambda>a. map_option ac_public_id (row_by ac_id a (accounts s))))])"

definition scan_request :: "joined_row \<Rightarrow> reader_error + request_record" where
  "scan_request j =
     (case j of (r, k, upstream, account) \<Rightarrow>
        and_then (read_usage (rq_usage r)) (\<lambda>usage.
          Inr \<lparr>rr_id = rq_public_id r, rr_client_key = ck_public_id k, rr_client_key_name = ck_name k,
            rr_protocol = rq_protocol r, rr_endpoint = rq_endpoint r, rr_model = rq_model r,
            rr_provider = rq_provider r, rr_upstream = upstream, rr_account = account,
            rr_status = rq_status r, rr_error_code = rq_error_code r, rr_streamed = (rq_streamed r = 1),
            rr_started = rq_started r, rr_first_byte = rq_first_byte r, rr_completed = rq_completed r,
            rr_duration = max (wrap64 (rq_completed r - rq_started r)) 0,
            rr_ttft = map_option (\<lambda>t. max (wrap64 (t - rq_started r)) 0) (rq_first_byte r),
            rr_request_bytes = rq_request_bytes r, rr_response_bytes = rq_response_bytes r,
            rr_usage = usage\<rparr>))"

definition request_position :: "joined_row \<Rightarrow> cursor" where
  "request_position j = (rq_started (fst j), rq_id (fst j))"

definition request_rows :: "'x control_db_scheme \<times> request_row list \<Rightarrow> joined_row list" where
  "request_rows d = concat (map (join_row (fst d)) (snd d))"

definition list_requests ::
  "'x control_db_scheme \<times> request_row list \<Rightarrow> int \<Rightarrow> string \<Rightarrow> reader_error + (request_record list \<times> string)"
where
  "list_requests d limit after =
     list_rows InvalidCursor scan_request request_position limit after (request_rows d)"

definition get_request ::
  "'x control_db_scheme \<times> request_row list \<Rightarrow> string \<Rightarrow> reader_error + request_record"
where
  "get_request d pid =
     (case row_by (\<lambda>j. rq_public_id (fst j)) pid (request_rows d) of
        None \<Rightarrow> Inl RecordNotFound
      | Some j \<Rightarrow> scan_request j)"

definition good_log :: "'x control_db_scheme \<times> request_row list \<Rightarrow> bool" where
  "good_log d \<longleftrightarrow> positions_ok request_position (request_rows d)
     \<and> list_all (\<lambda>j. \<not> isl (scan_request j)) (request_rows d)"

interpretation request_listing: keyset request_position request_rows "\<lambda>d j. projr (scan_request j)"
  good_log list_requests
proof
  fix d :: "'a control_db_scheme \<times> request_row list" and after c limit
  assume "good_log d" "decode_cursor after = Some c"
  moreover from this have "\<forall>j \<in> set (request_rows d). scan_request j = Inr (projr (scan_request j))"
    by (auto simp: good_log_def list_all_iff)
  ultimately show "list_requests d limit after =
      (let n = normalize_limit limit; todo = after_cursor request_position c (request_rows d) in
       Inr (map (\<lambda>j. projr (scan_request j)) (take n todo),
            if n < length todo then encode_cursor (request_position (todo ! (n - 1))) else []))"
    unfolding list_requests_def by (intro list_rows_eq)
qed (simp add: good_log_def)

text \<open>
  Following the cursors of the request log, with any page size, shows every joined record
  exactly once, newest first and then by decreasing row id, and the walk ends.
\<close>

theorem requests_listed_once:
  assumes "good_log d" "length (request_rows d) < n"
  shows "walk (list_requests d limit) n [] =
    Some (map (\<lambda>j. projr (scan_request j)) (rev (sort_key request_position (request_rows d))))"
  using request_listing.walk_all [OF assms] by (simp add: listing_def)

theorem requests_listed_once_witness:
  "\<exists>items. walk (list_requests (sample_control [sample_key 1 5], [sample_row 1 7, sample_row 2 7]) 1) 3 [] = Some items
     \<and> map rr_id items = [''2'', ''1'']"
proof -
  let ?d = "(sample_control [sample_key 1 5], [sample_row 1 7, sample_row 2 7])"
  have "good_log ?d" by code_simp
  moreover have "length (request_rows ?d) = 2" by code_simp
  moreover have "map rr_id (map (\<lambda>j. projr (scan_request j)) (rev (sort_key request_position (request_rows ?d))))
      = [''2'', ''1'']" by code_simp
  ultimately show ?thesis using requests_listed_once [of ?d 3 1] by auto
qed

subsection \<open>The summary of a day\<close>

text \<open>
  \<open>CAST(COALESCE(json_extract(usage_json, path), 0) AS INTEGER)\<close> for the objects the writer
  stores, whose values are integers; SQLite's \<open>sum\<close> fails when it leaves 64 bits.
\<close>

definition usage_column :: "string \<Rightarrow> request_row \<Rightarrow> int" where
  "usage_column name r =
     (case Option.bind (to_object (unmarshal (rq_usage r))) (\<lambda>ms. member_of ms name) of
        None \<Rightarrow> 0
      | Some v \<Rightarrow> (case to_int v of None \<Rightarrow> 0 | Some n \<Rightarrow> n))"

definition sql_sum :: "int list \<Rightarrow> int option" where
  "sql_sum ns = fold (\<lambda>n acc. Option.bind acc (\<lambda>a.
     if min_int64 \<le> a + n \<and> a + n \<le> max_int64 then Some (a + n) else None)) ns (Some 0)"

record day_summary =
  sum_start :: nanos
  sum_requests :: int
  sum_errors :: int
  sum_streamed :: int
  sum_input :: int
  sum_output :: int
  sum_cache :: int
  sum_reasoning :: int

definition summary_24_hours :: "request_row list \<Rightarrow> nanos \<Rightarrow> day_summary option" where
  "summary_24_hours rows now =
     (let start = now - 24 * hour;
          rows = filter (\<lambda>r. rq_started r \<ge> unix_milli start) rows;
          column = (\<lambda>f. sql_sum (map f rows)) in
      case (column (\<lambda>r. if rq_status r \<ge> 400 then 1 else 0), column rq_streamed,
            column (usage_column ''input_tokens''), column (usage_column ''output_tokens''),
            column (usage_column ''cache_read_tokens''), column (usage_column ''reasoning_tokens'')) of
        (Some errors, Some streamed, Some input, Some output, Some cache, Some reasoning) \<Rightarrow>
          Some \<lparr>sum_start = start, sum_requests = int (length rows), sum_errors = errors,
            sum_streamed = streamed, sum_input = input, sum_output = output, sum_cache = cache,
            sum_reasoning = reasoning\<rparr>
      | _ \<Rightarrow> None)"

end
