(* ===== verification/SSE.thy ===== *)
theory SSE
  imports Prelude
begin

text \<open>
  \<open>internal/nativecodec/sse.go\<close>: copying a server-sent event stream, one event at a time, with
  an observer and a rewriter for the data of each event.  The source is the bytes it yields and
  the error that ends it (\<open>None\<close> is \<open>io.EOF\<close>); \<open>bufio.Reader.ReadSlice\<close> is
  \<open>read_slice\<close>, which does not depend on how the bytes arrive.  The writer and its flush
  are arguments on an arbitrary state.
\<close>

subsection \<open>bufio\<close>

datatype slice_end =
    DelimFound
  | BufferFull \<comment> \<open>\<open>bufio.ErrBufferFull\<close>\<close>
  | SourceEnded

abbreviation newline :: char where "newline \<equiv> CHR 0x0A"
abbreviation return_char :: char where "return_char \<equiv> CHR 0x0D"

definition read_slice :: "nat \<Rightarrow> string \<Rightarrow> string \<times> slice_end \<times> string" where
  "read_slice bufsize s =
     (let line = takeWhile (\<lambda>c. c \<noteq> newline) s in
        if length line < bufsize then
          (if length line < length s
           then (line @ [newline], DelimFound, drop (Suc (length line)) s)
           else (s, SourceEnded, []))
        else (take bufsize s, BufferFull, drop bufsize s))"

lemma line_then_rest:
  "length (takeWhile (\<lambda>c. c \<noteq> d) s) < length s \<Longrightarrow>
     takeWhile (\<lambda>c. c \<noteq> d) s @ d # drop (Suc (length (takeWhile (\<lambda>c. c \<noteq> d) s))) s = s"
  by (induction s) auto

lemma read_slice_append:
  assumes "read_slice bufsize s = (fragment, k, rest)"
  shows "s = fragment @ rest"
proof (cases "length (takeWhile (\<lambda>c. c \<noteq> newline) s) < length s")
  case True
  with assms line_then_rest [OF True] show ?thesis
    by (simp add: read_slice_def Let_def split: if_splits)
       (metis append.assoc append_Cons append_Nil, metis append_take_drop_id)
next
  case False
  with assms show ?thesis
    by (simp add: read_slice_def Let_def split: if_splits) (metis append_take_drop_id)
qed

lemma read_slice_more:
  assumes "read_slice bufsize s = (fragment, k, rest)" "k \<noteq> SourceEnded" "0 < bufsize"
  shows "fragment \<noteq> [] \<and> length rest < length s"
proof -
  have "fragment \<noteq> []"
    using assms by (auto simp: read_slice_def Let_def split: if_splits)
  with read_slice_append [OF assms(1)] show ?thesis by simp
qed

lemma read_slice_ended:
  "read_slice bufsize s = (fragment, SourceEnded, rest) \<Longrightarrow> fragment = s \<and> rest = []"
  by (auto simp: read_slice_def Let_def split: if_splits)

subsection \<open>Events\<close>

abbreviation max_sse_event_bytes :: nat where "max_sse_event_bytes \<equiv> 8388608"
abbreviation sse_buffer :: nat where "sse_buffer \<equiv> 32768"

definition blank_line :: "string \<Rightarrow> bool" where
  "blank_line line \<longleftrightarrow> line = [newline] \<or> line = [return_char, newline]"

definition is_data_line :: "string \<Rightarrow> bool" where
  "is_data_line raw_line \<longleftrightarrow> has_prefix ''data:'' (trim_suffix [return_char] raw_line)"

definition data_value :: "string \<Rightarrow> string" where
  "data_value raw_line =
     trim_prefix '' '' (trim_prefix ''data:'' (trim_suffix [return_char] raw_line))"

definition event_data :: "string \<Rightarrow> string option" where
  "event_data event =
     (let values = map data_value (filter is_data_line (split_on newline event))
      in if values = [] then None else Some (join_with [newline] values))"

definition replace_line :: "string \<Rightarrow> string \<times> bool \<Rightarrow> string \<Rightarrow> string \<times> bool" where
  "replace_line data st raw_line =
     (case st of (result, inserted) \<Rightarrow>
        if is_data_line raw_line then
          (if \<not> inserted then (result @ ''data: '' @ data @ [newline], True) else (result, inserted))
        else if raw_line = [] \<and> result \<noteq> [] \<and> last result = newline then
          (result @ [newline], inserted)
        else (result @ raw_line @ [newline], inserted))"

definition trim_right_newlines :: "string \<Rightarrow> string" where
  "trim_right_newlines s = rev (dropWhile (\<lambda>c. c = newline) (rev s))"

definition replace_event_data :: "string \<Rightarrow> string \<Rightarrow> string" where
  "replace_event_data event data =
     (let result = fst (foldl (replace_line data) ([], False) (split_on newline event))
      in if has_suffix [newline, newline] result then result
         else trim_right_newlines result @ [newline, newline])"

subsection \<open>Copying\<close>

record ('e, 'w) sse_options =
  rewrite_data :: "(string \<Rightarrow> 'e + string) option"
  observes :: bool \<comment> \<open>\<open>ObserveData\<close> is not nil; what it was given is \<open>observed\<close>\<close>
  sse_flush :: "('w \<Rightarrow> 'w \<times> 'e option) option"
  sse_write :: "'w \<Rightarrow> string \<Rightarrow> 'w \<times> nat \<times> 'e option"

record 'w sse_state =
  sink :: 'w
  observed :: "string list"
  copied :: nat \<comment> \<open>bytes written\<close>

datatype 'e sse_error = EventTooLarge | Failed 'e

definition put_event ::
  "('e, 'w) sse_options \<Rightarrow> string \<Rightarrow> 'w sse_state \<Rightarrow> 'w sse_state \<times> 'e option"
where
  "put_event opts output st =
     (let (w, n, err) = sse_write opts (sink st) output;
          st' = st\<lparr>sink := w, copied := copied st + n\<rparr>
      in case err of
           Some e \<Rightarrow> (st', Some e)
         | None \<Rightarrow>
             (case sse_flush opts of
                None \<Rightarrow> (st', None)
              | Some flush \<Rightarrow> let (w', err') = flush (sink st') in (st'\<lparr>sink := w'\<rparr>, err')))"

definition write_event ::
  "('e, 'w) sse_options \<Rightarrow> string \<Rightarrow> 'w sse_state \<Rightarrow> 'w sse_state \<times> 'e option"
where
  "write_event opts event st =
     (case event_data event of
        None \<Rightarrow> put_event opts event st
      | Some data \<Rightarrow>
          if trim_space data = ''[DONE]'' then put_event opts event st
          else
            let st1 = (if observes opts then st\<lparr>observed := observed st @ [data]\<rparr> else st) in
              (case rewrite_data opts of
                 None \<Rightarrow> put_event opts event st1
               | Some rewrite \<Rightarrow>
                   (case rewrite data of
                      Inl e \<Rightarrow> (st1, Some e)
                    | Inr rewritten \<Rightarrow> put_event opts (replace_event_data event rewritten) st1)))"

function copy_loop ::
  "('e, 'w) sse_options \<Rightarrow> 'e option \<Rightarrow> string \<Rightarrow> string \<Rightarrow> 'w sse_state \<Rightarrow> 'w sse_state \<times> 'e sse_error option"
where
  "copy_loop opts src_err s event st =
     (case read_slice sse_buffer s of (fragment, k, rest) \<Rightarrow>
        if fragment \<noteq> [] \<and> length event + length fragment > max_sse_event_bytes
        then (st, Some EventTooLarge)
        else if fragment \<noteq> [] \<and> k = DelimFound \<and> blank_line fragment then
          (case write_event opts (event @ fragment) st of
             (st', Some e) \<Rightarrow> (st', Some (Failed e))
           | (st', None) \<Rightarrow> copy_loop opts src_err rest [] st')
        else if k = SourceEnded then
          (case src_err of
             Some e \<Rightarrow> (st, Some (Failed e))
           | None \<Rightarrow>
               if event @ fragment \<noteq> [] then
                 (case write_event opts (event @ fragment) st of
                    (st', err) \<Rightarrow> (st', map_option Failed err))
               else (st, None))
        else copy_loop opts src_err rest (event @ fragment) st)"
  by pat_completeness auto
termination
  by (relation "measure (\<lambda>(opts, src_err, s, event, st). length s)")
     (auto dest!: sym [of _ "read_slice _ _"] dest: read_slice_more)

declare copy_loop.simps [simp del]

definition copy_sse ::
  "('e, 'w) sse_options \<Rightarrow> 'w \<Rightarrow> string \<Rightarrow> 'e option \<Rightarrow> 'w sse_state \<times> 'e sse_error option"
where
  "copy_sse opts dst src src_err =
     copy_loop opts src_err src [] \<lparr>sink = dst, observed = [], copied = 0\<rparr>"

subsection \<open>Lines\<close>

definition unlines :: "string list \<Rightarrow> string" where
  "unlines ls = concat (map (\<lambda>l. l @ [newline]) ls)"

lemma unlines_simps [simp]:
  "unlines [] = []" "unlines (l # ls) = l @ newline # unlines ls"
  "unlines (ls @ ls') = unlines ls @ unlines ls'"
  by (simp_all add: unlines_def)

lemma split_unlines:
  "\<forall>l \<in> set ls. newline \<notin> set l \<Longrightarrow> split_on newline (unlines ls) = ls @ [[]]"
  by (induction ls) (simp_all add: split_on_append)

lemma has_suffix_char: "has_suffix [c] s \<longleftrightarrow> s \<noteq> [] \<and> last s = c"
  by (cases s rule: rev_cases) (auto simp: has_suffix_def has_prefix_def)

lemma data_line_value:
  assumes "\<not> has_suffix [return_char] data"
  shows "is_data_line (''data: '' @ data)" and "data_value (''data: '' @ data) = data"
proof -
  have "\<not> has_suffix [return_char] (''data: '' @ data)"
    using assms by (cases data rule: rev_cases) (auto simp: has_suffix_char)
  then have "trim_suffix [return_char] (''data: '' @ data) = ''data: '' @ data"
    by (simp add: trim_suffix_def)
  then show "is_data_line (''data: '' @ data)" "data_value (''data: '' @ data) = data"
    by (simp_all add: is_data_line_def data_value_def trim_prefix_def has_prefix_def)
qed

lemma is_data_line_Nil [simp]: "\<not> is_data_line []"
  by (simp add: is_data_line_def trim_suffix_def has_suffix_def has_prefix_def)

fun rebuild :: "string \<Rightarrow> bool \<Rightarrow> string list \<Rightarrow> string list" where
  "rebuild data inserted [] = []"
| "rebuild data inserted (l # ls) =
     (if is_data_line l then
        (if inserted then rebuild data True ls else (''data: '' @ data) # rebuild data True ls)
      else l # rebuild data inserted ls)"

lemma replace_line_rebuild:
  "fst (foldl (replace_line data) (r, inserted) ls) = r @ unlines (rebuild data inserted ls)"
  by (induction ls arbitrary: r inserted) (simp_all add: replace_line_def)

lemma rebuild_no_newline:
  "\<forall>l \<in> set ls. newline \<notin> set l \<Longrightarrow> newline \<notin> set data \<Longrightarrow>
     \<forall>l \<in> set (rebuild data inserted ls). newline \<notin> set l"
  by (induction ls arbitrary: inserted) auto

lemma rebuild_data:
  "\<not> has_suffix [return_char] data \<Longrightarrow>
     filter is_data_line (rebuild data inserted ls) =
       (if \<not> inserted \<and> filter is_data_line ls \<noteq> [] then [''data: '' @ data] else [])"
  using data_line_value [of data] by (induction ls arbitrary: inserted) auto

lemma rebuild_other:
  "\<not> has_suffix [return_char] data \<Longrightarrow>
     filter (\<lambda>l. \<not> is_data_line l \<and> P l) (rebuild data inserted ls) =
       filter (\<lambda>l. \<not> is_data_line l \<and> P l) ls"
  using data_line_value [of data] by (induction ls arbitrary: inserted) auto

lemma rebuild_nonempty: "filter is_data_line ls \<noteq> [] \<Longrightarrow> rebuild data False ls \<noteq> []"
  by (induction ls) auto

lemma double_newline:
  assumes "\<not> has_suffix [newline, newline] (x @ [newline])"
  shows "trim_right_newlines (x @ [newline]) @ [newline, newline] = x @ [newline, newline]"
  using assms by (cases x rule: rev_cases)
    (auto simp: trim_right_newlines_def has_suffix_def has_prefix_def)

lemma replace_event_data_lines:
  assumes "event_data event \<noteq> None"
  shows "\<exists>blanks. set blanks \<subseteq> {[]} \<and>
    replace_event_data event data = unlines (rebuild data False (split_on newline event) @ blanks)"
proof -
  let ?out = "rebuild data False (split_on newline event)"
  have "filter is_data_line (split_on newline event) \<noteq> []"
    using assms by (auto simp: event_data_def)
  then have "?out \<noteq> []" by (rule rebuild_nonempty)
  then obtain ls l where "?out = ls @ [l]" by (metis rev_exhaust)
  then have x: "unlines ?out = (unlines ls @ l) @ [newline]" by simp
  show ?thesis
  proof (cases "has_suffix [newline, newline] (unlines ?out)")
    case True
    then show ?thesis
      by (intro exI [of _ "[]"]) (simp add: replace_event_data_def replace_line_rebuild)
  next
    case False
    then show ?thesis using double_newline [of "unlines ls @ l"] x
      by (intro exI [of _ "[[]]"]) (simp add: replace_event_data_def replace_line_rebuild)
  qed
qed

lemma split_lines_no_newline: "\<forall>l \<in> set (split_on newline s). newline \<notin> set l"
  using split_on_parts by blast

lemma split_replaced:
  assumes "event_data event \<noteq> None" "newline \<notin> set data"
  shows "\<exists>blanks. set blanks \<subseteq> {[]} \<and>
    split_on newline (replace_event_data event data) =
      rebuild data False (split_on newline event) @ blanks"
proof -
  obtain blanks where b: "set blanks \<subseteq> {[]}"
      "replace_event_data event data = unlines (rebuild data False (split_on newline event) @ blanks)"
    using replace_event_data_lines [OF assms(1)] by blast
  have "\<forall>l \<in> set (rebuild data False (split_on newline event) @ blanks). newline \<notin> set l"
    using rebuild_no_newline [OF split_lines_no_newline assms(2)] b(1) by auto
  then have "split_on newline (replace_event_data event data) =
      (rebuild data False (split_on newline event) @ blanks) @ [[]]"
    unfolding b(2) by (rule split_unlines)
  with b(1) show ?thesis by (intro exI [of _ "blanks @ [[]]"]) auto
qed

lemma filter_blanks: "set blanks \<subseteq> {[]} \<Longrightarrow> \<not> P [] \<Longrightarrow> filter P blanks = []"
  by (induction blanks) auto

lemma event_data_Some: "event_data event \<noteq> None \<longleftrightarrow> filter is_data_line (split_on newline event) \<noteq> []"
  by (simp add: event_data_def)

text \<open>
  Replacing the data of an event by a one-line text (as \<open>json.Marshal\<close> yields) and reading
  it back gives that text; the event's other lines that are not blank stay, in order; the result
  ends with the blank line that closes an event.
\<close>

theorem replace_event_data_roundtrip:
  assumes "event_data event \<noteq> None" "newline \<notin> set data" "\<not> has_suffix [return_char] data"
  shows "event_data (replace_event_data event data) = Some data
    \<and> filter (\<lambda>l. \<not> is_data_line l \<and> l \<noteq> []) (split_on newline (replace_event_data event data)) =
        filter (\<lambda>l. \<not> is_data_line l \<and> l \<noteq> []) (split_on newline event)
    \<and> has_suffix [newline, newline] (replace_event_data event data)"
proof -
  obtain blanks where b: "set blanks \<subseteq> {[]}"
      "split_on newline (replace_event_data event data) =
         rebuild data False (split_on newline event) @ blanks"
    using split_replaced [OF assms(1,2)] by blast
  have "filter is_data_line (split_on newline (replace_event_data event data)) = [''data: '' @ data]"
    using b rebuild_data [OF assms(3), of False "split_on newline event"] assms(1) event_data_Some
    by (simp add: filter_blanks)
  then have "event_data (replace_event_data event data) = Some data"
    using data_line_value(2) [OF assms(3)] by (simp add: event_data_def)
  moreover have "filter (\<lambda>l. \<not> is_data_line l \<and> l \<noteq> [])
        (split_on newline (replace_event_data event data)) =
      filter (\<lambda>l. \<not> is_data_line l \<and> l \<noteq> []) (split_on newline event)"
    using b rebuild_other [OF assms(3)] by (simp add: filter_blanks)
  moreover have "has_suffix [newline, newline] (replace_event_data event data)"
    by (simp add: replace_event_data_def Let_def)
  ultimately show ?thesis by blast
qed

theorem replace_event_data_roundtrip_witness:
  "event_data (replace_event_data
       (''id: 7'' @ newline # ''data: a'' @ newline # ''data: b'' @ [newline, newline]) ''z'') = Some ''z''"
  using replace_event_data_roundtrip [of "''id: 7'' @ newline # ''data: a'' @ newline # ''data: b'' @ [newline, newline]" "''z''"]
  by code_simp

subsection \<open>Events as blank-line separated groups of lines\<close>

fun lines_of :: "string \<Rightarrow> string list" where
  "lines_of [] = []"
| "lines_of (c # cs) =
     (if c = newline then [newline] # lines_of cs
      else (case lines_of cs of [] \<Rightarrow> [[c]] | l # ls \<Rightarrow> (c # l) # ls))"

fun group_events :: "string \<Rightarrow> string list \<Rightarrow> string list" where
  "group_events acc [] = (if acc = [] then [] else [acc])"
| "group_events acc (l # ls) =
     (if blank_line l then (acc @ l) # group_events [] ls else group_events (acc @ l) ls)"

definition sse_events :: "string \<Rightarrow> string list" where
  "sse_events s = group_events [] (lines_of s)"

fun write_events ::
  "('e, 'w) sse_options \<Rightarrow> string list \<Rightarrow> 'w sse_state \<Rightarrow> 'w sse_state \<times> 'e sse_error option"
where
  "write_events opts [] st = (st, None)"
| "write_events opts (e # es) st =
     (case write_event opts e st of
        (st', Some err) \<Rightarrow> (st', Some (Failed err))
      | (st', None) \<Rightarrow> write_events opts es st')"

lemma lines_of_terminated:
  "newline \<notin> set line \<Longrightarrow> lines_of (line @ newline # rest) = (line @ [newline]) # lines_of rest"
  by (induction line) auto

lemma lines_of_last: "newline \<notin> set s \<Longrightarrow> s \<noteq> [] \<Longrightarrow> lines_of s = [s]"
proof (induction s)
  case (Cons c cs)
  then show ?case by (cases "cs = []") auto
qed simp

lemma group_events_length: "acc \<noteq> [] \<Longrightarrow> \<exists>e \<in> set (group_events acc ls). length acc \<le> length e"
proof (induction ls arbitrary: acc)
  case (Cons l ls)
  from Cons.IH [of "acc @ l"] Cons.prems show ?case
    by (cases "blank_line l") (auto intro: add_leD1)
qed auto

lemma group_events_first:
  assumes "l \<noteq> []"
  shows "\<exists>e \<in> set (group_events acc (l # ls)). length acc + length l \<le> length e"
  using group_events_length [of "acc @ l" ls] assms by (cases "blank_line l") auto

lemma takeWhile_no_newline: "newline \<notin> set (takeWhile (\<lambda>c. c \<noteq> newline) s)"
  by (induction s) auto

lemma read_slice_line:
  assumes "\<forall>l \<in> set (lines_of s). length l < bufsize" and "s \<noteq> []"
  shows "(\<exists>line rest. s = line @ newline # rest \<and> newline \<notin> set line
           \<and> read_slice bufsize s = (line @ [newline], DelimFound, rest))
       \<or> (newline \<notin> set s \<and> read_slice bufsize s = (s, SourceEnded, []))"
proof -
  let ?line = "takeWhile (\<lambda>c. c \<noteq> newline) s"
  show ?thesis
  proof (cases "length ?line < length s")
    case True
    let ?rest = "drop (Suc (length ?line)) s"
    have s: "s = ?line @ newline # ?rest" using line_then_rest [OF True] by simp
    have "lines_of s = (?line @ [newline]) # lines_of ?rest"
      using lines_of_terminated [OF takeWhile_no_newline [of s], of ?rest] s by simp
    with assms(1) have "length ?line < bufsize" by simp
    with True have "read_slice bufsize s = (?line @ [newline], DelimFound, ?rest)"
      by (simp add: read_slice_def Let_def)
    with s takeWhile_no_newline show ?thesis by blast
  next
    case False
    then have l: "?line = s"
      by (metis le_neq_implies_less length_takeWhile_le takeWhile_eq_take take_all linorder_not_less)
    then have n: "newline \<notin> set s" using takeWhile_no_newline by metis
    then have "length s < bufsize" using assms lines_of_last by simp
    then have "read_slice bufsize s = (s, SourceEnded, [])"
      unfolding read_slice_def l Let_def by simp
    with n show ?thesis by blast
  qed
qed

lemma copy_loop_events:
  assumes "\<forall>l \<in> set (lines_of s). length l < sse_buffer"
    and "\<forall>e \<in> set (group_events event (lines_of s)). length e \<le> max_sse_event_bytes"
  shows "copy_loop opts None s event st = write_events opts (group_events event (lines_of s)) st"
  using assms
proof (induction "length s" arbitrary: s event st rule: less_induct)
  case less
  show ?case
  proof (cases "s = []")
    case True
    then show ?thesis
      by (subst copy_loop.simps)
         (simp add: read_slice_def split: prod.splits option.splits)
  next
    case False
    then consider line rest where "s = line @ newline # rest" "newline \<notin> set line"
        "read_slice sse_buffer s = (line @ [newline], DelimFound, rest)"
      | "newline \<notin> set s" "read_slice sse_buffer s = (s, SourceEnded, [])"
      using read_slice_line [OF less.prems(1) False] by blast
    then show ?thesis
    proof cases
      case 1
      let ?line = "line @ [newline]"
      have lines: "lines_of s = ?line # lines_of rest" using 1 lines_of_terminated by simp
      have fit: "length event + length ?line \<le> max_sse_event_bytes"
        using group_events_first [of ?line event "lines_of rest"] less.prems(2) lines by fastforce
      have IH: "copy_loop opts None rest event' st' = write_events opts (group_events event' (lines_of rest)) st'"
        if "\<forall>e \<in> set (group_events event' (lines_of rest)). length e \<le> max_sse_event_bytes"
        for event' st'
        using less.hyps [of rest event' st'] that less.prems(1) 1(1) lines by simp
      show ?thesis
      proof (cases "blank_line ?line")
        case True
        with less.prems(2) lines
        have "\<forall>e \<in> set (group_events [] (lines_of rest)). length e \<le> max_sse_event_bytes" by simp
        note IH' = IH [OF this]
        show ?thesis
          using fit True
          by (subst copy_loop.simps) (simp add: 1(3) lines IH' split: prod.splits option.splits)
      next
        case False
        with less.prems(2) lines
        have "\<forall>e \<in> set (group_events (event @ ?line) (lines_of rest)). length e \<le> max_sse_event_bytes"
          by simp
        note IH' = IH [OF this]
        show ?thesis
          using fit False by (subst copy_loop.simps) (simp add: 1(3) lines IH')
      qed
    next
      case 2
      have lines: "lines_of s = [s]" using 2 False lines_of_last by simp
      have "\<not> blank_line s" using 2 by (auto simp: blank_line_def)
      moreover have "length event + length s \<le> max_sse_event_bytes"
        using group_events_first [of s event "[]"] False less.prems(2) lines by fastforce
      ultimately show ?thesis
        using False
        by (subst copy_loop.simps) (simp add: 2(2) lines split: prod.splits option.splits)
    qed
  qed
qed

subsection \<open>Passing a stream through\<close>

definition append_options :: "('e, string) sse_options" where
  "append_options =
     \<lparr>rewrite_data = None, observes = False, sse_flush = None,
      sse_write = (\<lambda>w out. (w @ out, length out, None))\<rparr>"

definition record_options :: "('e, string list) sse_options" where
  "record_options =
     \<lparr>rewrite_data = None, observes = False, sse_flush = None,
      sse_write = (\<lambda>w out. (w @ [out], length out, None))\<rparr>"

lemma write_event_append:
  "write_event append_options event st =
     (st\<lparr>sink := sink st @ event, copied := copied st + length event\<rparr>, None)"
  by (simp add: write_event_def put_event_def append_options_def split: option.split)

lemma write_event_record:
  "write_event record_options event st =
     (st\<lparr>sink := sink st @ [event], copied := copied st + length event\<rparr>, None)"
  by (simp add: write_event_def put_event_def record_options_def split: option.split)

lemma copy_step_continue:
  assumes "read_slice sse_buffer s = (fragment, k, rest)" "k \<noteq> SourceEnded"
    and "length event + length fragment \<le> max_sse_event_bytes"
    and "\<not> (k = DelimFound \<and> blank_line fragment)"
  shows "copy_loop opts src_err s event st = copy_loop opts src_err rest (event @ fragment) st"
  using assms by (subst copy_loop.simps) auto

lemma copy_step_record:
  assumes "read_slice sse_buffer s = (fragment, DelimFound, rest)" "blank_line fragment"
    and "length event + length fragment \<le> max_sse_event_bytes"
  shows "copy_loop record_options src_err s event st = copy_loop record_options src_err rest []
    (st\<lparr>sink := sink st @ [event @ fragment], copied := copied st + length (event @ fragment)\<rparr>)"
  using assms by (subst copy_loop.simps) (auto simp: write_event_record blank_line_def)

lemma copy_loop_append:
  "copy_loop append_options None s event st = (st', err) \<Longrightarrow>
     (\<exists>rest. sink st @ event @ s = sink st' @ rest \<and> (err = None \<longrightarrow> rest = [])
        \<and> copied st' - copied st = length (sink st') - length (sink st)
        \<and> copied st \<le> copied st' \<and> length (sink st) \<le> length (sink st'))
     \<and> (length event + length s \<le> max_sse_event_bytes \<longrightarrow> err = None)"
proof (induction "length s" arbitrary: s event st rule: less_induct)
  case less
  obtain fragment k rest where r: "read_slice sse_buffer s = (fragment, k, rest)"
    by (cases "read_slice sse_buffer s") auto
  have s: "s = fragment @ rest" using read_slice_append [OF r] .
  consider (big) "fragment \<noteq> [] \<and> length event + length fragment > max_sse_event_bytes"
    | (blank) "\<not> (fragment \<noteq> [] \<and> length event + length fragment > max_sse_event_bytes)"
        "fragment \<noteq> [] \<and> k = DelimFound \<and> blank_line fragment"
    | (ended) "\<not> (fragment \<noteq> [] \<and> length event + length fragment > max_sse_event_bytes)"
        "k = SourceEnded"
    | (more) "\<not> (fragment \<noteq> [] \<and> length event + length fragment > max_sse_event_bytes)"
        "\<not> (fragment \<noteq> [] \<and> k = DelimFound \<and> blank_line fragment)" "k \<noteq> SourceEnded"
    by blast
  then show ?case
  proof cases
    case big
    with less.prems r have "st' = st" "err = Some EventTooLarge"
      by (simp_all add: copy_loop.simps [of append_options None s])
    with big s show ?thesis by auto
  next
    case blank
    have "length rest < length s" using read_slice_more [OF r] blank by simp
    moreover have "copy_loop append_options None rest []
        (st\<lparr>sink := sink st @ event @ fragment, copied := copied st + length (event @ fragment)\<rparr>)
        = (st', err)"
      using less.prems r blank by (simp add: copy_loop.simps [of append_options None s] write_event_append)
    ultimately show ?thesis using less.hyps [of rest "[]"] s by fastforce
  next
    case ended
    with less.prems r read_slice_ended [of sse_buffer s] show ?thesis
      by (auto simp: copy_loop.simps [of append_options None s] write_event_append split: if_splits)
  next
    case more
    have "length rest < length s" using read_slice_more [OF r] more by simp
    moreover have "copy_loop append_options None rest (event @ fragment) st = (st', err)"
      using less.prems r more by (auto simp: copy_loop.simps [of append_options None s])
    ultimately show ?thesis using less.hyps [of rest "event @ fragment"] s by fastforce
  qed
qed



text \<open>
  Without a rewriter no byte is lost, added or reordered, whatever the framing: what a
  writer that accepts everything has received is a prefix of the stream, the whole stream when
  \<open>CopySSE\<close> returns nil, the returned count is its length, and a stream of at most 8 MiB
  always returns nil.
\<close>

theorem copy_sse_passthrough:
  assumes "copy_sse append_options [] src None = (st, err)"
  shows "(\<exists>rest. src = sink st @ rest \<and> (err = None \<longrightarrow> rest = []))
    \<and> copied st = length (sink st)
    \<and> (length src \<le> max_sse_event_bytes \<longrightarrow> err = None)"
  using copy_loop_append [of src "[]" "\<lparr>sink = [], observed = [], copied = 0\<rparr>" st err]
    assms[unfolded copy_sse_def] by auto

theorem copy_sse_passthrough_witness:
  "\<exists>st. copy_sse append_options [] ''data: a'' None = (st, None :: nat sse_error option)
     \<and> sink st = ''data: a'' \<and> copied st = 7"
proof -
  obtain st err where c: "copy_sse append_options [] ''data: a'' None = (st, err :: nat sse_error option)"
    by (cases "copy_sse append_options [] ''data: a'' (None :: nat option)") auto
  from copy_sse_passthrough [OF c] have "err = None" "sink st = ''data: a''" "copied st = length (sink st)"
    by auto
  with c have "copied st = 7" by simp
  with c \<open>err = None\<close> \<open>sink st = ''data: a''\<close> show ?thesis by blast
qed

text \<open>
  A defect of the framing.  A line whose text fills the 32768-byte read buffer exactly
  leaves its newline alone in the next fragment, which the loop takes for a blank line: the event is
  cut there, although the blank line that ends it comes only after the next data line.
\<close>

theorem copy_sse_cuts_long_line:
  assumes "length line = sse_buffer" "newline \<notin> set line"
  shows "sse_events (line @ newline # ''data: x'' @ [newline, newline])
       = [line @ newline # ''data: x'' @ [newline, newline]]
    \<and> sink (fst (copy_sse record_options [] (line @ newline # ''data: x'' @ [newline, newline]) (None :: 'e option)))
       = [line @ [newline], ''data: x'' @ [newline, newline]]"
proof -
  let ?tail = "''data: x'' @ [newline, newline]"
  let ?src = "line @ newline # ?tail"
  have tw: "takeWhile (\<lambda>c. c \<noteq> newline) ?src = line"
    using assms(2) by (subst takeWhile_append2) auto
  have r1: "read_slice sse_buffer ?src = (line, BufferFull, newline # ?tail)"
    unfolding read_slice_def tw Let_def using assms(1) by simp
  have r2: "read_slice sse_buffer (newline # ?tail) = ([newline], DelimFound, ?tail)"
    by (simp add: read_slice_def)
  have r3: "read_slice sse_buffer ?tail = (''data: x'' @ [newline], DelimFound, [newline])"
    by (simp add: read_slice_def)
  have r4: "read_slice sse_buffer [newline] = ([newline], DelimFound, [])"
    by (simp add: read_slice_def)
  have r5: "read_slice sse_buffer [] = ([], SourceEnded, [])" by (simp add: read_slice_def)
  have "line \<noteq> []" using assms(1) by auto
  let ?st = "\<lparr>sink = [line @ [newline]], observed = [], copied = 32769\<rparr>"
  let ?init = "\<lparr>sink = [], observed = [], copied = 0\<rparr>"
  have "copy_sse record_options [] ?src (None :: 'e option) = copy_loop record_options None (newline # ?tail) line ?init"
    unfolding copy_sse_def using assms(1)
    by (subst copy_step_continue [OF r1]) simp_all
  also have "\<dots> = copy_loop record_options None ?tail [] ?st"
    using assms(1) by (subst copy_step_record [OF r2]) (simp_all add: blank_line_def)
  also have "\<dots> = copy_loop record_options None [newline] (''data: x'' @ [newline]) ?st"
    by (subst copy_step_continue [OF r3]) (simp_all add: blank_line_def)
  also have "\<dots> = copy_loop record_options None [] [] (?st\<lparr>sink := sink ?st @ [?tail], copied := 32778\<rparr>)"
    by (subst copy_step_record [OF r4]) (simp_all add: blank_line_def)
  finally have "sink (fst (copy_sse record_options [] ?src (None :: 'e option))) = [line @ [newline], ?tail]"
    by (simp add: copy_loop.simps [of _ _ "[]"] r5)
  moreover have "\<not> blank_line (line @ [newline])"
    using assms(1) by (auto simp: blank_line_def)
  then have "sse_events ?src = [?src]"
    using lines_of_terminated [OF assms(2), of ?tail] by (simp add: sse_events_def blank_line_def)
  ultimately show ?thesis by blast
qed

theorem copy_sse_cuts_long_line_witness:
  "sink (fst (copy_sse record_options []
      (replicate 32768 (CHR ''a'') @ newline # ''data: x'' @ [newline, newline]) None))
     = [replicate 32768 (CHR ''a'') @ [newline], ''data: x'' @ [newline, newline]]"
  by (rule conjunct2 [OF copy_sse_cuts_long_line]) simp_all

end
