(* ===== verification/Gateway.thy ===== *)
theory Gateway
  imports Routing Request_Log HTTP_Text SSE
begin

text \<open>
  \<open>internal/gateway/service.go\<close>: one request of a client from its body to the response, the
  feedback to the router and the record in the log.  The collaborators are the interfaces of the
  file - \<open>Router\<close>, \<open>Transport\<close>, \<open>Recorder\<close>, \<open>CredentialManager\<close>, the clock
  and the response writer - as the fields of \<open>gateway\<close>, functions on a state of their own.
\<close>

subsection \<open>Types of service.go\<close>

record invocation =
  inv_key_id :: int
  inv_request :: string
  inv_protocol :: string
  inv_endpoint :: string
  inv_model :: string
  inv_force_stream :: bool
  inv_headers :: header
  inv_body :: "lexeme list"
  inv_body_bytes :: int \<comment> \<open>\<open>len(invocation.Body)\<close>\<close>

record gateway_error =
  ge_status :: int
  ge_code :: string
  ge_message :: codec_message
  ge_retry_after :: nanos
  ge_committed :: bool

text \<open>An error of the credential manager, as \<open>errors.As\<close> and \<open>errors.Is\<close> tell them apart.\<close>

datatype credential_failure =
    CodedFailure string \<comment> \<open>it has a \<open>GatewayCode\<close>\<close>
  | CanceledFailure \<comment> \<open>a canceled context or a deadline\<close>
  | OtherFailure

datatype stream_failure = CanceledStream | BrokenStream

text \<open>A response: its body is the bytes that can be read and the error, if any, after them.\<close>

record upstream_response =
  us_status :: int
  us_header :: header
  us_body :: string
  us_error :: "stream_failure option"

record 's gateway =
  g_ready :: bool \<comment> \<open>router, providers, transport and recorder are set\<close>
  g_plan :: "request \<Rightarrow> 's \<Rightarrow> 's \<times> explanation \<times> (plan_error + lease)"
  g_release :: "lease \<Rightarrow> 's \<Rightarrow> 's"
  g_success :: "int \<Rightarrow> 's \<Rightarrow> 's"
  g_failure :: "candidate \<Rightarrow> failure \<Rightarrow> 's \<Rightarrow> 's"
  g_registry :: registry
  g_transport :: "candidate \<Rightarrow> native_request \<Rightarrow> adapter \<Rightarrow> 's \<Rightarrow> 's \<times> upstream_response option"
  g_credentials :: "(candidate \<Rightarrow> bool \<Rightarrow> 's \<Rightarrow> 's \<times> (credential_failure + candidate)) option"
  g_record :: "event \<Rightarrow> 's \<Rightarrow> 's"
  g_clock :: "'s \<Rightarrow> nanos"
  g_header :: "int \<Rightarrow> header \<Rightarrow> 's \<Rightarrow> 's" \<comment> \<open>\<open>WriteHeader\<close> with the headers set\<close>
  g_write :: "'s \<Rightarrow> string \<Rightarrow> 's \<times> nat \<times> stream_failure option"
  g_flush :: "'s \<Rightarrow> 's \<times> stream_failure option"
  g_canceled :: "'s \<Rightarrow> bool" \<comment> \<open>\<open>ctx.Err() != nil\<close>\<close>
  g_scan :: "string \<Rightarrow> lexeme list"
  g_render :: "lexeme list \<Rightarrow> string"
  g_parse_time :: "string \<Rightarrow> nanos option"

subsection \<open>Errors\<close>

definition public_error :: "int \<Rightarrow> string \<Rightarrow> codec_message \<Rightarrow> gateway_error" where
  "public_error status code message =
     \<lparr>ge_status = status, ge_code = code, ge_message = message, ge_retry_after = 0, ge_committed = False\<rparr>"

definition internal_error :: gateway_error where
  "internal_error = public_error 500 ''internal_error'' (Plain ''internal server error'')"

definition route_error :: "plan_error \<Rightarrow> gateway_error" where
  "route_error err =
     (case err of
        LoadError _ \<Rightarrow> internal_error
      | RouteError code retry \<Rightarrow>
          let known = (\<lambda>status message.
            (public_error status code (Plain message))\<lparr>ge_retry_after := retry\<rparr>) in
          if code = ''model_not_configured'' then known 404 ''model route is not configured''
          else if code = ''capability_not_supported''
          then known 422 ''model route does not support this capability''
          else if code = ''quota_limited''
          then known 429 ''all eligible upstream accounts are quota limited''
          else if code = ''all_accounts_saturated''
          then known 429 ''all eligible upstream accounts are busy''
          else if code = ''reauth_required''
          then known 503 ''all eligible upstream accounts require authentication''
          else if code = ''account_cooldown''
          then known 503 ''all eligible upstream accounts are cooling down''
          else if code = ''account_disabled''
          then known 503 ''all eligible upstream accounts are disabled''
          else if code = ''upstream_unavailable''
          then known 503 ''no upstream account is currently available''
          else internal_error)"

definition codec_gateway_error :: "go_error \<Rightarrow> gateway_error" where
  "codec_gateway_error err =
     (case err of
        Codec e \<Rightarrow>
          public_error (if error_code e = ''capability_not_supported'' then 422 else 400)
            (error_code e) (error_message e)
      | Failure_Text _ \<Rightarrow> internal_error)"

definition credential_gateway_code :: "credential_failure \<Rightarrow> string" where
  "credential_gateway_code err = (case err of CodedFailure code \<Rightarrow> code | _ \<Rightarrow> [])"

definition credential_error :: "credential_failure \<Rightarrow> gateway_error" where
  "credential_error err =
     (let code = credential_gateway_code err in
      if code \<noteq> [] then
        (if code = ''reauth_required''
         then public_error 503 ''reauth_required'' (Plain ''configured upstream account requires authentication'')
         else if code = ''capability_not_supported''
         then public_error 422 ''capability_not_supported'' (Plain ''account authentication is not supported'')
         else if code = ''oauth_config_invalid''
         then public_error 503 ''reauth_required'' (Plain ''OAuth provider configuration is unavailable'')
         else public_error 502 ''upstream_unavailable''
           (Plain ''OAuth credential refresh is temporarily unavailable''))
      else if err = CanceledFailure
      then public_error 504 ''upstream_timeout'' (Plain ''OAuth credential refresh timed out'')
      else internal_error)"

subsection \<open>The record of a request\<close>

definition new_event :: "invocation \<Rightarrow> nanos \<Rightarrow> event" where
  "new_event call started =
     \<lparr>ev_request = inv_request call, ev_client_key = inv_key_id call, ev_protocol = inv_protocol call,
      ev_endpoint = inv_endpoint call, ev_model = inv_model call, ev_provider = [], ev_upstream = 0,
      ev_account = 0, ev_status = 0, ev_error_code = [], ev_streamed = False,
      ev_started = unix_milli started, ev_first_byte = None, ev_completed = 0,
      ev_request_bytes = inv_body_bytes call, ev_response_bytes = 0,
      ev_usage = lex (values_json []), ev_routing = lex (values_json [])\<rparr>"

definition filter_reasons :: "string list" where
  "filter_reasons =
     [''account_cooldown'', ''account_disabled'', ''all_accounts_saturated'', ''capability_not_supported'',
      ''lower_priority'', ''quota_limited'', ''reauth_required'', ''upstream_unavailable'']"

text \<open>\<open>Explanation.JSON\<close>: the fields in order, the zero ones omitted, the map by key.\<close>

definition nonzero_member :: "string \<Rightarrow> int \<Rightarrow> members" where
  "nonzero_member name n = (if n = 0 then [] else [(name, JNum (show_int n))])"

definition explanation_json :: "explanation \<Rightarrow> json" where
  "explanation_json e =
     JObj ([(''schema_version'', JNum (show_int 1)),
            (''candidate_count'', JNum (show_int (int (candidate_count e)))),
            (''filtered'', JObj (map (\<lambda>k. (k, JNum (show_int (int (filtered e k)))))
               (filter (\<lambda>k. filtered e k \<noteq> 0) filter_reasons)))]
       @ nonzero_member ''selected_priority'' (selected_priority e)
       @ nonzero_member ''selected_load_numerator'' (selected_numerator e)
       @ nonzero_member ''selected_load_denominator'' (selected_denominator e))"

text \<open>The deferred function of \<open>Execute\<close>.\<close>

definition complete_event :: "nanos \<Rightarrow> gateway_error option \<Rightarrow> event \<Rightarrow> event" where
  "complete_event now result ev =
     (let ev = ev\<lparr>ev_completed := unix_milli now\<rparr>;
          ev = (case result of
                  None \<Rightarrow> ev
                | Some e \<Rightarrow>
                    let ev = ev\<lparr>ev_error_code := ge_code e\<rparr> in
                    if ev_status ev = 0 then ev\<lparr>ev_status := ge_status e\<rparr> else ev) in
      if ev_status ev = 0 then ev\<lparr>ev_status := 200\<rparr> else ev)"

subsection \<open>Responses\<close>

text \<open>What a step of a request leaves: the state, the record so far and the error, if any.\<close>

type_synonym 's outcome = "'s \<times> event \<times> gateway_error option"

abbreviation max_response_body :: nat where "max_response_body \<equiv> 33554432"

definition protocol_changed :: "string \<Rightarrow> gateway_error" where
  "protocol_changed m = public_error 502 ''upstream_protocol_changed'' (Plain m)"

definition plain_failure :: "string \<Rightarrow> failure" where
  "plain_failure code = \<lparr>f_status = 0, f_code = code, f_retry_after = 0, f_network = False\<rparr>"

definition network_failure :: "string \<Rightarrow> failure" where
  "network_failure code = (plain_failure code)\<lparr>f_network := True\<rparr>"

text \<open>\<open>firstByteWriter.Write\<close> on the state paired with the time of the first byte.\<close>

definition tracked_write ::
  "'s gateway \<Rightarrow> 's \<times> ms option \<Rightarrow> string \<Rightarrow> ('s \<times> ms option) \<times> nat \<times> stream_failure option"
where
  "tracked_write g st body =
     (case st of (s, first) \<Rightarrow>
        (case g_write g s body of (s', n, err) \<Rightarrow>
           ((s', if 0 < n \<and> first = None then Some (unix_milli (g_clock g s')) else first), n, err)))"

text \<open>\<open>io.ReadAll(io.LimitReader(body, maxResponseBody+1))\<close>: a longer body shows no error.\<close>

definition read_limited :: "upstream_response \<Rightarrow> string \<times> stream_failure option" where
  "read_limited resp =
     (if length (us_body resp) > max_response_body then (take (Suc max_response_body) (us_body resp), None)
      else (us_body resp, us_error resp))"

definition non_stream ::
  "'s gateway \<Rightarrow> upstream_response \<Rightarrow> candidate \<Rightarrow> string \<Rightarrow> event \<Rightarrow> 's \<Rightarrow> 's outcome"
where
  "non_stream g resp c model ev s =
     (if \<not> has_media_type (header_get (us_header resp) ''Content-Type'') ''application/json''
      then (g_failure g c (plain_failure ''upstream_protocol_changed'') s, ev,
            Some (protocol_changed ''upstream returned an unexpected response type''))
      else
        (case read_limited resp of (body, err) \<Rightarrow>
           if err \<noteq> None \<or> max_response_body < length body
           then (g_failure g c ((plain_failure ''upstream_protocol_changed'')\<lparr>f_network := err \<noteq> None\<rparr>) s, ev,
                 Some (protocol_changed ''upstream response is incomplete or too large''))
           else
             (case rewrite_provider_response (provider_id c) (g_scan g body) model of
                Inl _ \<Rightarrow>
                  (g_failure g c (plain_failure ''upstream_protocol_changed'') s, ev,
                   Some (protocol_changed ''upstream response does not match the verified protocol''))
              | Inr rewritten \<Rightarrow>
                  let values = extract_usage (provider_id c) (g_scan g body);
                      s1 = g_header g (us_status resp)
                        [(''Content-Type'', ''application/json; charset=utf-8''), (''Cache-Control'', ''no-store'')] s;
                      ((s2, first), written, write_err) = tracked_write g (s1, ev_first_byte ev) (g_render g rewritten);
                      ev' = ev\<lparr>ev_usage := lex (values_json values), ev_first_byte := first,
                              ev_status := us_status resp, ev_response_bytes := int written\<rparr>;
                      s3 = g_success g (account_internal c) s2 in
                  (s3, ev',
                   if write_err \<noteq> None
                   then Some ((public_error (us_status resp) ''downstream_disconnected''
                     (Plain ''downstream connection closed''))\<lparr>ge_committed := True\<rparr>)
                   else None))))"

definition stream_options ::
  "'s gateway \<Rightarrow> string \<Rightarrow> string \<Rightarrow> (stream_failure, 's \<times> ms option) sse_options"
where
  "stream_options g provider model =
     \<lparr>rewrite_data = Some (\<lambda>data.
        (case rewrite_provider_response provider (g_scan g data) model of
           Inl _ \<Rightarrow> Inl BrokenStream
         | Inr body \<Rightarrow> Inr (g_render g body))),
      observes = True,
      sse_flush = Some (\<lambda>(s, first). case g_flush g s of (s', err) \<Rightarrow> ((s', first), err)),
      sse_write = tracked_write g\<rparr>"

definition stream ::
  "'s gateway \<Rightarrow> upstream_response \<Rightarrow> candidate \<Rightarrow> string \<Rightarrow> event \<Rightarrow> 's \<Rightarrow> 's outcome"
where
  "stream g resp c model ev s =
     (if \<not> has_media_type (header_get (us_header resp) ''Content-Type'') ''text/event-stream''
      then (g_failure g c (plain_failure ''upstream_protocol_changed'') s, ev,
            Some (protocol_changed ''upstream did not return an SSE stream''))
      else
        let s1 = g_header g (us_status resp)
              [(''Content-Type'', ''text/event-stream''), (''Cache-Control'', ''no-store''),
               (''X-Accel-Buffering'', ''no'')] s in
        (case copy_sse (stream_options g (provider_id c) model) (s1, ev_first_byte ev)
            (us_body resp) (us_error resp) of
           (st, err) \<Rightarrow>
             let (s2, first) = sink st;
                 values = fold (\<lambda>data vs. merge_values vs (extract_usage (provider_id c) (g_scan g data)))
                   (observed st) [];
                 ev' = ev\<lparr>ev_first_byte := first, ev_status := us_status resp,
                         ev_response_bytes := int (copied st), ev_usage := lex (values_json values)\<rparr> in
             if err = None then (g_success g (account_internal c) s2, ev', None)
             else if g_canceled g s2 \<or> err = Some (Failed CanceledStream)
             then (s2, ev', Some ((public_error (us_status resp) ''downstream_disconnected''
                     (Plain ''downstream connection closed''))\<lparr>ge_committed := True\<rparr>))
             else (g_failure g c (network_failure ''upstream_protocol_changed'') s2, ev',
                   Some ((public_error (us_status resp) ''upstream_protocol_changed''
                     (Plain ''upstream stream ended unexpectedly''))\<lparr>ge_committed := True\<rparr>))))"

text \<open>\<open>upstreamError\<close>: what to record, if anything, and what to answer.\<close>

definition upstream_failure :: "int \<Rightarrow> nanos \<Rightarrow> failure option \<times> gateway_error" where
  "upstream_failure status retry_after =
     (let f = \<lparr>f_status = status, f_code = ''upstream_unavailable'', f_retry_after = retry_after, f_network = False\<rparr>;
          unavailable = public_error 502 ''upstream_unavailable'' (Plain ''upstream service is unavailable'') in
      if status = 401 \<or> status = 403 then
        (Some (f\<lparr>f_status := 401, f_code := ''reauth_required''\<rparr>),
         public_error 503 ''reauth_required'' (Plain ''configured upstream account requires authentication''))
      else if status = 429 then
        (Some (f\<lparr>f_code := ''quota_limited''\<rparr>),
         (public_error 429 ''quota_limited'' (Plain ''upstream quota is temporarily limited''))
           \<lparr>ge_retry_after := retry_after\<rparr>)
      else if status = 502 \<or> status = 503 \<or> status = 504 then
        (Some (f\<lparr>f_network := True\<rparr>), unavailable)
      else if 500 \<le> status then (Some f, unavailable)
      else (None, public_error 400 ''invalid_request'' (Plain ''upstream rejected the request'')))"

definition upstream_error ::
  "'s gateway \<Rightarrow> candidate \<Rightarrow> upstream_response \<Rightarrow> 's \<Rightarrow> 's \<times> gateway_error"
where
  "upstream_error g c resp s =
     (let retry_after = parse_retry_after (g_parse_time g) (header_get (us_header resp) ''Retry-After'') (g_clock g s) in
      case upstream_failure (us_status resp) retry_after of
        (None, e) \<Rightarrow> (s, e)
      | (Some f, e) \<Rightarrow> (g_failure g c f s, e))"

subsection \<open>Execute\<close>

definition respond ::
  "'s gateway \<Rightarrow> bool \<Rightarrow> string \<Rightarrow> candidate \<Rightarrow> upstream_response \<Rightarrow> event \<Rightarrow> 's \<Rightarrow> 's outcome"
where
  "respond g streamed model c resp ev s =
     (if us_status resp < 200 \<or> 300 \<le> us_status resp then
        (case upstream_error g c resp s of (s', e) \<Rightarrow> (s', ev, Some e))
      else if streamed then stream g resp c model ev s
      else non_stream g resp c model ev s)"

definition unavailable_error :: gateway_error where
  "unavailable_error = public_error 502 ''upstream_unavailable'' (Plain ''upstream service is unavailable'')"

text \<open>One call of the transport, with what follows a network error.\<close>

definition call_upstream ::
  "'s gateway \<Rightarrow> candidate \<Rightarrow> native_request \<Rightarrow> adapter \<Rightarrow> 's \<Rightarrow> 's \<times> (gateway_error + upstream_response)"
where
  "call_upstream g c native a s =
     (case g_transport g c native a s of
        (s', None) \<Rightarrow> (g_failure g c (network_failure ''upstream_unavailable'') s', Inl unavailable_error)
      | (s', Some resp) \<Rightarrow> (s', Inr resp))"

text \<open>The forced refresh after a 401 of an OAuth account, and the one retry.\<close>

definition refresh_failure :: "credential_failure \<Rightarrow> failure" where
  "refresh_failure err =
     (if credential_gateway_code err = ''reauth_required''
      then (plain_failure ''reauth_required'')\<lparr>f_status := 401\<rparr>
      else network_failure ''oauth_refresh_unavailable'')"

definition with_retry ::
  "'s gateway \<Rightarrow> candidate \<Rightarrow> native_request \<Rightarrow> adapter \<Rightarrow> 's
    \<Rightarrow> 's \<times> (gateway_error + candidate \<times> upstream_response)"
where
  "with_retry g c native a s =
     (case call_upstream g c native a s of
        (s1, Inl e) \<Rightarrow> (s1, Inl e)
      | (s1, Inr resp) \<Rightarrow>
          (case g_credentials g of
             Some ensure \<Rightarrow>
               if us_status resp = 401 \<and> auth_kind c = ''oauth'' then
                 (case ensure c True s1 of
                    (s2, Inl err) \<Rightarrow> (g_failure g c (refresh_failure err) s2, Inl (credential_error err))
                  | (s2, Inr c') \<Rightarrow>
                      (case call_upstream g c' native a s2 of
                         (s3, Inl e) \<Rightarrow> (s3, Inl e)
                       | (s3, Inr resp') \<Rightarrow> (s3, Inr (c', resp'))))
               else (s1, Inr (c, resp))
           | None \<Rightarrow> (s1, Inr (c, resp))))"

definition ensure_credential ::
  "'s gateway \<Rightarrow> candidate \<Rightarrow> 's \<Rightarrow> 's \<times> (credential_failure + candidate)"
where
  "ensure_credential g c s =
     (case g_credentials g of None \<Rightarrow> (s, Inr c) | Some ensure \<Rightarrow> ensure c False s)"

text \<open>The part of \<open>Execute\<close> that holds the lease.\<close>

definition serve_lease ::
  "'s gateway \<Rightarrow> invocation \<Rightarrow> bool \<Rightarrow> candidate \<Rightarrow> event \<Rightarrow> 's \<Rightarrow> 's outcome"
where
  "serve_lease g call streamed selected ev s =
     (case ensure_credential g selected s of
        (s1, Inl err) \<Rightarrow> (s1, ev, Some (credential_error err))
      | (s1, Inr c) \<Rightarrow>
          (case registry_get (g_registry g) (provider_id c) of
             None \<Rightarrow>
               (s1, ev, Some (public_error 422 ''capability_not_supported''
                  (Plain ''configured provider does not support this endpoint'')))
           | Some a \<Rightarrow>
               (case prepare a \<lparr>in_endpoint = inv_endpoint call, in_body = inv_body call,
                   in_upstream_model = upstream_model c, in_headers = inv_headers call\<rparr> of
                  Inl err \<Rightarrow> (s1, ev, Some (codec_gateway_error err))
                | Inr native \<Rightarrow>
                    if nr_stream native \<noteq> streamed then
                      (s1, ev, Some (public_error 400 ''invalid_request''
                         (Plain ''request stream mode does not match the endpoint'')))
                    else
                      (case with_retry g c native a s1 of
                         (s2, Inl e) \<Rightarrow> (s2, ev, Some e)
                       | (s2, Inr (c', resp)) \<Rightarrow> respond g streamed (inv_model call) c' resp ev s2))))"

definition required_capabilities :: "bool \<Rightarrow> string list" where
  "required_capabilities streamed = (if streamed then [''text'', ''stream''] else [''text''])"

text \<open>From the check of the collaborators to the last return.\<close>

definition attempt :: "'s gateway \<Rightarrow> invocation \<Rightarrow> event \<Rightarrow> 's \<Rightarrow> 's outcome" where
  "attempt g call ev s =
     (if \<not> g_ready g then (s, ev, Some internal_error)
      else
        (case inspect_request (inv_body call) (inv_model call = []) of
           Inl e \<Rightarrow> (s, ev, Some (codec_gateway_error (Codec e)))
         | Inr info \<Rightarrow>
             let call = (if inv_model call = [] then call\<lparr>inv_model := info_model info\<rparr> else call);
                 streamed = (inv_force_stream call \<or> info_stream info);
                 ev = ev\<lparr>ev_model := inv_model call, ev_streamed := streamed\<rparr> in
             (case g_plan g \<lparr>req_model = inv_model call, req_protocol = inv_protocol call,
                 req_capabilities = required_capabilities streamed\<rparr> s of
                (s1, why, Inl err) \<Rightarrow> (s1, ev\<lparr>ev_routing := lex (explanation_json why)\<rparr>, Some (route_error err))
              | (s1, why, Inr l) \<Rightarrow>
                  let c = lease_candidate l;
                      ev = ev\<lparr>ev_routing := lex (explanation_json why), ev_provider := provider_id c,
                             ev_upstream := upstream_internal c, ev_account := account_internal c\<rparr> in
                  (case serve_lease g call streamed c ev s1 of
                     (s2, ev', result) \<Rightarrow> (g_release g l s2, ev', result)))))"

definition execute :: "'s gateway \<Rightarrow> invocation \<Rightarrow> 's \<Rightarrow> 's \<times> gateway_error option" where
  "execute g call s =
     (if inv_key_id call \<le> 0 \<or> inv_request call = [] \<or> inv_protocol call = [] \<or> inv_endpoint call = []
      then (s, Some internal_error)
      else
        (case attempt g call (new_event call (g_clock g s)) s of
           (s', ev, result) \<Rightarrow>
             (g_record g (complete_event (g_clock g s') result ev) s', result)))"

end
