(* ===== verification/Gateway_Facts.thy ===== *)
theory Gateway_Facts
  imports Gateway
begin

text \<open>
  What \<open>Execute\<close> keeps, proved against the interfaces of \<open>gateway/service.go\<close>: a
  \<open>quiet\<close> gateway leaves an observation of its state alone in every operation that is not
  planning, releasing or recording; \<open>lease_keeper\<close> adds the laws of the router's leases and
  \<open>log_keeper\<close> those of the recorder.  Both are interpreted on the world made of the models of
  routing and of the usage writer.
\<close>

subsection \<open>Streams leave what the writer leaves\<close>

definition writer_keeps :: "('w \<Rightarrow> bool) \<Rightarrow> ('e, 'w) sse_options \<Rightarrow> bool" where
  "writer_keeps P opts \<longleftrightarrow> (\<forall>w b. P w \<longrightarrow> P (fst (sse_write opts w b)))
     \<and> (\<forall>f w. sse_flush opts = Some f \<longrightarrow> P w \<longrightarrow> P (fst (f w)))"

lemma put_event_keeps:
  assumes "writer_keeps P opts" "P (sink st)"
  shows "P (sink (fst (put_event opts out st)))"
proof -
  obtain w n err where w: "sse_write opts (sink st) out = (w, n, err)" by (metis prod_cases3)
  then have "P w" using assms by (metis fst_conv writer_keeps_def)
  moreover have "P (fst (f w))" if "sse_flush opts = Some f" for f
    using assms(1) that \<open>P w\<close> by (simp add: writer_keeps_def)
  ultimately show ?thesis
    using w by (simp add: put_event_def Let_def case_prod_beta split: option.split)
qed

lemma write_event_keeps:
  "writer_keeps P opts \<Longrightarrow> P (sink st) \<Longrightarrow> P (sink (fst (write_event opts event st)))"
  by (auto simp: write_event_def Let_def put_event_keeps split: option.split sum.split)

lemma copy_loop_keeps:
  "writer_keeps P opts \<Longrightarrow> P (sink st) \<Longrightarrow> P (sink (fst (copy_loop opts src_err s event st)))"
proof (induction "length s" arbitrary: s event st rule: less_induct)
  case less
  obtain fragment k rest where r: "read_slice sse_buffer s = (fragment, k, rest)" by (metis prod_cases3)
  have keep: "P (sink (fst (write_event opts e st)))" for e
    using write_event_keeps less.prems by blast
  show ?case
  proof (cases "k = SourceEnded")
    case True
    then show ?thesis using keep [of "event @ fragment"] less.prems r
      by (auto simp: copy_loop.simps [of opts src_err s] split: option.splits prod.splits)
  next
    case False
    then have shorter: "length rest < length s" using read_slice_more [OF r False] by simp
    obtain st1 err where we: "write_event opts (event @ fragment) st = (st1, err)" by fastforce
    then have "P (sink st1)" using keep [of "event @ fragment"] by simp
    then show ?thesis
      using less.hyps [OF shorter less.prems(1)] less.prems False we r
      by (auto simp: copy_loop.simps [of opts src_err s] split: option.splits)
  qed
qed

subsection \<open>Quiet gateways\<close>

locale responding =
  fixes g :: "'s gateway" and obs :: "'s \<Rightarrow> 'o"
  assumes success_quiet [simp]: "obs (g_success g account s) = obs s"
    and failure_quiet [simp]: "obs (g_failure g c f s) = obs s"
    and credentials_quiet: "g_credentials g = Some ensure \<Longrightarrow> obs (fst (ensure c force s)) = obs s"
    and header_quiet [simp]: "obs (g_header g status h s) = obs s"
    and write_quiet: "obs (fst (g_write g s b)) = obs s"
    and flush_quiet: "obs (fst (g_flush g s)) = obs s"
begin

lemma tracked_write_quiet: "tracked_write g (s, first) b = ((s', first'), n, err) \<Longrightarrow> obs s' = obs s"
  using write_quiet [of s b] by (auto simp: tracked_write_def split: prod.splits)

lemma non_stream_quiet: "non_stream g resp c model ev s = (s', ev', r) \<Longrightarrow> obs s' = obs s"
  using tracked_write_quiet
  by (fastforce simp: non_stream_def Let_def split: if_splits prod.splits sum.splits)

lemma copy_sse_quiet:
  assumes "copy_sse (stream_options g p model) (s, first) body e = (st, err)"
  shows "obs (fst (sink st)) = obs s"
proof -
  have "obs (fst (fst (tracked_write g w b))) = obs (fst w)" for w b
    using write_quiet [of "fst w" b] by (cases w) (auto simp: tracked_write_def split: prod.splits)
  moreover have "obs (fst (fst (case g_flush g a of (s', x) \<Rightarrow> ((s', b), x)))) = obs a"
    for a and b :: "ms option"
    using flush_quiet [of a] by (auto split: prod.splits)
  ultimately have "writer_keeps (\<lambda>w. obs (fst w) = obs s) (stream_options g p model)"
    by (simp add: writer_keeps_def stream_options_def)
  from copy_loop_keeps [OF this, of "\<lparr>sink = (s, first), observed = [], copied = 0\<rparr>" e body "[]"] assms
  show ?thesis by (simp add: copy_sse_def)
qed

lemma stream_quiet: "stream g resp c model ev s = (s', ev', r) \<Longrightarrow> obs s' = obs s"
  using copy_sse_quiet
  by (fastforce simp: stream_def Let_def split: if_splits prod.splits)

lemma respond_quiet: "respond g streamed model c resp ev s = (s', ev', r) \<Longrightarrow> obs s' = obs s"
  by (auto simp: respond_def upstream_error_def Let_def dest: stream_quiet non_stream_quiet
      split: if_splits prod.splits option.splits)

lemma ensure_credential_quiet: "ensure_credential g c s = (s', r) \<Longrightarrow> obs s' = obs s"
  using credentials_quiet [of _ c False s]
  by (auto simp: ensure_credential_def split: option.splits dest: arg_cong [of _ _ fst])

end

text \<open>A gateway whose transport is quiet too.\<close>

locale quiet = responding +
  assumes transport_quiet: "obs (fst (g_transport g c native a s)) = obs s"
begin

lemma call_upstream_quiet: "call_upstream g c native a s = (s', r) \<Longrightarrow> obs s' = obs s"
  using transport_quiet [of c native a s] by (auto simp: call_upstream_def split: prod.splits option.splits)

lemma with_retry_quiet: "with_retry g c native a s = (s', r) \<Longrightarrow> obs s' = obs s"
proof -
  assume retry: "with_retry g c native a s = (s', r)"
  obtain s1 r1 where call: "call_upstream g c native a s = (s1, r1)" by fastforce
  have one: "obs s1 = obs s" by (rule call_upstream_quiet [OF call])
  show ?thesis
  proof (cases "g_credentials g")
    case None
    then show ?thesis using retry call one by (auto simp: with_retry_def split: sum.splits)
  next
    case (Some ensure)
    obtain s2 r2 where ens: "ensure c True s1 = (s2, r2)" by fastforce
    have two: "obs s2 = obs s1" using credentials_quiet [OF Some, of c True s1] ens by simp
    show ?thesis
      using retry call one ens two Some call_upstream_quiet
      by (fastforce simp: with_retry_def split: sum.splits if_splits prod.splits)
  qed
qed

lemma serve_lease_quiet:
  assumes "serve_lease g call streamed c ev s = (s', ev', r)"
  shows "obs s' = obs s"
proof -
  obtain s1 r1 where "ensure_credential g c s = (s1, r1)" by fastforce
  with assms ensure_credential_quiet [OF this] with_retry_quiet respond_quiet show ?thesis
    by (fastforce simp: serve_lease_def split: sum.splits option.splits if_splits prod.splits)
qed

end

subsection \<open>The three ways through Execute\<close>

definition same_request :: "invocation \<Rightarrow> event \<Rightarrow> bool" where
  "same_request call ev \<longleftrightarrow> ev_request ev = inv_request call \<and> ev_client_key ev = inv_key_id call
     \<and> ev_protocol ev = inv_protocol call \<and> ev_endpoint ev = inv_endpoint call
     \<and> ev_request_bytes ev = inv_body_bytes call \<and> ev_error_code ev = []"

lemma error_statuses [simp]:
  "ge_status (route_error e1) \<noteq> 0" "ge_status (codec_gateway_error e2) \<noteq> 0"
  "ge_status (credential_error e3) \<noteq> 0" "ge_status internal_error \<noteq> 0" "ge_status unavailable_error \<noteq> 0"
  by (simp_all add: route_error_def codec_gateway_error_def credential_error_def internal_error_def
      unavailable_error_def public_error_def Let_def split: plan_error.split go_error.split)

lemma attempt_cases:
  assumes "attempt g call ev s = (s', ev', r)"
  obtains (early) e where "s' = s" "ev' = ev" "r = Some e" "ge_status e \<noteq> 0"
  | (refused) req why e where "g_plan g req s = (s', why, Inl e)" "r = Some (route_error e)"
      "ev_status ev' = ev_status ev" "\<And>k. same_request k ev' = same_request k ev"
  | (served) req s1 why l call' streamed ev1 s2 where "g_plan g req s = (s1, why, Inr l)"
      "serve_lease g call' streamed (lease_candidate l) ev1 s1 = (s2, ev', r)" "s' = g_release g l s2"
      "ev_status ev1 = ev_status ev" "\<And>k. same_request k ev1 = same_request k ev"
proof (cases "g_ready g")
  case False
  with assms early show ?thesis by (auto simp: attempt_def)
next
  case ready: True
  show ?thesis
  proof (cases "inspect_request (inv_body call) (inv_model call = [])")
    case (Inl e)
    with assms ready early show ?thesis by (auto simp: attempt_def)
  next
    case (Inr info)
    define call' where "call' = (if inv_model call = [] then call\<lparr>inv_model := info_model info\<rparr> else call)"
    define streamed where "streamed = (inv_force_stream call' \<or> info_stream info)"
    define req where "req = \<lparr>req_model = inv_model call', req_protocol = inv_protocol call',
      req_capabilities = required_capabilities streamed\<rparr>"
    obtain s1 why p where plan: "g_plan g req s = (s1, why, p)" by (metis prod_cases3)
    note run = assms [unfolded attempt_def Inr sum.case Let_def, folded call'_def, folded streamed_def, folded req_def]
    show ?thesis
    proof (cases p)
      case (Inl e)
      with run ready plan show ?thesis by (intro refused [of req why e]) (auto simp: same_request_def)
    next
      case (Inr l)
      with run ready plan show ?thesis
        by (auto simp: same_request_def intro: served split: prod.splits)
    qed
  qed
qed

subsection \<open>The router's leases\<close>

abbreviation lease_account :: "lease \<Rightarrow> int" where
  "lease_account l \<equiv> account_internal (lease_candidate l)"

locale lease_keeper = quiet g held
  for g :: "'s gateway" and held :: "'s \<Rightarrow> int \<Rightarrow> int" +
  assumes refused: "g_plan g r s = (s', why, Inl e) \<Longrightarrow> held s' = held s"
    and granted: "\<forall>a. 0 \<le> held s a \<Longrightarrow> g_plan g r s = (s', why, Inr l) \<Longrightarrow>
      held s' = (held s)(lease_account l := held s (lease_account l) + 1) \<and> \<not> lease_done l"
    and released: "\<not> lease_done l \<Longrightarrow> 0 < held s (lease_account l) \<Longrightarrow>
      held (g_release g l s) = (held s)(lease_account l := held s (lease_account l) - 1)"
    and record_held: "held (g_record g ev s) = held s"
begin

lemma attempt_returns_lease:
  assumes nonneg: "\<forall>a. 0 \<le> held s a" and run: "attempt g call ev s = (s', ev', r)"
  shows "held s' = held s"
  using run
proof (cases rule: attempt_cases)
  case (served req s1 why l call' streamed ev1 s2)
  have "held s1 = (held s)(lease_account l := held s (lease_account l) + 1)" "\<not> lease_done l"
    using granted [OF nonneg served(1)] by blast+
  moreover have "held s2 = held s1" by (rule serve_lease_quiet [OF served(2)])
  ultimately show ?thesis using released [of l s2] nonneg served(3) by (auto simp: fun_eq_iff)
qed (use refused in auto)

lemma execute_returns_lease:
  assumes "\<forall>a. 0 \<le> held s a" "execute g call s = (s', r)"
  shows "held s' = held s"
  using assms attempt_returns_lease [OF assms(1)] record_held
  by (auto simp: execute_def split: if_splits prod.splits)

end

subsection \<open>The log of requests\<close>

locale log_keeper = quiet g logged
  for g :: "'s gateway" and logged :: "'s \<Rightarrow> event list" +
  assumes plan_logged: "logged (fst (g_plan g r s)) = logged s"
    and release_logged: "logged (g_release g l s) = logged s"
    and recorded: "logged (g_record g e s) = logged s @ [e]"
begin

lemma attempt_logs_nothing:
  assumes "attempt g call ev s = (s', ev', r)"
  shows "logged s' = logged s"
  using assms
proof (cases rule: attempt_cases)
  case (refused req why e)
  then show ?thesis using plan_logged [of req s] by simp
next
  case (served req s1 why l call' streamed ev1 s2)
  then show ?thesis using plan_logged [of req s] serve_lease_quiet [OF served(2)] release_logged by simp
qed simp

lemma execute_logs_once:
  assumes "execute g call s = (s', r)"
    and "0 < inv_key_id call" "inv_request call \<noteq> []" "inv_protocol call \<noteq> []" "inv_endpoint call \<noteq> []"
  obtains ev s1 where "attempt g call (new_event call (g_clock g s)) s = (s1, ev, r)"
    "logged s' = logged s @ [complete_event (g_clock g s1) r ev]"
  using assms attempt_logs_nothing recorded by (auto simp: execute_def split: prod.splits)

end

subsection \<open>Calls upstream\<close>

type_synonym upstream_call = "candidate \<times> native_request \<times> int option"

text \<open>The calls a request may make: at most one, or a second one after a 401 of an OAuth account.\<close>

definition calls_ok :: "'s gateway \<Rightarrow> upstream_call list \<Rightarrow> bool" where
  "calls_ok g new \<longleftrightarrow> length new \<le> 1
     \<or> (g_credentials g \<noteq> None \<and> (\<exists>c c' native answer.
          new = [(c, native, Some 401), (c', native, answer)] \<and> auth_kind c = ''oauth''))"

locale call_keeper = responding g calls
  for g :: "'s gateway" and calls :: "'s \<Rightarrow> upstream_call list" +
  assumes transport_calls: "g_transport g c native a s = (s', resp) \<Longrightarrow>
      calls s' = calls s @ [(c, native, map_option us_status resp)]"
    and plan_calls: "calls (fst (g_plan g r s)) = calls s"
    and release_calls: "calls (g_release g l s) = calls s"
    and record_calls: "calls (g_record g ev s) = calls s"
begin

lemma call_upstream_calls:
  "call_upstream g c native a s = (s', Inr resp) \<Longrightarrow> calls s' = calls s @ [(c, native, Some (us_status resp))]"
  "call_upstream g c native a s = (s', Inl e) \<Longrightarrow> calls s' = calls s @ [(c, native, None)]"
  using transport_calls [of c native a s] by (auto simp: call_upstream_def split: prod.splits option.splits)

lemma with_retry_calls:
  assumes "with_retry g c native a s = (s', r)"
  shows "\<exists>new. calls s' = calls s @ new \<and> calls_ok g new"
proof -
  obtain s1 r1 where call: "call_upstream g c native a s = (s1, r1)" by fastforce
  show ?thesis
  proof (cases r1)
    case (Inl e)
    with assms call call_upstream_calls(2) show ?thesis by (auto simp: with_retry_def calls_ok_def)
  next
    case (Inr resp)
    note one = call_upstream_calls(1) [OF call [unfolded Inr]]
    show ?thesis
    proof (cases "g_credentials g \<noteq> None \<and> us_status resp = 401 \<and> auth_kind c = ''oauth''")
      case False
      with assms call Inr one show ?thesis
        by (auto simp: with_retry_def calls_ok_def split: option.splits)
    next
      case True
      then obtain ensure where ensure: "g_credentials g = Some ensure" by blast
      obtain s2 r2 where ens: "ensure c True s1 = (s2, r2)" by fastforce
      have two: "calls s2 = calls s1" using credentials_quiet [OF ensure, of c True s1] ens by simp
      show ?thesis
      proof (cases r2)
        case (Inl e)
        with assms call Inr ens ensure True one two show ?thesis
          by (auto simp: with_retry_def calls_ok_def)
      next
        case c': (Inr c')
        obtain s3 r3 where again: "call_upstream g c' native a s2 = (s3, r3)" by fastforce
        then have "calls s3 = calls s2 @ [(c', native, case r3 of Inl _ \<Rightarrow> None | Inr x \<Rightarrow> Some (us_status x))]"
          using call_upstream_calls by (cases r3) auto
        moreover have "s' = s3" using assms call Inr ens ensure True c' again
          by (auto simp: with_retry_def split: sum.splits)
        ultimately show ?thesis using one two True by (auto simp: calls_ok_def)
      qed
    qed
  qed
qed

lemma serve_lease_calls:
  assumes "serve_lease g call streamed c ev s = (s', ev', r)"
  shows "\<exists>new. calls s' = calls s @ new \<and> calls_ok g new"
proof -
  have none: "\<exists>new. calls s1 = calls s @ new \<and> calls_ok g new" if "calls s1 = calls s" for s1
    using that by (auto simp: calls_ok_def)
  obtain s1 r1 where ens: "ensure_credential g c s = (s1, r1)" by fastforce
  note one = ensure_credential_quiet [OF ens]
  consider "s' = s1" | c1 native a s2 r2 where "with_retry g c1 native a s1 = (s2, r2)"
      "s' = s2 \<or> (\<exists>c2 resp. r2 = Inr (c2, resp) \<and> respond g streamed (inv_model call) c2 resp ev s2 = (s', ev', r))"
    using assms ens
    by (fastforce simp: serve_lease_def split: sum.splits option.splits if_splits prod.splits)
  then show ?thesis
  proof cases
    case 1
    with one none show ?thesis by simp
  next
    case 2
    then have "calls s' = calls s2" using respond_quiet by blast
    with with_retry_calls [OF 2(1)] one show ?thesis by auto
  qed
qed

lemma execute_calls:
  assumes "execute g call s = (s', r)"
  shows "\<exists>new. calls s' = calls s @ new \<and> calls_ok g new"
proof (cases "inv_key_id call \<le> 0 \<or> inv_request call = [] \<or> inv_protocol call = [] \<or> inv_endpoint call = []")
  case True
  with assms show ?thesis by (auto simp: execute_def calls_ok_def)
next
  case False
  then obtain s1 ev where run: "attempt g call (new_event call (g_clock g s)) s = (s1, ev, r)"
      "calls s' = calls s1"
    using assms record_calls by (auto simp: execute_def split: prod.splits)
  from run(1) show ?thesis
  proof (cases rule: attempt_cases)
    case (refused req why e)
    then show ?thesis using plan_calls [of req s] run(2) by (simp add: calls_ok_def)
  next
    case (served req s2 why l call' streamed ev1 s3)
    then show ?thesis
      using plan_calls [of req s] serve_lease_calls [OF served(2)] release_calls run(2) by simp
  qed (use run(2) in \<open>simp add: calls_ok_def\<close>)
qed

end

subsection \<open>What the record says\<close>

definition outcome_ok :: "invocation \<Rightarrow> event \<Rightarrow> gateway_error option \<Rightarrow> bool" where
  "outcome_ok call ev r \<longleftrightarrow> same_request call ev
     \<and> (case r of
          None \<Rightarrow> 200 \<le> ev_status ev \<and> ev_status ev < 300
        | Some e \<Rightarrow> ge_status e \<noteq> 0 \<and> (ev_status ev = 0 \<or> ev_status ev = ge_status e))"

lemma non_stream_ok:
  assumes "same_request call ev" "ev_status ev = 0" "200 \<le> us_status resp" "us_status resp < 300"
    and "non_stream g resp c model ev s = (s', ev', r)"
  shows "outcome_ok call ev' r"
  using assms
  by (auto simp: non_stream_def outcome_ok_def same_request_def protocol_changed_def public_error_def Let_def
      split: if_splits prod.splits sum.splits)

lemma stream_ok:
  assumes "same_request call ev" "ev_status ev = 0" "200 \<le> us_status resp" "us_status resp < 300"
    and "stream g resp c model ev s = (s', ev', r)"
  shows "outcome_ok call ev' r"
  using assms
  by (auto simp: stream_def outcome_ok_def same_request_def protocol_changed_def public_error_def Let_def
      split: if_splits prod.splits)

lemma upstream_failure_status: "upstream_failure status retry = (f, e) \<Longrightarrow> ge_status e \<noteq> 0"
  by (auto simp: upstream_failure_def public_error_def Let_def split: if_splits)

lemma respond_ok:
  assumes "same_request call ev" "ev_status ev = 0"
    and "respond g streamed model c resp ev s = (s', ev', r)"
  shows "outcome_ok call ev' r"
proof (cases "us_status resp < 200 \<or> 300 \<le> us_status resp")
  case True
  with assms show ?thesis
    by (auto simp: respond_def upstream_error_def outcome_ok_def Let_def
        split: prod.splits option.splits dest: upstream_failure_status)
next
  case False
  with assms show ?thesis
    using stream_ok [OF assms(1,2), of resp] non_stream_ok [OF assms(1,2), of resp]
    by (auto simp: respond_def split: if_splits)
qed

lemma with_retry_status: "with_retry g c native a s = (s', Inl e) \<Longrightarrow> ge_status e \<noteq> 0"
  by (auto simp: with_retry_def call_upstream_def split: prod.splits option.splits if_splits sum.splits)

lemma serve_lease_ok:
  assumes "same_request call' ev" "ev_status ev = 0"
    and "serve_lease g call streamed c ev s = (s', ev', r)"
  shows "outcome_ok call' ev' r"
proof -
  have err: "outcome_ok call' ev (Some e)" if "ge_status e \<noteq> 0" for e
    using assms(1,2) that by (simp add: outcome_ok_def)
  show ?thesis
    using assms(3) err respond_ok [OF assms(1,2)] with_retry_status
    by (fastforce simp: serve_lease_def public_error_def
        split: prod.splits sum.splits option.splits if_split_asm)
qed

lemma attempt_ok:
  assumes "same_request call ev" "ev_status ev = 0" "attempt g call ev s = (s', ev', r)"
  shows "outcome_ok call ev' r"
  using assms(3)
proof (cases rule: attempt_cases)
  case (served req s1 why l call' streamed ev1 s2)
  then show ?thesis using serve_lease_ok [OF _ _ served(2), of call] assms(1,2) by simp
qed (use assms(1,2) in \<open>simp_all add: outcome_ok_def\<close>)

lemma new_event_same [simp]: "same_request call (new_event call t)" "ev_status (new_event call t) = 0"
  by (simp_all add: same_request_def new_event_def)

text \<open>The record tells the outcome the client saw.\<close>

definition tells :: "invocation \<Rightarrow> gateway_error option \<Rightarrow> event \<Rightarrow> bool" where
  "tells call r ev \<longleftrightarrow> ev_request ev = inv_request call \<and> ev_client_key ev = inv_key_id call
     \<and> (case r of
          None \<Rightarrow> 200 \<le> ev_status ev \<and> ev_status ev < 300 \<and> ev_error_code ev = []
        | Some e \<Rightarrow> ev_status ev = ge_status e \<and> ev_error_code ev = ge_code e)"

lemma complete_event_tells: "outcome_ok call ev r \<Longrightarrow> tells call r (complete_event now r ev)"
  by (auto simp: outcome_ok_def same_request_def tells_def complete_event_def Let_def split: option.splits)

end
