(* ===== verification/Routing_Facts.thy ===== *)
theory Routing_Facts
  imports Routing "HOL-Library.Multiset"
begin

text \<open>
  What \<open>plan\<close> selects and when it fails, that the in-flight counters are exactly the open
  leases in every interleaving, that equally loaded accounts are served in turn, and what success
  and failure write to the runtime state.
\<close>

subsection \<open>The scan\<close>

definition loads :: "cipher \<Rightarrow> (string \<Rightarrow> lexeme list) \<Rightarrow> joined list \<Rightarrow> loaded list \<Rightarrow> bool" where
  "loads c scan js ls \<longleftrightarrow> map (scan_route_candidate c scan) js = map Inr ls"

definition eligible :: "request \<Rightarrow> ms \<Rightarrow> loaded list \<Rightarrow> candidate list" where
  "eligible r now ls = map ld_candidate (filter (\<lambda>l. filter_reason l r now = []) ls)"

definition reasons :: "request \<Rightarrow> ms \<Rightarrow> string \<Rightarrow> loaded list \<Rightarrow> loaded list" where
  "reasons r now reason ls = filter (\<lambda>l. filter_reason l r now = reason) ls"

lemma scan_rows_None:
  "scan_rows c scan r now js s = (s', None) \<longleftrightarrow>
     (\<exists>ls. loads c scan js ls \<and> s' = fold (scan_row r now) ls s)"
proof (induction js arbitrary: s)
  case Nil
  show ?case by (auto simp: loads_def)
next
  case (Cons j js)
  show ?case
  proof (cases "scan_route_candidate c scan j")
    case (Inl e)
    then show ?thesis by (auto simp: loads_def Cons_eq_map_conv)
  next
    case (Inr l)
    then show ?thesis
      by (auto simp: Cons.IH loads_def Cons_eq_map_conv)
  qed
qed

lemma scan_rows_Some:
  "scan_rows c scan r now js s = (s', Some e) \<Longrightarrow> \<not> (\<exists>ls. loads c scan js ls)"
proof
  assume a: "scan_rows c scan r now js s = (s', Some e)" "\<exists>ls. loads c scan js ls"
  then obtain ls where "loads c scan js ls" by blast
  then have "scan_rows c scan r now js s = (fold (scan_row r now) ls s, None)"
    using scan_rows_None by blast
  with a show False by simp
qed

lemma loads_unique: "loads c scan js ls \<Longrightarrow> loads c scan js ls' \<Longrightarrow> ls = ls'"
  unfolding loads_def by (metis inj_map_eq_map inj_Inr)

lemma scan_row_eligible:
  "sc_eligible (fold (scan_row r now) ls s) = sc_eligible s @ eligible r now ls"
  by (induction ls arbitrary: s) (auto simp: scan_row_def eligible_def Let_def)

lemma scan_row_filtered:
  "reason \<noteq> [] \<Longrightarrow>
   filtered (sc_explanation (fold (scan_row r now) ls s)) reason =
     filtered (sc_explanation s) reason + length (reasons r now reason ls)"
  by (induction ls arbitrary: s) (auto simp: scan_row_def reasons_def Let_def count_reason_def)

lemma scan_row_quota:
  "sc_quota_retry (fold (scan_row r now) ls s) =
     fold (\<lambda>l q. earlier_positive q (the (ld_quota_reset l))) (reasons r now ''quota_limited'' ls)
       (sc_quota_retry s)"
  by (induction ls arbitrary: s) (auto simp: scan_row_def reasons_def Let_def)

lemma scan_row_cooldown:
  "sc_cooldown_retry (fold (scan_row r now) ls s) =
     fold (\<lambda>l q. earlier_positive q (the (ld_cooldown_until l))) (reasons r now ''account_cooldown'' ls)
       (sc_cooldown_retry s)"
  by (induction ls arbitrary: s) (auto simp: scan_row_def reasons_def Let_def)

lemma quota_limited_reset:
  "filter_reason l r now = ''quota_limited'' \<Longrightarrow> \<exists>t. ld_quota_reset l = Some t \<and> now < t"
  by (auto simp: filter_reason_def after_def split: if_splits option.splits)

lemma cooldown_until:
  "filter_reason l r now = ''account_cooldown'' \<Longrightarrow> \<exists>t. ld_cooldown_until l = Some t \<and> now < t"
  by (auto simp: filter_reason_def after_def split: if_splits option.splits)

lemma filter_reason_values:
  "filter_reason l r now \<noteq> [] \<Longrightarrow>
     filter_reason l r now \<in> insert ''upstream_unavailable'' (set error_order)"
  by (auto simp: filter_reason_def error_order_def)

lemma fold_earlier_positive:
  "0 < q \<Longrightarrow> \<forall>x \<in> set xs. 0 < f x \<Longrightarrow>
     fold (\<lambda>x q. earlier_positive q (f x)) xs q = Min (insert q (f ` set xs))"
proof (induction xs arbitrary: q)
  case (Cons x xs)
  have e: "earlier_positive q (f x) = min q (f x)"
    using Cons.prems by (auto simp: earlier_positive_def)
  have "0 < min q (f x)" using Cons.prems by simp
  then have "fold (\<lambda>x q. earlier_positive q (f x)) (x # xs) q = Min (insert (min q (f x)) (f ` set xs))"
    using Cons.IH Cons.prems(2) by (simp add: e)
  also have "\<dots> = Min (insert q (f ` set (x # xs)))"
    by (cases "set xs = {}") (simp_all add: min.assoc)
  finally show ?case .
qed simp

lemma fold_earlier:
  assumes "\<forall>x \<in> set xs. 0 < f x" "xs \<noteq> []"
  shows "fold (\<lambda>x q. earlier_positive q (f x)) xs 0 = Min (f ` set xs)"
proof -
  obtain x ys where xs: "xs = x # ys" using assms(2) by (cases xs) auto
  then have "fold (\<lambda>x q. earlier_positive q (f x)) xs 0 =
      fold (\<lambda>x q. earlier_positive q (f x)) ys (f x)"
    using assms(1) by (simp add: earlier_positive_def)
  then show ?thesis using fold_earlier_positive [of "f x" ys f] assms(1) xs by simp
qed

subsection \<open>The selection\<close>

definition load_le :: "router \<Rightarrow> candidate \<Rightarrow> candidate \<Rightarrow> bool" where
  "load_le st x y \<longleftrightarrow>
     in_flight st (account_internal x) * max_concurrency y
       \<le> in_flight st (account_internal y) * max_concurrency x"

lemma load_le_trans:
  assumes "load_le st x y" "load_le st y z"
    and "0 < max_concurrency x" "0 < max_concurrency y" "0 < max_concurrency z"
  shows "load_le st x z"
proof -
  let ?l = "\<lambda>c. in_flight st (account_internal c)" and ?m = max_concurrency
  have "(?l x * ?m z) * ?m y \<le> (?l y * ?m x) * ?m z"
    using assms(1,5) mult_right_mono [of "?l x * ?m y" "?l y * ?m x" "?m z"]
    by (simp add: load_le_def ac_simps)
  also have "\<dots> = (?l y * ?m z) * ?m x" by (simp add: ac_simps)
  also have "\<dots> \<le> (?l z * ?m y) * ?m x"
    using assms(2,3) by (intro mult_right_mono) (auto simp: load_le_def)
  finally have "(?l x * ?m z) * ?m y \<le> (?l z * ?m x) * ?m y" by (simp add: ac_simps)
  with assms(4) show ?thesis by (simp add: load_le_def)
qed

lemma load_le_total: "load_le st x y \<or> load_le st y x"
  by (auto simp: load_le_def)

definition least :: "router \<Rightarrow> candidate list \<Rightarrow> candidate list" where
  "least st cs = filter (\<lambda>x. \<forall>y \<in> set cs. load_le st x y) cs"

lemma load_le_refl: "load_le st x x"
  by (simp add: load_le_def)

lemma least_snoc:
  assumes "\<forall>c \<in> set (ps @ [p]). 0 < max_concurrency c" and "b \<in> set (least st ps)"
  shows "least st (ps @ [p]) =
    (if load_le st p b then (if load_le st b p then least st ps @ [p] else [p]) else least st ps)"
proof -
  have b: "b \<in> set ps" "\<forall>y \<in> set ps. load_le st b y" using assms(2) by (auto simp: least_def)
  have p: "(\<forall>y \<in> set ps. load_le st p y) \<longleftrightarrow> load_le st p b"
    using b assms(1) load_le_trans [of st p b] by auto
  have x: "load_le st x p \<longleftrightarrow> load_le st b p" if "x \<in> set (least st ps)" for x
    using that b assms(1) load_le_trans [of st x b p] load_le_trans [of st b x p]
    by (auto simp: least_def)
  show ?thesis
  proof (cases "load_le st b p")
    case True
    then have "filter (\<lambda>x. \<forall>y \<in> set (ps @ [p]). load_le st x y) ps = least st ps"
      using x by (auto simp: least_def intro!: filter_cong)
    with True p load_le_refl show ?thesis by (simp add: least_def)
  next
    case False
    then have "load_le st p b" using load_le_total by blast
    moreover have "filter (\<lambda>x. \<forall>y \<in> set (ps @ [p]). load_le st x y) ps = []"
      using x False by (auto simp: least_def filter_empty_conv)
    ultimately show ?thesis using False p load_le_refl by (simp add: least_def)
  qed
qed

lemma least_loaded_least:
  assumes "\<forall>c \<in> set (ps @ cs). 0 < max_concurrency c" "b \<in> set (least st ps)"
  shows "least_loaded st cs (Some (in_flight st (account_internal b), max_concurrency b)) (least st ps)
    = least st (ps @ cs)"
  using assms
proof (induction cs arbitrary: ps b)
  case (Cons c cs)
  have pos: "\<forall>x \<in> set (ps @ [c]). 0 < max_concurrency x" using Cons.prems(1) by auto
  note snoc = least_snoc [OF pos Cons.prems(2)]
  have all: "\<forall>x \<in> set ((ps @ [c]) @ cs). 0 < max_concurrency x" using Cons.prems(1) by auto
  consider (less) "load_le st c b" "\<not> load_le st b c" | (eq) "load_le st c b" "load_le st b c"
    | (more) "\<not> load_le st c b"
    by blast
  then show ?case
  proof cases
    case less
    then have l: "least st (ps @ [c]) = [c]" using snoc by simp
    with less Cons.IH [OF all, of c] show ?thesis by (simp add: load_le_def)
  next
    case eq
    then have l: "least st (ps @ [c]) = least st ps @ [c]" using snoc by simp
    with Cons.prems(2) have "b \<in> set (least st (ps @ [c]))" by simp
    with eq l Cons.IH [OF all, of b] show ?thesis by (simp add: load_le_def)
  next
    case more
    then have l: "least st (ps @ [c]) = least st ps" using snoc by simp
    with Cons.prems(2) have "b \<in> set (least st (ps @ [c]))" by simp
    with more l Cons.IH [OF all, of b] show ?thesis by (simp add: load_le_def)
  qed
qed simp

lemma least_loaded_eq:
  assumes "\<forall>c \<in> set cs. 0 < max_concurrency c"
  shows "least_loaded st cs None [] = least st cs"
proof (cases cs)
  case Nil
  then show ?thesis by (simp add: least_def)
next
  case (Cons c cs')
  have "least st [c] = [c]" by (simp add: least_def load_le_refl)
  with least_loaded_least [of "[c]" cs' c st] assms Cons show ?thesis by simp
qed

lemma least_nonempty:
  assumes "cs \<noteq> []" "\<forall>c \<in> set cs. 0 < max_concurrency c"
  shows "least st cs \<noteq> []"
  using assms
proof (induction cs rule: rev_induct)
  case (snoc c cs)
  show ?case
  proof (cases "cs = []")
    case True
    then show ?thesis by (simp add: least_def load_le_refl)
  next
    case False
    with snoc obtain b where "b \<in> set (least st cs)" by fastforce
    with least_snoc [of cs c b st] snoc.prems show ?thesis by auto
  qed
qed simp

lemma minimum_priority_Min: "cs \<noteq> [] \<Longrightarrow> minimum_priority cs = Min (priority ` set cs)"
proof -
  have "fold (\<lambda>c m. if priority c < m then priority c else m) xs m = Min (insert m (priority ` set xs))"
    for xs m
  proof (induction xs arbitrary: m)
    case (Cons x xs)
    have "(if priority x < m then priority x else m) = min m (priority x)" by simp
    with Cons show ?case by (cases "set xs = {}") (simp_all add: min.assoc)
  qed simp
  then show "cs \<noteq> [] \<Longrightarrow> ?thesis" by (cases cs) (auto simp: minimum_priority_def)
qed

definition top_priority :: "candidate list \<Rightarrow> candidate list" where
  "top_priority cs = filter (\<lambda>c. \<forall>d \<in> set cs. priority c \<le> priority d) cs"

lemma first_priority_top: "cs \<noteq> [] \<Longrightarrow> fst (first_priority cs e) = top_priority cs"
  by (auto simp: first_priority_def top_priority_def Let_def minimum_priority_Min
      intro!: filter_cong Min_eqI [symmetric])

lemma top_priority_nonempty: "cs \<noteq> [] \<Longrightarrow> top_priority cs \<noteq> []"
proof -
  assume "cs \<noteq> []"
  then have "Min (priority ` set cs) \<in> priority ` set cs" by simp
  then obtain c where "c \<in> set cs" "priority c = Min (priority ` set cs)" by fastforce
  then have "c \<in> set (top_priority cs)" by (simp add: top_priority_def)
  then show ?thesis by auto
qed

text \<open>The candidates a request may be given, in order.\<close>

definition choices :: "router \<Rightarrow> candidate list \<Rightarrow> candidate list" where
  "choices st cs = least st (top_priority (filter (has_capacity st) cs))"

lemma choices_sound:
  "x \<in> set (choices st cs) \<longleftrightarrow>
     x \<in> set cs \<and> has_capacity st x
     \<and> (\<forall>y \<in> set cs. has_capacity st y \<longrightarrow>
          priority x \<le> priority y \<and> (priority y = priority x \<longrightarrow> load_le st x y))"
  unfolding choices_def least_def top_priority_def by (auto dest: order_antisym)

lemma capacity_positive:
  "has_capacity st c \<Longrightarrow> 0 \<le> in_flight st (account_internal c) \<Longrightarrow> 0 < max_concurrency c"
  by (simp add: has_capacity_def)

lemma top_priority_subset: "set (top_priority cs) \<subseteq> set cs"
  by (auto simp: top_priority_def)

lemma select_candidate_eq:
  assumes "\<forall>a. 0 \<le> in_flight st a" "filter (has_capacity st) cs \<noteq> []"
  shows "choices st cs \<noteq> []
    \<and> (\<exists>e'. select_candidate st route cs e =
        (let x = choices st cs ! (cursors st route mod length (choices st cs));
             load = in_flight st (account_internal x) in
         (st\<lparr>cursors := (cursors st)(route := Suc (cursors st route) mod two64),
            in_flight := (in_flight st)(account_internal x := load + 1)\<rparr>, e',
          Inr \<lparr>lease_candidate = x, lease_done = False\<rparr>)))"
proof -
  let ?cs = "filter (has_capacity st) cs"
  have pos: "\<forall>c \<in> set (top_priority ?cs). 0 < max_concurrency c"
    using top_priority_subset [of ?cs] assms(1) capacity_positive by fastforce
  have "choices st cs \<noteq> []"
    unfolding choices_def using least_nonempty top_priority_nonempty assms(2) pos by blast
  moreover have "least_loaded st (fst (first_priority ?cs e1)) None [] = choices st cs" for e1
    using first_priority_top [OF assms(2), of e1] least_loaded_eq [OF pos] by (simp add: choices_def)
  moreover obtain e1 where e1: "with_capacity st cs e = (?cs, e1)" by (simp add: with_capacity_def)
  moreover obtain top e2 where t: "first_priority ?cs e1 = (top, e2)" by fastforce
  ultimately have nonempty: "choices st cs \<noteq> []" and l: "least_loaded st top None [] = choices st cs"
    by (metis, metis fst_conv)
  then show ?thesis
    using assms(2) by (auto simp: select_candidate_def e1 t Let_def)
qed

lemma select_candidate_saturated:
  "filter (has_capacity st) cs = [] \<Longrightarrow>
     \<exists>e'. select_candidate st route cs e = (st, e', Inl (RouteError ''all_accounts_saturated'' 0))"
  by (simp add: select_candidate_def with_capacity_def)

subsection \<open>Plan in terms of the loaded rows\<close>

abbreviation route_rows :: "db \<Rightarrow> request \<Rightarrow> joined list" where
  "route_rows d r \<equiv> route_query d (trim_space (req_model r))"

lemma plan_loaded:
  assumes "loads c scan (route_rows d r) ls"
  shows "plan c scan d now st r =
    (let s = fold (scan_row r now) ls empty_scan in
     if ls = [] then (st, sc_explanation s, Inl (RouteError ''model_not_configured'' 0))
     else if eligible r now ls = [] then
       (st, sc_explanation s, Inl (no_candidate_error (filtered (sc_explanation s)) now
          (sc_quota_retry s) (sc_cooldown_retry s)))
     else select_candidate st (sc_route s) (eligible r now ls) (sc_explanation s))"
proof -
  have "scan_rows c scan r now (route_rows d r) empty_scan = (fold (scan_row r now) ls empty_scan, None)"
    using assms scan_rows_None by blast
  moreover have "route_rows d r = [] \<longleftrightarrow> ls = []" using assms by (auto simp: loads_def)
  moreover have "sc_eligible (fold (scan_row r now) ls empty_scan) = eligible r now ls"
    by (simp add: scan_row_eligible empty_scan_def)
  ultimately show ?thesis by (simp add: plan_def Let_def)
qed

lemma plan_not_loaded:
  assumes "\<nexists>ls. loads c scan (route_rows d r) ls"
  shows "\<exists>e err. plan c scan d now st r = (st, e, Inl (LoadError err))"
proof (cases "scan_rows c scan r now (route_rows d r) empty_scan")
  case (Pair s o_err)
  then have "o_err \<noteq> None" using assms scan_rows_None by metis
  with Pair show ?thesis by (auto simp: plan_def Let_def)
qed

lemma no_candidate_not_load: "no_candidate_error f now q t \<noteq> LoadError e"
  by (simp add: no_candidate_error_def split: option.split)

lemma plan_lease:
  assumes "plan c scan d now st r = (st', e, Inr l)" "\<forall>a. 0 \<le> in_flight st a"
  shows "\<exists>ls route. loads c scan (route_rows d r) ls
    \<and> lease_candidate l \<in> set (choices st (eligible r now ls)) \<and> \<not> lease_done l
    \<and> lease_candidate l = choices st (eligible r now ls) !
        (cursors st route mod length (choices st (eligible r now ls)))
    \<and> st' = st\<lparr>cursors := (cursors st)(route := Suc (cursors st route) mod two64),
        in_flight := (in_flight st)(account_internal (lease_candidate l) :=
          in_flight st (account_internal (lease_candidate l)) + 1)\<rparr>"
proof -
  obtain ls where ls: "loads c scan (route_rows d r) ls"
    using assms(1) plan_not_loaded [of c scan d r now st] by fastforce
  let ?E = "eligible r now ls" and ?s = "fold (scan_row r now) ls empty_scan"
  have sel: "select_candidate st (sc_route ?s) ?E (sc_explanation ?s) = (st', e, Inr l)"
    using assms(1) plan_loaded [OF ls, of now st] by (auto simp: Let_def split: if_splits)
  then have "filter (has_capacity st) ?E \<noteq> []"
    using select_candidate_saturated [of st ?E "sc_route ?s" "sc_explanation ?s"] by force
  with select_candidate_eq [OF assms(2) this, of "sc_route ?s" "sc_explanation ?s"] sel
  have "choices st ?E \<noteq> []"
    "lease_candidate l = choices st ?E ! (cursors st (sc_route ?s) mod length (choices st ?E))"
    "\<not> lease_done l"
    "st' = st\<lparr>cursors := (cursors st)(sc_route ?s := Suc (cursors st (sc_route ?s)) mod two64),
        in_flight := (in_flight st)(account_internal (lease_candidate l) :=
          in_flight st (account_internal (lease_candidate l)) + 1)\<rparr>"
    by (auto simp: Let_def)
  with ls show ?thesis
    by (intro exI [of _ ls] exI [of _ "sc_route ?s"]) (simp add: nth_mem)
qed

text \<open>
  C1: The account \<open>Plan\<close> chooses is right: it is a candidate of the route that passes every
  eligibility rule, has a free slot, no eligible candidate with a free slot has a better priority, and
  none of the same priority has a lower ratio of requests in flight to its limit; the plan takes one
  slot of that account and leaves every other counter alone.
\<close>

theorem plan_selects:
  assumes "plan c scan d now st r = (st', e, Inr l)" "\<forall>a. 0 \<le> in_flight st a"
  shows "\<exists>ls. loads c scan (route_rows d r) ls
    \<and> lease_candidate l \<in> set (eligible r now ls)
    \<and> has_capacity st (lease_candidate l)
    \<and> (\<forall>y \<in> set (eligible r now ls). has_capacity st y \<longrightarrow>
         priority (lease_candidate l) \<le> priority y
         \<and> (priority y = priority (lease_candidate l) \<longrightarrow> load_le st (lease_candidate l) y))
    \<and> in_flight st' = (in_flight st)(account_internal (lease_candidate l) :=
         in_flight st (account_internal (lease_candidate l)) + 1)"
  using plan_lease [OF assms] by (auto simp: choices_sound)


lemma wait_until_id:
  "now < t \<Longrightarrow> t - now \<le> 9223372036854 \<Longrightarrow> wait_until t now = (t - now) * millisecond"
  by (simp add: wait_until_def wrap64_id)

text \<open>
  The wait a client is told.  When every row of the route is filtered and some only wait for a
  quota, no earlier reason applies, and the resets are within the range of a duration, the
  \<open>RetryAfter\<close> is the time to the earliest of those resets, and it is positive.
\<close>

theorem plan_quota_wait:
  assumes ls: "loads c scan (route_rows d r) ls" and "eligible r now ls = []" "0 \<le> now"
    and "reasons r now ''quota_limited'' ls \<noteq> []"
    and "reasons r now ''reauth_required'' ls = []" "reasons r now ''capability_not_supported'' ls = []"
    and "\<forall>l \<in> set (reasons r now ''quota_limited'' ls). the (ld_quota_reset l) - now \<le> 9223372036854"
  shows "\<exists>e. plan c scan d now st r = (st, e, Inl (RouteError ''quota_limited''
      ((Min ((\<lambda>l. the (ld_quota_reset l)) ` set (reasons r now ''quota_limited'' ls)) - now) * millisecond)))"
proof -
  let ?s = "fold (scan_row r now) ls empty_scan" and ?Q = "reasons r now ''quota_limited'' ls"
  let ?reset = "\<lambda>l. the (ld_quota_reset l)"
  have later: "\<forall>l \<in> set ?Q. now < ?reset l"
    using quota_limited_reset by (fastforce simp: reasons_def)
  then have q: "sc_quota_retry ?s = Min (?reset ` set ?Q)"
    using fold_earlier [of ?Q ?reset] assms(3,4) by (simp add: scan_row_quota empty_scan_def) force
  have "Min (?reset ` set ?Q) \<in> ?reset ` set ?Q" using assms(4) by simp
  then obtain l where "l \<in> set ?Q" "Min (?reset ` set ?Q) = ?reset l" by blast
  with later assms(7) have "wait_until (sc_quota_retry ?s) now = (Min (?reset ` set ?Q) - now) * millisecond"
    using q wait_until_id by auto
  moreover have "filtered (sc_explanation ?s) k = length (reasons r now k ls)" if "k \<noteq> []" for k
    using that scan_row_filtered [of k r now ls empty_scan] by (simp add: empty_scan_def empty_explanation_def)
  moreover have "ls \<noteq> []" using assms(4) by (auto simp: reasons_def)
  ultimately show ?thesis
    using assms(2,4-6) by (simp add: plan_loaded [OF ls] Let_def no_candidate_error_def error_order_def)
qed

subsection \<open>Leases in every interleaving\<close>

text \<open>
  The gateway's view: the router and every lease handed out so far.  A step is one critical section
  of the mutex: a \<open>plan\<close> on the database as it is at that time (control operations and
  feedback may have changed it in any way since the last step), or the release of one lease.
\<close>

record system =
  sys_router :: router
  sys_leases :: "lease list"

definition initial_system :: system where
  "initial_system = \<lparr>sys_router = new_router, sys_leases = []\<rparr>"

inductive lease_step :: "system \<Rightarrow> system \<Rightarrow> bool" where
  grant: "plan c scan d now (sys_router s) r = (st', e, Inr l) \<Longrightarrow>
     lease_step s \<lparr>sys_router = st', sys_leases = sys_leases s @ [l]\<rparr>"
| refuse: "plan c scan d now (sys_router s) r = (st', e, Inl err) \<Longrightarrow>
     lease_step s \<lparr>sys_router = st', sys_leases = sys_leases s\<rparr>"
| release: "i < length (sys_leases s) \<Longrightarrow> release (sys_leases s ! i) (sys_router s) = (l', st') \<Longrightarrow>
     lease_step s \<lparr>sys_router = st', sys_leases = (sys_leases s)[i := l']\<rparr>"

inductive_cases lease_stepE: "lease_step s s'"

inductive lease_reachable :: "system \<Rightarrow> bool" where
  init: "lease_reachable initial_system"
| step: "lease_reachable s \<Longrightarrow> lease_step s s' \<Longrightarrow> lease_reachable s'"

definition held :: "int \<Rightarrow> lease \<Rightarrow> bool" where
  "held a l \<longleftrightarrow> \<not> lease_done l \<and> account_internal (lease_candidate l) = a"

definition open_leases :: "system \<Rightarrow> int \<Rightarrow> nat" where
  "open_leases s a = length (filter (held a) (sys_leases s))"

definition counters_exact :: "system \<Rightarrow> bool" where
  "counters_exact s \<longleftrightarrow> (\<forall>a. in_flight (sys_router s) a = int (open_leases s a))"

lemma counters_nonneg: "counters_exact s \<Longrightarrow> \<forall>a. 0 \<le> in_flight (sys_router s) a"
  by (simp add: counters_exact_def)

lemma length_filter_update:
  assumes "i < length xs"
  shows "int (length (filter P (xs[i := x]))) =
    int (length (filter P xs)) - (if P (xs ! i) then 1 else 0) + (if P x then 1 else 0)"
proof -
  have u: "xs[i := x] = take i xs @ x # drop (Suc i) xs" using assms by (rule upd_conv_take_nth_drop)
  have "xs = take i xs @ xs ! i # drop (Suc i) xs" using assms by (rule id_take_nth_drop)
  then have "length (filter P xs) = length (filter P (take i xs)) + length (filter P (xs ! i # drop (Suc i) xs))"
    by (metis filter_append length_append)
  then show ?thesis by (simp add: u)
qed

lemma release_counters:
  assumes "counters_exact s" "i < length (sys_leases s)"
    and "release (sys_leases s ! i) (sys_router s) = (l', st')"
  shows "counters_exact \<lparr>sys_router = st', sys_leases = (sys_leases s)[i := l']\<rparr>"
proof (cases "lease_done (sys_leases s ! i)")
  case True
  with assms(3) have "l' = sys_leases s ! i" "st' = sys_router s" by (simp_all add: release_def)
  with assms(1) show ?thesis by (simp add: counters_exact_def open_leases_def)
next
  case False
  let ?l = "sys_leases s ! i"
  let ?a = "account_internal (lease_candidate ?l)"
  have "held ?a ?l" using False by (simp add: held_def)
  then have "?l \<in> set (filter (held ?a) (sys_leases s))" using assms(2) by simp
  then have "0 < open_leases s ?a" unfolding open_leases_def by (metis length_pos_if_in_set)
  then have "0 < in_flight (sys_router s) ?a" using assms(1) by (simp add: counters_exact_def)
  with False assms(3) have st': "in_flight st' = (in_flight (sys_router s))(?a := in_flight (sys_router s) ?a - 1)"
      and l': "l' = ?l\<lparr>lease_done := True\<rparr>"
    by (auto simp: release_def Let_def)
  have "int (length (filter (held b) ((sys_leases s)[i := l']))) =
      int (open_leases s b) - (if b = ?a then 1 else 0)" for b
    using length_filter_update [OF assms(2), of "held b" l'] False l'
    by (auto simp: open_leases_def held_def)
  with st' assms(1) show ?thesis by (simp add: counters_exact_def open_leases_def)
qed

lemma plan_error_state: "plan c scan d now st r = (st', e, Inl err) \<Longrightarrow> st' = st"
  by (auto simp: plan_def select_candidate_def Let_def split: prod.splits option.splits if_splits)

lemma lease_step_counters:
  assumes "lease_step s s'" "counters_exact s"
  shows "counters_exact s'"
  using assms(1)
proof (cases rule: lease_step.cases)
  case (grant c scan d now r st' e l)
  from plan_lease [OF grant(2) counters_nonneg [OF assms(2)]]
  obtain ls route where "\<not> lease_done l" and st': "st' = (sys_router s)
      \<lparr>cursors := (cursors (sys_router s))(route := Suc (cursors (sys_router s) route) mod two64),
       in_flight := (in_flight (sys_router s))(account_internal (lease_candidate l) :=
         in_flight (sys_router s) (account_internal (lease_candidate l)) + 1)\<rparr>"
    by blast
  then have "in_flight st' b = in_flight (sys_router s) b + (if held b l then 1 else 0)" for b
    by (simp add: held_def)
  with assms(2) show ?thesis by (simp add: counters_exact_def open_leases_def grant(1))
next
  case (refuse c scan d now r st' e err)
  with assms(2) plan_error_state [OF refuse(2)] show ?thesis
    by (simp add: counters_exact_def open_leases_def)
next
  case (release i l' st')
  with release_counters [OF assms(2) release(2,3)] show ?thesis by simp
qed

lemma reachable_counters: "lease_reachable s \<Longrightarrow> counters_exact s"
proof (induction rule: lease_reachable.induct)
  case init
  show ?case
    by (simp add: counters_exact_def initial_system_def new_router_def open_leases_def)
next
  case (step s s')
  then show ?case using lease_step_counters by blast
qed

text \<open>
  C3: No slot is ever leaked or freed twice.  In every interleaving of plans and releases, with
  releases repeated in any way, the in-flight counter of an account is the number of its leases that
  have not been released.
\<close>

theorem in_flight_exact:
  assumes "lease_reachable s"
  shows "in_flight (sys_router s) a = int (open_leases s a)"
  using reachable_counters [OF assms] by (simp add: counters_exact_def)

theorem in_flight_exact_witness: "in_flight (sys_router initial_system) 7 = int (open_leases initial_system 7)"
  by (rule in_flight_exact [OF lease_reachable.init])

text \<open>
  C4: The concurrency limit holds.  In every reachable state a plan that grants a lease leaves the
  account with at most its limit of open leases, the new one included.
\<close>

theorem concurrency_limit:
  assumes "lease_reachable s" "plan c scan d now (sys_router s) r = (st', e, Inr l)"
  shows "int (open_leases \<lparr>sys_router = st', sys_leases = sys_leases s @ [l]\<rparr>
      (account_internal (lease_candidate l))) \<le> max_concurrency (lease_candidate l)"
proof -
  have exact: "counters_exact s" using assms(1) by (rule reachable_counters)
  from plan_lease [OF assms(2) counters_nonneg [OF exact]] obtain ls where
    "lease_candidate l \<in> set (choices (sys_router s) (eligible r now ls))" by blast
  then have "has_capacity (sys_router s) (lease_candidate l)" by (simp add: choices_sound)
  with exact show ?thesis by (simp add: counters_exact_def has_capacity_def open_leases_def)
qed

subsection \<open>Serving equally loaded accounts in turn\<close>

text \<open>\<open>n\<close> requests one after the other, each lease released before the next plan.\<close>

primrec serve ::
  "cipher \<Rightarrow> (string \<Rightarrow> lexeme list) \<Rightarrow> db \<Rightarrow> ms \<Rightarrow> request \<Rightarrow> nat \<Rightarrow> router \<Rightarrow> candidate list"
where
  "serve c scan d now r 0 st = []"
| "serve c scan d now r (Suc n) st =
     (case plan c scan d now st r of
        (st', e, Inl _) \<Rightarrow> []
      | (st', e, Inr l) \<Rightarrow> lease_candidate l # serve c scan d now r n (snd (release l st')))"

lemma serve_turns:
  assumes ls: "loads c scan (route_rows d r) ls" and "\<forall>a. 0 \<le> in_flight st a"
    and "\<exists>y \<in> set (eligible r now ls). has_capacity st y"
  shows "\<exists>route. cursors st route + n < two64 \<longrightarrow>
    serve c scan d now r n st =
      map (\<lambda>i. choices st (eligible r now ls) ! ((cursors st route + i) mod length (choices st (eligible r now ls))))
        [0..<n]"
proof -
  let ?E = "eligible r now ls" and ?s = "fold (scan_row r now) ls empty_scan"
  let ?route = "sc_route ?s"
  have "?E \<noteq> []" using assms(3) by auto
  then have ne: "ls \<noteq> []" "?E \<noteq> []" by (auto simp: eligible_def)
  have "cursors st' ?route + n < two64 \<Longrightarrow> in_flight st' = in_flight st \<Longrightarrow>
      serve c scan d now r n st' =
        map (\<lambda>i. choices st ?E ! ((cursors st' ?route + i) mod length (choices st ?E))) [0..<n]" for st'
  proof (induction n arbitrary: st')
    case (Suc n)
    have cap: "has_capacity st' = has_capacity st" "load_le st' = load_le st"
      using Suc.prems(2) by (auto simp: has_capacity_def load_le_def fun_eq_iff)
    then have ch: "choices st' ?E = choices st ?E" by (simp add: choices_def least_def)
    have nonneg: "\<forall>a. 0 \<le> in_flight st' a" using Suc.prems(2) assms(2) by simp
    have some: "filter (has_capacity st') ?E \<noteq> []" using assms(3) cap by (auto simp: filter_empty_conv)
    let ?x = "choices st ?E ! (cursors st' ?route mod length (choices st ?E))"
    let ?next = "st'\<lparr>cursors := (cursors st')(?route := Suc (cursors st' ?route) mod two64),
      in_flight := (in_flight st')(account_internal ?x := in_flight st' (account_internal ?x) + 1)\<rparr>"
    obtain e where p: "plan c scan d now st' r =
        (?next, e, Inr \<lparr>lease_candidate = ?x, lease_done = False\<rparr>)"
      using select_candidate_eq [OF nonneg some, of ?route "sc_explanation ?s"] ne
      by (auto simp: plan_loaded [OF ls] Let_def ch)
    let ?rel = "snd (release \<lparr>lease_candidate = ?x, lease_done = False\<rparr> ?next)"
    have r1: "in_flight ?rel = in_flight st"
      using Suc.prems(2) assms(2) spec [OF assms(2), of "account_internal ?x"]
      by (auto simp: release_def Let_def)
    have r2: "cursors ?rel ?route = Suc (cursors st' ?route)"
      using Suc.prems(1) by (simp add: release_def Let_def)
    have IH: "serve c scan d now r n ?rel =
        map (\<lambda>i. choices st ?E ! ((cursors ?rel ?route + i) mod length (choices st ?E))) [0..<n]"
      using Suc.IH [of ?rel] r1 r2 Suc.prems(1) by simp
    have "serve c scan d now r (Suc n) st' = ?x # serve c scan d now r n ?rel"
      by (simp add: p)
    also have "\<dots> = map (\<lambda>i. choices st ?E ! ((cursors st' ?route + i) mod length (choices st ?E))) [0..<Suc n]"
      unfolding IH r2 by (simp add: map_upt_Suc del: upt_Suc)
    finally show ?case .
  qed simp
  from this [of st] show ?thesis by blast
qed

lemma mset_rotation:
  assumes "xs \<noteq> []"
  shows "mset (map (\<lambda>i. xs ! ((k + i) mod length xs)) [0..<length xs]) = mset xs"
proof -
  have "map (\<lambda>i. xs ! ((k + i) mod length xs)) [0..<length xs] = rotate k xs"
    by (rule nth_equalityI) (simp_all add: nth_rotate)
  moreover have "mset (rotate k xs) = mset xs"
    by (metis append_take_drop_id mset_append rotate_drop_take union_commute)
  ultimately show ?thesis by simp
qed

text \<open>
  C5: Equal accounts share the work.  When \<open>n\<close> candidates are equally good for a request,
  \<open>n\<close> requests served one after the other go to each of them exactly once, in turn, from any
  cursor short of its wrap-around.
\<close>

theorem serve_fair:
  assumes "loads c scan (route_rows d r) ls" "\<forall>a. 0 \<le> in_flight st a"
    and "\<exists>y \<in> set (eligible r now ls). has_capacity st y"
    and "\<forall>route. cursors st route + length (choices st (eligible r now ls)) < two64"
  shows "mset (serve c scan d now r (length (choices st (eligible r now ls))) st) =
    mset (choices st (eligible r now ls))"
proof -
  have "filter (has_capacity st) (eligible r now ls) \<noteq> []" using assms(3) by (auto simp: filter_empty_conv)
  then have "choices st (eligible r now ls) \<noteq> []" using select_candidate_eq [OF assms(2)] by blast
  with serve_turns [OF assms(1,2,3), of "length (choices st (eligible r now ls))"] assms(4)
  show ?thesis using mset_rotation by fastforce
qed

subsection \<open>Feedback\<close>

lemma backoff_cap_min:
  "0 < d \<Longrightarrow> d \<le> maximum \<Longrightarrow> backoff_cap n maximum d = min (d * 2 ^ n) maximum"
proof (induction n arbitrary: d)
  case (Suc n)
  show ?case
  proof (cases "d < maximum \<and> d \<le> maximum div 2")
    case True
    then have "d * 2 \<le> maximum" by linarith
    with Suc True show ?thesis by (simp add: ac_simps)
  next
    case False
    have "maximum \<le> d * 2" using False Suc.prems by (cases "d < maximum") linarith+
    also have "\<dots> \<le> d * 2 * 2 ^ n" using Suc.prems(1) by simp
    finally have "maximum \<le> d * 2 ^ Suc n" by (simp add: ac_simps)
    with False Suc.prems show ?thesis by auto
  qed
qed simp

text \<open>
  The back-off after the \<open>n\<close>-th failure in a row is the base doubled \<open>n - 1\<close>
  times, capped at the maximum; the doubling never exceeds the maximum on the way, so it cannot
  overflow.
\<close>

theorem backoff_closed_form:
  assumes "0 < base" "base \<le> maximum" "1 \<le> streak"
  shows "backoff_limit streak base maximum = min (base * 2 ^ nat (streak - 1)) maximum"
  using assms by (simp add: backoff_limit_def backoff_cap_min)

theorem backoff_closed_form_witness:
  "backoff_limit 5 (2 * second) (2 * minute) = 32 * second
     \<and> backoff_limit 9 (2 * second) (2 * minute) = 2 * minute"
  using backoff_closed_form [of "2 * second" "2 * minute" 5]
    backoff_closed_form [of "2 * second" "2 * minute" 9] by simp

definition runtime_of :: "db \<Rightarrow> int \<Rightarrow> runtime_row option" where
  "runtime_of d account = row_by rt_account_id account (runtimes d)"

definition streak_of :: "db \<Rightarrow> int \<Rightarrow> int" where
  "streak_of d account = (case runtime_of d account of None \<Rightarrow> 0 | Some r \<Rightarrow> rt_failure_streak r)"

lemma on_runtime_known:
  "account \<in> ac_id ` set (accounts d) \<Longrightarrow> on_runtime account f d = d\<lparr>runtimes := f (runtimes d)\<rparr>"
  by (auto simp: on_runtime_def list_ex_iff)

lemma record_backoff_row:
  assumes known: "account \<in> ac_id ` set (accounts d)" and "\<And>x. 0 \<le> x \<Longrightarrow> 0 \<le> jitter x \<and> jitter x \<le> x" "0 < base" "base \<le> maximum"
    and "0 \<le> streak_of d account"
  shows "\<exists>r. runtime_of (record_backoff jitter now account code base maximum d) account = Some r
    \<and> rt_failure_streak r = streak_of d account + 1
    \<and> (\<exists>t. rt_cooldown_until r = Some t \<and> unix_milli now \<le> t
         \<and> t \<le> unix_milli (now + min (base * 2 ^ nat (streak_of d account)) maximum))
    \<and> rt_quota_reset r = Option.bind (runtime_of d account) rt_quota_reset"
proof -
  let ?new = "\<lparr>rt_account_id = account, rt_failure_streak = 1, rt_cooldown_until = None,
             rt_quota_reset = None, rt_last_success = None, rt_last_error = Some (unix_milli now),
             rt_last_error_code = Some code, rt_updated = unix_milli now\<rparr>"
  let ?f = "\<lambda>r. r\<lparr>rt_failure_streak := rt_failure_streak r + 1, rt_last_error := Some (unix_milli now),
             rt_last_error_code := Some code, rt_updated := unix_milli now\<rparr>"
  let ?rows = "upsert (\<lambda>r. rt_account_id r = account) ?new ?f (runtimes d)"
  let ?row = "case runtime_of d account of None \<Rightarrow> ?new | Some r \<Rightarrow> ?f r"
  have row: "row_by rt_account_id account ?rows = Some ?row"
    by (subst row_by_upsert [where k = account]) (auto simp: runtime_of_def)
  have streak: "rt_failure_streak ?row = streak_of d account + 1"
    by (simp add: streak_of_def split: option.split)
  let ?limit = "backoff_limit (streak_of d account + 1) base maximum"
  have limit: "?limit = min (base * 2 ^ nat (streak_of d account)) maximum"
    using assms(3,4,5) by (simp add: backoff_limit_def backoff_cap_min)
  moreover have "0 \<le> ?limit" using assms(3,4) by (simp add: limit)
  ultimately have "now \<le> now + jitter ?limit \<and>
      now + jitter ?limit \<le> now + min (base * 2 ^ nat (streak_of d account)) maximum"
    using assms(2) by (metis add_left_mono add.right_neutral)
  then have "unix_milli now \<le> unix_milli (now + jitter ?limit) \<and>
      unix_milli (now + jitter ?limit) \<le> unix_milli (now + min (base * 2 ^ nat (streak_of d account)) maximum)"
    by (simp add: unix_milli_def zdiv_mono1)
  moreover have "rt_quota_reset ?row = Option.bind (runtime_of d account) rt_quota_reset"
    by (simp split: option.split)
  moreover have "runtime_of (record_backoff jitter now account code base maximum d) account =
      Some (?row\<lparr>rt_cooldown_until := Some (unix_milli (now + jitter ?limit)), rt_updated := unix_milli now\<rparr>)"
    using row_by_Some [OF row] streak
    by (simp add: record_backoff_def on_runtime_known [OF known] Let_def runtime_of_def [of "_ \<lparr>runtimes := _\<rparr>"] row_by_update row)
  ultimately show ?thesis using streak by simp
qed

lemma record_runtime_error_row:
  "account \<in> ac_id ` set (accounts d) \<Longrightarrow> runtime_of (record_runtime_error now account code cooldown quota d) account =
     Some (case runtime_of d account of
       None \<Rightarrow> \<lparr>rt_account_id = account, rt_failure_streak = 1, rt_cooldown_until = cooldown,
          rt_quota_reset = quota, rt_last_success = None, rt_last_error = Some now,
          rt_last_error_code = Some code, rt_updated = now\<rparr>
     | Some r \<Rightarrow> r\<lparr>rt_failure_streak := rt_failure_streak r + 1,
               rt_cooldown_until := coalesce cooldown (rt_cooldown_until r),
               rt_quota_reset := coalesce quota (rt_quota_reset r),
               rt_last_error := Some now, rt_last_error_code := Some code, rt_updated := now\<rparr>)"
  unfolding record_runtime_error_def runtime_of_def
  by (simp add: on_runtime_known row_by_upsert [where k = account])


lemma loads_row:
  assumes "loads c scan js ls" "l \<in> set ls"
  shows "\<exists>j \<in> set js. scan_route_candidate c scan j = Inr l"
proof -
  have "Inr l \<in> set (map (scan_route_candidate c scan) js)"
    using assms by (auto simp: loads_def)
  then show ?thesis by auto
qed

lemma route_query_rows:
  assumes "j \<in> set (route_query d model)"
  shows "\<exists>a. row_by ac_id (ac_id (j_account j)) (accounts d) = Some (j_account j)
    \<and> j_runtime j = runtime_of d (ac_id (j_account j))"
proof -
  from assms obtain r cand where "join_candidate d r cand = Some j"
    by (auto simp: route_query_def List.map_filter_def split: option.splits)
  then obtain a where "row_by ac_id (ca_account_id cand) (accounts d) = Some a" "j_account j = a"
      "j_runtime j = runtime_of d (ac_id a)"
    by (auto simp: join_candidate_def runtime_of_def Let_def split: option.splits)
  moreover from this row_by_Some have "ac_id a = ca_account_id cand" by metis
  ultimately show ?thesis by simp
qed

lemma scan_route_candidate_fields:
  "scan_route_candidate c scan j = Inr l \<Longrightarrow>
     account_internal (ld_candidate l) = ac_id (j_account j)
     \<and> ld_account_status l = ac_status (j_account j)
     \<and> ld_cooldown_until l = Option.bind (j_runtime j) rt_cooldown_until
     \<and> ld_quota_reset l = Option.bind (j_runtime j) rt_quota_reset"
  by (auto simp: scan_route_candidate_def Let_def candidate_of_def)

lemma eligible_active:
  assumes "loads c scan (route_rows d r) ls" "x \<in> set (eligible r now ls)"
  shows "\<exists>a. row_by ac_id (account_internal x) (accounts d) = Some a \<and> ac_status a = ''active''"
proof -
  from assms(2) obtain l where l: "l \<in> set ls" "x = ld_candidate l" "filter_reason l r now = []"
    by (auto simp: eligible_def)
  then obtain j where j: "j \<in> set (route_rows d r)" "scan_route_candidate c scan j = Inr l"
    using loads_row assms(1) by blast
  have "ld_account_status l = ''active''" using l(3) by (auto simp: filter_reason_def split: if_splits)
  with route_query_rows [OF j(1)] scan_route_candidate_fields [OF j(2)] l(2) show ?thesis by auto
qed

text \<open>
  An upstream that answers 401 or 403 takes its account out of service at once: after the
  failure is recorded no plan, for any model and at any time, chooses that account on that database,
  whatever its status was.
\<close>

theorem unauthorized_not_planned:
  assumes "f_status f = 401" "d' = record_failure jitter now cand f d"
    and "plan c scan d' later st r = (st', e, Inr l)" "\<forall>a. 0 \<le> in_flight st a"
  shows "account_internal (lease_candidate l) \<noteq> account_internal cand"
proof
  assume same: "account_internal (lease_candidate l) = account_internal cand"
  from plan_lease [OF assms(3,4)] obtain ls where "loads c scan (route_rows d' r) ls"
      "lease_candidate l \<in> set (eligible r later ls)" by (auto simp: choices_sound)
  then obtain a where a: "row_by ac_id (account_internal cand) (accounts d') = Some a"
      "ac_status a = ''active''"
    using eligible_active same by metis
  have "accounts d' = accounts (demote_account (unix_milli now) (account_internal cand) d)"
    using assms(1,2) by (simp add: record_failure_def Let_def record_runtime_error_def)
  with a row_by_Some [OF a(1)] show False
    by (auto simp: demote_account_def update_where_def)
qed

text \<open>
  A success ends the cooldown: afterwards no row of that account is filtered as cooling down,
  and its failure streak is zero.
\<close>

theorem success_ends_cooldown:
  assumes "loads c scan (route_rows (record_success now account d) r) ls" "l \<in> set ls"
    and "account_internal (ld_candidate l) = account"
  shows "filter_reason l r later \<noteq> ''account_cooldown'' \<and> streak_of (record_success now account d) account = 0"
proof -
  let ?d = "record_success now account d"
  obtain j where j: "j \<in> set (route_rows ?d r)" "scan_route_candidate c scan j = Inr l"
    using loads_row [OF assms(1,2)] by blast
  have a: "row_by ac_id (ac_id (j_account j)) (accounts ?d) = Some (j_account j)"
    using route_query_rows [OF j(1)] by simp
  have "accounts ?d = accounts d" by (simp add: record_success_def)
  then have known: "account \<in> ac_id ` set (accounts d)"
    using row_by_Some [OF a] scan_route_candidate_fields [OF j(2)] assms(3) by (metis image_eqI)
  have rt: "\<exists>q. runtime_of ?d account = Some q \<and> rt_cooldown_until q = None \<and> rt_failure_streak q = 0"
    unfolding runtime_of_def record_success_def
    by (simp add: on_runtime_known [OF known] row_by_upsert [where k = account] split: option.split)
  have "ld_cooldown_until l = None"
    using route_query_rows [OF j(1)] scan_route_candidate_fields [OF j(2)] assms(3) rt by auto
  then have "filter_reason l r later \<noteq> ''account_cooldown''"
    using cooldown_until by fastforce
  with rt show ?thesis by (auto simp: streak_of_def)
qed

subsection \<open>A concrete database\<close>

text \<open>Two accounts of one upstream serving one model; the second is the busier provider choice.\<close>

definition sample_set :: "string list \<Rightarrow> lexeme list" where
  "sample_set vs = lex (JObj [(''schema_version'', JNum ''1''), (''values'', JArr (map JStr vs))])"

definition sample_envelope :: string where
  "sample_envelope = envelope_version # ''01234567'' @ replicate 28 (CHR ''x'')"

definition sample_scan :: "string \<Rightarrow> lexeme list" where
  "sample_scan s = lex (JObj [(''schema_version'', JNum ''1''), (''api_key'', JStr ''sk'')])"

definition sample_account :: "int \<Rightarrow> account_row" where
  "sample_account i =
     \<lparr>ac_id = i, ac_public_id = ''sdr_acct'', ac_upstream_id = 1, ac_name = ''a'',
      ac_auth_kind = ''api_key'', ac_billing_kind = ''metered'',
      ac_credential_enc = Some sample_envelope, ac_credential_version = 1,
      ac_credential_expires = None, ac_proxy_id = None, ac_status = ''active'', ac_priority = 10,
      ac_max_concurrency = 2, ac_identity = [], ac_capability_version = None, ac_last_validated = None,
      ac_version = 1, ac_created = 0, ac_updated = 0\<rparr>"

definition sample_candidate :: "int \<Rightarrow> candidate_row" where
  "sample_candidate i =
     \<lparr>ca_id = i, ca_route_id = 1, ca_account_id = i, ca_upstream_model = ''up'', ca_enabled = True,
      ca_protocols = sample_set [''openai''], ca_capabilities = sample_set [''text''],
      ca_created = 0\<rparr>"

definition sample_db :: db where
  "sample_db =
     \<lparr>proxies = [],
      upstreams = [\<lparr>up_id = 1, up_public_id = ''sdr_up'', up_provider_id = ''openai'', up_name = ''u'',
        up_base_url = ''https://api.openai.com'', up_default_proxy = None, up_allow_private = False,
        up_enabled = True, up_version = 1, up_created = 0, up_updated = 0\<rparr>],
      accounts = [sample_account 1, sample_account 2],
      routes = [\<lparr>ro_id = 1, ro_public_id = ''sdr_route'', ro_public_model_id = ''gpt'',
        ro_description = [], ro_enabled = True, ro_confirmed = None, ro_version = 1, ro_created = 0,
        ro_updated = 0\<rparr>],
      candidates = [sample_candidate 1, sample_candidate 2], runtimes = []\<rparr>"

definition sample_request :: request where
  "sample_request = \<lparr>req_model = ''gpt'', req_protocol = ''openai'', req_capabilities = [''text'']\<rparr>"

abbreviation "sample_plan d now st \<equiv> plan tag_cipher sample_scan d now st sample_request"

lemma plan_grants:
  assumes "loads c scan (route_rows d r) ls" "\<forall>a. 0 \<le> in_flight st a" "\<forall>route. cursors st route = 0"
    and "map account_internal (choices st (eligible r now ls)) = a # as"
  shows "\<exists>st' e l. plan c scan d now st r = (st', e, Inr l) \<and> account_internal (lease_candidate l) = a"
proof -
  let ?E = "eligible r now ls" and ?s = "fold (scan_row r now) ls empty_scan"
  obtain x xs where x: "choices st ?E = x # xs" "account_internal x = a"
    using assms(4) by (auto simp: map_eq_Cons_conv)
  then have "x \<in> set (choices st ?E)" by simp
  then have "x \<in> set ?E" "has_capacity st x" by (simp_all add: choices_sound)
  then have cap: "filter (has_capacity st) ?E \<noteq> []" and "?E \<noteq> []" by (auto simp: filter_empty_conv)
  then have "ls \<noteq> []" by (auto simp: eligible_def)
  with select_candidate_eq [OF assms(2) cap, of "sc_route ?s" "sc_explanation ?s"] \<open>?E \<noteq> []\<close> x
  show ?thesis by (auto simp: plan_loaded [OF assms(1)] Let_def assms(3))
qed

definition sample_loaded :: "db \<Rightarrow> loaded list" where
  "sample_loaded d =
     map (\<lambda>j. case scan_route_candidate tag_cipher sample_scan j of Inr l \<Rightarrow> l)
       (route_rows d sample_request)"

lemma loads_sample:
  assumes "list_all (\<lambda>j. case scan_route_candidate tag_cipher sample_scan j of Inl _ \<Rightarrow> False | Inr _ \<Rightarrow> True)
    (route_rows d sample_request)"
  shows "loads tag_cipher sample_scan (route_rows d sample_request) (sample_loaded d)"
  using assms by (auto simp: loads_def sample_loaded_def list_all_iff split: sum.splits)

lemma sample_rows:
  "loads tag_cipher sample_scan (route_rows sample_db sample_request) (sample_loaded sample_db)"
  by (rule loads_sample) code_simp

definition busy_router :: router where
  "busy_router = new_router\<lparr>in_flight := (\<lambda>_. 0)(1 := 1)\<rparr>"

lemma sample_choices:
  "map account_internal (choices new_router (eligible sample_request 100 (sample_loaded sample_db))) = [1, 2]"
  "map account_internal (choices busy_router (eligible sample_request 100 (sample_loaded sample_db))) = [2]"
  by code_simp+

lemma routers_ok:
  "\<forall>a. 0 \<le> in_flight new_router a" "\<forall>a. 0 \<le> in_flight busy_router a"
  "\<forall>route. cursors new_router route = 0" "\<forall>route. cursors busy_router route = 0"
  by (simp_all add: new_router_def busy_router_def)

lemmas sample_plan_first = plan_grants [OF sample_rows routers_ok(1,3) sample_choices(1)]
lemmas sample_plan_busy = plan_grants [OF sample_rows routers_ok(2,4) sample_choices(2)]

theorem plan_selects_witness:
  "\<exists>st' e l. sample_plan sample_db 100 busy_router = (st', e, Inr l)
     \<and> account_internal (lease_candidate l) = 2 \<and> in_flight st' 2 = 1"
proof -
  obtain st' e l where p: "sample_plan sample_db 100 busy_router = (st', e, Inr l)"
      "account_internal (lease_candidate l) = 2"
    using sample_plan_busy by blast
  moreover have "in_flight st' 2 = 1"
    using plan_selects [OF p(1) routers_ok(2)] p(2) by (auto simp: busy_router_def)
  ultimately show ?thesis by blast
qed


definition limited_db :: db where
  "limited_db = record_runtime_error 50 2 ''quota_limited'' None (Some 900)
     (record_runtime_error 50 1 ''quota_limited'' None (Some 700) sample_db)"

lemma limited_rows:
  "loads tag_cipher sample_scan (route_rows limited_db sample_request) (sample_loaded limited_db)"
  by (rule loads_sample) code_simp

lemma limited_reasons:
  "map (\<lambda>l. (filter_reason l sample_request 100, ld_quota_reset l)) (sample_loaded limited_db) =
     [(''quota_limited'', Some 700), (''quota_limited'', Some 900)]"
  by code_simp

theorem plan_quota_wait_witness:
  "\<exists>e. sample_plan limited_db 100 new_router =
     (new_router, e, Inl (RouteError ''quota_limited'' (600 * millisecond)))"
proof -
  obtain a b where ab: "sample_loaded limited_db = [a, b]"
      "filter_reason a sample_request 100 = ''quota_limited''" "ld_quota_reset a = Some 700"
      "filter_reason b sample_request 100 = ''quota_limited''" "ld_quota_reset b = Some 900"
    using limited_reasons by (auto simp: map_eq_Cons_conv)
  from plan_quota_wait [OF limited_rows, where now = 100 and st = new_router] show ?thesis
    by (simp add: ab eligible_def reasons_def)
qed

theorem concurrency_limit_witness:
  "\<exists>st' e l. sample_plan sample_db 100 (sys_router initial_system) = (st', e, Inr l)
     \<and> int (open_leases \<lparr>sys_router = st', sys_leases = sys_leases initial_system @ [l]\<rparr>
         (account_internal (lease_candidate l))) \<le> max_concurrency (lease_candidate l)"
proof -
  obtain st' e l where p: "sample_plan sample_db 100 (sys_router initial_system) = (st', e, Inr l)"
    using sample_plan_first by (auto simp: initial_system_def)
  from concurrency_limit [OF lease_reachable.init p] p show ?thesis by blast
qed

theorem serve_fair_witness:
  "image_mset account_internal
     (mset (serve tag_cipher sample_scan sample_db 100 sample_request 2 new_router)) = {#1, 2#}"
proof -
  let ?C = "choices new_router (eligible sample_request 100 (sample_loaded sample_db))"
  have len: "length ?C = 2" using arg_cong [OF sample_choices(1), of length] by simp
  then obtain x where "x \<in> set ?C" by (metis length_greater_0_conv list.set_sel(1) zero_less_numeral)
  then have "\<exists>y \<in> set (eligible sample_request 100 (sample_loaded sample_db)). has_capacity new_router y"
    by (auto simp: choices_sound)
  with serve_fair [OF sample_rows, where st = new_router and now = 100] len
  have "mset (serve tag_cipher sample_scan sample_db 100 sample_request 2 new_router) = mset ?C"
    by (simp add: new_router_def)
  then have "image_mset account_internal
      (mset (serve tag_cipher sample_scan sample_db 100 sample_request 2 new_router)) =
      mset (map account_internal ?C)" by simp
  then show ?thesis by (simp only: sample_choices) simp
qed

definition sample_choice :: candidate where
  "sample_choice = ld_candidate (hd (sample_loaded sample_db))"

lemma sample_choice_account: "account_internal sample_choice = 1"
  by code_simp


definition unauthorized_db :: db where
  "unauthorized_db = record_failure (\<lambda>x. x) 0 sample_choice
     \<lparr>f_status = 401, f_code = ''reauth_required'', f_retry_after = 0, f_network = False\<rparr> sample_db"

lemma unauthorized_rows:
  "loads tag_cipher sample_scan (route_rows unauthorized_db sample_request) (sample_loaded unauthorized_db)"
  by (rule loads_sample) code_simp

lemma unauthorized_choices:
  "map account_internal (choices new_router (eligible sample_request 100 (sample_loaded unauthorized_db))) = [2]"
  by code_simp

theorem unauthorized_not_planned_witness:
  "\<exists>st' e l. sample_plan unauthorized_db 100 new_router = (st', e, Inr l)
     \<and> account_internal (lease_candidate l) \<noteq> account_internal sample_choice"
proof -
  obtain st' e l where p: "sample_plan unauthorized_db 100 new_router = (st', e, Inr l)"
    using plan_grants [OF unauthorized_rows routers_ok(1,3) unauthorized_choices] by blast
  have "account_internal (lease_candidate l) \<noteq> account_internal sample_choice"
    by (rule unauthorized_not_planned [OF _ unauthorized_db_def p]) (simp_all add: new_router_def)
  with p show ?thesis by blast
qed

theorem success_ends_cooldown_witness:
  "filter_reason (hd (sample_loaded (record_success 60 1 limited_db))) sample_request 100 \<noteq> ''account_cooldown''"
proof -
  let ?d = "record_success 60 1 limited_db"
  have ls: "loads tag_cipher sample_scan (route_rows ?d sample_request) (sample_loaded ?d)"
    by (rule loads_sample) code_simp
  have l: "map (account_internal \<circ> ld_candidate) (sample_loaded ?d) = [1, 2]" by code_simp
  then have "hd (sample_loaded ?d) \<in> set (sample_loaded ?d)"
      "account_internal (ld_candidate (hd (sample_loaded ?d))) = 1"
    by (auto simp: map_eq_Cons_conv)
  from success_ends_cooldown [OF ls this] show ?thesis by blast
qed

end
