(* ===== verification/Gateway_World.thy ===== *)
theory Gateway_World
  imports Gateway_Facts Routing_Facts
begin

text \<open>
  The gateway of \<open>app.go\<close>: \<open>Execute\<close> over the models of routing and of the usage writer
  on one database.  What lies outside the repository - the network, the client's connection, the
  clock, the credential manager - is the record \<open>externals\<close> of functions on a state of its own;
  the world keeps the history of the calls upstream.
\<close>

record 'n world =
  wd_db :: control_db
  wd_router :: router
  wd_writer :: writer
  wd_recorded :: "event list" \<comment> \<open>what was handed to \<open>Enqueue\<close>\<close>
  wd_calls :: "(candidate \<times> native_request \<times> int option) list"
  wd_net :: 'n

record 'n externals =
  x_cipher :: cipher
  x_scan :: "string \<Rightarrow> lexeme list"
  x_render :: "lexeme list \<Rightarrow> string"
  x_parse_time :: "string \<Rightarrow> nanos option"
  x_registry :: registry
  x_clock :: "'n \<Rightarrow> nanos"
  x_jitter :: "nanos \<Rightarrow> nanos"
  x_healthy :: "'n \<Rightarrow> bool"
  x_transport :: "candidate \<Rightarrow> native_request \<Rightarrow> adapter \<Rightarrow> 'n \<Rightarrow> 'n \<times> upstream_response option"
  x_credentials :: "(candidate \<Rightarrow> bool \<Rightarrow> control_db \<times> 'n
    \<Rightarrow> (control_db \<times> 'n) \<times> (credential_failure + candidate)) option"
  x_header :: "int \<Rightarrow> header \<Rightarrow> 'n \<Rightarrow> 'n"
  x_write :: "'n \<Rightarrow> string \<Rightarrow> 'n \<times> nat \<times> stream_failure option"
  x_flush :: "'n \<Rightarrow> 'n \<times> stream_failure option"
  x_canceled :: "'n \<Rightarrow> bool"

text \<open>The tables routing reads and writes are a part of the database.\<close>

definition on_routing :: "(db \<Rightarrow> db) \<Rightarrow> control_db \<Rightarrow> control_db" where
  "on_routing f s =
     (let d = f (db.truncate s) in s\<lparr>accounts := accounts d, runtimes := runtimes d\<rparr>)"

text \<open>\<open>Enqueue\<close> as one caller runs it: the check and then the send.\<close>

definition enqueue :: "control_db \<Rightarrow> bool \<Rightarrow> event \<Rightarrow> writer \<Rightarrow> writer" where
  "enqueue s healthy e w =
     (if w_closed w then w else send_event s e healthy (w\<lparr>w_checked := e # w_checked w\<rparr>))"

definition model_gateway :: "'n externals \<Rightarrow> 'n world gateway" where
  "model_gateway x =
     \<lparr>g_ready = True,
      g_plan = (\<lambda>r w.
        (case plan (x_cipher x) (x_scan x) (db.truncate (wd_db w)) (unix_milli (x_clock x (wd_net w)))
            (wd_router w) r of
           (st, why, p) \<Rightarrow> (w\<lparr>wd_router := st\<rparr>, why, p))),
      g_release = (\<lambda>l w. w\<lparr>wd_router := snd (release l (wd_router w))\<rparr>),
      g_success = (\<lambda>a w. w\<lparr>wd_db :=
        on_routing (record_success (unix_milli (x_clock x (wd_net w))) a) (wd_db w)\<rparr>),
      g_failure = (\<lambda>c f w. w\<lparr>wd_db :=
        on_routing (record_failure (x_jitter x) (x_clock x (wd_net w)) c f) (wd_db w)\<rparr>),
      g_registry = x_registry x,
      g_transport = (\<lambda>c native a w.
        (case x_transport x c native a (wd_net w) of
           (n, resp) \<Rightarrow>
             (w\<lparr>wd_net := n, wd_calls := wd_calls w @ [(c, native, map_option us_status resp)]\<rparr>, resp))),
      g_credentials = map_option (\<lambda>ensure c force w.
        (case ensure c force (wd_db w, wd_net w) of
           ((s, n), r) \<Rightarrow> (w\<lparr>wd_db := s, wd_net := n\<rparr>, r))) (x_credentials x),
      g_record = (\<lambda>e w. w\<lparr>wd_writer := enqueue (wd_db w) (x_healthy x (wd_net w)) e (wd_writer w),
        wd_recorded := wd_recorded w @ [e]\<rparr>),
      g_clock = (\<lambda>w. x_clock x (wd_net w)),
      g_header = (\<lambda>status h w. w\<lparr>wd_net := x_header x status h (wd_net w)\<rparr>),
      g_write = (\<lambda>w b. (case x_write x (wd_net w) b of (n, k, err) \<Rightarrow> (w\<lparr>wd_net := n\<rparr>, k, err))),
      g_flush = (\<lambda>w. (case x_flush x (wd_net w) of (n, err) \<Rightarrow> (w\<lparr>wd_net := n\<rparr>, err))),
      g_canceled = (\<lambda>w. x_canceled x (wd_net w)),
      g_scan = x_scan x, g_render = x_render x, g_parse_time = x_parse_time x\<rparr>"

lemma model_gateway_sel [simp]:
  "g_success (model_gateway x) = (\<lambda>a w. w\<lparr>wd_db :=
     on_routing (record_success (unix_milli (x_clock x (wd_net w))) a) (wd_db w)\<rparr>)"
  "g_failure (model_gateway x) = (\<lambda>c f w. w\<lparr>wd_db :=
     on_routing (record_failure (x_jitter x) (x_clock x (wd_net w)) c f) (wd_db w)\<rparr>)"
  "g_release (model_gateway x) = (\<lambda>l w. w\<lparr>wd_router := snd (release l (wd_router w))\<rparr>)"
  "g_record (model_gateway x) = (\<lambda>e w. w\<lparr>wd_writer :=
     enqueue (wd_db w) (x_healthy x (wd_net w)) e (wd_writer w), wd_recorded := wd_recorded w @ [e]\<rparr>)"
  "g_header (model_gateway x) = (\<lambda>status h w. w\<lparr>wd_net := x_header x status h (wd_net w)\<rparr>)"
  by (simp_all add: model_gateway_def)

lemma model_gateway_plan:
  "g_plan (model_gateway x) r w = (w', why, p) \<longleftrightarrow>
    (\<exists>st. plan (x_cipher x) (x_scan x) (db.truncate (wd_db w)) (unix_milli (x_clock x (wd_net w)))
        (wd_router w) r = (st, why, p) \<and> w' = w\<lparr>wd_router := st\<rparr>)"
  by (auto simp: model_gateway_def split: prod.splits)

text \<open>An observation of the router or of the writer is quiet: the other operations do not touch them.\<close>

lemma model_responding:
  assumes "\<And>w n d. obs (w\<lparr>wd_db := d, wd_net := n\<rparr>) = obs w"
  shows "responding (model_gateway x) obs"
proof -
  have keep: "obs (w\<lparr>wd_db := d\<rparr>) = obs w" "obs (w\<lparr>wd_net := n\<rparr>) = obs w" for w d n
    using assms [where w = w and d = d and n = "wd_net w"] assms [where w = w and d = "wd_db w" and n = n]
    by simp_all
  show ?thesis
    by unfold_locales (auto simp: model_gateway_def keep assms split: prod.splits)
qed

lemma model_quiet:
  assumes "\<And>w n d calls. obs (w\<lparr>wd_db := d, wd_net := n, wd_calls := calls\<rparr>) = obs w"
  shows "quiet (model_gateway x) obs"
proof -
  have keep: "obs (w\<lparr>wd_db := d\<rparr>) = obs w" "obs (w\<lparr>wd_net := n\<rparr>) = obs w"
    "obs (w\<lparr>wd_db := d, wd_net := n\<rparr>) = obs w" "obs (w\<lparr>wd_net := n, wd_calls := calls\<rparr>) = obs w"
    for w d n calls
    using assms [where w = w and d = d and n = "wd_net w" and calls = "wd_calls w"]
      assms [where w = w and d = "wd_db w" and n = n and calls = "wd_calls w"]
      assms [where w = w and d = d and n = n and calls = "wd_calls w"]
      assms [where w = w and d = "wd_db w" and n = n and calls = calls] by simp_all
  show ?thesis
    by unfold_locales (auto simp: model_gateway_def keep split: prod.splits)
qed

abbreviation in_flight_of :: "'n world \<Rightarrow> int \<Rightarrow> int" where
  "in_flight_of w \<equiv> in_flight (wd_router w)"

interpretation model_leases: lease_keeper "model_gateway x" in_flight_of for x :: "'n externals"
proof (intro lease_keeper.intro model_quiet lease_keeper_axioms.intro)
  fix w w' :: "'n world" and r why l e
  show "in_flight_of w' = in_flight_of w" if "g_plan (model_gateway x) r w = (w', why, Inl e)"
    using that plan_error_state by (fastforce simp: model_gateway_plan)
  show "in_flight_of w' = (in_flight_of w)(lease_account l := in_flight_of w (lease_account l) + 1) \<and> \<not> lease_done l"
    if "\<forall>a. 0 \<le> in_flight_of w a" "g_plan (model_gateway x) r w = (w', why, Inr l)"
    using that plan_lease by (fastforce simp: model_gateway_plan)
  show "in_flight_of (g_release (model_gateway x) l w) =
      (in_flight_of w)(lease_account l := in_flight_of w (lease_account l) - 1)"
    if "\<not> lease_done l" "0 < in_flight_of w (lease_account l)"
    using that by (simp add: release_def Let_def)
qed simp_all

interpretation model_log: log_keeper "model_gateway x" wd_recorded for x :: "'n externals"
  by (intro log_keeper.intro model_quiet log_keeper_axioms.intro)
    (simp_all add: model_gateway_def split: prod.splits)

interpretation model_calls: call_keeper "model_gateway x" wd_calls for x :: "'n externals"
  by (intro call_keeper.intro model_responding call_keeper_axioms.intro)
    (auto simp: model_gateway_def split: prod.splits)

subsection \<open>Properties\<close>

text \<open>A chat request over the routing tables of \<open>sample_db\<close>, with the status the upstream answers.\<close>

definition sample_externals :: "int \<Rightarrow> unit externals" where
  "sample_externals status =
     \<lparr>x_cipher = tag_cipher, x_scan = sample_scan, x_render = (\<lambda>_. []), x_parse_time = (\<lambda>_. None),
      x_registry = [(''openai'', openai_adapter)], x_clock = (\<lambda>_. 100000000), x_jitter = (\<lambda>n. n div 2),
      x_healthy = (\<lambda>_. True),
      x_transport = (\<lambda>c native a n.
        (n, Some \<lparr>us_status = status, us_header = [], us_body = [], us_error = None\<rparr>)),
      x_credentials = None, x_header = (\<lambda>_ _ n. n), x_write = (\<lambda>n b. (n, length b, None)),
      x_flush = (\<lambda>n. (n, None)), x_canceled = (\<lambda>_. False)\<rparr>"

definition sample_invocation :: invocation where
  "sample_invocation =
     \<lparr>inv_key_id = 5, inv_request = ''sdr_req'', inv_protocol = ''openai'', inv_endpoint = chat_completions,
      inv_model = [], inv_force_stream = False, inv_headers = [],
      inv_body = lex (JObj [(''model'', JStr ''gpt''),
        (''messages'', JArr [JObj [(''role'', JStr ''user''), (''content'', JStr ''hi'')]])]),
      inv_body_bytes = 60\<rparr>"

definition sample_world :: "unit world" where
  "sample_world =
     \<lparr>wd_db = db.extend sample_db (control_db.fields [] [] [] None []), wd_router = busy_router,
      wd_writer = new_writer [], wd_recorded = [], wd_calls = [], wd_net = ()\<rparr>"

abbreviation "sample_run status \<equiv> execute (model_gateway (sample_externals status)) sample_invocation sample_world"

text \<open>
  C22: A request gives back what it took.  Whatever the upstream, the network, the client and the
  credential manager do, and on every return of \<open>Execute\<close>, the number of requests in flight of
  every account is afterwards what it was before.
\<close>

theorem execute_returns_its_slot:
  assumes "execute (model_gateway x) call w = (w', r)" "\<forall>a. 0 \<le> in_flight_of w a"
  shows "in_flight_of w' = in_flight_of w"
  by (rule model_leases.execute_returns_lease [OF assms(2,1)])

theorem execute_returns_its_slot_witness:
  "in_flight_of (fst (sample_run 503)) 1 = 1 \<and> in_flight_of (fst (sample_run 503)) 2 = 0"
proof -
  have "\<forall>a. 0 \<le> in_flight_of sample_world a" by (simp add: sample_world_def busy_router_def)
  then show ?thesis
    using execute_returns_its_slot [of _ sample_invocation sample_world "fst (sample_run 503)", OF surjective_pairing]
    by (simp add: sample_world_def busy_router_def new_router_def)
qed



text \<open>
  C24: A request reaches the upstream at most twice.  The second call happens only with a credential
  manager, for an OAuth account whose first answer was 401, and sends the same native request.
\<close>

theorem execute_calls_upstream:
  assumes "execute (model_gateway x) call w = (w', r)"
  shows "\<exists>new. wd_calls w' = wd_calls w @ new \<and> length new \<le> 2
    \<and> (length new = 2 \<longrightarrow> x_credentials x \<noteq> None \<and> (\<exists>c c' native answer.
         new = [(c, native, Some 401), (c', native, answer)] \<and> auth_kind c = ''oauth''))"
proof -
  obtain new where "wd_calls w' = wd_calls w @ new" "calls_ok (model_gateway x) new"
    using model_calls.execute_calls [OF assms] by blast
  then show ?thesis by (auto simp: calls_ok_def model_gateway_def)
qed

theorem execute_calls_upstream_witness: "length (wd_calls (fst (sample_run 401))) \<le> 1"
proof -
  have "x_credentials (sample_externals 401) = None" by (simp add: sample_externals_def)
  then show ?thesis
    using execute_calls_upstream [of _ sample_invocation sample_world "fst (sample_run 401)", OF surjective_pairing]
    by (fastforce simp: sample_world_def)
qed

end
