(* ===== verification/Gateway_Invariants.thy ===== *)
theory Gateway_Invariants
  imports Gateway_World
begin

text \<open>
  \<open>Execute\<close> keeps what the operations it calls keep: \<open>preserving\<close> is the interface of a gateway
  whose planning, leases, feedback, credentials, recorder, network and client connection each
  preserve a predicate of the state.
\<close>

locale preserving =
  fixes g :: "'s gateway" and P :: "'s \<Rightarrow> bool"
  assumes plan_keeps: "g_plan g r s = (s', why, p) \<Longrightarrow> P s \<Longrightarrow> P s'"
    and release_keeps: "P s \<Longrightarrow> P (g_release g l s)"
    and success_keeps: "P s \<Longrightarrow> P (g_success g account s)"
    and failure_keeps: "P s \<Longrightarrow> P (g_failure g c f s)"
    and credentials_keeps: "g_credentials g = Some ensure \<Longrightarrow> ensure c force s = (s', r') \<Longrightarrow> P s \<Longrightarrow> P s'"
    and transport_keeps: "g_transport g c native a s = (s', resp) \<Longrightarrow> P s \<Longrightarrow> P s'"
    and record_keeps: "P s \<Longrightarrow> P (g_record g e s)"
    and header_keeps: "P s \<Longrightarrow> P (g_header g status h s)"
    and write_keeps: "g_write g s b = (s', n, err) \<Longrightarrow> P s \<Longrightarrow> P s'"
    and flush_keeps: "g_flush g s = (s', err') \<Longrightarrow> P s \<Longrightarrow> P s'"
begin

lemma tracked_write_keeps: "tracked_write g (s, first) b = ((s', first'), n, err) \<Longrightarrow> P s \<Longrightarrow> P s'"
  by (auto simp: tracked_write_def dest: write_keeps split: prod.splits)

lemma non_stream_keeps: "non_stream g resp c model ev s = (s', ev', r) \<Longrightarrow> P s \<Longrightarrow> P s'"
  by (auto simp: non_stream_def Let_def intro: success_keeps failure_keeps header_keeps dest!: tracked_write_keeps
      split: if_splits prod.splits sum.splits)

lemma copy_sse_keeps:
  assumes "copy_sse (stream_options g p model) (s, first) body e = (st, err)" "P s"
  shows "P (fst (sink st))"
proof -
  have "P (fst (fst (tracked_write g w b)))" if "P (fst w)" for w b
    using that tracked_write_keeps [of "fst w" "snd w" b] by (metis prod.collapse)
  moreover have "P (fst (fst (case g_flush g a of (s', x) \<Rightarrow> ((s', b), x))))" if "P a" for a and b :: "ms option"
    using flush_keeps [of a] that by (auto split: prod.splits)
  ultimately have "writer_keeps (\<lambda>w. P (fst w)) (stream_options g p model)"
    by (simp add: writer_keeps_def stream_options_def)
  from copy_loop_keeps [OF this, of "\<lparr>sink = (s, first), observed = [], copied = 0\<rparr>" e body "[]"] assms
  show ?thesis by (simp add: copy_sse_def)
qed

lemma stream_keeps: "stream g resp c model ev s = (s', ev', r) \<Longrightarrow> P s \<Longrightarrow> P s'"
  using copy_sse_keeps
  by (fastforce simp: stream_def Let_def intro: success_keeps failure_keeps header_keeps split: if_splits prod.splits)

lemma respond_keeps: "respond g streamed model c resp ev s = (s', ev', r) \<Longrightarrow> P s \<Longrightarrow> P s'"
  by (auto simp: respond_def upstream_error_def Let_def intro: failure_keeps stream_keeps non_stream_keeps
      split: if_splits prod.splits option.splits)

lemma ensure_credential_keeps: "ensure_credential g c s = (s', r) \<Longrightarrow> P s \<Longrightarrow> P s'"
  by (auto simp: ensure_credential_def intro: credentials_keeps split: option.splits)

lemma call_upstream_keeps: "call_upstream g c native a s = (s', r) \<Longrightarrow> P s \<Longrightarrow> P s'"
  by (auto simp: call_upstream_def intro: transport_keeps failure_keeps split: prod.splits option.splits)

lemma with_retry_keeps: "with_retry g c native a s = (s', r) \<Longrightarrow> P s \<Longrightarrow> P s'"
  by (auto simp: with_retry_def intro: failure_keeps dest!: call_upstream_keeps credentials_keeps
      split: option.splits sum.splits if_splits prod.splits)

lemma serve_lease_keeps: "serve_lease g call streamed c ev s = (s', ev', r) \<Longrightarrow> P s \<Longrightarrow> P s'"
  by (auto simp: serve_lease_def dest!: ensure_credential_keeps with_retry_keeps respond_keeps
      split: sum.splits option.splits if_splits prod.splits)

lemma attempt_keeps:
  assumes "attempt g call ev s = (s', ev', r)" "P s"
  shows "P s'"
  using assms(1)
proof (cases rule: attempt_cases)
  case (served req s1 why l call' streamed ev1 s2)
  then show ?thesis using assms(2) plan_keeps serve_lease_keeps release_keeps by metis
qed (use assms(2) plan_keeps in auto)

lemma execute_keeps: "execute g call s = (s', r) \<Longrightarrow> P s \<Longrightarrow> P s'"
  by (auto simp: execute_def intro: record_keeps attempt_keeps split: if_splits prod.splits)

end

end
