(* ===== verification/Resources.thy ===== *)
theory Resources
  imports Accounts HTTP_Text
begin

text \<open>
  Egress proxies and upstreams: \<open>internal/control/proxy.go\<close>, \<open>upstream.go\<close> and the checks of
  hosts and base URLs of \<open>validation.go\<close>.  \<open>net/url\<close> and \<open>net/netip\<close> are the arguments of
  \<open>net_text\<close>; letters are folded in ASCII.
\<close>

subsection \<open>Hosts and base URLs\<close>

record address =
  ad_text :: string
  ad_loopback :: bool
  ad_private :: bool
  ad_link_local_unicast :: bool
  ad_link_local_multicast :: bool
  ad_multicast :: bool
  ad_unspecified :: bool

record base_url_parts =
  bu_scheme :: string
  bu_host :: string
  bu_hostname :: string
  bu_user :: bool
  bu_query :: string
  bu_fragment :: string
  bu_path :: string
  bu_raw_path :: string

record net_text =
  nt_parse_url :: "string \<Rightarrow> base_url_parts option"
  nt_print_url :: "base_url_parts \<Rightarrow> string"
  nt_parse_addr :: "string \<Rightarrow> address option"

definition label_char :: "char \<Rightarrow> bool" where
  "label_char c \<longleftrightarrow> (CHR ''a'' \<le> c \<and> c \<le> CHR ''z'') \<or> (CHR ''A'' \<le> c \<and> c \<le> CHR ''Z'')
     \<or> (CHR ''0'' \<le> c \<and> c \<le> CHR ''9'') \<or> c = CHR ''-''"

definition label_ok :: "string \<Rightarrow> bool" where
  "label_ok l \<longleftrightarrow> l \<noteq> [] \<and> length l \<le> 63 \<and> hd l \<noteq> CHR ''-'' \<and> last l \<noteq> CHR ''-'' \<and> list_all label_char l"

definition host_breaks :: string where
  "host_breaks = ''/?#@[] '' @ [CHR 0x09, CHR 0x0D, CHR 0x0A]"

definition validate_host :: "net_text \<Rightarrow> string \<Rightarrow> string \<Rightarrow> control_error + string" where
  "validate_host net field v =
     (let v = trim_space (trim_suffix ''.'' v) in
      if v = [] \<or> 253 < length v \<or> contains_any v host_breaks
      then Inl (Validation field ''must be a DNS name or IP without scheme or port'')
      else
        (case nt_parse_addr net v of
           Some a \<Rightarrow> Inr (ad_text a)
         | None \<Rightarrow>
             if list_all label_ok (split_on (CHR ''.'') v) then Inr (to_lower v)
             else Inl (Validation field ''contains an invalid DNS label'')))"

definition is_private_host :: "net_text \<Rightarrow> string \<Rightarrow> bool" where
  "is_private_host net host \<longleftrightarrow>
     to_lower host = ''localhost'' \<or> has_suffix ''.localhost'' (to_lower host)
     \<or> (case nt_parse_addr net host of
          None \<Rightarrow> False
        | Some a \<Rightarrow> ad_loopback a \<or> ad_private a \<or> ad_link_local_unicast a \<or> ad_link_local_multicast a
            \<or> ad_multicast a \<or> ad_unspecified a)"

fun trim_right_slashes :: "string \<Rightarrow> string" where
  "trim_right_slashes s = rev (dropWhile (\<lambda>c. c = CHR ''/'') (rev s))"

definition has_dots :: "string \<Rightarrow> bool" where
  "has_dots s \<longleftrightarrow> list_ex (\<lambda>i. take 2 (drop i s) = ''..'') [0..<length s]"

definition normalize_base_url :: "net_text \<Rightarrow> string \<Rightarrow> bool \<Rightarrow> control_error + string" where
  "normalize_base_url net raw allow_private =
     (case nt_parse_url net (trim_space raw) of
        None \<Rightarrow> Inl (Validation ''base_url'' ''must be an HTTPS URL without userinfo, query, or fragment'')
      | Some u \<Rightarrow>
          if bu_scheme u \<noteq> ''https'' \<or> bu_host u = [] \<or> bu_user u \<or> bu_query u \<noteq> [] \<or> bu_fragment u \<noteq> []
          then Inl (Validation ''base_url'' ''must be an HTTPS URL without userinfo, query, or fragment'')
          else if bu_raw_path u \<noteq> [] \<or> has_dots (bu_path u)
          then Inl (Validation ''base_url'' ''contains an unsafe path'')
          else if bu_hostname u = [] then Inl (Validation ''base_url'' ''must include a host'')
          else if \<not> allow_private \<and> is_private_host net (bu_hostname u)
          then Inl (Validation ''base_url'' ''private or loopback hosts require allow_private_network'')
          else Inr (nt_print_url net (u\<lparr>bu_scheme := to_lower (bu_scheme u), bu_host := to_lower (bu_host u),
                 bu_path := trim_right_slashes (bu_path u)\<rparr>)))"

subsection \<open>Proxies\<close>

record proxy_info =
  pi_public :: string
  pi_name :: string
  pi_scheme :: string
  pi_host :: string
  pi_port :: int
  pi_username_set :: bool
  pi_password_set :: bool
  pi_tls_name :: string
  pi_insecure :: bool
  pi_enabled :: bool
  pi_version :: int
  pi_created :: ms
  pi_updated :: ms

record proxy_input =
  pin_name :: string
  pin_scheme :: string
  pin_host :: string
  pin_port :: int
  pin_username :: "string option"
  pin_password :: "string option"
  pin_tls_name :: string
  pin_insecure :: bool
  pin_enabled :: bool

text \<open>
  The last loop ranges over a Go map: which of two values that are too long it meets first is
  not determined, \<open>first\<close> is the order of this run.
\<close>

definition too_long :: "string option \<Rightarrow> bool" where
  "too_long v = (case v of None \<Rightarrow> False | Some s \<Rightarrow> 1024 < length s)"

definition check_secrets :: "bool \<Rightarrow> proxy_input \<Rightarrow> control_error + proxy_input" where
  "check_secrets first i =
     (let bad = filter (\<lambda>(field, v). too_long v) [(''username'', pin_username i), (''password'', pin_password i)] in
      case (if first then bad else rev bad) of
        [] \<Rightarrow> Inr i
      | (field, v) # _ \<Rightarrow> Inl (Validation field ''is too long''))"

definition validate_proxy_input :: "net_text \<Rightarrow> bool \<Rightarrow> proxy_input \<Rightarrow> control_error + proxy_input" where
  "validate_proxy_input net first i =
     and_then (clean_name ''name'' (pin_name i)) (\<lambda>name.
     if pin_scheme i \<notin> {''http'', ''https'', ''socks5''}
     then Inl (Validation ''scheme'' ''must be http, https, or socks5'')
     else
       and_then (validate_host net ''host'' (pin_host i)) (\<lambda>host.
       if pin_port i < 1 \<or> 65535 < pin_port i
       then Inl (Validation ''port'' ''must be between 1 and 65535'')
       else
         and_then (if pin_tls_name i = [] then Inr [] else validate_host net ''tls_server_name'' (pin_tls_name i))
           (\<lambda>tls. check_secrets first (i\<lparr>pin_name := name, pin_host := host, pin_tls_name := tls\<rparr>))))"

definition encrypt_optional ::
  "cipher \<Rightarrow> string option \<Rightarrow> string option \<Rightarrow> string \<Rightarrow> string \<Rightarrow> string \<Rightarrow> control_error + string option"
where
  "encrypt_optional c nonce v table pid column =
     (case v of
        None \<Rightarrow> Inr None
      | Some s \<Rightarrow>
          if s = [] then Inr None
          else (case seal c nonce s (aad table pid column) of
                  Inl _ \<Rightarrow> Inl (Failure ''seal'')
                | Inr env \<Rightarrow> Inr (Some env)))"

definition scan_proxy :: "proxy_row \<Rightarrow> proxy_info" where
  "scan_proxy r =
     \<lparr>pi_public = px_public_id r, pi_name = px_name r, pi_scheme = px_scheme r, pi_host = px_host r,
      pi_port = px_port r, pi_username_set = (px_username_enc r \<noteq> None),
      pi_password_set = (px_password_enc r \<noteq> None), pi_tls_name = sealed (px_tls_server_name r),
      pi_insecure = px_allow_insecure r, pi_enabled = px_enabled r, pi_version = px_version r,
      pi_created = px_created r, pi_updated = px_updated r\<rparr>"

definition get_proxy :: "string \<Rightarrow> 'x db_scheme \<Rightarrow> control_error + proxy_info" where
  "get_proxy pid s =
     (case row_by px_public_id pid (proxies s) of None \<Rightarrow> Inl NotFound | Some r \<Rightarrow> Inr (scan_proxy r))"

definition proxy_position :: "proxy_row \<Rightarrow> cursor" where
  "proxy_position r = (px_created r, px_id r)"

definition list_proxies :: "'x db_scheme \<Rightarrow> int \<Rightarrow> string \<Rightarrow> control_error + (proxy_info list \<times> string)" where
  "list_proxies s limit after =
     list_rows (Validation ''cursor'' ''is invalid'') (\<lambda>r. Inr (scan_proxy r)) proxy_position limit after (proxies s)"

text \<open>The constraint \<open>UNIQUE(name)\<close>.\<close>

definition proxy_name_taken :: "string \<Rightarrow> string \<Rightarrow> proxy_row list \<Rightarrow> bool" where
  "proxy_name_taken pid name rows = list_ex (\<lambda>r. px_public_id r \<noteq> pid \<and> px_name r = name) rows"

definition insert_proxy ::
  "string \<Rightarrow> proxy_input \<Rightarrow> string option \<Rightarrow> string option \<Rightarrow> ms \<Rightarrow> 'x db_scheme \<Rightarrow> control_error + 'x db_scheme"
where
  "insert_proxy pid i username password now s =
     (if pid \<in> px_public_id ` set (proxies s) \<or> proxy_name_taken pid (pin_name i) (proxies s) then Inl Conflict
      else Inr (s\<lparr>proxies := proxies s @
        [\<lparr>px_id = next_id px_id (proxies s), px_public_id = pid, px_name = pin_name i, px_scheme = pin_scheme i,
          px_host = pin_host i, px_port = pin_port i, px_username_enc = username, px_password_enc = password,
          px_tls_server_name = null_if_empty (pin_tls_name i), px_allow_insecure = pin_insecure i,
          px_enabled = pin_enabled i, px_version = 1, px_created = now, px_updated = now\<rparr>]\<rparr>))"

definition insecure_meta :: "proxy_input \<Rightarrow> (string \<times> meta) list" where
  "insecure_meta i = [(''allow_insecure_tls'', MetaFlag (pin_insecure i))]"

definition create_proxy ::
  "net_text \<Rightarrow> bool \<Rightarrow> cipher \<Rightarrow> string option \<Rightarrow> string option \<Rightarrow> environment \<Rightarrow> actor \<Rightarrow> proxy_input
    \<Rightarrow> 'x control_db_scheme \<Rightarrow> control_error + (proxy_info \<times> 'x control_db_scheme)"
where
  "create_proxy net first c nonce1 nonce2 env who i s =
     and_then (validate_proxy_input net first i) (\<lambda>i.
       case object_id ''proxy'' (env_object env) of
         None \<Rightarrow> Inl (Failure ''identifier'')
       | Some pid \<Rightarrow>
           and_then (encrypt_optional c nonce1 (pin_username i) ''egress_proxies'' pid ''username_enc'') (\<lambda>username.
           and_then (encrypt_optional c nonce2 (pin_password i) ''egress_proxies'' pid ''password_enc'') (\<lambda>password.
           and_then (insert_proxy pid i username password (unix_milli (env_clock env 0)) s) (\<lambda>s1.
           and_then (audit env (unix_milli (env_clock env 1)) who ''proxy.created'' ''proxy'' pid (insecure_meta i) s1)
             (\<lambda>t. and_then (get_proxy pid t) (\<lambda>item. Inr (item, t)))))))"

text \<open>
  The update reads the sealed values before its transaction (\<open>before\<close>), and keeps what the input
  does not give; a new value is sealed anew, an empty one removed.
\<close>

definition check_update_proxy ::
  "net_text \<Rightarrow> bool \<Rightarrow> cipher \<Rightarrow> string option \<Rightarrow> string option \<Rightarrow> string \<Rightarrow> proxy_input \<Rightarrow> 'x db_scheme
    \<Rightarrow> control_error + (proxy_input \<times> string option \<times> string option)"
where
  "check_update_proxy net first c nonce1 nonce2 pid i before =
     and_then (validate_proxy_input net first i) (\<lambda>i.
       case row_by px_public_id pid (proxies before) of
         None \<Rightarrow> Inl NotFound
       | Some old \<Rightarrow>
           and_then (if pin_username i = None then Inr (px_username_enc old)
             else encrypt_optional c nonce1 (pin_username i) ''egress_proxies'' pid ''username_enc'') (\<lambda>username.
           and_then (if pin_password i = None then Inr (px_password_enc old)
             else encrypt_optional c nonce2 (pin_password i) ''egress_proxies'' pid ''password_enc'') (\<lambda>password.
             Inr (i, username, password))))"

definition proxy_at :: "string \<Rightarrow> int \<Rightarrow> proxy_row \<Rightarrow> bool" where
  "proxy_at pid version r \<longleftrightarrow> px_public_id r = pid \<and> px_version r = version"

definition updated_proxy :: "proxy_input \<Rightarrow> string option \<Rightarrow> string option \<Rightarrow> ms \<Rightarrow> proxy_row \<Rightarrow> proxy_row" where
  "updated_proxy i username password now r =
     r\<lparr>px_name := pin_name i, px_scheme := pin_scheme i, px_host := pin_host i, px_port := pin_port i,
       px_username_enc := username, px_password_enc := password,
       px_tls_server_name := null_if_empty (pin_tls_name i), px_allow_insecure := pin_insecure i,
       px_enabled := pin_enabled i, px_version := px_version r + 1, px_updated := now\<rparr>"

definition write_proxies :: "(proxy_row \<Rightarrow> bool) \<Rightarrow> (proxy_row \<Rightarrow> proxy_row) \<Rightarrow> 'x db_scheme \<Rightarrow> 'x db_scheme" where
  "write_proxies p f s = s\<lparr>proxies := update_where p f (proxies s)\<rparr>"

definition update_proxy ::
  "net_text \<Rightarrow> bool \<Rightarrow> cipher \<Rightarrow> string option \<Rightarrow> string option \<Rightarrow> environment \<Rightarrow> actor \<Rightarrow> string \<Rightarrow> int
    \<Rightarrow> proxy_input \<Rightarrow> 'x control_db_scheme \<Rightarrow> 'x control_db_scheme
    \<Rightarrow> control_error + (proxy_info \<times> 'x control_db_scheme)"
where
  "update_proxy net first c nonce1 nonce2 env who pid version i before s =
     and_then (check_update_proxy net first c nonce1 nonce2 pid i before) (\<lambda>(i, username, password).
       if length (filter (proxy_at pid version) (proxies s)) \<noteq> 1
       then Inl (not_found_or_version px_public_id pid (proxies s))
       else if proxy_name_taken pid (pin_name i) (proxies s) then Inl Conflict
       else
         and_then (audit env (unix_milli (env_clock env 1)) who ''proxy.updated'' ''proxy'' pid (insecure_meta i)
             (write_proxies (proxy_at pid version)
               (updated_proxy i username password (unix_milli (env_clock env 0))) s)) (\<lambda>t.
         and_then (get_proxy pid t) (\<lambda>item. Inr (item, t))))"

text \<open>\<open>ON DELETE RESTRICT\<close>: an upstream or an account that uses the proxy keeps it.\<close>

definition proxy_referenced :: "'x db_scheme \<Rightarrow> proxy_row \<Rightarrow> bool" where
  "proxy_referenced s r \<longleftrightarrow>
     list_ex (\<lambda>u. up_default_proxy u = Some (px_id r)) (upstreams s)
     \<or> list_ex (\<lambda>a. ac_proxy_id a = Some (px_id r)) (accounts s)"

definition delete_proxy ::
  "environment \<Rightarrow> actor \<Rightarrow> string \<Rightarrow> int \<Rightarrow> 'x control_db_scheme \<Rightarrow> control_error + 'x control_db_scheme"
where
  "delete_proxy env who pid version s =
     (let gone = filter (proxy_at pid version) (proxies s) in
      if list_ex (proxy_referenced s) gone then Inl ResourceInUse
      else if length gone \<noteq> 1 then Inl (not_found_or_version px_public_id pid (proxies s))
      else
        audit env (unix_milli (env_clock env 0)) who ''proxy.deleted'' ''proxy'' pid []
          (s\<lparr>proxies := filter (\<lambda>r. \<not> proxy_at pid version r) (proxies s)\<rparr>))"

subsection \<open>Upstreams\<close>

record provider_info =
  pv_id :: string
  pv_name :: string
  pv_auth_methods :: "string list"
  pv_capabilities :: "string list"
  pv_status :: string

definition providers :: "provider_info list" where
  "providers =
     [\<lparr>pv_id = ''openai'', pv_name = ''OpenAI'', pv_auth_methods = [''api_key''],
       pv_capabilities = [''text'', ''stream''], pv_status = ''beta''\<rparr>,
      \<lparr>pv_id = ''anthropic'', pv_name = ''Anthropic'', pv_auth_methods = [''api_key''],
       pv_capabilities = [''text'', ''stream''], pv_status = ''beta''\<rparr>,
      \<lparr>pv_id = ''google'', pv_name = ''Google Gemini'', pv_auth_methods = [''api_key'', ''oauth_beta''],
       pv_capabilities = [''text'', ''stream''], pv_status = ''beta''\<rparr>,
      \<lparr>pv_id = ''xai'', pv_name = ''xAI'', pv_auth_methods = [''api_key''],
       pv_capabilities = [''text'', ''stream''], pv_status = ''beta''\<rparr>,
      \<lparr>pv_id = ''openai-compatible'', pv_name = ''OpenAI-compatible'', pv_auth_methods = [''api_key''],
       pv_capabilities = [], pv_status = ''planned''\<rparr>]"

definition provider_exists :: "string \<Rightarrow> bool" where
  "provider_exists p = list_ex (\<lambda>v. pv_id v = p) providers"

record upstream_info =
  ui_public :: string
  ui_provider :: string
  ui_name :: string
  ui_base_url :: string
  ui_proxy :: "string option"
  ui_private :: bool
  ui_enabled :: bool
  ui_version :: int
  ui_created :: ms
  ui_updated :: ms

record upstream_input =
  uin_provider :: string
  uin_name :: string
  uin_base_url :: string
  uin_proxy :: "string option"
  uin_private :: bool
  uin_enabled :: bool

definition scan_upstream :: "'x db_scheme \<Rightarrow> upstream_row \<Rightarrow> upstream_info" where
  "scan_upstream s r =
     \<lparr>ui_public = up_public_id r, ui_provider = up_provider_id r, ui_name = up_name r, ui_base_url = up_base_url r,
      ui_proxy = proxy_public_of s (up_default_proxy r), ui_private = up_allow_private r,
      ui_enabled = up_enabled r, ui_version = up_version r, ui_created = up_created r, ui_updated = up_updated r\<rparr>"

definition get_upstream :: "string \<Rightarrow> 'x db_scheme \<Rightarrow> control_error + upstream_info" where
  "get_upstream pid s =
     (case row_by up_public_id pid (upstreams s) of None \<Rightarrow> Inl NotFound | Some r \<Rightarrow> Inr (scan_upstream s r))"

definition upstream_position :: "upstream_row \<Rightarrow> cursor" where
  "upstream_position r = (up_created r, up_id r)"

definition list_upstreams :: "'x db_scheme \<Rightarrow> int \<Rightarrow> string \<Rightarrow> control_error + (upstream_info list \<times> string)" where
  "list_upstreams s limit after =
     list_rows (Validation ''cursor'' ''is invalid'') (\<lambda>r. Inr (scan_upstream s r)) upstream_position limit after
       (upstreams s)"

definition validate_upstream_input :: "net_text \<Rightarrow> string \<Rightarrow> upstream_input \<Rightarrow> control_error + upstream_input" where
  "validate_upstream_input net message i =
     and_then (clean_name ''name'' (uin_name i)) (\<lambda>name.
     if \<not> provider_exists (uin_provider i) then Inl (Validation ''provider_id'' message)
     else
       and_then (normalize_base_url net (uin_base_url i) (uin_private i)) (\<lambda>url.
         Inr (i\<lparr>uin_proxy := valid_optional_reference (uin_proxy i), uin_name := name, uin_base_url := url\<rparr>)))"

text \<open>The constraint \<open>UNIQUE(provider_id, name)\<close>.\<close>

definition upstream_name_taken :: "string \<Rightarrow> string \<Rightarrow> string \<Rightarrow> upstream_row list \<Rightarrow> bool" where
  "upstream_name_taken pid provider name rows =
     list_ex (\<lambda>r. up_public_id r \<noteq> pid \<and> up_provider_id r = provider \<and> up_name r = name) rows"

definition insert_upstream ::
  "string \<Rightarrow> upstream_input \<Rightarrow> int option \<Rightarrow> ms \<Rightarrow> 'x db_scheme \<Rightarrow> control_error + 'x db_scheme"
where
  "insert_upstream pid i proxy now s =
     (if pid \<in> up_public_id ` set (upstreams s)
         \<or> upstream_name_taken pid (uin_provider i) (uin_name i) (upstreams s) then Inl Conflict
      else Inr (s\<lparr>upstreams := upstreams s @
        [\<lparr>up_id = next_id up_id (upstreams s), up_public_id = pid, up_provider_id = uin_provider i,
          up_name = uin_name i, up_base_url = uin_base_url i, up_default_proxy = proxy,
          up_allow_private = uin_private i, up_enabled = uin_enabled i, up_version = 1, up_created = now,
          up_updated = now\<rparr>]\<rparr>))"

definition private_meta :: "upstream_input \<Rightarrow> (string \<times> meta) list" where
  "private_meta i = [(''allow_private_network'', MetaFlag (uin_private i))]"

definition create_upstream ::
  "net_text \<Rightarrow> environment \<Rightarrow> actor \<Rightarrow> upstream_input \<Rightarrow> 'x control_db_scheme
    \<Rightarrow> control_error + (upstream_info \<times> 'x control_db_scheme)"
where
  "create_upstream net env who i s =
     and_then (validate_upstream_input net ''is not a supported provider descriptor'' i) (\<lambda>i.
       case object_id ''up'' (env_object env) of
         None \<Rightarrow> Inl (Failure ''identifier'')
       | Some pid \<Rightarrow>
           and_then (optional_internal_id px_public_id px_id (uin_proxy i) (proxies s)) (\<lambda>proxy.
           and_then (insert_upstream pid i proxy (unix_milli (env_clock env 0)) s) (\<lambda>s1.
           and_then (audit env (unix_milli (env_clock env 1)) who ''upstream.created'' ''upstream'' pid
               (private_meta i) s1) (\<lambda>t.
           and_then (get_upstream pid t) (\<lambda>item. Inr (item, t))))))"

definition upstream_at :: "string \<Rightarrow> int \<Rightarrow> upstream_row \<Rightarrow> bool" where
  "upstream_at pid version r \<longleftrightarrow> up_public_id r = pid \<and> up_version r = version"

definition updated_upstream :: "upstream_input \<Rightarrow> int option \<Rightarrow> ms \<Rightarrow> upstream_row \<Rightarrow> upstream_row" where
  "updated_upstream i proxy now r =
     r\<lparr>up_name := uin_name i, up_base_url := uin_base_url i, up_default_proxy := proxy,
       up_allow_private := uin_private i, up_enabled := uin_enabled i, up_version := up_version r + 1,
       up_updated := now\<rparr>"

definition write_upstreams ::
  "(upstream_row \<Rightarrow> bool) \<Rightarrow> (upstream_row \<Rightarrow> upstream_row) \<Rightarrow> 'x db_scheme \<Rightarrow> 'x db_scheme"
where
  "write_upstreams p f s = s\<lparr>upstreams := update_where p f (upstreams s)\<rparr>"

definition update_upstream ::
  "net_text \<Rightarrow> environment \<Rightarrow> actor \<Rightarrow> string \<Rightarrow> int \<Rightarrow> upstream_input \<Rightarrow> 'x control_db_scheme
    \<Rightarrow> control_error + (upstream_info \<times> 'x control_db_scheme)"
where
  "update_upstream net env who pid version i s =
     and_then (validate_upstream_input net ''is not supported'' i) (\<lambda>i.
       case row_by up_public_id pid (upstreams s) of
         None \<Rightarrow> Inl NotFound
       | Some old \<Rightarrow>
           if uin_provider i \<noteq> up_provider_id old
           then Inl (Validation ''provider_id'' ''cannot be changed after upstream creation'')
           else
             and_then (optional_internal_id px_public_id px_id (uin_proxy i) (proxies s)) (\<lambda>proxy.
             if length (filter (upstream_at pid version) (upstreams s)) \<noteq> 1
             then Inl (not_found_or_version up_public_id pid (upstreams s))
             else if upstream_name_taken pid (uin_provider i) (uin_name i) (upstreams s) then Inl Conflict
             else
               and_then (audit env (unix_milli (env_clock env 1)) who ''upstream.updated'' ''upstream'' pid
                   (private_meta i)
                   (write_upstreams (upstream_at pid version)
                     (updated_upstream i proxy (unix_milli (env_clock env 0))) s)) (\<lambda>t.
               and_then (get_upstream pid t) (\<lambda>item. Inr (item, t)))))"

text \<open>An account or a request record (\<open>recorded\<close>) keeps the upstream it refers to.\<close>

definition upstream_referenced :: "(int \<Rightarrow> bool) \<Rightarrow> 'x db_scheme \<Rightarrow> upstream_row \<Rightarrow> bool" where
  "upstream_referenced recorded s r \<longleftrightarrow>
     recorded (up_id r) \<or> list_ex (\<lambda>a. ac_upstream_id a = up_id r) (accounts s)"

definition delete_upstream ::
  "(int \<Rightarrow> bool) \<Rightarrow> environment \<Rightarrow> actor \<Rightarrow> string \<Rightarrow> int \<Rightarrow> 'x control_db_scheme \<Rightarrow> control_error + 'x control_db_scheme"
where
  "delete_upstream recorded env who pid version s =
     (let gone = filter (upstream_at pid version) (upstreams s) in
      if list_ex (upstream_referenced recorded s) gone then Inl ResourceInUse
      else if length gone \<noteq> 1 then Inl (not_found_or_version up_public_id pid (upstreams s))
      else
        audit env (unix_milli (env_clock env 0)) who ''upstream.deleted'' ''upstream'' pid []
          (s\<lparr>upstreams := filter (\<lambda>r. \<not> upstream_at pid version r) (upstreams s)\<rparr>))"

end
