(* ===== verification/Model_Routes.thy ===== *)
theory Model_Routes
  imports Resources Routing
begin

text \<open>
  Model routes and their candidates: \<open>internal/control/route.go\<close>.  A route and its candidates
  are written in one transaction; an update replaces all candidates.
\<close>

subsection \<open>The input\<close>

record route_candidate =
  rc_account :: string
  rc_model :: string
  rc_enabled :: bool
  rc_protocols :: "string list"
  rc_capabilities :: "string list"

record route_input =
  rin_model :: string
  rin_description :: string
  rin_enabled :: bool
  rin_confirm :: bool
  rin_candidates :: "route_candidate list"

definition allowed_protocols :: "string list" where
  "allowed_protocols = [''openai'', ''anthropic'', ''gemini'', ''xai'']"

definition allowed_capabilities :: "string list" where
  "allowed_capabilities = [''text'', ''stream'', ''tools'', ''structured_output'', ''reasoning'', ''image_input'',
     ''document_input'']"

definition candidate_key :: "string \<Rightarrow> string \<Rightarrow> string" where
  "candidate_key account model = account @ CHR 0x00 # model"

definition validate_candidate :: "string list \<Rightarrow> route_candidate \<Rightarrow> control_error + route_candidate" where
  "validate_candidate seen c =
     (let account = trim_space (rc_account c); model = trim_space (rc_model c) in
      if account = [] \<or> model = [] \<or> 200 < length model
      then Inl (Validation ''candidates'' ''contains an invalid account or model'')
      else if candidate_key account model \<in> set seen
      then Inl (Validation ''candidates'' ''contains a duplicate candidate'')
      else
        (case normalize_string_set ''protocols'' (rc_protocols c) (Some allowed_protocols) of
           Inl _ \<Rightarrow> Inl (Validation ''protocols'' ''must contain at least one supported protocol'')
         | Inr protocols \<Rightarrow>
             if protocols = []
             then Inl (Validation ''protocols'' ''must contain at least one supported protocol'')
             else
               and_then (normalize_string_set ''capabilities'' (rc_capabilities c) (Some allowed_capabilities))
                 (\<lambda>capabilities.
                   Inr (c\<lparr>rc_account := account, rc_model := model, rc_protocols := protocols,
                          rc_capabilities := capabilities\<rparr>))))"

fun validate_candidates :: "string list \<Rightarrow> route_candidate list \<Rightarrow> control_error + route_candidate list" where
  "validate_candidates seen [] = Inr []"
| "validate_candidates seen (c # cs) =
     and_then (validate_candidate seen c) (\<lambda>c.
     and_then (validate_candidates (candidate_key (rc_account c) (rc_model c) # seen) cs) (\<lambda>cs. Inr (c # cs)))"

definition validate_route_input :: "route_input \<Rightarrow> control_error + route_input" where
  "validate_route_input i =
     (let model = trim_space (rin_model i); description = trim_space (rin_description i) in
      if model = [] \<or> 200 < length model \<or> contains_any model [CHR 0x0D, CHR 0x0A, CHR 0x00]
      then Inl (Validation ''public_model_id'' ''must contain 1-200 safe characters'')
      else if 500 < length description
      then Inl (Validation ''description'' ''must be at most 500 characters'')
      else if rin_candidates i = [] \<or> 100 < length (rin_candidates i)
      then Inl (Validation ''candidates'' ''must contain 1-100 candidates'')
      else if 1 < length (rin_candidates i) \<and> \<not> rin_confirm i
      then Inl (Validation ''confirm_multiple_candidates'' ''must be true for multiple candidates'')
      else
        and_then (validate_candidates [] (rin_candidates i)) (\<lambda>cs.
          Inr (i\<lparr>rin_model := model, rin_description := description, rin_candidates := cs\<rparr>)))"

definition provider_protocols :: "string \<Rightarrow> string list" where
  "provider_protocols provider =
     (if provider = ''openai'' then [''openai'']
      else if provider = ''anthropic'' then [''anthropic'']
      else if provider = ''google'' then [''gemini'']
      else if provider = ''xai'' then [''openai'', ''xai'']
      else if provider = ''openai-compatible'' then [''openai'']
      else [])"

definition protocols_match_provider :: "string \<Rightarrow> string list \<Rightarrow> bool" where
  "protocols_match_provider provider protocols \<longleftrightarrow>
     provider_protocols provider \<noteq> [] \<and> list_all (\<lambda>p. p \<in> set (provider_protocols provider)) protocols"

subsection \<open>Candidates\<close>

definition set_document :: "string list \<Rightarrow> json" where
  "set_document vs = JObj [(''schema_version'', JNum ''1''), (''values'', JArr (map JStr vs))]"

definition new_candidate :: "int \<Rightarrow> int \<Rightarrow> int \<Rightarrow> route_candidate \<Rightarrow> ms \<Rightarrow> candidate_row" where
  "new_candidate cid route account c now =
     \<lparr>ca_id = cid, ca_route_id = route, ca_account_id = account, ca_upstream_model = rc_model c,
      ca_enabled = rc_enabled c, ca_protocols = lex (set_document (rc_protocols c)),
      ca_capabilities = lex (set_document (rc_capabilities c)), ca_created = now\<rparr>"

text \<open>The constraint \<open>UNIQUE(model_route_id, account_id, upstream_model_id)\<close>.\<close>

definition candidate_taken :: "int \<Rightarrow> int \<Rightarrow> string \<Rightarrow> candidate_row list \<Rightarrow> bool" where
  "candidate_taken route account model rows =
     list_ex (\<lambda>r. ca_route_id r = route \<and> ca_account_id r = account \<and> ca_upstream_model r = model) rows"

definition find_account :: "'x db_scheme \<Rightarrow> string \<Rightarrow> (account_row \<times> upstream_row) option" where
  "find_account s pid =
     Option.bind (row_by ac_public_id pid (accounts s)) (\<lambda>a.
       map_option (Pair a) (row_by up_id (ac_upstream_id a) (upstreams s)))"

definition insert_candidate ::
  "int \<Rightarrow> ms \<Rightarrow> route_candidate \<Rightarrow> 'x db_scheme \<Rightarrow> control_error + 'x db_scheme"
where
  "insert_candidate route now c s =
     (case find_account s (rc_account c) of
        None \<Rightarrow> Inl NotFound
      | Some (a, u) \<Rightarrow>
          if \<not> protocols_match_provider (up_provider_id u) (rc_protocols c)
          then Inl (Validation ''protocols'' ''does not match the candidate account provider'')
          else if candidate_taken route (ac_id a) (rc_model c) (candidates s) then Inl Conflict
          else Inr (s\<lparr>candidates := candidates s @
                 [new_candidate (next_id ca_id (candidates s)) route (ac_id a) c now]\<rparr>))"

fun insert_candidates ::
  "int \<Rightarrow> ms \<Rightarrow> route_candidate list \<Rightarrow> 'x db_scheme \<Rightarrow> control_error + 'x db_scheme"
where
  "insert_candidates route now [] s = Inr s"
| "insert_candidates route now (c # cs) s = and_then (insert_candidate route now c s) (insert_candidates route now cs)"

definition drop_candidates :: "int \<Rightarrow> 'x db_scheme \<Rightarrow> 'x db_scheme" where
  "drop_candidates route s = s\<lparr>candidates := filter (\<lambda>r. ca_route_id r \<noteq> route) (candidates s)\<rparr>"

subsection \<open>Reading routes\<close>

record route_info =
  ro_info_public :: string
  ro_info_model :: string
  ro_info_description :: string
  ro_info_enabled :: bool
  ro_info_confirmed :: bool
  ro_info_candidates :: "route_candidate list"
  ro_info_version :: int
  ro_info_created :: ms
  ro_info_updated :: ms

text \<open>The values of a stored set; its schema version is not looked at here.\<close>

definition decode_values :: "lexeme list \<Rightarrow> control_error + string list" where
  "decode_values body =
     (case unmarshal body of
        Some (JObj ms) \<Rightarrow>
          (case field_or [] to_strings ms ''values'' of None \<Rightarrow> Inl (Failure ''values'') | Some vs \<Rightarrow> Inr vs)
      | Some JNull \<Rightarrow> Inr []
      | _ \<Rightarrow> Inl (Failure ''values''))"

definition scan_candidate :: "account_row \<Rightarrow> candidate_row \<Rightarrow> control_error + route_candidate" where
  "scan_candidate a r =
     and_then (decode_values (ca_protocols r)) (\<lambda>protocols.
     and_then (decode_values (ca_capabilities r)) (\<lambda>capabilities.
       Inr \<lparr>rc_account = ac_public_id a, rc_model = ca_upstream_model r, rc_enabled = ca_enabled r,
            rc_protocols = protocols, rc_capabilities = capabilities\<rparr>))"

fun scan_candidates :: "'x db_scheme \<Rightarrow> candidate_row list \<Rightarrow> control_error + route_candidate list" where
  "scan_candidates s [] = Inr []"
| "scan_candidates s (r # rs) =
     (case row_by ac_id (ca_account_id r) (accounts s) of
        None \<Rightarrow> scan_candidates s rs
      | Some a \<Rightarrow>
          and_then (scan_candidate a r) (\<lambda>c. and_then (scan_candidates s rs) (\<lambda>cs. Inr (c # cs))))"

definition load_candidates :: "'x db_scheme \<Rightarrow> string \<Rightarrow> control_error + route_candidate list" where
  "load_candidates s pid =
     (case row_by ro_public_id pid (routes s) of
        None \<Rightarrow> Inr []
      | Some r \<Rightarrow> scan_candidates s (sort_key ca_id (filter (\<lambda>c. ca_route_id c = ro_id r) (candidates s))))"

definition scan_route :: "'x db_scheme \<Rightarrow> route_row \<Rightarrow> control_error + route_info" where
  "scan_route s r =
     and_then (load_candidates s (ro_public_id r)) (\<lambda>cs.
       Inr \<lparr>ro_info_public = ro_public_id r, ro_info_model = ro_public_model_id r,
            ro_info_description = ro_description r, ro_info_enabled = ro_enabled r,
            ro_info_confirmed = (ro_confirmed r \<noteq> None), ro_info_candidates = cs, ro_info_version = ro_version r,
            ro_info_created = ro_created r, ro_info_updated = ro_updated r\<rparr>)"

definition get_model_route :: "string \<Rightarrow> 'x db_scheme \<Rightarrow> control_error + route_info" where
  "get_model_route pid s =
     (case row_by ro_public_id pid (routes s) of None \<Rightarrow> Inl NotFound | Some r \<Rightarrow> scan_route s r)"

definition route_position :: "route_row \<Rightarrow> cursor" where
  "route_position r = (ro_created r, ro_id r)"

text \<open>The page is cut before the candidates are loaded: the row beyond the limit is not read further.\<close>

fun scan_routes :: "'x db_scheme \<Rightarrow> route_row list \<Rightarrow> control_error + route_info list" where
  "scan_routes s [] = Inr []"
| "scan_routes s (r # rs) =
     and_then (scan_route s r) (\<lambda>i. and_then (scan_routes s rs) (\<lambda>items. Inr (i # items)))"

definition list_model_routes :: "'x db_scheme \<Rightarrow> int \<Rightarrow> string \<Rightarrow> control_error + (route_info list \<times> string)" where
  "list_model_routes s limit start =
     (case decode_cursor start of
        None \<Rightarrow> Inl (Validation ''cursor'' ''is invalid'')
      | Some c \<Rightarrow>
          let limit = normalize_limit limit; found = select_page route_position c (limit + 1) (routes s) in
          and_then (scan_routes s (take limit found)) (\<lambda>items.
            Inr (items, if limit < length found then encode_cursor (route_position (found ! (limit - 1))) else [])))"

subsection \<open>Writing routes\<close>

text \<open>The constraint \<open>UNIQUE(public_model_id)\<close>.\<close>

definition model_taken :: "string \<Rightarrow> string \<Rightarrow> route_row list \<Rightarrow> bool" where
  "model_taken pid model rows = list_ex (\<lambda>r. ro_public_id r \<noteq> pid \<and> ro_public_model_id r = model) rows"

definition confirmed_at :: "route_input \<Rightarrow> ms \<Rightarrow> ms option" where
  "confirmed_at i now = (if 1 < length (rin_candidates i) then Some now else None)"

definition insert_route :: "string \<Rightarrow> route_input \<Rightarrow> ms \<Rightarrow> 'x db_scheme \<Rightarrow> control_error + (int \<times> 'x db_scheme)" where
  "insert_route pid i now s =
     (if pid \<in> ro_public_id ` set (routes s) \<or> model_taken pid (rin_model i) (routes s) then Inl Conflict
      else
        let rid = next_id ro_id (routes s) in
        Inr (rid, s\<lparr>routes := routes s @
          [\<lparr>ro_id = rid, ro_public_id = pid, ro_public_model_id = rin_model i, ro_description = rin_description i,
            ro_enabled = rin_enabled i, ro_confirmed = confirmed_at i now, ro_version = 1, ro_created = now,
            ro_updated = now\<rparr>]\<rparr>))"

definition count_meta :: "route_input \<Rightarrow> (string \<times> meta) list" where
  "count_meta i = [(''candidate_count'', MetaInt (int (length (rin_candidates i))))]"

definition create_model_route ::
  "environment \<Rightarrow> actor \<Rightarrow> route_input \<Rightarrow> 'x control_db_scheme \<Rightarrow> control_error + (route_info \<times> 'x control_db_scheme)"
where
  "create_model_route env who i s =
     and_then (validate_route_input i) (\<lambda>i.
       case object_id ''route'' (env_object env) of
         None \<Rightarrow> Inl (Failure ''identifier'')
       | Some pid \<Rightarrow>
           let now = unix_milli (env_clock env 0) in
           and_then (insert_route pid i now s) (\<lambda>(rid, s1).
           and_then (insert_candidates rid now (rin_candidates i) s1) (\<lambda>s2.
           and_then (audit env (unix_milli (env_clock env 1)) who ''model_route.created'' ''model_route'' pid
               (count_meta i) s2) (\<lambda>t.
           and_then (get_model_route pid t) (\<lambda>item. Inr (item, t))))))"

definition route_at :: "string \<Rightarrow> int \<Rightarrow> route_row \<Rightarrow> bool" where
  "route_at pid version r \<longleftrightarrow> ro_public_id r = pid \<and> ro_version r = version"

definition updated_route :: "route_input \<Rightarrow> ms \<Rightarrow> route_row \<Rightarrow> route_row" where
  "updated_route i now r =
     r\<lparr>ro_public_model_id := rin_model i, ro_description := rin_description i, ro_enabled := rin_enabled i,
       ro_confirmed := confirmed_at i now, ro_version := ro_version r + 1, ro_updated := now\<rparr>"

definition write_routes :: "(route_row \<Rightarrow> bool) \<Rightarrow> (route_row \<Rightarrow> route_row) \<Rightarrow> 'x db_scheme \<Rightarrow> 'x db_scheme" where
  "write_routes p f s = s\<lparr>routes := update_where p f (routes s)\<rparr>"

definition update_model_route ::
  "environment \<Rightarrow> actor \<Rightarrow> string \<Rightarrow> int \<Rightarrow> route_input \<Rightarrow> 'x control_db_scheme
    \<Rightarrow> control_error + (route_info \<times> 'x control_db_scheme)"
where
  "update_model_route env who pid version i s =
     and_then (validate_route_input i) (\<lambda>i.
       let now = unix_milli (env_clock env 0) in
       if length (filter (route_at pid version) (routes s)) \<noteq> 1
       then Inl (not_found_or_version ro_public_id pid (routes s))
       else if model_taken pid (rin_model i) (routes s) then Inl Conflict
       else
         and_then (lookup_id ro_public_id ro_id pid (routes s)) (\<lambda>rid.
         and_then (insert_candidates rid now (rin_candidates i)
             (drop_candidates rid (write_routes (route_at pid version) (updated_route i now) s))) (\<lambda>s2.
         and_then (audit env (unix_milli (env_clock env 1)) who ''model_route.updated'' ''model_route'' pid
             (count_meta i) s2) (\<lambda>t.
         and_then (get_model_route pid t) (\<lambda>item. Inr (item, t))))))"

definition delete_model_route ::
  "environment \<Rightarrow> actor \<Rightarrow> string \<Rightarrow> int \<Rightarrow> 'x control_db_scheme \<Rightarrow> control_error + 'x control_db_scheme"
where
  "delete_model_route env who pid version s =
     (case row_by ro_public_id pid (routes s) of
        None \<Rightarrow> Inl NotFound
      | Some r \<Rightarrow>
          if ro_version r \<noteq> version then Inl VersionConflict
          else
            audit env (unix_milli (env_clock env 0)) who ''model_route.deleted'' ''model_route'' pid []
              ((drop_candidates (ro_id r) s)\<lparr>routes := filter (\<lambda>x. ro_id x \<noteq> ro_id r) (routes s)\<rparr>))"

end
