(* ===== verification/Resource_Versions.thy ===== *)
theory Resource_Versions
  imports Model_Routes Account_Lifecycle Client_Keys
begin

text \<open>
  What the operations on proxies, upstreams and routes leave in the tables, and the optimistic
  versions of every resource the administrator writes: one interpretation of the contract
  \<open>versioned\<close> for the five kinds together.
\<close>

subsection \<open>What the operations leave\<close>

lemma create_proxy_Inr:
  assumes "create_proxy net first c n1 n2 env who i s = Inr (item, t)"
  obtains r where "audit_only (s\<lparr>proxies := proxies s @ [r]\<rparr>) t" "px_version r = 1"
    "px_public_id r \<notin> px_public_id ` set (proxies s)" "px_id r \<notin> px_id ` set (proxies s)"
proof -
  from assms obtain j pid username password now s1 where
    ins: "insert_proxy pid j username password now s = Inr s1" and aud: "audit_only s1 t"
    by (auto simp: create_proxy_def audit_outcome_Inr split: option.splits)
  from ins next_id_notin [of px_id "proxies s"] obtain r where "s1 = s\<lparr>proxies := proxies s @ [r]\<rparr>"
      "px_version r = 1" "px_public_id r \<notin> px_public_id ` set (proxies s)" "px_id r \<notin> px_id ` set (proxies s)"
    by (auto simp: insert_proxy_def split: if_splits)
  with aud show thesis by (intro that) simp_all
qed

lemma update_proxy_Inr:
  assumes "update_proxy net first c n1 n2 env who pid version i before s = Inr (item, t)"
  obtains j username password now where
    "audit_only (write_proxies (proxy_at pid version) (updated_proxy j username password now) s) t"
    "\<exists>r \<in> set (proxies s). proxy_at pid version r"
  using assms filter_one_ex [of "proxy_at pid version" "proxies s"]
  by (auto simp: update_proxy_def dest!: audit_outcome_Inr split: if_splits prod.splits)

lemma delete_proxy_Inr:
  assumes "delete_proxy env who pid version s = Inr t"
  shows "audit_only (s\<lparr>proxies := filter (\<lambda>r. \<not> proxy_at pid version r) (proxies s)\<rparr>) t"
    "\<exists>r \<in> set (proxies s). proxy_at pid version r"
    "\<And>r. r \<in> set (proxies s) \<Longrightarrow> proxy_at pid version r \<Longrightarrow> \<not> proxy_referenced s r"
  using assms filter_one_ex [of "proxy_at pid version" "proxies s"]
  by (auto simp: delete_proxy_def Let_def list_ex_iff audit_outcome_Inr split: if_splits)

lemma create_upstream_Inr:
  assumes "create_upstream net env who i s = Inr (item, t)"
  obtains r p where "audit_only (s\<lparr>upstreams := upstreams s @ [r]\<rparr>) t" "up_version r = 1"
    "up_public_id r \<notin> up_public_id ` set (upstreams s)" "up_id r \<notin> up_id ` set (upstreams s)"
    "optional_internal_id px_public_id px_id p (proxies s) = Inr (up_default_proxy r)"
proof -
  from assms obtain j pid proxy now s1 where
    found: "optional_internal_id px_public_id px_id (uin_proxy j) (proxies s) = Inr proxy"
    and ins: "insert_upstream pid j proxy now s = Inr s1" and aud: "audit_only s1 t"
    by (auto simp: create_upstream_def audit_outcome_Inr split: option.splits)
  from ins next_id_notin [of up_id "upstreams s"] obtain r where "s1 = s\<lparr>upstreams := upstreams s @ [r]\<rparr>"
      "up_version r = 1" "up_public_id r \<notin> up_public_id ` set (upstreams s)" "up_id r \<notin> up_id ` set (upstreams s)"
      "up_default_proxy r = proxy"
    by (auto simp: insert_upstream_def split: if_splits)
  with aud found show thesis by (intro that [of r "uin_proxy j"]) simp_all
qed

lemma update_upstream_Inr:
  assumes "update_upstream net env who pid version i s = Inr (item, t)"
  obtains j proxy now p where
    "audit_only (write_upstreams (upstream_at pid version) (updated_upstream j proxy now) s) t"
    "\<exists>r \<in> set (upstreams s). upstream_at pid version r"
    "optional_internal_id px_public_id px_id p (proxies s) = Inr proxy"
  using assms filter_one_ex [of "upstream_at pid version" "upstreams s"]
  by (auto simp: update_upstream_def dest!: audit_outcome_Inr split: if_splits option.splits)

lemma delete_upstream_Inr:
  assumes "delete_upstream recorded env who pid version s = Inr t"
  shows "audit_only (s\<lparr>upstreams := filter (\<lambda>r. \<not> upstream_at pid version r) (upstreams s)\<rparr>) t"
    "\<exists>r \<in> set (upstreams s). upstream_at pid version r"
    "\<And>r. r \<in> set (upstreams s) \<Longrightarrow> upstream_at pid version r \<Longrightarrow> \<not> upstream_referenced recorded s r"
  using assms filter_one_ex [of "upstream_at pid version" "upstreams s"]
  by (auto simp: delete_upstream_def Let_def list_ex_iff audit_outcome_Inr split: if_splits)

text \<open>Candidates are appended one by one; each belongs to the route and to an account of the table.\<close>

lemma insert_candidates_Inr:
  assumes "insert_candidates rid now cs s = Inr t"
  shows "\<exists>new. t = s\<lparr>candidates := candidates s @ new\<rparr>
    \<and> (\<forall>r \<in> set new. ca_route_id r = rid \<and> ca_account_id r \<in> ac_id ` set (accounts s))"
  using assms
proof (induction cs arbitrary: s)
  case (Cons c cs)
  from Cons.prems obtain s1 where s1: "insert_candidate rid now c s = Inr s1" "insert_candidates rid now cs s1 = Inr t"
    by auto
  from s1(1) obtain a u x where "find_account s (rc_account c) = Some (a, u)" and x: "x = new_candidate
        (next_id ca_id (candidates s)) rid (ac_id a) c now" "s1 = s\<lparr>candidates := candidates s @ [x]\<rparr>"
    by (auto simp: insert_candidate_def split: option.splits if_splits)
  then have "a \<in> set (accounts s)" by (auto simp: find_account_def bind_eq_Some_conv dest: row_by_Some)
  then have "ca_route_id x = rid" "ca_account_id x \<in> ac_id ` set (accounts s)"
    using x(1) by (simp_all add: new_candidate_def)
  moreover from Cons.IH [OF s1(2)] x(2) obtain new where "t = s\<lparr>candidates := candidates s @ x # new\<rparr>"
      "\<forall>r \<in> set new. ca_route_id r = rid \<and> ca_account_id r \<in> ac_id ` set (accounts s)"
    by auto
  ultimately show ?case by (intro exI [of _ "x # new"]) simp
qed (auto intro: exI [of _ "[]"])

lemma create_route_Inr:
  assumes "create_model_route env who i s = Inr (item, t)"
  obtains r new where "audit_only (s\<lparr>routes := routes s @ [r], candidates := candidates s @ new\<rparr>) t" "ro_version r = 1"
    "ro_public_id r \<notin> ro_public_id ` set (routes s)" "ro_id r \<notin> ro_id ` set (routes s)"
    "\<forall>x \<in> set new. ca_route_id x = ro_id r \<and> ca_account_id x \<in> ac_id ` set (accounts s)"
proof -
  from assms obtain j pid now rid s1 s2 where
    ins: "insert_route pid j now s = Inr (rid, s1)" and cs: "insert_candidates rid now (rin_candidates j) s1 = Inr s2"
    and aud: "audit_only s2 t"
    by (auto simp: create_model_route_def Let_def audit_outcome_Inr split: option.splits)
  from ins next_id_notin [of ro_id "routes s"] obtain r where r: "s1 = s\<lparr>routes := routes s @ [r]\<rparr>" "ro_id r = rid"
      "ro_version r = 1" "ro_public_id r \<notin> ro_public_id ` set (routes s)" "ro_id r \<notin> ro_id ` set (routes s)"
    by (auto simp: insert_route_def Let_def split: if_splits)
  with insert_candidates_Inr [OF cs] aud show thesis by (auto intro: that)
qed

lemma update_route_Inr:
  assumes "update_model_route env who pid version i s = Inr (item, t)"
  obtains j now rid new where
    "audit_only ((write_routes (route_at pid version) (updated_route j now) s)
       \<lparr>candidates := filter (\<lambda>r. ca_route_id r \<noteq> rid) (candidates s) @ new\<rparr>) t"
    "\<exists>r \<in> set (routes s). route_at pid version r" "rid \<in> ro_id ` set (routes s)"
    "\<forall>x \<in> set new. ca_route_id x = rid \<and> ca_account_id x \<in> ac_id ` set (accounts s)"
proof -
  from assms obtain j now rid s2 where one: "length (filter (route_at pid version) (routes s)) = 1"
    and rid: "lookup_id ro_public_id ro_id pid (routes s) = Inr rid"
    and cs: "insert_candidates rid now (rin_candidates j)
      (drop_candidates rid (write_routes (route_at pid version) (updated_route j now) s)) = Inr s2"
    and aud: "audit_only s2 t"
    by (auto simp: update_model_route_def Let_def audit_outcome_Inr split: if_splits)
  have "rid \<in> ro_id ` set (routes s)" using rid by (auto simp: lookup_id_def split: option.splits dest: row_by_Some)
  with insert_candidates_Inr [OF cs] aud filter_one_ex [OF one] show thesis
    by (auto simp: drop_candidates_def write_routes_def intro: that)
qed

lemma delete_route_Inr:
  assumes "delete_model_route env who pid version s = Inr t"
  obtains r where "audit_only (s\<lparr>candidates := filter (\<lambda>x. ca_route_id x \<noteq> ro_id r) (candidates s),
      routes := filter (\<lambda>x. ro_id x \<noteq> ro_id r) (routes s)\<rparr>) t"
    "row_by ro_public_id pid (routes s) = Some r" "ro_version r = version"
  using assms
  by (auto simp: delete_model_route_def drop_candidates_def dest!: audit_outcome_Inr split: option.splits if_splits)

subsection \<open>Versions\<close>

text \<open>
  A write of one resource at an expected version: the row with that name and version is rewritten
  one version up, or deleted.
\<close>

definition versioned_write ::
  "('r \<Rightarrow> string) \<Rightarrow> ('r \<Rightarrow> int) \<Rightarrow> string \<Rightarrow> int \<Rightarrow> 'r list \<Rightarrow> 'r list \<Rightarrow> bool"
where
  "versioned_write key ver pid version rows rows' \<longleftrightarrow>
     (\<exists>p. (\<exists>r \<in> set rows. p r) \<and> (\<forall>r \<in> set rows. p r \<longrightarrow> key r = pid \<and> ver r = version)
        \<and> (rows' = filter (\<lambda>r. \<not> p r) rows
             \<or> (\<exists>f. rows' = update_where p f rows \<and> (\<forall>r. key (f r) = key r \<and> ver (f r) = ver r + 1))))"

definition row_version :: "('r \<Rightarrow> string) \<Rightarrow> ('r \<Rightarrow> int) \<Rightarrow> 'r list \<Rightarrow> string \<Rightarrow> int option" where
  "row_version key ver rows pid = map_option ver (row_by key pid rows)"

lemma versioned_writeI:
  assumes "\<exists>r \<in> set rows. p r" "\<And>r. p r \<Longrightarrow> key r = pid \<and> ver r = version"
    and "\<And>r. key (f r) = key r \<and> ver (f r) = ver r + 1"
  shows "versioned_write key ver pid version rows (update_where p f rows)"
  using assms unfolding versioned_write_def by blast

lemma versioned_deleteI:
  assumes "\<exists>r \<in> set rows. p r" "\<And>r. r \<in> set rows \<Longrightarrow> p r \<Longrightarrow> key r = pid \<and> ver r = version"
  shows "versioned_write key ver pid version rows (filter (\<lambda>r. \<not> p r) rows)"
  using assms unfolding versioned_write_def by blast

lemma row_by_filter:
  assumes "distinct (map key rows)"
  shows "row_by key k (filter q rows) = (case row_by key k rows of None \<Rightarrow> None | Some r \<Rightarrow> if q r then Some r else None)"
  using assms
proof (induction rows)
  case (Cons a rows)
  then have "row_by key (key a) rows = None" by (simp add: row_by_None)
  with Cons show ?case by (auto split: option.split)
qed simp

lemma versioned_write_versions:
  assumes keys: "distinct (map key rows)" and w: "versioned_write key ver pid version rows rows'"
  shows "row_version key ver rows pid = Some version" (is ?checks)
    and "row_version key ver rows' pid = Some (version + 1) \<or> row_version key ver rows' pid = None" (is ?bumps)
    and "pid' \<noteq> pid \<Longrightarrow> row_version key ver rows' pid' = row_version key ver rows pid'"
    and "distinct (map key rows')"
proof -
  from w obtain p r where r: "r \<in> set rows" "p r" and p: "\<And>r. r \<in> set rows \<Longrightarrow> p r \<Longrightarrow> key r = pid \<and> ver r = version"
    and cases: "rows' = filter (\<lambda>r. \<not> p r) rows
      \<or> (\<exists>f. rows' = update_where p f rows \<and> (\<forall>r. key (f r) = key r \<and> ver (f r) = ver r + 1))"
    unfolding versioned_write_def by (elim exE conjE bexE) simp
  have row: "row_by key pid rows = Some r" using row_by_unique [OF keys r(1)] p [OF r] by simp
  then show ?checks using p [OF r] by (simp add: row_version_def)
  have other: "\<not> p q" if "row_by key pid' rows = Some q" "pid' \<noteq> pid" for q pid'
    using p [of q] row_by_Some [OF that(1)] that(2) by auto
  have "?bumps \<and> (pid' \<noteq> pid \<longrightarrow> row_version key ver rows' pid' = row_version key ver rows pid')
      \<and> distinct (map key rows')"
    using cases
  proof (elim disjE exE conjE)
    assume rows': "rows' = filter (\<lambda>r. \<not> p r) rows"
    have "distinct (map key rows')" using keys by (simp add: rows' distinct_map_filter)
    moreover have "row_version key ver rows' pid = None"
      using row r(2) by (simp add: row_version_def rows' row_by_filter [OF keys])
    moreover have "row_version key ver rows' pid' = row_version key ver rows pid'" if "pid' \<noteq> pid"
      using other [OF _ that] by (auto simp: row_version_def rows' row_by_filter [OF keys] split: option.split)
    ultimately show ?thesis by blast
  next
    fix f assume rows': "rows' = update_where p f rows" and f: "\<forall>r. key (f r) = key r \<and> ver (f r) = ver r + 1"
    have step: "row_by key k rows' = map_option (\<lambda>r. if p r then f r else r) (row_by key k rows)" for k
      unfolding rows' by (rule row_by_update) (simp add: f)
    have "distinct (map key rows')" using keys by (simp add: rows' update_where_keys f)
    moreover have "row_version key ver rows' pid = Some (version + 1)"
      using row r p [OF r] f by (simp add: row_version_def step)
    moreover have "row_version key ver rows' pid' = row_version key ver rows pid'" if "pid' \<noteq> pid"
      using other [OF _ that] by (cases "row_by key pid' rows") (simp_all add: row_version_def step)
    ultimately show ?thesis by blast
  qed
  then show ?bumps "pid' \<noteq> pid \<Longrightarrow> row_version key ver rows' pid' = row_version key ver rows pid'"
    "distinct (map key rows')" by simp_all
qed

subsection \<open>The writes of the administrator\<close>

datatype resource = ProxyResource | UpstreamResource | AccountResource | RouteResource | KeyResource

text \<open>
  A request with its parameters; \<open>before\<close> is the snapshot an update reads before its transaction.
\<close>

datatype 'x admin_write =
    PutProxy net_text bool cipher "string option" "string option" proxy_input "'x control_db_scheme"
  | DropProxy
  | PutUpstream net_text upstream_input
  | DropUpstream "int \<Rightarrow> bool"
  | PutAccount cipher "lexeme list \<Rightarrow> string" "string option" account_input "'x control_db_scheme"
  | DropAccount "int \<Rightarrow> bool"
  | BeginValidation
  | FinishValidation "account_validation option" string
  | PutRoute route_input
  | DropRoute
  | PutKey key_write

fun write_kind :: "'x admin_write \<Rightarrow> resource" where
  "write_kind (PutProxy _ _ _ _ _ _ _) = ProxyResource"
| "write_kind DropProxy = ProxyResource"
| "write_kind (PutUpstream _ _) = UpstreamResource"
| "write_kind (DropUpstream _) = UpstreamResource"
| "write_kind (PutAccount _ _ _ _ _) = AccountResource"
| "write_kind (DropAccount _) = AccountResource"
| "write_kind BeginValidation = AccountResource"
| "write_kind (FinishValidation _ _) = AccountResource"
| "write_kind (PutRoute _) = RouteResource"
| "write_kind DropRoute = RouteResource"
| "write_kind (PutKey _) = KeyResource"

definition tables_of :: "control_error + ('i \<times> 's) \<Rightarrow> control_error + 's" where
  "tables_of r = map_sum id snd r"

lemma tables_of_Inr [simp]: "tables_of r = Inr t \<longleftrightarrow> (\<exists>item. r = Inr (item, t))"
  by (cases r) (auto simp: tables_of_def)

fun run_write ::
  "environment \<Rightarrow> actor \<Rightarrow> string \<Rightarrow> int \<Rightarrow> 'x admin_write \<Rightarrow> 'x control_db_scheme \<Rightarrow> control_error + 'x control_db_scheme"
where
  "run_write env who pid v (PutProxy net first c n1 n2 i before) s =
     tables_of (update_proxy net first c n1 n2 env who pid v i before s)"
| "run_write env who pid v DropProxy s = delete_proxy env who pid v s"
| "run_write env who pid v (PutUpstream net i) s = tables_of (update_upstream net env who pid v i s)"
| "run_write env who pid v (DropUpstream recorded) s = delete_upstream recorded env who pid v s"
| "run_write env who pid v (PutAccount c render nonce i before) s =
     tables_of (update_account c render nonce env who pid v i before s)"
| "run_write env who pid v (DropAccount recorded) s = delete_account recorded env who pid v s"
| "run_write env who pid v BeginValidation s = tables_of (begin_account_validation env who pid v s)"
| "run_write env who pid v (FinishValidation r code) s =
     tables_of (finish_account_validation env who pid v r code s)"
| "run_write env who pid v (PutRoute i) s = tables_of (update_model_route env who pid v i s)"
| "run_write env who pid v DropRoute s = delete_model_route env who pid v s"
| "run_write env who pid v (PutKey w) s = write_key s pid v (env, who, w)"

text \<open>A request addresses the kind of resource its path names.\<close>

definition put_resource ::
  "'x control_db_scheme \<Rightarrow> resource \<times> string \<Rightarrow> int \<Rightarrow> environment \<times> actor \<times> 'x admin_write
    \<Rightarrow> control_error + 'x control_db_scheme"
where
  "put_resource s = (\<lambda>(kind, pid) version (env, who, w).
     if write_kind w \<noteq> kind then Inl NotFound else run_write env who pid version w s)"

fun version_in :: "'x control_db_scheme \<Rightarrow> resource \<Rightarrow> string \<Rightarrow> int option" where
  "version_in s ProxyResource = row_version px_public_id px_version (proxies s)"
| "version_in s UpstreamResource = row_version up_public_id up_version (upstreams s)"
| "version_in s AccountResource = row_version ac_public_id ac_version (accounts s)"
| "version_in s RouteResource = row_version ro_public_id ro_version (routes s)"
| "version_in s KeyResource = row_version ck_public_id ck_version (client_keys s)"

definition resource_version :: "'x control_db_scheme \<Rightarrow> resource \<times> string \<Rightarrow> int option" where
  "resource_version s = (\<lambda>(kind, pid). version_in s kind pid)"

definition names_unique :: "'x control_db_scheme \<Rightarrow> bool" where
  "names_unique s \<longleftrightarrow> distinct (map px_public_id (proxies s)) \<and> distinct (map up_public_id (upstreams s))
     \<and> distinct (map ac_public_id (accounts s)) \<and> distinct (map ro_public_id (routes s))
     \<and> distinct (map ck_public_id (client_keys s)) \<and> distinct (map ro_id (routes s))"

text \<open>What a write leaves: its own table written at the version, the others as they were.\<close>

fun written :: "resource \<Rightarrow> string \<Rightarrow> int \<Rightarrow> 'x control_db_scheme \<Rightarrow> 'x control_db_scheme \<Rightarrow> bool" where
  "written ProxyResource pid v s t \<longleftrightarrow> versioned_write px_public_id px_version pid v (proxies s) (proxies t)
     \<and> upstreams t = upstreams s \<and> accounts t = accounts s \<and> routes t = routes s \<and> client_keys t = client_keys s"
| "written UpstreamResource pid v s t \<longleftrightarrow> versioned_write up_public_id up_version pid v (upstreams s) (upstreams t)
     \<and> proxies t = proxies s \<and> accounts t = accounts s \<and> routes t = routes s \<and> client_keys t = client_keys s"
| "written AccountResource pid v s t \<longleftrightarrow> versioned_write ac_public_id ac_version pid v (accounts s) (accounts t)
     \<and> proxies t = proxies s \<and> upstreams t = upstreams s \<and> routes t = routes s \<and> client_keys t = client_keys s"
| "written RouteResource pid v s t \<longleftrightarrow> versioned_write ro_public_id ro_version pid v (routes s) (routes t)
     \<and> (distinct (map ro_id (routes s)) \<longrightarrow> distinct (map ro_id (routes t)))
     \<and> proxies t = proxies s \<and> upstreams t = upstreams s \<and> accounts t = accounts s \<and> client_keys t = client_keys s"
| "written KeyResource pid v s t \<longleftrightarrow> versioned_write ck_public_id ck_version pid v (client_keys s) (client_keys t)
     \<and> proxies t = proxies s \<and> upstreams t = upstreams s \<and> accounts t = accounts s \<and> routes t = routes s"

lemma written_proxy:
  assumes "audit_only (s\<lparr>proxies := rows\<rparr>) t" "versioned_write px_public_id px_version pid v (proxies s) rows"
  shows "written ProxyResource pid v s t"
  using audit_only_tables [OF assms(1)] assms(2) by simp

lemma written_upstream:
  assumes "audit_only (s\<lparr>upstreams := rows\<rparr>) t" "versioned_write up_public_id up_version pid v (upstreams s) rows"
  shows "written UpstreamResource pid v s t"
  using audit_only_tables [OF assms(1)] assms(2) by simp

lemma update_proxy_written:
  assumes "update_proxy net first c n1 n2 env who pid v i before s = Inr (item, t)"
  shows "written ProxyResource pid v s t"
proof -
  from assms obtain j username password now where
      aud: "audit_only (write_proxies (proxy_at pid v) (updated_proxy j username password now) s) t"
    and ex: "\<exists>r \<in> set (proxies s). proxy_at pid v r"
    by (rule update_proxy_Inr)
  show ?thesis
    by (rule written_proxy [OF aud [unfolded write_proxies_def]], rule versioned_writeI [OF ex])
      (simp_all add: proxy_at_def updated_proxy_def)
qed

lemma delete_proxy_written:
  assumes "delete_proxy env who pid v s = Inr t"
  shows "written ProxyResource pid v s t"
  by (rule written_proxy [OF delete_proxy_Inr(1) [OF assms]], rule versioned_deleteI [OF delete_proxy_Inr(2) [OF assms]])
    (simp add: proxy_at_def)

lemma update_upstream_written:
  assumes "update_upstream net env who pid v i s = Inr (item, t)"
  shows "written UpstreamResource pid v s t"
proof -
  from assms obtain j proxy now where
      aud: "audit_only (write_upstreams (upstream_at pid v) (updated_upstream j proxy now) s) t"
    and ex: "\<exists>r \<in> set (upstreams s). upstream_at pid v r"
    by (rule update_upstream_Inr)
  show ?thesis
    by (rule written_upstream [OF aud [unfolded write_upstreams_def]], rule versioned_writeI [OF ex])
      (simp_all add: upstream_at_def updated_upstream_def)
qed

lemma delete_upstream_written:
  assumes "delete_upstream recorded env who pid v s = Inr t"
  shows "written UpstreamResource pid v s t"
  by (rule written_upstream [OF delete_upstream_Inr(1) [OF assms]],
      rule versioned_deleteI [OF delete_upstream_Inr(2) [OF assms]])
    (simp add: upstream_at_def)

lemma update_route_written:
  assumes "update_model_route env who pid v i s = Inr (item, t)"
  shows "written RouteResource pid v s t"
proof -
  from assms obtain j now rid new where
      aud: "audit_only ((write_routes (route_at pid v) (updated_route j now) s)
        \<lparr>candidates := filter (\<lambda>r. ca_route_id r \<noteq> rid) (candidates s) @ new\<rparr>) t"
    and ex: "\<exists>r \<in> set (routes s). route_at pid v r"
    by (rule update_route_Inr)
  have "versioned_write ro_public_id ro_version pid v (routes s) (update_where (route_at pid v) (updated_route j now) (routes s))"
    by (rule versioned_writeI [OF ex]) (simp_all add: route_at_def updated_route_def)
  moreover have "map ro_id (update_where (route_at pid v) (updated_route j now) (routes s)) = map ro_id (routes s)"
    by (rule update_where_keys) (simp add: updated_route_def)
  ultimately show ?thesis using audit_only_tables [OF aud] by (simp add: write_routes_def)
qed

lemma delete_route_written:
  assumes "delete_model_route env who pid v s = Inr t" "distinct (map ro_id (routes s))"
  shows "written RouteResource pid v s t"
proof -
  from assms(1) obtain r where
      aud: "audit_only (s\<lparr>candidates := filter (\<lambda>x. ca_route_id x \<noteq> ro_id r) (candidates s),
        routes := filter (\<lambda>x. ro_id x \<noteq> ro_id r) (routes s)\<rparr>) t"
    and r: "row_by ro_public_id pid (routes s) = Some r" "ro_version r = v"
    by (rule delete_route_Inr)
  have "versioned_write ro_public_id ro_version pid v (routes s) (filter (\<lambda>x. ro_id x \<noteq> ro_id r) (routes s))"
  proof (rule versioned_deleteI)
    show "\<exists>x \<in> set (routes s). ro_id x = ro_id r" using row_by_Some [OF r(1)] by blast
    show "ro_public_id x = pid \<and> ro_version x = v" if "x \<in> set (routes s)" "ro_id x = ro_id r" for x
      using that assms(2) row_by_Some [OF r(1)] r(2) by (metis distinct_map inj_onD)
  qed
  then show ?thesis using audit_only_tables [OF aud] by (simp add: distinct_map_filter)
qed

lemma written_account:
  assumes "versioned_write ac_public_id ac_version pid v (accounts s) (accounts t)"
    and "proxies t = proxies s" "upstreams t = upstreams s" "routes t = routes s" "client_keys t = client_keys s"
  shows "written AccountResource pid v s t"
  using assms by simp

lemma write_accounts_written:
  assumes "audit_only u t" "accounts u = update_where p f (accounts s)"
    and "proxies u = proxies s" "upstreams u = upstreams s" "routes u = routes s" "client_keys u = client_keys s"
    and "\<exists>r \<in> set (accounts s). p r" "\<And>r. p r \<Longrightarrow> at_version pid v r"
    and "\<And>r. ac_public_id (f r) = ac_public_id r \<and> ac_version (f r) = ac_version r + 1"
  shows "written AccountResource pid v s t"
proof (rule written_account)
  show "versioned_write ac_public_id ac_version pid v (accounts s) (accounts t)"
    unfolding audit_only_tables(2) [OF assms(1)] assms(2)
    by (rule versioned_writeI [OF assms(7)]) (use assms(8,9) in \<open>auto simp: at_version_def\<close>)
qed (use audit_only_tables [OF assms(1)] assms(3-6) in simp_all)

lemma update_account_written:
  assumes "update_account c render nonce env who pid v i before s = Inr (item, t)"
  shows "written AccountResource pid v s t"
proof -
  from assms obtain j cred where "commit_update_account env who pid v j cred s = Inr (item, t)"
    by (auto simp: update_account_def)
  then obtain upstream proxy where
      aud: "audit_only (write_accounts (at_version pid v) (updated_account j upstream proxy cred (unix_milli (env_clock env 1))) s) t"
    and ex: "\<exists>r \<in> set (accounts s). at_version pid v r"
    by (rule commit_update_account_Inr)
  show ?thesis
    by (rule write_accounts_written [OF aud, of "at_version pid v" "updated_account j upstream proxy cred (unix_milli (env_clock env 1))"])
      (use ex in \<open>simp_all add: write_accounts_def updated_account_def\<close>)
qed

lemma delete_account_written:
  assumes "delete_account recorded env who pid v s = Inr t"
  shows "written AccountResource pid v s t"
proof -
  have aud: "audit_only (drop_accounts (at_version pid v) s) t" using delete_account_Inr [OF assms] by blast
  have "\<exists>r \<in> set (accounts s). at_version pid v r"
    using assms filter_one_ex [of "at_version pid v" "accounts s"]
    by (auto simp: delete_account_def Let_def split: if_splits)
  then have "versioned_write ac_public_id ac_version pid v (accounts s) (filter (\<lambda>r. \<not> at_version pid v r) (accounts s))"
    by (rule versioned_deleteI) (simp add: at_version_def)
  then show ?thesis using audit_only_tables [OF aud] by (simp add: drop_accounts_def Let_def)
qed

lemma begin_validation_written:
  assumes "begin_account_validation env who pid v s = Inr (item, t)"
  shows "written AccountResource pid v s t"
proof -
  let ?f = "\<lambda>r. r\<lparr>ac_status := ''validating'', ac_version := ac_version r + 1, ac_updated := unix_milli (env_clock env 0)\<rparr>"
  let ?p = "\<lambda>r. at_version pid v r \<and> ac_status r \<noteq> ''validating''"
  from assms filter_one_ex [of ?p "accounts s"] have aud: "audit_only (write_accounts ?p ?f s) t"
    and ex: "\<exists>r \<in> set (accounts s). ?p r"
    by (auto simp: begin_account_validation_def Let_def dest!: audit_outcome_Inr split: if_splits)
  show ?thesis
    by (rule write_accounts_written [OF aud, of ?p ?f]) (use ex in \<open>simp_all add: write_accounts_def\<close>)
qed

lemma finish_validation_written:
  assumes "finish_account_validation env who pid v r code s = Inr (item, t)"
  shows "written AccountResource pid v s t"
proof -
  from assms obtain identity capability models where
      "commit_validation env who pid v identity capability models code s = Inr (item, t)"
    by (auto simp: finish_account_validation_def split: option.splits if_splits)
  moreover define now where "now = unix_milli (env_clock env 0)"
  moreover define s1 where "s1 = write_accounts (finishable pid v (models \<noteq> None))
    (finished_account (models \<noteq> None) identity capability now) s"
  moreover define s2 where "s2 = (if models \<noteq> None
    then clear_runtime (internal_id pid s1) now (replace_models (internal_id pid s1) now (case models of None \<Rightarrow> [] | Some ms \<Rightarrow> ms) s1)
    else s1)"
  ultimately have aud: "audit_only s2 t" and ex: "\<exists>r \<in> set (accounts s). finishable pid v (models \<noteq> None) r"
    using filter_one_ex [of "finishable pid v (models \<noteq> None)" "accounts s"]
    by (auto simp: commit_validation_def Let_def dest!: audit_outcome_Inr split: if_splits)
  have kept: "accounts s2 = accounts s1" "proxies s2 = proxies s" "upstreams s2 = upstreams s" "routes s2 = routes s"
      "client_keys s2 = client_keys s"
    by (simp_all add: s2_def s1_def clear_runtime_def replace_models_def write_accounts_def)
  show ?thesis
    by (rule write_accounts_written [OF aud, of "finishable pid v (models \<noteq> None)"
          "finished_account (models \<noteq> None) identity capability now"])
      (use ex kept in \<open>simp_all add: s1_def write_accounts_def finishable_def finished_account_def\<close>)
qed

lemma write_key_written:
  assumes "write_key s pid v w = Inr t"
  shows "written KeyResource pid v s t"
proof -
  obtain env who c where w: "w = (env, who, c)" by (cases w) auto
  have "\<exists>rows. audit_only (s\<lparr>client_keys := rows\<rparr>) t"
  proof (cases c)
    case (UpdateKey name status expires)
    with assms w obtain item where "update_client_key env who pid v name status expires s = Inr (item, t)"
      by (auto simp: write_key_def)
    then show ?thesis by (elim update_client_key_Inr) blast
  next
    case RevokeKey
    with assms w have "revoke_client_key env who pid v s = Inr t" by (simp add: write_key_def)
    then show ?thesis by (elim revoke_client_key_Inr) blast
  qed
  then obtain rows where aud: "audit_only (s\<lparr>client_keys := rows\<rparr>) t" by blast
  from write_key_effect [OF assms] obtain f where
      f: "client_keys t = update_where (writable_key pid v) f (client_keys s)"
      "\<And>r. ck_public_id (f r) = ck_public_id r \<and> ck_version (f r) = ck_version r + 1"
    and ex: "\<exists>r \<in> set (client_keys s). writable_key pid v r"
    by blast
  have "versioned_write ck_public_id ck_version pid v (client_keys s) (client_keys t)"
    unfolding f(1) by (rule versioned_writeI [OF ex]) (simp_all add: writable_key_def f(2))
  then show ?thesis using audit_only_tables [OF aud] by simp
qed

lemma run_write_written:
  assumes "run_write env who pid v w s = Inr t" "names_unique s"
  shows "written (write_kind w) pid v s t"
proof (cases w)
  case DropRoute
  with assms show ?thesis by (simp add: delete_route_written names_unique_def del: written.simps)
qed (use assms in \<open>auto simp del: written.simps intro: update_proxy_written delete_proxy_written
    update_upstream_written delete_upstream_written update_account_written delete_account_written
    begin_validation_written finish_validation_written update_route_written write_key_written\<close>)

lemma written_versions:
  assumes unique: "names_unique s" and w: "written kind pid v s t"
  shows "resource_version s (kind, pid) = Some v"
    and "resource_version t (kind, pid) = Some (v + 1) \<or> resource_version t (kind, pid) = None"
    and "x \<noteq> (kind, pid) \<Longrightarrow> resource_version t x = resource_version s x"
    and "names_unique t"
proof -
  note keys = unique [unfolded names_unique_def]
  have "resource_version s (kind, pid) = Some v
      \<and> (resource_version t (kind, pid) = Some (v + 1) \<or> resource_version t (kind, pid) = None)
      \<and> (x \<noteq> (kind, pid) \<longrightarrow> resource_version t x = resource_version s x) \<and> names_unique t"
  proof (cases kind)
    case ProxyResource
    with w keys versioned_write_versions [of px_public_id "proxies s" px_version pid v "proxies t"] show ?thesis
      by (cases x; cases "fst x") (auto simp: resource_version_def names_unique_def)
  next
    case UpstreamResource
    with w keys versioned_write_versions [of up_public_id "upstreams s" up_version pid v "upstreams t"] show ?thesis
      by (cases x; cases "fst x") (auto simp: resource_version_def names_unique_def)
  next
    case AccountResource
    with w keys versioned_write_versions [of ac_public_id "accounts s" ac_version pid v "accounts t"] show ?thesis
      by (cases x; cases "fst x") (auto simp: resource_version_def names_unique_def)
  next
    case RouteResource
    with w keys versioned_write_versions [of ro_public_id "routes s" ro_version pid v "routes t"] show ?thesis
      by (cases x; cases "fst x") (auto simp: resource_version_def names_unique_def)
  next
    case KeyResource
    with w keys versioned_write_versions [of ck_public_id "client_keys s" ck_version pid v "client_keys t"] show ?thesis
      by (cases x; cases "fst x") (auto simp: resource_version_def names_unique_def)
  qed
  then show "resource_version s (kind, pid) = Some v"
    "resource_version t (kind, pid) = Some (v + 1) \<or> resource_version t (kind, pid) = None"
    "x \<noteq> (kind, pid) \<Longrightarrow> resource_version t x = resource_version s x" "names_unique t"
    by simp_all
qed

lemma put_resource_written:
  assumes "put_resource s (kind, pid) v w = Inr t" "names_unique s"
  shows "written kind pid v s t"
  using assms run_write_written by (fastforce simp: put_resource_def split: prod.splits if_splits simp del: written.simps)

interpretation resources: versioned resource_version put_resource names_unique
proof
  fix s t :: "'a control_db_scheme" and x v w y
  assume s: "names_unique s" "put_resource s x v w = Inr t"
  obtain kind pid where x: "x = (kind, pid)" by (cases x)
  note facts = written_versions [OF s(1) put_resource_written [OF s(2) [unfolded x] s(1)]]
  show "resource_version s x = Some v" "resource_version t x = Some (v + 1) \<or> resource_version t x = None" "names_unique t"
    unfolding x by (rule facts)+
  show "resource_version t y = resource_version s y" if "y \<noteq> x" using facts(3) that x by blast
qed

subsection \<open>Property\<close>

definition sample_proxy_input :: proxy_input where
  "sample_proxy_input =
     \<lparr>pin_name = ''p'', pin_scheme = ''http'', pin_host = ''proxy.example'', pin_port = 8080, pin_username = None,
      pin_password = None, pin_tls_name = [], pin_insecure = False, pin_enabled = True\<rparr>"

definition plain_net :: net_text where
  "plain_net =
     \<lparr>nt_parse_url = (\<lambda>raw. Some \<lparr>bu_scheme = ''https'', bu_host = raw, bu_hostname = raw, bu_user = False, bu_query = [],
        bu_fragment = [], bu_path = [], bu_raw_path = []\<rparr>),
      nt_print_url = (\<lambda>u. bu_scheme u @ ''://'' @ bu_host u), nt_parse_addr = (\<lambda>_. None)\<rparr>"

definition sample_proxy_row :: proxy_row where
  "sample_proxy_row =
     \<lparr>px_id = 1, px_public_id = ''sdr_proxy_a'', px_name = ''a'', px_scheme = ''http'', px_host = ''h'', px_port = 80,
      px_username_enc = None, px_password_enc = None, px_tls_server_name = None, px_allow_insecure = False,
      px_enabled = True, px_version = 1, px_created = 0, px_updated = 0\<rparr>"

definition proxied_db :: control_db where
  "proxied_db = (sample_control [sample_key 1 5])\<lparr>proxies := [sample_proxy_row]\<rparr>"

abbreviation sample_writes ::
  "((resource \<times> string) \<times> int \<times> environment \<times> actor \<times> unit admin_write) list"
where
  "sample_writes \<equiv>
     [((ProxyResource, ''sdr_proxy_a''), 1, sample_env, sample_actor,
        PutProxy plain_net True tag_cipher None None sample_proxy_input proxied_db),
      ((ProxyResource, ''sdr_proxy_a''), 1, sample_env, sample_actor, DropProxy),
      ((KeyResource, ''sdr_ckey_1''), 1, sample_env, sample_actor, PutKey RevokeKey)]"

text \<open>
  C18: Optimistic concurrency: however updates, deletions and validations of proxies, upstreams,
  accounts, model routes and client keys are interleaved, and whatever snapshots they were checked
  against, no two of them succeed at the same version of the same resource, so none overwrites what
  another wrote without having seen it.
\<close>

theorem resource_no_lost_update:
  assumes "names_unique s" "run_writes put_resource s ws = (accepted, t)"
  shows "distinct accepted"
  by (rule resources.no_lost_update [OF assms])

theorem resource_no_lost_update_witness: "distinct (fst (run_writes put_resource proxied_db sample_writes))"
proof -
  have "names_unique proxied_db"
    by (simp add: names_unique_def proxied_db_def sample_control_def)
  then show ?thesis by (rule resource_no_lost_update [OF _ prod.collapse [symmetric]])
qed

end
