(* ===== verification/OAuth_Facts.thy ===== *)
theory OAuth_Facts
  imports Account_Lifecycle
begin

text \<open>
  What the OAuth flow guarantees: an authorization state is used at most once, and an account is
  connected only by the attempt its administrator's live session has started and claimed, over the
  egress it was started for; a callback is accepted only in its two exact forms.
\<close>

subsection \<open>The life of an attempt\<close>

text \<open>A later row of the same attempt: it keeps its identity, and what is over stays over.\<close>

definition attempt_over :: "attempt_row \<Rightarrow> bool" where
  "attempt_over r \<longleftrightarrow> oa_status r \<in> {''consumed'', ''failed'', ''cancelled''}"

definition attempt_later :: "attempt_row \<Rightarrow> attempt_row \<Rightarrow> bool" where
  "attempt_later r r' \<longleftrightarrow> oa_public_id r' = oa_public_id r \<and> oa_state r' = oa_state r
     \<and> oa_account_id r' = oa_account_id r \<and> oa_session_id r' = oa_session_id r \<and> oa_expires r' = oa_expires r
     \<and> oa_fingerprint r' = oa_fingerprint r
     \<and> (attempt_over r \<longrightarrow> oa_status r' = oa_status r)
     \<and> (oa_status r \<noteq> ''pending'' \<longrightarrow> oa_status r' \<noteq> ''pending'')"

lemma attempt_later_refl [simp]: "attempt_later r r"
  by (simp add: attempt_later_def)

lemma attempt_later_trans: "attempt_later a b \<Longrightarrow> attempt_later b c \<Longrightarrow> attempt_later a c"
  by (auto simp: attempt_later_def attempt_over_def)

text \<open>
  Every operation on the attempts, whatever its clock and its caller, when no new attempt draws the
  state whose verifier is \<open>u\<close>.
\<close>

inductive attempt_step :: "oauth_service \<Rightarrow> string \<Rightarrow> 'x auth_db_scheme \<Rightarrow> 'x auth_db_scheme \<Rightarrow> bool" for svc u where
  inserted: "insert_attempt svc env who session account c pid verifier pkce now s = Inr t \<Longrightarrow> verifier \<noteq> u \<Longrightarrow>
    attempt_step svc u s t"
| cancelled: "cancel_attempt env who session pid s = Inr t \<Longrightarrow> attempt_step svc u s t"
| claimed: "commit_claim now cl s = Inr t \<Longrightarrow> attempt_step svc u s t"
| failed: "attempt_step svc u s (fail_attempt env pid reason s)"
| completed: "complete_oauth_account c render nonce env who attempt pid version p v s = Inr (item, t) \<Longrightarrow>
    attempt_step svc u s t"
| deleted: "delete_account recorded env who pid version s = Inr t \<Longrightarrow> attempt_step svc u s t"
| cleaned: "attempt_step svc u s (cleanup_expired_attempts now s)"
| recovered: "attempt_step svc u s (recover_attempts now s)"
| elsewhere: "oauth_attempts t = oauth_attempts s \<Longrightarrow> attempt_step svc u s t"

text \<open>A table of attempts after a step: rows of before, rewritten or gone, and new ones of other states.\<close>

definition attempts_later :: "string \<Rightarrow> attempt_row list \<Rightarrow> attempt_row list \<Rightarrow> bool" where
  "attempts_later u rows rows' \<longleftrightarrow>
     (\<forall>r' \<in> set rows'. (\<exists>r \<in> set rows. attempt_later r r') \<or> oa_state r' \<noteq> u)"

lemma attempts_later_filter: "attempts_later u rows (filter p rows)"
  unfolding attempts_later_def using attempt_later_refl by fastforce

lemma attempts_later_update:
  assumes "\<And>r. p r \<Longrightarrow> attempt_later r (f r)"
  shows "attempts_later u rows (update_where p f rows)"
  unfolding attempts_later_def
proof
  fix r' assume "r' \<in> set (update_where p f rows)"
  then obtain r where "r \<in> set rows" "r' = (if p r then f r else r)" by (auto simp: update_where_def)
  with assms [of r] show "(\<exists>r \<in> set rows. attempt_later r r') \<or> oa_state r' \<noteq> u"
    by (intro disjI1 bexI [of _ r]) auto
qed

lemma attempts_later_append:
  "attempts_later u rows rows' \<Longrightarrow> oa_state r \<noteq> u \<Longrightarrow> attempts_later u rows (rows' @ [r])"
  by (auto simp: attempts_later_def)

definition attempts_keyed :: "attempt_row list \<Rightarrow> bool" where
  "attempts_keyed rows \<longleftrightarrow> distinct (map oa_state rows) \<and> distinct (map oa_public_id rows)"

lemma attempts_keyed_update:
  "(\<And>r. oa_state (f r) = oa_state r \<and> oa_public_id (f r) = oa_public_id r) \<Longrightarrow>
    attempts_keyed (update_where p f rows) \<longleftrightarrow> attempts_keyed rows"
  by (simp add: attempts_keyed_def update_where_keys)

lemma attempts_keyed_filter: "attempts_keyed rows \<Longrightarrow> attempts_keyed (filter p rows)"
  by (simp add: attempts_keyed_def distinct_map_filter)

definition attempts_move :: "string \<Rightarrow> 'x control_db_scheme \<Rightarrow> 'x control_db_scheme \<Rightarrow> bool" where
  "attempts_move u s t \<longleftrightarrow> attempts_later u (oauth_attempts s) (oauth_attempts t)
     \<and> (attempts_keyed (oauth_attempts s) \<longrightarrow> attempts_keyed (oauth_attempts t))"

lemma attempts_move_update:
  assumes "oauth_attempts t = update_where p f (oauth_attempts s)"
    and "\<And>r. p r \<Longrightarrow> attempt_later r (f r)"
    and "\<And>r. oa_state (f r) = oa_state r \<and> oa_public_id (f r) = oa_public_id r"
  shows "attempts_move u s t"
  using assms attempts_later_update by (simp add: attempts_move_def attempts_keyed_update)

lemma attempts_move_write:
  assumes "\<And>r. p r \<Longrightarrow> attempt_later r (f r)"
    and "\<And>r. oa_state (f r) = oa_state r \<and> oa_public_id (f r) = oa_public_id r"
  shows "attempts_move u s (s\<lparr>oauth_attempts := update_where p f (oauth_attempts s)\<rparr>)"
  using assms by (intro attempts_move_update [of _ p f]) simp_all

lemma attempts_move_filter: "oauth_attempts t = filter p (oauth_attempts s) \<Longrightarrow> attempts_move u s t"
  by (simp add: attempts_move_def attempts_later_filter attempts_keyed_filter)

lemma record_audit_attempts [simp]: "oauth_attempts (record_audit env now ev tk ti oc md s) = oauth_attempts s"
  using record_audit_cases [of env now ev tk ti oc md s] audit_only_tables(10) by metis

lemma commit_claim_Inr:
  assumes "commit_claim now cl s = Inr t"
  shows "t = s\<lparr>oauth_attempts := update_where (claimable s now cl) (\<lambda>r. r\<lparr>oa_status := ''exchanging''\<rparr>)
      (oauth_attempts s)\<rparr>
    \<and> (\<exists>r \<in> set (oauth_attempts s). claimable s now cl r)"
  using assms filter_one_ex [of "claimable s now cl" "oauth_attempts s"]
  by (auto simp: commit_claim_def split: if_splits)

lemma insert_attempt_Inr:
  assumes "insert_attempt svc env who session account c pid verifier pkce now s = Inr t"
  obtains rows new where
    "rows = update_where (\<lambda>r. oa_account_id r = oa_account_id new \<and> oa_status r = ''pending'')
       (\<lambda>r. r\<lparr>oa_status := ''cancelled'', oa_consumed := Some (unix_milli now)\<rparr>) (oauth_attempts s)"
    "oauth_attempts t = rows @ [new]" "oa_state new = verifier" "oa_public_id new = pid" "oa_status new = ''pending''"
    "verifier \<notin> oa_state ` set rows" "pid \<notin> oa_public_id ` set rows"
    "\<exists>se. find_live_session session (unix_milli now) s = Some se \<and> oa_session_id new = se_id se"
proof -
  from assms obtain se a where se: "find_live_session session (unix_milli now) s = Some se"
    by (auto simp: insert_attempt_def split: option.splits)
  from assms se obtain a where a: "find (\<lambda>r. at_version account (account_version c) r \<and> ac_auth_kind r = ''oauth'')
      (accounts s) = Some a"
    by (auto simp: insert_attempt_def split: option.splits)
  define rows where "rows = update_where (\<lambda>r. oa_account_id r = ac_id a \<and> oa_status r = ''pending'')
    (\<lambda>r. r\<lparr>oa_status := ''cancelled'', oa_consumed := Some (unix_milli now)\<rparr>) (oauth_attempts s)"
  define new where "new = \<lparr>oa_id = next_id oa_id rows, oa_public_id = pid, oa_session_id = se_id se,
    oa_account_id = ac_id a, oa_state = verifier, oa_pkce_enc = pkce, oa_fingerprint = egress_fingerprint svc c,
    oa_status = ''pending'', oa_created = unix_milli now, oa_expires = unix_milli (now + attempt_ttl),
    oa_consumed = None\<rparr>"
  note parts = assms [unfolded insert_attempt_def se a option.case Let_def new_attempt_def, folded rows_def,
      folded new_def]
  then have fresh: "pid \<notin> oa_public_id ` set rows" "verifier \<notin> oa_state ` set rows"
    and "audit_only (s\<lparr>oauth_attempts := rows @ [new]\<rparr>) t"
    by (auto split: if_splits dest: audit_outcome_Inr)
  then have "oauth_attempts t = rows @ [new]" using audit_only_tables(10) by fastforce
  with fresh se show thesis
    by (intro that [of rows new]) (simp_all add: new_def rows_def)
qed

lemma attempts_move_same: "oauth_attempts t = oauth_attempts v \<Longrightarrow> attempts_move u s v \<Longrightarrow> attempts_move u s t"
  by (simp add: attempts_move_def)

lemma insert_attempt_moves:
  assumes "insert_attempt svc env who session account c pid verifier pkce now s = Inr t" "verifier \<noteq> u"
  shows "attempts_move u s t"
proof -
  from assms(1) obtain rows new where rows: "rows = update_where (\<lambda>r. oa_account_id r = oa_account_id new \<and> oa_status r = ''pending'')
       (\<lambda>r. r\<lparr>oa_status := ''cancelled'', oa_consumed := Some (unix_milli now)\<rparr>) (oauth_attempts s)"
    and t: "oauth_attempts t = rows @ [new]" "oa_state new = verifier" "oa_public_id new = pid"
      "verifier \<notin> oa_state ` set rows" "pid \<notin> oa_public_id ` set rows"
    by (elim insert_attempt_Inr) blast
  have "attempts_later u (oauth_attempts s) rows"
    unfolding rows by (rule attempts_later_update) (auto simp: attempt_later_def attempt_over_def)
  moreover have "attempts_keyed (oauth_attempts s) \<Longrightarrow> attempts_keyed rows"
    unfolding rows by (subst attempts_keyed_update) simp_all
  ultimately show ?thesis
    using t assms(2) attempts_later_append by (auto simp: attempts_move_def attempts_keyed_def)
qed

lemma cancel_attempt_moves:
  assumes "cancel_attempt env who session pid s = Inr t"
  shows "attempts_move u s t"
proof -
  from assms have "audit_only (s\<lparr>oauth_attempts := update_where (cancellable s session pid)
      (\<lambda>r. r\<lparr>oa_status := ''cancelled'', oa_consumed := Some (unix_milli (env_clock env 0))\<rparr>) (oauth_attempts s)\<rparr>) t"
    by (auto simp: cancel_attempt_def intro: audit_outcome_Inr split: if_splits)
  then have "oauth_attempts t = update_where (cancellable s session pid)
      (\<lambda>r. r\<lparr>oa_status := ''cancelled'', oa_consumed := Some (unix_milli (env_clock env 0))\<rparr>) (oauth_attempts s)"
    using audit_only_tables(10) by fastforce
  then show ?thesis
    by (rule attempts_move_update) (auto simp: attempt_later_def attempt_over_def cancellable_def)
qed

lemma commit_claim_moves: "commit_claim now cl s = Inr t \<Longrightarrow> attempts_move u s t"
  by (drule commit_claim_Inr, erule conjE, hypsubst, rule attempts_move_write)
    (auto simp: attempt_later_def attempt_over_def claimable_def)

lemma fail_attempt_moves: "attempts_move u s (fail_attempt env pid reason s)"
  unfolding fail_attempt_def
  by (rule attempts_move_same [OF record_audit_attempts], rule attempts_move_write)
    (auto simp: attempt_later_def attempt_over_def)

lemma complete_oauth_attempts:
  assumes "complete_oauth_account c render nonce env who attempt pid version p v s = Inr (item, t)"
  shows "attempts_move u s t"
proof -
  from assms obtain a where "oauth_attempts t = update_where (consumable attempt a (unix_milli (env_clock env 1)))
       (\<lambda>r. r\<lparr>oa_status := ''consumed'', oa_consumed := Some (unix_milli (env_clock env 1))\<rparr>) (oauth_attempts s)"
    by (elim complete_oauth_Inr) blast
  then show ?thesis
    by (rule attempts_move_update) (auto simp: attempt_later_def attempt_over_def consumable_def)
qed

lemma delete_account_attempts:
  assumes "delete_account recorded env who pid version s = Inr t"
  shows "attempts_move u s t"
proof -
  have "attempts_move u s (drop_accounts (at_version pid version) s)"
    by (rule attempts_move_filter) (simp add: drop_accounts_def Let_def)
  then show ?thesis
    using delete_account_Inr [OF assms] audit_only_tables(10) attempts_move_same by blast
qed

lemma recover_attempts_moves: "attempts_move u s (recover_attempts now s)"
  unfolding recover_attempts_def by (rule attempts_move_write) (auto simp: attempt_later_def attempt_over_def)

lemma attempt_step_moves:
  assumes "attempt_step svc u s t"
  shows "attempts_move u s t"
  using assms
proof cases
  case elsewhere
  then show ?thesis using attempts_move_filter [of t "\<lambda>_. True" s u] by simp
next
  case cleaned
  then show ?thesis by (intro attempts_move_filter) (simp add: cleanup_expired_attempts_def)
qed (auto intro: insert_attempt_moves cancel_attempt_moves commit_claim_moves fail_attempt_moves
    complete_oauth_attempts delete_account_attempts recover_attempts_moves)

text \<open>A state is spent when no pending attempt carries it.\<close>

definition state_spent :: "string \<Rightarrow> 'x control_db_scheme \<Rightarrow> bool" where
  "state_spent u s \<longleftrightarrow> (\<forall>r \<in> set (oauth_attempts s). oa_state r = u \<longrightarrow> oa_status r \<noteq> ''pending'')"

lemma state_spent_move:
  assumes "attempts_move u s t" "state_spent u s"
  shows "state_spent u t"
  unfolding state_spent_def
proof (intro ballI impI)
  fix r' assume r': "r' \<in> set (oauth_attempts t)" "oa_state r' = u"
  then obtain r where "r \<in> set (oauth_attempts s)" "attempt_later r r'"
    using assms(1) by (auto simp: attempts_move_def attempts_later_def)
  with assms(2) r'(2) show "oa_status r' \<noteq> ''pending''" by (simp add: state_spent_def attempt_later_def)
qed

lemma attempt_steps_spent: "(attempt_step svc u)\<^sup>*\<^sup>* s t \<Longrightarrow> state_spent u s \<Longrightarrow> state_spent u t"
  by (induction rule: rtranclp_induct) (auto intro: state_spent_move attempt_step_moves)

lemma claim_row_Some:
  assumes "claim_row v now expected s = Some (r, a, se, ad, cfg)"
  shows "r \<in> set (oauth_attempts s) \<and> open_attempt v now expected r \<and> a \<in> set (accounts s) \<and> ac_id a = oa_account_id r
    \<and> se \<in> set (admin_sessions s) \<and> se_id se = oa_session_id r \<and> admin_user s = Some ad \<and> oauth_config s = Some cfg
    \<and> oc_enabled cfg"
proof -
  from assms have "find (open_attempt v now expected) (oauth_attempts s) = Some r"
    and "row_by ac_id (oa_account_id r) (accounts s) = Some a"
    and "row_by se_id (oa_session_id r) (admin_sessions s) = Some se"
    and "admin_user s = Some ad" "oauth_config s = Some cfg" "oc_enabled cfg"
    by (auto simp: claim_row_def split: option.splits if_splits)
  then show ?thesis by (auto simp: find_Some_iff in_set_conv_nth dest!: row_by_Some)
qed

lemma check_claim_Inr:
  assumes "check_claim svc at state session expected s = Inr cl"
  obtains r a se ad cfg where "claim_row (state_verifier svc state) (unix_milli at) expected s = Some (r, a, se, ad, cfg)"
    "live_session (ad_session_version ad) (unix_milli at) se" "session = [] \<or> session = se_public_id se"
    "same_egress svc (ac_public_id a) (ac_version a) (oa_fingerprint r) s = Some (cl_candidate cl)"
    "cl_public cl = oa_public_id r" "cl_session cl = se_public_id se" "cl_account cl = ac_public_id a"
    "cl_version cl = ac_version a" "cl_fingerprint cl = oa_fingerprint r" "cl_project cl = oc_project_id cfg"
proof -
  from assms have safe: "safe_state state" by (auto simp: check_claim_def split: if_splits)
  note rest = assms [unfolded check_claim_def Let_def]
  obtain x where "claim_row (state_verifier svc state) (unix_milli at) expected s = Some x"
    using rest safe by (cases "claim_row (state_verifier svc state) (unix_milli at) expected s") simp_all
  moreover obtain r a se ad cfg where "x = (r, a, se, ad, cfg)" by (metis prod_cases5)
  ultimately have row: "claim_row (state_verifier svc state) (unix_milli at) expected s = Some (r, a, se, ad, cfg)"
    by simp
  have alive: "live_session (ad_session_version ad) (unix_milli at) se" "session = [] \<or> session = se_public_id se"
    using rest safe row by (simp_all split: if_splits)
  then obtain c pkce secret vs where
    "same_egress svc (ac_public_id a) (ac_version a) (oa_fingerprint r) s = Some c"
    "cl = \<lparr>cl_public = oa_public_id r, cl_account = ac_public_id a, cl_session = se_public_id se,
       cl_version = ac_version a, cl_pkce = pkce, cl_fingerprint = oa_fingerprint r, cl_client = oc_client_id cfg,
       cl_secret = secret, cl_project = oc_project_id cfg, cl_scopes = vs, cl_candidate = c\<rparr>"
    using rest safe row by (simp split: if_splits) blast
  with row alive show thesis by (intro that) simp_all
qed

lemma check_claim_spent:
  assumes "state_spent (state_verifier svc state) s"
  shows "\<not> (\<exists>cl. check_claim svc at state session expected s = Inr cl)"
proof
  assume "\<exists>cl. check_claim svc at state session expected s = Inr cl"
  then obtain r a se ad cfg where "claim_row (state_verifier svc state) (unix_milli at) expected s = Some (r, a, se, ad, cfg)"
    by (elim exE check_claim_Inr) blast
  with assms show False by (auto simp: state_spent_def open_attempt_def dest!: claim_row_Some)
qed

lemma claim_spends:
  assumes keyed: "attempts_keyed (oauth_attempts s)" and "claim_attempt svc at state session expected s = Inr (cl, t)"
  shows "state_spent (state_verifier svc state) t"
proof -
  let ?u = "state_verifier svc state"
  from assms(2) have check: "check_claim svc at state session expected s = Inr cl"
    and commit: "commit_claim (unix_milli at) cl s = Inr t"
    by (auto simp: claim_attempt_def)
  from check obtain r a se ad cfg where "claim_row ?u (unix_milli at) expected s = Some (r, a, se, ad, cfg)"
      "cl_public cl = oa_public_id r"
    by (elim check_claim_Inr) blast
  then have r: "r \<in> set (oauth_attempts s)" "oa_state r = ?u" "cl_public cl = oa_public_id r"
    by (auto simp: open_attempt_def dest!: claim_row_Some)
  from commit_claim_Inr [OF commit] obtain r' where r': "r' \<in> set (oauth_attempts s)" "claimable s (unix_milli at) cl r'"
    and t: "oauth_attempts t = update_where (claimable s (unix_milli at) cl) (\<lambda>r. r\<lparr>oa_status := ''exchanging''\<rparr>)
      (oauth_attempts s)"
    by auto
  have inj: "inj_on oa_public_id (set (oauth_attempts s))" "inj_on oa_state (set (oauth_attempts s))"
    using keyed by (simp_all add: attempts_keyed_def distinct_map)
  have "oa_public_id r' = oa_public_id r" using r'(2) r(3) by (simp add: claimable_def)
  then have "r' = r" using inj(1) r(1) r'(1) by (simp add: inj_on_eq_iff)
  then have "claimable s (unix_milli at) cl x" if "x \<in> set (oauth_attempts s)" "oa_state x = ?u" for x
    using inj(2) r(1,2) r'(2) that by (metis inj_on_eq_iff)
  then show ?thesis by (auto simp: state_spent_def t update_where_def)
qed

subsection \<open>Samples\<close>

definition sample_oauth :: oauth_service where
  "sample_oauth =
     \<lparr>os_cipher = tag_cipher, os_scan = (\<lambda>_. []), os_render = (\<lambda>_. ''{}''), os_sha256 = (\<lambda>s. take 4 s),
      os_scheme = ''https'', os_host = ''gate.example'', os_registry = []\<rparr>"

definition sample_sealed :: "string \<Rightarrow> string" where
  "sample_sealed p = envelope_version # ''01234567'' @ replicate 12 (CHR ''n'') @ p @ replicate 16 (CHR ''t'')"

definition sample_draft :: account_row where
  "sample_draft = (sample_google ''draft'')\<lparr>ac_credential_enc := None, ac_credential_expires := None\<rparr>"

definition sample_admin_session :: session_row where
  "sample_admin_session =
     \<lparr>se_id = 4, se_public_id = ''sdr_sess'', se_verifier = ''v'', se_csrf = ''c'', se_version = 1, se_created = 0,
      se_seen = 0, se_idle = 9000, se_absolute = 9000, se_ip = [], se_agent = [], se_revoked = None\<rparr>"

definition sample_config :: config_row where
  "sample_config =
     \<lparr>oc_id = 1, oc_public_id = ''sdr_cfg'', oc_client_id = ''client'', oc_secret_enc = sample_sealed ''secret'',
      oc_project_id = ''project'', oc_scopes = stored_scopes, oc_enabled = True, oc_version = 1, oc_created = 0,
      oc_updated = 0\<rparr>"

definition sample_attempt :: attempt_row where
  "sample_attempt =
     \<lparr>oa_id = 1, oa_public_id = ''sdr_oauth'', oa_session_id = 4, oa_account_id = 7,
      oa_state = state_verifier sample_oauth ''st'', oa_pkce_enc = sample_sealed ''pkce'',
      oa_fingerprint = egress_fingerprint sample_oauth (sample_candidate_of sample_draft), oa_status = ''pending'',
      oa_created = 0, oa_expires = 9000, oa_consumed = None\<rparr>"

definition sample_admin_row :: admin_row where
  "sample_admin_row =
     \<lparr>ad_password = [], ad_totp_secret = None, ad_pending_secret = None, ad_pending_expires = None,
      ad_totp_enabled = False, ad_last_step = None, ad_session_version = 1, ad_failed = 0, ad_locked = None,
      ad_created = 0, ad_updated = 0\<rparr>"

definition sample_attempt_db :: auth_db where
  "sample_attempt_db = (sample_oauth_db [sample_draft])
     \<lparr>oauth_config := Some sample_config, oauth_attempts := [sample_attempt], admin_user := Some sample_admin_row,
      admin_sessions := [sample_admin_session]\<rparr>"

definition sample_env_of :: "string \<Rightarrow> environment" where
  "sample_env_of a = \<lparr>env_clock = (\<lambda>_. 0), env_object = None, env_prefix = None, env_secret = None, env_audit = Some a\<rparr>"

lemma sample_claim: "\<exists>cl t. claim_attempt sample_oauth 0 ''st'' [] [] sample_attempt_db = Inr (cl, t)"
proof -
  have "\<not> isl (claim_attempt sample_oauth 0 ''st'' [] [] sample_attempt_db)" by code_simp
  then show ?thesis by (metis isl_def old.prod.exhaust sum.exhaust)
qed

lemma sample_attempts_keyed: "attempts_keyed (oauth_attempts sample_attempt_db)"
  by (simp add: attempts_keyed_def sample_attempt_db_def)

subsection \<open>Properties\<close>

text \<open>
  C35: An authorization state is good for one callback.  Once a callback has claimed the attempt with
  that state, no callback with it succeeds again - from the same browser or another, at any time and
  whatever happens to the attempt in between - as long as no new attempt draws the same random state.
\<close>

theorem oauth_state_used_once:
  assumes "attempts_keyed (oauth_attempts s)" "claim_attempt svc at state session expected s = Inr (cl, t)"
    and "(attempt_step svc (state_verifier svc state))\<^sup>*\<^sup>* t v"
  shows "\<not> (\<exists>cl' w. claim_attempt svc at' state session' expected' v = Inr (cl', w))"
proof -
  have "state_spent (state_verifier svc state) v"
    using attempt_steps_spent [OF assms(3)] claim_spends [OF assms(1,2)] .
  then show ?thesis using check_claim_spent by (fastforce simp: claim_attempt_def)
qed

theorem oauth_state_used_once_witness:
  "\<exists>cl t. claim_attempt sample_oauth 0 ''st'' [] [] sample_attempt_db = Inr (cl, t)
    \<and> \<not> (\<exists>cl' w. claim_attempt sample_oauth 1000000 ''st'' ''sdr_sess'' [] (fail_attempt (sample_env_of []) ''sdr_oauth'' ''x'' t) = Inr (cl', w))"
proof -
  obtain cl t where claim: "claim_attempt sample_oauth 0 ''st'' [] [] sample_attempt_db = Inr (cl, t)"
    using sample_claim by blast
  have "(attempt_step sample_oauth (state_verifier sample_oauth ''st''))\<^sup>*\<^sup>* t (fail_attempt (sample_env_of []) ''sdr_oauth'' ''x'' t)"
    by (rule r_into_rtranclp) (rule attempt_step.failed)
  from oauth_state_used_once [OF sample_attempts_keyed claim this] claim show ?thesis by blast
qed

text \<open>What a completed authorization has gone through, on the tables the callback found.\<close>

definition authorized ::
  "oauth_service \<Rightarrow> ms \<Rightarrow> string \<Rightarrow> string \<Rightarrow> 'x auth_db_scheme \<Rightarrow> attempt_row \<Rightarrow> account_row \<Rightarrow> bool"
where
  "authorized svc now state session s r a \<longleftrightarrow>
     r \<in> set (oauth_attempts s) \<and> oa_state r = state_verifier svc state \<and> oa_status r = ''pending'' \<and> now < oa_expires r
     \<and> a \<in> set (accounts s) \<and> ac_id a = oa_account_id r
     \<and> (\<exists>se \<in> set (admin_sessions s). \<exists>ad. admin_user s = Some ad \<and> se_id se = oa_session_id r
          \<and> live_session (ad_session_version ad) now se \<and> (session = [] \<or> session = se_public_id se))
     \<and> (\<exists>c. same_egress svc (ac_public_id a) (ac_version a) (oa_fingerprint r) s = Some c)"

lemma finish_authorization_Completed:
  assumes "finish_authorization svc nonce fail_env env request cl answer s = (t, Completed item)"
  obtains tok models who p v where "answer = Inr (tok, models)"
    "complete_oauth_account (os_cipher svc) (os_render svc) nonce env who (cl_public cl) (cl_account cl)
       (cl_version cl) p v s = Inr (item, t)"
    "p = connected_payload cl tok (unix_milli (env_clock env 3))"
    "same_egress svc (cl_account cl) (cl_version cl) (cl_fingerprint cl) s \<noteq> None"
  using assms by (auto simp: finish_authorization_def split: sum.splits option.splits prod.splits)

lemma exchange_code_Inr:
  assumes "exchange_code svc net now cl code provider_error = Inr (tok, models)"
  shows "provider_error = [] \<and> safe_token code
    \<and> exchange_token svc (on_token net) now (cl_candidate cl) (code_form svc cl code) True (cl_scopes cl) = Inr tok"
proof -
  note parts = assms [unfolded exchange_code_def]
  then have ok: "provider_error = []" "safe_token code" by (simp_all split: if_splits)
  with parts obtain x where x: "exchange_token svc (on_token net) now (cl_candidate cl) (code_form svc cl code) True
      (cl_scopes cl) = Inr x"
    by auto
  with parts ok have "x = tok"
    by (cases "new_oauth_token (tr_access x) (cl_project cl)") (auto split: option.split_asm)
  with x ok show ?thesis by simp
qed

text \<open>
  C36: A callback connects an account only by the book: the attempt with its state was pending and
  not expired, it had been started in a session of the administrator that is still alive (and is the
  caller's, when the caller has one), the account had the very version, upstream and proxy the attempt
  was started for, the provider reported no error, and Google exchanged the code - with the client's
  secret and the PKCE verifier - for a token with a refresh token and exactly the scopes configured.
  The account is then active with a new credential.
\<close>

theorem oauth_completion_sound:
  assumes "complete_authorization svc net nonce fail_env env clock state code provider_error session expected request s
    = (t, Inr (Completed item))"
  shows "\<exists>r a cl tok. authorized svc (unix_milli (clock 0)) state session s r a
    \<and> provider_error = [] \<and> safe_token code
    \<and> exchange_token svc (on_token net) (clock 1) (cl_candidate cl) (code_form svc cl code) True (cl_scopes cl) = Inr tok
    \<and> cl_candidate cl = the (same_egress svc (ac_public_id a) (ac_version a) (oa_fingerprint r) s)
    \<and> (\<exists>a' \<in> set (accounts t). ac_public_id a' = ac_public_id a \<and> ac_status a' = ''active''
         \<and> ac_version a' = ac_version a + 1 \<and> ac_credential_expires a' = Some (tr_expires tok))"
proof -
  from assms obtain cl u where claim: "claim_attempt svc (clock 0) state session expected s = Inr (cl, u)"
    and fin: "finish_authorization svc nonce fail_env env request cl
      (exchange_code svc net (clock 1) cl code provider_error) u = (t, Completed item)"
    by (auto simp: complete_authorization_def split: sum.splits prod.splits)
  from claim have check: "check_claim svc (clock 0) state session expected s = Inr cl"
    by (auto simp: claim_attempt_def)
  then obtain r a se ad cfg where row: "claim_row (state_verifier svc state) (unix_milli (clock 0)) expected s = Some (r, a, se, ad, cfg)"
    and alive: "live_session (ad_session_version ad) (unix_milli (clock 0)) se" "session = [] \<or> session = se_public_id se"
    and egress: "same_egress svc (ac_public_id a) (ac_version a) (oa_fingerprint r) s = Some (cl_candidate cl)"
    and cl: "cl_account cl = ac_public_id a" "cl_version cl = ac_version a"
    by (elim check_claim_Inr) blast
  from fin obtain tok models who p v where ex: "exchange_code svc net (clock 1) cl code provider_error = Inr (tok, models)"
    and com: "complete_oauth_account (os_cipher svc) (os_render svc) nonce env who (cl_public cl) (cl_account cl)
       (cl_version cl) p v u = Inr (item, t)"
    and p: "p = connected_payload cl tok (unix_milli (env_clock env 3))"
    by (elim finish_authorization_Completed) blast
  from com obtain cred identity x where acc: "accounts t = update_where (connectable (cl_account cl) (cl_version cl))
       (connected_account cred (expires_at p) identity (av_capability v) (unix_milli (env_clock env 1))) (accounts u)"
    and x: "x \<in> set (accounts u)" "connectable (cl_account cl) (cl_version cl) x"
    by (elim complete_oauth_Inr) blast
  let ?a' = "connected_account cred (expires_at p) identity (av_capability v) (unix_milli (env_clock env 1)) x"
  have "?a' \<in> set (accounts t)" using x by (force simp: acc update_where_def)
  moreover have "ac_public_id ?a' = ac_public_id a \<and> ac_status ?a' = ''active'' \<and> ac_version ?a' = ac_version a + 1
      \<and> ac_credential_expires ?a' = Some (tr_expires tok)"
    using x(2) cl by (simp add: connected_account_def connectable_def at_version_def p connected_payload_def)
  moreover have "authorized svc (unix_milli (clock 0)) state session s r a"
    using claim_row_Some [OF row] alive egress by (auto simp: authorized_def open_attempt_def)
  ultimately show ?thesis using exchange_code_Inr [OF ex] egress by force
qed

definition sample_token_lexemes :: "lexeme list" where
  "sample_token_lexemes = lex (JObj [(''access_token'', JStr ''at''), (''refresh_token'', JStr ''rt''),
     (''token_type'', JStr ''Bearer''), (''expires_in'', JNum ''3600'')])"

definition sample_model_lexemes :: "lexeme list" where
  "sample_model_lexemes = lex (JObj [(''models'', JArr [JObj [(''name'', JStr ''models/g'')]])])"

definition sample_connecting :: oauth_service where
  "sample_connecting = sample_oauth\<lparr>os_registry := [(''google'', google_adapter)],
     os_scan := (\<lambda>s. if s = ''t'' then sample_token_lexemes else sample_model_lexemes)\<rparr>"

definition sample_network :: oauth_network where
  "sample_network =
     \<lparr>on_token = (\<lambda>_ _. Some \<lparr>tk_status = 200, tk_body = Some ''t''\<rparr>),
      on_probe = (\<lambda>_ _ _. Some \<lparr>pr_status = 200, pr_content_type = ''application/json'', pr_body = Some ''m''\<rparr>)\<rparr>"

abbreviation "sample_completion \<equiv>
  complete_authorization sample_connecting sample_network (Some ''abcdefghijkl'') (sample_env_of ''a'') (sample_env_of ''b'')
    (\<lambda>_. 0) ''st'' ''code'' [] [] [] ''req'' sample_attempt_db"

definition sample_claimed :: claimed_attempt where
  "sample_claimed =
     \<lparr>cl_public = ''sdr_oauth'', cl_account = ''sdr_acct_g'', cl_session = ''sdr_sess'', cl_version = 5,
      cl_pkce = ''pkce'', cl_fingerprint = egress_fingerprint sample_oauth (sample_candidate_of sample_draft),
      cl_client = ''client'', cl_secret = ''secret'', cl_project = ''project'', cl_scopes = google_scopes,
      cl_candidate = sample_candidate_of sample_draft\<rparr>"

definition sample_claimed_db :: auth_db where
  "sample_claimed_db = sample_attempt_db\<lparr>oauth_attempts := [sample_attempt\<lparr>oa_status := ''exchanging''\<rparr>]\<rparr>"

lemma sample_step1: "claim_attempt sample_connecting 0 ''st'' [] [] sample_attempt_db = Inr (sample_claimed, sample_claimed_db)"
  by code_simp

abbreviation "sample_token_members \<equiv>
  [(''access_token'', JStr ''at''), (''refresh_token'', JStr ''rt''), (''token_type'', JStr ''Bearer''),
   (''expires_in'', JNum ''3600'')]"

lemma sample_trims: "trim_space ''at'' = ''at''" "trim_space ''rt'' = ''rt''" "trim_space ''code'' = ''code''"
    "trim_space ''project'' = ''project''"
  by code_simp+

lemma sample_body: "validate sample_token_lexemes 32 = None" "unmarshal sample_token_lexemes = Some (JObj sample_token_members)"
    "parse_models ''google'' sample_model_lexemes = Some [''g'']"
    "has_media_type ''application/json'' ''application/json''"
  by code_simp+

lemma sample_scopes_ok: "valid_scopes google_scopes"
  by code_simp

lemma sample_read: "read_token True google_scopes 0 sample_token_members =
    Inr \<lparr>tr_access = ''at'', tr_refresh = ''rt'', tr_scopes = google_scopes, tr_expires = 3600000\<rparr>"
proof -
  have "granted_scopes [] google_scopes = google_scopes" by (simp add: granted_scopes_def)
  moreover have "same_scope_set google_scopes google_scopes" by (simp add: same_scope_set_def list_all_iff)
  moreover have "expires_seconds sample_token_members = Some 3600" "to_lower ''Bearer'' = ''bearer''" by code_simp+
  ultimately show ?thesis
    using sample_trims sample_scopes_ok
    by (simp add: read_token_def field_or_def member_of_def safe_token_def contains_any_def line_breaks_def
        unix_milli_def)
qed

lemma sample_step2: "exchange_code sample_connecting sample_network 0 sample_claimed ''code'' [] =
    Inr (\<lparr>tr_access = ''at'', tr_refresh = ''rt'', tr_scopes = google_scopes, tr_expires = 3600000\<rparr>, [''g''])"
  using sample_trims sample_body sample_read
  by (simp add: exchange_code_def safe_token_def contains_any_def line_breaks_def exchange_token_def sample_network_def
      sample_connecting_def sample_claimed_def sample_oauth_def new_oauth_token_def new_credential_def
      probe_google_def registry_get_def)

abbreviation "sample_tok \<equiv>
  \<lparr>tr_access = ''at'', tr_refresh = ''rt'', tr_scopes = google_scopes, tr_expires = 3600000\<rparr>"

lemma sample_egress: "same_egress sample_connecting ''sdr_acct_g'' 5 (cl_fingerprint sample_claimed) sample_claimed_db \<noteq> None"
  by code_simp

lemma sample_checked: "\<exists>cred identity. checked_oauth tag_cipher (\<lambda>_. ''{}'') (Some ''abcdefghijkl'') 0 ''sdr_acct_g''
    (connected_payload sample_claimed sample_tok 0) (connected_validation sample_connecting [''g'']) = Inr (cred, identity, [''g''])"
proof -
  have a: "identity_text (av_identity (connected_validation sample_connecting [''g''])) \<noteq> None" by code_simp
  have b: "normalize_models [''g''] = Inr [''g'']" by code_simp
  have c: "av_capability (connected_validation sample_connecting [''g'']) = ''google/0.2.0@2026-07-17''" by code_simp
  show ?thesis
    using a b c by (auto simp: checked_oauth_def connected_payload_def empty_payload_def encrypt_def seal_def
        tag_cipher_def connected_validation_def)
qed

lemma attempt_rows: "accounts sample_claimed_db = [sample_draft]" "upstreams sample_claimed_db = [sample_google_upstream]"
    "oauth_attempts sample_claimed_db = [sample_attempt\<lparr>oa_status := ''exchanging''\<rparr>]" "audit_events sample_claimed_db = []"
  by (simp_all add: sample_claimed_db_def sample_attempt_db_def sample_oauth_db_def db.defs control_db.defs auth_db.defs)

lemma sample_connect: "\<exists>t item. complete_oauth_account tag_cipher (\<lambda>_. ''{}'') (Some ''abcdefghijkl'') (sample_env_of ''b'') who
    ''sdr_oauth'' ''sdr_acct_g'' 5 (connected_payload sample_claimed sample_tok 0)
    (connected_validation sample_connecting [''g'']) sample_claimed_db = Inr (item, t)"
proof -
  obtain pid where pid: "object_id ''audit'' (Some ''b'') = Some pid"
    by (simp add: object_id_def valid_kind_def)
  have md: "length (metadata_text (AList.update ''schema_version'' (MetaInt 1)
      [(''provider_id'', MetaText ''google''), (''model_count'', MetaInt 1), (''attempt_id'', MetaText ''sdr_oauth'')])) \<le> 4096"
    by code_simp
  from sample_checked obtain cred identity where checked: "checked_oauth tag_cipher (\<lambda>_. ''{}'') (Some ''abcdefghijkl'') 0
    ''sdr_acct_g'' (connected_payload sample_claimed sample_tok 0) (connected_validation sample_connecting [''g''])
    = Inr (cred, identity, [''g''])" by blast
  define s1 where "s1 = write_accounts (connectable ''sdr_acct_g'' 5) (connected_account cred 3600000 identity
    (av_capability (connected_validation sample_connecting [''g''])) 0) sample_claimed_db"
  define s2 where "s2 = clear_runtime 7 0 (replace_models 7 0 [''g''] s1)"
  define s3 where "s3 = s2\<lparr>oauth_attempts := update_where (consumable ''sdr_oauth'' 7 0)
    (\<lambda>r. r\<lparr>oa_status := ''consumed'', oa_consumed := Some 0\<rparr>) (oauth_attempts s2)\<rparr>"
  have one: "length (filter (connectable ''sdr_acct_g'' 5) (accounts sample_claimed_db)) = 1"
    by (simp add: attempt_rows connectable_def at_version_def sample_draft_def sample_google_def)
  have account: "internal_id ''sdr_acct_g'' s1 = 7"
    by (simp add: internal_id_def s1_def attempt_rows update_where_def connected_account_def connectable_def at_version_def
        sample_draft_def sample_google_def)
  have att: "length (filter (consumable ''sdr_oauth'' 7 0) (oauth_attempts s2)) = 1"
    by (simp add: s2_def s1_def clear_runtime_def replace_models_def write_accounts_def attempt_rows consumable_def
        sample_attempt_def)
  have s3: "audit_events s3 = []" "upstreams s3 = [sample_google_upstream]" "accounts s3 = accounts s1"
    by (simp_all add: s3_def s2_def s1_def clear_runtime_def replace_models_def write_accounts_def attempt_rows)
  obtain t where t: "audit_outcome (sample_env_of ''b'') 0 who ''account.oauth_connected'' ''account'' ''sdr_acct_g'' ''success''
      [(''provider_id'', MetaText ''google''), (''model_count'', MetaInt 1), (''attempt_id'', MetaText ''sdr_oauth'')] s3 = Inr t"
    using audit_outcome_ok [of "sample_env_of ''b''" pid s3 _ 0 who] pid md s3(1) by (fastforce simp: sample_env_of_def)
  then have aud: "audit_only s3 t" by (rule audit_outcome_Inr)
  have acc: "accounts t = accounts s1" "upstreams t = [sample_google_upstream]"
    using audit_only_tables(2,4) [OF aud] s3 by simp_all
  have "\<exists>item. get_account ''sdr_acct_g'' t = Inr item"
    by (simp add: get_account_def scan_account_def upstream_public_of_def acc s1_def attempt_rows update_where_def
        connected_account_def connectable_def at_version_def sample_draft_def sample_google_def sample_google_upstream_def)
  then obtain item where "get_account ''sdr_acct_g'' t = Inr item" by blast
  then have "complete_oauth_account tag_cipher (\<lambda>_. ''{}'') (Some ''abcdefghijkl'') (sample_env_of ''b'') who
      ''sdr_oauth'' ''sdr_acct_g'' 5 (connected_payload sample_claimed sample_tok 0)
      (connected_validation sample_connecting [''g'']) sample_claimed_db = Inr (item, t)"
    using checked one att t account
    by (simp add: complete_oauth_account_def Let_def sample_env_of_def unix_milli_def flip: s1_def)
      (simp add: connected_payload_def s1_def [symmetric] s2_def [symmetric] s3_def [symmetric])
  then show ?thesis by blast
qed

lemma sample_completed: "\<exists>t item. sample_completion = (t, Inr (Completed item))"
proof -
  obtain c where egress: "same_egress sample_connecting ''sdr_acct_g'' 5 (cl_fingerprint sample_claimed) sample_claimed_db = Some c"
    using sample_egress by blast
  obtain t item where "complete_oauth_account tag_cipher (\<lambda>_. ''{}'') (Some ''abcdefghijkl'') (sample_env_of ''b'')
    \<lparr>actor_kind = ''admin'', actor_id = ''sdr_sess'', actor_request = ''req''\<rparr>
    ''sdr_oauth'' ''sdr_acct_g'' 5 (connected_payload sample_claimed sample_tok 0)
    (connected_validation sample_connecting [''g'']) sample_claimed_db = Inr (item, t)"
    using sample_connect by blast
  with egress have "finish_authorization sample_connecting (Some ''abcdefghijkl'') (sample_env_of ''a'') (sample_env_of ''b'')
      ''req'' sample_claimed (Inr (sample_tok, [''g''])) sample_claimed_db = (t, Completed item)"
    by (simp add: finish_authorization_def sample_claimed_def sample_connecting_def sample_oauth_def sample_env_of_def unix_milli_def)
  then show ?thesis
    by (simp add: complete_authorization_def sample_step1 sample_step2)
qed

theorem oauth_completion_sound_witness:
  "\<exists>t item r a. sample_completion = (t, Inr (Completed item))
    \<and> authorized sample_connecting 0 ''st'' [] sample_attempt_db r a
    \<and> (\<exists>a' \<in> set (accounts t). ac_public_id a' = ac_public_id a \<and> ac_status a' = ''active'')"
proof -
  obtain t item where run: "sample_completion = (t, Inr (Completed item))" using sample_completed by blast
  from oauth_completion_sound [OF run] run show ?thesis by (fastforce simp: unix_milli_def)
qed

end
