(* ===== verification/References.thy ===== *)
theory References
  imports Resource_Versions OAuth_Facts
begin

text \<open>
  Referential integrity: every foreign key of the schema points to a row, in every state that the
  operations of the control plane, of account validation, of OAuth and of the gateway's feedback
  reach.  The deletions refuse or cascade as the schema declares; \<open>within\<close> is what an operation
  on accounts may do.
\<close>

subsection \<open>The invariant\<close>

abbreviation proxy_ids :: "'x db_scheme \<Rightarrow> int set" where
  "proxy_ids s \<equiv> px_id ` set (proxies s)"

abbreviation upstream_ids :: "'x db_scheme \<Rightarrow> int set" where
  "upstream_ids s \<equiv> up_id ` set (upstreams s)"

abbreviation account_ids :: "'x db_scheme \<Rightarrow> int set" where
  "account_ids s \<equiv> ac_id ` set (accounts s)"

abbreviation route_ids :: "'x db_scheme \<Rightarrow> int set" where
  "route_ids s \<equiv> ro_id ` set (routes s)"

definition refers :: "int option \<Rightarrow> int set \<Rightarrow> bool" where
  "refers x ids \<longleftrightarrow> (case x of None \<Rightarrow> True | Some i \<Rightarrow> i \<in> ids)"

definition account_refers :: "'x db_scheme \<Rightarrow> account_row \<Rightarrow> bool" where
  "account_refers s a \<longleftrightarrow> ac_upstream_id a \<in> upstream_ids s \<and> refers (ac_proxy_id a) (proxy_ids s)"

text \<open>The accounts that runtimes, discovered models and OAuth attempts belong to.\<close>

definition children :: "'x control_db_scheme \<Rightarrow> int set" where
  "children s = rt_account_id ` set (runtimes s) \<union> mo_account_id ` set (account_models s)
     \<union> oa_account_id ` set (oauth_attempts s)"

definition refs_ok :: "'x control_db_scheme \<Rightarrow> bool" where
  "refs_ok s \<longleftrightarrow>
     (\<forall>u \<in> set (upstreams s). refers (up_default_proxy u) (proxy_ids s))
     \<and> (\<forall>a \<in> set (accounts s). account_refers s a)
     \<and> (\<forall>c \<in> set (candidates s). ca_route_id c \<in> route_ids s \<and> ca_account_id c \<in> account_ids s)
     \<and> children s \<subseteq> account_ids s"

lemma refers_simps [simp]: "refers None ids" "refers (Some i) ids \<longleftrightarrow> i \<in> ids"
  by (simp_all add: refers_def)

lemma refers_mono: "refers x ids \<Longrightarrow> ids \<subseteq> ids' \<Longrightarrow> refers x ids'"
  by (cases x) auto

lemma lookup_id_refers: "lookup_id key id_of pid rows = Inr i \<Longrightarrow> i \<in> id_of ` set rows"
  by (auto simp: lookup_id_def split: option.splits dest: row_by_Some)

lemma optional_id_refers: "optional_internal_id key id_of pid rows = Inr x \<Longrightarrow> refers x (id_of ` set rows)"
  by (auto simp: optional_internal_id_def dest: lookup_id_refers split: option.splits)

lemma update_where_ids: "(\<And>r. key (f r) = key r) \<Longrightarrow> key ` set (update_where p f rows) = key ` set rows"
  using update_where_keys [of key f p rows] by (metis list.set_map)

lemma update_where_mem: "r' \<in> set (update_where p f rows) \<Longrightarrow> \<exists>r \<in> set rows. r' = r \<or> (p r \<and> r' = f r)"
  by (auto simp: update_where_def)

subsection \<open>What an operation on accounts may do\<close>

definition within :: "'x control_db_scheme \<Rightarrow> 'x control_db_scheme \<Rightarrow> bool" where
  "within s t \<longleftrightarrow>
     proxies t = proxies s \<and> upstreams t = upstreams s \<and> routes t = routes s \<and> candidates t = candidates s
     \<and> account_ids t = account_ids s
     \<and> (\<forall>a' \<in> set (accounts t). account_refers s a'
          \<or> (\<exists>a \<in> set (accounts s). ac_upstream_id a' = ac_upstream_id a \<and> ac_proxy_id a' = ac_proxy_id a))
     \<and> children t \<subseteq> children s \<union> account_ids s"

lemma within_ok:
  assumes "within s t" "refs_ok s"
  shows "refs_ok t"
proof -
  have "account_refers t a'" if "a' \<in> set (accounts t)" for a'
    using assms that unfolding within_def refs_ok_def by (fastforce simp: account_refers_def)
  moreover have "children t \<subseteq> account_ids t" using assms unfolding within_def refs_ok_def by blast
  ultimately show ?thesis using assms by (simp add: within_def refs_ok_def)
qed

lemma within_refl: "within s s"
  unfolding within_def by blast

lemma within_trans:
  assumes "within s t" "within t u"
  shows "within s u"
proof -
  have "account_refers s a'
      \<or> (\<exists>a \<in> set (accounts s). ac_upstream_id a' = ac_upstream_id a \<and> ac_proxy_id a' = ac_proxy_id a)"
    if "a' \<in> set (accounts u)" for a'
  proof -
    from assms(2) that consider "account_refers t a'"
      | a where "a \<in> set (accounts t)" "ac_upstream_id a' = ac_upstream_id a" "ac_proxy_id a' = ac_proxy_id a"
      unfolding within_def by blast
    then show ?thesis using assms(1) unfolding within_def by cases (auto simp: account_refers_def)
  qed
  moreover have "children u \<subseteq> children s \<union> account_ids s" using assms unfolding within_def by blast
  ultimately show ?thesis using assms by (simp add: within_def)
qed

lemma within_audit: "audit_only s t \<Longrightarrow> within s t"
  using within_refl [of s] by (simp add: within_def account_refers_def children_def)

lemma within_record_audit: "within s (record_audit env now ev tk ti oc md s)"
  using record_audit_cases [of env now ev tk ti oc md s] within_audit within_refl by metis

lemma within_write:
  assumes "\<And>r. ac_id (f r) = ac_id r" "\<And>r. p r \<Longrightarrow> account_refers s (f r)
    \<or> (ac_upstream_id (f r) = ac_upstream_id r \<and> ac_proxy_id (f r) = ac_proxy_id r)"
  shows "within s (write_accounts p f s)"
  using update_where_ids [of ac_id f p "accounts s"] assms
  by (auto simp: within_def write_accounts_def children_def dest!: update_where_mem)

lemma within_children:
  assumes "proxies t = proxies s" "upstreams t = upstreams s" "routes t = routes s" "candidates t = candidates s"
    and "accounts t = accounts s" "children t \<subseteq> children s \<union> account_ids s"
  shows "within s t"
  using assms by (auto simp: within_def)

lemma upsert_ids:
  assumes "\<And>r. rt_account_id (f r) = rt_account_id r" "rt_account_id new = k"
  shows "rt_account_id ` set (upsert (\<lambda>r. rt_account_id r = k) new f rows) \<subseteq> insert k (rt_account_id ` set rows)"
  using assms by (induction rows) auto

lemma within_runtimes:
  assumes "account \<in> account_ids s" "\<And>rows. rt_account_id ` set (f rows) \<subseteq> insert account (rt_account_id ` set rows)"
  shows "within s (s\<lparr>runtimes := f (runtimes s)\<rparr>)"
  by (rule within_children) (use assms in \<open>auto simp: children_def\<close>)

lemma within_on_runtime:
  assumes "\<And>rows. rt_account_id ` set (f rows) \<subseteq> insert account (rt_account_id ` set rows)"
  shows "within s (on_runtime account f s)"
  using within_runtimes [OF _ assms] within_refl by (auto simp: on_runtime_def list_ex_iff)

lemma record_backoff_within: "within s (record_backoff jitter now account code base maximum s)"
  unfolding record_backoff_def
proof (rule within_on_runtime)
  let ?new = "\<lparr>rt_account_id = account, rt_failure_streak = 1, rt_cooldown_until = None,
             rt_quota_reset = None, rt_last_success = None, rt_last_error = Some (unix_milli now),
             rt_last_error_code = Some code, rt_updated = unix_milli now\<rparr>"
  fix rows
  let ?rows = "upsert (\<lambda>r. rt_account_id r = account) ?new
    (\<lambda>r. r\<lparr>rt_failure_streak := rt_failure_streak r + 1, rt_last_error := Some (unix_milli now),
      rt_last_error_code := Some code, rt_updated := unix_milli now\<rparr>) rows"
  have "rt_account_id ` set (update_where p f ?rows) = rt_account_id ` set ?rows"
    if "\<And>r. rt_account_id (f r) = rt_account_id r" for p f
    using that by (rule update_where_ids)
  moreover have "rt_account_id ` set ?rows \<subseteq> insert account (rt_account_id ` set rows)"
    by (rule upsert_ids) simp_all
  ultimately show "rt_account_id ` set (let rows = ?rows;
        streak = (case row_by rt_account_id account rows of None \<Rightarrow> 0 | Some r \<Rightarrow> rt_failure_streak r);
        until = unix_milli (now + jitter (backoff_limit streak base maximum))
      in update_where (\<lambda>r. rt_account_id r = account)
           (\<lambda>r. r\<lparr>rt_cooldown_until := Some until, rt_updated := unix_milli now\<rparr>) rows)
    \<subseteq> insert account (rt_account_id ` set rows)"
    by (simp add: Let_def)
qed

lemma record_error_within: "within s (record_runtime_error now account code cooldown quota s)"
  unfolding record_runtime_error_def by (rule within_on_runtime, rule upsert_ids) simp_all

lemma record_success_within: "within s (record_success now account s)"
  unfolding record_success_def by (rule within_on_runtime, rule upsert_ids) simp_all

lemma demote_within: "within s (demote_account now account s)"
proof -
  have "within s (write_accounts (\<lambda>a. ac_id a = account \<and> ac_status a = ''active'')
      (\<lambda>a. a\<lparr>ac_status := ''reauth_required'', ac_version := ac_version a + 1, ac_updated := now\<rparr>) s)"
    by (rule within_write) simp_all
  then show ?thesis by (simp add: write_accounts_def demote_account_def)
qed

lemma record_failure_within: "within s (record_failure jitter now c f s)"
  by (simp add: record_failure_def Let_def record_backoff_within record_error_within within_refl
      within_trans [OF demote_within record_error_within])

subsection \<open>Validation, OAuth and the other writers of accounts\<close>

lemma clear_runtime_within: "account \<in> account_ids s \<Longrightarrow> within s (clear_runtime account now s)"
  unfolding clear_runtime_def by (rule within_runtimes, assumption, rule upsert_ids) simp_all

lemma insert_models_ids:
  "mo_account_id ` set (fold (insert_model account now) models rows) \<subseteq> insert account (mo_account_id ` set rows)"
proof (induction models arbitrary: rows)
  case (Cons m models)
  have "mo_account_id ` set (insert_model account now m rows) = insert account (mo_account_id ` set rows)"
    by (auto simp: insert_model_def)
  with Cons.IH [of "insert_model account now m rows"] show ?case by simp
qed auto

lemma replace_models_within: "account \<in> account_ids s \<Longrightarrow> within s (replace_models account now models s)"
  using insert_models_ids [of account now models "filter (\<lambda>r. mo_account_id r \<noteq> account) (account_models s)"]
  by (intro within_children) (auto simp: replace_models_def children_def)

lemma accounts_of_replaced [simp]: "accounts (replace_models account now models s) = accounts s"
  by (simp add: replace_models_def)

text \<open>The identifier that is read back belongs to the row that was written.\<close>

lemma internal_id_known:
  assumes "r \<in> set (accounts s)" "ac_public_id r = pid" "\<And>r. ac_public_id (f r) = ac_public_id r"
  shows "internal_id pid (write_accounts p f s) \<in> account_ids (write_accounts p f s)"
proof -
  have "ac_public_id ` set (update_where p f (accounts s)) = ac_public_id ` set (accounts s)"
    by (rule update_where_ids) (rule assms(3))
  moreover have "pid \<in> ac_public_id ` set (accounts s)" using assms(1,2) by blast
  ultimately have "row_by ac_public_id pid (accounts (write_accounts p f s)) \<noteq> None"
    by (simp add: row_by_None write_accounts_def)
  then show ?thesis by (auto simp: internal_id_def dest: row_by_Some split: option.split)
qed

lemma settle_within:
  assumes "account \<in> account_ids s"
  shows "within s (clear_runtime account now (replace_models account now models s))"
  by (rule within_trans [OF replace_models_within [OF assms] clear_runtime_within]) (simp add: assms)

lemma begin_validation_within:
  assumes "begin_account_validation env who pid v s = Inr (item, t)"
  shows "within s t"
proof -
  let ?f = "\<lambda>r. r\<lparr>ac_status := ''validating'', ac_version := ac_version r + 1, ac_updated := unix_milli (env_clock env 0)\<rparr>"
  let ?p = "\<lambda>r. at_version pid v r \<and> ac_status r \<noteq> ''validating''"
  from assms have "audit_only (write_accounts ?p ?f s) t"
    by (auto simp: begin_account_validation_def Let_def dest!: audit_outcome_Inr split: if_splits)
  moreover have "within s (write_accounts ?p ?f s)" by (rule within_write) simp_all
  ultimately show ?thesis using within_trans within_audit by blast
qed

lemma finish_validation_within:
  assumes "finish_account_validation env who pid v r code s = Inr (item, t)"
  shows "within s t"
proof -
  from assms obtain identity capability models where
      "commit_validation env who pid v identity capability models code s = Inr (item, t)"
    by (auto simp: finish_account_validation_def split: option.splits if_splits)
  moreover define now where "now = unix_milli (env_clock env 0)"
  moreover define ok where "ok \<longleftrightarrow> models \<noteq> None"
  moreover define f where "f = finished_account ok identity capability now"
  moreover define s1 where "s1 = write_accounts (finishable pid v ok) f s"
  moreover define s2 where "s2 = (if ok then clear_runtime (internal_id pid s1) now
    (replace_models (internal_id pid s1) now (case models of None \<Rightarrow> [] | Some ms \<Rightarrow> ms) s1) else s1)"
  ultimately have aud: "audit_only s2 t" and ex: "\<exists>r \<in> set (accounts s). finishable pid v ok r"
    using filter_one_ex [of "finishable pid v ok" "accounts s"]
    by (auto simp: commit_validation_def Let_def dest!: audit_outcome_Inr split: if_splits)
  have s1: "within s s1"
    unfolding s1_def by (rule within_write) (simp_all add: f_def finished_account_def)
  from ex obtain r where "r \<in> set (accounts s)" "ac_public_id r = pid" by (auto simp: finishable_def at_version_def)
  then have known: "internal_id pid s1 \<in> account_ids s1"
    unfolding s1_def by (rule internal_id_known) (simp add: f_def finished_account_def)
  have "within s1 s2"
    unfolding s2_def by (cases ok) (simp_all only: if_True if_False within_refl settle_within [OF known])
  with s1 aud show ?thesis using within_trans within_audit by blast
qed

lemma recover_one_within:
  assumes "recover_one now ids (n, pid) s = Inr t"
  shows "within s t"
proof -
  let ?p = "\<lambda>r. ac_public_id r = pid \<and> ac_status r = ''validating''"
  let ?f = "\<lambda>r. r\<lparr>ac_status := ''invalid'', ac_last_validated := Some now, ac_version := ac_version r + 1,
    ac_updated := now\<rparr>"
  from assms have "audit_only (write_accounts ?p ?f s) t"
    by (auto simp: recover_one_def Let_def dest!: audit_outcome_Inr split: if_splits)
  moreover have "within s (write_accounts ?p ?f s)" by (rule within_write) simp_all
  ultimately show ?thesis using within_trans within_audit by blast
qed

lemma complete_oauth_within:
  assumes "complete_oauth_account c render nonce env who attempt pid v p w s = Inr (item, t)"
  shows "within s t"
proof -
  define now where "now = unix_milli (env_clock env 1)"
  from assms obtain cred identity models where
    ok: "checked_oauth c render nonce (unix_milli (env_clock env 0)) pid p w = Inr (cred, identity, models)"
    by (auto simp: complete_oauth_account_def)
  define f where "f = connected_account cred (expires_at p) identity (av_capability w) now"
  define s1 where "s1 = write_accounts (connectable pid v) f s"
  define s2 where "s2 = clear_runtime (internal_id pid s1) now (replace_models (internal_id pid s1) now models s1)"
  define s3 where "s3 = s2\<lparr>oauth_attempts := update_where (consumable attempt (internal_id pid s1) now)
    (\<lambda>r. r\<lparr>oa_status := ''consumed'', oa_consumed := Some now\<rparr>) (oauth_attempts s2)\<rparr>"
  note parts = assms [unfolded complete_oauth_account_def ok and_then_simps prod.case Let_def,
      folded now_def, folded f_def, folded s1_def, folded s2_def, folded s3_def]
  have one: "length (filter (connectable pid v) (accounts s)) = 1"
    and att: "length (filter (consumable attempt (internal_id pid s1) now) (oauth_attempts s2)) = 1"
    using parts by (simp_all split: if_splits)
  from parts one att have aud: "audit_only s3 t" by (auto dest: audit_outcome_Inr)
  have s1: "within s s1"
    unfolding s1_def by (rule within_write) (simp_all add: f_def connected_account_def)
  from filter_one_ex [OF one] obtain r where "r \<in> set (accounts s)" "ac_public_id r = pid"
    by (auto simp: connectable_def at_version_def)
  then have "internal_id pid s1 \<in> account_ids s1"
    unfolding s1_def by (rule internal_id_known) (simp add: f_def connected_account_def)
  then have s2: "within s1 s2" unfolding s2_def by (rule settle_within)
  have "oa_account_id ` set (oauth_attempts s3) = oa_account_id ` set (oauth_attempts s2)"
    by (simp add: s3_def update_where_ids)
  then have "within s2 s3" by (intro within_children) (auto simp: s3_def children_def)
  with s1 s2 aud show ?thesis using within_trans within_audit by blast
qed

lemma refresh_finish_within:
  assumes "refresh_finish svc nonce env force rq answer s = (t, r)"
  shows "within s t"
proof -
  have "within s (write_accounts (refreshable rq) (refreshed_account e x now) s)" for e x now
    by (rule within_write) (simp_all add: refreshed_account_def)
  then have stored: "within s (record_audit env a ev tk ti oc md
      (write_accounts (refreshable rq) (refreshed_account e x now) s))" for a ev tk ti oc md e x now
    using within_trans within_record_audit by blast
  have "within s (mark_reauth_required env c version s)" for c version
    unfolding mark_reauth_required_def by (rule within_trans [OF within_write within_record_audit]) simp_all
  with assms stored show ?thesis
    by (auto simp: refresh_finish_def store_token_def Let_def intro: within_refl split: sum.splits if_splits)
qed

lemma update_account_within:
  assumes "update_account c render nonce env who pid v i before s = Inr (item, t)"
  shows "within s t"
proof -
  from assms obtain j cred where "commit_update_account env who pid v j cred s = Inr (item, t)"
    by (auto simp: update_account_def)
  then obtain upstream proxy where
      aud: "audit_only (write_accounts (at_version pid v) (updated_account j upstream proxy cred (unix_milli (env_clock env 1))) s) t"
    and found: "lookup_id up_public_id up_id (in_upstream j) (upstreams s) = Inr upstream"
      "optional_internal_id px_public_id px_id (in_proxy j) (proxies s) = Inr proxy"
    by (rule commit_update_account_Inr)
  have "within s (write_accounts (at_version pid v) (updated_account j upstream proxy cred (unix_milli (env_clock env 1))) s)"
    by (rule within_write)
      (simp_all add: updated_account_def account_refers_def lookup_id_refers [OF found(1)] optional_id_refers [OF found(2)])
  with aud show ?thesis using within_trans within_audit by blast
qed

subsection \<open>Attempts\<close>

lemma within_attempts:
  assumes "oa_account_id ` set rows \<subseteq> oa_account_id ` set (oauth_attempts s) \<union> account_ids s"
  shows "within s (s\<lparr>oauth_attempts := rows\<rparr>)"
  by (rule within_children) (use assms in \<open>auto simp: children_def\<close>)

lemma attempt_update_within:
  assumes "\<And>r. oa_account_id (f r) = oa_account_id r"
  shows "within s (s\<lparr>oauth_attempts := update_where p f (oauth_attempts s)\<rparr>)"
  using update_where_ids [of oa_account_id f p "oauth_attempts s", OF assms] by (intro within_attempts) simp

lemma insert_attempt_within:
  assumes "insert_attempt svc env who session account c pid verifier pkce now s = Inr t"
  shows "within s t"
proof -
  from assms obtain se where se: "find_live_session session (unix_milli now) s = Some se"
    by (auto simp: insert_attempt_def split: option.splits)
  from assms se obtain a where a: "find (\<lambda>r. at_version account (account_version c) r \<and> ac_auth_kind r = ''oauth'')
      (accounts s) = Some a"
    by (auto simp: insert_attempt_def split: option.splits)
  define rows where "rows = update_where (\<lambda>r. oa_account_id r = ac_id a \<and> oa_status r = ''pending'')
    (\<lambda>r. r\<lparr>oa_status := ''cancelled'', oa_consumed := Some (unix_milli now)\<rparr>) (oauth_attempts s)"
  from assms [unfolded insert_attempt_def se a option.case Let_def, folded rows_def]
  have aud: "audit_only (s\<lparr>oauth_attempts := new_attempt pid (se_id se) (ac_id a) verifier pkce
      (egress_fingerprint svc c) now rows\<rparr>) t"
    by (auto split: if_splits dest: audit_outcome_Inr)
  have "oa_account_id ` set rows = oa_account_id ` set (oauth_attempts s)"
    unfolding rows_def by (rule update_where_ids) simp
  moreover have "a \<in> set (accounts s)" using a by (auto simp: find_Some_iff in_set_conv_nth)
  ultimately have "within s (s\<lparr>oauth_attempts := new_attempt pid (se_id se) (ac_id a) verifier pkce
      (egress_fingerprint svc c) now rows\<rparr>)"
    by (intro within_attempts) (auto simp: new_attempt_def)
  with aud show ?thesis using within_trans within_audit by blast
qed

lemma cancel_attempt_within:
  assumes "cancel_attempt env who session pid s = Inr t"
  shows "within s t"
proof -
  from assms have "audit_only (s\<lparr>oauth_attempts := update_where (cancellable s session pid)
      (\<lambda>r. r\<lparr>oa_status := ''cancelled'', oa_consumed := Some (unix_milli (env_clock env 0))\<rparr>) (oauth_attempts s)\<rparr>) t"
    by (auto simp: cancel_attempt_def intro: audit_outcome_Inr split: if_splits)
  then show ?thesis by (rule within_trans [OF attempt_update_within within_audit, rotated]) simp
qed

lemma commit_claim_within: "commit_claim now cl s = Inr t \<Longrightarrow> within s t"
  by (drule commit_claim_Inr, erule conjE, hypsubst, rule attempt_update_within) simp

lemma fail_attempt_within: "within s (fail_attempt env pid reason s)"
  unfolding fail_attempt_def by (rule within_trans [OF attempt_update_within within_record_audit]) simp

lemma recover_attempts_within: "within s (recover_attempts now s)"
  unfolding recover_attempts_def by (rule attempt_update_within) simp

lemma cleanup_attempts_within: "within s (cleanup_expired_attempts now s)"
  unfolding cleanup_expired_attempts_def by (rule within_attempts) auto

subsection \<open>New and deleted rows\<close>

lemma references_audit: "audit_only s t \<Longrightarrow> refs_ok s \<Longrightarrow> refs_ok t"
  using within_ok within_audit by blast

lemmas reference_defs = refs_ok_def account_refers_def children_def

lemma create_proxy_refs:
  assumes "create_proxy net first c n1 n2 env who i s = Inr (item, t)" "refs_ok s"
  shows "refs_ok t"
proof -
  from assms(1) obtain r where "audit_only (s\<lparr>proxies := proxies s @ [r]\<rparr>) t" by (rule create_proxy_Inr)
  moreover have "refs_ok (s\<lparr>proxies := proxies s @ [r]\<rparr>)"
    using assms(2) by (auto simp: reference_defs intro: refers_mono)
  ultimately show ?thesis using references_audit by blast
qed

lemma update_proxy_refs:
  assumes "update_proxy net first c n1 n2 env who pid v i before s = Inr (item, t)" "refs_ok s"
  shows "refs_ok t"
proof -
  from assms(1) obtain j username password now where
      aud: "audit_only (write_proxies (proxy_at pid v) (updated_proxy j username password now) s) t"
    by (rule update_proxy_Inr)
  have "px_id ` set (update_where (proxy_at pid v) (updated_proxy j username password now) (proxies s)) = proxy_ids s"
    by (rule update_where_ids) (simp add: updated_proxy_def)
  then have "refs_ok (write_proxies (proxy_at pid v) (updated_proxy j username password now) s)"
    using assms(2) by (simp add: reference_defs write_proxies_def)
  with aud show ?thesis using references_audit by blast
qed

lemma delete_proxy_refs:
  assumes "delete_proxy env who pid v s = Inr t" "refs_ok s"
  shows "refs_ok t"
proof -
  note gone = delete_proxy_Inr [OF assms(1)]
  define ids where "ids = px_id ` set (filter (\<lambda>r. \<not> proxy_at pid v r) (proxies s))"
  have kept: "refers x ids" if x: "refers x (proxy_ids s)"
    and used: "\<And>r. r \<in> set (proxies s) \<Longrightarrow> x = Some (px_id r) \<Longrightarrow> proxy_referenced s r" for x
  proof (cases x)
    case (Some i)
    with x obtain r where r: "r \<in> set (proxies s)" "i = px_id r" by auto
    then have "\<not> proxy_at pid v r" using used Some gone(3) by blast
    with r Some show ?thesis by (auto simp: ids_def)
  qed simp
  have "refers (up_default_proxy u) ids" if "u \<in> set (upstreams s)" for u
    by (rule kept) (use that assms(2) in \<open>auto simp: reference_defs proxy_referenced_def list_ex_iff\<close>)
  moreover have "refers (ac_proxy_id a) ids" if "a \<in> set (accounts s)" for a
    by (rule kept) (use that assms(2) in \<open>auto simp: reference_defs proxy_referenced_def list_ex_iff\<close>)
  ultimately have "refs_ok (s\<lparr>proxies := filter (\<lambda>r. \<not> proxy_at pid v r) (proxies s)\<rparr>)"
    using assms(2) unfolding ids_def by (simp add: reference_defs)
  then show ?thesis using gone(1) references_audit by blast
qed

lemma create_upstream_refs:
  assumes "create_upstream net env who i s = Inr (item, t)" "refs_ok s"
  shows "refs_ok t"
proof -
  from assms(1) obtain r p where aud: "audit_only (s\<lparr>upstreams := upstreams s @ [r]\<rparr>) t"
    and "optional_internal_id px_public_id px_id p (proxies s) = Inr (up_default_proxy r)"
    by (rule create_upstream_Inr)
  then have "refs_ok (s\<lparr>upstreams := upstreams s @ [r]\<rparr>)"
    using assms(2) optional_id_refers by (fastforce simp: reference_defs)
  with aud show ?thesis using references_audit by blast
qed

lemma update_upstream_refs:
  assumes "update_upstream net env who pid v i s = Inr (item, t)" "refs_ok s"
  shows "refs_ok t"
proof -
  from assms(1) obtain j proxy now p where
      aud: "audit_only (write_upstreams (upstream_at pid v) (updated_upstream j proxy now) s) t"
    and found: "optional_internal_id px_public_id px_id p (proxies s) = Inr proxy"
    by (rule update_upstream_Inr)
  let ?rows = "update_where (upstream_at pid v) (updated_upstream j proxy now) (upstreams s)"
  have "up_id ` set ?rows = upstream_ids s"
    by (rule update_where_ids) (simp add: updated_upstream_def)
  moreover have "refers (up_default_proxy u) (proxy_ids s)" if "u \<in> set ?rows" for u
    using update_where_mem [OF that] optional_id_refers [OF found] assms(2)
    by (auto simp: reference_defs updated_upstream_def)
  ultimately have "refs_ok (write_upstreams (upstream_at pid v) (updated_upstream j proxy now) s)"
    using assms(2) by (simp add: reference_defs write_upstreams_def)
  with aud show ?thesis using references_audit by blast
qed

lemma delete_upstream_refs:
  assumes "delete_upstream recorded env who pid v s = Inr t" "refs_ok s"
  shows "refs_ok t"
proof -
  note gone = delete_upstream_Inr [OF assms(1)]
  have "ac_upstream_id a \<in> up_id ` set (filter (\<lambda>r. \<not> upstream_at pid v r) (upstreams s))"
    if a: "a \<in> set (accounts s)" for a
  proof -
    from assms(2) a obtain u where u: "u \<in> set (upstreams s)" "ac_upstream_id a = up_id u"
      by (auto simp: reference_defs)
    with a have "upstream_referenced recorded s u" by (auto simp: upstream_referenced_def list_ex_iff)
    with u gone(3) show ?thesis by auto
  qed
  then have "refs_ok (s\<lparr>upstreams := filter (\<lambda>r. \<not> upstream_at pid v r) (upstreams s)\<rparr>)"
    using assms(2) by (simp add: reference_defs)
  then show ?thesis using gone(1) references_audit by blast
qed

lemma create_account_refs:
  assumes "create_account c render nonce env who i s = Inr (item, t)" "refs_ok s"
  shows "refs_ok t"
proof -
  from assms(1) obtain j p pid upstream proxy cred now s1 where
    found: "lookup_id up_public_id up_id (in_upstream j) (upstreams s) = Inr upstream"
      "optional_internal_id px_public_id px_id p (proxies s) = Inr proxy"
    and ins: "insert_account pid j upstream proxy cred now s = Inr s1" and aud: "audit_only s1 t"
    by (auto simp: create_account_def audit_outcome_Inr split: option.splits if_splits)
  from ins obtain r where "s1 = s\<lparr>accounts := accounts s @ [r]\<rparr>" "ac_upstream_id r = upstream" "ac_proxy_id r = proxy"
    by (auto simp: insert_account_def split: if_splits)
  then have "refs_ok s1"
    using assms(2) lookup_id_refers [OF found(1)] optional_id_refers [OF found(2)] by (auto simp: reference_defs)
  with aud show ?thesis using references_audit by blast
qed

lemma image_filter_out: "k ` {x \<in> rows. k x \<notin> A} = k ` rows - A"
  by auto

lemma children_drop: "children (drop_accounts p s) = children s - ac_id ` set (filter p (accounts s))"
  by (simp add: children_def drop_accounts_def Let_def image_filter_out Un_Diff)

lemma delete_account_refs:
  assumes "delete_account recorded env who pid v s = Inr t" "refs_ok s"
  shows "refs_ok t"
proof -
  let ?p = "at_version pid v"
  note gone = delete_account_Inr [OF assms(1)]
  have kept: "i \<in> ac_id ` set (filter (\<lambda>r. \<not> ?p r) (accounts s))"
    if "i \<in> account_ids s" "i \<notin> ac_id ` set (filter ?p (accounts s))" for i
    using that by auto
  have "ca_account_id c \<in> ac_id ` set (filter (\<lambda>r. \<not> ?p r) (accounts s))" if "c \<in> set (candidates s)" for c
  proof (rule kept)
    show "ca_account_id c \<in> account_ids s" using assms(2) that by (auto simp: reference_defs)
    show "ca_account_id c \<notin> ac_id ` set (filter ?p (accounts s))"
      using gone that by (auto simp: account_referenced_def list_ex_iff)
  qed
  moreover have "children (drop_accounts ?p s) \<subseteq> ac_id ` set (filter (\<lambda>r. \<not> ?p r) (accounts s))"
  proof
    fix i assume "i \<in> children (drop_accounts ?p s)"
    then have "i \<in> children s" "i \<notin> ac_id ` set (filter ?p (accounts s))"
      unfolding children_drop by blast+
    moreover from this(1) have "i \<in> account_ids s" using assms(2) by (simp only: refs_ok_def) blast
    ultimately show "i \<in> ac_id ` set (filter (\<lambda>r. \<not> ?p r) (accounts s))" by (intro kept)
  qed
  ultimately have "refs_ok (drop_accounts ?p s)"
    using assms(2) by (simp add: refs_ok_def account_refers_def drop_accounts_def Let_def)
  with gone show ?thesis using references_audit by blast
qed

lemma create_route_refs:
  assumes "create_model_route env who i s = Inr (item, t)" "refs_ok s"
  shows "refs_ok t"
proof -
  from assms(1) obtain r new where aud: "audit_only (s\<lparr>routes := routes s @ [r], candidates := candidates s @ new\<rparr>) t"
    and "\<forall>x \<in> set new. ca_route_id x = ro_id r \<and> ca_account_id x \<in> account_ids s"
    by (rule create_route_Inr)
  then have "refs_ok (s\<lparr>routes := routes s @ [r], candidates := candidates s @ new\<rparr>)"
    using assms(2) by (auto simp: reference_defs)
  with aud show ?thesis using references_audit by blast
qed

lemma update_route_refs:
  assumes "update_model_route env who pid v i s = Inr (item, t)" "refs_ok s"
  shows "refs_ok t"
proof -
  from assms(1) obtain j now rid new where
      aud: "audit_only ((write_routes (route_at pid v) (updated_route j now) s)
        \<lparr>candidates := filter (\<lambda>r. ca_route_id r \<noteq> rid) (candidates s) @ new\<rparr>) t"
    and new: "rid \<in> route_ids s" "\<forall>x \<in> set new. ca_route_id x = rid \<and> ca_account_id x \<in> account_ids s"
    by (rule update_route_Inr)
  have "ro_id ` set (update_where (route_at pid v) (updated_route j now) (routes s)) = route_ids s"
    by (rule update_where_ids) (simp add: updated_route_def)
  then have "refs_ok ((write_routes (route_at pid v) (updated_route j now) s)
      \<lparr>candidates := filter (\<lambda>r. ca_route_id r \<noteq> rid) (candidates s) @ new\<rparr>)"
    using assms(2) new by (auto simp: reference_defs write_routes_def)
  with aud show ?thesis using references_audit by blast
qed

lemma delete_route_refs:
  assumes "delete_model_route env who pid v s = Inr t" "refs_ok s"
  shows "refs_ok t"
proof -
  from assms(1) obtain r where aud: "audit_only (s\<lparr>candidates := filter (\<lambda>x. ca_route_id x \<noteq> ro_id r) (candidates s),
      routes := filter (\<lambda>x. ro_id x \<noteq> ro_id r) (routes s)\<rparr>) t"
    and "row_by ro_public_id pid (routes s) = Some r" "ro_version r = v"
    by (rule delete_route_Inr)
  have "refs_ok (s\<lparr>candidates := filter (\<lambda>x. ca_route_id x \<noteq> ro_id r) (candidates s),
      routes := filter (\<lambda>x. ro_id x \<noteq> ro_id r) (routes s)\<rparr>)"
    using assms(2) by (force simp: reference_defs)
  with aud show ?thesis using references_audit by blast
qed

subsection \<open>Every operation that writes\<close>

text \<open>
  One step of the process on the tables: a request of the administrator, a phase of a validation,
  of an OAuth attempt or of a token refresh, the gateway's feedback on an account, the sweeps and
  the recovery at a start; \<open>elsewhere\<close> is every operation that leaves these tables as they are.
\<close>

inductive db_step :: "'x auth_db_scheme \<Rightarrow> 'x auth_db_scheme \<Rightarrow> bool" where
  proxy_created: "create_proxy net first c n1 n2 env who pi s = Inr (p, t) \<Longrightarrow> db_step s t"
| proxy_updated: "update_proxy net first c n1 n2 env who pid v pi before s = Inr (p, t) \<Longrightarrow> db_step s t"
| proxy_deleted: "delete_proxy env who pid v s = Inr t \<Longrightarrow> db_step s t"
| upstream_created: "create_upstream net env who ui s = Inr (u, t) \<Longrightarrow> db_step s t"
| upstream_updated: "update_upstream net env who pid v ui s = Inr (u, t) \<Longrightarrow> db_step s t"
| upstream_deleted: "delete_upstream recorded env who pid v s = Inr t \<Longrightarrow> db_step s t"
| account_created: "create_account c render nonce env who ai s = Inr (a, t) \<Longrightarrow> db_step s t"
| account_updated: "update_account c render nonce env who pid v ai before s = Inr (a, t) \<Longrightarrow> db_step s t"
| account_deleted: "delete_account recorded env who pid v s = Inr t \<Longrightarrow> db_step s t"
| route_created: "create_model_route env who ri s = Inr (r, t) \<Longrightarrow> db_step s t"
| route_updated: "update_model_route env who pid v ri s = Inr (r, t) \<Longrightarrow> db_step s t"
| route_deleted: "delete_model_route env who pid v s = Inr t \<Longrightarrow> db_step s t"
| validation_begun: "begin_account_validation env who pid v s = Inr (a, t) \<Longrightarrow> db_step s t"
| validation_finished: "finish_account_validation env who pid v outcome code s = Inr (a, t) \<Longrightarrow> db_step s t"
| validation_recovered: "recover_one now ids k s = Inr t \<Longrightarrow> db_step s t"
| attempt_inserted: "insert_attempt svc env who session account cd pid verifier pkce at s = Inr t \<Longrightarrow> db_step s t"
| attempt_cancelled: "cancel_attempt env who session pid s = Inr t \<Longrightarrow> db_step s t"
| attempt_claimed: "commit_claim now cl s = Inr t \<Longrightarrow> db_step s t"
| attempt_failed: "db_step s (fail_attempt env pid reason s)"
| attempt_completed: "complete_oauth_account c render nonce env who attempt pid v p w s = Inr (a, t) \<Longrightarrow> db_step s t"
| attempts_recovered: "db_step s (recover_attempts now s)"
| attempts_cleaned: "db_step s (cleanup_expired_attempts now s)"
| token_refreshed: "refresh_finish svc nonce env force rq answer s = (t, outcome) \<Longrightarrow> db_step s t"
| succeeded: "db_step s (record_success now account s)"
| failed: "db_step s (record_failure jitter now cd f s)"
| elsewhere: "proxies t = proxies s \<Longrightarrow> upstreams t = upstreams s \<Longrightarrow> accounts t = accounts s \<Longrightarrow> routes t = routes s \<Longrightarrow>
    candidates t = candidates s \<Longrightarrow> children t \<subseteq> children s \<Longrightarrow> db_step s t"

lemma db_step_refs:
  assumes "db_step s t" "refs_ok s"
  shows "refs_ok t"
  using assms(1)
proof cases
  case (validation_recovered now ids k)
  then show ?thesis using assms(2) by (cases k) (auto intro: within_ok recover_one_within)
next
  case elsewhere
  then have "within s t" by (intro within_children) auto
  then show ?thesis using assms(2) by (rule within_ok)
qed (use assms(2) in \<open>auto intro: create_proxy_refs update_proxy_refs delete_proxy_refs create_upstream_refs
    update_upstream_refs delete_upstream_refs create_account_refs delete_account_refs create_route_refs
    update_route_refs delete_route_refs
    within_ok [OF update_account_within] within_ok [OF begin_validation_within] within_ok [OF finish_validation_within]
    within_ok [OF insert_attempt_within] within_ok [OF cancel_attempt_within] within_ok [OF commit_claim_within]
    within_ok [OF fail_attempt_within] within_ok [OF complete_oauth_within] within_ok [OF recover_attempts_within]
    within_ok [OF cleanup_attempts_within] within_ok [OF refresh_finish_within] within_ok [OF record_success_within]
    within_ok [OF record_failure_within]\<close>)

subsection \<open>Property\<close>

text \<open>
  Referential integrity: in every state that any sequence of operations of the control plane,
  of account validation, of OAuth and of the gateway's feedback reaches, each successful or not,
  every upstream and account refers to a proxy that exists, every account to an upstream, every
  candidate to a route and an account, and every runtime, discovered model and OAuth attempt to an
  account.  No deletion leaves a reference behind, and nothing that is decided on an older snapshot
  writes one.
\<close>

theorem references_stay_ok:
  assumes "refs_ok s" "db_step\<^sup>*\<^sup>* s t"
  shows "refs_ok t"
  using assms(2,1) by (induction rule: rtranclp_induct) (auto intro: db_step_refs)

theorem references_stay_ok_witness: "refs_ok sample_claimed_db"
proof -
  have "refs_ok sample_attempt_db"
    by (simp add: reference_defs sample_attempt_db_def sample_draft_def sample_attempt_def sample_oauth_db_def
        sample_google_def sample_google_upstream_def db.defs control_db.defs auth_db.defs)
  moreover have "db_step sample_attempt_db sample_claimed_db"
    using sample_step1 by (auto simp: claim_attempt_def intro: attempt_claimed)
  ultimately show ?thesis using references_stay_ok by blast
qed

end
