(* ===== verification/Overview.thy ===== *)
theory Overview
  imports References
begin

text \<open>
  \<open>internal/control/overview.go\<close>: the dashboard and the audit trail; and the listings of the
  control plane, which all show every row of their table.
\<close>

subsection \<open>The dashboard\<close>

record dashboard_info =
  da_ready :: bool
  da_totp :: bool
  da_counts :: "(string \<times> nat) list"
  da_warnings :: "string list"

text \<open>\<open>reachable\<close> is the answer of \<open>PingContext\<close>, \<open>requests\<close> the number of request records.\<close>

definition dashboard :: "bool \<Rightarrow> nat \<Rightarrow> 'x auth_db_scheme \<Rightarrow> control_error + dashboard_info" where
  "dashboard reachable requests s =
     (if \<not> reachable then Inl (Failure ''ping'')
      else
        (case admin_user s of
           None \<Rightarrow> Inl (Failure ''no rows'')
         | Some a \<Rightarrow>
             Inr \<lparr>da_ready = True, da_totp = ad_totp_enabled a,
                  da_counts = [(''proxies'', length (proxies s)), (''upstreams'', length (upstreams s)),
                    (''accounts'', length (accounts s)), (''model_routes'', length (routes s)),
                    (''client_keys'', length (client_keys s)), (''requests'', requests)],
                  da_warnings = (if ad_totp_enabled a then [] else [''admin_totp_disabled''])\<rparr>))"

subsection \<open>The audit trail\<close>

record audit_event =
  ev_id :: string
  ev_type :: string
  ev_actor_kind :: string
  ev_actor_id :: "string option"
  ev_target_kind :: "string option"
  ev_target_id :: "string option"
  ev_request_id :: "string option"
  ev_outcome :: string
  ev_metadata :: members
  ev_created :: ms

text \<open>
  The column \<open>outcome\<close> is \<open>NOT NULL\<close>.  The metadata is read into a map: an object, or \<open>null\<close>,
  which leaves the map empty.
\<close>

definition scan_audit :: "(string \<Rightarrow> lexeme list) \<Rightarrow> audit_row \<Rightarrow> control_error + audit_event" where
  "scan_audit scan r =
     (case ae_outcome r of
        None \<Rightarrow> Inl (Failure ''scan'')
      | Some outcome \<Rightarrow>
          (case unmarshal (scan (ae_metadata r)) of
             Some v \<Rightarrow>
               (case (case v of JObj ms \<Rightarrow> Some ms | JNull \<Rightarrow> Some [] | _ \<Rightarrow> None) of
                  None \<Rightarrow> Inl (Failure ''metadata'')
                | Some ms \<Rightarrow>
                    Inr \<lparr>ev_id = ae_public_id r, ev_type = ae_event r, ev_actor_kind = ae_actor_kind r,
                         ev_actor_id = ae_actor_id r, ev_target_kind = ae_target_kind r,
                         ev_target_id = ae_target_id r, ev_request_id = ae_request_id r, ev_outcome = outcome,
                         ev_metadata = ms, ev_created = ae_created r\<rparr>)
           | None \<Rightarrow> Inl (Failure ''metadata'')))"

definition audit_position :: "audit_row \<Rightarrow> cursor" where
  "audit_position r = (ae_created r, ae_id r)"

fun scan_all :: "('r \<Rightarrow> 'e + 'i) \<Rightarrow> 'r list \<Rightarrow> 'e + 'i list" where
  "scan_all scan [] = Inr []"
| "scan_all scan (r # rs) = and_then (scan r) (\<lambda>i. and_then (scan_all scan rs) (\<lambda>items. Inr (i # items)))"

text \<open>The row beyond the limit is not read further than its position.\<close>

definition list_audit_events ::
  "(string \<Rightarrow> lexeme list) \<Rightarrow> 'x control_db_scheme \<Rightarrow> int \<Rightarrow> string \<Rightarrow> control_error + (audit_event list \<times> string)"
where
  "list_audit_events scan s limit start =
     (case decode_cursor start of
        None \<Rightarrow> Inl (Validation ''cursor'' ''is invalid'')
      | Some c \<Rightarrow>
          let limit = normalize_limit limit; found = select_page audit_position c (limit + 1) (audit_events s) in
          and_then (scan_all (scan_audit scan) (take limit found)) (\<lambda>items.
            Inr (items, if limit < length found then encode_cursor (audit_position (found ! (limit - 1))) else [])))"

subsection \<open>Every listing shows every row\<close>

lemma scan_all_Inr: "\<forall>r \<in> set rows. scan r = Inr (view r) \<Longrightarrow> scan_all scan rows = Inr (map view rows)"
  by (induction rows) simp_all

lemma scan_routes_all: "scan_routes s rows = scan_all (scan_route s) rows"
  by (induction rows) simp_all

lemma cut_page_eq:
  assumes "\<forall>r \<in> set rows. scan r = Inr (view r)" "0 < n"
  shows "and_then (scan_all scan (take n (select_page pos c (n + 1) rows))) (\<lambda>items.
      Inr (items, if n < length (select_page pos c (n + 1) rows)
        then encode_cursor (pos (select_page pos c (n + 1) rows ! (n - 1))) else [])) =
    Inr (map view (take n (after_cursor pos c rows)),
      if n < length (after_cursor pos c rows) then encode_cursor (pos (after_cursor pos c rows ! (n - 1))) else [])"
proof -
  have "\<forall>r \<in> set (take n (after_cursor pos c rows)). scan r = Inr (view r)"
    using assms(1) set_take_subset by (fastforce simp: after_cursor_def listing_def)
  from scan_all_Inr [OF this] assms(2) show ?thesis
    by (simp add: select_page_after min_def)
qed

text \<open>
  The state of a good database: positions are distinct and in range, and the stored documents are
  readable.
\<close>

definition good_overview :: "(string \<Rightarrow> lexeme list) \<Rightarrow> 'x control_db_scheme \<Rightarrow> bool" where
  "good_overview scan s \<longleftrightarrow>
     positions_ok proxy_position (proxies s) \<and> positions_ok upstream_position (upstreams s)
     \<and> positions_ok account_position (accounts s) \<and> positions_ok route_position (routes s)
     \<and> positions_ok audit_position (audit_events s)
     \<and> list_all (\<lambda>a. upstream_public_of s a \<noteq> None) (accounts s)
     \<and> list_all (\<lambda>r. \<exists>i. scan_route s r = Inr i) (routes s)
     \<and> list_all (\<lambda>r. \<exists>i. scan_audit scan r = Inr i) (audit_events s)"

definition shown :: "('r \<Rightarrow> 'e + 'i) \<Rightarrow> 'r \<Rightarrow> 'i" where
  "shown scan r = projr (scan r)"

lemma shown_Inr: "\<exists>i. scan r = Inr i \<Longrightarrow> scan r = Inr (shown scan r)"
  by (auto simp: shown_def)

lemma normalize_limit_pos: "0 < normalize_limit limit"
  using normalize_limit_range by blast

lemma joined_accounts_all:
  "list_all (\<lambda>a. upstream_public_of s a \<noteq> None) (accounts s) \<Longrightarrow> joined_accounts s = accounts s"
  by (simp add: joined_accounts_def filter_id_conv list_all_iff)

lemma scan_account_Inr: "upstream_public_of s a \<noteq> None \<Longrightarrow> \<exists>i. scan_account s a = Inr i"
  by (auto simp: scan_account_def)

interpretation proxy_listing: keyset proxy_position proxies "\<lambda>s. scan_proxy" "good_overview scan" list_proxies for scan
proof
  fix s :: "'a control_db_scheme" and start c limit
  assume "decode_cursor start = Some c"
  then show "list_proxies s limit start = (let n = normalize_limit limit; todo = after_cursor proxy_position c (proxies s) in
      Inr (map scan_proxy (take n todo), if n < length todo then encode_cursor (proxy_position (todo ! (n - 1))) else []))"
    unfolding list_proxies_def by (rule list_rows_eq) simp
qed (simp add: good_overview_def)

interpretation upstream_listing: keyset upstream_position upstreams scan_upstream "good_overview scan" list_upstreams for scan
proof
  fix s :: "'a control_db_scheme" and start c limit
  assume "decode_cursor start = Some c"
  then show "list_upstreams s limit start =
      (let n = normalize_limit limit; todo = after_cursor upstream_position c (upstreams s) in
       Inr (map (scan_upstream s) (take n todo), if n < length todo then encode_cursor (upstream_position (todo ! (n - 1))) else []))"
    unfolding list_upstreams_def by (rule list_rows_eq) simp
qed (simp add: good_overview_def)

interpretation account_listing: keyset account_position accounts "\<lambda>s. shown (scan_account s)" "good_overview scan" list_accounts
  for scan
proof
  fix s :: "'a control_db_scheme" and start c limit
  assume good: "good_overview scan s" and c: "decode_cursor start = Some c"
  then have all: "list_all (\<lambda>a. upstream_public_of s a \<noteq> None) (accounts s)" by (simp add: good_overview_def)
  then have "\<forall>a \<in> set (accounts s). scan_account s a = Inr (shown (scan_account s) a)"
    unfolding list_all_iff by (intro ballI shown_Inr scan_account_Inr) (rule bspec)
  then show "list_accounts s limit start =
      (let n = normalize_limit limit; todo = after_cursor account_position c (accounts s) in
       Inr (map (shown (scan_account s)) (take n todo), if n < length todo then encode_cursor (account_position (todo ! (n - 1))) else []))"
    unfolding list_accounts_def joined_accounts_all [OF all] by (intro list_rows_eq [OF c])
qed (simp add: good_overview_def)

interpretation route_listing: keyset route_position routes "\<lambda>s. shown (scan_route s)" "good_overview scan" list_model_routes
  for scan
proof
  fix s :: "'a control_db_scheme" and start c limit
  assume good: "good_overview scan s" and c: "decode_cursor start = Some c"
  then have "\<forall>r \<in> set (routes s). scan_route s r = Inr (shown (scan_route s) r)"
    unfolding good_overview_def list_all_iff by (intro ballI shown_Inr) (elim conjE, rule bspec)
  then show "list_model_routes s limit start =
      (let n = normalize_limit limit; todo = after_cursor route_position c (routes s) in
       Inr (map (shown (scan_route s)) (take n todo), if n < length todo then encode_cursor (route_position (todo ! (n - 1))) else []))"
    unfolding list_model_routes_def c option.case Let_def scan_routes_all
    by (rule cut_page_eq [OF _ normalize_limit_pos])
qed (simp add: good_overview_def)

interpretation audit_listing: keyset audit_position audit_events "\<lambda>s. shown (scan_audit scan)" "good_overview scan"
  "list_audit_events scan" for scan
proof
  fix s :: "'a control_db_scheme" and start c limit
  assume good: "good_overview scan s" and c: "decode_cursor start = Some c"
  then have "\<forall>r \<in> set (audit_events s). scan_audit scan r = Inr (shown (scan_audit scan) r)"
    unfolding good_overview_def list_all_iff by (intro ballI shown_Inr) (elim conjE, rule bspec)
  then show "list_audit_events scan s limit start =
      (let n = normalize_limit limit; todo = after_cursor audit_position c (audit_events s) in
       Inr (map (shown (scan_audit scan)) (take n todo), if n < length todo then encode_cursor (audit_position (todo ! (n - 1))) else []))"
    unfolding list_audit_events_def c option.case Let_def by (rule cut_page_eq [OF _ normalize_limit_pos])
qed (simp add: good_overview_def)

subsection \<open>Property\<close>

abbreviation shows_all ::
  "(string \<Rightarrow> control_error + ('i list \<times> string)) \<Rightarrow> ('r \<Rightarrow> cursor) \<Rightarrow> ('r \<Rightarrow> 'i) \<Rightarrow> 'r list \<Rightarrow> bool"
where
  "shows_all fetch pos view rows \<equiv>
     walk fetch (Suc (length rows)) [] = Some (map view (rev (sort_key pos rows)))"

text \<open>
  C17: A client that lists proxies, upstreams, accounts, model routes, the audit trail or client
  keys page by page, with any page size and following each page's cursor until there is none, sees
  every row exactly once, newest first, and the walk ends.
\<close>

theorem listings_show_every_row:
  assumes "good_overview scan s" "good_keys s"
  shows "shows_all (list_proxies s limit) proxy_position scan_proxy (proxies s)
    \<and> shows_all (list_upstreams s limit) upstream_position (scan_upstream s) (upstreams s)
    \<and> shows_all (list_accounts s limit) account_position (shown (scan_account s)) (accounts s)
    \<and> shows_all (list_model_routes s limit) route_position (shown (scan_route s)) (routes s)
    \<and> shows_all (list_audit_events scan s limit) audit_position (shown (scan_audit scan)) (audit_events s)
    \<and> shows_all (list_client_keys s limit) key_position scan_client_key (client_keys s)"
  by (intro conjI proxy_listing.walk_all [OF assms(1), unfolded listing_def]
      upstream_listing.walk_all [OF assms(1), unfolded listing_def]
      account_listing.walk_all [OF assms(1), unfolded listing_def]
      route_listing.walk_all [OF assms(1), unfolded listing_def]
      audit_listing.walk_all [OF assms(1), unfolded listing_def]
      key_listing.walk_all [OF assms(2), unfolded listing_def] lessI)

definition listed_db :: control_db where
  "listed_db = proxied_db\<lparr>audit_events :=
     [\<lparr>ae_id = 1, ae_public_id = ''sdr_audit_a'', ae_event = ''proxy.created'', ae_actor_kind = ''admin'',
       ae_actor_id = None, ae_target_kind = None, ae_target_id = None, ae_request_id = None,
       ae_outcome = Some ''success'', ae_metadata = ''null'', ae_created = 4\<rparr>]\<rparr>"

theorem listings_show_every_row_witness:
  "shows_all (list_proxies listed_db 1) proxy_position scan_proxy (proxies listed_db)
    \<and> shows_all (list_audit_events (\<lambda>_. [LNull]) listed_db 1) audit_position (shown (scan_audit (\<lambda>_. [LNull])))
        (audit_events listed_db)"
proof -
  have "unmarshal [LNull] = Some JNull" by code_simp
  then have "good_overview (\<lambda>_. [LNull]) listed_db"
    by (simp add: good_overview_def listed_db_def proxied_db_def sample_control_def positions_ok_def scan_audit_def
        sample_proxy_row_def proxy_position_def audit_position_def)
  moreover have "good_keys listed_db"
    by (simp add: good_keys_def positions_ok_def listed_db_def proxied_db_def sample_control_def sample_key_def
        key_position_def)
  ultimately show ?thesis using listings_show_every_row by blast
qed

end
