(* ===== verification/Http_Core.thy ===== *)
theory Http_Core
  imports Overview
begin

text \<open>
  What the handlers of \<open>internal/httpapi\<close> share: requests and responses, \<open>json.go\<close>,
  \<open>errors.go\<close>, the origin and the client address of \<open>middleware.go\<close>, and the pagination and
  the entity tags of \<open>handlers_control.go\<close>.  \<open>net/url\<close>, \<open>net/netip\<close> and the text forms of
  \<open>time\<close> are the arguments of \<open>http_text\<close>.
\<close>

subsection \<open>Requests and responses\<close>

text \<open>
  A request as the handlers see it: \<open>hr_headers\<close> is \<open>Header.Values\<close>, \<open>hr_cookie\<close> the value of
  the session cookie, \<open>hr_path_value\<close> the wildcard of the pattern, \<open>hr_body\<close> what can be read of
  the body before its end or, with \<open>hr_broken\<close>, an error; \<open>hr_id\<close> is the request's identifier.
\<close>

record http_request =
  hr_method :: string
  hr_path :: "string list"
  hr_headers :: "string \<Rightarrow> string list"
  hr_query :: url_values
  hr_cookie :: "string option"
  hr_path_value :: string
  hr_remote :: string
  hr_length :: int
  hr_body :: string
  hr_broken :: bool
  hr_id :: string

datatype content = NoBody | JSONBody json | TextBody string

record session_cookie =
  co_value :: string
  co_expires :: nanos
  co_max_age :: int
  co_secure :: bool

record http_response =
  rs_status :: int
  rs_header :: header
  rs_cookie :: "session_cookie option"
  rs_content :: content

definition header_value :: "http_request \<Rightarrow> string \<Rightarrow> string" where
  "header_value r name = (case hr_headers r name of [] \<Rightarrow> [] | v # _ \<Rightarrow> v)"

record origin =
  or_user :: bool
  or_scheme :: string
  or_hostname :: string
  or_port :: string

record http_text =
  ht_scan :: "string \<Rightarrow> lexeme list"
  ht_time :: "string \<Rightarrow> nanos option" \<comment> \<open>\<open>time.Time.UnmarshalJSON\<close> of a string\<close>
  ht_show_time :: "nanos \<Rightarrow> string"
  ht_quote :: "string \<Rightarrow> string" \<comment> \<open>\<open>%q\<close>\<close>
  ht_origin :: "string \<Rightarrow> origin option" \<comment> \<open>\<open>url.Parse\<close>\<close>
  ht_split_host :: "string \<Rightarrow> string option" \<comment> \<open>\<open>net.SplitHostPort\<close>\<close>
  ht_addr :: "string \<Rightarrow> string option" \<comment> \<open>the text of \<open>netip.ParseAddr(s).Unmap()\<close>\<close>

subsection \<open>json.go\<close>

definition no_store :: header where
  "no_store = [(''Cache-Control'', ''no-store'')]"

definition json_reply_headers :: header where
  "json_reply_headers = (''Content-Type'', ''application/json; charset=utf-8'') # no_store"

definition write_json_with :: "header \<Rightarrow> int \<Rightarrow> json \<Rightarrow> http_response" where
  "write_json_with h status v =
     \<lparr>rs_status = status, rs_header = h @ json_reply_headers, rs_cookie = None, rs_content = JSONBody v\<rparr>"

abbreviation write_json :: "int \<Rightarrow> json \<Rightarrow> http_response" where
  "write_json \<equiv> write_json_with []"

text \<open>\<open>omitempty\<close> on the details: a nil map is left out.\<close>

definition error_json :: "http_request \<Rightarrow> string \<Rightarrow> string \<Rightarrow> members \<Rightarrow> json" where
  "error_json r code message details =
     JObj [(''error'', JObj ([(''code'', JStr code), (''message'', JStr message), (''request_id'', JStr (hr_id r))]
       @ (if details = [] then [] else [(''details'', JObj details)])))]"

definition write_error :: "http_request \<Rightarrow> int \<Rightarrow> string \<Rightarrow> string \<Rightarrow> members \<Rightarrow> http_response" where
  "write_error r status code message details = write_json status (error_json r code message details)"

abbreviation max_admin_body :: nat where "max_admin_body \<equiv> 1048576"
abbreviation max_json_depth :: nat where "max_json_depth \<equiv> 64"

definition read_request :: "nat \<Rightarrow> http_request \<Rightarrow> string option" where
  "read_request limit r = (if hr_broken r \<or> limit < length (hr_body r) then None else Some (hr_body r))"

definition json_error_text :: "json_error \<Rightarrow> string" where
  "json_error_text e =
     (case e of
        NotValidJSON \<Rightarrow> ''request body is not valid JSON''
      | TooDeep \<Rightarrow> ''request body exceeds maximum JSON nesting depth''
      | DuplicateKeys \<Rightarrow> ''request body contains duplicate object keys''
      | NotOneValue \<Rightarrow> ''request body must contain exactly one JSON value'')"

text \<open>
  \<open>encoding/json\<close> into a struct without unknown fields: a key names the field that is spelled so,
  or else the first one that is spelled so up to case; \<open>null\<close> leaves a value and empties a
  pointer; of several spellings the later one wins, and each must have the type.  \<open>None\<close> is an
  error.  (Go decodes a second list into the elements of the first; here it replaces it.)
\<close>

definition field_named :: "string list \<Rightarrow> string \<Rightarrow> string option" where
  "field_named names k =
     (if k \<in> set names then Some k else find (\<lambda>f. to_lower f = to_lower k) names)"

definition known_fields :: "string list \<Rightarrow> members \<Rightarrow> bool" where
  "known_fields names ms \<longleftrightarrow> list_all (\<lambda>(k, v). field_named names k \<noteq> None) ms"

fun decode_value :: "string list \<Rightarrow> string \<Rightarrow> (json \<Rightarrow> 'a option) \<Rightarrow> 'a \<Rightarrow> members \<Rightarrow> 'a option" where
  "decode_value names f conv acc [] = Some acc"
| "decode_value names f conv acc ((k, v) # ms) =
     (if field_named names k \<noteq> Some f \<or> v = JNull then decode_value names f conv acc ms
      else (case conv v of None \<Rightarrow> None | Some a \<Rightarrow> decode_value names f conv a ms))"

fun decode_pointer :: "string list \<Rightarrow> string \<Rightarrow> (json \<Rightarrow> 'a option) \<Rightarrow> 'a option \<Rightarrow> members \<Rightarrow> 'a option option" where
  "decode_pointer names f conv acc [] = Some acc"
| "decode_pointer names f conv acc ((k, v) # ms) =
     (if field_named names k \<noteq> Some f then decode_pointer names f conv acc ms
      else if v = JNull then decode_pointer names f conv None ms
      else (case conv v of None \<Rightarrow> None | Some a \<Rightarrow> decode_pointer names f conv (Some a) ms))"

definition struct_members :: "string list \<Rightarrow> json \<Rightarrow> members option" where
  "struct_members names v =
     (case v of
        JObj ms \<Rightarrow> if known_fields names ms then Some ms else None
      | JNull \<Rightarrow> Some []
      | _ \<Rightarrow> None)"

definition to_time :: "http_text \<Rightarrow> json \<Rightarrow> nanos option" where
  "to_time ht v = (case v of JStr s \<Rightarrow> ht_time ht s | _ \<Rightarrow> None)"

text \<open>
  \<open>decodeJSON\<close>: \<open>target\<close> decodes the value.  After \<open>strictjson.Validate\<close> the body is one value,
  so the second \<open>Decode\<close> meets its end.
\<close>

definition decode_json :: "http_text \<Rightarrow> (json \<Rightarrow> 'a option) \<Rightarrow> http_request \<Rightarrow> string + 'a" where
  "decode_json ht target r =
     (if parse_media_type (header_value r ''Content-Type'') \<noteq> Some ''application/json''
      then Inl ''content type must be application/json''
      else
        (case read_request max_admin_body r of
           None \<Rightarrow> Inl ''request body is too large or unreadable''
         | Some body \<Rightarrow>
             if trim_space body = [] then Inl ''request body is required''
             else
               (case validate (ht_scan ht body) max_json_depth of
                  Some e \<Rightarrow> Inl (json_error_text e)
                | None \<Rightarrow>
                    (case Option.bind (unmarshal (ht_scan ht body)) target of
                       None \<Rightarrow> Inl ''request body contains invalid or unknown fields''
                     | Some x \<Rightarrow> Inr x))))"

subsection \<open>errors.go\<close>

datatype service_error = ControlError control_error | AdminError admin_error

definition control_error_response :: "http_request \<Rightarrow> control_error \<Rightarrow> http_response" where
  "control_error_response r e =
     (case e of
        Validation field message \<Rightarrow>
          write_error r 400 ''validation_failed'' ''request validation failed''
            [(''field'', JStr field), (''message'', JStr message)]
      | NotFound \<Rightarrow> write_error r 404 ''not_found'' ''resource not found'' []
      | VersionConflict \<Rightarrow> write_error r 409 ''version_conflict'' ''resource version does not match'' []
      | ResourceInUse \<Rightarrow> write_error r 409 ''resource_in_use'' ''resource is still in use'' []
      | Conflict \<Rightarrow> write_error r 409 ''resource_conflict'' ''resource conflicts with an existing object'' []
      | Failure _ \<Rightarrow> write_error r 500 ''internal_error'' ''internal server error'' [])"

definition admin_error_response :: "http_request \<Rightarrow> admin_error \<Rightarrow> http_response" where
  "admin_error_response r e =
     (case e of
        RateLimited \<Rightarrow>
          write_json_with [(''Retry-After'', ''30'')] 429
            (error_json r ''authentication_limited'' ''authentication temporarily limited'' [])
      | InvalidCredentials \<Rightarrow> write_error r 401 ''authentication_failed'' ''authentication failed'' []
      | TOTPReplay \<Rightarrow> write_error r 401 ''authentication_failed'' ''authentication failed'' []
      | TOTPNotPending \<Rightarrow> write_error r 409 ''totp_not_pending'' ''TOTP setup is not pending'' []
      | NoSession \<Rightarrow> write_error r 401 ''unauthorized'' ''authentication required'' []
      | InvalidCSRF \<Rightarrow> write_error r 500 ''internal_error'' ''internal server error'' []
      | AdminFailure \<Rightarrow> write_error r 500 ''internal_error'' ''internal server error'' [])"

definition write_service_error :: "http_request \<Rightarrow> service_error \<Rightarrow> http_response" where
  "write_service_error r e =
     (case e of ControlError x \<Rightarrow> control_error_response r x | AdminError x \<Rightarrow> admin_error_response r x)"

subsection \<open>Entity tags and pages\<close>

definition etag :: "int \<Rightarrow> string" where
  "etag version = CHR 0x22 # ''v'' @ show_int version @ [CHR 0x22]"

definition etag_header :: "int \<Rightarrow> header" where
  "etag_header version = [(''ETag'', etag version)]"

definition parse_etag :: "string \<Rightarrow> int option" where
  "parse_etag v =
     (let v = trim_space v in
      if length v < 4 \<or> \<not> has_prefix [CHR 0x22, CHR ''v''] v \<or> \<not> has_suffix [CHR 0x22] v then None
      else
        (case parse_int64 (take (length v - 3) (drop 2 v)) of
           None \<Rightarrow> None
         | Some n \<Rightarrow> if n < 1 then None else Some n))"

definition require_version :: "http_request \<Rightarrow> http_response + int" where
  "require_version r =
     (case parse_etag (header_value r ''If-Match'') of
        None \<Rightarrow> Inl (write_service_error r (ControlError VersionConflict))
      | Some v \<Rightarrow> Inr v)"

definition pagination :: "http_request \<Rightarrow> control_error + (int \<times> string)" where
  "pagination r =
     (let raw = trim_space (get_value (hr_query r) ''limit''); cursor = get_value (hr_query r) ''cursor'' in
      if raw = [] then Inr (0, cursor)
      else
        (case parse_int64 raw of
           None \<Rightarrow> Inl (Validation ''limit'' ''must be between 1 and 200'')
         | Some n \<Rightarrow>
             if n < 1 \<or> 200 < n then Inl (Validation ''limit'' ''must be between 1 and 200'')
             else Inr (n, cursor)))"

definition decode_body :: "http_text \<Rightarrow> (json \<Rightarrow> 'a option) \<Rightarrow> http_request \<Rightarrow> http_response + 'a" where
  "decode_body ht target r =
     (case decode_json ht target r of
        Inl message \<Rightarrow> Inl (write_error r 400 ''invalid_request'' message [])
      | Inr x \<Rightarrow> Inr x)"

definition no_content :: http_response where
  "no_content = \<lparr>rs_status = 204, rs_header = no_store, rs_cookie = None, rs_content = NoBody\<rparr>"

definition actor_of :: "http_request \<Rightarrow> session \<Rightarrow> actor" where
  "actor_of r session = \<lparr>actor_kind = ''admin'', actor_id = ss_public session, actor_request = hr_id r\<rparr>"

subsection \<open>middleware.go\<close>

definition origin_port :: "origin \<Rightarrow> string" where
  "origin_port u =
     (if or_port u \<noteq> [] then or_port u
      else if to_lower (or_scheme u) = ''http'' then ''80''
      else if to_lower (or_scheme u) = ''https'' then ''443'' else [])"

definition same_origin :: "origin \<Rightarrow> origin \<Rightarrow> bool" where
  "same_origin candidate expected \<longleftrightarrow>
     \<not> or_user candidate \<and> \<not> or_user expected
     \<and> to_lower (or_scheme candidate) = to_lower (or_scheme expected)
     \<and> or_hostname candidate \<noteq> [] \<and> or_hostname expected \<noteq> []
     \<and> to_lower (or_hostname candidate) = to_lower (or_hostname expected)
     \<and> origin_port candidate = origin_port expected"

definition is_same_origin :: "http_text \<Rightarrow> origin option \<Rightarrow> http_request \<Rightarrow> bool" where
  "is_same_origin ht public r \<longleftrightarrow>
     (case public of
        None \<Rightarrow> False
      | Some expected \<Rightarrow>
          let origin = trim_space (header_value r ''Origin''); referer = trim_space (header_value r ''Referer'') in
          if origin \<noteq> [] then (case ht_origin ht origin of None \<Rightarrow> False | Some u \<Rightarrow> same_origin u expected)
          else if referer \<noteq> [] then (case ht_origin ht referer of None \<Rightarrow> False | Some u \<Rightarrow> same_origin u expected)
          else False)"

text \<open>Each trusted prefix is its \<open>Contains\<close>.\<close>

definition is_trusted_proxy :: "(string \<Rightarrow> bool) list \<Rightarrow> string \<Rightarrow> bool" where
  "is_trusted_proxy prefixes a \<longleftrightarrow> list_ex (\<lambda>p. p a) prefixes"

definition forwarded_chain :: "http_text \<Rightarrow> string \<Rightarrow> string list option" where
  "forwarded_chain ht raw = those (map (\<lambda>part. ht_addr ht (trim_space part)) (split_on (CHR '','') raw))"

definition client_ip :: "http_text \<Rightarrow> (string \<Rightarrow> bool) list \<Rightarrow> http_request \<Rightarrow> string" where
  "client_ip ht prefixes r =
     (let host = (case ht_split_host ht (hr_remote r) of None \<Rightarrow> hr_remote r | Some h \<Rightarrow> h) in
      case ht_addr ht (trim_space host) of
        None \<Rightarrow> ''unknown''
      | Some remote \<Rightarrow>
          if \<not> is_trusted_proxy prefixes remote then remote
          else
            let raw = header_value r ''X-Forwarded-For'' in
            if raw = [] then remote
            else
              (case forwarded_chain ht raw of
                 None \<Rightarrow> remote
               | Some chain \<Rightarrow>
                   (case find (\<lambda>a. \<not> is_trusted_proxy prefixes a) (rev chain) of
                      Some a \<Rightarrow> a
                    | None \<Rightarrow> (case chain of [] \<Rightarrow> remote | a # _ \<Rightarrow> a))))"

definition is_unsafe_method :: "string \<Rightarrow> bool" where
  "is_unsafe_method m \<longleftrightarrow> m \<notin> {''GET'', ''HEAD'', ''OPTIONS''}"

text \<open>\<open>MaxAge\<close> is the whole seconds until the expiry at the time of the call.\<close>

definition set_session_cookie :: "bool \<Rightarrow> string \<Rightarrow> nanos \<Rightarrow> nanos \<Rightarrow> session_cookie" where
  "set_session_cookie secure value expires now =
     \<lparr>co_value = value, co_expires = expires, co_max_age = (expires - now) sdiv second, co_secure = secure\<rparr>"

definition clear_session_cookie :: "bool \<Rightarrow> session_cookie" where
  "clear_session_cookie secure = \<lparr>co_value = [], co_expires = second, co_max_age = - 1, co_secure = secure\<rparr>"

definition security_headers :: "bool \<Rightarrow> header" where
  "security_headers https =
     [(''Content-Security-Policy'', ''default-src 'self'; base-uri 'none'; frame-ancestors 'none'; form-action 'self'; object-src 'none'; img-src 'self' data:; connect-src 'self'; script-src 'self'; style-src 'self'' @ [CHR 0x27]),
      (''Referrer-Policy'', ''no-referrer''), (''X-Content-Type-Options'', ''nosniff''),
      (''X-Frame-Options'', ''DENY''),
      (''Permissions-Policy'', ''camera=(), microphone=(), geolocation=(), payment=(), usb=()''),
      (''Cross-Origin-Opener-Policy'', ''same-origin'')]
     @ (if https then [(''Strict-Transport-Security'', ''max-age=31536000; includeSubDomains'')] else [])"

end
