(* ===== verification/Http_Control.thy ===== *)
theory Http_Control
  imports Http_Core Request_Log
begin

text \<open>
  The handlers of the control plane, \<open>internal/httpapi/handlers_control.go\<close>: the bodies they
  decode, the documents they write and, for each endpoint, what it does to the tables.  A handler
  runs after \<open>requireSession\<close>, with the session it found.
\<close>

subsection \<open>The server\<close>

record web =
  wc_text :: http_text
  wc_net :: net_text
  wc_cipher :: cipher
  wc_sha :: "string \<Rightarrow> string"
  wc_auth :: auth_service
  wc_oauth :: "(oauth_service \<times> oauth_network \<times> (string \<Rightarrow> parsed_url option)) option"
  wc_validate :: "(registry \<times> (candidate \<Rightarrow> native_request \<Rightarrow> adapter \<Rightarrow> probe_response option)) option"
  wc_reader :: bool
  wc_public :: "origin option"
  wc_trusted :: "(string \<Rightarrow> bool) list"
  wc_secure :: bool
  wc_ready :: bool
  wc_render :: "lexeme list \<Rightarrow> string"
  wc_build :: json

text \<open>
  What one request reads from outside: the environments of its transactions, its clock and nonces,
  whether \<open>PingContext\<close> and \<open>Ready\<close> succeed, and the order of a map range (\<open>we_first\<close>).
\<close>

record web_env =
  we_env :: "nat \<Rightarrow> environment"
  we_auth :: auth_env
  we_clock :: "nat \<Rightarrow> nanos"
  we_nonce :: "nat \<Rightarrow> string option"
  we_attempt :: attempt_random
  we_first :: bool
  we_reachable :: bool
  we_store_ready :: bool

record web_state =
  wb_db :: auth_db
  wb_limiter :: limiter
  wb_log :: "request_row list"

definition put_db :: "auth_db \<Rightarrow> web_state \<Rightarrow> web_state" where
  "put_db t s = s\<lparr>wb_db := t\<rparr>"

lemma put_db_simps [simp]:
  "wb_db (put_db t s) = t" "wb_limiter (put_db t s) = wb_limiter s" "wb_log (put_db t s) = wb_log s"
  "put_db (wb_db s) s = s"
  by (simp_all add: put_db_def)

subsection \<open>Documents\<close>

definition json_int :: "int \<Rightarrow> json" where
  "json_int n = JNum (show_int n)"

definition json_time :: "web \<Rightarrow> ms \<Rightarrow> json" where
  "json_time w t = JStr (ht_show_time (wc_text w) (t * millisecond))"

definition optional :: "string \<Rightarrow> ('a \<Rightarrow> json) \<Rightarrow> 'a option \<Rightarrow> members" where
  "optional k f v = (case v of None \<Rightarrow> [] | Some x \<Rightarrow> [(k, f x)])"

definition json_strings :: "string list \<Rightarrow> json" where
  "json_strings vs = JArr (map JStr vs)"

definition provider_json :: "provider_info \<Rightarrow> json" where
  "provider_json v =
     JObj [(''id'', JStr (pv_id v)), (''name'', JStr (pv_name v)), (''auth_methods'', json_strings (pv_auth_methods v)),
           (''capabilities'', json_strings (pv_capabilities v)), (''implementation_status'', JStr (pv_status v))]"

definition proxy_json :: "web \<Rightarrow> proxy_info \<Rightarrow> json" where
  "proxy_json w i =
     JObj ([(''id'', JStr (pi_public i)), (''name'', JStr (pi_name i)), (''scheme'', JStr (pi_scheme i)),
            (''host'', JStr (pi_host i)), (''port'', json_int (pi_port i)),
            (''username_configured'', JBool (pi_username_set i)), (''password_configured'', JBool (pi_password_set i))]
       @ optional ''tls_server_name'' JStr (null_if_empty (pi_tls_name i))
       @ [(''allow_insecure_tls'', JBool (pi_insecure i)), (''enabled'', JBool (pi_enabled i)),
          (''version'', json_int (pi_version i)), (''created_at'', json_time w (pi_created i)),
          (''updated_at'', json_time w (pi_updated i))])"

definition upstream_json :: "web \<Rightarrow> upstream_info \<Rightarrow> json" where
  "upstream_json w i =
     JObj ([(''id'', JStr (ui_public i)), (''provider_id'', JStr (ui_provider i)), (''name'', JStr (ui_name i)),
            (''base_url'', JStr (ui_base_url i))]
       @ optional ''default_proxy_id'' JStr (ui_proxy i)
       @ [(''allow_private_network'', JBool (ui_private i)), (''enabled'', JBool (ui_enabled i)),
          (''version'', json_int (ui_version i)), (''created_at'', json_time w (ui_created i)),
          (''updated_at'', json_time w (ui_updated i))])"

definition account_json :: "web \<Rightarrow> account_info \<Rightarrow> json" where
  "account_json w i =
     JObj ([(''id'', JStr (ai_public i)), (''upstream_id'', JStr (ai_upstream i)), (''name'', JStr (ai_name i)),
            (''auth_kind'', JStr (ai_auth_kind i)), (''billing_kind'', JStr (ai_billing i)),
            (''credential_configured'', JBool (ai_configured i))]
       @ optional ''credential_expires_at'' (json_time w) (ai_expires i)
       @ optional ''proxy_id'' JStr (ai_proxy i)
       @ [(''status'', JStr (ai_status i)), (''priority'', json_int (ai_priority i)),
          (''max_concurrency'', json_int (ai_concurrency i)), (''version'', json_int (ai_version i)),
          (''created_at'', json_time w (ai_created i)), (''updated_at'', json_time w (ai_updated i))])"

definition candidate_json :: "route_candidate \<Rightarrow> json" where
  "candidate_json c =
     JObj [(''account_id'', JStr (rc_account c)), (''upstream_model_id'', JStr (rc_model c)),
           (''enabled'', JBool (rc_enabled c)), (''protocols'', json_strings (rc_protocols c)),
           (''capabilities'', json_strings (rc_capabilities c))]"

definition route_json :: "web \<Rightarrow> route_info \<Rightarrow> json" where
  "route_json w i =
     JObj [(''id'', JStr (ro_info_public i)), (''public_model_id'', JStr (ro_info_model i)),
           (''description'', JStr (ro_info_description i)), (''enabled'', JBool (ro_info_enabled i)),
           (''multiple_candidates_confirmed'', JBool (ro_info_confirmed i)),
           (''candidates'', JArr (map candidate_json (ro_info_candidates i))),
           (''version'', json_int (ro_info_version i)), (''created_at'', json_time w (ro_info_created i)),
           (''updated_at'', json_time w (ro_info_updated i))]"

definition key_json :: "web \<Rightarrow> key_info \<Rightarrow> json" where
  "key_json w i =
     JObj ([(''id'', JStr (key_public i)), (''name'', JStr (key_name i)), (''prefix'', JStr (key_prefix i)),
            (''status'', JStr (key_status i))]
       @ optional ''expires_at'' (json_time w) (key_expires i)
       @ optional ''last_used_at'' (json_time w) (key_last_used i)
       @ [(''version'', json_int (key_version i)), (''created_at'', json_time w (key_created i))])"

definition created_key_json :: "web \<Rightarrow> key_info \<times> string \<Rightarrow> json" where
  "created_key_json w k = JObj [(''client_key'', key_json w (fst k)), (''secret'', JStr (snd k))]"

definition audit_json :: "web \<Rightarrow> audit_event \<Rightarrow> json" where
  "audit_json w e =
     JObj ([(''id'', JStr (ev_id e)), (''event_type'', JStr (ev_type e)), (''actor_kind'', JStr (ev_actor_kind e))]
       @ optional ''actor_id'' JStr (ev_actor_id e) @ optional ''target_kind'' JStr (ev_target_kind e)
       @ optional ''target_id'' JStr (ev_target_id e) @ optional ''request_id'' JStr (ev_request_id e)
       @ [(''outcome'', JStr (ev_outcome e)), (''metadata'', JObj (ev_metadata e)),
          (''created_at'', json_time w (ev_created e))])"

text \<open>A slice without elements that was never made is \<open>null\<close>.\<close>

definition dashboard_json :: "dashboard_info \<Rightarrow> json" where
  "dashboard_json d =
     JObj [(''database_ready'', JBool (da_ready d)), (''admin_totp_enabled'', JBool (da_totp d)),
           (''counts'', JObj (map (\<lambda>(k, n). (k, json_int (int n))) (da_counts d))),
           (''warnings'', if da_warnings d = [] then JNull else json_strings (da_warnings d))]"

definition page_json :: "('i \<Rightarrow> json) \<Rightarrow> 'i list \<times> string \<Rightarrow> json" where
  "page_json view p =
     JObj ((''items'', JArr (map view (fst p))) # optional ''next_cursor'' JStr (null_if_empty (snd p)))"

subsection \<open>Bodies\<close>

definition list_or :: "'a list option \<Rightarrow> 'a list" where
  "list_or v = (case v of None \<Rightarrow> [] | Some l \<Rightarrow> l)"

definition to_candidate :: "json \<Rightarrow> route_candidate option" where
  "to_candidate v =
     (let ns = [''account_id'', ''upstream_model_id'', ''enabled'', ''protocols'', ''capabilities''] in
      Option.bind (struct_members ns v) (\<lambda>ms.
      Option.bind (decode_value ns ''account_id'' to_string [] ms) (\<lambda>account.
      Option.bind (decode_value ns ''upstream_model_id'' to_string [] ms) (\<lambda>model.
      Option.bind (decode_value ns ''enabled'' to_bool False ms) (\<lambda>enabled.
      Option.bind (decode_pointer ns ''protocols'' to_strings None ms) (\<lambda>protocols.
      Option.bind (decode_pointer ns ''capabilities'' to_strings None ms) (\<lambda>capabilities.
        Some \<lparr>rc_account = account, rc_model = model, rc_enabled = enabled, rc_protocols = list_or protocols,
              rc_capabilities = list_or capabilities\<rparr>)))))))"

definition to_candidates :: "json \<Rightarrow> route_candidate list option" where
  "to_candidates v = (case v of JArr vs \<Rightarrow> those (map to_candidate vs) | _ \<Rightarrow> None)"

definition to_proxy_input :: "json \<Rightarrow> proxy_input option" where
  "to_proxy_input v =
     (let ns = [''name'', ''scheme'', ''host'', ''port'', ''username'', ''password'', ''tls_server_name'',
            ''allow_insecure_tls'', ''enabled''] in
      Option.bind (struct_members ns v) (\<lambda>ms.
      Option.bind (decode_value ns ''name'' to_string [] ms) (\<lambda>name.
      Option.bind (decode_value ns ''scheme'' to_string [] ms) (\<lambda>scheme.
      Option.bind (decode_value ns ''host'' to_string [] ms) (\<lambda>host.
      Option.bind (decode_value ns ''port'' to_int 0 ms) (\<lambda>port.
      Option.bind (decode_pointer ns ''username'' to_string None ms) (\<lambda>username.
      Option.bind (decode_pointer ns ''password'' to_string None ms) (\<lambda>password.
      Option.bind (decode_value ns ''tls_server_name'' to_string [] ms) (\<lambda>tls.
      Option.bind (decode_value ns ''allow_insecure_tls'' to_bool False ms) (\<lambda>insecure.
      Option.bind (decode_value ns ''enabled'' to_bool False ms) (\<lambda>enabled.
        Some \<lparr>pin_name = name, pin_scheme = scheme, pin_host = host, pin_port = port, pin_username = username,
              pin_password = password, pin_tls_name = tls, pin_insecure = insecure, pin_enabled = enabled\<rparr>)))))))))))"

definition to_upstream_input :: "json \<Rightarrow> upstream_input option" where
  "to_upstream_input v =
     (let ns = [''provider_id'', ''name'', ''base_url'', ''default_proxy_id'', ''allow_private_network'', ''enabled''] in
      Option.bind (struct_members ns v) (\<lambda>ms.
      Option.bind (decode_value ns ''provider_id'' to_string [] ms) (\<lambda>provider.
      Option.bind (decode_value ns ''name'' to_string [] ms) (\<lambda>name.
      Option.bind (decode_value ns ''base_url'' to_string [] ms) (\<lambda>url.
      Option.bind (decode_pointer ns ''default_proxy_id'' to_string None ms) (\<lambda>proxy.
      Option.bind (decode_value ns ''allow_private_network'' to_bool False ms) (\<lambda>private.
      Option.bind (decode_value ns ''enabled'' to_bool False ms) (\<lambda>enabled.
        Some \<lparr>uin_provider = provider, uin_name = name, uin_base_url = url, uin_proxy = proxy,
              uin_private = private, uin_enabled = enabled\<rparr>))))))))"

definition to_account_input :: "web \<Rightarrow> json \<Rightarrow> account_input option" where
  "to_account_input w v =
     (let ns = [''upstream_id'', ''name'', ''auth_kind'', ''credential'', ''credential_expires_at'', ''proxy_id'',
            ''billing_kind'', ''status'', ''priority'', ''max_concurrency''] in
      Option.bind (struct_members ns v) (\<lambda>ms.
      Option.bind (decode_value ns ''upstream_id'' to_string [] ms) (\<lambda>upstream.
      Option.bind (decode_value ns ''name'' to_string [] ms) (\<lambda>name.
      Option.bind (decode_value ns ''auth_kind'' to_string [] ms) (\<lambda>kind.
      Option.bind (decode_pointer ns ''credential'' to_string None ms) (\<lambda>cred.
      Option.bind (decode_pointer ns ''credential_expires_at'' (to_time (wc_text w)) None ms) (\<lambda>expires.
      Option.bind (decode_pointer ns ''proxy_id'' to_string None ms) (\<lambda>proxy.
      Option.bind (decode_value ns ''billing_kind'' to_string [] ms) (\<lambda>billing.
      Option.bind (decode_value ns ''status'' to_string [] ms) (\<lambda>status.
      Option.bind (decode_pointer ns ''priority'' to_int None ms) (\<lambda>priority.
      Option.bind (decode_pointer ns ''max_concurrency'' to_int None ms) (\<lambda>concurrency.
        Some \<lparr>in_upstream = upstream, in_name = name, in_auth_kind = kind, in_credential = cred,
              in_expires = expires, in_proxy = proxy, in_billing = billing, in_status = status,
              in_priority = priority, in_concurrency = concurrency\<rparr>))))))))))))"

definition to_route_input :: "json \<Rightarrow> route_input option" where
  "to_route_input v =
     (let ns = [''public_model_id'', ''description'', ''enabled'', ''confirm_multiple_candidates'', ''candidates''] in
      Option.bind (struct_members ns v) (\<lambda>ms.
      Option.bind (decode_value ns ''public_model_id'' to_string [] ms) (\<lambda>model.
      Option.bind (decode_value ns ''description'' to_string [] ms) (\<lambda>description.
      Option.bind (decode_value ns ''enabled'' to_bool False ms) (\<lambda>enabled.
      Option.bind (decode_value ns ''confirm_multiple_candidates'' to_bool False ms) (\<lambda>confirm.
      Option.bind (decode_pointer ns ''candidates'' to_candidates None ms) (\<lambda>cs.
        Some \<lparr>rin_model = model, rin_description = description, rin_enabled = enabled, rin_confirm = confirm,
              rin_candidates = list_or cs\<rparr>)))))))"

definition to_key_create :: "web \<Rightarrow> json \<Rightarrow> (string \<times> nanos option) option" where
  "to_key_create w v =
     (let ns = [''name'', ''expires_at''] in
      Option.bind (struct_members ns v) (\<lambda>ms.
      Option.bind (decode_value ns ''name'' to_string [] ms) (\<lambda>name.
      Option.bind (decode_pointer ns ''expires_at'' (to_time (wc_text w)) None ms) (\<lambda>expires.
        Some (name, expires)))))"

definition to_key_update :: "web \<Rightarrow> json \<Rightarrow> (string \<times> string \<times> nanos option) option" where
  "to_key_update w v =
     (let ns = [''name'', ''status'', ''expires_at''] in
      Option.bind (struct_members ns v) (\<lambda>ms.
      Option.bind (decode_value ns ''name'' to_string [] ms) (\<lambda>name.
      Option.bind (decode_value ns ''status'' to_string [] ms) (\<lambda>status.
      Option.bind (decode_pointer ns ''expires_at'' (to_time (wc_text w)) None ms) (\<lambda>expires.
        Some (name, status, expires))))))"

subsection \<open>The shapes of a handler\<close>

text \<open>The early returns: a response ends the handler, with the tables as they were.\<close>

definition responding_with :: "http_response + 'a \<Rightarrow> ('a \<Rightarrow> web_state \<times> http_response) \<Rightarrow> web_state \<Rightarrow> web_state \<times> http_response" where
  "responding_with x f s = (case x of Inl resp \<Rightarrow> (s, resp) | Inr a \<Rightarrow> f a)"

definition control_failed :: "http_request \<Rightarrow> control_error \<Rightarrow> http_response" where
  "control_failed r e = write_service_error r (ControlError e)"

definition list_response ::
  "http_request \<Rightarrow> (int \<Rightarrow> string \<Rightarrow> control_error + ('i list \<times> string)) \<Rightarrow> ('i \<Rightarrow> json) \<Rightarrow> http_response"
where
  "list_response r fetch view =
     (case pagination r of
        Inl e \<Rightarrow> control_failed r e
      | Inr (limit, cursor) \<Rightarrow>
          (case fetch limit cursor of
             Inl e \<Rightarrow> control_failed r e
           | Inr page \<Rightarrow> write_json 200 (page_json view page)))"

definition item_response :: "http_request \<Rightarrow> control_error + 'i \<Rightarrow> ('i \<Rightarrow> int) \<Rightarrow> ('i \<Rightarrow> json) \<Rightarrow> http_response" where
  "item_response r result version view =
     (case result of
        Inl e \<Rightarrow> control_failed r e
      | Inr i \<Rightarrow> write_json_with (etag_header (version i)) 200 (view i))"

definition created_response :: "string \<Rightarrow> string \<Rightarrow> int \<Rightarrow> json \<Rightarrow> http_response" where
  "created_response path pid version v =
     write_json_with ((''Location'', path @ pid) # etag_header version) 201 v"

definition changed ::
  "http_request \<Rightarrow> control_error + ('i \<times> auth_db) \<Rightarrow> ('i \<Rightarrow> http_response) \<Rightarrow> web_state \<Rightarrow> web_state \<times> http_response"
where
  "changed r result respond s =
     (case result of
        Inl e \<Rightarrow> (s, control_failed r e)
      | Inr (i, t) \<Rightarrow> (put_db t s, respond i))"

definition removed :: "http_request \<Rightarrow> control_error + auth_db \<Rightarrow> web_state \<Rightarrow> web_state \<times> http_response" where
  "removed r result s =
     (case result of
        Inl e \<Rightarrow> (s, control_failed r e)
      | Inr t \<Rightarrow> (put_db t s, no_content))"

subsection \<open>The handlers\<close>

definition handle_health :: "http_response" where
  "handle_health = write_json 200 (JObj [(''status'', JStr ''ok'')])"

definition handle_ready :: "web \<Rightarrow> web_env \<Rightarrow> http_request \<Rightarrow> http_response" where
  "handle_ready w e r =
     (if \<not> wc_ready w \<or> \<not> we_store_ready e
      then write_error r 503 ''not_ready'' ''service is not ready'' []
      else write_json 200 (JObj [(''status'', JStr ''ready'')]))"

definition handle_capability_unavailable :: "http_request \<Rightarrow> http_response" where
  "handle_capability_unavailable r =
     write_error r 501 ''capability_not_supported''
       ''requested provider capability is not implemented in this release'' []"

definition handle_api_not_found :: "http_request \<Rightarrow> http_response" where
  "handle_api_not_found r = write_error r 404 ''not_found'' ''API endpoint not found'' []"

definition handle_providers :: "http_response" where
  "handle_providers = write_json 200 (JObj [(''items'', JArr (map provider_json providers))])"

definition handle_dashboard :: "web_env \<Rightarrow> http_request \<Rightarrow> web_state \<Rightarrow> http_response" where
  "handle_dashboard e r s =
     (case dashboard (we_reachable e) (length (wb_log s)) (wb_db s) of
        Inl x \<Rightarrow> control_failed r x
      | Inr d \<Rightarrow> write_json 200 (dashboard_json d))"

definition handle_system_health :: "web \<Rightarrow> web_env \<Rightarrow> http_response" where
  "handle_system_health w e =
     write_json 200 (JObj [(''ready'', JBool (wc_ready w \<and> we_store_ready e)),
       (''database_ready'', JBool (we_store_ready e)), (''build'', wc_build w)])"

definition handle_audit_events :: "web \<Rightarrow> http_request \<Rightarrow> web_state \<Rightarrow> http_response" where
  "handle_audit_events w r s =
     list_response r (list_audit_events (ht_scan (wc_text w)) (wb_db s)) (audit_json w)"

definition handle_list_proxies :: "web \<Rightarrow> http_request \<Rightarrow> web_state \<Rightarrow> http_response" where
  "handle_list_proxies w r s = list_response r (list_proxies (wb_db s)) (proxy_json w)"

definition handle_create_proxy ::
  "web \<Rightarrow> web_env \<Rightarrow> session \<Rightarrow> http_request \<Rightarrow> web_state \<Rightarrow> web_state \<times> http_response"
where
  "handle_create_proxy w e se r s =
     responding_with (decode_body (wc_text w) to_proxy_input r) (\<lambda>i.
       changed r (create_proxy (wc_net w) (we_first e) (wc_cipher w) (we_nonce e 0) (we_nonce e 1) (we_env e 0)
           (actor_of r se) i (wb_db s))
         (\<lambda>item. created_response ''/api/admin/v1/proxies/'' (pi_public item) (pi_version item) (proxy_json w item)) s) s"

definition handle_get_proxy :: "web \<Rightarrow> http_request \<Rightarrow> web_state \<Rightarrow> http_response" where
  "handle_get_proxy w r s = item_response r (get_proxy (hr_path_value r) (wb_db s)) pi_version (proxy_json w)"

definition handle_update_proxy ::
  "web \<Rightarrow> web_env \<Rightarrow> session \<Rightarrow> http_request \<Rightarrow> web_state \<Rightarrow> web_state \<times> http_response"
where
  "handle_update_proxy w e se r s =
     responding_with (require_version r) (\<lambda>version.
     responding_with (decode_body (wc_text w) to_proxy_input r) (\<lambda>i.
       changed r (update_proxy (wc_net w) (we_first e) (wc_cipher w) (we_nonce e 0) (we_nonce e 1) (we_env e 0)
           (actor_of r se) (hr_path_value r) version i (wb_db s) (wb_db s))
         (\<lambda>item. write_json_with (etag_header (pi_version item)) 200 (proxy_json w item)) s) s) s"

definition handle_delete_proxy ::
  "web_env \<Rightarrow> session \<Rightarrow> http_request \<Rightarrow> web_state \<Rightarrow> web_state \<times> http_response"
where
  "handle_delete_proxy e se r s =
     responding_with (require_version r) (\<lambda>version.
       removed r (delete_proxy (we_env e 0) (actor_of r se) (hr_path_value r) version (wb_db s)) s) s"

definition handle_list_upstreams :: "web \<Rightarrow> http_request \<Rightarrow> web_state \<Rightarrow> http_response" where
  "handle_list_upstreams w r s = list_response r (list_upstreams (wb_db s)) (upstream_json w)"

definition handle_create_upstream ::
  "web \<Rightarrow> web_env \<Rightarrow> session \<Rightarrow> http_request \<Rightarrow> web_state \<Rightarrow> web_state \<times> http_response"
where
  "handle_create_upstream w e se r s =
     responding_with (decode_body (wc_text w) to_upstream_input r) (\<lambda>i.
       changed r (create_upstream (wc_net w) (we_env e 0) (actor_of r se) i (wb_db s))
         (\<lambda>item. created_response ''/api/admin/v1/upstreams/'' (ui_public item) (ui_version item)
            (upstream_json w item)) s) s"

definition handle_get_upstream :: "web \<Rightarrow> http_request \<Rightarrow> web_state \<Rightarrow> http_response" where
  "handle_get_upstream w r s =
     item_response r (get_upstream (hr_path_value r) (wb_db s)) ui_version (upstream_json w)"

definition handle_update_upstream ::
  "web \<Rightarrow> web_env \<Rightarrow> session \<Rightarrow> http_request \<Rightarrow> web_state \<Rightarrow> web_state \<times> http_response"
where
  "handle_update_upstream w e se r s =
     responding_with (require_version r) (\<lambda>version.
     responding_with (decode_body (wc_text w) to_upstream_input r) (\<lambda>i.
       changed r (update_upstream (wc_net w) (we_env e 0) (actor_of r se) (hr_path_value r) version i (wb_db s))
         (\<lambda>item. write_json_with (etag_header (ui_version item)) 200 (upstream_json w item)) s) s) s"

text \<open>Which upstreams and accounts the records of requests refer to.\<close>

definition logged_upstream :: "web_state \<Rightarrow> int \<Rightarrow> bool" where
  "logged_upstream s i \<longleftrightarrow> list_ex (\<lambda>q. rq_upstream q = Some i) (wb_log s)"

definition logged_account :: "web_state \<Rightarrow> int \<Rightarrow> bool" where
  "logged_account s i \<longleftrightarrow> list_ex (\<lambda>q. rq_account q = Some i) (wb_log s)"

definition handle_delete_upstream ::
  "web_env \<Rightarrow> session \<Rightarrow> http_request \<Rightarrow> web_state \<Rightarrow> web_state \<times> http_response"
where
  "handle_delete_upstream e se r s =
     responding_with (require_version r) (\<lambda>version.
       removed r (delete_upstream (logged_upstream s) (we_env e 0) (actor_of r se) (hr_path_value r) version (wb_db s))
         s) s"

definition handle_list_accounts :: "web \<Rightarrow> http_request \<Rightarrow> web_state \<Rightarrow> http_response" where
  "handle_list_accounts w r s = list_response r (list_accounts (wb_db s)) (account_json w)"

definition handle_create_account ::
  "web \<Rightarrow> web_env \<Rightarrow> session \<Rightarrow> http_request \<Rightarrow> web_state \<Rightarrow> web_state \<times> http_response"
where
  "handle_create_account w e se r s =
     responding_with (decode_body (wc_text w) (to_account_input w) r) (\<lambda>i.
       changed r (create_account (wc_cipher w) (wc_render w) (we_nonce e 0) (we_env e 0) (actor_of r se) i (wb_db s))
         (\<lambda>item. created_response ''/api/admin/v1/accounts/'' (ai_public item) (ai_version item)
            (account_json w item)) s) s"

definition handle_get_account :: "web \<Rightarrow> http_request \<Rightarrow> web_state \<Rightarrow> http_response" where
  "handle_get_account w r s =
     item_response r (get_account (hr_path_value r) (wb_db s)) ai_version (account_json w)"

definition handle_update_account ::
  "web \<Rightarrow> web_env \<Rightarrow> session \<Rightarrow> http_request \<Rightarrow> web_state \<Rightarrow> web_state \<times> http_response"
where
  "handle_update_account w e se r s =
     responding_with (require_version r) (\<lambda>version.
     responding_with (decode_body (wc_text w) (to_account_input w) r) (\<lambda>i.
       changed r (update_account (wc_cipher w) (wc_render w) (we_nonce e 0) (we_env e 0) (actor_of r se)
           (hr_path_value r) version i (wb_db s) (wb_db s))
         (\<lambda>item. write_json_with (etag_header (ai_version item)) 200 (account_json w item)) s) s) s"

definition handle_delete_account ::
  "web_env \<Rightarrow> session \<Rightarrow> http_request \<Rightarrow> web_state \<Rightarrow> web_state \<times> http_response"
where
  "handle_delete_account e se r s =
     responding_with (require_version r) (\<lambda>version.
       removed r (delete_account (logged_account s) (we_env e 0) (actor_of r se) (hr_path_value r) version (wb_db s))
         s) s"

text \<open>The validation is three transactions; its error is written after it has been stored.\<close>

definition validation_status :: "string \<Rightarrow> int" where
  "validation_status code =
     (if code = ''oauth_authorization_required'' \<or> code = ''account_disabled'' then 422 else 502)"

definition handle_validate_account ::
  "web \<Rightarrow> web_env \<Rightarrow> session \<Rightarrow> http_request \<Rightarrow> web_state \<Rightarrow> web_state \<times> http_response"
where
  "handle_validate_account w e se r s =
     (case wc_validate w of
        None \<Rightarrow> (s, write_error r 501 ''capability_not_supported'' ''account validation is not available'' [])
      | Some (registry, transport) \<Rightarrow>
          responding_with (require_version r) (\<lambda>version.
            (case validate_account (wc_cipher w) (ht_scan (wc_text w)) registry transport (we_env e) (actor_of r se)
                (hr_path_value r) version (wb_db s) of
               (t, Inl (ValidateCode code)) \<Rightarrow>
                 (put_db t s, write_error r (validation_status code) ''account_validation_failed''
                    ''account validation failed'' [(''reason'', JStr code)])
             | (t, Inl (ValidateControl x)) \<Rightarrow> (put_db t s, control_failed r x)
             | (t, Inr item) \<Rightarrow>
                 (put_db t s, write_json_with (etag_header (ai_version item)) 200 (account_json w item)))) s)"

definition handle_list_model_routes :: "web \<Rightarrow> http_request \<Rightarrow> web_state \<Rightarrow> http_response" where
  "handle_list_model_routes w r s = list_response r (list_model_routes (wb_db s)) (route_json w)"

definition handle_create_model_route ::
  "web \<Rightarrow> web_env \<Rightarrow> session \<Rightarrow> http_request \<Rightarrow> web_state \<Rightarrow> web_state \<times> http_response"
where
  "handle_create_model_route w e se r s =
     responding_with (decode_body (wc_text w) to_route_input r) (\<lambda>i.
       changed r (create_model_route (we_env e 0) (actor_of r se) i (wb_db s))
         (\<lambda>item. created_response ''/api/admin/v1/model-routes/'' (ro_info_public item) (ro_info_version item)
            (route_json w item)) s) s"

definition handle_get_model_route :: "web \<Rightarrow> http_request \<Rightarrow> web_state \<Rightarrow> http_response" where
  "handle_get_model_route w r s =
     item_response r (get_model_route (hr_path_value r) (wb_db s)) ro_info_version (route_json w)"

definition handle_update_model_route ::
  "web \<Rightarrow> web_env \<Rightarrow> session \<Rightarrow> http_request \<Rightarrow> web_state \<Rightarrow> web_state \<times> http_response"
where
  "handle_update_model_route w e se r s =
     responding_with (require_version r) (\<lambda>version.
     responding_with (decode_body (wc_text w) to_route_input r) (\<lambda>i.
       changed r (update_model_route (we_env e 0) (actor_of r se) (hr_path_value r) version i (wb_db s))
         (\<lambda>item. write_json_with (etag_header (ro_info_version item)) 200 (route_json w item)) s) s) s"

definition handle_delete_model_route ::
  "web_env \<Rightarrow> session \<Rightarrow> http_request \<Rightarrow> web_state \<Rightarrow> web_state \<times> http_response"
where
  "handle_delete_model_route e se r s =
     responding_with (require_version r) (\<lambda>version.
       removed r (delete_model_route (we_env e 0) (actor_of r se) (hr_path_value r) version (wb_db s)) s) s"

definition handle_list_client_keys :: "web \<Rightarrow> http_request \<Rightarrow> web_state \<Rightarrow> http_response" where
  "handle_list_client_keys w r s = list_response r (list_client_keys (wb_db s)) (key_json w)"

definition handle_create_client_key ::
  "web \<Rightarrow> web_env \<Rightarrow> session \<Rightarrow> http_request \<Rightarrow> web_state \<Rightarrow> web_state \<times> http_response"
where
  "handle_create_client_key w e se r s =
     responding_with (decode_body (wc_text w) (to_key_create w) r) (\<lambda>(name, expires).
       changed r (create_client_key (wc_sha w) (we_env e 0) (actor_of r se) name expires (wb_db s))
         (\<lambda>item. created_response ''/api/admin/v1/client-keys/'' (key_public (fst item)) (key_version (fst item))
            (created_key_json w item)) s) s"

definition handle_get_client_key :: "web \<Rightarrow> http_request \<Rightarrow> web_state \<Rightarrow> http_response" where
  "handle_get_client_key w r s =
     item_response r (get_client_key (hr_path_value r) (wb_db s)) key_version (key_json w)"

definition handle_update_client_key ::
  "web \<Rightarrow> web_env \<Rightarrow> session \<Rightarrow> http_request \<Rightarrow> web_state \<Rightarrow> web_state \<times> http_response"
where
  "handle_update_client_key w e se r s =
     responding_with (require_version r) (\<lambda>version.
     responding_with (decode_body (wc_text w) (to_key_update w) r) (\<lambda>(name, status, expires).
       changed r (update_client_key (we_env e 0) (actor_of r se) (hr_path_value r) version name status expires (wb_db s))
         (\<lambda>item. write_json_with (etag_header (key_version item)) 200 (key_json w item)) s) s) s"

definition handle_revoke_client_key ::
  "web_env \<Rightarrow> session \<Rightarrow> http_request \<Rightarrow> web_state \<Rightarrow> web_state \<times> http_response"
where
  "handle_revoke_client_key e se r s =
     responding_with (require_version r) (\<lambda>version.
       removed r (revoke_client_key (we_env e 0) (actor_of r se) (hr_path_value r) version (wb_db s)) s) s"

end
