(* ===== verification/Http_Admin.thy ===== *)
theory Http_Admin
  imports Http_Control
begin

text \<open>
  The rest of the administration API: \<open>handlers_auth.go\<close>, \<open>handlers_oauth.go\<close> and
  \<open>handlers_usage.go\<close>, \<open>requireSession\<close> of \<open>middleware.go\<close> and the table of endpoints of
  \<open>server.go\<close>.
\<close>

subsection \<open>handlers_auth.go\<close>

definition session_json :: "web \<Rightarrow> session \<Rightarrow> json" where
  "session_json w se =
     JObj [(''csrf_token'', JStr (ss_csrf se)), (''created_at'', JStr (ht_show_time (wc_text w) (ss_created se))),
           (''idle_expires_at'', JStr (ht_show_time (wc_text w) (ss_idle se))),
           (''absolute_expires_at'', JStr (ht_show_time (wc_text w) (ss_absolute se))),
           (''totp_enabled'', JBool (ss_totp se))]"

definition to_login :: "json \<Rightarrow> (string \<times> string) option" where
  "to_login v =
     (let ns = [''password'', ''totp_code''] in
      Option.bind (struct_members ns v) (\<lambda>ms.
      Option.bind (decode_value ns ''password'' to_string [] ms) (\<lambda>password.
      Option.bind (decode_value ns ''totp_code'' to_string [] ms) (\<lambda>code. Some (password, code)))))"

definition to_password_change :: "json \<Rightarrow> (string \<times> string) option" where
  "to_password_change v =
     (let ns = [''current_password'', ''new_password''] in
      Option.bind (struct_members ns v) (\<lambda>ms.
      Option.bind (decode_value ns ''current_password'' to_string [] ms) (\<lambda>current.
      Option.bind (decode_value ns ''new_password'' to_string [] ms) (\<lambda>next_password. Some (current, next_password)))))"

definition to_one_string :: "string \<Rightarrow> json \<Rightarrow> string option" where
  "to_one_string f v =
     Option.bind (struct_members [f] v) (\<lambda>ms. decode_value [f] f to_string [] ms)"

definition to_totp_disable :: "json \<Rightarrow> (string \<times> string) option" where
  "to_totp_disable v =
     (let ns = [''password'', ''code''] in
      Option.bind (struct_members ns v) (\<lambda>ms.
      Option.bind (decode_value ns ''password'' to_string [] ms) (\<lambda>password.
      Option.bind (decode_value ns ''code'' to_string [] ms) (\<lambda>code. Some (password, code)))))"

definition session_response :: "web \<Rightarrow> web_env \<Rightarrow> session \<Rightarrow> http_response" where
  "session_response w e se =
     (write_json 200 (session_json w se))
       \<lparr>rs_cookie := Some (set_session_cookie (wc_secure w) (ss_token se) (ss_absolute se) (we_clock e 9))\<rparr>"

definition admin_failed :: "http_request \<Rightarrow> admin_error \<Rightarrow> http_response" where
  "admin_failed r x = write_service_error r (AdminError x)"

text \<open>The change of a password or of the one-time codes: a new session, with its cookie, or an error.\<close>

definition rotated ::
  "web \<Rightarrow> web_env \<Rightarrow> http_request \<Rightarrow> admin_error + (session \<times> auth_db) \<Rightarrow> web_state \<Rightarrow> web_state \<times> http_response"
where
  "rotated w e r result s =
     (case result of
        Inl x \<Rightarrow> (s, admin_failed r x)
      | Inr (se, t) \<Rightarrow> (put_db t s, session_response w e se))"

definition handle_login :: "web \<Rightarrow> web_env \<Rightarrow> http_request \<Rightarrow> web_state \<Rightarrow> web_state \<times> http_response" where
  "handle_login w e r s =
     (if \<not> is_same_origin (wc_text w) (wc_public w) r
      then (s, write_error r 403 ''origin_rejected'' ''request origin is not allowed'' [])
      else
        responding_with (decode_body (wc_text w) to_login r) (\<lambda>(password, code).
          (case login (wc_auth w) (we_auth e) password code (client_ip (wc_text w) (wc_trusted w) r)
              (header_value r ''User-Agent'') (wb_limiter s) (wb_db s) of
             (l, t, Inl x) \<Rightarrow> (s\<lparr>wb_limiter := l, wb_db := t\<rparr>, admin_failed r x)
           | (l, t, Inr se) \<Rightarrow> (s\<lparr>wb_limiter := l, wb_db := t\<rparr>, session_response w e se))) s)"

definition handle_logout ::
  "web \<Rightarrow> web_env \<Rightarrow> session \<Rightarrow> http_request \<Rightarrow> web_state \<Rightarrow> web_state \<times> http_response"
where
  "handle_logout w e se r s =
     (case logout (we_auth e) se (wb_db s) of
        Inl x \<Rightarrow> (s, admin_failed r x)
      | Inr t \<Rightarrow>
          (put_db t s, \<lparr>rs_status = 204, rs_header = [], rs_cookie = Some (clear_session_cookie (wc_secure w)),
             rs_content = NoBody\<rparr>))"

definition handle_session :: "web \<Rightarrow> session \<Rightarrow> http_response" where
  "handle_session w se = write_json 200 (session_json w se)"

definition handle_password ::
  "web \<Rightarrow> web_env \<Rightarrow> session \<Rightarrow> http_request \<Rightarrow> web_state \<Rightarrow> web_state \<times> http_response"
where
  "handle_password w e se r s =
     responding_with (decode_body (wc_text w) to_password_change r) (\<lambda>(current, next_password).
       (case validate_password next_password of
          Some message \<Rightarrow>
            (s, write_error r 400 ''validation_failed'' ''request validation failed''
               [(''field'', JStr ''new_password''), (''message'', JStr message)])
        | None \<Rightarrow>
            rotated w e r (change_password (wc_auth w) (we_auth e) se current next_password
              (client_ip (wc_text w) (wc_trusted w) r) (header_value r ''User-Agent'') (admin_user (wb_db s)) (wb_db s))
              s)) s"

definition handle_totp_setup ::
  "web \<Rightarrow> web_env \<Rightarrow> session \<Rightarrow> http_request \<Rightarrow> web_state \<Rightarrow> web_state \<times> http_response"
where
  "handle_totp_setup w e se r s =
     responding_with (decode_body (wc_text w) (to_one_string ''password'') r) (\<lambda>password.
       (case setup_totp (wc_auth w) (we_auth e) se password (admin_user (wb_db s)) (wb_db s) of
          Inl x \<Rightarrow> (s, admin_failed r x)
        | Inr ((secret, uri, expires), t) \<Rightarrow>
            (put_db t s, write_json 200 (JObj [(''secret'', JStr secret), (''uri'', JStr uri),
               (''expires_at'', JStr (ht_show_time (wc_text w) expires))])))) s"

definition handle_totp_confirm ::
  "web \<Rightarrow> web_env \<Rightarrow> session \<Rightarrow> http_request \<Rightarrow> web_state \<Rightarrow> web_state \<times> http_response"
where
  "handle_totp_confirm w e se r s =
     responding_with (decode_body (wc_text w) (to_one_string ''code'') r) (\<lambda>code.
       rotated w e r (confirm_totp (wc_auth w) (we_auth e) se code (client_ip (wc_text w) (wc_trusted w) r)
         (header_value r ''User-Agent'') (admin_user (wb_db s)) (wb_db s)) s) s"

definition handle_totp_disable ::
  "web \<Rightarrow> web_env \<Rightarrow> session \<Rightarrow> http_request \<Rightarrow> web_state \<Rightarrow> web_state \<times> http_response"
where
  "handle_totp_disable w e se r s =
     responding_with (decode_body (wc_text w) to_totp_disable r) (\<lambda>(password, code).
       rotated w e r (disable_totp (wc_auth w) (we_auth e) se password code (client_ip (wc_text w) (wc_trusted w) r)
         (header_value r ''User-Agent'') (admin_user (wb_db s)) (wb_db s)) s) s"

subsection \<open>handlers_usage.go\<close>

definition request_json :: "web \<Rightarrow> request_record \<Rightarrow> json" where
  "request_json w q =
     JObj ([(''id'', JStr (rr_id q)), (''client_key_id'', JStr (rr_client_key q)),
            (''client_key_name'', JStr (rr_client_key_name q)), (''protocol'', JStr (rr_protocol q)),
            (''endpoint_kind'', JStr (rr_endpoint q)), (''public_model_id'', JStr (rr_model q))]
       @ optional ''provider_id'' JStr (rr_provider q) @ optional ''upstream_id'' JStr (rr_upstream q)
       @ optional ''account_id'' JStr (rr_account q)
       @ [(''status_code'', json_int (rr_status q))]
       @ optional ''error_code'' JStr (rr_error_code q)
       @ [(''streamed'', JBool (rr_streamed q)), (''started_at'', json_time w (rr_started q))]
       @ optional ''first_byte_at'' (json_time w) (rr_first_byte q)
       @ [(''completed_at'', json_time w (rr_completed q)), (''duration_ms'', json_int (rr_duration q))]
       @ optional ''ttft_ms'' json_int (rr_ttft q)
       @ [(''request_bytes'', json_int (rr_request_bytes q)), (''response_bytes'', json_int (rr_response_bytes q)),
          (''usage'', JObj (map (\<lambda>(k, n). (k, json_int n)) (rr_usage q)))])"

definition summary_json :: "web \<Rightarrow> day_summary \<Rightarrow> json" where
  "summary_json w d =
     JObj [(''window_start'', JStr (ht_show_time (wc_text w) (sum_start d))), (''requests'', json_int (sum_requests d)),
           (''errors'', json_int (sum_errors d)), (''streamed'', json_int (sum_streamed d)),
           (''input_tokens'', json_int (sum_input d)), (''output_tokens'', json_int (sum_output d)),
           (''cache_read_tokens'', json_int (sum_cache d)), (''reasoning_tokens'', json_int (sum_reasoning d))]"

definition reader_error_of :: "reader_error \<Rightarrow> control_error" where
  "reader_error_of x =
     (case x of
        InvalidCursor \<Rightarrow> Validation ''cursor'' ''is invalid''
      | RecordNotFound \<Rightarrow> NotFound
      | UndecodableRecord \<Rightarrow> Failure ''record'')"

definition handle_requests :: "web \<Rightarrow> http_request \<Rightarrow> web_state \<Rightarrow> http_response" where
  "handle_requests w r s =
     (if \<not> wc_reader w then handle_capability_unavailable r
      else
        list_response r
          (\<lambda>limit cursor. map_sum reader_error_of id (list_requests (wb_db s, wb_log s) limit cursor))
          (request_json w))"

definition handle_request :: "web \<Rightarrow> http_request \<Rightarrow> web_state \<Rightarrow> http_response" where
  "handle_request w r s =
     (if \<not> wc_reader w then handle_capability_unavailable r
      else
        (case get_request (wb_db s, wb_log s) (hr_path_value r) of
           Inl x \<Rightarrow> control_failed r (reader_error_of x)
         | Inr q \<Rightarrow> write_json 200 (request_json w q)))"

definition handle_usage_summary :: "web \<Rightarrow> web_env \<Rightarrow> http_request \<Rightarrow> web_state \<Rightarrow> http_response" where
  "handle_usage_summary w e r s =
     (if \<not> wc_reader w then handle_capability_unavailable r
      else
        (case summary_24_hours (wb_log s) (we_clock e 0) of
           None \<Rightarrow> control_failed r (Failure ''summary'')
         | Some d \<Rightarrow> write_json 200 (summary_json w d)))"

subsection \<open>handlers_oauth.go\<close>

definition to_google_config :: "json \<Rightarrow> config_input option" where
  "to_google_config v =
     (let ns = [''client_id'', ''client_secret'', ''project_id'', ''enabled''] in
      Option.bind (struct_members ns v) (\<lambda>ms.
      Option.bind (decode_value ns ''client_id'' to_string [] ms) (\<lambda>client.
      Option.bind (decode_pointer ns ''client_secret'' to_string None ms) (\<lambda>secret.
      Option.bind (decode_value ns ''project_id'' to_string [] ms) (\<lambda>project.
      Option.bind (decode_value ns ''enabled'' to_bool False ms) (\<lambda>enabled.
        Some \<lparr>ci_client_id = client, ci_secret = secret, ci_project = project, ci_enabled = enabled\<rparr>))))))"

definition google_config_json :: "web \<Rightarrow> google_config \<Rightarrow> json" where
  "google_config_json w c =
     JObj [(''id'', JStr (gc_id c)), (''provider_id'', JStr ''google''), (''client_id'', JStr (gc_client_id c)),
           (''client_secret_configured'', JBool (gc_secret_set c)), (''project_id'', JStr (gc_project c)),
           (''scopes'', json_strings (gc_scopes c)), (''redirect_uri'', JStr (gc_redirect c)),
           (''enabled'', JBool (gc_enabled c)), (''beta'', JBool True), (''version'', json_int (gc_version c)),
           (''created_at'', json_time w (gc_created c)), (''updated_at'', json_time w (gc_updated c))]"

text \<open>The times of an attempt are shown to the millisecond; those of one just created have all digits in Go.\<close>

definition attempt_json :: "web \<Rightarrow> oauth_attempt \<Rightarrow> json" where
  "attempt_json w a =
     JObj ([(''id'', JStr (at_id a)), (''provider_id'', JStr ''google''), (''account_id'', JStr (at_account a)),
            (''flow_kind'', JStr ''authorization_code_pkce''), (''status'', JStr (at_status a))]
       @ optional ''authorization_url'' JStr (null_if_empty (at_url a))
       @ [(''expires_at'', json_time w (at_expires a)), (''created_at'', json_time w (at_created a)),
          (''beta'', JBool True)])"

definition oauth_status :: "string \<Rightarrow> int" where
  "oauth_status code =
     (if code \<in> {''admin_session_expired'', ''oauth_session_mismatch''} then 401
      else if code \<in> {''oauth_token_unavailable'', ''oauth_account_validation_failed''} then 502
      else if code \<in> {''oauth_not_configured'', ''oauth_config_invalid''} then 503
      else 400)"

definition write_oauth_error :: "http_request \<Rightarrow> oauth_error \<Rightarrow> http_response" where
  "write_oauth_error r x =
     (case x of
        OAuthCode code \<Rightarrow> write_error r (oauth_status code) code ''OAuth operation failed'' []
      | OAuthControl c \<Rightarrow> control_failed r c
      | OAuthFailure \<Rightarrow> control_failed r (Failure ''oauth''))"

text \<open>\<open>writeServiceError\<close> does not know the codes of package \<open>oauth\<close>.\<close>

definition config_failed :: "http_request \<Rightarrow> oauth_error \<Rightarrow> http_response" where
  "config_failed r x =
     (case x of OAuthControl c \<Rightarrow> control_failed r c | _ \<Rightarrow> control_failed r (Failure ''oauth''))"

definition with_oauth ::
  "web \<Rightarrow> http_request \<Rightarrow> web_state
    \<Rightarrow> (oauth_service \<times> oauth_network \<times> (string \<Rightarrow> parsed_url option) \<Rightarrow> web_state \<times> http_response)
    \<Rightarrow> web_state \<times> http_response"
where
  "with_oauth w r s f =
     (case wc_oauth w of
        None \<Rightarrow> (s, write_error r 501 ''capability_not_supported'' ''OAuth is not available'' [])
      | Some x \<Rightarrow> f x)"

definition handle_get_google_config :: "web \<Rightarrow> http_request \<Rightarrow> web_state \<Rightarrow> web_state \<times> http_response" where
  "handle_get_google_config w r s =
     with_oauth w r s (\<lambda>(svc, net, parse).
       (case get_google_config svc (wb_db s) of
          Inl x \<Rightarrow> (s, config_failed r x)
        | Inr c \<Rightarrow> (s, write_json_with (etag_header (gc_version c)) 200 (google_config_json w c))))"

definition handle_create_google_config ::
  "web \<Rightarrow> web_env \<Rightarrow> session \<Rightarrow> http_request \<Rightarrow> web_state \<Rightarrow> web_state \<times> http_response"
where
  "handle_create_google_config w e se r s =
     with_oauth w r s (\<lambda>(svc, net, parse).
     responding_with (decode_body (wc_text w) to_google_config r) (\<lambda>i.
       (case create_google_config svc (we_nonce e 0) (we_env e 0) (actor_of r se) i (wb_db s) of
          Inl x \<Rightarrow> (s, config_failed r x)
        | Inr (c, t) \<Rightarrow> (put_db t s, write_json_with (etag_header (gc_version c)) 201 (google_config_json w c)))) s)"

definition handle_update_google_config ::
  "web \<Rightarrow> web_env \<Rightarrow> session \<Rightarrow> http_request \<Rightarrow> web_state \<Rightarrow> web_state \<times> http_response"
where
  "handle_update_google_config w e se r s =
     with_oauth w r s (\<lambda>(svc, net, parse).
     responding_with (require_version r) (\<lambda>version.
     responding_with (decode_body (wc_text w) to_google_config r) (\<lambda>i.
       (case update_google_config svc (we_nonce e 0) (we_env e 0) (actor_of r se) version i (wb_db s) of
          Inl x \<Rightarrow> (s, config_failed r x)
        | Inr (c, t) \<Rightarrow> (put_db t s, write_json_with (etag_header (gc_version c)) 200 (google_config_json w c)))) s) s)"

definition handle_create_oauth_attempt ::
  "web \<Rightarrow> web_env \<Rightarrow> session \<Rightarrow> http_request \<Rightarrow> web_state \<Rightarrow> web_state \<times> http_response"
where
  "handle_create_oauth_attempt w e se r s =
     with_oauth w r s (\<lambda>(svc, net, parse).
     responding_with (decode_body (wc_text w) (to_one_string ''account_id'') r) (\<lambda>account.
       (case create_attempt svc (we_attempt e) (we_env e 0) (actor_of r se) (ss_public se) account (wb_db s) of
          Inl x \<Rightarrow> (s, write_oauth_error r x)
        | Inr (a, t) \<Rightarrow>
            (put_db t s, write_json_with [(''Location'', ''/api/admin/v1/oauth-attempts/'' @ at_id a)] 201
               (attempt_json w a)))) s)"

definition handle_get_oauth_attempt ::
  "web \<Rightarrow> session \<Rightarrow> http_request \<Rightarrow> web_state \<Rightarrow> web_state \<times> http_response"
where
  "handle_get_oauth_attempt w se r s =
     with_oauth w r s (\<lambda>(svc, net, parse).
       (case get_attempt (ss_public se) (hr_path_value r) (wb_db s) of
          Inl x \<Rightarrow> (s, write_oauth_error r x)
        | Inr a \<Rightarrow> (s, write_json 200 (attempt_json w a))))"

definition handle_cancel_oauth_attempt ::
  "web \<Rightarrow> web_env \<Rightarrow> session \<Rightarrow> http_request \<Rightarrow> web_state \<Rightarrow> web_state \<times> http_response"
where
  "handle_cancel_oauth_attempt w e se r s =
     with_oauth w r s (\<lambda>(svc, net, parse).
       (case cancel_attempt (we_env e 0) (actor_of r se) (ss_public se) (hr_path_value r) (wb_db s) of
          Inl x \<Rightarrow> (s, write_oauth_error r x)
        | Inr t \<Rightarrow> (put_db t s, no_content)))"

text \<open>The attempt that a callback claims, with the clock of its claim.\<close>

definition claimed_attempt_id ::
  "oauth_service \<Rightarrow> nanos \<Rightarrow> url_values \<Rightarrow> string \<Rightarrow> string \<Rightarrow> auth_db \<Rightarrow> string"
where
  "claimed_attempt_id svc now vs session expected s =
     (case validate_callback_values vs of
        Inl _ \<Rightarrow> []
      | Inr (state, code, err) \<Rightarrow>
          (case claim_attempt svc now state session expected s of Inl _ \<Rightarrow> [] | Inr (cl, _) \<Rightarrow> cl_public cl))"

definition completion_json :: "web \<Rightarrow> string \<Rightarrow> account_info \<Rightarrow> json" where
  "completion_json w attempt a = JObj [(''attempt_id'', JStr attempt), (''account'', account_json w a)]"

definition handle_manual_oauth_callback ::
  "web \<Rightarrow> web_env \<Rightarrow> session \<Rightarrow> http_request \<Rightarrow> web_state \<Rightarrow> web_state \<times> http_response"
where
  "handle_manual_oauth_callback w e se r s =
     with_oauth w r s (\<lambda>(svc, net, parse).
     responding_with (decode_body (wc_text w) (to_one_string ''callback_url'') r) (\<lambda>url.
       (case complete_attempt_callback_url svc parse net (we_nonce e 0) (we_env e 0) (we_env e 1) (we_clock e)
           (hr_path_value r) url (ss_public se) (hr_id r) (wb_db s) of
          (t, Inl x) \<Rightarrow> (put_db t s, write_oauth_error r x)
        | (t, Inr (Rejected code)) \<Rightarrow> (put_db t s, write_oauth_error r (OAuthCode code))
        | (t, Inr (Broken c)) \<Rightarrow> (put_db t s, control_failed r c)
        | (t, Inr (Completed a)) \<Rightarrow>
            (put_db t s, write_json 200 (completion_json w
               (case parse url of
                  None \<Rightarrow> []
                | Some u \<Rightarrow> claimed_attempt_id svc (we_clock e 0) (pu_query u) (ss_public se) (hr_path_value r) (wb_db s))
               a)))) s)"

definition completed_ok :: "oauth_error + completion \<Rightarrow> bool" where
  "completed_ok c = (case c of Inr (Completed _) \<Rightarrow> True | _ \<Rightarrow> False)"

definition accounts_page :: "string \<Rightarrow> bool \<Rightarrow> string" where
  "accounts_page attempt ok =
     ''/accounts?'' @ encode_query ((if attempt = [] then [] else [(''oauth_attempt'', attempt)])
       @ [(''oauth_status'', if ok then ''success'' else ''failed'')])"

text \<open>The page \<open>http.Redirect\<close> writes besides the header is not modelled.\<close>

definition handle_google_oauth_callback ::
  "web \<Rightarrow> web_env \<Rightarrow> http_request \<Rightarrow> web_state \<Rightarrow> web_state \<times> http_response"
where
  "handle_google_oauth_callback w e r s =
     (case wc_oauth w of
        None \<Rightarrow> (s, handle_capability_unavailable r)
      | Some (svc, net, parse) \<Rightarrow>
          (case complete_callback_values svc net (we_nonce e 0) (we_env e 0) (we_env e 1) (we_clock e) (hr_query r)
              (hr_id r) (wb_db s) of
             (t, result) \<Rightarrow>
               (put_db t s,
                \<lparr>rs_status = 303,
                 rs_header = no_store @ [(''Referrer-Policy'', ''no-referrer''),
                   (''Location'', accounts_page (claimed_attempt_id svc (we_clock e 0) (hr_query r) [] [] (wb_db s))
                      (completed_ok result))],
                 rs_cookie = None, rs_content = NoBody\<rparr>)))"

subsection \<open>requireSession\<close>

definition unauthenticated :: "http_request \<Rightarrow> http_response" where
  "unauthenticated r = write_error r 401 ''unauthorized'' ''authentication required'' []"

definition require_session ::
  "web \<Rightarrow> web_env \<Rightarrow> (session \<Rightarrow> http_request \<Rightarrow> web_state \<Rightarrow> web_state \<times> http_response)
    \<Rightarrow> http_request \<Rightarrow> web_state \<Rightarrow> web_state \<times> http_response"
where
  "require_session w e handler r s =
     (case hr_cookie r of
        None \<Rightarrow> (s, unauthenticated r)
      | Some value \<Rightarrow>
          if value = [] then (s, unauthenticated r)
          else
            (case authenticate_session (wc_auth w) value (we_clock e 8) (wb_db s) of
               (t, Inl _) \<Rightarrow>
                 (put_db t s, (unauthenticated r)\<lparr>rs_cookie := Some (clear_session_cookie (wc_secure w))\<rparr>)
             | (t, Inr se) \<Rightarrow>
                 if is_unsafe_method (hr_method r) then
                   if \<not> is_same_origin (wc_text w) (wc_public w) r
                   then (put_db t s, write_error r 403 ''origin_rejected'' ''request origin is not allowed'' [])
                   else if validate_csrf se (header_value r ''X-CSRF-Token'') \<noteq> None
                   then (put_db t s, write_error r 403 ''csrf_rejected'' ''CSRF validation failed'' [])
                   else handler se r (put_db t s)
                 else handler se r (put_db t s)))"

subsection \<open>The endpoints\<close>

datatype endpoint =
    EpLogout | EpSession | EpPassword | EpTOTPSetup | EpTOTPConfirm | EpTOTPDisable
  | EpProviders | EpDashboard | EpSystemHealth | EpAuditEvents | EpRequests | EpRequest | EpUsage
  | EpGetConfig | EpCreateConfig | EpUpdateConfig | EpCreateAttempt | EpGetAttempt | EpCancelAttempt | EpCallback
  | EpListProxies | EpCreateProxy | EpGetProxy | EpUpdateProxy | EpDeleteProxy
  | EpListUpstreams | EpCreateUpstream | EpGetUpstream | EpUpdateUpstream | EpDeleteUpstream
  | EpListAccounts | EpCreateAccount | EpGetAccount | EpUpdateAccount | EpDeleteAccount | EpValidateAccount
  | EpListRoutes | EpCreateRoute | EpGetRoute | EpUpdateRoute | EpDeleteRoute
  | EpListKeys | EpCreateKey | EpGetKey | EpUpdateKey | EpRevokeKey

text \<open>The patterns under \<open>/api/admin/v1/\<close>: a method, the segments (\<open>''{id}''\<close> for the wildcard), the endpoint.\<close>

definition admin_patterns :: "(string \<times> string list \<times> endpoint) list" where
  "admin_patterns =
     [(''POST'', [''auth'', ''logout''], EpLogout), (''GET'', [''auth'', ''session''], EpSession),
      (''PUT'', [''auth'', ''password''], EpPassword), (''POST'', [''auth'', ''totp'', ''setup''], EpTOTPSetup),
      (''POST'', [''auth'', ''totp'', ''confirm''], EpTOTPConfirm), (''DELETE'', [''auth'', ''totp''], EpTOTPDisable),
      (''GET'', [''providers''], EpProviders), (''GET'', [''dashboard''], EpDashboard),
      (''GET'', [''system'', ''health''], EpSystemHealth), (''GET'', [''audit-events''], EpAuditEvents),
      (''GET'', [''requests''], EpRequests), (''GET'', [''requests'', ''{id}''], EpRequest),
      (''GET'', [''usage''], EpUsage),
      (''GET'', [''oauth'', ''providers'', ''google''], EpGetConfig),
      (''POST'', [''oauth'', ''providers'', ''google''], EpCreateConfig),
      (''PATCH'', [''oauth'', ''providers'', ''google''], EpUpdateConfig),
      (''POST'', [''oauth-attempts''], EpCreateAttempt), (''GET'', [''oauth-attempts'', ''{id}''], EpGetAttempt),
      (''DELETE'', [''oauth-attempts'', ''{id}''], EpCancelAttempt),
      (''POST'', [''oauth-attempts'', ''{id}'', ''callback''], EpCallback),
      (''GET'', [''proxies''], EpListProxies), (''POST'', [''proxies''], EpCreateProxy),
      (''GET'', [''proxies'', ''{id}''], EpGetProxy), (''PATCH'', [''proxies'', ''{id}''], EpUpdateProxy),
      (''DELETE'', [''proxies'', ''{id}''], EpDeleteProxy),
      (''GET'', [''upstreams''], EpListUpstreams), (''POST'', [''upstreams''], EpCreateUpstream),
      (''GET'', [''upstreams'', ''{id}''], EpGetUpstream), (''PATCH'', [''upstreams'', ''{id}''], EpUpdateUpstream),
      (''DELETE'', [''upstreams'', ''{id}''], EpDeleteUpstream),
      (''GET'', [''accounts''], EpListAccounts), (''POST'', [''accounts''], EpCreateAccount),
      (''GET'', [''accounts'', ''{id}''], EpGetAccount), (''PATCH'', [''accounts'', ''{id}''], EpUpdateAccount),
      (''DELETE'', [''accounts'', ''{id}''], EpDeleteAccount),
      (''POST'', [''accounts'', ''{id}'', ''validate''], EpValidateAccount),
      (''GET'', [''model-routes''], EpListRoutes), (''POST'', [''model-routes''], EpCreateRoute),
      (''GET'', [''model-routes'', ''{id}''], EpGetRoute), (''PATCH'', [''model-routes'', ''{id}''], EpUpdateRoute),
      (''DELETE'', [''model-routes'', ''{id}''], EpDeleteRoute),
      (''GET'', [''client-keys''], EpListKeys), (''POST'', [''client-keys''], EpCreateKey),
      (''GET'', [''client-keys'', ''{id}''], EpGetKey), (''PATCH'', [''client-keys'', ''{id}''], EpUpdateKey),
      (''DELETE'', [''client-keys'', ''{id}''], EpRevokeKey)]"

text \<open>\<open>net/http.ServeMux\<close>: a wildcard matches one segment that is not empty, GET also HEAD.\<close>

fun match_segments :: "string list \<Rightarrow> string list \<Rightarrow> string \<Rightarrow> string option" where
  "match_segments [] [] bound = Some bound"
| "match_segments (p # ps) (x # xs) bound =
     (if p = ''{id}'' then (if x = [] then None else match_segments ps xs x)
      else if p = x then match_segments ps xs bound else None)"
| "match_segments _ _ bound = None"

definition method_matches :: "string \<Rightarrow> string \<Rightarrow> bool" where
  "method_matches pattern m \<longleftrightarrow> m = pattern \<or> (pattern = ''GET'' \<and> m = ''HEAD'')"

fun match_patterns ::
  "(string \<times> string list \<times> endpoint) list \<Rightarrow> string \<Rightarrow> string list \<Rightarrow> (endpoint \<times> string) option"
where
  "match_patterns [] m segments = None"
| "match_patterns ((pm, ps, ep) # rest) m segments =
     (if method_matches pm m then
        (case match_segments ps segments [] of
           Some bound \<Rightarrow> Some (ep, bound)
         | None \<Rightarrow> match_patterns rest m segments)
      else match_patterns rest m segments)"

definition run_endpoint ::
  "web \<Rightarrow> web_env \<Rightarrow> endpoint \<Rightarrow> session \<Rightarrow> http_request \<Rightarrow> web_state \<Rightarrow> web_state \<times> http_response"
where
  "run_endpoint w e ep se r s =
     (case ep of
        EpLogout \<Rightarrow> handle_logout w e se r s
      | EpSession \<Rightarrow> (s, handle_session w se)
      | EpPassword \<Rightarrow> handle_password w e se r s
      | EpTOTPSetup \<Rightarrow> handle_totp_setup w e se r s
      | EpTOTPConfirm \<Rightarrow> handle_totp_confirm w e se r s
      | EpTOTPDisable \<Rightarrow> handle_totp_disable w e se r s
      | EpProviders \<Rightarrow> (s, handle_providers)
      | EpDashboard \<Rightarrow> (s, handle_dashboard e r s)
      | EpSystemHealth \<Rightarrow> (s, handle_system_health w e)
      | EpAuditEvents \<Rightarrow> (s, handle_audit_events w r s)
      | EpRequests \<Rightarrow> (s, handle_requests w r s)
      | EpRequest \<Rightarrow> (s, handle_request w r s)
      | EpUsage \<Rightarrow> (s, handle_usage_summary w e r s)
      | EpGetConfig \<Rightarrow> handle_get_google_config w r s
      | EpCreateConfig \<Rightarrow> handle_create_google_config w e se r s
      | EpUpdateConfig \<Rightarrow> handle_update_google_config w e se r s
      | EpCreateAttempt \<Rightarrow> handle_create_oauth_attempt w e se r s
      | EpGetAttempt \<Rightarrow> handle_get_oauth_attempt w se r s
      | EpCancelAttempt \<Rightarrow> handle_cancel_oauth_attempt w e se r s
      | EpCallback \<Rightarrow> handle_manual_oauth_callback w e se r s
      | EpListProxies \<Rightarrow> (s, handle_list_proxies w r s)
      | EpCreateProxy \<Rightarrow> handle_create_proxy w e se r s
      | EpGetProxy \<Rightarrow> (s, handle_get_proxy w r s)
      | EpUpdateProxy \<Rightarrow> handle_update_proxy w e se r s
      | EpDeleteProxy \<Rightarrow> handle_delete_proxy e se r s
      | EpListUpstreams \<Rightarrow> (s, handle_list_upstreams w r s)
      | EpCreateUpstream \<Rightarrow> handle_create_upstream w e se r s
      | EpGetUpstream \<Rightarrow> (s, handle_get_upstream w r s)
      | EpUpdateUpstream \<Rightarrow> handle_update_upstream w e se r s
      | EpDeleteUpstream \<Rightarrow> handle_delete_upstream e se r s
      | EpListAccounts \<Rightarrow> (s, handle_list_accounts w r s)
      | EpCreateAccount \<Rightarrow> handle_create_account w e se r s
      | EpGetAccount \<Rightarrow> (s, handle_get_account w r s)
      | EpUpdateAccount \<Rightarrow> handle_update_account w e se r s
      | EpDeleteAccount \<Rightarrow> handle_delete_account e se r s
      | EpValidateAccount \<Rightarrow> handle_validate_account w e se r s
      | EpListRoutes \<Rightarrow> (s, handle_list_model_routes w r s)
      | EpCreateRoute \<Rightarrow> handle_create_model_route w e se r s
      | EpGetRoute \<Rightarrow> (s, handle_get_model_route w r s)
      | EpUpdateRoute \<Rightarrow> handle_update_model_route w e se r s
      | EpDeleteRoute \<Rightarrow> handle_delete_model_route e se r s
      | EpListKeys \<Rightarrow> (s, handle_list_client_keys w r s)
      | EpCreateKey \<Rightarrow> handle_create_client_key w e se r s
      | EpGetKey \<Rightarrow> (s, handle_get_client_key w r s)
      | EpUpdateKey \<Rightarrow> handle_update_client_key w e se r s
      | EpRevokeKey \<Rightarrow> handle_revoke_client_key e se r s)"

text \<open>The mux's own answers, without their headers: 405 when only the method differs, else 404.\<close>

definition mux_refusal :: "string list \<Rightarrow> http_response" where
  "mux_refusal segments =
     (if list_ex (\<lambda>(m, ps, ep). match_segments ps segments [] \<noteq> None) admin_patterns
      then \<lparr>rs_status = 405, rs_header = [], rs_cookie = None, rs_content = TextBody ''Method Not Allowed''\<rparr>
      else \<lparr>rs_status = 404, rs_header = [], rs_cookie = None, rs_content = TextBody ''404 page not found''\<rparr>)"

definition admin_mux ::
  "web \<Rightarrow> web_env \<Rightarrow> string list \<Rightarrow> session \<Rightarrow> http_request \<Rightarrow> web_state \<Rightarrow> web_state \<times> http_response"
where
  "admin_mux w e segments se r s =
     (case match_patterns admin_patterns (hr_method r) segments of
        None \<Rightarrow> (s, mux_refusal segments)
      | Some (ep, bound) \<Rightarrow> run_endpoint w e ep se (r\<lparr>hr_path_value := bound\<rparr>) s)"

text \<open>
  The outer patterns of the administration: the login and the OAuth callback need no session, all
  else under \<open>/api/admin/\<close> does.  \<open>hr_path\<close> is the path, split at its slashes.
\<close>

definition serve_admin :: "web \<Rightarrow> web_env \<Rightarrow> http_request \<Rightarrow> web_state \<Rightarrow> web_state \<times> http_response" where
  "serve_admin w e r s =
     (if hr_method r = ''POST'' \<and> hr_path r = [''api'', ''admin'', ''v1'', ''auth'', ''login'']
      then handle_login w e r s
      else
        require_session w e
          (if take 3 (hr_path r) = [''api'', ''admin'', ''v1''] then admin_mux w e (drop 3 (hr_path r))
           else (\<lambda>se r s. (s, mux_refusal [])))
          r s)"

end
