(* ===== verification/Http_Facts.thy ===== *)
theory Http_Facts
  imports Http_Admin
begin

text \<open>
  What protects the administration API: a change needs a session, the same origin and the token of
  the session, and a write needs the current version of what it writes.  The lemmas follow a request
  through \<open>requireSession\<close>, the table of endpoints and the handlers.
\<close>

subsection \<open>The guard\<close>

definition only_sessions :: "web_state \<Rightarrow> web_state \<Rightarrow> bool" where
  "only_sessions s t \<longleftrightarrow> (\<exists>rows. t = s\<lparr>wb_db := (wb_db s)\<lparr>admin_sessions := rows\<rparr>\<rparr>)"

lemma only_sessions_refl [simp]: "only_sessions s s"
  unfolding only_sessions_def by (intro exI [of _ "admin_sessions (wb_db s)"]) simp

lemma authenticate_only_sessions:
  "authenticate_session svc raw now d = (t, result) \<Longrightarrow> \<exists>rows. t = d\<lparr>admin_sessions := rows\<rparr>"
  by (cases "row_by se_verifier (as_sha svc raw) (admin_sessions d)"; cases "admin_user d")
    (auto simp: authenticate_session_def revoke_sessions_def Let_def intro: exI [of _ "admin_sessions d"]
      split: if_splits sum.splits)

lemma authenticated_only_sessions:
  "authenticate_session svc raw now (wb_db s) = (t, result) \<Longrightarrow> only_sessions s (put_db t s)"
  using authenticate_only_sessions by (fastforce simp: only_sessions_def put_db_def)

definition reads_only :: "endpoint \<Rightarrow> bool" where
  "reads_only ep \<longleftrightarrow> ep \<in> {EpSession, EpProviders, EpDashboard, EpSystemHealth, EpAuditEvents, EpRequests, EpRequest,
     EpUsage, EpGetConfig, EpGetAttempt, EpListProxies, EpGetProxy, EpListUpstreams, EpGetUpstream, EpListAccounts,
     EpGetAccount, EpListRoutes, EpGetRoute, EpListKeys, EpGetKey}"

lemma reads_only_state:
  assumes "reads_only ep" "run_endpoint w e ep se r s = (t, resp)"
  shows "t = s"
  using assms
  by (auto simp: reads_only_def run_endpoint_def handle_get_google_config_def handle_get_oauth_attempt_def with_oauth_def
      split: option.splits sum.splits)

lemma match_patterns_Some:
  "match_patterns ps m segments = Some (ep, bound) \<Longrightarrow> \<exists>pm p. (pm, p, ep) \<in> set ps \<and> method_matches pm m"
  by (induction ps m segments rule: match_patterns.induct) (auto split: if_splits option.splits)

lemma safe_endpoints:
  assumes "match_patterns admin_patterns m segments = Some (ep, bound)" "\<not> is_unsafe_method m"
  shows "reads_only ep"
proof -
  obtain pm p where p: "(pm, p, ep) \<in> set admin_patterns" "method_matches pm m"
    using match_patterns_Some [OF assms(1)] by blast
  then have "pm = ''GET'' \<or> pm \<notin> {''GET'', ''POST'', ''PUT'', ''PATCH'', ''DELETE''}"
    using assms(2) by (auto simp: method_matches_def is_unsafe_method_def)
  with p(1) show ?thesis by (auto simp: admin_patterns_def reads_only_def)
qed

lemma safe_mux:
  assumes "admin_mux w e segments se r s = (t, resp)" "\<not> is_unsafe_method (hr_method r)"
  shows "t = s"
proof (cases "match_patterns admin_patterns (hr_method r) segments")
  case (Some found)
  obtain ep bound where found: "found = (ep, bound)" by (cases found)
  from Some found have "reads_only ep" using safe_endpoints assms(2) by blast
  moreover have "run_endpoint w e ep se (r\<lparr>hr_path_value := bound\<rparr>) s = (t, resp)"
    using assms(1) Some found by (simp add: admin_mux_def)
  ultimately show ?thesis by (rule reads_only_state)
qed (use assms(1) in \<open>simp add: admin_mux_def\<close>)

lemma require_session_outcome:
  assumes "require_session w e handler r s = (t, resp)"
    and safe: "\<And>se s' t' resp'. handler se r s' = (t', resp') \<Longrightarrow> \<not> is_unsafe_method (hr_method r) \<Longrightarrow> t' = s'"
    and changed: "\<not> only_sessions s t"
  obtains token se where "hr_cookie r = Some token" "snd (authenticate_session (wc_auth w) token (we_clock e 8) (wb_db s)) = Inr se"
    "is_unsafe_method (hr_method r)" "is_same_origin (wc_text w) (wc_public w) r"
    "validate_csrf se (header_value r ''X-CSRF-Token'') = None"
proof -
  from assms(1) changed obtain token where token: "hr_cookie r = Some token" "token \<noteq> []"
    by (auto simp: require_session_def split: option.splits if_splits)
  obtain d result where auth: "authenticate_session (wc_auth w) token (we_clock e 8) (wb_db s) = (d, result)"
    by (cases "authenticate_session (wc_auth w) token (we_clock e 8) (wb_db s)") auto
  note kept = authenticated_only_sessions [OF auth]
  from assms(1) token auth changed kept obtain se where se: "result = Inr se"
    by (auto simp: require_session_def split: sum.splits)
  note run = assms(1) [unfolded require_session_def token option.case auth prod.case se sum.case]
  have unsafe: "is_unsafe_method (hr_method r)"
  proof (rule ccontr)
    assume safe_method: "\<not> is_unsafe_method (hr_method r)"
    with run token(2) have "handler se r (put_db d s) = (t, resp)" by (simp split: if_splits)
    then show False using safe safe_method kept changed by blast
  qed
  with run token(2) kept changed have "is_same_origin (wc_text w) (wc_public w) r"
    "validate_csrf se (header_value r ''X-CSRF-Token'') = None"
    by (auto split: if_splits)
  with that token(1) auth se unsafe show thesis by simp
qed

lemma require_session_ran:
  assumes "require_session w e handler r s = (t, resp)" "\<not> only_sessions s t"
  obtains s' se where "only_sessions s s'" "handler se r s' = (t, resp)"
proof -
  from assms obtain raw where raw: "hr_cookie r = Some raw" "raw \<noteq> []"
    by (auto simp: require_session_def split: option.splits if_splits)
  obtain d result where auth: "authenticate_session (wc_auth w) raw (we_clock e 8) (wb_db s) = (d, result)"
    by (cases "authenticate_session (wc_auth w) raw (we_clock e 8) (wb_db s)") auto
  note kept = authenticated_only_sessions [OF auth]
  from assms raw auth kept obtain se where se: "result = Inr se"
    by (auto simp: require_session_def split: sum.splits)
  note run = assms(1) [unfolded require_session_def raw option.case auth prod.case se sum.case]
  from run raw(2) kept assms(2) have "handler se r (put_db d s) = (t, resp)" by (auto split: if_splits)
  with kept show thesis by (rule that)
qed

subsection \<open>Versions\<close>

fun writes_kind :: "endpoint \<Rightarrow> resource option" where
  "writes_kind EpUpdateProxy = Some ProxyResource"
| "writes_kind EpDeleteProxy = Some ProxyResource"
| "writes_kind EpUpdateUpstream = Some UpstreamResource"
| "writes_kind EpDeleteUpstream = Some UpstreamResource"
| "writes_kind EpUpdateAccount = Some AccountResource"
| "writes_kind EpDeleteAccount = Some AccountResource"
| "writes_kind EpValidateAccount = Some AccountResource"
| "writes_kind EpUpdateRoute = Some RouteResource"
| "writes_kind EpDeleteRoute = Some RouteResource"
| "writes_kind EpUpdateKey = Some KeyResource"
| "writes_kind EpRevokeKey = Some KeyResource"
| "writes_kind _ = None"

lemma require_version_Inr:
  "require_version r = Inr v \<longleftrightarrow> parse_etag (header_value r ''If-Match'') = Some v"
  by (auto simp: require_version_def split: option.splits)

lemma responding_changes:
  assumes "responding_with x f s = (t, resp)" "t \<noteq> s"
  obtains a where "x = Inr a" "f a = (t, resp)"
  using assms by (auto simp: responding_with_def split: sum.splits)

lemma changed_Inr:
  assumes "changed r result respond s = (t, resp)" "t \<noteq> s"
  obtains i d where "result = Inr (i, d)"
  using assms by (auto simp: changed_def split: sum.splits prod.splits)

lemma removed_Inr:
  assumes "removed r result s = (t, resp)" "t \<noteq> s"
  obtains d where "result = Inr d"
  using assms by (auto simp: removed_def split: sum.splits)

text \<open>A write at a version that has gone through was at the version of the resource.\<close>

definition stands_at :: "web_state \<Rightarrow> resource \<Rightarrow> string \<Rightarrow> int \<Rightarrow> bool" where
  "stands_at s kind pid v \<longleftrightarrow> resource_version (wb_db s) (kind, pid) = Some v"

lemma written_current:
  assumes "names_unique (wb_db s)" "written kind pid v (wb_db s) d"
  shows "stands_at s kind pid v"
  using written_versions(1) [OF assms] by (simp add: stands_at_def)

lemma validate_account_current:
  assumes "handle_validate_account w e se r s = (t, resp)" "t \<noteq> s" "names_unique (wb_db s)"
  shows "\<exists>v. require_version r = Inr v \<and> stands_at s AccountResource (hr_path_value r) v"
proof -
  from assms(1,2) obtain registry transport where "wc_validate w = Some (registry, transport)"
    by (auto simp: handle_validate_account_def split: option.splits)
  from assms(1) [unfolded handle_validate_account_def this option.case prod.case] assms(2)
  obtain v where v: "require_version r = Inr v"
    and out: "(case validate_account (wc_cipher w) (ht_scan (wc_text w)) registry transport (we_env e) (actor_of r se)
        (hr_path_value r) v (wb_db s) of
       (d, Inl (ValidateCode code)) \<Rightarrow>
         (put_db d s, write_error r (validation_status code) ''account_validation_failed''
            ''account validation failed'' [(''reason'', JStr code)])
     | (d, Inl (ValidateControl x)) \<Rightarrow> (put_db d s, control_failed r x)
     | (d, Inr item) \<Rightarrow>
         (put_db d s, write_json_with (etag_header (ai_version item)) 200 (account_json w item))) = (t, resp)"
    by (rule responding_changes)
  obtain d result where run: "validate_account (wc_cipher w) (ht_scan (wc_text w)) registry transport (we_env e)
      (actor_of r se) (hr_path_value r) v (wb_db s) = (d, result)"
    by (cases "validate_account (wc_cipher w) (ht_scan (wc_text w)) registry transport (we_env e)
      (actor_of r se) (hr_path_value r) v (wb_db s)") auto
  from out run have "t = put_db d s" by (auto split: sum.splits validate_error.splits)
  with assms(2) have d: "d \<noteq> wb_db s" by auto
  from run d obtain item d1 where "begin_account_validation (we_env e 0) (actor_of r se) (hr_path_value r) v (wb_db s) = Inr (item, d1)"
    by (auto simp: validate_account_def start_validation_def from_control_def split: sum.splits if_splits)
  with v show ?thesis using written_current [OF assms(3) begin_validation_written] by blast
qed

lemma update_shape:
  assumes "responding_with (require_version r) (\<lambda>v. responding_with body (f v) s) s = (t, resp)" "t \<noteq> s"
  obtains v i where "require_version r = Inr v" "f v i = (t, resp)"
  using assms by (elim responding_changes) blast+

lemmas handler_defs = handle_update_proxy_def handle_delete_proxy_def handle_update_upstream_def
  handle_delete_upstream_def handle_update_account_def handle_delete_account_def handle_update_model_route_def
  handle_delete_model_route_def handle_update_client_key_def handle_revoke_client_key_def

lemma write_current:
  assumes run: "run_endpoint w e ep se r s = (t, resp)" and kind: "writes_kind ep = Some kind" and t: "t \<noteq> s"
    and unique: "names_unique (wb_db s)"
  shows "\<exists>v. require_version r = Inr v \<and> stands_at s kind (hr_path_value r) v"
proof -
  note cur = written_current [OF unique]
  show ?thesis
  proof (cases ep)
    case EpUpdateProxy
    from run [unfolded EpUpdateProxy run_endpoint_def endpoint.case handler_defs] t obtain v i where
      v: "require_version r = Inr v" "changed r (update_proxy (wc_net w) (we_first e) (wc_cipher w) (we_nonce e 0)
        (we_nonce e 1) (we_env e 0) (actor_of r se) (hr_path_value r) v i (wb_db s) (wb_db s))
        (\<lambda>item. write_json_with (etag_header (pi_version item)) 200 (proxy_json w item)) s = (t, resp)"
      by (rule update_shape)
    with kind EpUpdateProxy show ?thesis by (auto intro: cur [OF update_proxy_written] elim: changed_Inr [OF _ t])
  next
    case EpDeleteProxy
    from run [unfolded EpDeleteProxy run_endpoint_def endpoint.case handler_defs] t kind EpDeleteProxy show ?thesis
      by (auto intro: cur [OF delete_proxy_written] elim!: responding_changes removed_Inr)
  next
    case EpUpdateUpstream
    from run [unfolded EpUpdateUpstream run_endpoint_def endpoint.case handler_defs] t obtain v i where
      v: "require_version r = Inr v" "changed r (update_upstream (wc_net w) (we_env e 0) (actor_of r se)
        (hr_path_value r) v i (wb_db s))
        (\<lambda>item. write_json_with (etag_header (ui_version item)) 200 (upstream_json w item)) s = (t, resp)"
      by (rule update_shape)
    with kind EpUpdateUpstream show ?thesis by (auto intro: cur [OF update_upstream_written] elim: changed_Inr [OF _ t])
  next
    case EpDeleteUpstream
    from run [unfolded EpDeleteUpstream run_endpoint_def endpoint.case handler_defs] t kind EpDeleteUpstream show ?thesis
      by (auto intro: cur [OF delete_upstream_written] elim!: responding_changes removed_Inr)
  next
    case EpUpdateAccount
    from run [unfolded EpUpdateAccount run_endpoint_def endpoint.case handler_defs] t obtain v i where
      v: "require_version r = Inr v" "changed r (update_account (wc_cipher w) (wc_render w) (we_nonce e 0) (we_env e 0)
        (actor_of r se) (hr_path_value r) v i (wb_db s) (wb_db s))
        (\<lambda>item. write_json_with (etag_header (ai_version item)) 200 (account_json w item)) s = (t, resp)"
      by (rule update_shape)
    with kind EpUpdateAccount show ?thesis by (auto intro: cur [OF update_account_written] elim: changed_Inr [OF _ t])
  next
    case EpDeleteAccount
    from run [unfolded EpDeleteAccount run_endpoint_def endpoint.case handler_defs] t kind EpDeleteAccount show ?thesis
      by (auto intro: cur [OF delete_account_written] elim!: responding_changes removed_Inr)
  next
    case EpValidateAccount
    with run kind show ?thesis using validate_account_current [OF _ t unique] by (simp add: run_endpoint_def)
  next
    case EpUpdateRoute
    from run [unfolded EpUpdateRoute run_endpoint_def endpoint.case handler_defs] t obtain v i where
      v: "require_version r = Inr v" "changed r (update_model_route (we_env e 0) (actor_of r se) (hr_path_value r) v i
        (wb_db s)) (\<lambda>item. write_json_with (etag_header (ro_info_version item)) 200 (route_json w item)) s = (t, resp)"
      by (rule update_shape)
    with kind EpUpdateRoute show ?thesis by (auto intro: cur [OF update_route_written] elim: changed_Inr [OF _ t])
  next
    case EpDeleteRoute
    have "distinct (map ro_id (routes (wb_db s)))" using unique by (simp add: names_unique_def)
    then show ?thesis using run [unfolded EpDeleteRoute run_endpoint_def endpoint.case handler_defs] t kind EpDeleteRoute
      by (auto intro: cur [OF delete_route_written] elim!: responding_changes removed_Inr)
  next
    case EpUpdateKey
    from run [unfolded EpUpdateKey run_endpoint_def endpoint.case handler_defs] t obtain v i where
      v: "require_version r = Inr v" "(case i of (name, status, expires) \<Rightarrow>
        changed r (update_client_key (we_env e 0) (actor_of r se) (hr_path_value r) v name status expires (wb_db s))
          (\<lambda>item. write_json_with (etag_header (key_version item)) 200 (key_json w item)) s) = (t, resp)"
      by (rule update_shape)
    obtain n st ex where i: "i = (n, st, ex)" by (cases i)
    from v(2) i obtain item d where "update_client_key (we_env e 0) (actor_of r se) (hr_path_value r) v n st ex (wb_db s)
        = Inr (item, d)"
      by (auto elim: changed_Inr [OF _ t])
    then have "write_key (wb_db s) (hr_path_value r) v (we_env e 0, actor_of r se, UpdateKey n st ex) = Inr d"
      by (simp add: write_key_def)
    with v(1) kind EpUpdateKey show ?thesis using cur [OF write_key_written] by auto
  next
    case EpRevokeKey
    from run [unfolded EpRevokeKey run_endpoint_def endpoint.case handler_defs] t obtain v d where
      v: "require_version r = Inr v" "revoke_client_key (we_env e 0) (actor_of r se) (hr_path_value r) v (wb_db s) = Inr d"
      by (elim responding_changes removed_Inr) auto
    then have "write_key (wb_db s) (hr_path_value r) v (we_env e 0, actor_of r se, RevokeKey) = Inr d"
      by (simp add: write_key_def)
    with v(1) kind EpRevokeKey show ?thesis using cur [OF write_key_written] by auto
  qed (use kind in simp_all)
qed

end
