(* ===== verification/Http_Public.thy ===== *)
theory Http_Public
  imports Http_Core Gateway_World
begin

text \<open>
  The public API, \<open>internal/httpapi/handlers_gateway.go\<close>: from the client key in the headers to
  \<open>Execute\<close>, and the errors in the form of each protocol.  The world is that of the gateway.
\<close>

subsection \<open>Credentials in the headers\<close>

definition valid_single_header :: "string \<Rightarrow> bool" where
  "valid_single_header v \<longleftrightarrow>
     v \<noteq> [] \<and> trim_space v = v \<and> \<not> contains_any v [CHR 0x0D, CHR 0x0A, CHR 0x00, CHR '','']"

definition bearer_key :: "string list \<Rightarrow> string option" where
  "bearer_key vs =
     (case vs of
        [v] \<Rightarrow>
          if contains_any v '','' then None
          else
            (case fields_of [] v of
               [scheme, key] \<Rightarrow> if to_lower scheme = ''bearer'' \<and> valid_single_header key then Some key else None
             | _ \<Rightarrow> None)
      | _ \<Rightarrow> None)"

definition extract_client_key :: "http_request \<Rightarrow> string \<Rightarrow> string option" where
  "extract_client_key r protocol =
     (if protocol = ''anthropic'' then
        let api_keys = hr_headers r ''X-Api-Key''; authorizations = hr_headers r ''Authorization'' in
        if api_keys \<noteq> [] \<and> authorizations \<noteq> [] then None
        else if length api_keys = 1 \<and> valid_single_header (hd api_keys) then Some (hd api_keys)
        else if api_keys \<noteq> [] then None
        else bearer_key authorizations
      else if protocol = ''gemini'' then
        if ''key'' \<in> fst ` set (hr_query r) then None
        else
          (case hr_headers r ''X-Goog-Api-Key'' of
             [v] \<Rightarrow> if valid_single_header v then Some v else None
           | _ \<Rightarrow> None)
      else bearer_key (hr_headers r ''Authorization''))"

subsection \<open>Bodies\<close>

abbreviation max_request_body :: nat where "max_request_body \<equiv> 8388608"

abbreviation body_error :: "int \<Rightarrow> string \<Rightarrow> string \<Rightarrow> gateway_error" where
  "body_error status code message \<equiv> public_error status code (Plain message)"

definition read_gateway_body :: "http_request \<Rightarrow> gateway_error + string" where
  "read_gateway_body r =
     (let encoding = trim_space (header_value r ''Content-Encoding'') in
      if encoding \<noteq> [] \<and> to_lower encoding \<noteq> ''identity''
      then Inl (body_error 415 ''invalid_request'' ''compressed request bodies are not supported'')
      else if parse_media_type (header_value r ''Content-Type'') \<noteq> Some ''application/json''
      then Inl (body_error 415 ''invalid_request'' ''content type must be application/json'')
      else
        (case read_request max_request_body r of
           None \<Rightarrow> Inl (body_error 413 ''request_too_large'' ''request body exceeds the size limit'')
         | Some body \<Rightarrow>
             if trim_space body = [] then Inl (body_error 400 ''invalid_request'' ''request body is required'')
             else Inr body))"

definition valid_path_model :: "string \<Rightarrow> bool" where
  "valid_path_model m \<longleftrightarrow> trim_space m = m \<and> m \<noteq> [] \<and> length m \<le> 200
     \<and> \<not> contains_any m ([CHR ''/'', CHR 0x5C, CHR 0x0D, CHR 0x0A, CHR 0x00] @ ''?#'')"

subsection \<open>Errors of the protocols\<close>

definition message_text :: "http_text \<Rightarrow> codec_message \<Rightarrow> string" where
  "message_text ht m =
     (case m of
        Plain s \<Rightarrow> s
      | JSONProblem e \<Rightarrow> json_error_text e
      | FieldProblem path reason \<Rightarrow> ''request field '' @ ht_quote ht path @ '' '' @ reason
      | FieldNotVerified path \<Rightarrow>
          ''request field '' @ ht_quote ht path @ '' is not verified for this provider endpoint''
      | FieldNeedsCapability path \<Rightarrow>
          ''request field '' @ ht_quote ht path @ '' requires a capability not available in v0.2'')"

definition google_error_status :: "int \<Rightarrow> string" where
  "google_error_status status =
     (if status = 400 then ''INVALID_ARGUMENT''
      else if status = 401 then ''UNAUTHENTICATED''
      else if status = 404 then ''NOT_FOUND''
      else if status = 429 then ''RESOURCE_EXHAUSTED''
      else if status = 422 then ''FAILED_PRECONDITION''
      else ''UNAVAILABLE'')"

definition anthropic_category :: "int \<Rightarrow> string" where
  "anthropic_category status =
     (if status = 400 \<or> status = 422 then ''invalid_request_error''
      else if status = 401 then ''authentication_error''
      else if status = 404 then ''not_found_error''
      else if status = 429 then ''rate_limit_error''
      else ''api_error'')"

text \<open>\<open>(value.RetryAfter + time.Second - 1) / time.Second\<close>, in 64 bits.\<close>

definition retry_after_seconds :: "nanos \<Rightarrow> int" where
  "retry_after_seconds retry_after = wrap64 (retry_after + second - 1) sdiv second"

definition error_status :: "int \<Rightarrow> int" where
  "error_status status = (if status < 400 \<or> 599 < status then 500 else status)"

definition protocol_error_json :: "http_text \<Rightarrow> http_request \<Rightarrow> string \<Rightarrow> int \<Rightarrow> gateway_error \<Rightarrow> json" where
  "protocol_error_json ht r protocol status err =
     (let message = message_text ht (ge_message err) in
      if protocol = ''anthropic'' then
        JObj [(''type'', JStr ''error''),
          (''error'', JObj [(''type'', JStr (anthropic_category status)), (''message'', JStr message),
             (''sidervia_code'', JStr (ge_code err))]),
          (''request_id'', JStr (hr_id r))]
      else if protocol = ''gemini'' then
        JObj [(''error'', JObj [(''code'', JNum (show_int status)), (''message'', JStr message),
          (''status'', JStr (google_error_status status)),
          (''details'', JArr [JObj [(''@type'', JStr ''type.googleapis.com/sidervia.v1.ErrorInfo''),
             (''reason'', JStr (ge_code err)), (''requestId'', JStr (hr_id r))]])])]
      else
        JObj [(''error'', JObj [(''message'', JStr message),
            (''type'', JStr (if status < 500 then ''invalid_request_error'' else ''server_error'')),
            (''param'', JNull), (''code'', JStr (ge_code err))]),
          (''request_id'', JStr (hr_id r))])"

definition write_protocol_error :: "http_text \<Rightarrow> http_request \<Rightarrow> string \<Rightarrow> gateway_error \<Rightarrow> http_response" where
  "write_protocol_error ht r protocol err =
     (let status = error_status (ge_status err) in
      write_json_with
        (if 0 < ge_retry_after err
         then [(''Retry-After'', show_int (retry_after_seconds (ge_retry_after err)))] else [])
        status (protocol_error_json ht r protocol status err))"

subsection \<open>The calls\<close>

text \<open>
  The services a public handler needs: the digest of client keys, and whether the gateway, the
  router and the recorder are there.
\<close>

record public_server =
  ps_text :: http_text
  ps_sha :: "string \<Rightarrow> string"
  ps_ready :: bool
  ps_recorder :: bool

definition authentication_failed :: gateway_error where
  "authentication_failed = public_error 401 ''authentication_failed'' (Plain ''Client Key authentication failed'')"

text \<open>\<open>recordPublicRequest\<close>: \<open>started\<close> and \<open>completed\<close> are \<open>time.Now\<close> at both ends.\<close>

definition public_event ::
  "http_request \<Rightarrow> int \<Rightarrow> string \<Rightarrow> string \<Rightarrow> string \<Rightarrow> nanos \<Rightarrow> nanos \<Rightarrow> int \<Rightarrow> int \<Rightarrow> int \<Rightarrow> string \<Rightarrow> event"
where
  "public_event r key protocol endpoint model started completed request_bytes response_bytes status code =
     \<lparr>ev_request = hr_id r, ev_client_key = key, ev_protocol = protocol, ev_endpoint = endpoint, ev_model = model,
      ev_provider = [], ev_upstream = 0, ev_account = 0, ev_status = status, ev_error_code = code,
      ev_streamed = False, ev_started = unix_milli started, ev_first_byte = None, ev_completed = unix_milli completed,
      ev_request_bytes = request_bytes, ev_response_bytes = response_bytes, ev_usage = lex (values_json []),
      ev_routing = lex (values_json [])\<rparr>"

definition record_public ::
  "public_server \<Rightarrow> 'n externals \<Rightarrow> int \<Rightarrow> event \<Rightarrow> 'n world \<Rightarrow> 'n world"
where
  "record_public p x key ev wd =
     (if \<not> ps_recorder p \<or> key \<le> 0 then wd else g_record (model_gateway x) ev wd)"

definition protocol_headers :: "http_request \<Rightarrow> string \<Rightarrow> header" where
  "protocol_headers r protocol =
     (if protocol = ''anthropic''
      then header_set ''Anthropic-Beta'' (header_value r ''Anthropic-Beta'')
             (header_set ''Anthropic-Version'' (header_value r ''Anthropic-Version'') [])
      else [])"

text \<open>
  \<open>None\<close> as a response: \<open>Execute\<close> has written it.  \<open>clock\<close> gives the times of the handler
  itself: the start, the authentication, and the end.
\<close>

definition handle_gateway_call ::
  "public_server \<Rightarrow> 'n externals \<Rightarrow> (nat \<Rightarrow> nanos) \<Rightarrow> http_request \<Rightarrow> string \<Rightarrow> string \<Rightarrow> string \<Rightarrow> bool \<Rightarrow> 'n world
    \<Rightarrow> 'n world \<times> http_response option"
where
  "handle_gateway_call p x clock r protocol endpoint model force wd =
     (if \<not> ps_ready p
      then (wd, Some (write_error r 501 ''capability_not_supported''
              ''requested provider capability is not implemented in this release'' []))
      else
        (case extract_client_key r protocol of
           None \<Rightarrow> (wd, Some (write_protocol_error (ps_text p) r protocol authentication_failed))
         | Some raw \<Rightarrow>
             (case authenticate (ps_sha p) raw (clock 1) (wd_db wd) of
                Inl _ \<Rightarrow> (wd, Some (write_protocol_error (ps_text p) r protocol authentication_failed))
              | Inr ((key, pid), s1) \<Rightarrow>
                  let wd1 = wd\<lparr>wd_db := s1\<rparr> in
                  (case read_gateway_body r of
                     Inl err \<Rightarrow>
                       (record_public p x key
                          (public_event r key protocol endpoint model (clock 0) (clock 2) (max (hr_length r) 0) 0
                             (ge_status err) (ge_code err)) wd1,
                        Some (write_protocol_error (ps_text p) r protocol err))
                   | Inr body \<Rightarrow>
                       (case execute (model_gateway x)
                           \<lparr>inv_key_id = key, inv_request = hr_id r, inv_protocol = protocol, inv_endpoint = endpoint,
                            inv_model = model, inv_force_stream = force, inv_headers = protocol_headers r protocol,
                            inv_body = x_scan x body, inv_body_bytes = int (length body)\<rparr> wd1 of
                          (wd2, result) \<Rightarrow>
                            (wd2,
                             (case result of
                                None \<Rightarrow> None
                              | Some err \<Rightarrow>
                                  if ge_committed err then None
                                  else Some (write_protocol_error (ps_text p) r protocol err))))))))"

definition handle_chat_completions ::
  "public_server \<Rightarrow> 'n externals \<Rightarrow> (nat \<Rightarrow> nanos) \<Rightarrow> http_request \<Rightarrow> 'n world \<Rightarrow> 'n world \<times> http_response option"
where
  "handle_chat_completions p x clock r = handle_gateway_call p x clock r ''openai'' ''chat_completions'' [] False"

definition handle_messages ::
  "public_server \<Rightarrow> 'n externals \<Rightarrow> (nat \<Rightarrow> nanos) \<Rightarrow> http_request \<Rightarrow> 'n world \<Rightarrow> 'n world \<times> http_response option"
where
  "handle_messages p x clock r = handle_gateway_call p x clock r ''anthropic'' ''messages'' [] False"

definition gemini_operation :: "string \<Rightarrow> (string \<times> string) option" where
  "gemini_operation operation =
     (if has_suffix '':generateContent'' operation
      then Some (''generate_content'', trim_suffix '':generateContent'' operation)
      else if has_suffix '':streamGenerateContent'' operation
      then Some (''stream_generate_content'', trim_suffix '':streamGenerateContent'' operation)
      else None)"

definition handle_gemini_generate ::
  "public_server \<Rightarrow> 'n externals \<Rightarrow> (nat \<Rightarrow> nanos) \<Rightarrow> http_request \<Rightarrow> 'n world \<Rightarrow> 'n world \<times> http_response option"
where
  "handle_gemini_generate p x clock r wd =
     (case gemini_operation (hr_path_value r) of
        None \<Rightarrow>
          (wd, Some (write_protocol_error (ps_text p) r ''gemini''
             (public_error 404 ''capability_not_supported'' (Plain ''Gemini operation is not supported''))))
      | Some (endpoint, model) \<Rightarrow>
          if \<not> valid_path_model model then
            (wd, Some (write_protocol_error (ps_text p) r ''gemini''
               (public_error 400 ''invalid_request'' (Plain ''model path is invalid''))))
          else handle_gateway_call p x clock r ''gemini'' endpoint model (endpoint = ''stream_generate_content'') wd)"

subsection \<open>The list of models\<close>

definition models_json :: "string \<Rightarrow> string list \<Rightarrow> json" where
  "models_json protocol models =
     (if protocol = ''anthropic'' then
        JObj [(''data'', JArr (map (\<lambda>m. JObj [(''display_name'', JStr m), (''id'', JStr m), (''type'', JStr ''model'')]) models)),
              (''has_more'', JBool False)]
      else if protocol = ''gemini'' then
        JObj [(''models'', JArr (map (\<lambda>m. JObj [(''displayName'', JStr m), (''name'', JStr (''models/'' @ m))]) models))]
      else
        JObj [(''data'', JArr (map (\<lambda>m. JObj [(''created'', JNum ''0''), (''id'', JStr m), (''object'', JStr ''model''),
                (''owned_by'', JStr ''sidervia'')]) models)),
              (''object'', JStr ''list'')])"

text \<open>The length of the body written, with its newline.\<close>

definition measured :: "'n externals \<Rightarrow> json \<Rightarrow> int" where
  "measured x v = int (length (x_render x (lex v))) + 1"

definition handle_models ::
  "public_server \<Rightarrow> 'n externals \<Rightarrow> (nat \<Rightarrow> nanos) \<Rightarrow> http_request \<Rightarrow> string \<Rightarrow> 'n world \<Rightarrow> 'n world \<times> http_response"
where
  "handle_models p x clock r protocol wd =
     (if \<not> ps_ready p
      then (wd, write_error r 501 ''capability_not_supported''
              ''requested provider capability is not implemented in this release'' [])
      else
        (case extract_client_key r protocol of
           None \<Rightarrow> (wd, write_protocol_error (ps_text p) r protocol authentication_failed)
         | Some raw \<Rightarrow>
             (case authenticate (ps_sha p) raw (clock 1) (wd_db wd) of
                Inl _ \<Rightarrow> (wd, write_protocol_error (ps_text p) r protocol authentication_failed)
              | Inr ((key, pid), s1) \<Rightarrow>
                  let payload = models_json protocol (list_models (db.truncate s1) protocol) in
                  (record_public p x key
                     (public_event r key protocol ''models'' [] (clock 0) (clock 2) 0 (measured x payload) 200 [])
                     (wd\<lparr>wd_db := s1\<rparr>),
                   write_json 200 payload))))"

definition handle_openai_models ::
  "public_server \<Rightarrow> 'n externals \<Rightarrow> (nat \<Rightarrow> nanos) \<Rightarrow> http_request \<Rightarrow> 'n world \<Rightarrow> 'n world \<times> http_response"
where
  "handle_openai_models p x clock r =
     handle_models p x clock r (if hr_headers r ''X-Api-Key'' \<noteq> [] then ''anthropic'' else ''openai'')"

definition handle_gemini_models ::
  "public_server \<Rightarrow> 'n externals \<Rightarrow> (nat \<Rightarrow> nanos) \<Rightarrow> http_request \<Rightarrow> 'n world \<Rightarrow> 'n world \<times> http_response"
where
  "handle_gemini_models p x clock r = handle_models p x clock r ''gemini''"

end
