(* ===== verification/Http_Server.thy ===== *)
theory Http_Server
  imports Http_Admin Http_Public
begin

text \<open>
  \<open>internal/httpapi/server.go\<close> and \<open>baseMiddleware\<close>: one request against the whole process.
  The administration and the public API work on the same tables, router and writer.
\<close>

subsection \<open>The process\<close>

record 'n process =
  sv_db :: auth_db
  sv_limiter :: limiter
  sv_router :: router
  sv_writer :: writer
  sv_recorded :: "event list"
  sv_calls :: "(candidate \<times> native_request \<times> int option) list"
  sv_net :: 'n

definition web_of :: "'n process \<Rightarrow> web_state" where
  "web_of sv = \<lparr>wb_db = sv_db sv, wb_limiter = sv_limiter sv, wb_log = w_table (sv_writer sv)\<rparr>"

definition put_web :: "web_state \<Rightarrow> 'n process \<Rightarrow> 'n process" where
  "put_web s sv = sv\<lparr>sv_db := wb_db s, sv_limiter := wb_limiter s\<rparr>"

definition world_of :: "'n process \<Rightarrow> 'n world" where
  "world_of sv =
     \<lparr>wd_db = control_db.truncate (sv_db sv), wd_router = sv_router sv, wd_writer = sv_writer sv,
      wd_recorded = sv_recorded sv, wd_calls = sv_calls sv, wd_net = sv_net sv\<rparr>"

definition put_world :: "'n world \<Rightarrow> 'n process \<Rightarrow> 'n process" where
  "put_world wd sv =
     sv\<lparr>sv_db := control_db.extend (wd_db wd) (control_db.more (sv_db sv)), sv_router := wd_router wd,
        sv_writer := wd_writer wd, sv_recorded := wd_recorded wd, sv_calls := wd_calls wd, sv_net := wd_net wd\<rparr>"

text \<open>The parts of the server: the administration's, the public API's, and the assets.\<close>

record 'n server =
  sc_web :: web
  sc_public :: public_server
  sc_world :: "'n externals"
  sc_assets :: "(http_request \<Rightarrow> http_response) option"

definition on_web ::
  "(web_state \<Rightarrow> web_state \<times> http_response) \<Rightarrow> 'n process \<Rightarrow> 'n process \<times> http_response option"
where
  "on_web f sv = (case f (web_of sv) of (s, resp) \<Rightarrow> (put_web s sv, Some resp))"

definition on_world ::
  "('n world \<Rightarrow> 'n world \<times> http_response option) \<Rightarrow> 'n process \<Rightarrow> 'n process \<times> http_response option"
where
  "on_world f sv = (case f (world_of sv) of (wd, resp) \<Rightarrow> (put_world wd sv, resp))"

abbreviation answered :: "('s \<Rightarrow> 's \<times> http_response) \<Rightarrow> 's \<Rightarrow> 's \<times> http_response option" where
  "answered f s \<equiv> (case f s of (t, resp) \<Rightarrow> (t, Some resp))"

subsection \<open>Handler\<close>

definition serve_assets :: "'n server \<Rightarrow> http_request \<Rightarrow> http_response" where
  "serve_assets c r =
     (case sc_assets c of
        Some f \<Rightarrow> f r
      | None \<Rightarrow> \<lparr>rs_status = 503, rs_header = [], rs_cookie = None,
                 rs_content = TextBody ''Sidervia web assets are not built''\<rparr>)"

definition moved_to :: "string \<Rightarrow> http_response" where
  "moved_to path = \<lparr>rs_status = 301, rs_header = [(''Location'', path)], rs_cookie = None, rs_content = NoBody\<rparr>"

definition serve_v1 ::
  "'n server \<Rightarrow> (nat \<Rightarrow> nanos) \<Rightarrow> http_request \<Rightarrow> 'n process \<Rightarrow> 'n process \<times> http_response option"
where
  "serve_v1 c clock r =
     (let p = sc_public c; x = sc_world c in
      if method_matches ''GET'' (hr_method r) \<and> hr_path r = [''v1'', ''models'']
      then on_world (answered (handle_openai_models p x clock r))
      else if hr_method r = ''POST'' \<and> hr_path r = [''v1'', ''chat'', ''completions'']
      then on_world (handle_chat_completions p x clock r)
      else if hr_method r = ''POST'' \<and> hr_path r = [''v1'', ''messages''] then on_world (handle_messages p x clock r)
      else (\<lambda>sv. (sv, Some (handle_capability_unavailable r))))"

definition serve_v1beta ::
  "'n server \<Rightarrow> (nat \<Rightarrow> nanos) \<Rightarrow> http_request \<Rightarrow> 'n process \<Rightarrow> 'n process \<times> http_response option"
where
  "serve_v1beta c clock r =
     (let p = sc_public c; x = sc_world c in
      if method_matches ''GET'' (hr_method r) \<and> hr_path r = [''v1beta'', ''models'']
      then on_world (answered (handle_gemini_models p x clock r))
      else if hr_method r = ''POST'' \<and> take 2 (hr_path r) = [''v1beta'', ''models''] \<and> length (hr_path r) = 3
        \<and> last (hr_path r) \<noteq> []
      then on_world (handle_gemini_generate p x clock (r\<lparr>hr_path_value := last (hr_path r)\<rparr>))
      else (\<lambda>sv. (sv, Some (handle_capability_unavailable r))))"

text \<open>
  The outer mux: the most specific pattern wins; a tree without its slash redirects.  The path is a
  clean one: \<open>ServeMux\<close> redirects any other before it matches, and keeps the query, which is not
  modelled.
\<close>

definition serve_path ::
  "'n server \<Rightarrow> web_env \<Rightarrow> (nat \<Rightarrow> nanos) \<Rightarrow> http_request \<Rightarrow> 'n process \<Rightarrow> 'n process \<times> http_response option"
where
  "serve_path c e clock r =
     (let get = method_matches ''GET'' (hr_method r) in
      if hr_path r = [''healthz''] \<and> get then (\<lambda>sv. (sv, Some handle_health))
      else if hr_path r = [''readyz''] \<and> get then (\<lambda>sv. (sv, Some (handle_ready (sc_web c) e r)))
      else if hr_path r = [''api''] then (\<lambda>sv. (sv, Some (moved_to ''/api/'')))
      else if hr_path r = [''api'', ''admin''] then (\<lambda>sv. (sv, Some (moved_to ''/api/admin/'')))
      else if take 2 (hr_path r) = [''api'', ''admin''] then on_web (serve_admin (sc_web c) e r)
      else if take 1 (hr_path r) = [''api''] then (\<lambda>sv. (sv, Some (handle_api_not_found r)))
      else if hr_path r = [''oauth'', ''callback'', ''google''] \<and> get
      then on_web (handle_google_oauth_callback (sc_web c) e r)
      else if take 1 (hr_path r) = [''v1''] then serve_v1 c clock r
      else if take 1 (hr_path r) = [''v1beta''] then serve_v1beta c clock r
      else (\<lambda>sv. (sv, Some (serve_assets c r))))"

subsection \<open>baseMiddleware\<close>

text \<open>
  \<open>request_random\<close> are the bytes of the request's identifier.  The headers are set before the
  handler runs, so a response the gateway writes itself carries them too.  The recovery from panics,
  the metrics and the access log are not modelled.
\<close>

definition with_headers :: "header \<Rightarrow> http_response \<Rightarrow> http_response" where
  "with_headers h resp =
     resp\<lparr>rs_header := filter (\<lambda>(k, v). k \<notin> fst ` set (rs_header resp)) h @ rs_header resp\<rparr>"

definition serve ::
  "'n server \<Rightarrow> web_env \<Rightarrow> (nat \<Rightarrow> nanos) \<Rightarrow> string option \<Rightarrow> http_request \<Rightarrow> 'n process
    \<Rightarrow> 'n process \<times> http_response option"
where
  "serve c e clock request_random r sv =
     (case object_id ''req'' request_random of
        None \<Rightarrow>
          (sv, Some \<lparr>rs_status = 500, rs_header = [], rs_cookie = None,
                     rs_content = TextBody ''request identifier unavailable''\<rparr>)
      | Some request \<Rightarrow>
          (case serve_path c e clock (r\<lparr>hr_id := request\<rparr>) sv of
             (sv', resp) \<Rightarrow>
               (sv', map_option
                  (with_headers (security_headers (wc_secure (sc_web c)) @ [(''X-Request-ID'', request)])) resp)))"

end
