(* ===== verification/Http_Properties.thy ===== *)
theory Http_Properties
  imports Http_Facts Http_Server Admin_Sessions
begin

text \<open>
  What the HTTP interface promises: who can change something through the administration API, at
  which version, whose address a login is counted against, and what a public call must carry.
\<close>

subsection \<open>The administration's guard\<close>

text \<open>The session a cookie stands for: a row that has not ended, with the token that is sealed in it.\<close>

definition live_cookie :: "web \<Rightarrow> nanos \<Rightarrow> auth_db \<Rightarrow> string \<Rightarrow> string \<Rightarrow> bool" where
  "live_cookie w now s raw csrf \<longleftrightarrow>
     (\<exists>row \<in> set (admin_sessions s). \<exists>a. admin_user s = Some a
        \<and> se_verifier row = as_sha (wc_auth w) raw \<and> se_revoked row = None \<and> se_version row = ad_session_version a
        \<and> unix_milli now < se_idle row \<and> unix_milli now < se_absolute row
        \<and> open_envelope (as_cipher (wc_auth w)) (se_csrf row)
            (aad ''admin_sessions'' (se_public_id row) ''csrf_token_enc'') = Inr csrf)"

lemma authenticated_live_cookie:
  assumes "snd (authenticate_session (wc_auth w) raw now s) = Inr se"
  shows "live_cookie w now s raw (ss_csrf se)"
proof -
  have raw: "raw \<noteq> []" using assms by (simp add: authenticate_session_def split: if_splits)
  from assms raw obtain row where row: "row_by se_verifier (as_sha (wc_auth w) raw) (admin_sessions s) = Some row"
    by (cases "row_by se_verifier (as_sha (wc_auth w) raw) (admin_sessions s)") (simp_all add: authenticate_session_def)
  from assms raw row obtain a where a: "admin_user s = Some a"
    by (cases "admin_user s") (simp_all add: authenticate_session_def)
  note run = assms [unfolded authenticate_session_def row a prod.case option.case if_not_P [OF raw]]
  from run have alive: "se_revoked row = None" "se_version row = ad_session_version a"
    "unix_milli now < se_idle row" "unix_milli now < se_absolute row"
    by (simp_all split: if_splits)
  let ?opened = "open_envelope (as_cipher (wc_auth w)) (se_csrf row)
      (aad ''admin_sessions'' (se_public_id row) ''csrf_token_enc'')"
  obtain csrf where csrf: "?opened = Inr csrf" "ss_csrf se = csrf"
  proof (cases ?opened)
    case (Inl x)
    from run [unfolded Inl] alive show ?thesis by simp
  next
    case (Inr csrf)
    from run [unfolded Inr] alive have "ss_csrf se = csrf" by (simp add: Let_def) (auto split: if_splits)
    with Inr show ?thesis by (rule that)
  qed
  have "row \<in> set (admin_sessions s)" "se_verifier row = as_sha (wc_auth w) raw"
    using row_by_Some [OF row] by simp_all
  then show ?thesis using a alive csrf unfolding live_cookie_def by blast
qed

lemma validate_csrf_None: "validate_csrf se v = None \<longleftrightarrow> v \<noteq> [] \<and> ss_csrf se = v"
  by (simp add: validate_csrf_def)

lemma login_unchanged:
  "handle_login w e r s = (t, resp) \<Longrightarrow> \<not> is_same_origin (wc_text w) (wc_public w) r \<Longrightarrow> t = s"
  by (simp add: handle_login_def)

lemma guarded_mux:
  assumes "require_session w e
      (if take 3 (hr_path r) = [''api'', ''admin'', ''v1''] then admin_mux w e (drop 3 (hr_path r))
       else (\<lambda>se r s. (s, mux_refusal []))) r s = (t, resp)"
    and "\<not> only_sessions s t"
  obtains raw se where "hr_cookie r = Some raw"
    "snd (authenticate_session (wc_auth w) raw (we_clock e 8) (wb_db s)) = Inr se"
    "is_unsafe_method (hr_method r)" "is_same_origin (wc_text w) (wc_public w) r"
    "validate_csrf se (header_value r ''X-CSRF-Token'') = None"
proof (rule require_session_outcome [OF assms(1) _ assms(2)])
  show "t' = s'" if "(if take 3 (hr_path r) = [''api'', ''admin'', ''v1''] then admin_mux w e (drop 3 (hr_path r))
       else (\<lambda>se r s. (s, mux_refusal []))) se r s' = (t', resp')" "\<not> is_unsafe_method (hr_method r)" for se s' t' resp'
    using that by (auto split: if_splits dest: safe_mux)
qed (rule that)

text \<open>A server, its tables with a proxy and a live session, and a request that deletes the proxy.\<close>

definition sample_http_text :: http_text where
  "sample_http_text =
     \<lparr>ht_scan = (\<lambda>_. []), ht_time = (\<lambda>_. None), ht_show_time = (\<lambda>_. []), ht_quote = (\<lambda>v. v),
      ht_origin = (\<lambda>v. Some \<lparr>or_user = False, or_scheme = ''https'', or_hostname = v, or_port = []\<rparr>),
      ht_split_host = (\<lambda>v. Some v), ht_addr = (\<lambda>v. if v = [] then None else Some v)\<rparr>"

definition sample_web :: web where
  "sample_web =
     \<lparr>wc_text = sample_http_text, wc_net = plain_net, wc_cipher = tag_cipher, wc_sha = rev, wc_auth = sample_service,
      wc_oauth = None, wc_validate = None, wc_reader = False,
      wc_public = Some \<lparr>or_user = False, or_scheme = ''https'', or_hostname = ''gw'', or_port = ''443''\<rparr>,
      wc_trusted = [], wc_secure = True, wc_ready = True, wc_render = (\<lambda>_. []), wc_build = JNull\<rparr>"

definition sample_web_env :: web_env where
  "sample_web_env =
     \<lparr>we_env = (\<lambda>_. sample_env), we_auth = sample_auth_env, we_clock = (\<lambda>_. 0), we_nonce = (\<lambda>_. None),
      we_attempt = \<lparr>ar_state = None, ar_pkce = None, ar_object = None, ar_nonce = None\<rparr>, we_first = True,
      we_reachable = True, we_store_ready = True\<rparr>"

definition sample_sealed_csrf :: string where
  "sample_sealed_csrf =
     (case seal tag_cipher (Some (replicate 12 (CHR ''n''))) ''c'' (aad ''admin_sessions'' ''2'' ''csrf_token_enc'') of
        Inl _ \<Rightarrow> [] | Inr envelope \<Rightarrow> envelope)"

definition sample_web_state :: web_state where
  "sample_web_state =
     \<lparr>wb_db = (sample_auth ''phc'' [(sample_session 2 ''b'')\<lparr>se_csrf := sample_sealed_csrf\<rparr>])\<lparr>proxies := [sample_proxy_row]\<rparr>,
      wb_limiter = new_limiter, wb_log = []\<rparr>"

definition sample_delete_request :: http_request where
  "sample_delete_request =
     \<lparr>hr_method = ''DELETE'', hr_path = [''api'', ''admin'', ''v1'', ''proxies'', ''sdr_proxy_a''],
      hr_headers = (\<lambda>k. if k = ''Origin'' then [''gw''] else if k = ''X-CSRF-Token'' then [''c'']
        else if k = ''If-Match'' then [[CHR 0x22] @ ''v1'' @ [CHR 0x22]] else []),
      hr_query = [], hr_cookie = Some ''b'', hr_path_value = [], hr_remote = ''192.0.2.1'', hr_length = 0, hr_body = [],
      hr_broken = False, hr_id = ''req_1''\<rparr>"

lemma sample_opened:
  "open_envelope tag_cipher sample_sealed_csrf (aad ''admin_sessions'' ''2'' ''csrf_token_enc'') = Inr ''c''"
  by code_simp

abbreviation "sample_found \<equiv>
  \<lparr>ss_public = ''2'', ss_token = ''b'', ss_csrf = ''c'', ss_created = 0, ss_idle = 43200000 * millisecond,
   ss_absolute = 604800000 * millisecond, ss_totp = False\<rparr>"

lemma sample_authenticated:
  "authenticate_session sample_service ''b'' 0 (wb_db sample_web_state) = (wb_db sample_web_state, Inr sample_found)"
proof -
  have "show_int 2 = ''2''" by code_simp
  then show ?thesis
    by (simp add: sample_opened authenticate_session_def sample_web_state_def sample_auth_def sample_session_def
        sample_service_def sample_admin_def row_by_def unix_milli_def Let_def db.defs control_db.defs auth_db.defs)
qed

lemma sample_same_origin: "is_same_origin sample_http_text (wc_public sample_web) sample_delete_request"
proof -
  have "trim_space ''gw'' = ''gw''" "to_lower ''https'' = ''https''" "to_lower ''gw'' = ''gw''" by code_simp+
  then show ?thesis
    by (simp add: is_same_origin_def same_origin_def origin_port_def sample_web_def sample_http_text_def
        sample_delete_request_def header_value_def Let_def)
qed

lemma sample_endpoint: "match_patterns admin_patterns ''DELETE'' [''proxies'', ''sdr_proxy_a''] = Some (EpDeleteProxy, ''sdr_proxy_a'')"
  by code_simp

lemma sample_tag: "parse_etag ([CHR 0x22] @ ''v1'' @ [CHR 0x22]) = Some 1"
  by code_simp

abbreviation "sample_bound_request \<equiv> sample_delete_request\<lparr>hr_path_value := ''sdr_proxy_a''\<rparr>"

lemma sample_proxy_deleted:
  obtains t where "delete_proxy sample_env (actor_of sample_bound_request sample_found) ''sdr_proxy_a'' 1 (wb_db sample_web_state)
    = Inr t" "proxies t = []"
proof -
  have "valid_kind ''audit''" by code_simp
  then obtain pid where pid: "object_id ''audit'' (env_audit sample_env) = Some pid"
    by (auto simp: object_id_def sample_env_def)
  let ?who = "actor_of sample_bound_request sample_found"
  have "length (metadata_text (AList.update ''schema_version'' (MetaInt 1) [])) \<le> 4096" by code_simp
  then have "\<exists>t. delete_proxy sample_env ?who ''sdr_proxy_a'' 1 (wb_db sample_web_state) = Inr t"
    using pid by (auto simp: delete_proxy_def sample_web_state_def sample_auth_def sample_proxy_row_def proxy_at_def
        proxy_referenced_def Let_def db.defs control_db.defs auth_db.defs intro: audit_outcome_ok)
  then obtain t where t: "delete_proxy sample_env ?who ''sdr_proxy_a'' 1 (wb_db sample_web_state) = Inr t" by blast
  have "proxies t = []"
    using audit_only_tables(3) [OF delete_proxy_Inr(1) [OF t]]
    by (simp add: sample_web_state_def sample_proxy_row_def proxy_at_def)
  with t show thesis by (rule that)
qed

lemma sample_delete_writes:
  "\<not> only_sessions sample_web_state (fst (serve_admin sample_web sample_web_env sample_delete_request sample_web_state))"
proof -
  obtain t where t: "delete_proxy sample_env (actor_of sample_bound_request sample_found) ''sdr_proxy_a'' 1
      (wb_db sample_web_state) = Inr t" "proxies t = []"
    by (rule sample_proxy_deleted)
  have "fst (serve_admin sample_web sample_web_env sample_delete_request sample_web_state) = put_db t sample_web_state"
    using sample_authenticated sample_same_origin sample_endpoint sample_tag t(1)
    by (simp add: serve_admin_def require_session_def admin_mux_def run_endpoint_def handle_delete_proxy_def
        require_version_def responding_with_def removed_def header_value_def validate_csrf_def is_unsafe_method_def
        sample_delete_request_def sample_web_def sample_web_env_def)
  then show ?thesis using t(2) by (auto simp: only_sessions_def sample_web_state_def put_db_def)
qed

text \<open>
  C25: A change through the administration API is authorized.  Whenever a request under \<open>/api/admin/\<close>
  leaves more behind than the housekeeping of session rows, its method is an unsafe one, it comes
  from the origin of the gateway itself, and either it is the login or its cookie belongs to a
  session that is neither revoked nor outdated nor expired and it carries the CSRF token sealed in
  that session's row.
\<close>

theorem admin_writes_guarded:
  assumes "serve_admin w e r s = (t, resp)" "\<not> only_sessions s t"
  shows "is_unsafe_method (hr_method r) \<and> is_same_origin (wc_text w) (wc_public w) r
    \<and> (hr_path r = [''api'', ''admin'', ''v1'', ''auth'', ''login'']
       \<or> (\<exists>raw. hr_cookie r = Some raw
            \<and> header_value r ''X-CSRF-Token'' \<noteq> []
            \<and> live_cookie w (we_clock e 8) (wb_db s) raw (header_value r ''X-CSRF-Token'')))"
proof (cases "hr_method r = ''POST'' \<and> hr_path r = [''api'', ''admin'', ''v1'', ''auth'', ''login'']")
  case True
  then have "is_same_origin (wc_text w) (wc_public w) r"
    using assms by (auto simp: serve_admin_def dest: login_unchanged)
  with True show ?thesis by (simp add: is_unsafe_method_def)
next
  case False
  with assms(1) have "require_session w e
      (if take 3 (hr_path r) = [''api'', ''admin'', ''v1''] then admin_mux w e (drop 3 (hr_path r))
       else (\<lambda>se r s. (s, mux_refusal []))) r s = (t, resp)"
    by (simp only: serve_admin_def if_False)
  then show ?thesis using assms(2)
    by (rule guarded_mux) (auto simp: validate_csrf_None dest: authenticated_live_cookie)
qed

theorem admin_writes_guarded_witness:
  "live_cookie sample_web 0 (wb_db sample_web_state) ''b'' ''c''"
  using admin_writes_guarded [OF prod.collapse [symmetric] sample_delete_writes]
  by (simp add: sample_delete_request_def sample_web_env_def header_value_def)

subsection \<open>Versions\<close>

text \<open>A session's row does not show in the version of a resource.\<close>

lemma only_sessions_current:
  assumes "only_sessions s t"
  shows "stands_at t kind pid v = stands_at s kind pid v" "names_unique (wb_db t) = names_unique (wb_db s)"
  using assms by (cases kind; auto simp: only_sessions_def stands_at_def resource_version_def names_unique_def)+

lemma login_not_matched: "match_patterns admin_patterns m [''auth'', ''login''] = None"
  by (simp add: admin_patterns_def)

text \<open>The tag that a response shows is one that \<open>If-Match\<close> accepts.\<close>

lemma quoted_not_trimmed: "trim_space (CHR 0x22 # v @ [CHR 0x22]) = CHR 0x22 # v @ [CHR 0x22]"
proof -
  have no: "\<not> has_prefix w (CHR 0x22 # x)" if "w \<noteq> []" "hd w \<noteq> CHR 0x22" for w x
    using that has_prefixE [of w "CHR 0x22 # x"] by (cases w) fastforce+
  have spaces: "\<forall>w \<in> set space_runes. w \<noteq> [] \<and> hd w \<noteq> CHR 0x22 \<and> last w \<noteq> CHR 0x22"
    by (simp add: space_runes_def)
  have "leading_of space_runes (CHR 0x22 # v @ [CHR 0x22]) = None"
    using no spaces by (simp add: leading_of_None)
  moreover have "leading_of (map rev space_runes) (CHR 0x22 # rev v @ [CHR 0x22]) = None"
    using no spaces by (simp add: leading_of_None hd_rev)
  ultimately show ?thesis by (simp add: trim_space_def trim_leading_id)
qed

lemma etag_roundtrip:
  assumes "1 \<le> v" "v \<le> max_int64"
  shows "parse_etag (etag v) = Some v"
proof -
  have shown: "show_int v \<noteq> []" using assms by (simp add: show_int_def)
  then have "4 \<le> length (etag v)" by (cases "show_int v") (simp_all add: etag_def)
  moreover have "trim_space (etag v) = etag v"
    using quoted_not_trimmed [of "''v'' @ show_int v"] by (simp add: etag_def)
  ultimately show ?thesis
    using shown assms parse_show_int [of v] by (simp add: parse_etag_def etag_def has_prefix_def has_suffix_def Let_def)
qed

text \<open>
  C26: A write through the API is made at the version its sender has seen.  Whenever one of the endpoints
  that update, delete, revoke or validate a resource changes anything but session rows, the request
  carried an \<open>If-Match\<close> tag, and the tag is the version the resource has.
\<close>

theorem if_match_protects:
  assumes "serve_admin w e r s = (t, resp)" "\<not> only_sessions s t"
    and "hr_path r = [''api'', ''admin'', ''v1''] @ segments"
    and "match_patterns admin_patterns (hr_method r) segments = Some (ep, bound)" "writes_kind ep = Some kind"
    and "names_unique (wb_db s)"
  shows "\<exists>v. parse_etag (header_value r ''If-Match'') = Some v \<and> stands_at s kind bound v"
proof -
  have "segments \<noteq> [''auth'', ''login'']"
    using assms(4) login_not_matched by auto
  then have guard: "require_session w e (admin_mux w e segments) r s = (t, resp)"
    using assms(1,3) by (auto simp: serve_admin_def)
  then obtain s' se where s': "only_sessions s s'" "admin_mux w e segments se r s' = (t, resp)"
    using assms(2) by (rule require_session_ran)
  then have run: "run_endpoint w e ep se (r\<lparr>hr_path_value := bound\<rparr>) s' = (t, resp)" "t \<noteq> s'"
    using assms(2,4) by (auto simp: admin_mux_def)
  have "\<exists>v. require_version (r\<lparr>hr_path_value := bound\<rparr>) = Inr v \<and> stands_at s' kind bound v"
    using write_current [OF run(1) assms(5) run(2)] only_sessions_current(2) [OF s'(1)] assms(6) by simp
  then show ?thesis
    by (simp add: require_version_Inr header_value_def only_sessions_current(1) [OF s'(1)])
qed

theorem if_match_protects_witness:
  "\<exists>v. parse_etag ([CHR 0x22] @ ''v1'' @ [CHR 0x22]) = Some v \<and> stands_at sample_web_state ProxyResource ''sdr_proxy_a'' v"
proof -
  have "names_unique (wb_db sample_web_state)"
    by (simp add: names_unique_def sample_web_state_def sample_auth_def db.defs control_db.defs auth_db.defs)
  then show ?thesis
    using if_match_protects [OF prod.collapse [symmetric] sample_delete_writes, of "[''proxies'', ''sdr_proxy_a'']"]
      sample_endpoint by (simp add: sample_delete_request_def header_value_def)
qed

subsection \<open>The address of the client\<close>

definition forwarded_for :: "string \<Rightarrow> http_request \<Rightarrow> http_request" where
  "forwarded_for v r = r\<lparr>hr_headers := (hr_headers r)(''X-Forwarded-For'' := [v])\<rparr>"

lemma forwarded_for_simps [simp]:
  "header_value (forwarded_for v r) ''X-Forwarded-For'' = v" "hr_remote (forwarded_for v r) = hr_remote r"
  by (simp_all add: forwarded_for_def header_value_def)

lemma split_on_between: "split_on sep (s @ sep # t) = split_on sep s @ split_on sep t"
  by (induction s) (auto split: list.splits)

lemma those_append:
  "those (xs @ ys) = Option.bind (those xs) (\<lambda>a. map_option (\<lambda>b. a @ b) (those ys))"
proof (induction xs)
  case Nil
  show ?case by (cases "those ys") simp_all
next
  case (Cons x xs)
  then show ?case by (cases x; cases "those xs"; cases "those ys") simp_all
qed

lemma forwarded_chain_append:
  "forwarded_chain ht (forged @ CHR '','' # honest)
    = Option.bind (forwarded_chain ht forged) (\<lambda>a. map_option (\<lambda>b. a @ b) (forwarded_chain ht honest))"
  by (simp add: forwarded_chain_def split_on_between those_append)

lemma find_append: "find p (xs @ ys) = (case find p xs of None \<Rightarrow> find p ys | Some x \<Rightarrow> Some x)"
  by (induction xs) simp_all

lemma find_rev_append:
  assumes "x \<in> set ys" "p x"
  obtains y where "find p (rev ys) = Some y" "\<And>xs. find p (rev (xs @ ys)) = Some y"
proof -
  have "find p (rev ys) \<noteq> None" using assms by (auto simp: find_None_iff)
  then show thesis using that by (auto simp: find_append)
qed



subsection \<open>The key of a public call\<close>

text \<open>The secret stands in a row that is active and has not expired.\<close>

definition live_key :: "(string \<Rightarrow> string) \<Rightarrow> nanos \<Rightarrow> auth_db \<Rightarrow> string \<Rightarrow> bool" where
  "live_key sha now s raw \<longleftrightarrow>
     (\<exists>prefix secret. parse_key raw = Some (prefix, secret)
        \<and> (\<exists>row \<in> set (client_keys s). ck_prefix row = prefix \<and> ck_verifier row = sha secret
             \<and> ck_status row = ''active'' \<and> \<not> expired_key (unix_milli now) row))"

lemma authenticated_live_key:
  assumes "authenticate sha raw now (control_db.truncate s) = Inr x"
  shows "live_key sha now s raw"
proof -
  obtain who t where "x = (who, t)" by (cases x)
  with assms show ?thesis
    by (auto simp: authenticate_def live_key_def control_db.truncate_def Let_def split: option.splits if_splits
        prod.splits dest!: row_by_Some)
qed

lemma put_world_of [simp]: "put_world (world_of sv) sv = sv"
  by (cases sv; cases "sv_db sv") (simp add: put_world_def world_of_def control_db.truncate_def control_db.extend_def)

definition keyed :: "public_server \<Rightarrow> (nat \<Rightarrow> nanos) \<Rightarrow> http_request \<Rightarrow> 'n world \<Rightarrow> bool" where
  "keyed p clock r wd \<longleftrightarrow>
     (\<exists>protocol raw x. extract_client_key r protocol = Some raw \<and> authenticate (ps_sha p) raw (clock 1) (wd_db wd) = Inr x)"

lemma keyedI: "extract_client_key r protocol = Some raw \<Longrightarrow> authenticate (ps_sha p) raw (clock 1) (wd_db wd) = Inr x
    \<Longrightarrow> keyed p clock r wd"
  unfolding keyed_def by blast

lemma on_world_outcome:
  assumes "on_world f sv = (sv', resp)" "sv' \<noteq> sv \<or> resp = None"
  obtains wd where "f (world_of sv) = (wd, resp)" "wd \<noteq> world_of sv \<or> resp = None"
  using assms by (cases "f (world_of sv)"; cases "fst (f (world_of sv)) = world_of sv") (auto simp: on_world_def)

lemma serve_public_path:
  "take 1 (hr_path r) = [''v1''] \<Longrightarrow> serve_path c e clock r = serve_v1 c clock r"
  "take 1 (hr_path r) = [''v1beta''] \<Longrightarrow> serve_path c e clock r = serve_v1beta c clock r"
  by (cases "hr_path r"; simp add: serve_path_def Let_def)+

lemma gateway_call_keyed:
  "handle_gateway_call p x clock r protocol endpoint model force wd = (wd', resp) \<Longrightarrow> wd' \<noteq> wd \<or> resp = None
    \<Longrightarrow> keyed p clock r wd"
  unfolding handle_gateway_call_def
  by (cases "ps_ready p"; cases "extract_client_key r protocol")
    (auto intro: keyedI split: sum.splits)

lemma models_keyed:
  "handle_models p x clock r protocol wd = (wd', resp) \<Longrightarrow> wd' \<noteq> wd \<Longrightarrow> keyed p clock r wd"
  unfolding handle_models_def
  by (cases "ps_ready p"; cases "extract_client_key r protocol")
    (auto intro: keyedI split: sum.splits)

lemma gemini_keyed:
  "handle_gemini_generate p x clock r wd = (wd', resp) \<Longrightarrow> wd' \<noteq> wd \<or> resp = None \<Longrightarrow> keyed p clock r wd"
  by (auto simp: handle_gemini_generate_def intro: gateway_call_keyed split: option.splits if_splits)

lemma keyed_bound [simp]: "keyed p clock (r\<lparr>hr_path_value := v\<rparr>) wd = keyed p clock r wd"
  by (simp add: keyed_def extract_client_key_def)

lemma gemini_bound_keyed:
  "handle_gemini_generate p x clock (r\<lparr>hr_path_value := v\<rparr>) wd = (wd', resp) \<Longrightarrow> wd' \<noteq> wd \<or> resp = None
    \<Longrightarrow> keyed p clock r wd"
  using gemini_keyed keyed_bound by blast

lemma answered_models_keyed:
  assumes "on_world (answered (f :: 'n world \<Rightarrow> 'n world \<times> http_response)) sv = (sv', resp)" "sv' \<noteq> sv \<or> resp = None"
    and f: "\<And>wd wd' rs. f wd = (wd', rs) \<Longrightarrow> wd' \<noteq> wd \<Longrightarrow> keyed p clock r wd"
  shows "keyed p clock r (world_of sv)"
proof -
  obtain wd where wd: "answered f (world_of sv) = (wd, resp)" "wd \<noteq> world_of sv \<or> resp = None"
    by (rule on_world_outcome [OF assms(1,2)])
  obtain wd' rs where "f (world_of sv) = (wd', rs)" by (cases "f (world_of sv)")
  with wd f show ?thesis by fastforce
qed

lemma call_keyed:
  assumes "on_world f sv = (sv', resp)" "sv' \<noteq> sv \<or> resp = None"
    and "\<And>wd wd' rs. f wd = (wd', rs) \<Longrightarrow> wd' \<noteq> wd \<or> rs = None \<Longrightarrow> keyed p clock r wd"
  shows "keyed p clock r (world_of sv)"
  using on_world_outcome [OF assms(1,2)] assms(3) by metis

lemma v1_keyed:
  assumes "serve_v1 c clock r sv = (sv', resp)" "sv' \<noteq> sv \<or> resp = None"
  shows "keyed (sc_public c) clock r (world_of sv)"
  using assms unfolding serve_v1_def Let_def
  by (auto simp: handle_openai_models_def handle_chat_completions_def handle_messages_def split: if_splits
      elim: answered_models_keyed call_keyed intro: models_keyed gateway_call_keyed)

lemma v1beta_keyed:
  assumes "serve_v1beta c clock r sv = (sv', resp)" "sv' \<noteq> sv \<or> resp = None"
  shows "keyed (sc_public c) clock r (world_of sv)"
  using assms unfolding serve_v1beta_def Let_def
  by (auto simp: handle_gemini_models_def split: if_splits
      elim: answered_models_keyed call_keyed intro: models_keyed gemini_bound_keyed)

text \<open>
  C27: The public API does nothing without a client key.  Whenever a request under \<open>/v1\<close> or
  \<open>/v1beta\<close> changes anything in the process, or is answered by \<open>Execute\<close> and so may have
  reached an upstream, the headers of its protocol carry a key whose secret is that of an active row
  that has not expired.
\<close>

theorem public_calls_need_a_key:
  assumes "serve_path c e clock r sv = (sv', resp)" "take 1 (hr_path r) = [''v1''] \<or> take 1 (hr_path r) = [''v1beta'']"
    and "sv' \<noteq> sv \<or> resp = None"
  shows "\<exists>protocol raw. extract_client_key r protocol = Some raw
    \<and> live_key (ps_sha (sc_public c)) (clock 1) (sv_db sv) raw"
proof -
  from assms(1,2) have "serve_v1 c clock r sv = (sv', resp) \<or> serve_v1beta c clock r sv = (sv', resp)"
    using serve_public_path by metis
  then have "keyed (sc_public c) clock r (world_of sv)"
    using v1_keyed v1beta_keyed assms(3) by blast
  then show ?thesis by (auto simp: keyed_def world_of_def dest: authenticated_live_key)
qed

text \<open>A process with one client key, and a request that lists the models with it.\<close>

abbreviation "sample_prefix \<equiv> take 8 (base64_encode ''prefix'')"
abbreviation "sample_secret \<equiv> base64_encode (replicate 32 (CHR ''k''))"

definition sample_raw_key :: string where
  "sample_raw_key = key_prefix_mark @ sample_prefix @ ''_'' @ sample_secret"

definition sample_process :: "unit process" where
  "sample_process =
     \<lparr>sv_db = (sample_auth [] [])\<lparr>client_keys := [(sample_key 1 5)\<lparr>ck_prefix := sample_prefix, ck_verifier := rev sample_secret\<rparr>]\<rparr>,
      sv_limiter = new_limiter, sv_router = new_router, sv_writer = new_writer [], sv_recorded = [], sv_calls = [],
      sv_net = ()\<rparr>"

definition sample_server :: "unit server" where
  "sample_server =
     \<lparr>sc_web = sample_web,
      sc_public = \<lparr>ps_text = sample_http_text, ps_sha = rev, ps_ready = True, ps_recorder = False\<rparr>,
      sc_world = sample_externals 200, sc_assets = None\<rparr>"

definition sample_models_request :: http_request where
  "sample_models_request =
     sample_delete_request\<lparr>hr_method := ''GET'', hr_path := [''v1'', ''models''],
       hr_headers := (\<lambda>k. if k = ''X-Api-Key'' then [sample_raw_key] else [])\<rparr>"

lemma sample_raw_parsed: "parse_key sample_raw_key = Some (sample_prefix, sample_secret)"
  unfolding sample_raw_key_def by (rule parse_key_made) simp_all

lemma sample_raw_single: "valid_single_header sample_raw_key"
proof -
  have "trim_space sample_raw_key = sample_raw_key"
    using sample_raw_parsed by (simp add: parse_key_def split: if_splits)
  moreover have "sample_raw_key \<noteq> [] \<and> \<not> contains_any sample_raw_key [CHR 0x0D, CHR 0x0A, CHR 0x00, CHR '','']"
    by code_simp
  ultimately show ?thesis by (simp add: valid_single_header_def)
qed

lemma sample_models_touch:
  "fst (serve_path sample_server sample_web_env (\<lambda>_. 0) sample_models_request sample_process) \<noteq> sample_process"
proof -
  have key: "extract_client_key sample_models_request ''anthropic'' = Some sample_raw_key"
    using sample_raw_single by (simp add: extract_client_key_def sample_models_request_def)
  let ?row = "(sample_key 1 5)\<lparr>ck_prefix := sample_prefix, ck_verifier := rev sample_secret\<rparr>"
  have auth: "authenticate rev sample_raw_key 0 (wd_db (world_of sample_process))
      = Inr ((1, ck_public_id ?row), (wd_db (world_of sample_process))\<lparr>client_keys := [?row\<lparr>ck_last_used := Some 0\<rparr>]\<rparr>)"
    using sample_raw_parsed
    by (simp add: authenticate_def sample_process_def world_of_def row_by_def sample_key_def expired_key_def touch_key_def
        update_where_def unix_milli_def control_db.truncate_def)
  have "client_keys (sv_db (fst (serve_path sample_server sample_web_env (\<lambda>_. 0) sample_models_request sample_process)))
    = [?row\<lparr>ck_last_used := Some 0\<rparr>]"
    using key auth
    by (simp add: serve_public_path serve_v1_def on_world_def handle_openai_models_def handle_models_def record_public_def
        sample_server_def sample_models_request_def method_matches_def put_world_def control_db.extend_def Let_def)
  moreover have "client_keys (sv_db sample_process) = [?row]" by (simp add: sample_process_def)
  ultimately show ?thesis by (auto simp: sample_key_def)
qed

theorem public_calls_need_a_key_witness:
  "\<exists>protocol raw. extract_client_key sample_models_request protocol = Some raw
     \<and> live_key rev 0 (sv_db sample_process) raw"
  using public_calls_need_a_key [OF prod.collapse [symmetric], of sample_models_request sample_server
      sample_web_env "\<lambda>_. 0" sample_process] sample_models_touch
  by (simp add: sample_models_request_def sample_server_def)

end
