(* ===== verification/OAuth_Gateway.thy ===== *)
theory OAuth_Gateway
  imports Gateway_World OAuth_Refresh
begin

text \<open>
  The OAuth service as the credential manager of the gateway (\<open>app.go\<close> passes it to
  \<open>gateway.New\<close>).  \<open>EnsureCredential\<close> hands back the candidate of \<open>LoadAccount\<close>, which
  knows the account but not the route it was selected by: the upstream model is lost.
\<close>

subsection \<open>The credential manager\<close>

fun credential_failure_of :: "oauth_error \<Rightarrow> credential_failure" where
  "credential_failure_of (OAuthCode code) = CodedFailure code"
| "credential_failure_of (OAuthControl e) = OtherFailure"
| "credential_failure_of OAuthFailure = OtherFailure"

record 'n oauth_manager =
  om_service :: oauth_service
  om_transport :: "'n \<Rightarrow> candidate \<Rightarrow> form \<Rightarrow> token_reply option"
  om_nonce :: "'n \<Rightarrow> string option"
  om_env :: "'n \<Rightarrow> environment"

definition manage_credential ::
  "'n oauth_manager \<Rightarrow> candidate \<Rightarrow> bool \<Rightarrow> control_db \<times> 'n \<Rightarrow> (control_db \<times> 'n) \<times> (credential_failure + candidate)"
where
  "manage_credential m c force = (\<lambda>(s, n).
     case ensure_credential_alone (om_service m) (om_transport m n) (om_nonce m n) (om_env m n) c force s of
       (t, Inl e) \<Rightarrow> ((t, n), Inl (credential_failure_of e))
     | (t, Inr c') \<Rightarrow> ((t, n), Inr c'))"

subsection \<open>What a refresh returns\<close>

definition oauth_on_google :: "'x db_scheme \<Rightarrow> bool" where
  "oauth_on_google s \<longleftrightarrow> (\<forall>a \<in> set (accounts s). ac_auth_kind a = ''oauth'' \<longrightarrow>
     (case row_by up_id (ac_upstream_id a) (upstreams s) of None \<Rightarrow> True | Some u \<Rightarrow> up_provider_id u = ''google''))"

lemma load_account_Inr:
  assumes "load_account c scan s pid = Inr cfg"
  obtains a u k p where "row_by ac_public_id pid (accounts s) = Some a"
    "row_by up_id (ac_upstream_id a) (upstreams s) = Some u"
    "cfg_candidate cfg = candidate_of a u k p" "cfg_status cfg = ac_status a"
  using assms by (auto simp: load_account_def Let_def split: option.splits sum.splits)

text \<open>A candidate without a model, on Google if it authenticates by OAuth.\<close>

definition bare_google :: "candidate \<Rightarrow> bool" where
  "bare_google c \<longleftrightarrow> upstream_model c = [] \<and> auth_kind c = ''oauth'' \<and> provider_id c = ''google''"

text \<open>The kind of authentication of the account with a public identifier.\<close>

definition kind_of :: "'x db_scheme \<Rightarrow> string \<Rightarrow> string option" where
  "kind_of s pid = map_option ac_auth_kind (row_by ac_public_id pid (accounts s))"

lemma loaded_bare:
  assumes "load_account c scan s pid = Inr cfg" "oauth_on_google s"
  shows "account_public (cfg_candidate cfg) = pid" "kind_of s pid = Some (auth_kind (cfg_candidate cfg))"
    "kind_of s pid = Some ''oauth'' \<Longrightarrow> bare_google (cfg_candidate cfg)"
proof -
  from assms(1) obtain a u k p where a: "row_by ac_public_id pid (accounts s) = Some a"
    and u: "row_by up_id (ac_upstream_id a) (upstreams s) = Some u"
    and cand: "cfg_candidate cfg = candidate_of a u k p"
    by (elim load_account_Inr) blast
  have "a \<in> set (accounts s)" "ac_public_id a = pid" using row_by_Some [OF a] by simp_all
  with a u cand assms(2) show "account_public (cfg_candidate cfg) = pid"
    "kind_of s pid = Some (auth_kind (cfg_candidate cfg))"
    "kind_of s pid = Some ''oauth'' \<Longrightarrow> bare_google (cfg_candidate cfg)"
    by (auto simp: bare_google_def candidate_of_def oauth_on_google_def kind_of_def)
qed

lemma or_still_valid_Inr: "or_still_valid force c now code = Inr c' \<Longrightarrow> c' = c"
  by (auto simp: or_still_valid_def split: if_splits)

lemma refresh_start_bare:
  assumes "oauth_on_google s"
  shows "(case refresh_start svc clock selected force s of
      Settled (Inr c) \<Rightarrow> bare_google c
    | Ask rq \<Rightarrow> bare_google (rq_candidate rq) \<and> kind_of s (account_public (rq_candidate rq)) = Some ''oauth''
    | _ \<Rightarrow> True)"
proof (cases "load_account (os_cipher svc) (os_scan svc) s (account_public selected)")
  case (Inr fresh)
  let ?c = "cfg_candidate fresh"
  show ?thesis
  proof (cases "auth_kind ?c = ''oauth'' \<and> cfg_status fresh = ''active''")
    case True
    then have "bare_google ?c \<and> kind_of s (account_public ?c) = Some ''oauth''"
      using loaded_bare [OF Inr assms] by simp
    then show ?thesis
      using Inr True
      by (auto simp: refresh_start_def refresh_with_def Let_def dest!: or_still_valid_Inr
          split: sum.splits option.splits refresh_plan.splits if_splits)
  qed (auto simp: refresh_start_def Inr Let_def)
qed (simp add: refresh_start_def)

lemma record_audit_upstreams [simp]:
  "upstreams (record_audit env now ev tk ti oc md s) = upstreams s"
  "accounts (record_audit env now ev tk ti oc md s) = accounts s"
  by (auto simp: record_audit_def dest!: audit_outcome_Inr split: sum.split)

lemma refreshed_kinds:
  assumes "\<And>r. ac_public_id (f r) = ac_public_id r \<and> ac_auth_kind (f r) = ac_auth_kind r \<and> ac_upstream_id (f r) = ac_upstream_id r"
  shows "oauth_on_google (write_accounts p f s) = oauth_on_google s" (is ?google)
    and "kind_of (write_accounts p f s) pid = kind_of s pid" (is ?kind)
proof -
  have "(\<forall>a \<in> set rows. P (ac_auth_kind (if p a then f a else a)) (ac_upstream_id (if p a then f a else a)))
      = (\<forall>a \<in> set rows. P (ac_auth_kind a) (ac_upstream_id a))" for P rows
    using assms by auto
  from this [of "accounts s" "\<lambda>k u. k = ''oauth'' \<longrightarrow>
      (case row_by up_id u (upstreams s) of None \<Rightarrow> True | Some u \<Rightarrow> up_provider_id u = ''google'')"]
  show ?google by (simp add: oauth_on_google_def write_accounts_def update_where_def del: if_image_distrib)
  have "row_by ac_public_id pid (update_where p f (accounts s)) =
      map_option (\<lambda>r. if p r then f r else r) (row_by ac_public_id pid (accounts s))"
    by (rule row_by_update) (simp add: assms)
  then show ?kind
    using assms by (cases "row_by ac_public_id pid (accounts s)") (simp_all add: kind_of_def write_accounts_def)
qed

lemma store_token_bare:
  assumes "store_token svc nonce env rq tok s = (t, Inr c')" "oauth_on_google s"
    and "kind_of s (account_public (rq_candidate rq)) = Some ''oauth''"
  shows "bare_google c'"
proof -
  let ?pid = "account_public (rq_candidate rq)"
  from assms(1) obtain e reloaded where
    t: "t = record_audit env (unix_milli (env_clock env 7)) ''account.oauth_refreshed'' ''account'' ?pid ''success'' []
       (write_accounts (refreshable rq) (refreshed_account e (tr_expires tok) (unix_milli (env_clock env 6))) s)"
    and l: "load_account (os_cipher svc) (os_scan svc) t ?pid = Inr reloaded" and c': "c' = cfg_candidate reloaded"
    by (auto simp: store_token_def Let_def split: sum.splits if_splits)
  have "oauth_on_google t" "kind_of t ?pid = Some ''oauth''"
    using assms(2,3) refreshed_kinds [of "refreshed_account e (tr_expires tok) (unix_milli (env_clock env 6))" "refreshable rq" s]
    by (simp_all add: t oauth_on_google_def kind_of_def refreshed_account_def)
  then show ?thesis using loaded_bare [OF l] c' by simp
qed

lemma refresh_credential_bare:
  assumes "refresh_credential svc transport nonce env selected force s = (t, Inr c')" "oauth_on_google s"
  shows "bare_google c'"
  using assms refresh_start_bare [OF assms(2), of svc "env_clock env" selected force] store_token_bare
  by (auto simp: refresh_credential_def refresh_finish_def dest!: or_still_valid_Inr
      split: refresh_plan.splits sum.splits if_splits)

subsection \<open>The gateway with Google OAuth\<close>

lemma google_prepare_bare: "\<exists>e. google_prepare (i\<lparr>in_upstream_model := []\<rparr>) = Inl e"
  by (auto simp: google_prepare_def Let_def and_then_def after_validate_def split: sum.splits option.splits)

lemma serve_google_bare:
  assumes "x_credentials x = Some (manage_credential m)" "registry_get (x_registry x) ''google'' = Some google_adapter"
    and "oauth_on_google (wd_db w)" "without_refresh (env_clock (om_env m (wd_net w)) 0) c False = None"
  shows "\<exists>w' ev' e. serve_lease (model_gateway x) call streamed c ev w = (w', ev', Some e) \<and> wd_calls w' = wd_calls w"
proof -
  obtain t r where run: "refresh_credential (om_service m) (om_transport m (wd_net w)) (om_nonce m (wd_net w))
      (om_env m (wd_net w)) c False (wd_db w) = (t, r)" by fastforce
  let ?w = "w\<lparr>wd_db := t, wd_net := wd_net w\<rparr>"
  have ensured: "ensure_credential (model_gateway x) c w =
      (?w, case r of Inl e \<Rightarrow> Inl (credential_failure_of e) | Inr c' \<Rightarrow> Inr c')"
    by (simp add: ensure_credential_def model_gateway_def assms manage_credential_def
        ensure_credential_alone_def run split: sum.split)
  show ?thesis
  proof (cases r)
    case (Inl e)
    then show ?thesis by (simp add: serve_lease_def ensured)
  next
    case (Inr c')
    with run have "bare_google c'" using refresh_credential_bare assms(3) by blast
    moreover obtain e where "google_prepare \<lparr>in_endpoint = inv_endpoint call, in_body = inv_body call,
        in_upstream_model = [], in_headers = inv_headers call\<rparr> = Inl e"
      using google_prepare_bare [of "\<lparr>in_endpoint = inv_endpoint call, in_body = inv_body call,
        in_upstream_model = [], in_headers = inv_headers call\<rparr>"] by auto
    moreover have "g_registry (model_gateway x) = x_registry x" by (simp add: model_gateway_def)
    ultimately show ?thesis
      using assms(2) by (simp add: serve_lease_def ensured Inr bare_google_def google_adapter_def)
  qed
qed

definition google_db :: db where
  "google_db = sample_db
     \<lparr>upstreams := map (\<lambda>u. u\<lparr>up_provider_id := ''google''\<rparr>) (upstreams sample_db),
      accounts := [(sample_account 1)\<lparr>ac_auth_kind := ''oauth'', ac_credential_expires := Some 200\<rparr>],
      candidates := [(sample_candidate 1)\<lparr>ca_protocols := sample_set [''gemini'']\<rparr>]\<rparr>"

definition oauth_scan :: "string \<Rightarrow> lexeme list" where
  "oauth_scan s = lex (JObj [(''schema_version'', JNum ''1''), (''access_token'', JStr ''at''),
     (''refresh_token'', JStr ''rt'')])"

definition idle_manager :: "unit oauth_manager" where
  "idle_manager =
     \<lparr>om_service = \<lparr>os_cipher = tag_cipher, os_scan = oauth_scan, os_render = (\<lambda>_. []), os_sha256 = (\<lambda>s. s),
        os_scheme = ''https'', os_host = ''gate.example'', os_registry = [(''google'', google_adapter)]\<rparr>,
      om_transport = (\<lambda>_ _ _. None), om_nonce = (\<lambda>_. None),
      om_env = (\<lambda>_. \<lparr>env_clock = (\<lambda>_. 100000000), env_object = None, env_prefix = None, env_secret = None,
        env_audit = None\<rparr>)\<rparr>"

definition google_externals :: "unit externals" where
  "google_externals = (sample_externals 200)
     \<lparr>x_registry := [(''google'', google_adapter)], x_scan := oauth_scan,
      x_credentials := Some (manage_credential idle_manager)\<rparr>"

definition google_call :: invocation where
  "google_call = sample_invocation
     \<lparr>inv_protocol := ''gemini'', inv_endpoint := generate_content, inv_model := ''gpt'',
      inv_body := lex (JObj [(''contents'', JArr [JObj [(''parts'', JArr [JObj [(''text'', JStr ''hi'')]])]])])\<rparr>"

definition google_world :: "unit world" where
  "google_world = sample_world\<lparr>wd_db := db.extend google_db (control_db.fields [] [] [] None []), wd_router := new_router\<rparr>"

definition google_request :: request where
  "google_request = \<lparr>req_model = ''gpt'', req_protocol = ''gemini'', req_capabilities = [''text'']\<rparr>"

definition google_loaded :: "loaded list" where
  "google_loaded = map (\<lambda>j. case scan_route_candidate tag_cipher oauth_scan j of Inr l \<Rightarrow> l)
     (route_rows google_db google_request)"

lemma google_rows: "loads tag_cipher oauth_scan (route_rows google_db google_request) google_loaded"
proof -
  have "list_all (\<lambda>j. case scan_route_candidate tag_cipher oauth_scan j of Inl _ \<Rightarrow> False | Inr _ \<Rightarrow> True)
    (route_rows google_db google_request)"
    by code_simp
  then show ?thesis by (auto simp: loads_def google_loaded_def list_all_iff split: sum.splits)
qed

lemma google_choices:
  "map account_internal (choices new_router (eligible google_request 100 google_loaded)) = [1]"
  "list_all (\<lambda>c. without_refresh 100000000 c False = None) (eligible google_request 100 google_loaded)"
  by code_simp+

text \<open>
  C38: A Google account that authenticates by OAuth serves no request once its token is to be renewed.
  \<open>EnsureCredential\<close> hands back a candidate without the upstream model of the route, with
  which the Google adapter rejects every request: whether Google renews the token or not, the
  request ends with an error and the upstream is not asked.
\<close>

theorem renewed_google_request_fails:
  assumes "execute (model_gateway x) call w = (w', r)"
    and "x_credentials x = Some (manage_credential m)" "registry_get (x_registry x) ''google'' = Some google_adapter"
    and "oauth_on_google (wd_db w)" "inspect_request (inv_body call) (inv_model call = []) = Inr info"
    and "plan (x_cipher x) (x_scan x) (db.truncate (wd_db w)) (unix_milli (x_clock x (wd_net w))) (wd_router w)
      \<lparr>req_model = (if inv_model call = [] then info_model info else inv_model call), req_protocol = inv_protocol call,
       req_capabilities = required_capabilities (inv_force_stream call \<or> info_stream info)\<rparr> = (st, why, Inr l)"
    and "without_refresh (env_clock (om_env m (wd_net w)) 0) (lease_candidate l) False = None"
  shows "r \<noteq> None \<and> wd_calls w' = wd_calls w"
proof -
  define served where "served = (if inv_model call = [] then call\<lparr>inv_model := info_model info\<rparr> else call)"
  define streamed where "streamed \<longleftrightarrow> inv_force_stream call \<or> info_stream info"
  have fails: "\<exists>w2 ev' e. serve_lease (model_gateway x) served streamed (lease_candidate l) ev (w\<lparr>wd_router := st\<rparr>)
      = (w2, ev', Some e) \<and> wd_calls w2 = wd_calls w" for ev
    using serve_google_bare [of x m "w\<lparr>wd_router := st\<rparr>" "lease_candidate l" served streamed ev] assms by simp
  have planned: "g_plan (model_gateway x) \<lparr>req_model = inv_model served, req_protocol = inv_protocol served,
      req_capabilities = required_capabilities streamed\<rparr> w = (w\<lparr>wd_router := st\<rparr>, why, Inr l)"
    unfolding model_gateway_plan served_def streamed_def
    by (intro exI [of _ st]) (use assms(6) in \<open>cases "inv_model call = []"; simp\<close>)
  have ready: "g_ready (model_gateway x)" by (simp add: model_gateway_def)
  have mode: "(inv_force_stream served \<or> info_stream info) = streamed" by (simp add: served_def streamed_def)
  have "\<exists>w2 ev' e. attempt (model_gateway x) call ev w = (w2, ev', Some e) \<and> wd_calls w2 = wd_calls w" for ev
  proof -
    let ?ev = "ev\<lparr>ev_model := inv_model served, ev_streamed := streamed\<rparr>"
    let ?c = "lease_candidate l"
    obtain w2 ev' e where "serve_lease (model_gateway x) served streamed ?c
        (?ev\<lparr>ev_routing := lex (explanation_json why), ev_provider := provider_id ?c,
          ev_upstream := upstream_internal ?c, ev_account := account_internal ?c\<rparr>) (w\<lparr>wd_router := st\<rparr>)
        = (w2, ev', Some e)" "wd_calls w2 = wd_calls w"
      using fails by blast
    with planned ready show ?thesis
      unfolding attempt_def Let_def assms(5)
      by (simp add: served_def [symmetric] mode)
  qed
  then obtain w2 ev' e where "attempt (model_gateway x) call (new_event call (g_clock (model_gateway x) w)) w
      = (w2, ev', Some e)" "wd_calls w2 = wd_calls w"
    by blast
  with assms(1) show ?thesis by (auto simp: execute_def split: if_splits)
qed

theorem renewed_google_request_fails_witness:
  "snd (execute (model_gateway google_externals) google_call google_world) \<noteq> None
    \<and> wd_calls (fst (execute (model_gateway google_externals) google_call google_world)) = []"
proof -
  have fields: "x_credentials google_externals = Some (manage_credential idle_manager)"
      "registry_get (x_registry google_externals) ''google'' = Some google_adapter"
      "x_cipher google_externals = tag_cipher" "x_scan google_externals = oauth_scan"
      "unix_milli (x_clock google_externals n) = 100" "env_clock (om_env idle_manager n) 0 = 100000000"
      "wd_router google_world = new_router" "wd_calls google_world = []"
      "db.truncate (wd_db google_world) = google_db" for n
    by (simp_all add: google_externals_def sample_externals_def registry_get_def idle_manager_def google_world_def
        sample_world_def unix_milli_def db.defs)
  have google: "oauth_on_google (wd_db google_world)"
    by (simp add: oauth_on_google_def google_world_def google_db_def sample_db_def sample_world_def sample_account_def
        db.defs control_db.defs)
  have inspected: "inspect_request (inv_body google_call) False = Inr \<lparr>info_model = [], info_stream = False\<rparr>"
    by code_simp
  have call: "inv_model google_call = ''gpt''" "inv_protocol google_call = ''gemini''"
      "inv_force_stream google_call = False"
    by (simp_all add: google_call_def sample_invocation_def)
  obtain st why l where p: "plan tag_cipher oauth_scan google_db 100 new_router google_request = (st, why, Inr l)"
    using plan_grants [OF google_rows routers_ok(1,3) google_choices(1)] by blast
  from plan_lease [OF p routers_ok(1)] obtain ls where ls: "loads tag_cipher oauth_scan (route_rows google_db google_request) ls"
    "lease_candidate l \<in> set (eligible google_request 100 ls)"
    by (auto simp: choices_sound)
  have "ls = google_loaded" using ls(1) google_rows by (simp add: loads_def inj_map_eq_map)
  then have due: "without_refresh 100000000 (lease_candidate l) False = None"
    using google_choices(2) ls(2) by (simp add: list_all_iff)
  show ?thesis
    using renewed_google_request_fails [OF surjective_pairing, of google_externals idle_manager google_world google_call
        "\<lparr>info_model = [], info_stream = False\<rparr>" st why l] p google inspected due
    by (simp add: fields call required_capabilities_def google_request_def)
qed

end
