(* ===== verification/Http_References.thy ===== *)
theory Http_References
  imports Http_Properties References Gateway_Invariants OAuth_Gateway
begin

text \<open>
  The administration API as a whole against the schema: whatever is sent to it, in whatever order,
  leaves every foreign key pointing to a row.  The operations that handlers call are steps of
  \<open>References\<close>; logins, sessions, client keys and the OAuth configuration touch no reference.
\<close>

subsection \<open>Operations away from the references\<close>

definition refs_kept :: "'x control_db_scheme \<Rightarrow> 'x control_db_scheme \<Rightarrow> bool" where
  "refs_kept s t \<longleftrightarrow> (refs_ok s \<longrightarrow> refs_ok t)"

lemma refs_kept_refl [simp]: "refs_kept s s"
  by (simp add: refs_kept_def)

lemma refs_kept_trans: "refs_kept s t \<Longrightarrow> refs_kept t u \<Longrightarrow> refs_kept s u"
  by (simp add: refs_kept_def)

lemma refs_kept_step: "db_step s t \<Longrightarrow> refs_kept s t"
  using db_step_refs by (auto simp: refs_kept_def)

lemma refs_kept_within: "within s t \<Longrightarrow> refs_kept s t"
  using within_ok by (auto simp: refs_kept_def)

definition same_refs :: "'x control_db_scheme \<Rightarrow> 'x control_db_scheme \<Rightarrow> bool" where
  "same_refs s t \<longleftrightarrow> proxies t = proxies s \<and> upstreams t = upstreams s \<and> accounts t = accounts s \<and> routes t = routes s
     \<and> candidates t = candidates s \<and> runtimes t = runtimes s \<and> account_models t = account_models s
     \<and> oauth_attempts t = oauth_attempts s"

lemma same_refs_kept: "same_refs s t \<Longrightarrow> refs_kept s t"
  by (simp add: same_refs_def refs_kept_def refs_ok_def account_refers_def children_def)

lemma same_refs_refl [simp]: "same_refs s s"
  by (simp add: same_refs_def)

lemma same_refs_trans: "same_refs s t \<Longrightarrow> same_refs t u \<Longrightarrow> same_refs s u"
  by (simp add: same_refs_def)

lemma same_refs_updates [simp]:
  "same_refs s (s\<lparr>client_keys := ks\<rparr>)" "same_refs s (s\<lparr>oauth_config := c\<rparr>)"
  by (simp_all add: same_refs_def)

lemma same_refs_auth [simp]:
  fixes s :: "'x auth_db_scheme"
  shows "same_refs s (s\<lparr>admin_sessions := rows\<rparr>)" "same_refs s (s\<lparr>admin_user := a\<rparr>)"
    "same_refs s (update_admin f s)" "same_refs s (revoke_sessions p now s)"
    "same_refs (update_admin f s) t = same_refs s t" "same_refs (revoke_sessions p now s) t = same_refs s t"
  by (simp_all add: same_refs_def update_admin_def revoke_sessions_def)

lemma same_refs_audit: "audit_only s t \<Longrightarrow> same_refs s t"
  by (simp add: same_refs_def)

lemma same_refs_auth_audit:
  "auth_audit_outcome env now event kind actor outcome md s = Inr t \<Longrightarrow> same_refs s t"
  unfolding auth_audit_outcome_def plain_Inr by (rule same_refs_audit) (rule audit_outcome_Inr)

lemma insert_session_refs: "insert_session svc env version totp ip agent now s = Inr (session, t) \<Longrightarrow> same_refs s t"
  by (auto simp: insert_session_def split: if_splits)

lemma accept_step_refs: "accept_step step now s = Inr t \<Longrightarrow> same_refs s t"
  by (auto simp: accept_step_def split: option.splits if_splits)

lemma record_login_failure_refs: "record_login_failure env now s = Inr t \<Longrightarrow> same_refs s t"
  by (auto simp: record_login_failure_def Let_def dest!: same_refs_auth_audit intro: same_refs_trans split: option.splits)

lemma refuse_login_refs: "refuse_login env now s = (t, r) \<Longrightarrow> same_refs s t"
  by (auto simp: refuse_login_def dest: record_login_failure_refs split: sum.splits)

lemma check_login_refs: "check_login svc env password code ip l s = (l', t, r) \<Longrightarrow> same_refs s t"
  by (auto simp: check_login_def Let_def dest: refuse_login_refs split: option.splits if_splits sum.splits prod.splits)

lemma commit_login_refs:
  assumes "commit_login svc env admin step ip agent s = Inr (session, t)"
  shows "same_refs s t"
proof -
  from assms obtain s1 s2 where s1: "accept_step step (unix_milli (an_clock env 0)) s = Inr s1"
    and s2: "insert_session svc env (ad_session_version admin) (ad_totp_enabled admin) ip agent (an_clock env 0)
      (update_admin (\<lambda>a. a\<lparr>ad_failed := 0, ad_locked := None, ad_updated := unix_milli (an_clock env 0)\<rparr>) s1)
      = Inr (session, s2)"
    and t: "auth_audit env (unix_milli (an_clock env 1)) ''admin.login_succeeded'' ''admin_session'' (ss_public session)
      [(''totp_enabled'', MetaFlag (ad_totp_enabled admin))] s2 = Inr t"
    by (auto simp: commit_login_def Let_def)
  show ?thesis
    using accept_step_refs [OF s1] insert_session_refs [OF s2] same_refs_auth_audit [OF t]
    by simp (meson same_refs_trans)
qed

lemma login_refs: "login svc env password code ip agent l s = (l', t, r) \<Longrightarrow> same_refs s t"
  by (auto simp: login_def dest!: check_login_refs commit_login_refs intro: same_refs_trans
      split: prod.splits sum.splits)

lemma update_and_rotate_refs:
  assumes "update_and_rotate svc env now audit_now current ip agent event change s = Inr (session, t)"
    and change: "\<And>version ms s1. change version ms s = Inr s1 \<Longrightarrow> same_refs s s1"
  shows "same_refs s t"
proof -
  from assms(1) obtain version s1 s2 rotated where s1: "change version (unix_milli now) s = Inr s1"
    and s2: "insert_session svc env version False ip agent now
      (revoke_sessions (\<lambda>r. se_public_id r = ss_public current) (unix_milli now)
        (revoke_sessions (\<lambda>r. se_public_id r \<noteq> ss_public current) (unix_milli now) s1)) = Inr (rotated, s2)"
    and t: "auth_audit env audit_now event ''admin_session'' (ss_public rotated) [(''sessions_rotated'', MetaFlag True)] s2 = Inr t"
    by (auto simp: update_and_rotate_def Let_def split: option.splits)
  show ?thesis
    using change [OF s1] insert_session_refs [OF s2] same_refs_auth_audit [OF t]
    by simp (meson same_refs_trans)
qed

lemma guarded_update_refs: "guarded_update err p f s = Inr t \<Longrightarrow> same_refs s t"
  by (auto simp: guarded_update_def split: option.splits if_splits)

lemma logout_refs: "logout env session s = Inr t \<Longrightarrow> same_refs s t"
  unfolding logout_def by (drule same_refs_auth_audit) simp

lemma change_password_refs:
  "change_password svc env session current next_password ip agent snapshot s = Inr (x, t) \<Longrightarrow> same_refs s t"
  by (auto simp: change_password_def dest!: update_and_rotate_refs guarded_update_refs split: option.splits)


lemma confirm_totp_refs:
  "confirm_totp svc env session code ip agent snapshot s = Inr (x, t) \<Longrightarrow> same_refs s t"
  by (auto simp: confirm_totp_def dest!: update_and_rotate_refs guarded_update_refs split: option.splits if_splits sum.splits)

lemma disable_totp_refs:
  "disable_totp svc env session password code ip agent snapshot s = Inr (x, t) \<Longrightarrow> same_refs s t"
  by (auto simp: disable_totp_def dest!: update_and_rotate_refs guarded_update_refs split: option.splits if_splits sum.splits)

lemma setup_totp_refs: "setup_totp svc env session password snapshot s = Inr (x, t) \<Longrightarrow> same_refs s t"
  by (auto simp: setup_totp_def Let_def dest!: same_refs_auth_audit split: option.splits)

lemma same_refs_config [simp]: "same_refs (s\<lparr>oauth_config := c\<rparr>) t = same_refs s t"
  by (simp add: same_refs_def)

lemma create_config_refs:
  assumes "create_google_config svc nonce env who i s = Inr (c, t)"
  shows "same_refs s t"
proof -
  from assms obtain j where j: "control_part (validate_google_config i True) = Inr j"
    unfolding create_google_config_def and_then_eq_Inr by blast
  show ?thesis using assms unfolding create_google_config_def j and_then_simps
    by (cases "object_id ''oauthcfg'' (env_object env)"; cases "seal (os_cipher svc) nonce (the (ci_secret j))
        (secret_aad (the (object_id ''oauthcfg'' (env_object env))))")
      (auto simp: Let_def dest!: audit_outcome_Inr same_refs_audit split: if_splits)
qed

lemma update_config_refs:
  assumes "update_google_config svc nonce env who version i s = Inr (c, t)"
  shows "same_refs s t"
proof -
  from assms obtain j where j: "control_part (validate_google_config i False) = Inr j"
    unfolding update_google_config_def and_then_eq_Inr by blast
  from assms j obtain r where r: "oauth_config s = Some r"
    by (auto simp: update_google_config_def split: option.splits)
  show ?thesis using assms unfolding update_google_config_def j and_then_simps r option.case
    by (cases "case ci_secret j of None \<Rightarrow> Inr (oc_secret_enc r)
        | Some v \<Rightarrow> seal (os_cipher svc) nonce v (secret_aad (oc_public_id r))")
      (auto simp: Let_def dest!: audit_outcome_Inr same_refs_audit split: if_splits)
qed

lemma create_key_refs:
  assumes "create_client_key sha env who name expires s = Inr (ck, t)"
  shows "same_refs s t"
proof -
  obtain item full where ck: "ck = (item, full)" by (cases ck)
  obtain pid prefix clean verifier s1 where "insert_client_key pid clean prefix verifier (unix_milli (env_clock env 1))
      (map_option unix_milli expires) s = Inr s1" "audit_only s1 t"
    using create_client_key_Inr [OF assms [unfolded ck]] by metis
  then show ?thesis by (auto elim!: insert_client_key_Inr simp: same_refs_def)
qed

lemma client_key_refs:
  "update_client_key env who pid version name status expires s = Inr (ki, t) \<Longrightarrow> same_refs s t"
  "revoke_client_key env who pid version s = Inr t \<Longrightarrow> same_refs s t"
  by (auto simp: same_refs_def elim!: update_client_key_Inr revoke_client_key_Inr)

subsection \<open>The handlers\<close>

abbreviation web_kept :: "web_state \<Rightarrow> web_state \<Rightarrow> bool" where
  "web_kept s t \<equiv> refs_kept (wb_db s) (wb_db t)"

lemma responding_kept:
  assumes "responding_with x f s = (t, resp)" "\<And>a t resp. f a = (t, resp) \<Longrightarrow> web_kept s t"
  shows "web_kept s t"
  using assms by (auto simp: responding_with_def split: sum.splits)

lemma changed_kept:
  assumes "changed r result reply s = (t, resp)" "\<And>i d. result = Inr (i, d) \<Longrightarrow> refs_kept (wb_db s) d"
  shows "web_kept s t"
  using assms by (auto simp: changed_def split: sum.splits)

lemma removed_kept:
  assumes "removed r result s = (t, resp)" "\<And>d. result = Inr d \<Longrightarrow> refs_kept (wb_db s) d"
  shows "web_kept s t"
  using assms by (auto simp: removed_def split: sum.splits)

lemma rotated_kept:
  assumes "rotated w e r result s = (t, resp)" "\<And>i d. result = Inr (i, d) \<Longrightarrow> same_refs (wb_db s) d"
  shows "web_kept s t"
  using assms by (auto simp: rotated_def same_refs_kept split: sum.splits)

lemmas kept_elims = responding_kept changed_kept removed_kept rotated_kept

lemma resource_handlers_kept:
  "handle_create_proxy w e se r s = (t, resp) \<Longrightarrow> web_kept s t"
  "handle_update_proxy w e se r s = (t, resp) \<Longrightarrow> web_kept s t"
  "handle_delete_proxy e se r s = (t, resp) \<Longrightarrow> web_kept s t"
  "handle_create_upstream w e se r s = (t, resp) \<Longrightarrow> web_kept s t"
  "handle_update_upstream w e se r s = (t, resp) \<Longrightarrow> web_kept s t"
  "handle_delete_upstream e se r s = (t, resp) \<Longrightarrow> web_kept s t"
  "handle_create_account w e se r s = (t, resp) \<Longrightarrow> web_kept s t"
  "handle_update_account w e se r s = (t, resp) \<Longrightarrow> web_kept s t"
  "handle_delete_account e se r s = (t, resp) \<Longrightarrow> web_kept s t"
  "handle_create_model_route w e se r s = (t, resp) \<Longrightarrow> web_kept s t"
  "handle_update_model_route w e se r s = (t, resp) \<Longrightarrow> web_kept s t"
  "handle_delete_model_route e se r s = (t, resp) \<Longrightarrow> web_kept s t"
  unfolding handler_defs handle_create_proxy_def handle_create_upstream_def handle_create_account_def
    handle_create_model_route_def
  by (elim kept_elims; blast intro: refs_kept_step db_step.intros)+

lemma key_handlers_kept:
  "handle_create_client_key w e se r s = (t, resp) \<Longrightarrow> web_kept s t"
  "handle_update_client_key w e se r s = (t, resp) \<Longrightarrow> web_kept s t"
  "handle_revoke_client_key e se r s = (t, resp) \<Longrightarrow> web_kept s t"
  unfolding handler_defs handle_create_client_key_def
  by (elim kept_elims; auto elim!: kept_elims intro: same_refs_kept create_key_refs client_key_refs split: prod.splits)+

lemma admin_handlers_kept:
  "handle_login w e r s = (t, resp) \<Longrightarrow> web_kept s t"
  "handle_logout w e se r s = (t, resp) \<Longrightarrow> web_kept s t"
  "handle_password w e se r s = (t, resp) \<Longrightarrow> web_kept s t"
  "handle_totp_setup w e se r s = (t, resp) \<Longrightarrow> web_kept s t"
  "handle_totp_confirm w e se r s = (t, resp) \<Longrightarrow> web_kept s t"
  "handle_totp_disable w e se r s = (t, resp) \<Longrightarrow> web_kept s t"
proof -
  assume "handle_login w e r s = (t, resp)"
  then show "web_kept s t"
    by (auto simp: handle_login_def elim!: responding_kept split: if_splits prod.splits sum.splits)
      (blast intro: login_refs [THEN same_refs_kept])+
next
  assume "handle_logout w e se r s = (t, resp)"
  then show "web_kept s t"
    by (auto simp: handle_logout_def split: sum.splits) (blast intro: logout_refs [THEN same_refs_kept])
next
  assume "handle_password w e se r s = (t, resp)"
  then show "web_kept s t"
    by (auto simp: handle_password_def elim!: kept_elims dest: change_password_refs split: option.splits prod.splits)
next
  assume "handle_totp_setup w e se r s = (t, resp)"
  then show "web_kept s t"
    by (auto simp: handle_totp_setup_def elim!: responding_kept split: prod.splits sum.splits)
      (blast intro: setup_totp_refs [THEN same_refs_kept])
next
  assume "handle_totp_confirm w e se r s = (t, resp)"
  then show "web_kept s t"
    by (auto simp: handle_totp_confirm_def elim!: kept_elims dest: confirm_totp_refs)
next
  assume "handle_totp_disable w e se r s = (t, resp)"
  then show "web_kept s t"
    by (auto simp: handle_totp_disable_def elim!: kept_elims dest: disable_totp_refs split: prod.splits)
qed

lemma start_validation_within: "start_validation env who pid version s = Inr (v, t) \<Longrightarrow> within s t"
  by (auto simp: start_validation_def from_control_def dest: begin_validation_within split: sum.splits prod.splits if_splits)

lemma conclude_validation_within: "conclude_validation env who pid version result s = (t, r) \<Longrightarrow> within s t"
  by (auto simp: conclude_validation_def dest: finish_validation_within intro: within_refl split: sum.splits prod.splits)

lemma validate_account_kept: "validate_account c scan reg transport env who pid version s = (t, r) \<Longrightarrow> refs_kept s t"
  by (auto simp: validate_account_def split: sum.splits prod.splits
      intro: refs_kept_within within_trans [OF start_validation_within conclude_validation_within])

lemma validate_handler_kept:
  assumes "handle_validate_account w e se r s = (t, resp)"
  shows "web_kept s t"
proof (cases "wc_validate w")
  case (Some v)
  obtain registry transport where v: "v = (registry, transport)" by (cases v)
  show ?thesis
    by (rule responding_kept [OF assms [unfolded handle_validate_account_def Some v option.case prod.case]])
      (auto intro: validate_account_kept split: sum.splits validate_error.splits prod.splits)
qed (use assms in \<open>simp add: handle_validate_account_def\<close>)

lemma claim_attempt_kept: "claim_attempt svc at state session expected s = Inr (cl, t) \<Longrightarrow> refs_kept s t"
  by (auto simp: claim_attempt_def intro: refs_kept_step attempt_claimed)

lemma create_attempt_kept: "create_attempt svc rand env who session account s = Inr (a, t) \<Longrightarrow> refs_kept s t"
  by (auto simp: create_attempt_def Let_def intro: refs_kept_step attempt_inserted split: if_splits prod.splits)

lemma finish_authorization_kept:
  "finish_authorization svc nonce fail_env env request cl answer s = (t, c) \<Longrightarrow> refs_kept s t"
  by (auto simp: finish_authorization_def intro: refs_kept_step attempt_failed attempt_completed
      split: sum.splits option.splits prod.splits)

lemma complete_authorization_kept:
  "complete_authorization svc net nonce fail_env env clock state code err session expected request s = (t, c)
    \<Longrightarrow> refs_kept s t"
  by (auto simp: complete_authorization_def intro: refs_kept_trans [OF claim_attempt_kept finish_authorization_kept]
      split: sum.splits prod.splits)

lemma callback_kept:
  "complete_callback_values svc net nonce fail_env env clock vs request s = (t, c) \<Longrightarrow> refs_kept s t"
  "complete_attempt_callback_url svc parse net nonce fail_env env clock expected url session request s = (t, c)
    \<Longrightarrow> refs_kept s t"
  by (auto simp: complete_callback_values_def complete_attempt_callback_url_def intro: complete_authorization_kept
      split: sum.splits prod.splits option.splits if_splits)

lemma with_oauth_kept:
  assumes "with_oauth w r s f = (t, resp)" "\<And>svc net parse. f (svc, net, parse) = (t, resp) \<Longrightarrow> web_kept s t"
  shows "web_kept s t"
  using assms by (auto simp: with_oauth_def split: option.splits prod.splits)

lemma oauth_handlers_kept:
  "handle_create_google_config w e se r s = (t, resp) \<Longrightarrow> web_kept s t"
  "handle_update_google_config w e se r s = (t, resp) \<Longrightarrow> web_kept s t"
  "handle_create_oauth_attempt w e se r s = (t, resp) \<Longrightarrow> web_kept s t"
  "handle_cancel_oauth_attempt w e se r s = (t, resp) \<Longrightarrow> web_kept s t"
  "handle_manual_oauth_callback w e se r s = (t, resp) \<Longrightarrow> web_kept s t"
proof -
  assume "handle_create_google_config w e se r s = (t, resp)"
  then show "web_kept s t" unfolding handle_create_google_config_def
    by (elim with_oauth_kept, auto elim!: responding_kept split: sum.splits prod.splits) (blast intro: create_config_refs [THEN same_refs_kept])+
next
  assume "handle_update_google_config w e se r s = (t, resp)"
  then show "web_kept s t" unfolding handle_update_google_config_def
    by (elim with_oauth_kept, auto elim!: responding_kept split: sum.splits prod.splits) (blast intro: update_config_refs [THEN same_refs_kept])+
next
  assume "handle_create_oauth_attempt w e se r s = (t, resp)"
  then show "web_kept s t" unfolding handle_create_oauth_attempt_def
    by (elim with_oauth_kept, auto elim!: responding_kept split: sum.splits prod.splits) (blast intro: create_attempt_kept)+
next
  assume "handle_cancel_oauth_attempt w e se r s = (t, resp)"
  then show "web_kept s t" unfolding handle_cancel_oauth_attempt_def
    by (elim with_oauth_kept, auto split: sum.splits) (blast intro: refs_kept_step attempt_cancelled)+
next
  assume "handle_manual_oauth_callback w e se r s = (t, resp)"
  then show "web_kept s t" unfolding handle_manual_oauth_callback_def
    by (elim with_oauth_kept, auto elim!: responding_kept split: sum.splits prod.splits completion.splits) (blast intro: callback_kept)+
qed

lemma google_callback_kept: "handle_google_oauth_callback w e r s = (t, resp) \<Longrightarrow> web_kept s t"
  by (auto simp: handle_google_oauth_callback_def intro: callback_kept split: option.splits prod.splits)

lemma endpoint_kept:
  assumes "run_endpoint w e ep se r s = (t, resp)"
  shows "web_kept s t"
proof (cases "reads_only ep")
  case True
  then show ?thesis using reads_only_state [OF _ assms] by simp
next
  case False
  then show ?thesis using assms
    by (cases ep; simp add: reads_only_def run_endpoint_def)
      (blast intro: resource_handlers_kept key_handlers_kept admin_handlers_kept validate_handler_kept oauth_handlers_kept)+
qed

lemma serve_admin_kept:
  assumes "serve_admin w e r s = (t, resp)"
  shows "web_kept s t"
proof (cases "hr_method r = ''POST'' \<and> hr_path r = [''api'', ''admin'', ''v1'', ''auth'', ''login'']")
  case True
  with assms show ?thesis using admin_handlers_kept(1) by (simp add: serve_admin_def)
next
  case False
  have mux: "web_kept s t" if "admin_mux w e segments se r s = (t, resp)" for segments se s t resp
    using that endpoint_kept by (auto simp: admin_mux_def split: option.splits)
  show ?thesis
  proof (cases "only_sessions s t")
    case True
    then show ?thesis by (auto simp: only_sessions_def intro: same_refs_kept)
  next
    case changes: False
    from assms False have guard: "require_session w e
        (if take 3 (hr_path r) = [''api'', ''admin'', ''v1''] then admin_mux w e (drop 3 (hr_path r))
         else (\<lambda>se r s. (s, mux_refusal []))) r s = (t, resp)"
      by (simp only: serve_admin_def if_False)
    obtain s' se where s': "only_sessions s s'" "(if take 3 (hr_path r) = [''api'', ''admin'', ''v1'']
        then admin_mux w e (drop 3 (hr_path r)) else (\<lambda>se r s. (s, mux_refusal []))) se r s' = (t, resp)"
      by (rule require_session_ran [OF guard changes])
    have "web_kept s s'" using s'(1) by (auto simp: only_sessions_def intro: same_refs_kept)
    moreover have "web_kept s' t" using s'(2) mux by (auto split: if_splits)
    ultimately show ?thesis by (rule refs_kept_trans)
  qed
qed

subsection \<open>Requests of the public API\<close>

text \<open>The routing tables are a part of the database.\<close>

lemma on_routing_feedback:
  "on_routing (record_success now account) s = record_success now account s"
  "on_routing (record_failure jitter at c f) s = record_failure jitter at c f s"
  by (simp_all add: on_routing_def record_success_def record_failure_def record_runtime_error_def record_backoff_def
      demote_account_def on_runtime_def db.truncate_def Let_def)

text \<open>The credential manager, when there is one, keeps the references: that of package \<open>oauth\<close> does.\<close>

definition credentials_keep_refs :: "'n externals \<Rightarrow> bool" where
  "credentials_keep_refs x \<longleftrightarrow>
     (\<forall>ensure c force s n. x_credentials x = Some ensure \<longrightarrow> refs_ok s \<longrightarrow> refs_ok (fst (fst (ensure c force (s, n)))))"

interpretation refs_gateway: preserving "model_gateway x" "\<lambda>wd. credentials_keep_refs x \<longrightarrow> refs_ok (wd_db wd)"
  for x :: "'n externals"
proof unfold_locales
  fix r s s' why p
  assume "g_plan (model_gateway x) r s = (s', why, p)" "credentials_keep_refs x \<longrightarrow> refs_ok (wd_db s)"
  then show "credentials_keep_refs x \<longrightarrow> refs_ok (wd_db s')" by (auto simp: model_gateway_plan)
next
  fix ensure c force s s' r'
  assume "g_credentials (model_gateway x) = Some ensure" "ensure c force s = (s', r')"
    "credentials_keep_refs x \<longrightarrow> refs_ok (wd_db s)"
  then show "credentials_keep_refs x \<longrightarrow> refs_ok (wd_db s')"
    by (auto simp: model_gateway_def credentials_keep_refs_def split: prod.splits) (metis fst_conv)
qed (auto simp: model_gateway_def on_routing_feedback split: prod.splits
    intro: within_ok [OF record_success_within] within_ok [OF record_failure_within])

lemma manager_keeps_refs:
  assumes "x_credentials x = Some (manage_credential m)"
  shows "credentials_keep_refs x"
proof -
  have "within s t" if "ensure_credential_alone svc transport nonce env c force s = (t, r)"
    for svc transport nonce env c force and s t :: control_db and r
    using that by (auto simp: ensure_credential_alone_def refresh_credential_def intro: within_refl refresh_finish_within
        split: option.splits refresh_plan.splits)
  then have "refs_ok (fst (fst (manage_credential m c force (s, n))))" if "refs_ok s" for c force s n
    using that within_ok by (fastforce simp: manage_credential_def split: prod.splits sum.splits)
  then show ?thesis by (simp add: credentials_keep_refs_def assms)
qed

lemma execute_keeps_refs:
  assumes "execute (model_gateway x) call wd = (wd', r)" "credentials_keep_refs x" "refs_ok (wd_db wd)"
  shows "refs_ok (wd_db wd')"
  using refs_gateway.execute_keeps [OF assms(1)] assms(2,3) by simp

lemma record_public_db [simp]: "wd_db (record_public p x key ev wd) = wd_db wd"
  by (simp add: record_public_def)

lemma authenticate_refs: "authenticate sha raw now s = Inr (i, t) \<Longrightarrow> refs_ok s \<Longrightarrow> refs_ok t"
  using same_refs_kept [of s t] by (auto elim!: authenticate_Inr simp: refs_kept_def)

lemma gateway_call_keeps_refs:
  assumes "handle_gateway_call p x clock r protocol endpoint model force wd = (wd', resp)"
    and "credentials_keep_refs x" "refs_ok (wd_db wd)"
  shows "refs_ok (wd_db wd')"
  using assms(1,3) unfolding handle_gateway_call_def
  by (cases "ps_ready p"; cases "extract_client_key r protocol")
    (auto simp: Let_def dest!: authenticate_refs execute_keeps_refs [OF _ assms(2)] split: sum.splits prod.splits)

lemma models_keep_refs:
  "handle_models p x clock r protocol wd = (wd', resp) \<Longrightarrow> refs_ok (wd_db wd) \<Longrightarrow> refs_ok (wd_db wd')"
  unfolding handle_models_def
  by (cases "ps_ready p"; cases "extract_client_key r protocol")
    (auto simp: Let_def dest!: authenticate_refs split: sum.splits prod.splits)

lemma gemini_keeps_refs:
  "handle_gemini_generate p x clock r wd = (wd', resp) \<Longrightarrow> credentials_keep_refs x \<Longrightarrow> refs_ok (wd_db wd)
    \<Longrightarrow> refs_ok (wd_db wd')"
  by (auto simp: handle_gemini_generate_def intro: gateway_call_keeps_refs split: option.splits if_splits)

subsection \<open>The process\<close>

lemma refs_ok_world [simp]: "refs_ok (wd_db (world_of sv)) = refs_ok (sv_db sv)"
  by (simp add: world_of_def control_db.truncate_def refs_ok_def account_refers_def children_def)

lemma refs_ok_put_world [simp]: "refs_ok (sv_db (put_world wd sv)) = refs_ok (wd_db wd)"
  by (simp add: put_world_def control_db.extend_def refs_ok_def account_refers_def children_def)

lemma on_world_refs:
  assumes "on_world f sv = (sv', resp)" "\<And>wd wd' resp. f wd = (wd', resp) \<Longrightarrow> refs_ok (wd_db wd) \<Longrightarrow> refs_ok (wd_db wd')"
    and "refs_ok (sv_db sv)"
  shows "refs_ok (sv_db sv')"
proof -
  obtain wd rs where f: "f (world_of sv) = (wd, rs)" by (cases "f (world_of sv)")
  then show ?thesis using assms by (auto simp: on_world_def dest: assms(2) [OF f])
qed

lemma on_web_refs:
  assumes "on_web f sv = (sv', resp)" "\<And>s t resp. f s = (t, resp) \<Longrightarrow> web_kept s t" "refs_ok (sv_db sv)"
  shows "refs_ok (sv_db sv')"
proof -
  obtain t rs where f: "f (web_of sv) = (t, rs)" by (cases "f (web_of sv)")
  then show ?thesis using assms(1,3) assms(2) [OF f]
    by (auto simp: on_web_def web_of_def put_web_def refs_kept_def)
qed

lemma public_refs:
  assumes "credentials_keep_refs (sc_world c)" "refs_ok (sv_db sv)"
  shows "serve_v1 c clock r sv = (sv', resp) \<Longrightarrow> refs_ok (sv_db sv')"
    and "serve_v1beta c clock r sv = (sv', resp) \<Longrightarrow> refs_ok (sv_db sv')"
proof -
  have models: "refs_ok (wd_db wd')" if "answered (\<lambda>wd. handle_models p x clock q protocol wd) wd = (wd', resp)" "refs_ok (wd_db wd)"
    for p and x :: "'a externals" and q protocol wd wd' resp
    using that models_keep_refs by (auto split: prod.splits)
  show "refs_ok (sv_db sv')" if "serve_v1 c clock r sv = (sv', resp)"
    using that assms
    by (auto simp: serve_v1_def Let_def handle_openai_models_def handle_chat_completions_def handle_messages_def
        split: if_splits elim!: on_world_refs intro: models gateway_call_keeps_refs)
  show "refs_ok (sv_db sv')" if "serve_v1beta c clock r sv = (sv', resp)"
    using that assms
    by (auto simp: serve_v1beta_def Let_def handle_gemini_models_def split: if_splits elim!: on_world_refs
        intro: models gemini_keeps_refs)
qed

lemma serve_path_refs:
  assumes "serve_path c e clock r sv = (sv', resp)" "credentials_keep_refs (sc_world c)" "refs_ok (sv_db sv)"
  shows "refs_ok (sv_db sv')"
  using assms
  by (auto simp: serve_path_def Let_def split: if_splits elim!: on_web_refs
      intro: serve_admin_kept google_callback_kept public_refs)

lemma serve_refs:
  assumes "serve c e clock rnd r sv = (sv', resp)" "credentials_keep_refs (sc_world c)" "refs_ok (sv_db sv)"
  shows "refs_ok (sv_db sv')"
  using assms serve_path_refs by (fastforce simp: serve_def split: option.splits prod.splits)

text \<open>
  What happens to a process: it serves requests, and in between jobs and parts of operations that
  run beside them write the tables.
\<close>

inductive process_step :: "'n server \<Rightarrow> 'n process \<Rightarrow> 'n process \<Rightarrow> bool" for c where
  served: "serve c e clock rnd r sv = (sv', resp) \<Longrightarrow> process_step c sv sv'"
| beside: "db_step (sv_db sv) d \<Longrightarrow> process_step c sv (sv\<lparr>sv_db := d\<rparr>)"

inductive_cases process_stepE: "process_step c sv sv'"

lemma process_step_refs:
  assumes "process_step c sv sv'" "credentials_keep_refs (sc_world c)" "refs_ok (sv_db sv)"
  shows "refs_ok (sv_db sv')"
  using assms serve_refs db_step_refs by (auto elim!: process_stepE)


definition google_server :: "unit server" where
  "google_server = sample_server\<lparr>sc_world := google_externals\<rparr>"

definition google_process :: "unit process" where
  "google_process =
     \<lparr>sv_db = control_db.extend (wd_db google_world) (auth_db.fields None []), sv_limiter = new_limiter,
      sv_router = new_router, sv_writer = new_writer [], sv_recorded = [], sv_calls = [], sv_net = ()\<rparr>"

abbreviation "google_served \<equiv>
  fst (serve google_server sample_web_env (\<lambda>_. 0) (Some ''0123456789abcdef'') sample_delete_request google_process)"


end
