(* ===== verification/Spec2Isabelle.thy ===== *)
theory Spec2Isabelle
  imports Prelude Strict_JSON Native_JSON Native_Text Provider Account_Auth Database Identifier Control
    Accounts Routing HTTP_Text Account_Validate OAuth_Token OAuth_Refresh Admin_Limiter
    Admin_Password Admin_TOTP Admin_Auth OAuth_Attempts Account_Lifecycle Admin_Auth_Facts
    Admin_Sessions Client_Keys Usage Retention Request_Log SSE Gateway Gateway_Facts Routing_Facts
    Gateway_World Gateway_Invariants Resources Model_Routes Resource_Versions OAuth_Facts References
    Overview Http_Core Http_Control Http_Admin Http_Facts Http_Public Http_Server Http_Properties
    OAuth_Gateway Http_References
begin

text \<open>
  Sidervia is a self-hosted gateway between clients and the APIs of model providers.  One process
  holds an SQLite database of proxies, upstreams, accounts, model routes, client keys, the
  administrator and the audit trail; it serves an administration API and three public protocols
  (OpenAI chat completions, Anthropic messages, Gemini).  A public request is authenticated by its
  client key, validated, planned onto an account of the route of its model, rewritten, sent
  upstream and recorded.  This library models that program, every Go package with logic of its own,
  as shallow definitions, and proves what makes it correct.

  The parts, in the order the theories build on each other:

  \<^item> \<open>Prelude\<close>: results (\<open>and_then\<close> for Go's early returns on an error), 64-bit wrap-around,
    the string functions of package \<open>strings\<close> that the source uses.  Strings are lists of bytes.
  \<^item> \<open>Strict_JSON\<close> (\<open>internal/strictjson\<close>): the validator of duplicate keys and depth over the
    tokens of \<open>encoding/json\<close>, whose grammar is equivalent to printing a JSON value
    (\<open>lex\<close>).  The loops of \<open>consumeValue\<close> take fuel: two steps per lexeme, which is proved to
    be enough.
  \<^item> \<open>Native_JSON\<close>, \<open>Native_Text\<close>, \<open>SSE\<close> (\<open>internal/nativecodec\<close>): inspecting and
    rewriting bodies, the text-only validators of the three protocols, the copier of event streams.
  \<^item> \<open>Provider\<close> (\<open>internal/provider\<close>): the registry and the four adapters.
  \<^item> \<open>Database\<close>: the rows of the schema of \<open>src/migrations\<close> and the SQL statements the source
    uses.  A transaction is one function from tables to tables or an error.
  \<^item> \<open>Account_Auth\<close> (\<open>internal/cryptox\<close>, \<open>internal/accountauth\<close>): envelopes and sealed
    credentials over an abstract AEAD.  \<open>Identifier\<close> (\<open>internal/identifier\<close>): object ids,
    tokens and client keys over random bytes.  \<open>HTTP_Text\<close>: media types and escapes.
  \<^item> \<open>Control\<close>, \<open>Accounts\<close>, \<open>Client_Keys\<close>, \<open>Resources\<close>, \<open>Model_Routes\<close>,
    \<open>Overview\<close> (\<open>internal/control\<close>, \<open>internal/clientauth\<close>): every operation of the control
    plane with its validation, its audit row and its version.
  \<^item> \<open>Routing\<close> (\<open>internal/routing\<close>): planning, leases and the feedback on accounts.
  \<^item> \<open>Account_Validate\<close>, \<open>OAuth_Token\<close>, \<open>OAuth_Refresh\<close>, \<open>OAuth_Attempts\<close>
    (\<open>internal/accountvalidate\<close>, \<open>internal/oauth\<close>): the probe of an account, Google's tokens, the
    single-flight refresh as a step relation of threads, and authorization attempts.
  \<^item> \<open>Admin_Limiter\<close>, \<open>Admin_Password\<close>, \<open>Admin_TOTP\<close>, \<open>Admin_Auth\<close>
    (\<open>internal/auth\<close>): logins, passwords, one-time codes and sessions.
  \<^item> \<open>Usage\<close>, \<open>Request_Log\<close>, \<open>Retention\<close> (\<open>internal/usage\<close>): usage extraction, the
    asynchronous writer as actions on a queue, the reader and the retention job.
  \<^item> \<open>Gateway\<close> (\<open>internal/gateway\<close>): \<open>Execute\<close> over a world of routing, tables, network and
    client connection; \<open>Gateway_World\<close> instantiates it with the models above.
  \<^item> \<open>Http_Core\<close>, \<open>Http_Control\<close>, \<open>Http_Admin\<close>, \<open>Http_Public\<close>, \<open>Http_Server\<close>
    (\<open>internal/httpapi\<close>): bodies, errors, entity tags, origins and client addresses; a function per
    handler from a request and the tables to the tables and a response; \<open>requireSession\<close>, the
    tables of endpoints and the middleware.  \<open>serve\<close> is one request against the whole process.

  What the groups of lemmas show.  \<open>*_Facts\<close>, \<open>Account_Lifecycle\<close>, \<open>Resource_Versions\<close>,
  \<open>References\<close>, \<open>Admin_Sessions\<close> and \<open>OAuth_Gateway\<close> hold the properties that need more than
  one operation: the in-flight counters of the router are exact in every reachable state; an account
  moves only along the edges of its life cycle; every foreign key points to a row; no two writes of a
  resource succeed at one version; a session, a one-time code and an OAuth state end when they
  should; retention conserves the totals it aggregates; an accepted event is never lost.  \<open>Http_Facts\<close> and
  \<open>Http_Properties\<close> say what a request must carry before it changes anything, \<open>Http_References\<close>
  that no sequence of requests to the server breaks a foreign key.  Interfaces
  that several components rely on are locales with interpretations on the model: \<open>keyset\<close> (page by
  page listings), \<open>versioned\<close> (optimistic versions) and \<open>history\<close> (what a row keeps along a
  sequence of steps) of \<open>Control\<close>, and what a gateway implements: \<open>responding\<close>, \<open>quiet\<close>,
  \<open>lease_keeper\<close>, \<open>log_keeper\<close> and \<open>call_keeper\<close> of \<open>Gateway_Facts\<close> and \<open>preserving\<close> of
  \<open>Gateway_Invariants\<close>.

  Bounds and fuel.  Every loop of the source that is not structural is a function with a proved
  measure or takes fuel that is proved to be enough (\<open>validate_fuel\<close>, \<open>cleanup_loop\<close>,
  \<open>copy_loop\<close>, \<open>walk\<close>).  Times are integers (nanoseconds or milliseconds); where Go's arithmetic
  can overflow on an input it is \<open>wrap64\<close>.  Row identifiers and versions are integers: SQLite
  refuses an identifier past 2^63 - 1, which no database reaches.

  Arguments of the model, with what the code relies on as hypotheses where a property needs it:
  AES-GCM (what was sealed opens under the same additional data), SHA-256, HMAC and Argon2, the
  random source, the clock, the scanner of \<open>encoding/json\<close> from bytes to lexemes, \<open>net/url\<close>,
  \<open>net/netip\<close>, \<open>time\<close>'s text formats, and the network.

  Not modelled: the dialling of \<open>internal/egress\<close>, TLS and SOCKS (network I/O through the standard
  library); \<open>internal/maintenance\<close> (files and the SQLite backup API); opening and migrating the
  database (\<open>internal/store\<close>); the process shell (\<open>cmd/sidervia\<close>, \<open>internal/app\<close>,
  \<open>internal/config\<close>, locks and files); metrics and the log.  Within the modelled packages: the
  cancellation of contexts and errors of SQLite itself, which end an operation without a trace in the
  tables; non-ASCII case folding; the recovery of handlers from panics and the redirects of
  \<open>http.ServeMux\<close> for paths that are not clean.
\<close>

end
